(* ===== verification/Rtw_Prelude.thy ===== *)
theory Rtw_Prelude
  imports Main "HOL-Library.Word"
begin

section \<open>Shared types, the result monad of the C code, byte encodings\<close>

text \<open>
  What every component shares: the integer types, the error codes, the shape of a C function
  that returns an \<^verbatim>\<open>errno\<close> and changes state, the bounded polling loop, little-endian byte
  encodings, and the rules (collection \<^verbatim>\<open>keeps_intros\<close>) by which an invariant of the
  state passes through such functions.
\<close>

unbundle bit_operations_syntax

type_synonym u8 = "8 word"
type_synonym u16 = "16 word"
type_synonym u32 = "32 word"
type_synonym u64 = "64 word"
type_synonym i8 = "8 word"

named_theorems keeps_intros "rules that carry an invariant through a C function"
named_theorems cm_simps "characteristic equations of the result monad"

subsection \<open>Errors and functions\<close>

text \<open>
  A C function of the driver returns 0 or an \<^verbatim>\<open>errno\<close>. Two more things can happen to the thread that
  runs it: a kernel panic (a failed \<^verbatim>\<open>mtx_assert\<close>, recursion on a non-recursive mutex, a NULL
  dereference) and sleeping for good (waiting for \<^verbatim>\<open>sc_io_busy\<close> while holding it). Neither is an
  error code, and code that discards an error code does not survive them.
\<close>

datatype errno = EIO | ETIMEDOUT | EINVAL | ENOENT | EBUSY | ENXIO | ENOMEM | EOPNOTSUPP
  | ENOTTY | ENOBUFS | ENETDOWN | EALREADY | ESRCH | ENOSPC | EMSGSIZE

datatype fault = Errno errno | Panic | Hang

type_synonym ('s, 'a) cm = "'s \<Rightarrow> (fault + 'a) \<times> 's"

definition ret :: "'a \<Rightarrow> ('s, 'a) cm" where
  "ret v = (\<lambda>s. (Inr v, s))"

definition fail :: "fault \<Rightarrow> ('s, 'a) cm" where
  "fail e = (\<lambda>s. (Inl e, s))"

definition getS :: "('s \<Rightarrow> 'a) \<Rightarrow> ('s, 'a) cm" where
  "getS f = (\<lambda>s. (Inr (f s), s))"

definition updS :: "('s \<Rightarrow> 's) \<Rightarrow> ('s, unit) cm" where
  "updS f = (\<lambda>s. (Inr (), f s))"

text \<open>\<open>tryE m f\<close> is \<^verbatim>\<open>if ((error = m()) != 0) return (error);\<close> followed by \<open>f\<close>.\<close>

definition tryE :: "('s, 'a) cm \<Rightarrow> ('a \<Rightarrow> ('s, 'b) cm) \<Rightarrow> ('s, 'b) cm" where
  "tryE m f = (\<lambda>s. case m s of (Inl e, s') \<Rightarrow> (Inl e, s') | (Inr v, s') \<Rightarrow> f v s')"

definition seqE :: "('s, unit) cm \<Rightarrow> ('s, 'b) cm \<Rightarrow> ('s, 'b) cm" where
  "seqE m k = tryE m (\<lambda>_. k)"

text \<open>\<open>attempt m\<close> hands the error code to the caller, as \<^verbatim>\<open>error = m();\<close> does.\<close>

definition attempt :: "('s, 'a) cm \<Rightarrow> ('s, errno + 'a) cm" where
  "attempt m = (\<lambda>s. case m s of
     (Inl (Errno e), s') \<Rightarrow> (Inr (Inl e), s')
   | (Inl Panic, s') \<Rightarrow> (Inl Panic, s')
   | (Inl Hang, s') \<Rightarrow> (Inl Hang, s')
   | (Inr v, s') \<Rightarrow> (Inr (Inr v), s'))"

text \<open>\<open>discard m\<close> is \<^verbatim>\<open>(void)m();\<close>.\<close>

definition discard :: "('s, 'a) cm \<Rightarrow> ('s, unit) cm" where
  "discard m = tryE (attempt m) (\<lambda>_. ret ())"

definition whenE :: "bool \<Rightarrow> ('s, unit) cm \<Rightarrow> ('s, unit) cm" where
  "whenE b m = (if b then m else ret ())"

fun forE :: "('a \<Rightarrow> ('s, unit) cm) \<Rightarrow> 'a list \<Rightarrow> ('s, unit) cm" where
  "forE f [] = ret ()"
| "forE f (x # xs) = seqE (f x) (forE f xs)"

text \<open>\<open>steps ms\<close> runs the steps in order, each followed by \<^verbatim>\<open>if (error != 0) return (error);\<close>.\<close>

definition steps :: "('s, unit) cm list \<Rightarrow> ('s, unit) cm" where
  "steps ms = foldr seqE ms (ret ())"

text \<open>
  \<open>pollE n body\<close> is \<^verbatim>\<open>for (try = 0; try < n; try++) { body }\<close>: a body that gives \<open>Some v\<close> breaks out of
  the loop, and \<open>None\<close> as the result means that all \<open>n\<close> rounds were used up.
\<close>

fun pollE :: "nat \<Rightarrow> ('s, 'a option) cm \<Rightarrow> ('s, 'a option) cm" where
  "pollE 0 body = ret None"
| "pollE (Suc n) body = tryE body (\<lambda>r. case r of None \<Rightarrow> pollE n body | Some v \<Rightarrow> ret (Some v))"

subsubsection \<open>Equations\<close>

lemma ret_run [cm_simps, simp]: "ret v s = (Inr v, s)"
  by (simp add: ret_def)

lemma fail_run [cm_simps, simp]: "fail e s = (Inl e, s)"
  by (simp add: fail_def)

lemma getS_run [cm_simps, simp]: "getS f s = (Inr (f s), s)"
  by (simp add: getS_def)

lemma updS_run [cm_simps, simp]: "updS f s = (Inr (), f s)"
  by (simp add: updS_def)

lemma tryE_run [cm_simps]:
  "tryE m f s = (case m s of (Inl e, s') \<Rightarrow> (Inl e, s') | (Inr v, s') \<Rightarrow> f v s')"
  by (simp add: tryE_def)

lemma tryE_Inr [simp]: "m s = (Inr v, s') \<Longrightarrow> tryE m f s = f v s'"
  by (simp add: tryE_def)

lemma tryE_Inl [simp]: "m s = (Inl e, s') \<Longrightarrow> tryE m f s = (Inl e, s')"
  by (simp add: tryE_def)

lemma seqE_Inr [simp]: "m s = (Inr v, s') \<Longrightarrow> seqE m k s = k s'"
  by (simp add: seqE_def)

lemma seqE_Inl [simp]: "m s = (Inl e, s') \<Longrightarrow> seqE m k s = (Inl e, s')"
  by (simp add: seqE_def)

lemma tryE_getS [simp]: "tryE (getS f) k s = k (f s) s"
  by (simp add: tryE_def)

lemma seqE_updS [simp]: "seqE (updS f) k s = k (f s)"
  by (simp add: seqE_def tryE_def)

lemma attempt_Inr [simp]: "m s = (Inr v, s') \<Longrightarrow> attempt m s = (Inr (Inr v), s')"
  by (simp add: attempt_def)

lemma attempt_Errno [simp]: "m s = (Inl (Errno e), s') \<Longrightarrow> attempt m s = (Inr (Inl e), s')"
  by (simp add: attempt_def)

lemma attempt_Panic [simp]: "m s = (Inl Panic, s') \<Longrightarrow> attempt m s = (Inl Panic, s')"
  by (simp add: attempt_def)

lemma attempt_Hang [simp]: "m s = (Inl Hang, s') \<Longrightarrow> attempt m s = (Inl Hang, s')"
  by (simp add: attempt_def)

lemma discard_Inr [simp]: "m s = (Inr v, s') \<Longrightarrow> discard m s = (Inr (), s')"
  by (simp add: discard_def)

lemma discard_Errno [simp]: "m s = (Inl (Errno e), s') \<Longrightarrow> discard m s = (Inr (), s')"
  by (simp add: discard_def)

lemma discard_Panic [simp]: "m s = (Inl Panic, s') \<Longrightarrow> discard m s = (Inl Panic, s')"
  by (simp add: discard_def)

text \<open>Evaluation unrolls a polling loop one round at a time, as its state is known.\<close>

lemma pollE_code [code]:
  "pollE n body s = (if n = 0 then (Inr None, s) else
     case body s of (Inl e, s') \<Rightarrow> (Inl e, s') | (Inr None, s') \<Rightarrow> pollE (n - 1) body s' | (Inr (Some v), s') \<Rightarrow> (Inr (Some v), s'))"
  by (cases n) (auto simp: tryE_def split: prod.splits sum.splits option.splits)

lemma seqE_assoc: "seqE (seqE a b) c = seqE a (seqE b c)"
  by (rule ext) (simp add: seqE_def tryE_def split: prod.splits sum.splits)

lemma tryE_assoc: "tryE (tryE m f) g = tryE m (\<lambda>v. tryE (f v) g)"
  by (rule ext) (simp add: tryE_def split: prod.splits sum.splits)

lemma seqE_tryE: "seqE (tryE m f) k = tryE m (\<lambda>v. seqE (f v) k)"
  unfolding seqE_def by (rule tryE_assoc)

lemma forE_append: "forE f (xs @ ys) = seqE (forE f xs) (forE f ys)"
proof (induction xs)
  case Nil
  show ?case by (rule ext) (simp add: seqE_def tryE_def)
next
  case (Cons x xs)
  then show ?case by (simp add: seqE_assoc)
qed

subsection \<open>Carrying an invariant\<close>

text \<open>
  \<open>keeps I F m\<close>: run from a state with \<open>I\<close>, the function ends in a state with \<open>I\<close>, and if it fails it
  fails with a fault in \<open>F\<close>. The rules follow the shape of the function, so that a proof is an
  application of the collection.
\<close>

definition keeps :: "('s \<Rightarrow> bool) \<Rightarrow> (fault \<Rightarrow> bool) \<Rightarrow> ('s, 'a) cm \<Rightarrow> bool" where
  "keeps I F m \<longleftrightarrow> (\<forall>s. I s \<longrightarrow> I (snd (m s)) \<and> (\<forall>e. fst (m s) = Inl e \<longrightarrow> F e))"

text \<open>The faults that are error codes.\<close>

definition is_errno :: "fault \<Rightarrow> bool" where
  "is_errno f \<longleftrightarrow> (case f of Errno _ \<Rightarrow> True | _ \<Rightarrow> False)"

lemma is_errno_simps [simp]: "is_errno (Errno e)" "\<not> is_errno Panic" "\<not> is_errno Hang"
  by (simp_all add: is_errno_def)

definition no_fault :: "fault \<Rightarrow> bool" where
  "no_fault f \<longleftrightarrow> False"

lemma keepsI:
  assumes "\<And>s r s'. I s \<Longrightarrow> m s = (r, s') \<Longrightarrow> I s' \<and> (\<forall>e. r = Inl e \<longrightarrow> F e)"
  shows "keeps I F m"
  unfolding keeps_def
proof (intro allI impI)
  fix s assume "I s"
  from assms [OF this surjective_pairing]
  show "I (snd (m s)) \<and> (\<forall>e. fst (m s) = Inl e \<longrightarrow> F e)" .
qed

lemma keepsD: "keeps I F m \<Longrightarrow> I s \<Longrightarrow> m s = (r, s') \<Longrightarrow> I s' \<and> (\<forall>e. r = Inl e \<longrightarrow> F e)"
  by (auto simp: keeps_def)

lemma keeps_state: "keeps I F m \<Longrightarrow> I s \<Longrightarrow> I (snd (m s))"
  by (simp add: keeps_def)

lemma keeps_fault: "keeps I F m \<Longrightarrow> I s \<Longrightarrow> fst (m s) = Inl e \<Longrightarrow> F e"
  by (simp add: keeps_def)

lemma keeps_ret [keeps_intros]: "keeps I F (ret v)"
  by (simp add: keeps_def)

lemma keeps_fail [keeps_intros]: "F e \<Longrightarrow> keeps I F (fail e)"
  by (simp add: keeps_def)

lemma keeps_getS [keeps_intros]: "keeps I F (getS f)"
  by (simp add: keeps_def)

lemma keeps_updS [keeps_intros]: "(\<And>s. I s \<Longrightarrow> I (f s)) \<Longrightarrow> keeps I F (updS f)"
  by (simp add: keeps_def)

lemma keeps_tryE [keeps_intros]:
  assumes m: "keeps I F m" and f: "\<And>v. keeps I F (f v)"
  shows "keeps I F (tryE m f)"
proof (rule keepsI)
  fix s r s' assume "I s" and run: "tryE m f s = (r, s')"
  obtain r1 s1 where m1: "m s = (r1, s1)" by fastforce
  from keepsD [OF m \<open>I s\<close> m1] have I1: "I s1" and e1: "\<forall>e. r1 = Inl e \<longrightarrow> F e" by auto
  show "I s' \<and> (\<forall>e. r = Inl e \<longrightarrow> F e)"
  proof (cases r1)
    case (Inl e)
    with run m1 I1 e1 show ?thesis by auto
  next
    case (Inr v)
    with run m1 have "f v s1 = (r, s')" by simp
    from keepsD [OF f I1 this] show ?thesis .
  qed
qed

lemma keeps_seqE [keeps_intros]: "keeps I F m \<Longrightarrow> keeps I F k \<Longrightarrow> keeps I F (seqE m k)"
  unfolding seqE_def by (rule keeps_tryE)

lemma keeps_attempt [keeps_intros]: "keeps I F m \<Longrightarrow> keeps I F (attempt m)"
  by (auto simp: keeps_def attempt_def split: prod.splits sum.splits fault.splits)

lemma keeps_discard [keeps_intros]: "keeps I F m \<Longrightarrow> keeps I F (discard m)"
  unfolding discard_def by (intro keeps_intros)

lemma keeps_whenE [keeps_intros]: "(b \<Longrightarrow> keeps I F m) \<Longrightarrow> keeps I F (whenE b m)"
  by (auto simp: whenE_def intro: keeps_intros)

lemma keeps_if [keeps_intros]:
  "(b \<Longrightarrow> keeps I F m) \<Longrightarrow> (\<not> b \<Longrightarrow> keeps I F k) \<Longrightarrow> keeps I F (if b then m else k)"
  by simp

lemma keeps_case_option [keeps_intros]:
  "keeps I F m \<Longrightarrow> (\<And>v. keeps I F (f v)) \<Longrightarrow> keeps I F (case x of None \<Rightarrow> m | Some v \<Rightarrow> f v)"
  by (cases x) auto

lemma keeps_case_sum [keeps_intros]:
  "(\<And>e. keeps I F (f e)) \<Longrightarrow> (\<And>v. keeps I F (g v)) \<Longrightarrow>
   keeps I F (case x of Inl e \<Rightarrow> f e | Inr v \<Rightarrow> g v)"
  by (cases x) auto

lemma keeps_let [keeps_intros]: "(\<And>v. keeps I F (f v)) \<Longrightarrow> keeps I F (let v = x in f v)"
  by simp

lemma keeps_forE [keeps_intros]: "(\<And>x. keeps I F (f x)) \<Longrightarrow> keeps I F (forE f xs)"
  by (induction xs) (auto intro!: keeps_intros)

lemma steps_simps [simp]: "steps [] = ret ()" "steps (m # ms) = seqE m (steps ms)"
  by (simp_all add: steps_def)

lemma keeps_steps [keeps_intros]: "\<forall>m \<in> set ms. keeps I F m \<Longrightarrow> keeps I F (steps ms)"
  by (induction ms) (auto intro!: keeps_intros)

lemma keeps_ball_Nil [keeps_intros]: "\<forall>m \<in> set []. keeps I F m"
  by simp

lemma keeps_ball_Cons [keeps_intros]:
  "keeps I F m \<Longrightarrow> \<forall>m \<in> set ms. keeps I F m \<Longrightarrow> \<forall>m \<in> set (m # ms). keeps I F m"
  by simp

lemma keeps_pollE [keeps_intros]: "keeps I F body \<Longrightarrow> keeps I F (pollE n body)"
  by (induction n) (auto intro!: keeps_intros split: option.splits)

text \<open>A function whose errors are error codes cannot fail any more once they are dropped.\<close>

lemma keeps_attempt_all: "keeps I is_errno m \<Longrightarrow> keeps I F (attempt m)"
  by (auto simp: keeps_def attempt_def is_errno_def split: prod.splits sum.splits fault.splits)

lemma keeps_discard_all: "keeps I is_errno m \<Longrightarrow> keeps I F (discard m)"
  unfolding discard_def by (intro keeps_tryE keeps_attempt_all keeps_ret)

lemma keeps_no_fault: "keeps I no_fault m \<Longrightarrow> I s \<Longrightarrow> \<exists>v s'. m s = (Inr v, s') \<and> I s'"
  by (cases "m s"; cases "fst (m s)") (auto simp: keeps_def no_fault_def)

lemma keeps_weaken: "keeps I F m \<Longrightarrow> (\<And>e. F e \<Longrightarrow> G e) \<Longrightarrow> keeps I G m"
  by (auto simp: keeps_def)

lemma keeps_no_faultI: "keeps I no_fault m \<Longrightarrow> keeps I F m"
  by (auto simp: keeps_def no_fault_def)

lemma keeps_conj: "keeps I F m \<Longrightarrow> keeps J G m \<Longrightarrow> keeps (\<lambda>s. I s \<and> J s) F m"
  by (auto simp: keeps_def)

text \<open>Successful runs, and attempts of functions that fail with error codes only.\<close>

lemma tryE_Inr_elim:
  assumes "tryE m f s = (Inr v, s')"
  obtains x s1 where "m s = (Inr x, s1)" "f x s1 = (Inr v, s')"
  using assms by (auto simp: tryE_def split: prod.splits sum.splits)

lemma seqE_Inr_elim:
  assumes "seqE m k s = (Inr v, s')"
  obtains s1 where "m s = (Inr (), s1)" "k s1 = (Inr v, s')"
  using assms unfolding seqE_def by (elim tryE_Inr_elim) auto

lemma attempt_errno:
  assumes "keeps I is_errno m" "I s"
  obtains (err) e s' where "m s = (Inl (Errno e), s')" "attempt m s = (Inr (Inl e), s')" "I s'"
    | (ok) v s' where "m s = (Inr v, s')" "attempt m s = (Inr (Inr v), s')" "I s'"
proof -
  obtain r s' where m: "m s = (r, s')" by fastforce
  from keepsD [OF assms m] have I: "I s'" and r: "\<forall>e. r = Inl e \<longrightarrow> is_errno e" by auto
  show thesis
  proof (cases r)
    case (Inl f)
    with r obtain e where "f = Errno e" by (cases f) auto
    with Inl m I show thesis by (intro err) auto
  next
    case (Inr v)
    with m I show thesis by (intro ok) auto
  qed
qed

subsection \<open>Bounded polling\<close>

text \<open>
  A poll whose body never fails and gives its value in some round before the bound gives it;
  one whose body never gives a value uses up its rounds.
\<close>

lemma pollE_Some_first: "body s = (Inr (Some v), s') \<Longrightarrow> pollE (Suc n) body s = (Inr (Some v), s')"
  by simp

lemma pollE_None_next: "body s = (Inr None, s') \<Longrightarrow> pollE (Suc n) body s = pollE n body s'"
  by simp

lemma pollE_fail: "body s = (Inl e, s') \<Longrightarrow> pollE (Suc n) body s = (Inl e, s')"
  by simp

subsection \<open>Little-endian bytes\<close>

text \<open>
  \<^verbatim>\<open>le16dec\<close>, \<^verbatim>\<open>le32dec\<close>, \<^verbatim>\<open>le16enc\<close> and \<^verbatim>\<open>le32enc\<close> of \<^verbatim>\<open>sys/endian.h\<close>. A byte buffer is a
  function from offsets where the code reads at computed offsets, and a list where its length
  matters; \<open>at buf i\<close> reads a list-backed buffer, 0 past its end (no function of the model reads
  there: the bounds checks of the code are theorems).
\<close>

definition at :: "u8 list \<Rightarrow> nat \<Rightarrow> u8" where
  "at buf i = (if i < length buf then buf ! i else 0)"

definition le16 :: "u8 \<Rightarrow> u8 \<Rightarrow> u16" where
  "le16 b0 b1 = ucast b0 OR push_bit 8 (ucast b1)"

definition le32 :: "u8 \<Rightarrow> u8 \<Rightarrow> u8 \<Rightarrow> u8 \<Rightarrow> u32" where
  "le32 b0 b1 b2 b3 =
     ucast b0 OR push_bit 8 (ucast b1) OR push_bit 16 (ucast b2) OR push_bit 24 (ucast b3)"

definition le16dec :: "u8 list \<Rightarrow> nat \<Rightarrow> u16" where
  "le16dec p i = le16 (at p i) (at p (i + 1))"

definition le32dec :: "u8 list \<Rightarrow> nat \<Rightarrow> u32" where
  "le32dec p i = le32 (at p i) (at p (i + 1)) (at p (i + 2)) (at p (i + 3))"

definition le16enc :: "u16 \<Rightarrow> u8 list" where
  "le16enc v = [ucast v, ucast (drop_bit 8 v)]"

definition le32enc :: "u32 \<Rightarrow> u8 list" where
  "le32enc v = [ucast v, ucast (drop_bit 8 v), ucast (drop_bit 16 v), ucast (drop_bit 24 v)]"

lemma length_le16enc [simp]: "length (le16enc v) = 2"
  by (simp add: le16enc_def)

lemma length_le32enc [simp]: "length (le32enc v) = 4"
  by (simp add: le32enc_def)

lemma le16_enc: "le16 (ucast v) (ucast (drop_bit 8 v)) = v"
  unfolding le16_def
  by (rule bit_word_eqI) (auto simp: bit_simps)

lemma le32_enc:
  "le32 (ucast v) (ucast (drop_bit 8 v)) (ucast (drop_bit 16 v)) (ucast (drop_bit 24 v)) = v"
proof (rule bit_word_eqI)
  fix n assume "n < LENGTH(32)"
  then consider "n < 8" | "8 \<le> n" "n < 16" | "16 \<le> n" "n < 24" | "24 \<le> n" "n < 32"
    by force
  then show "bit (le32 (ucast v) (ucast (drop_bit 8 v)) (ucast (drop_bit 16 v))
      (ucast (drop_bit 24 v))) n = bit v n"
    by cases (auto simp: le32_def bit_simps)
qed

text \<open>The bytes of a little-endian word are determined by it.\<close>

lemma le16_bytes:
  "ucast (le16 b0 b1) = b0" "ucast (drop_bit 8 (le16 b0 b1)) = b1"
  by (rule bit_word_eqI; auto simp: le16_def bit_simps dest: bit_imp_le_length)+

lemma le32_byte0: "ucast (le32 b0 b1 b2 b3) = b0"
  by (rule bit_word_eqI) (auto simp: le32_def bit_simps dest: bit_imp_le_length)

lemma le32_byte1: "ucast (drop_bit 8 (le32 b0 b1 b2 b3)) = b1"
  by (rule bit_word_eqI) (auto simp: le32_def bit_simps dest: bit_imp_le_length)

lemma le32_byte2: "ucast (drop_bit 16 (le32 b0 b1 b2 b3)) = b2"
  by (rule bit_word_eqI) (auto simp: le32_def bit_simps dest: bit_imp_le_length)

lemma le32_byte3: "ucast (drop_bit 24 (le32 b0 b1 b2 b3)) = b3"
  by (rule bit_word_eqI) (auto simp: le32_def bit_simps dest: bit_imp_le_length)

lemmas le32_bytes = le32_byte0 le32_byte1 le32_byte2 le32_byte3

lemma le32enc_le32: "le32enc (le32 b0 b1 b2 b3) = [b0, b1, b2, b3]"
  by (simp add: le32enc_def le32_bytes)

lemma and_3_take_bit: "v AND 3 = take_bit 2 v" for v :: "'n::len word"
  by (simp add: take_bit_eq_mask mask_eq_exp_minus_1)

lemma le16dec_enc [simp]: "le16dec (le16enc v) 0 = v"
  by (simp add: le16dec_def le16enc_def at_def le16_enc)

lemma le32dec_enc [simp]: "le32dec (le32enc v) 0 = v"
  by (simp add: le32dec_def le32enc_def at_def le32_enc)

lemma le16dec_0: "le16dec p 0 = le16 (at p 0) (at p 1)"
  by (simp add: le16dec_def)

lemma le32dec_0: "le32dec p 0 = le32 (at p 0) (at p 1) (at p 2) (at p 3)"
  unfolding le32dec_def add_0 by (rule refl)

lemma at_append [simp]:
  "at (xs @ ys) i = (if i < length xs then at xs i else at ys (i - length xs))"
  by (auto simp: at_def nth_append)

lemma at_map_upt [simp]: "i < n \<Longrightarrow> at (map f [0..<n]) i = f i"
  by (simp add: at_def)

subsection \<open>C helpers\<close>

text \<open>\<^verbatim>\<open>memcpy(buf + off, xs, length xs)\<close> into a buffer that is long enough.\<close>

definition blit :: "nat \<Rightarrow> 'a list \<Rightarrow> 'a list \<Rightarrow> 'a list" where
  "blit off xs buf = take off buf @ xs @ drop (off + length xs) buf"

lemma length_blit [simp]: "off + length xs \<le> length buf \<Longrightarrow> length (blit off xs buf) = length buf"
  by (simp add: blit_def)

lemma nth_blit:
  assumes "off + length xs \<le> length buf" "i < length buf"
  shows "blit off xs buf ! i = (if off \<le> i \<and> i < off + length xs then xs ! (i - off) else buf ! i)"
  using assms by (auto simp: blit_def nth_append min_def)

lemma take_drop_blit_same: "off + length xs \<le> length buf \<Longrightarrow> take (length xs) (drop off (blit off xs buf)) = xs"
  by (simp add: blit_def)

lemma take_drop_blit_other:
  "off + length xs \<le> length buf \<Longrightarrow> i + n \<le> off \<or> off + length xs \<le> i \<Longrightarrow>
   take n (drop i (blit off xs buf)) = take n (drop i buf)"
  by (rule nth_equalityI) (auto simp: nth_blit)

text \<open>\<^verbatim>\<open>ffs(3)\<close>: one more than the index of the least set bit, 0 for 0.\<close>

definition ffs :: "u32 \<Rightarrow> nat" where
  "ffs m = (case filter (\<lambda>i. bit m i) [0..<32] of [] \<Rightarrow> 0 | i # _ \<Rightarrow> Suc i)"

text \<open>A C truth value stored in an integer.\<close>

abbreviation b2w :: "bool \<Rightarrow> 'a::len word" where
  "b2w b \<equiv> (if b then 1 else 0)"

lemma and_mask_bound: "unat (x AND m) \<le> unat (m :: 'a::len word)"
  by (metis word_and_le1 word_le_nat_alt)

end
