(* ===== verification/Rtw_Regs.thy ===== *)
theory Rtw_Regs
  imports Rtw_Prelude
begin

section \<open>Register offsets, bit masks and command identifiers\<close>

text \<open>
  The macros of \<^verbatim>\<open>sys/dev/rtw88/rtw88_regs.h\<close>, in the order of that file, each with the value
  its C expression has. As a C macro has no type of its own, each one is an abbreviation for
  a numeral of any type: the width is that of the place it is used at. A macro that is wider
  than the place it is used at (for example \<^verbatim>\<open>BIT_FEN_CPUEN >> 8\<close> stored to a byte) is written with
  its 32-bit type and an explicit shift and \<^term>\<open>ucast\<close> there.
\<close>

abbreviation (input) REG_SYS_FUNC_EN :: "'a::numeral" where "REG_SYS_FUNC_EN \<equiv> 2"
abbreviation (input) BIT_FEN_BB_GLB_RST :: "'a::numeral" where "BIT_FEN_BB_GLB_RST \<equiv> 2"
abbreviation (input) BIT_FEN_BB_RSTB :: "'a::one" where "BIT_FEN_BB_RSTB \<equiv> 1"
abbreviation (input) BIT_FEN_CPUEN :: "'a::numeral" where "BIT_FEN_CPUEN \<equiv> 0x400"
abbreviation (input) REG_SYS_CLK_CTRL :: "'a::numeral" where "REG_SYS_CLK_CTRL \<equiv> 8"
abbreviation (input) BIT_CPU_CLK_EN :: "'a::numeral" where "BIT_CPU_CLK_EN \<equiv> 0x4000"
abbreviation (input) REG_RSV_CTRL :: "'a::numeral" where "REG_RSV_CTRL \<equiv> 0x1C"
abbreviation (input) BIT_WLMCU_IOIF :: "'a::numeral" where "BIT_WLMCU_IOIF \<equiv> 0x100"
abbreviation (input) REG_RF_CTRL :: "'a::numeral" where "REG_RF_CTRL \<equiv> 0x1F"
abbreviation (input) BIT_RF_SDM_RSTB :: "'a::numeral" where "BIT_RF_SDM_RSTB \<equiv> 4"
abbreviation (input) BIT_RF_RSTB :: "'a::numeral" where "BIT_RF_RSTB \<equiv> 2"
abbreviation (input) BIT_RF_EN :: "'a::one" where "BIT_RF_EN \<equiv> 1"
abbreviation (input) REG_AFE_XTAL_CTRL :: "'a::numeral" where "REG_AFE_XTAL_CTRL \<equiv> 0x24"
abbreviation (input) BIT_MASK_XTAL_CAP :: "'a::numeral" where "BIT_MASK_XTAL_CAP \<equiv> 0x7E000000"
abbreviation (input) REG_AFE_PLL_CTRL :: "'a::numeral" where "REG_AFE_PLL_CTRL \<equiv> 0x28"
abbreviation (input) BIT_MASK_PLL_CAP :: "'a::numeral" where "BIT_MASK_PLL_CAP \<equiv> 0x7E"
abbreviation (input) REG_RXPSEL :: "'a::numeral" where "REG_RXPSEL \<equiv> 0x808"
abbreviation (input) BIT_RX_PSEL_RST :: "'a::numeral" where "BIT_RX_PSEL_RST \<equiv> 0x30000000"
abbreviation (input) REG_CCK0_FAREPORT :: "'a::numeral" where "REG_CCK0_FAREPORT \<equiv> 0xA2C"
abbreviation (input) REG_SYS_CTRL_BB :: "'a::zero" where "REG_SYS_CTRL_BB \<equiv> 0"
abbreviation (input) BIT_FEN_EN :: "'a::numeral" where "BIT_FEN_EN \<equiv> 0x4000000"
abbreviation (input) REG_CCK_CHECK :: "'a::numeral" where "REG_CCK_CHECK \<equiv> 0x454"
abbreviation (input) REG_RXCCAMSK :: "'a::numeral" where "REG_RXCCAMSK \<equiv> 0x814"
abbreviation (input) REG_CLKTRK :: "'a::numeral" where "REG_CLKTRK \<equiv> 0x860"
abbreviation (input) REG_ADCCLK :: "'a::numeral" where "REG_ADCCLK \<equiv> 0x8AC"
abbreviation (input) REG_ADC160 :: "'a::numeral" where "REG_ADC160 \<equiv> 0x8C4"
abbreviation (input) REG_RXSB :: "'a::numeral" where "REG_RXSB \<equiv> 0xA00"
abbreviation (input) REG_CCA_FLTR :: "'a::numeral" where "REG_CCA_FLTR \<equiv> 0xA20"
abbreviation (input) REG_TXSF2 :: "'a::numeral" where "REG_TXSF2 \<equiv> 0xA24"
abbreviation (input) REG_TXSF6 :: "'a::numeral" where "REG_TXSF6 \<equiv> 0xA28"
abbreviation (input) REG_ENTXCCK :: "'a::numeral" where "REG_ENTXCCK \<equiv> 0xA80"
abbreviation (input) REG_ENRXCCA :: "'a::numeral" where "REG_ENRXCCA \<equiv> 0xA84"
abbreviation (input) REG_TXFILTER :: "'a::numeral" where "REG_TXFILTER \<equiv> 0xAAC"
abbreviation (input) REG_TXSCALE_A :: "'a::numeral" where "REG_TXSCALE_A \<equiv> 0xC1C"
abbreviation (input) REG_TXDFIR :: "'a::numeral" where "REG_TXDFIR \<equiv> 0xC20"
abbreviation (input) REG_ACBB0 :: "'a::numeral" where "REG_ACBB0 \<equiv> 0x948"
abbreviation (input) REG_ACBBRXFIR :: "'a::numeral" where "REG_ACBBRXFIR \<equiv> 0x94C"
abbreviation (input) REG_CHFIR :: "'a::numeral" where "REG_CHFIR \<equiv> 0x8F0"
abbreviation (input) REG_RFECTL_A :: "'a::numeral" where "REG_RFECTL_A \<equiv> 0xCB8"
abbreviation (input) B_BTG_SWITCH :: "'a::numeral" where "B_BTG_SWITCH \<equiv> 0x10000"
abbreviation (input) B_CTRL_SWITCH :: "'a::numeral" where "B_CTRL_SWITCH \<equiv> 0x40000"
abbreviation (input) B_WL_SWITCH :: "'a::numeral" where "B_WL_SWITCH \<equiv> 0x500000"
abbreviation (input) B_WLG_SWITCH :: "'a::numeral" where "B_WLG_SWITCH \<equiv> 0x200000"
abbreviation (input) B_WLA_SWITCH :: "'a::numeral" where "B_WLA_SWITCH \<equiv> 0x800000"
abbreviation (input) REG_DMEM_CTRL_BB :: "'a::numeral" where "REG_DMEM_CTRL_BB \<equiv> 0x1080"
abbreviation (input) BIT_WL_RST :: "'a::numeral" where "BIT_WL_RST \<equiv> 0x10000"
abbreviation (input) BTG_LNA :: "'a::numeral" where "BTG_LNA \<equiv> 0xFC84"
abbreviation (input) WLG_LNA :: "'a::numeral" where "WLG_LNA \<equiv> 0x7532"
abbreviation (input) BTG_CCA :: "'a::numeral" where "BTG_CCA \<equiv> 0xE"
abbreviation (input) WLG_CCA :: "'a::numeral" where "WLG_CCA \<equiv> 0x12"
abbreviation (input) RF_REG_18 :: "'a::numeral" where "RF_REG_18 \<equiv> 0x18"
abbreviation (input) RF_XTALX2 :: "'a::numeral" where "RF_XTALX2 \<equiv> 0xB8"
abbreviation (input) RF_LUTDBG :: "'a::numeral" where "RF_LUTDBG \<equiv> 0xDF"
abbreviation (input) RF_LUTWA :: "'a::numeral" where "RF_LUTWA \<equiv> 0x33"
abbreviation (input) RF_LUTWD0 :: "'a::numeral" where "RF_LUTWD0 \<equiv> 0x3F"
abbreviation (input) RF_LUTWE2 :: "'a::numeral" where "RF_LUTWE2 \<equiv> 0xEE"
abbreviation (input) RF18_BAND_MASK :: "'a::numeral" where "RF18_BAND_MASK \<equiv> 0x10300"
abbreviation (input) RF18_BAND_2G :: "'a::zero" where "RF18_BAND_2G \<equiv> 0"
abbreviation (input) RF18_BAND_5G :: "'a::numeral" where "RF18_BAND_5G \<equiv> 0x10100"
abbreviation (input) RF18_CHANNEL_MASK :: "'a::numeral" where "RF18_CHANNEL_MASK \<equiv> 0xFF"
abbreviation (input) RF18_RFSI_MASK :: "'a::numeral" where "RF18_RFSI_MASK \<equiv> 0x60000"
abbreviation (input) RF18_RFSI_GE :: "'a::numeral" where "RF18_RFSI_GE \<equiv> 0x20000"
abbreviation (input) RF18_RFSI_GT :: "'a::numeral" where "RF18_RFSI_GT \<equiv> 0x40000"
abbreviation (input) RF18_BW_MASK :: "'a::numeral" where "RF18_BW_MASK \<equiv> 0xC00"
abbreviation (input) RF18_BW_20M :: "'a::numeral" where "RF18_BW_20M \<equiv> 0xC00"
abbreviation (input) RF18_BW_40M :: "'a::numeral" where "RF18_BW_40M \<equiv> 0x800"
abbreviation (input) RF18_BW_80M :: "'a::numeral" where "RF18_BW_80M \<equiv> 0x400"
abbreviation (input) RFREG_MASK :: "'a::numeral" where "RFREG_MASK \<equiv> 0xFFFFF"
abbreviation (input) RTW88_RF_PATH_A_BASE :: "'a::numeral" where "RTW88_RF_PATH_A_BASE \<equiv> 0x2800"
abbreviation (input) REG_HMETFR :: "'a::numeral" where "REG_HMETFR \<equiv> 0x1CC"
abbreviation (input) BIT_INT_BOX0 :: "'a::one" where "BIT_INT_BOX0 \<equiv> 1"
abbreviation (input) BIT_INT_BOX1 :: "'a::numeral" where "BIT_INT_BOX1 \<equiv> 2"
abbreviation (input) BIT_INT_BOX2 :: "'a::numeral" where "BIT_INT_BOX2 \<equiv> 4"
abbreviation (input) BIT_INT_BOX3 :: "'a::numeral" where "BIT_INT_BOX3 \<equiv> 8"
abbreviation (input) REG_HMEBOX0 :: "'a::numeral" where "REG_HMEBOX0 \<equiv> 0x1D0"
abbreviation (input) REG_HMEBOX1 :: "'a::numeral" where "REG_HMEBOX1 \<equiv> 0x1D4"
abbreviation (input) REG_HMEBOX2 :: "'a::numeral" where "REG_HMEBOX2 \<equiv> 0x1D8"
abbreviation (input) REG_HMEBOX3 :: "'a::numeral" where "REG_HMEBOX3 \<equiv> 0x1DC"
abbreviation (input) REG_HMEBOX0_EX :: "'a::numeral" where "REG_HMEBOX0_EX \<equiv> 0x1F0"
abbreviation (input) REG_HMEBOX1_EX :: "'a::numeral" where "REG_HMEBOX1_EX \<equiv> 0x1F4"
abbreviation (input) REG_HMEBOX2_EX :: "'a::numeral" where "REG_HMEBOX2_EX \<equiv> 0x1F8"
abbreviation (input) REG_HMEBOX3_EX :: "'a::numeral" where "REG_HMEBOX3_EX \<equiv> 0x1FC"
abbreviation (input) REG_TSFTR :: "'a::numeral" where "REG_TSFTR \<equiv> 0x560"
abbreviation (input) REG_TSFTR_H :: "'a::numeral" where "REG_TSFTR_H \<equiv> 0x564"
abbreviation (input) H2C_CMD_WL_CH_INFO :: "'a::numeral" where "H2C_CMD_WL_CH_INFO \<equiv> 0x66"
abbreviation (input) H2C_CMD_COEX_TDMA_TYPE :: "'a::numeral" where "H2C_CMD_COEX_TDMA_TYPE \<equiv> 0x60"
abbreviation (input) H2C_CMD_BT_WIFI_CONTROL :: "'a::numeral" where "H2C_CMD_BT_WIFI_CONTROL \<equiv> 0x69"
abbreviation (input) H2C_CMD_MEDIA_STATUS_RPT :: "'a::one" where "H2C_CMD_MEDIA_STATUS_RPT \<equiv> 1"
abbreviation (input) H2C_CMD_SET_PWR_MODE :: "'a::numeral" where "H2C_CMD_SET_PWR_MODE \<equiv> 0x20"
abbreviation (input) H2C_CMD_RA_INFO :: "'a::numeral" where "H2C_CMD_RA_INFO \<equiv> 0x40"
abbreviation (input) H2C_CMD_RSSI_MONITOR :: "'a::numeral" where "H2C_CMD_RSSI_MONITOR \<equiv> 0x42"
abbreviation (input) H2C_CMD_WL_PHY_INFO :: "'a::numeral" where "H2C_CMD_WL_PHY_INFO \<equiv> 0x58"
abbreviation (input) RTW88_RATEID_BGN_20M_1SS :: "'a::numeral" where "RTW88_RATEID_BGN_20M_1SS \<equiv> 3"
abbreviation (input) RTW88_RATEID_GN_N1SS :: "'a::numeral" where "RTW88_RATEID_GN_N1SS \<equiv> 5"
abbreviation (input) RTW88_RATEID_BG :: "'a::numeral" where "RTW88_RATEID_BG \<equiv> 6"
abbreviation (input) RTW88_RATEID_G :: "'a::numeral" where "RTW88_RATEID_G \<equiv> 7"
abbreviation (input) RTW88_DEFAULT_RA_MASK_2G_BGN_1SS :: "'a::numeral" where "RTW88_DEFAULT_RA_MASK_2G_BGN_1SS \<equiv> 0xFF015"
abbreviation (input) RTW88_TIGHTEN_RA_MASK_2G_BGN_1SS :: "'a::numeral" where "RTW88_TIGHTEN_RA_MASK_2G_BGN_1SS \<equiv> 0xF0000"
abbreviation (input) RTW88_DEFAULT_RA_MASK_5G_GN_1SS :: "'a::numeral" where "RTW88_DEFAULT_RA_MASK_5G_GN_1SS \<equiv> 0xFF010"
abbreviation (input) RTW88_TIGHTEN_RA_MASK_5G_GN_1SS :: "'a::numeral" where "RTW88_TIGHTEN_RA_MASK_5G_GN_1SS \<equiv> 0xF0000"
abbreviation (input) RTW88_DEFAULT_RA_MASK_2G_BG :: "'a::numeral" where "RTW88_DEFAULT_RA_MASK_2G_BG \<equiv> 0x15"
abbreviation (input) RTW88_DEFAULT_RA_MASK_5G_G :: "'a::numeral" where "RTW88_DEFAULT_RA_MASK_5G_G \<equiv> 0x10"
abbreviation (input) REG_EDCA_VO_PARAM :: "'a::numeral" where "REG_EDCA_VO_PARAM \<equiv> 0x500"
abbreviation (input) REG_EDCA_VI_PARAM :: "'a::numeral" where "REG_EDCA_VI_PARAM \<equiv> 0x504"
abbreviation (input) REG_EDCA_BE_PARAM :: "'a::numeral" where "REG_EDCA_BE_PARAM \<equiv> 0x508"
abbreviation (input) REG_EDCA_BK_PARAM :: "'a::numeral" where "REG_EDCA_BK_PARAM \<equiv> 0x50C"
abbreviation (input) REG_DIG_PATH_A :: "'a::numeral" where "REG_DIG_PATH_A \<equiv> 0xC50"
abbreviation (input) DIG_PATH_A_MASK :: "'a::numeral" where "DIG_PATH_A_MASK \<equiv> 0x7F"
abbreviation (input) REG_FAS :: "'a::numeral" where "REG_FAS \<equiv> 0x9A4"
abbreviation (input) REG_FA_CCK :: "'a::numeral" where "REG_FA_CCK \<equiv> 0xA5C"
abbreviation (input) REG_RXDESC :: "'a::numeral" where "REG_RXDESC \<equiv> 0xA2C"
abbreviation (input) REG_CNTRST :: "'a::numeral" where "REG_CNTRST \<equiv> 0xB58"
abbreviation (input) REG_FA_OFDM :: "'a::numeral" where "REG_FA_OFDM \<equiv> 0xF48"
abbreviation (input) DIG_PERF_FA_TH_LOW :: "'a::numeral" where "DIG_PERF_FA_TH_LOW \<equiv> 0xFA"
abbreviation (input) DIG_PERF_FA_TH_HIGH :: "'a::numeral" where "DIG_PERF_FA_TH_HIGH \<equiv> 0x1F4"
abbreviation (input) DIG_PERF_FA_TH_EXTRA_HIGH :: "'a::numeral" where "DIG_PERF_FA_TH_EXTRA_HIGH \<equiv> 0x2EE"
abbreviation (input) DIG_PERF_MAX :: "'a::numeral" where "DIG_PERF_MAX \<equiv> 0x5A"
abbreviation (input) DIG_PERF_MID :: "'a::numeral" where "DIG_PERF_MID \<equiv> 0x40"
abbreviation (input) DIG_CVRG_FA_TH_LOW :: "'a::numeral" where "DIG_CVRG_FA_TH_LOW \<equiv> 0x7D0"
abbreviation (input) DIG_CVRG_FA_TH_HIGH :: "'a::numeral" where "DIG_CVRG_FA_TH_HIGH \<equiv> 0xFA0"
abbreviation (input) DIG_CVRG_FA_TH_EXTRA_HIGH :: "'a::numeral" where "DIG_CVRG_FA_TH_EXTRA_HIGH \<equiv> 0x1388"
abbreviation (input) DIG_CVRG_MAX :: "'a::numeral" where "DIG_CVRG_MAX \<equiv> 0x2A"
abbreviation (input) DIG_CVRG_MID :: "'a::numeral" where "DIG_CVRG_MID \<equiv> 0x26"
abbreviation (input) DIG_CVRG_MIN :: "'a::numeral" where "DIG_CVRG_MIN \<equiv> 0x1C"
abbreviation (input) DIG_RSSI_GAIN_OFFSET :: "'a::numeral" where "DIG_RSSI_GAIN_OFFSET \<equiv> 0xF"
abbreviation (input) DIG_MIN_8821C :: "'a::numeral" where "DIG_MIN_8821C \<equiv> 0x1C"
abbreviation (input) DIG_TICK_INTERVAL_MS :: "'a::numeral" where "DIG_TICK_INTERVAL_MS \<equiv> 0x7D0"
abbreviation (input) BIT_FEN_PCIEA :: "'a::numeral" where "BIT_FEN_PCIEA \<equiv> 0x40"
abbreviation (input) REG_EFUSE_CTRL :: "'a::numeral" where "REG_EFUSE_CTRL \<equiv> 0x30"
abbreviation (input) BIT_EF_FLAG :: "'a::numeral" where "BIT_EF_FLAG \<equiv> 0x80000000"
abbreviation (input) BIT_SHIFT_EF_ADDR :: "'a::numeral" where "BIT_SHIFT_EF_ADDR \<equiv> 8"
abbreviation (input) BIT_MASK_EF_ADDR :: "'a::numeral" where "BIT_MASK_EF_ADDR \<equiv> 0x3FF"
abbreviation (input) BIT_MASK_EF_DATA :: "'a::numeral" where "BIT_MASK_EF_DATA \<equiv> 0xFF"
abbreviation (input) BITS_EF_ADDR :: "'a::numeral" where "BITS_EF_ADDR \<equiv> 0x3FF00"
abbreviation (input) REG_LDO_EFUSE_CTRL :: "'a::numeral" where "REG_LDO_EFUSE_CTRL \<equiv> 0x34"
abbreviation (input) BIT_MASK_EFUSE_BANK_SEL :: "'a::numeral" where "BIT_MASK_EFUSE_BANK_SEL \<equiv> 0x300"
abbreviation (input) REG_GPIO_MUXCFG :: "'a::numeral" where "REG_GPIO_MUXCFG \<equiv> 0x40"
abbreviation (input) BIT_FSPI_EN :: "'a::numeral" where "BIT_FSPI_EN \<equiv> 0x80000"
abbreviation (input) BIT_WLRFE_4_5_EN :: "'a::numeral" where "BIT_WLRFE_4_5_EN \<equiv> 4"
abbreviation (input) BIT_BT_PTA_EN :: "'a::numeral" where "BIT_BT_PTA_EN \<equiv> 0x20"
abbreviation (input) BIT_PO_BT_PTA_PINS :: "'a::numeral" where "BIT_PO_BT_PTA_PINS \<equiv> 0x200"
abbreviation (input) REG_AFE_CTRL1 :: "'a::numeral" where "REG_AFE_CTRL1 \<equiv> 0x24"
abbreviation (input) BIT_MAC_CLK_SEL :: "'a::numeral" where "BIT_MAC_CLK_SEL \<equiv> 0x300000"
abbreviation (input) REG_DATA_SC :: "'a::numeral" where "REG_DATA_SC \<equiv> 0x483"
abbreviation (input) REG_USTIME_TSF :: "'a::numeral" where "REG_USTIME_TSF \<equiv> 0x55C"
abbreviation (input) REG_USTIME_EDCA :: "'a::numeral" where "REG_USTIME_EDCA \<equiv> 0x638"
abbreviation (input) MAC_CLK_SPEED :: "'a::numeral" where "MAC_CLK_SPEED \<equiv> 0x50"
abbreviation (input) BIT_RFMOD :: "'a::numeral" where "BIT_RFMOD \<equiv> 0x180"
abbreviation (input) BIT_CHECK_CCK_EN :: "'a::numeral" where "BIT_CHECK_CCK_EN \<equiv> 0x80"
abbreviation (input) REG_LED_CFG :: "'a::numeral" where "REG_LED_CFG \<equiv> 0x4C"
abbreviation (input) BIT_LED0_SV :: "'a::numeral" where "BIT_LED0_SV \<equiv> 0x8000000"
abbreviation (input) BIT_LNAON_SEL_EN :: "'a::numeral" where "BIT_LNAON_SEL_EN \<equiv> 0x4000000"
abbreviation (input) BIT_PAPE_SEL_EN :: "'a::numeral" where "BIT_PAPE_SEL_EN \<equiv> 0x2000000"
abbreviation (input) BIT_DPDT_WL_SEL :: "'a::numeral" where "BIT_DPDT_WL_SEL \<equiv> 0x1000000"
abbreviation (input) BIT_DPDT_SEL_EN :: "'a::numeral" where "BIT_DPDT_SEL_EN \<equiv> 0x800000"
abbreviation (input) REG_PAD_CTRL1 :: "'a::numeral" where "REG_PAD_CTRL1 \<equiv> 0x64"
abbreviation (input) BIT_PAPE_WLBT_SEL :: "'a::numeral" where "BIT_PAPE_WLBT_SEL \<equiv> 0x20000000"
abbreviation (input) BIT_LNAON_WLBT_SEL :: "'a::numeral" where "BIT_LNAON_WLBT_SEL \<equiv> 0x10000000"
abbreviation (input) REG_CTRL_TYPE :: "'a::numeral" where "REG_CTRL_TYPE \<equiv> 0x67"
abbreviation (input) BIT_CTRL_TYPE1 :: "'a::numeral" where "BIT_CTRL_TYPE1 \<equiv> 0x20"
abbreviation (input) BIT_CTRL_TYPE2 :: "'a::numeral" where "BIT_CTRL_TYPE2 \<equiv> 0x10"
abbreviation (input) REG_RFE_CTRL8 :: "'a::numeral" where "REG_RFE_CTRL8 \<equiv> 0xCB4"
abbreviation (input) RFE_CTRL8_RFE_SEL89_MASK :: "'a::numeral" where "RFE_CTRL8_RFE_SEL89_MASK \<equiv> 0xFF"
abbreviation (input) RFE_CTRL8_RFE_SEL89_PTA :: "'a::numeral" where "RFE_CTRL8_RFE_SEL89_PTA \<equiv> 0x66"
abbreviation (input) RFE_CTRL8_RFE_SEL89_DPDT :: "'a::numeral" where "RFE_CTRL8_RFE_SEL89_DPDT \<equiv> 0x77"
abbreviation (input) RFE_CTRL8_R_RFE_SEL_15_MASK :: "'a::numeral" where "RFE_CTRL8_R_RFE_SEL_15_MASK \<equiv> 0xF0000000"
abbreviation (input) RFE_CTRL8_R_RFE_SEL_15_PTA_2G :: "'a::numeral" where "RFE_CTRL8_R_RFE_SEL_15_PTA_2G \<equiv> 0x20000000"
abbreviation (input) RFE_CTRL8_R_RFE_SEL_15_BBSW_WLG :: "'a::numeral" where "RFE_CTRL8_R_RFE_SEL_15_BBSW_WLG \<equiv> 0x20000000"
abbreviation (input) REG_WIFI_BT_INFO :: "'a::numeral" where "REG_WIFI_BT_INFO \<equiv> 0xAA"
abbreviation (input) WIFI_BT_INFO_SCBD_ACTIVE :: "'a::one" where "WIFI_BT_INFO_SCBD_ACTIVE \<equiv> 1"
abbreviation (input) WIFI_BT_INFO_SCBD_ONOFF :: "'a::numeral" where "WIFI_BT_INFO_SCBD_ONOFF \<equiv> 2"
abbreviation (input) WIFI_BT_INFO_BT_INT_EN :: "'a::numeral" where "WIFI_BT_INFO_BT_INT_EN \<equiv> 0x8000"
abbreviation (input) REG_QUEUE_CTRL :: "'a::numeral" where "REG_QUEUE_CTRL \<equiv> 0x4C6"
abbreviation (input) BIT_PTA_WL_TX_EN :: "'a::numeral" where "BIT_PTA_WL_TX_EN \<equiv> 0x10"
abbreviation (input) BIT_PTA_EDCCA_EN :: "'a::numeral" where "BIT_PTA_EDCCA_EN \<equiv> 0x20"
abbreviation (input) REG_BT_COEX_TABLE0 :: "'a::numeral" where "REG_BT_COEX_TABLE0 \<equiv> 0x6C0"
abbreviation (input) REG_BT_COEX_TABLE1 :: "'a::numeral" where "REG_BT_COEX_TABLE1 \<equiv> 0x6C4"
abbreviation (input) REG_BT_COEX_BRK_TABLE :: "'a::numeral" where "REG_BT_COEX_BRK_TABLE \<equiv> 0x6C8"
abbreviation (input) COEX_TABLE_WL_ONLY :: "'a::numeral" where "COEX_TABLE_WL_ONLY \<equiv> 0x55555555"
abbreviation (input) COEX_BRK_TABLE_DEF :: "'a::numeral" where "COEX_BRK_TABLE_DEF \<equiv> 0xF0FFFFFF"
abbreviation (input) REG_BT_COEX_TABLE_H :: "'a::numeral" where "REG_BT_COEX_TABLE_H \<equiv> 0x6CC"
abbreviation (input) BIT_BCN_QUEUE :: "'a::numeral" where "BIT_BCN_QUEUE \<equiv> 0x80"
abbreviation (input) BCN_PRI_EN :: "'a::numeral" where "BCN_PRI_EN \<equiv> 0x80"
abbreviation (input) REG_BT_COEX_V2 :: "'a::numeral" where "REG_BT_COEX_V2 \<equiv> 0x762"
abbreviation (input) BIT_GNT_BT_POLARITY :: "'a::numeral" where "BIT_GNT_BT_POLARITY \<equiv> 0x1000"
abbreviation (input) REG_BT_STAT_CTRL :: "'a::numeral" where "REG_BT_STAT_CTRL \<equiv> 0x778"
abbreviation (input) BT_CNT_ENABLE :: "'a::one" where "BT_CNT_ENABLE \<equiv> 1"
abbreviation (input) REG_BT_TDMA_TIME :: "'a::numeral" where "REG_BT_TDMA_TIME \<equiv> 0x790"
abbreviation (input) BIT_MASK_SAMPLE_RATE :: "'a::numeral" where "BIT_MASK_SAMPLE_RATE \<equiv> 0x1F"
abbreviation (input) REG_LTECOEX_CTRL :: "'a::numeral" where "REG_LTECOEX_CTRL \<equiv> 0x1700"
abbreviation (input) BIT_LTECOEX_READY :: "'a::numeral" where "BIT_LTECOEX_READY \<equiv> 0x20000000"
abbreviation (input) LTECOEX_READ_OP :: "'a::numeral" where "LTECOEX_READ_OP \<equiv> 0x800F0000"
abbreviation (input) LTECOEX_WRITE_OP :: "'a::numeral" where "LTECOEX_WRITE_OP \<equiv> 0xC00F0000"
abbreviation (input) REG_LTECOEX_WDATA :: "'a::numeral" where "REG_LTECOEX_WDATA \<equiv> 0x1704"
abbreviation (input) REG_LTECOEX_RDATA :: "'a::numeral" where "REG_LTECOEX_RDATA \<equiv> 0x1708"
abbreviation (input) LTE_COEX_CTRL_OFFSET :: "'a::numeral" where "LTE_COEX_CTRL_OFFSET \<equiv> 0x38"
abbreviation (input) LTE_GNT_BT_HI_MASK :: "'a::numeral" where "LTE_GNT_BT_HI_MASK \<equiv> 0xC000"
abbreviation (input) LTE_GNT_BT_LO_MASK :: "'a::numeral" where "LTE_GNT_BT_LO_MASK \<equiv> 0xC00"
abbreviation (input) LTE_GNT_WL_HI_MASK :: "'a::numeral" where "LTE_GNT_WL_HI_MASK \<equiv> 0x3000"
abbreviation (input) LTE_GNT_WL_LO_MASK :: "'a::numeral" where "LTE_GNT_WL_LO_MASK \<equiv> 0x300"
abbreviation (input) COEX_GNT_SET_HW_PTA :: "'a::zero" where "COEX_GNT_SET_HW_PTA \<equiv> 0"
abbreviation (input) COEX_GNT_SET_SW_LOW :: "'a::one" where "COEX_GNT_SET_SW_LOW \<equiv> 1"
abbreviation (input) COEX_GNT_SET_SW_HIGH :: "'a::numeral" where "COEX_GNT_SET_SW_HIGH \<equiv> 3"
abbreviation (input) REG_WLRF1 :: "'a::numeral" where "REG_WLRF1 \<equiv> 0xEC"
abbreviation (input) BIT_WLRF1_BBRF_EN :: "'a::numeral" where "BIT_WLRF1_BBRF_EN \<equiv> 0x7000000"
abbreviation (input) REG_SYS_STATUS1 :: "'a::numeral" where "REG_SYS_STATUS1 \<equiv> 0xF4"
abbreviation (input) REG_CR_EXT :: "'a::numeral" where "REG_CR_EXT \<equiv> 0x1100"
abbreviation (input) REG_MCUFW_CTRL :: "'a::numeral" where "REG_MCUFW_CTRL \<equiv> 0x80"
abbreviation (input) BIT_MCUFWDL_EN :: "'a::one" where "BIT_MCUFWDL_EN \<equiv> 1"
abbreviation (input) BIT_IMEM_DW_OK :: "'a::numeral" where "BIT_IMEM_DW_OK \<equiv> 8"
abbreviation (input) BIT_IMEM_CHKSUM_OK :: "'a::numeral" where "BIT_IMEM_CHKSUM_OK \<equiv> 0x10"
abbreviation (input) BIT_DMEM_DW_OK :: "'a::numeral" where "BIT_DMEM_DW_OK \<equiv> 0x20"
abbreviation (input) BIT_DMEM_CHKSUM_OK :: "'a::numeral" where "BIT_DMEM_CHKSUM_OK \<equiv> 0x40"
abbreviation (input) BIT_CPU_CLK_SEL :: "'a::numeral" where "BIT_CPU_CLK_SEL \<equiv> 0x3000"
abbreviation (input) BIT_FW_DW_RDY :: "'a::numeral" where "BIT_FW_DW_RDY \<equiv> 0x4000"
abbreviation (input) BIT_FW_INIT_RDY :: "'a::numeral" where "BIT_FW_INIT_RDY \<equiv> 0x8000"
abbreviation (input) BIT_BOOT_FSPI_EN :: "'a::numeral" where "BIT_BOOT_FSPI_EN \<equiv> 0x100000"
abbreviation (input) BIT_CHECK_SUM_OK :: "'a::numeral" where "BIT_CHECK_SUM_OK \<equiv> 0x50"
abbreviation (input) FW_READY :: "'a::numeral" where "FW_READY \<equiv> 0xC078"
abbreviation (input) FW_READY_MASK :: "'a::numeral" where "FW_READY_MASK \<equiv> 0xCFFF"
abbreviation (input) REG_CR :: "'a::numeral" where "REG_CR \<equiv> 0x100"
abbreviation (input) BIT_HCI_TXDMA_EN :: "'a::one" where "BIT_HCI_TXDMA_EN \<equiv> 1"
abbreviation (input) BIT_HCI_RXDMA_EN :: "'a::numeral" where "BIT_HCI_RXDMA_EN \<equiv> 2"
abbreviation (input) BIT_TXDMA_EN :: "'a::numeral" where "BIT_TXDMA_EN \<equiv> 4"
abbreviation (input) BIT_RXDMA_EN :: "'a::numeral" where "BIT_RXDMA_EN \<equiv> 8"
abbreviation (input) BIT_PROTOCOL_EN :: "'a::numeral" where "BIT_PROTOCOL_EN \<equiv> 0x10"
abbreviation (input) BIT_SCHEDULE_EN :: "'a::numeral" where "BIT_SCHEDULE_EN \<equiv> 0x20"
abbreviation (input) BIT_MACTXEN :: "'a::numeral" where "BIT_MACTXEN \<equiv> 0x40"
abbreviation (input) BIT_MACRXEN :: "'a::numeral" where "BIT_MACRXEN \<equiv> 0x80"
abbreviation (input) BIT_ENSWBCN :: "'a::numeral" where "BIT_ENSWBCN \<equiv> 0x100"
abbreviation (input) MAC_TRX_ENABLE :: "'a::numeral" where "MAC_TRX_ENABLE \<equiv> 0xFF"
abbreviation (input) REG_TRXFF_BNDY :: "'a::numeral" where "REG_TRXFF_BNDY \<equiv> 0x114"
abbreviation (input) REG_RXFF_BNDY :: "'a::numeral" where "REG_RXFF_BNDY \<equiv> 0x11C"
abbreviation (input) REG_CAMCMD :: "'a::numeral" where "REG_CAMCMD \<equiv> 0x670"
abbreviation (input) REG_CAMWRITE :: "'a::numeral" where "REG_CAMWRITE \<equiv> 0x674"
abbreviation (input) REG_CAMREAD :: "'a::numeral" where "REG_CAMREAD \<equiv> 0x678"
abbreviation (input) BIT_CAM_WRITE_ENABLE :: "'a::numeral" where "BIT_CAM_WRITE_ENABLE \<equiv> 0x10000"
abbreviation (input) BIT_CAM_CLEAR :: "'a::numeral" where "BIT_CAM_CLEAR \<equiv> 0x40000000"
abbreviation (input) BIT_CAM_POLLING :: "'a::numeral" where "BIT_CAM_POLLING \<equiv> 0x80000000"
abbreviation (input) RTW88_CAM_ENTRY_SHIFT :: "'a::numeral" where "RTW88_CAM_ENTRY_SHIFT \<equiv> 3"
abbreviation (input) RTW88_CAM_DEFAULT_KEYS :: "'a::numeral" where "RTW88_CAM_DEFAULT_KEYS \<equiv> 4"
abbreviation (input) RTW88_CAM_PAIRWISE_SLOT :: "'a::numeral" where "RTW88_CAM_PAIRWISE_SLOT \<equiv> 4"
abbreviation (input) RTW88_CAM_TYPE_NONE :: "'a::zero" where "RTW88_CAM_TYPE_NONE \<equiv> 0"
abbreviation (input) RTW88_CAM_TYPE_WEP40 :: "'a::one" where "RTW88_CAM_TYPE_WEP40 \<equiv> 1"
abbreviation (input) RTW88_CAM_TYPE_TKIP :: "'a::numeral" where "RTW88_CAM_TYPE_TKIP \<equiv> 2"
abbreviation (input) RTW88_CAM_TYPE_AES :: "'a::numeral" where "RTW88_CAM_TYPE_AES \<equiv> 4"
abbreviation (input) RTW88_CAM_TYPE_WEP104 :: "'a::numeral" where "RTW88_CAM_TYPE_WEP104 \<equiv> 5"
abbreviation (input) REG_FIFOPAGE_CTRL_2 :: "'a::numeral" where "REG_FIFOPAGE_CTRL_2 \<equiv> 0x204"
abbreviation (input) BIT_MASK_BCN_HEAD_1_V1 :: "'a::numeral" where "BIT_MASK_BCN_HEAD_1_V1 \<equiv> 0xFFF"
abbreviation (input) BIT_BCN_VALID_V1 :: "'a::numeral" where "BIT_BCN_VALID_V1 \<equiv> 0x8000"
abbreviation (input) REG_AUTO_LLT_V1 :: "'a::numeral" where "REG_AUTO_LLT_V1 \<equiv> 0x208"
abbreviation (input) BIT_AUTO_INIT_LLT_V1 :: "'a::one" where "BIT_AUTO_INIT_LLT_V1 \<equiv> 1"
abbreviation (input) BIT_MASK_BLK_DESC_NUM :: "'a::numeral" where "BIT_MASK_BLK_DESC_NUM \<equiv> 0xF0"
abbreviation (input) REG_TXDMA_STATUS :: "'a::numeral" where "REG_TXDMA_STATUS \<equiv> 0x210"
abbreviation (input) BTI_PAGE_OVF :: "'a::numeral" where "BTI_PAGE_OVF \<equiv> 4"
abbreviation (input) REG_TXDMA_OFFSET_CHK :: "'a::numeral" where "REG_TXDMA_OFFSET_CHK \<equiv> 0x20C"
abbreviation (input) BIT_DROP_DATA_EN :: "'a::numeral" where "BIT_DROP_DATA_EN \<equiv> 0x200"
abbreviation (input) REG_RQPN_CTRL_2 :: "'a::numeral" where "REG_RQPN_CTRL_2 \<equiv> 0x22C"
abbreviation (input) BIT_LD_RQPN :: "'a::numeral" where "BIT_LD_RQPN \<equiv> 0x80000000"
abbreviation (input) REG_FIFOPAGE_INFO_1 :: "'a::numeral" where "REG_FIFOPAGE_INFO_1 \<equiv> 0x230"
abbreviation (input) REG_FIFOPAGE_INFO_2 :: "'a::numeral" where "REG_FIFOPAGE_INFO_2 \<equiv> 0x234"
abbreviation (input) REG_FIFOPAGE_INFO_3 :: "'a::numeral" where "REG_FIFOPAGE_INFO_3 \<equiv> 0x238"
abbreviation (input) REG_FIFOPAGE_INFO_4 :: "'a::numeral" where "REG_FIFOPAGE_INFO_4 \<equiv> 0x23C"
abbreviation (input) REG_FIFOPAGE_INFO_5 :: "'a::numeral" where "REG_FIFOPAGE_INFO_5 \<equiv> 0x240"
abbreviation (input) REG_H2C_HEAD :: "'a::numeral" where "REG_H2C_HEAD \<equiv> 0x244"
abbreviation (input) REG_H2C_TAIL :: "'a::numeral" where "REG_H2C_TAIL \<equiv> 0x248"
abbreviation (input) REG_H2C_READ_ADDR :: "'a::numeral" where "REG_H2C_READ_ADDR \<equiv> 0x24C"
abbreviation (input) REG_H2C_INFO :: "'a::numeral" where "REG_H2C_INFO \<equiv> 0x254"
abbreviation (input) REG_RXDMA_MODE :: "'a::numeral" where "REG_RXDMA_MODE \<equiv> 0x290"
abbreviation (input) BIT_DMA_MODE :: "'a::numeral" where "BIT_DMA_MODE \<equiv> 2"
abbreviation (input) BIT_DMA_BURST_CNT :: "'a::numeral" where "BIT_DMA_BURST_CNT \<equiv> 0xC"
abbreviation (input) BIT_DMA_BURST_SIZE :: "'a::numeral" where "BIT_DMA_BURST_SIZE \<equiv> 0x30"
abbreviation (input) BIT_DMA_BURST_SIZE_512 :: "'a::one" where "BIT_DMA_BURST_SIZE_512 \<equiv> 1"
abbreviation (input) REG_FWHW_TXQ_CTRL :: "'a::numeral" where "REG_FWHW_TXQ_CTRL \<equiv> 0x420"
abbreviation (input) BIT_EN_WR_FREE_TAIL :: "'a::numeral" where "BIT_EN_WR_FREE_TAIL \<equiv> 0x100000"
abbreviation (input) REG_BCNQ_BDNY_V1 :: "'a::numeral" where "REG_BCNQ_BDNY_V1 \<equiv> 0x424"
abbreviation (input) REG_BCNQ1_BDNY_V1 :: "'a::numeral" where "REG_BCNQ1_BDNY_V1 \<equiv> 0x456"
abbreviation (input) REG_CPU_DMEM_CON :: "'a::numeral" where "REG_CPU_DMEM_CON \<equiv> 0x1080"
abbreviation (input) BIT_WL_PLATFORM_RST :: "'a::numeral" where "BIT_WL_PLATFORM_RST \<equiv> 0x10000"
abbreviation (input) BIT_DDMA_EN :: "'a::numeral" where "BIT_DDMA_EN \<equiv> 0x100"
abbreviation (input) REG_INIRTS_RATE_SEL :: "'a::numeral" where "REG_INIRTS_RATE_SEL \<equiv> 0x480"
abbreviation (input) REG_AMPDU_MAX_TIME_V1 :: "'a::numeral" where "REG_AMPDU_MAX_TIME_V1 \<equiv> 0x455"
abbreviation (input) REG_TX_HANG_CTRL :: "'a::numeral" where "REG_TX_HANG_CTRL \<equiv> 0x45E"
abbreviation (input) BIT_EN_EOF_V1 :: "'a::numeral" where "BIT_EN_EOF_V1 \<equiv> 4"
abbreviation (input) REG_PRECNT_CTRL :: "'a::numeral" where "REG_PRECNT_CTRL \<equiv> 0x4E5"
abbreviation (input) BIT_EN_PRECNT :: "'a::numeral" where "BIT_EN_PRECNT \<equiv> 0x800"
abbreviation (input) REG_PROT_MODE_CTRL :: "'a::numeral" where "REG_PROT_MODE_CTRL \<equiv> 0x4C8"
abbreviation (input) REG_BAR_MODE_CTRL :: "'a::numeral" where "REG_BAR_MODE_CTRL \<equiv> 0x4CC"
abbreviation (input) REG_FAST_EDCA_VOVI_SETTING :: "'a::numeral" where "REG_FAST_EDCA_VOVI_SETTING \<equiv> 0x1448"
abbreviation (input) REG_FAST_EDCA_BEBK_SETTING :: "'a::numeral" where "REG_FAST_EDCA_BEBK_SETTING \<equiv> 0x144C"
abbreviation (input) REG_TIMER0_SRC_SEL :: "'a::numeral" where "REG_TIMER0_SRC_SEL \<equiv> 0x5B4"
abbreviation (input) BIT_TSFT_SEL_TIMER0 :: "'a::numeral" where "BIT_TSFT_SEL_TIMER0 \<equiv> 0x70"
abbreviation (input) REG_TXPAUSE :: "'a::numeral" where "REG_TXPAUSE \<equiv> 0x522"
abbreviation (input) REG_SLOT :: "'a::numeral" where "REG_SLOT \<equiv> 0x51B"
abbreviation (input) REG_PIFS :: "'a::numeral" where "REG_PIFS \<equiv> 0x512"
abbreviation (input) REG_SIFS :: "'a::numeral" where "REG_SIFS \<equiv> 0x514"
abbreviation (input) REG_RD_NAV_NXT :: "'a::numeral" where "REG_RD_NAV_NXT \<equiv> 0x544"
abbreviation (input) REG_RXTSF_OFFSET_CCK :: "'a::numeral" where "REG_RXTSF_OFFSET_CCK \<equiv> 0x55E"
abbreviation (input) REG_TBTT_PROHIBIT :: "'a::numeral" where "REG_TBTT_PROHIBIT \<equiv> 0x540"
abbreviation (input) REG_DRVERLYINT :: "'a::numeral" where "REG_DRVERLYINT \<equiv> 0x558"
abbreviation (input) REG_BCNDMATIM :: "'a::numeral" where "REG_BCNDMATIM \<equiv> 0x559"
abbreviation (input) REG_TX_PTCL_CTRL :: "'a::numeral" where "REG_TX_PTCL_CTRL \<equiv> 0x520"
abbreviation (input) BIT_SIFS_BK_EN :: "'a::numeral" where "BIT_SIFS_BK_EN \<equiv> 0x1000"
abbreviation (input) REG_BCN_CTRL :: "'a::numeral" where "REG_BCN_CTRL \<equiv> 0x550"
abbreviation (input) BIT_EN_BCN_FUNCTION :: "'a::numeral" where "BIT_EN_BCN_FUNCTION \<equiv> 8"
abbreviation (input) BIT_DIS_TSF_UDT :: "'a::numeral" where "BIT_DIS_TSF_UDT \<equiv> 0x10"
abbreviation (input) REG_RCR :: "'a::numeral" where "REG_RCR \<equiv> 0x608"
abbreviation (input) BIT_APP_PHYSTS :: "'a::numeral" where "BIT_APP_PHYSTS \<equiv> 0x10000000"
abbreviation (input) BIT_APP_ICV :: "'a::numeral" where "BIT_APP_ICV \<equiv> 0x20000000"
abbreviation (input) BIT_APP_MIC :: "'a::numeral" where "BIT_APP_MIC \<equiv> 0x40000000"
abbreviation (input) BIT_APP_FCS :: "'a::numeral" where "BIT_APP_FCS \<equiv> 0x80000000"
abbreviation (input) BIT_RCR_CBSSID_BCN :: "'a::numeral" where "BIT_RCR_CBSSID_BCN \<equiv> 0x80"
abbreviation (input) BIT_RCR_APWRMGT :: "'a::numeral" where "BIT_RCR_APWRMGT \<equiv> 0x20"
abbreviation (input) BIT_RCR_AB :: "'a::numeral" where "BIT_RCR_AB \<equiv> 8"
abbreviation (input) BIT_RCR_AM :: "'a::numeral" where "BIT_RCR_AM \<equiv> 4"
abbreviation (input) BIT_RCR_APM :: "'a::numeral" where "BIT_RCR_APM \<equiv> 2"
abbreviation (input) BIT_RCR_AAP :: "'a::one" where "BIT_RCR_AAP \<equiv> 1"
abbreviation (input) WLAN_RCR_AUTH_READY :: "'a::numeral" where "WLAN_RCR_AUTH_READY \<equiv> 0xF410408E"
abbreviation (input) REG_MACID0 :: "'a::numeral" where "REG_MACID0 \<equiv> 0x610"
abbreviation (input) REG_BSSID0 :: "'a::numeral" where "REG_BSSID0 \<equiv> 0x618"
abbreviation (input) REG_AID :: "'a::numeral" where "REG_AID \<equiv> 0x6A8"
abbreviation (input) RTW88_NET_NO_LINK :: "'a::zero" where "RTW88_NET_NO_LINK \<equiv> 0"
abbreviation (input) RTW88_NET_AD_HOC :: "'a::one" where "RTW88_NET_AD_HOC \<equiv> 1"
abbreviation (input) RTW88_NET_MGD_LINKED :: "'a::numeral" where "RTW88_NET_MGD_LINKED \<equiv> 2"
abbreviation (input) RTW88_NET_AP_MODE :: "'a::numeral" where "RTW88_NET_AP_MODE \<equiv> 3"
abbreviation (input) REG_RX_DRVINFO_SZ :: "'a::numeral" where "REG_RX_DRVINFO_SZ \<equiv> 0x60F"
abbreviation (input) REG_RX_PKT_LIMIT :: "'a::numeral" where "REG_RX_PKT_LIMIT \<equiv> 0x60C"
abbreviation (input) REG_TCR :: "'a::numeral" where "REG_TCR \<equiv> 0x604"
abbreviation (input) REG_RXFLTMAP0 :: "'a::numeral" where "REG_RXFLTMAP0 \<equiv> 0x6A0"
abbreviation (input) REG_RXFLTMAP2 :: "'a::numeral" where "REG_RXFLTMAP2 \<equiv> 0x6A4"
abbreviation (input) REG_ACKTO_CCK :: "'a::numeral" where "REG_ACKTO_CCK \<equiv> 0x639"
abbreviation (input) REG_ACKTO :: "'a::numeral" where "REG_ACKTO \<equiv> 0x640"
abbreviation (input) REG_RRSR :: "'a::numeral" where "REG_RRSR \<equiv> 0x440"
abbreviation (input) RRSR_INIT_2G :: "'a::numeral" where "RRSR_INIT_2G \<equiv> 0x15F"
abbreviation (input) REG_WMAC_TRXPTCL_CTL :: "'a::numeral" where "REG_WMAC_TRXPTCL_CTL \<equiv> 0x668"
abbreviation (input) WMAC_TRXPTCL_CTL_INIT :: "'a::numeral" where "WMAC_TRXPTCL_CTL_INIT \<equiv> 0xE301000"
abbreviation (input) REG_WMAC_TRXPTCL_CTL_H :: "'a::numeral" where "REG_WMAC_TRXPTCL_CTL_H \<equiv> 0x66C"
abbreviation (input) RTW_SEC_CONFIG :: "'a::numeral" where "RTW_SEC_CONFIG \<equiv> 0x680"
abbreviation (input) RTW_SEC_TX_UNI_USE_DK :: "'a::one" where "RTW_SEC_TX_UNI_USE_DK \<equiv> 1"
abbreviation (input) RTW_SEC_RX_UNI_USE_DK :: "'a::numeral" where "RTW_SEC_RX_UNI_USE_DK \<equiv> 2"
abbreviation (input) RTW_SEC_TX_DEC_EN :: "'a::numeral" where "RTW_SEC_TX_DEC_EN \<equiv> 4"
abbreviation (input) RTW_SEC_RX_DEC_EN :: "'a::numeral" where "RTW_SEC_RX_DEC_EN \<equiv> 8"
abbreviation (input) RTW_SEC_TX_BC_USE_DK :: "'a::numeral" where "RTW_SEC_TX_BC_USE_DK \<equiv> 0x40"
abbreviation (input) RTW_SEC_RX_BC_USE_DK :: "'a::numeral" where "RTW_SEC_RX_BC_USE_DK \<equiv> 0x80"
abbreviation (input) REG_SND_PTCL_CTRL :: "'a::numeral" where "REG_SND_PTCL_CTRL \<equiv> 0x718"
abbreviation (input) BIT_DIS_CHK_VHTSIGB_CRC :: "'a::numeral" where "BIT_DIS_CHK_VHTSIGB_CRC \<equiv> 0x40"
abbreviation (input) REG_WMAC_OPTION_FUNCTION :: "'a::numeral" where "REG_WMAC_OPTION_FUNCTION \<equiv> 0x7D0"
abbreviation (input) REG_TXDMA_PQ_MAP :: "'a::numeral" where "REG_TXDMA_PQ_MAP \<equiv> 0x10C"
abbreviation (input) RTW_DMA_MAPPING_HIGH :: "'a::zero" where "RTW_DMA_MAPPING_HIGH \<equiv> 0"
abbreviation (input) RTW_DMA_MAPPING_NORMAL :: "'a::one" where "RTW_DMA_MAPPING_NORMAL \<equiv> 1"
abbreviation (input) REG_H2CQ_CSR :: "'a::numeral" where "REG_H2CQ_CSR \<equiv> 0x1330"
abbreviation (input) BIT_H2CQ_FULL :: "'a::one" where "BIT_H2CQ_FULL \<equiv> 1"
abbreviation (input) REG_DDMA_CH0SA :: "'a::numeral" where "REG_DDMA_CH0SA \<equiv> 0x1200"
abbreviation (input) REG_DDMA_CH0DA :: "'a::numeral" where "REG_DDMA_CH0DA \<equiv> 0x1204"
abbreviation (input) REG_DDMA_CH0CTRL :: "'a::numeral" where "REG_DDMA_CH0CTRL \<equiv> 0x1208"
abbreviation (input) BIT_DDMACH0_OWN :: "'a::numeral" where "BIT_DDMACH0_OWN \<equiv> 0x80000000"
abbreviation (input) BIT_DDMACH0_CHKSUM_EN :: "'a::numeral" where "BIT_DDMACH0_CHKSUM_EN \<equiv> 0x20000000"
abbreviation (input) BIT_DDMACH0_CHKSUM_STS :: "'a::numeral" where "BIT_DDMACH0_CHKSUM_STS \<equiv> 0x8000000"
abbreviation (input) BIT_DDMACH0_DDMA_MODE :: "'a::numeral" where "BIT_DDMACH0_DDMA_MODE \<equiv> 0x4000000"
abbreviation (input) BIT_DDMACH0_RESET_CHKSUM_STS :: "'a::numeral" where "BIT_DDMACH0_RESET_CHKSUM_STS \<equiv> 0x2000000"
abbreviation (input) BIT_DDMACH0_CHKSUM_CONT :: "'a::numeral" where "BIT_DDMACH0_CHKSUM_CONT \<equiv> 0x1000000"
abbreviation (input) BIT_MASK_DDMACH0_DLEN :: "'a::numeral" where "BIT_MASK_DDMACH0_DLEN \<equiv> 0x3FFFF"
abbreviation (input) REG_FW_DBG7 :: "'a::numeral" where "REG_FW_DBG7 \<equiv> 0xD4"
abbreviation (input) FW_KEY_MASK :: "'a::numeral" where "FW_KEY_MASK \<equiv> 0xFFFFFFFF"
abbreviation (input) ILLEGAL_KEY_GROUP :: "'a::numeral" where "ILLEGAL_KEY_GROUP \<equiv> 0xFAAAAA00"
abbreviation (input) OCPBASE_TXBUF_88XX :: "'a::numeral" where "OCPBASE_TXBUF_88XX \<equiv> 0x18780000"
abbreviation (input) RTW88_TX_PKT_DESC_SZ :: "'a::numeral" where "RTW88_TX_PKT_DESC_SZ \<equiv> 0x30"
abbreviation (input) RTW88_TXD_W0_TXPKTSIZE_S :: "'a::zero" where "RTW88_TXD_W0_TXPKTSIZE_S \<equiv> 0"
abbreviation (input) RTW88_TXD_W0_OFFSET_S :: "'a::numeral" where "RTW88_TXD_W0_OFFSET_S \<equiv> 0x10"
abbreviation (input) RTW88_TXD_W0_LS :: "'a::numeral" where "RTW88_TXD_W0_LS \<equiv> 0x4000000"
abbreviation (input) RTW88_TXD_W0_BMC :: "'a::numeral" where "RTW88_TXD_W0_BMC \<equiv> 0x1000000"
abbreviation (input) RTW88_TXD_W0_DIS_QSEL_SEQ :: "'a::numeral" where "RTW88_TXD_W0_DIS_QSEL_SEQ \<equiv> 0x80000000"
abbreviation (input) RTW88_TXD_W1_QSEL_S :: "'a::numeral" where "RTW88_TXD_W1_QSEL_S \<equiv> 8"
abbreviation (input) TX_DESC_QSEL_BEACON :: "'a::numeral" where "TX_DESC_QSEL_BEACON \<equiv> 0x10"
abbreviation (input) TX_DESC_QSEL_HIGH :: "'a::numeral" where "TX_DESC_QSEL_HIGH \<equiv> 0x11"
abbreviation (input) TX_DESC_QSEL_MGMT :: "'a::numeral" where "TX_DESC_QSEL_MGMT \<equiv> 0x12"
abbreviation (input) TX_DESC_QSEL_H2C :: "'a::numeral" where "TX_DESC_QSEL_H2C \<equiv> 0x13"
abbreviation (input) RTW88_TXD_W1_RATE_ID_S :: "'a::numeral" where "RTW88_TXD_W1_RATE_ID_S \<equiv> 0x10"
abbreviation (input) RTW_RATEID_B_20M :: "'a::numeral" where "RTW_RATEID_B_20M \<equiv> 8"
abbreviation (input) RTW88_TXD_W1_SEC_TYPE_S :: "'a::numeral" where "RTW88_TXD_W1_SEC_TYPE_S \<equiv> 0x16"
abbreviation (input) RTW88_TXD_SEC_TYPE_NONE :: "'a::zero" where "RTW88_TXD_SEC_TYPE_NONE \<equiv> 0"
abbreviation (input) RTW88_TXD_SEC_TYPE_WEPTKIP :: "'a::one" where "RTW88_TXD_SEC_TYPE_WEPTKIP \<equiv> 1"
abbreviation (input) RTW88_TXD_SEC_TYPE_AES :: "'a::numeral" where "RTW88_TXD_SEC_TYPE_AES \<equiv> 3"
abbreviation (input) RTW88_TXD_W1_MACID_S :: "'a::zero" where "RTW88_TXD_W1_MACID_S \<equiv> 0"
abbreviation (input) RTW88_TXD_W1_PKT_OFFSET_S :: "'a::numeral" where "RTW88_TXD_W1_PKT_OFFSET_S \<equiv> 0x18"
abbreviation (input) RTW88_TXD_W1_MORE_DATA :: "'a::numeral" where "RTW88_TXD_W1_MORE_DATA \<equiv> 0x20000000"
abbreviation (input) RTW88_TXD_W2_AGG_EN :: "'a::numeral" where "RTW88_TXD_W2_AGG_EN \<equiv> 0x1000"
abbreviation (input) RTW88_TXD_W2_SPE_RPT :: "'a::numeral" where "RTW88_TXD_W2_SPE_RPT \<equiv> 0x80000"
abbreviation (input) RTW88_TXD_W2_AMPDU_DEN_S :: "'a::numeral" where "RTW88_TXD_W2_AMPDU_DEN_S \<equiv> 0x14"
abbreviation (input) RTW88_TXD_W2_BT_NULL :: "'a::numeral" where "RTW88_TXD_W2_BT_NULL \<equiv> 0x800000"
abbreviation (input) RTW88_TXD_W3_USE_RATE :: "'a::numeral" where "RTW88_TXD_W3_USE_RATE \<equiv> 0x100"
abbreviation (input) RTW88_TXD_W3_DISDATAFB :: "'a::numeral" where "RTW88_TXD_W3_DISDATAFB \<equiv> 0x400"
abbreviation (input) RTW88_TXD_W3_HW_SSN_SEL_S :: "'a::numeral" where "RTW88_TXD_W3_HW_SSN_SEL_S \<equiv> 6"
abbreviation (input) RTW88_TXD_W3_USE_RTS :: "'a::numeral" where "RTW88_TXD_W3_USE_RTS \<equiv> 0x1000"
abbreviation (input) RTW88_TXD_W3_NAVUSEHDR :: "'a::numeral" where "RTW88_TXD_W3_NAVUSEHDR \<equiv> 0x8000"
abbreviation (input) RTW88_TXD_W3_MAX_AGG_NUM_S :: "'a::numeral" where "RTW88_TXD_W3_MAX_AGG_NUM_S \<equiv> 0x11"
abbreviation (input) RTW88_TXD_W4_DATARATE_M :: "'a::numeral" where "RTW88_TXD_W4_DATARATE_M \<equiv> 0x7F"
abbreviation (input) RTW88_TXD_RATE_CCK_1M :: "'a::zero" where "RTW88_TXD_RATE_CCK_1M \<equiv> 0"
abbreviation (input) RTW88_TXD_RATE_OFDM_6M :: "'a::numeral" where "RTW88_TXD_RATE_OFDM_6M \<equiv> 4"
abbreviation (input) RTW88_TXD_W4_DATARATE_FB_LIMIT_S :: "'a::numeral" where "RTW88_TXD_W4_DATARATE_FB_LIMIT_S \<equiv> 8"
abbreviation (input) RTW88_TXD_W4_RTSRATE_S :: "'a::numeral" where "RTW88_TXD_W4_RTSRATE_S \<equiv> 0x18"
abbreviation (input) RTW88_TXD_W5_DATA_SHORT :: "'a::numeral" where "RTW88_TXD_W5_DATA_SHORT \<equiv> 0x10"
abbreviation (input) RTW88_TXD_W5_DATA_BW_S :: "'a::numeral" where "RTW88_TXD_W5_DATA_BW_S \<equiv> 5"
abbreviation (input) RTW88_TXD_W5_DATA_LDPC :: "'a::numeral" where "RTW88_TXD_W5_DATA_LDPC \<equiv> 0x80"
abbreviation (input) RTW88_TXD_W5_DATA_STBC_S :: "'a::numeral" where "RTW88_TXD_W5_DATA_STBC_S \<equiv> 8"
abbreviation (input) RTW88_TXD_W5_DATA_RTS_SHORT :: "'a::numeral" where "RTW88_TXD_W5_DATA_RTS_SHORT \<equiv> 0x1000"
abbreviation (input) RTW88_TXD_W6_SW_DEFINE_M :: "'a::numeral" where "RTW88_TXD_W6_SW_DEFINE_M \<equiv> 0xFFF"
abbreviation (input) RTW88_TXD_W8_EN_HWSEQ :: "'a::numeral" where "RTW88_TXD_W8_EN_HWSEQ \<equiv> 0x8000"
abbreviation (input) RTW88_TXD_W9_SW_SEQ_S :: "'a::numeral" where "RTW88_TXD_W9_SW_SEQ_S \<equiv> 0xC"
abbreviation (input) RTW88_TXD_W9_TIM_OFFSET_M :: "'a::numeral" where "RTW88_TXD_W9_TIM_OFFSET_M \<equiv> 0x7F"
abbreviation (input) RTW88_TXD_W9_TIM_EN :: "'a::numeral" where "RTW88_TXD_W9_TIM_EN \<equiv> 0x80"

end
