(* ===== verification/Rtw_Usb.thy ===== *)
theory Rtw_Usb
  imports Rtw_Regs
begin

section \<open>USB transport: register access over the control endpoint\<close>

text \<open>
  The register access layer of \<^verbatim>\<open>if_rtw88_usb.c\<close>: the vendor requests on EP0, their serialisation
  by \<^verbatim>\<open>sc_io_busy\<close>, the seal write that follows every access to the always-on section, the sized
  accessors, the read-modify-write helpers, the ready poll and the H2C mailbox.

  The chip (with the USB stack in front of it) is not code of the repository: it is a parameter
  \<open>C\<close>, a record of functions on a chip state of any type. A read request hands back either an
  error or the bytes of the buffer as a function of the offset (\<^verbatim>\<open>usbd_do_request_flags\<close> without
  \<^verbatim>\<open>USB_SHORT_XFER_OK\<close> completes normally only when all \<^verbatim>\<open>wLength\<close> bytes have moved). The chip may change
  its state at every request, so the delays of the code, during which it may also change, need
  no step of their own.

  The mutable state is the part of \<^verbatim>\<open>struct rtw88_usb_softc\<close> that this layer uses; the layers above
  extend the record with theirs. \<open>ep0_log\<close> is not a field of the struct: it records the requests
  issued on EP0, in order, so that theorems can speak about them. The kernel mutex \<^verbatim>\<open>sc_mtx\<close> is the number
  of times the running thread holds it; \<open>invariants\<close> says whether the kernel has \<^verbatim>\<open>INVARIANTS\<close>,
  under which \<^verbatim>\<open>mtx_assert\<close> is checked and recursion on a non-recursive mutex panics
  (\<^verbatim>\<open>sc_mtx\<close> is initialised with \<^verbatim>\<open>MTX_DEF\<close>, without \<^verbatim>\<open>MTX_RECURSE\<close>).
\<close>

datatype ep0_req = EpRead u16 u16 | EpWrite u16 "u8 list"

text \<open>How a bulk transfer ends: completed, failed, or no callback within the time its submitter waits.\<close>

datatype xfer_end = XferDone | XferError | XferSilent

record 'c chip_ops =
  c_read :: "u16 \<Rightarrow> u16 \<Rightarrow> 'c \<Rightarrow> (nat \<Rightarrow> u8) option \<times> 'c"
  c_write :: "u16 \<Rightarrow> u8 list \<Rightarrow> 'c \<Rightarrow> bool \<times> 'c"
  c_bulk :: "nat \<Rightarrow> u8 list \<Rightarrow> 'c \<Rightarrow> xfer_end \<times> 'c"

record 'c hw =
  chip :: 'c
  ep0_log :: "ep0_req list"
  mtx_depth :: nat
  invariants :: bool
  sc_io_busy :: bool
  sc_stat_usb_errors :: u64
  sc_write_trace :: u32
  sc_h2c_box_next :: u8

abbreviation (input) RTW88_REG_SEC_PING_ADDR :: u16 where "RTW88_REG_SEC_PING_ADDR \<equiv> 0x04E0"

subsection \<open>The mutex\<close>

definition RTW88_LOCK :: "(('c, 'z) hw_scheme, unit) cm" where
  "RTW88_LOCK = (\<lambda>s. if mtx_depth s \<noteq> 0 \<and> invariants s then (Inl Panic, s)
                     else (Inr (), s\<lparr>mtx_depth := Suc (mtx_depth s)\<rparr>))"

definition RTW88_UNLOCK :: "(('c, 'z) hw_scheme, unit) cm" where
  "RTW88_UNLOCK = (\<lambda>s. if mtx_depth s = 0 then (Inl Panic, s)
                       else (Inr (), s\<lparr>mtx_depth := mtx_depth s - 1\<rparr>))"

definition RTW88_ASSERT_LOCKED :: "(('c, 'z) hw_scheme, unit) cm" where
  "RTW88_ASSERT_LOCKED = (\<lambda>s. if mtx_depth s = 0 \<and> invariants s then (Inl Panic, s) else (Inr (), s))"

subsection \<open>Vendor requests\<close>

definition rtw88_addr_in_on_section :: "u16 \<Rightarrow> bool" where
  "rtw88_addr_in_on_section addr \<longleftrightarrow> addr \<le> 0x00FF \<or> (0x1000 \<le> addr \<and> addr \<le> 0x10FF)"

text \<open>
  \<^verbatim>\<open>while (sc->sc_io_busy) msleep(...);\<close> : the thread sleeps until the thread that runs a request calls
  \<^verbatim>\<open>rtw88_usb_io_exit\<close>. In a run of a single thread nobody else can, so a busy flag means sleeping for good.
\<close>

definition rtw88_usb_io_enter :: "(('c, 'z) hw_scheme, unit) cm" where
  "rtw88_usb_io_enter = seqE RTW88_ASSERT_LOCKED
     (\<lambda>s. if sc_io_busy s then (Inl Hang, s) else (Inr (), s\<lparr>sc_io_busy := True\<rparr>))"

definition rtw88_usb_io_exit :: "(('c, 'z) hw_scheme, unit) cm" where
  "rtw88_usb_io_exit = seqE RTW88_ASSERT_LOCKED (updS (\<lambda>s. s\<lparr>sc_io_busy := False\<rparr>))"

definition usbd_read :: "'c chip_ops \<Rightarrow> u16 \<Rightarrow> u16 \<Rightarrow> (('c, 'z) hw_scheme, u8 list option) cm" where
  "usbd_read C addr len = (\<lambda>s.
     let (r, c) = c_read C addr len (chip s)
     in (Inr (map_option (\<lambda>f. map f [0..<unat len]) r),
         s\<lparr>chip := c, ep0_log := ep0_log s @ [EpRead addr len]\<rparr>))"

definition usbd_write :: "'c chip_ops \<Rightarrow> u16 \<Rightarrow> u8 list \<Rightarrow> (('c, 'z) hw_scheme, bool) cm" where
  "usbd_write C addr buf = (\<lambda>s.
     let (ok, c) = c_write C addr buf (chip s)
     in (Inr ok, s\<lparr>chip := c, ep0_log := ep0_log s @ [EpWrite addr buf]\<rparr>))"

definition rtw88_usb_reg_sec :: "'c chip_ops \<Rightarrow> u16 \<Rightarrow> u8 \<Rightarrow> (('c, 'z) hw_scheme, unit) cm" where
  "rtw88_usb_reg_sec C addr data =
     (if \<not> rtw88_addr_in_on_section addr then ret ()
      else discard (usbd_write C RTW88_REG_SEC_PING_ADDR [data]))"

definition rtw88_usb_read_region ::
  "'c chip_ops \<Rightarrow> u16 \<Rightarrow> u16 \<Rightarrow> (('c, 'z) hw_scheme, u8 list) cm" where
  "rtw88_usb_read_region C addr len =
     seqE RTW88_ASSERT_LOCKED (seqE rtw88_usb_io_enter
     (tryE (usbd_read C addr len) (\<lambda>r. case r of
        None \<Rightarrow>
          seqE (updS (\<lambda>s. s\<lparr>sc_stat_usb_errors := sc_stat_usb_errors s + 1\<rparr>))
          (seqE rtw88_usb_io_exit (fail (Errno EIO)))
      | Some buf \<Rightarrow>
          seqE (rtw88_usb_reg_sec C addr (at buf 0))
          (seqE rtw88_usb_io_exit (ret buf)))))"

definition rtw88_usb_write_region ::
  "'c chip_ops \<Rightarrow> u16 \<Rightarrow> u8 list \<Rightarrow> (('c, 'z) hw_scheme, unit) cm" where
  "rtw88_usb_write_region C addr buf =
     seqE RTW88_ASSERT_LOCKED (seqE rtw88_usb_io_enter
     (tryE (getS (\<lambda>s. sc_write_trace s \<noteq> 0)) (\<lambda>trace.
      tryE (usbd_write C addr buf) (\<lambda>ok.
        if \<not> ok then
          seqE (updS (\<lambda>s. s\<lparr>sc_stat_usb_errors := sc_stat_usb_errors s + 1\<rparr>))
          (seqE rtw88_usb_io_exit (fail (Errno EIO)))
        else
          seqE (whenE trace (updS (\<lambda>s. s\<lparr>sc_write_trace := sc_write_trace s - 1\<rparr>)))
          (seqE (rtw88_usb_reg_sec C addr (at buf 0))
           rtw88_usb_io_exit)))))"

subsection \<open>Sized accessors and read-modify-write\<close>

definition rtw88_usb_read4 :: "'c chip_ops \<Rightarrow> u16 \<Rightarrow> (('c, 'z) hw_scheme, u32) cm" where
  "rtw88_usb_read4 C addr = tryE (rtw88_usb_read_region C addr 4) (\<lambda>buf. ret (le32dec buf 0))"

definition rtw88_usb_read1 :: "'c chip_ops \<Rightarrow> u16 \<Rightarrow> (('c, 'z) hw_scheme, u8) cm" where
  "rtw88_usb_read1 C addr = tryE (rtw88_usb_read_region C addr 1) (\<lambda>buf. ret (at buf 0))"

definition rtw88_usb_read2 :: "'c chip_ops \<Rightarrow> u16 \<Rightarrow> (('c, 'z) hw_scheme, u16) cm" where
  "rtw88_usb_read2 C addr = tryE (rtw88_usb_read_region C addr 2) (\<lambda>buf. ret (le16dec buf 0))"

definition rtw88_usb_write1 :: "'c chip_ops \<Rightarrow> u16 \<Rightarrow> u8 \<Rightarrow> (('c, 'z) hw_scheme, unit) cm" where
  "rtw88_usb_write1 C addr val = rtw88_usb_write_region C addr [val]"

definition rtw88_usb_write2 :: "'c chip_ops \<Rightarrow> u16 \<Rightarrow> u16 \<Rightarrow> (('c, 'z) hw_scheme, unit) cm" where
  "rtw88_usb_write2 C addr val = rtw88_usb_write_region C addr (le16enc val)"

definition rtw88_usb_write4 :: "'c chip_ops \<Rightarrow> u16 \<Rightarrow> u32 \<Rightarrow> (('c, 'z) hw_scheme, unit) cm" where
  "rtw88_usb_write4 C addr val = rtw88_usb_write_region C addr (le32enc val)"

definition rtw88_usb_setbits1 :: "'c chip_ops \<Rightarrow> u16 \<Rightarrow> u8 \<Rightarrow> (('c, 'z) hw_scheme, unit) cm" where
  "rtw88_usb_setbits1 C addr bits =
     tryE (rtw88_usb_read1 C addr) (\<lambda>v. rtw88_usb_write1 C addr (v OR bits))"

definition rtw88_usb_clrbits1 :: "'c chip_ops \<Rightarrow> u16 \<Rightarrow> u8 \<Rightarrow> (('c, 'z) hw_scheme, unit) cm" where
  "rtw88_usb_clrbits1 C addr bits =
     tryE (rtw88_usb_read1 C addr) (\<lambda>v. rtw88_usb_write1 C addr (v AND NOT bits))"

text \<open>A failed read counts as "not ready" here: the loop goes on.\<close>

definition rtw88_check_hw_ready ::
  "'c chip_ops \<Rightarrow> u16 \<Rightarrow> u32 \<Rightarrow> u32 \<Rightarrow> (('c, 'z) hw_scheme, unit) cm" where
  "rtw88_check_hw_ready C reg msk target =
     tryE (pollE 50 (tryE (attempt (rtw88_usb_read4 C reg)) (\<lambda>r. case r of
             Inl e \<Rightarrow> ret None
           | Inr val \<Rightarrow> ret (if val AND msk = target then Some () else None))))
     (\<lambda>r. case r of Some _ \<Rightarrow> ret () | None \<Rightarrow> fail (Errno ETIMEDOUT))"

subsection \<open>The H2C mailbox\<close>

definition box_addr :: "u16 list" where
  "box_addr = [REG_HMEBOX0, REG_HMEBOX1, REG_HMEBOX2, REG_HMEBOX3]"

definition box_ex_addr :: "u16 list" where
  "box_ex_addr = [REG_HMEBOX0_EX, REG_HMEBOX1_EX, REG_HMEBOX2_EX, REG_HMEBOX3_EX]"

definition rtw88_h2c_mailbox :: "'c chip_ops \<Rightarrow> u32 \<Rightarrow> u32 \<Rightarrow> (('c, 'z) hw_scheme, unit) cm" where
  "rtw88_h2c_mailbox C msg msg_ext =
     seqE RTW88_ASSERT_LOCKED
     (tryE (getS (\<lambda>s. unat (sc_h2c_box_next s AND 3))) (\<lambda>box.
      tryE (pollE 30 (tryE (rtw88_usb_read1 C REG_HMETFR) (\<lambda>tfr.
              ret (if \<not> bit tfr box then Some () else None)))) (\<lambda>r. case r of
        None \<Rightarrow> fail (Errno EBUSY)
      | Some _ \<Rightarrow>
          seqE (rtw88_usb_write4 C (box_ex_addr ! box) msg_ext)
          (seqE (rtw88_usb_write4 C (box_addr ! box) msg)
           (updS (\<lambda>s. s\<lparr>sc_h2c_box_next := (sc_h2c_box_next s + 1) AND 3\<rparr>))))))"

subsection \<open>Discipline of the transport\<close>

text \<open>
  \<open>on_bus n k z L\<close>: the thread holds the mutex \<open>Suc n\<close> times, no request is in flight, the kernel
  option and the fields of the layers above are as given, and the log of requests extends \<open>L\<close>. Every
  function of the transport keeps it, and its only faults are error codes.
\<close>

definition on_bus :: "nat \<Rightarrow> bool \<Rightarrow> 'z \<Rightarrow> ep0_req list \<Rightarrow> ('c, 'z) hw_scheme \<Rightarrow> bool" where
  "on_bus n k z L s \<longleftrightarrow> mtx_depth s = Suc n \<and> \<not> sc_io_busy s \<and> invariants s = k \<and>
     hw.more s = z \<and> (\<exists>xs. ep0_log s = L @ xs)"

lemma on_bus_start:
  "mtx_depth s = Suc n \<Longrightarrow> \<not> sc_io_busy s \<Longrightarrow> on_bus n (invariants s) (hw.more s) (ep0_log s) s"
  by (simp add: on_bus_def)

text \<open>The state after the seal of an access to \<open>addr\<close> whose first byte is \<open>d\<close>.\<close>

definition sealed :: "'c chip_ops \<Rightarrow> u16 \<Rightarrow> u8 \<Rightarrow> ('c, 'z) hw_scheme \<Rightarrow> ('c, 'z) hw_scheme" where
  "sealed C addr d s = (if rtw88_addr_in_on_section addr
     then s\<lparr>chip := snd (c_write C RTW88_REG_SEC_PING_ADDR [d] (chip s)),
            ep0_log := ep0_log s @ [EpWrite RTW88_REG_SEC_PING_ADDR [d]]\<rparr>
     else s)"

lemma sealed_simps [simp]:
  "mtx_depth (sealed C a d s) = mtx_depth s"
  "sc_io_busy (sealed C a d s) = sc_io_busy s"
  "invariants (sealed C a d s) = invariants s"
  "sc_stat_usb_errors (sealed C a d s) = sc_stat_usb_errors s"
  "sc_write_trace (sealed C a d s) = sc_write_trace s"
  "sc_h2c_box_next (sealed C a d s) = sc_h2c_box_next s"
  "hw.more (sealed C a d s) = hw.more s"
  by (simp_all add: sealed_def)

lemma sealed_log: "ep0_log (sealed C a d s) = ep0_log s @
    (if rtw88_addr_in_on_section a then [EpWrite RTW88_REG_SEC_PING_ADDR [d]] else [])"
  by (simp add: sealed_def)

lemma reg_sec_run: "rtw88_usb_reg_sec C a d s = (Inr (), sealed C a d s)"
  by (auto simp: rtw88_usb_reg_sec_def sealed_def usbd_write_def discard_def tryE_def attempt_def
      split: prod.splits)

lemma io_busy_write_back: "\<not> sc_io_busy s \<Longrightarrow> s\<lparr>sc_io_busy := False\<rparr> = s"
  by simp

text \<open>The two ends of a read and of a write, for a thread that holds the mutex.\<close>

lemma read_region_ok:
  assumes "mtx_depth s \<noteq> 0" "\<not> sc_io_busy s"
    and "c_read C addr len (chip s) = (Some f, c)"
  shows "rtw88_usb_read_region C addr len s =
    (Inr (map f [0..<unat len]),
     sealed C addr (at (map f [0..<unat len]) 0)
       (s\<lparr>chip := c, ep0_log := ep0_log s @ [EpRead addr len]\<rparr>))"
  using assms
  by (simp add: rtw88_usb_read_region_def seqE_def tryE_def RTW88_ASSERT_LOCKED_def
      rtw88_usb_io_enter_def rtw88_usb_io_exit_def usbd_read_def reg_sec_run)
    (simp add: sealed_def)

lemma read_region_err:
  assumes "mtx_depth s \<noteq> 0" "\<not> sc_io_busy s"
    and "c_read C addr len (chip s) = (None, c)"
  shows "rtw88_usb_read_region C addr len s =
    (Inl (Errno EIO),
     s\<lparr>chip := c, ep0_log := ep0_log s @ [EpRead addr len],
       sc_stat_usb_errors := sc_stat_usb_errors s + 1\<rparr>)"
  using assms
  by (simp add: rtw88_usb_read_region_def seqE_def tryE_def RTW88_ASSERT_LOCKED_def
      rtw88_usb_io_enter_def rtw88_usb_io_exit_def usbd_read_def)

lemma write_region_ok:
  assumes "mtx_depth s \<noteq> 0" "\<not> sc_io_busy s"
    and "c_write C addr buf (chip s) = (True, c)"
  shows "rtw88_usb_write_region C addr buf s =
    (Inr (),
     sealed C addr (at buf 0)
       (s\<lparr>chip := c, ep0_log := ep0_log s @ [EpWrite addr buf],
          sc_write_trace := (if sc_write_trace s \<noteq> 0 then sc_write_trace s - 1 else 0)\<rparr>))"
  using assms
  by (simp add: rtw88_usb_write_region_def seqE_def tryE_def RTW88_ASSERT_LOCKED_def whenE_def
      rtw88_usb_io_enter_def rtw88_usb_io_exit_def usbd_write_def reg_sec_run)
    (simp add: sealed_def)

lemma write_region_err:
  assumes "mtx_depth s \<noteq> 0" "\<not> sc_io_busy s"
    and "c_write C addr buf (chip s) = (False, c)"
  shows "rtw88_usb_write_region C addr buf s =
    (Inl (Errno EIO),
     s\<lparr>chip := c, ep0_log := ep0_log s @ [EpWrite addr buf],
       sc_stat_usb_errors := sc_stat_usb_errors s + 1\<rparr>)"
  using assms
  by (simp add: rtw88_usb_write_region_def seqE_def tryE_def RTW88_ASSERT_LOCKED_def
      rtw88_usb_io_enter_def rtw88_usb_io_exit_def usbd_write_def)

lemma keeps_read_region [keeps_intros]:
  "keeps (on_bus n k z L) is_errno (rtw88_usb_read_region C addr len)"
proof (rule keepsI)
  fix s r s' assume I: "on_bus n k z L s" and run: "rtw88_usb_read_region C addr len s = (r, s')"
  obtain res c where c: "c_read C addr len (chip s) = (res, c)" by fastforce
  from I have "mtx_depth s \<noteq> 0" "\<not> sc_io_busy s" by (auto simp: on_bus_def)
  with I c run show "on_bus n k z L s' \<and> (\<forall>e. r = Inl e \<longrightarrow> is_errno e)"
    by (cases res) (auto simp: read_region_ok read_region_err on_bus_def sealed_log)
qed

lemma keeps_write_region [keeps_intros]:
  "keeps (on_bus n k z L) is_errno (rtw88_usb_write_region C addr buf)"
proof (rule keepsI)
  fix s r s' assume I: "on_bus n k z L s" and run: "rtw88_usb_write_region C addr buf s = (r, s')"
  obtain ok c where c: "c_write C addr buf (chip s) = (ok, c)" by fastforce
  from I have "mtx_depth s \<noteq> 0" "\<not> sc_io_busy s" by (auto simp: on_bus_def)
  with I c run show "on_bus n k z L s' \<and> (\<forall>e. r = Inl e \<longrightarrow> is_errno e)"
    by (cases ok) (auto simp: write_region_ok write_region_err on_bus_def sealed_log)
qed

lemma keeps_assert_locked [keeps_intros]: "keeps (on_bus n k z L) F RTW88_ASSERT_LOCKED"
  by (auto simp: keeps_def RTW88_ASSERT_LOCKED_def on_bus_def)

lemma keeps_read1 [keeps_intros]: "keeps (on_bus n k z L) is_errno (rtw88_usb_read1 C a)"
  and keeps_read2 [keeps_intros]: "keeps (on_bus n k z L) is_errno (rtw88_usb_read2 C a)"
  and keeps_read4 [keeps_intros]: "keeps (on_bus n k z L) is_errno (rtw88_usb_read4 C a)"
  and keeps_write1 [keeps_intros]: "keeps (on_bus n k z L) is_errno (rtw88_usb_write1 C a v1)"
  and keeps_write2 [keeps_intros]: "keeps (on_bus n k z L) is_errno (rtw88_usb_write2 C a v2)"
  and keeps_write4 [keeps_intros]: "keeps (on_bus n k z L) is_errno (rtw88_usb_write4 C a v4)"
  by (simp_all add: rtw88_usb_read1_def rtw88_usb_read2_def rtw88_usb_read4_def
      rtw88_usb_write1_def rtw88_usb_write2_def rtw88_usb_write4_def keeps_intros)

lemma keeps_setbits1 [keeps_intros]: "keeps (on_bus n k z L) is_errno (rtw88_usb_setbits1 C a b)"
  and keeps_clrbits1 [keeps_intros]: "keeps (on_bus n k z L) is_errno (rtw88_usb_clrbits1 C a b)"
  by (simp_all add: rtw88_usb_setbits1_def rtw88_usb_clrbits1_def keeps_intros)

lemma keeps_check_hw_ready [keeps_intros]:
  "keeps (on_bus n k z L) is_errno (rtw88_check_hw_ready C reg m t)"
  unfolding rtw88_check_hw_ready_def by (intro keeps_intros is_errno_simps)

lemma keeps_h2c_mailbox [keeps_intros]:
  "keeps (on_bus n k z L) is_errno (rtw88_h2c_mailbox C msg ext)"
  unfolding rtw88_h2c_mailbox_def
  by (intro keeps_intros is_errno_simps) (simp add: on_bus_def)

subsection \<open>The mailbox on the wire\<close>

text \<open>
  What the chip answers to the polls of the mailbox flags, as the chip itself decides it: \<open>hmetfr_after C n c\<close> is the chip \<open>c\<close> after
  \<open>n\<close> one-byte reads of HMETFR, \<open>hmetfr_answer C i c\<close> its answer to read number \<open>i\<close>, none when it fails the
  request. \<open>polled C n s s'\<close>: from \<open>s\<close> to \<open>s'\<close> the driver has done \<open>n\<close> such reads and nothing else.
\<close>

fun hmetfr_after :: "'c chip_ops \<Rightarrow> nat \<Rightarrow> 'c \<Rightarrow> 'c" where
  "hmetfr_after C 0 c = c"
| "hmetfr_after C (Suc n) c = hmetfr_after C n (snd (c_read C REG_HMETFR 1 c))"

definition hmetfr_answer :: "'c chip_ops \<Rightarrow> nat \<Rightarrow> 'c \<Rightarrow> u8 option" where
  "hmetfr_answer C i c = map_option (\<lambda>f. f 0) (fst (c_read C REG_HMETFR 1 (hmetfr_after C i c)))"

definition box_full :: "'c chip_ops \<Rightarrow> nat \<Rightarrow> nat \<Rightarrow> 'c \<Rightarrow> bool" where
  "box_full C box i c \<longleftrightarrow> (case hmetfr_answer C i c of None \<Rightarrow> False | Some v \<Rightarrow> bit v box)"

definition box_clear :: "'c chip_ops \<Rightarrow> nat \<Rightarrow> nat \<Rightarrow> 'c \<Rightarrow> bool" where
  "box_clear C box i c \<longleftrightarrow> (case hmetfr_answer C i c of None \<Rightarrow> False | Some v \<Rightarrow> \<not> bit v box)"

lemma hmetfr_answer_Suc: "hmetfr_answer C (Suc i) c = hmetfr_answer C i (snd (c_read C REG_HMETFR 1 c))"
  by (simp add: hmetfr_answer_def)

definition polled :: "'c chip_ops \<Rightarrow> nat \<Rightarrow> ('c, 'z) hw_scheme \<Rightarrow> ('c, 'z) hw_scheme \<Rightarrow> bool" where
  "polled C n s s' \<longleftrightarrow> ep0_log s' = ep0_log s @ replicate n (EpRead REG_HMETFR 1) \<and> chip s' = hmetfr_after C n (chip s) \<and>
     mtx_depth s' = mtx_depth s \<and> sc_io_busy s' = sc_io_busy s \<and> sc_h2c_box_next s' = sc_h2c_box_next s"

lemma polled_0: "polled C 0 s s"
  by (simp add: polled_def)

lemma polled_Suc: "polled C 1 s t \<Longrightarrow> polled C n t u \<Longrightarrow> polled C (Suc n) s u"
  by (simp add: polled_def numeral_eq_Suc)

lemma hmetfr_read:
  assumes "mtx_depth s \<noteq> 0" "\<not> sc_io_busy s" "rtw88_usb_read1 C REG_HMETFR s = (r, s')"
  shows "polled C 1 s s' \<and> (case hmetfr_answer C 0 (chip s) of None \<Rightarrow> r = Inl (Errno EIO) | Some v \<Rightarrow> r = Inr v)"
proof -
  obtain res c where c: "c_read C REG_HMETFR 1 (chip s) = (res, c)" by fastforce
  show ?thesis
  proof (cases res)
    case None
    with assms(3) read_region_err [OF assms(1,2), of C REG_HMETFR 1 c] c show ?thesis
      by (auto simp: rtw88_usb_read1_def polled_def hmetfr_answer_def)
  next
    case (Some f)
    with assms(3) read_region_ok [OF assms(1,2), of C REG_HMETFR 1 f c] c show ?thesis
      by (auto simp: rtw88_usb_read1_def polled_def sealed_def rtw88_addr_in_on_section_def hmetfr_answer_def at_def)
  qed
qed

abbreviation (input) box_poll :: "'c chip_ops \<Rightarrow> nat \<Rightarrow> (('c, 'z) hw_scheme, unit option) cm" where
  "box_poll C box \<equiv> tryE (rtw88_usb_read1 C REG_HMETFR)
     (\<lambda>tfr. ret (if \<not> bit tfr box then Some () else None))"

lemma hmetfr_poll:
  assumes "mtx_depth s \<noteq> 0" "\<not> sc_io_busy s" "pollE n (box_poll C box) s = (r, s')"
  shows "\<exists>k \<le> n. polled C k s s' \<and> (\<forall>i. Suc i < k \<longrightarrow> box_full C box i (chip s)) \<and>
    (case r of Inl e \<Rightarrow> e = Errno EIO \<and> 0 < k \<and> hmetfr_answer C (k - 1) (chip s) = None
     | Inr None \<Rightarrow> k = n \<and> (\<forall>i < n. box_full C box i (chip s))
     | Inr (Some _) \<Rightarrow> 0 < k \<and> box_clear C box (k - 1) (chip s))"
  using assms
proof (induction n arbitrary: s)
  case 0
  then show ?case by (auto simp: polled_0)
next
  case (Suc n)
  obtain r1 s1 where r1: "rtw88_usb_read1 C REG_HMETFR s = (r1, s1)" by fastforce
  from hmetfr_read [OF Suc.prems(1,2) r1] have p1: "polled C 1 s s1"
    and a1: "case hmetfr_answer C 0 (chip s) of None \<Rightarrow> r1 = Inl (Errno EIO) | Some v \<Rightarrow> r1 = Inr v" by auto
  show ?case
  proof (cases "hmetfr_answer C 0 (chip s)")
    case None
    with r1 a1 Suc.prems(3) p1 show ?thesis
      by (intro exI [of _ 1]) (auto simp: tryE_def)
  next
    case (Some v)
    show ?thesis
    proof (cases "bit v box")
      case False
      with r1 Suc.prems(3) Some a1 p1 show ?thesis
        by (intro exI [of _ 1]) (auto simp: tryE_def box_clear_def)
    next
      case True
      with r1 a1 Some have "box_poll C box s = (Inr None, s1)" by simp
      from pollE_None_next [where body = "box_poll C box", OF this] Suc.prems(3) have run: "pollE n (box_poll C box) s1 = (r, s')"
        by (simp only:)
      from p1 Suc.prems(1,2) have s1: "mtx_depth s1 \<noteq> 0" "\<not> sc_io_busy s1"
        "chip s1 = snd (c_read C REG_HMETFR 1 (chip s))" by (auto simp: polled_def)
      have full: "box_full C box 0 (chip s)" using Some True by (simp add: box_full_def)
      have shift: "hmetfr_answer C i (chip s1) = hmetfr_answer C (Suc i) (chip s)"
        "box_full C box i (chip s1) = box_full C box (Suc i) (chip s)"
        "box_clear C box i (chip s1) = box_clear C box (Suc i) (chip s)" for i
        by (simp_all add: s1(3) box_full_def box_clear_def hmetfr_answer_Suc)
      from Suc.IH [OF s1(1,2) run] obtain k where k: "k \<le> n" "polled C k s1 s'"
        "\<forall>i. Suc i < k \<longrightarrow> box_full C box (Suc i) (chip s)"
        "case r of Inl e \<Rightarrow> e = Errno EIO \<and> 0 < k \<and> hmetfr_answer C (Suc (k - 1)) (chip s) = None
         | Inr None \<Rightarrow> k = n \<and> (\<forall>i < n. box_full C box (Suc i) (chip s))
         | Inr (Some _) \<Rightarrow> 0 < k \<and> box_clear C box (Suc (k - 1)) (chip s)" unfolding shift by blast
      from k(3) full have "Suc i < Suc k \<longrightarrow> box_full C box i (chip s)" for i by (cases i) auto
      with k(1,2,4) polled_Suc [OF p1, of k s'] full show ?thesis
        by (intro exI [of _ "Suc k"]) (auto simp: less_Suc_eq_0_disj split: sum.splits option.splits)
    qed
  qed
qed

lemma assert_locked_seq: "mtx_depth s \<noteq> 0 \<Longrightarrow> seqE RTW88_ASSERT_LOCKED k s = k s"
  by (simp add: seqE_def tryE_def RTW88_ASSERT_LOCKED_def)

text \<open>A four-byte write outside the always-on sections is one request.\<close>

lemma write4_unsealed:
  assumes "mtx_depth s \<noteq> 0" "\<not> sc_io_busy s" "\<not> rtw88_addr_in_on_section a"
    and "rtw88_usb_write4 C a v s = (r, s')"
  shows "ep0_log s' = ep0_log s @ [EpWrite a (le32enc v)] \<and> mtx_depth s' = mtx_depth s \<and>
    \<not> sc_io_busy s' \<and> sc_h2c_box_next s' = sc_h2c_box_next s \<and> chip s' = snd (c_write C a (le32enc v) (chip s)) \<and>
    r = (if fst (c_write C a (le32enc v) (chip s)) then Inr () else Inl (Errno EIO))"
proof -
  obtain ok c where c: "c_write C a (le32enc v) (chip s) = (ok, c)" by fastforce
  then show ?thesis
    using assms write_region_ok [OF assms(1,2), of C a "le32enc v" c]
      write_region_err [OF assms(1,2), of C a "le32enc v" c]
    by (cases ok) (auto simp: rtw88_usb_write4_def sealed_def)
qed

lemma less_4_cases: "(b::nat) < 4 \<Longrightarrow> b = 0 \<or> b = 1 \<or> b = 2 \<or> b = 3"
  by linarith

lemma box_addrs_unsealed:
  "b < 4 \<Longrightarrow> \<not> rtw88_addr_in_on_section (box_addr ! b)"
  "b < 4 \<Longrightarrow> \<not> rtw88_addr_in_on_section (box_ex_addr ! b)"
  by (auto simp: box_addr_def box_ex_addr_def rtw88_addr_in_on_section_def dest!: less_4_cases)

lemma box_index: "unat (b AND 3) < 4" for b :: u8
proof -
  have "unat (b AND 3) \<le> unat (3::u8)" by (rule word_le_nat_alt [THEN iffD1]) (simp add: word_and_le1)
  then show ?thesis by simp
qed

lemma h2c_mailbox_log:
  assumes "mtx_depth s \<noteq> 0" "\<not> sc_io_busy s"
    and "rtw88_h2c_mailbox C msg ext s = (r, s')"
  defines "box \<equiv> unat (sc_h2c_box_next s AND 3)"
    and "ex \<equiv> c_write C (box_ex_addr ! unat (sc_h2c_box_next s AND 3)) (le32enc ext)"
    and "cmd \<equiv> c_write C (box_addr ! unat (sc_h2c_box_next s AND 3)) (le32enc msg)"
  shows "\<exists>k \<le> 30. \<exists>ws. ep0_log s' = ep0_log s @ replicate k (EpRead REG_HMETFR 1) @ ws \<and>
    (\<forall>i. Suc i < k \<longrightarrow> box_full C box i (chip s)) \<and>
    (case r of
      Inr _ \<Rightarrow> 0 < k \<and> box_clear C box (k - 1) (chip s) \<and> fst (ex (hmetfr_after C k (chip s))) \<and>
        fst (cmd (snd (ex (hmetfr_after C k (chip s))))) \<and>
        ws = [EpWrite (box_ex_addr ! box) (le32enc ext), EpWrite (box_addr ! box) (le32enc msg)] \<and>
        sc_h2c_box_next s' = (sc_h2c_box_next s + 1) AND 3
    | Inl e \<Rightarrow> sc_h2c_box_next s' = sc_h2c_box_next s \<and>
        ((e = Errno EBUSY \<and> k = 30 \<and> (\<forall>i < 30. box_full C box i (chip s)) \<and> ws = []) \<or>
         (e = Errno EIO \<and> 0 < k \<and> hmetfr_answer C (k - 1) (chip s) = None \<and> ws = []) \<or>
         (e = Errno EIO \<and> 0 < k \<and> box_clear C box (k - 1) (chip s) \<and> \<not> fst (ex (hmetfr_after C k (chip s))) \<and>
           ws = [EpWrite (box_ex_addr ! box) (le32enc ext)]) \<or>
         (e = Errno EIO \<and> 0 < k \<and> box_clear C box (k - 1) (chip s) \<and> fst (ex (hmetfr_after C k (chip s))) \<and>
           \<not> fst (cmd (snd (ex (hmetfr_after C k (chip s))))) \<and>
           ws = [EpWrite (box_ex_addr ! box) (le32enc ext), EpWrite (box_addr ! box) (le32enc msg)])))"
proof -
  have box: "box < 4" unfolding box_def by (rule box_index)
  note unsealed = box_addrs_unsealed [OF box]
  have run: "tryE (pollE 30 (box_poll C box)) (\<lambda>r. case r of None \<Rightarrow> fail (Errno EBUSY)
      | Some _ \<Rightarrow> seqE (rtw88_usb_write4 C (box_ex_addr ! box) ext)
          (seqE (rtw88_usb_write4 C (box_addr ! box) msg)
           (updS (\<lambda>s. s\<lparr>sc_h2c_box_next := (sc_h2c_box_next s + 1) AND 3\<rparr>)))) s = (r, s')"
    using assms(1,3) unfolding rtw88_h2c_mailbox_def box_def
    by (simp only: assert_locked_seq [OF assms(1)] tryE_getS)
  obtain r1 s1 where p: "pollE 30 (box_poll C box) s = (r1, s1)" by fastforce
  from hmetfr_poll [OF assms(1,2) p] obtain k where k: "k \<le> 30" "polled C k s s1"
    and full: "\<forall>i. Suc i < k \<longrightarrow> box_full C box i (chip s)"
    and res: "case r1 of Inl e \<Rightarrow> e = Errno EIO \<and> 0 < k \<and> hmetfr_answer C (k - 1) (chip s) = None
     | Inr None \<Rightarrow> k = 30 \<and> (\<forall>i < 30. box_full C box i (chip s))
     | Inr (Some _) \<Rightarrow> 0 < k \<and> box_clear C box (k - 1) (chip s)" by blast
  from k(2) assms(1,2) have s1: "mtx_depth s1 \<noteq> 0" "\<not> sc_io_busy s1" "chip s1 = hmetfr_after C k (chip s)"
    by (auto simp: polled_def)
  have ex: "ex = c_write C (box_ex_addr ! box) (le32enc ext)" "cmd = c_write C (box_addr ! box) (le32enc msg)"
    by (simp_all add: ex_def cmd_def box_def)
  consider (io) e where "r1 = Inl e" | (full) "r1 = Inr None" | (free) "r1 = Inr (Some ())"
    by (cases r1; metis not_None_eq old.unit.exhaust)
  then show ?thesis
  proof cases
    case io
    with run p res k full show ?thesis by (intro exI [of _ k]) (auto simp: polled_def)
  next
    case full
    with run p res k show ?thesis by (intro exI [of _ k]) (auto simp: polled_def)
  next
    case free
    with res have clear: "0 < k" "box_clear C box (k - 1) (chip s)" by auto
    obtain r2 s2 where w1: "rtw88_usb_write4 C (box_ex_addr ! box) ext s1 = (r2, s2)" by fastforce
    note w1' = write4_unsealed [OF s1(1,2) unsealed(2) w1, unfolded s1(3), folded ex]
    show ?thesis
    proof (cases r2)
      case (Inl e)
      with run p free w1 w1' clear k full show ?thesis by (intro exI [of _ k]) (auto simp: polled_def split: if_splits)
    next
      case (Inr u)
      from w1' s1 have s2: "mtx_depth s2 \<noteq> 0" "\<not> sc_io_busy s2" "chip s2 = snd (ex (hmetfr_after C k (chip s)))" by auto
      obtain r3 s3 where w2: "rtw88_usb_write4 C (box_addr ! box) msg s2 = (r3, s3)" by fastforce
      note w2' = write4_unsealed [OF s2(1,2) unsealed(1) w2, unfolded s2(3), folded ex]
      from run p free w1 w2 w1' w2' clear full k Inr show ?thesis
        by (intro exI [of _ k]) (cases r3; auto simp: polled_def split: if_splits)
    qed
  qed
qed

lemma h2c_mailbox_sent:
  assumes "mtx_depth s \<noteq> 0" "\<not> sc_io_busy s" "rtw88_h2c_mailbox C msg ext s = (Inr (), s')"
  shows "\<exists>t box. box < 4 \<and> ep0_log s' = ep0_log s @ t @
    [EpWrite (box_ex_addr ! box) (le32enc ext), EpWrite (box_addr ! box) (le32enc msg)]"
  using h2c_mailbox_log [OF assms] box_index [of "sc_h2c_box_next s"] by auto

text \<open>C14. What the H2C mailbox does on the wire, whatever the chip answers. The driver polls HMETFR at
  most thirty times, and goes on only while the answer has the flag of its box set. Only when an answer has that flag clear does it
  write, the extension word first and the command word last, into the box whose turn it is, and only when the chip accepts both
  writes does the turn pass to the next of the four boxes. Thirty answers with the flag set give EBUSY with nothing
  written, a poll the chip fails gives EIO with nothing written, a rejected write gives EIO and is the last
  request, and on every error the turn is kept.\<close>
theorem h2c_mailbox_wire:
  assumes "mtx_depth s \<noteq> 0" "\<not> sc_io_busy s"
    and "rtw88_h2c_mailbox C msg ext s = (r, s')"
  defines "box \<equiv> unat (sc_h2c_box_next s AND 3)"
    and "ex \<equiv> c_write C (box_ex_addr ! unat (sc_h2c_box_next s AND 3)) (le32enc ext)"
    and "cmd \<equiv> c_write C (box_addr ! unat (sc_h2c_box_next s AND 3)) (le32enc msg)"
  shows "\<exists>k \<le> 30. \<exists>ws. ep0_log s' = ep0_log s @ replicate k (EpRead REG_HMETFR 1) @ ws \<and>
    (\<forall>i. Suc i < k \<longrightarrow> box_full C box i (chip s)) \<and>
    (case r of
      Inr _ \<Rightarrow> 0 < k \<and> box_clear C box (k - 1) (chip s) \<and> fst (ex (hmetfr_after C k (chip s))) \<and>
        fst (cmd (snd (ex (hmetfr_after C k (chip s))))) \<and>
        ws = [EpWrite (box_ex_addr ! box) (le32enc ext), EpWrite (box_addr ! box) (le32enc msg)] \<and>
        sc_h2c_box_next s' = (sc_h2c_box_next s + 1) AND 3
    | Inl e \<Rightarrow> sc_h2c_box_next s' = sc_h2c_box_next s \<and>
        ((e = Errno EBUSY \<and> k = 30 \<and> (\<forall>i < 30. box_full C box i (chip s)) \<and> ws = []) \<or>
         (e = Errno EIO \<and> 0 < k \<and> hmetfr_answer C (k - 1) (chip s) = None \<and> ws = []) \<or>
         (e = Errno EIO \<and> 0 < k \<and> box_clear C box (k - 1) (chip s) \<and> \<not> fst (ex (hmetfr_after C k (chip s))) \<and>
           ws = [EpWrite (box_ex_addr ! box) (le32enc ext)]) \<or>
         (e = Errno EIO \<and> 0 < k \<and> box_clear C box (k - 1) (chip s) \<and> fst (ex (hmetfr_after C k (chip s))) \<and>
           \<not> fst (cmd (snd (ex (hmetfr_after C k (chip s))))) \<and>
           ws = [EpWrite (box_ex_addr ! box) (le32enc ext), EpWrite (box_addr ! box) (le32enc msg)])))"
  unfolding box_def ex_def cmd_def by (rule h2c_mailbox_log [OF assms(1-3)])

text \<open>A chip that answers every read with zeroes and accepts every write, and a thread on the bus.\<close>

definition idle_ops :: "unit chip_ops" where
  "idle_ops = \<lparr>c_read = (\<lambda>a n c. (Some (\<lambda>_. 0), c)), c_write = (\<lambda>a bs c. (True, c)),
     c_bulk = (\<lambda>p bs c. (XferDone, c))\<rparr>"

definition on_bus_hw :: "'c \<Rightarrow> 'c hw" where
  "on_bus_hw c = \<lparr>chip = c, ep0_log = [], mtx_depth = 1, invariants = True, sc_io_busy = False,
     sc_stat_usb_errors = 0, sc_write_trace = 0, sc_h2c_box_next = 3\<rparr>"

definition free_hw :: "'c \<Rightarrow> 'c hw" where
  "free_hw c = (on_bus_hw c)\<lparr>mtx_depth := 0\<rparr>"

theorem h2c_mailbox_wire_witness:
  "\<exists>k \<le> 30. \<exists>ws. ep0_log (snd (rtw88_h2c_mailbox idle_ops 0x20 0 (on_bus_hw ()))) =
     replicate k (EpRead REG_HMETFR 1) @ ws \<and> box_clear idle_ops 3 (k - 1) () \<and> length ws = 2"
proof -
  have "\<exists>r s'. rtw88_h2c_mailbox idle_ops 0x20 0 (on_bus_hw ()) = (r, s')" by simp
  then obtain r s' where run: "rtw88_h2c_mailbox idle_ops 0x20 0 (on_bus_hw ()) = (r, s')" by blast
  have "fst (rtw88_h2c_mailbox idle_ops 0x20 0 (on_bus_hw ())) = Inr ()"
    by code_simp
  with run have "r = Inr ()" by simp
  with h2c_mailbox_wire [OF _ _ run] run show ?thesis by (auto simp: on_bus_hw_def)
qed

text \<open>C15. Register writes on the wire. With the mutex held and no request in flight, a write is
  one vendor request; when the device accepts it and the address lies in the always-on sections the seal,
  a one-byte write of the first byte to 0x4E0, is the next and last request, and a rejected request
  is counted, not sealed, and reported as EIO. On every branch the in-flight flag is released and the
  mutex still held. A caller that does not hold the mutex panics on a kernel with INVARIANTS before
  anything reaches the wire.\<close>
theorem write_region_wire:
  fixes s :: "('c, 'z) hw_scheme"
  assumes "\<not> sc_io_busy s" "rtw88_usb_write_region C addr buf s = (r, s')"
    and "mtx_depth s \<noteq> 0 \<or> invariants s"
  shows "\<not> sc_io_busy s' \<and> mtx_depth s' = mtx_depth s \<and> hw.more s' = hw.more s \<and>
    (if mtx_depth s = 0 then r = Inl Panic \<and> s' = s
     else case fst (c_write C addr buf (chip s)) of
       False \<Rightarrow> r = Inl (Errno EIO) \<and> ep0_log s' = ep0_log s @ [EpWrite addr buf] \<and>
         sc_stat_usb_errors s' = sc_stat_usb_errors s + 1 \<and> sc_write_trace s' = sc_write_trace s
     | True \<Rightarrow> r = Inr () \<and> ep0_log s' = ep0_log s @ [EpWrite addr buf] @
         (if rtw88_addr_in_on_section addr then [EpWrite 0x04E0 [at buf 0]] else []) \<and>
         sc_stat_usb_errors s' = sc_stat_usb_errors s \<and>
         sc_write_trace s' = (if sc_write_trace s = 0 then 0 else sc_write_trace s - 1))"
proof (cases "mtx_depth s = 0")
  case True
  with assms show ?thesis
    by (simp add: rtw88_usb_write_region_def RTW88_ASSERT_LOCKED_def seqE_def tryE_def)
next
  case False
  obtain ok c where c: "c_write C addr buf (chip s) = (ok, c)" by fastforce
  show ?thesis
  proof (cases ok)
    case True
    with False assms c write_region_ok [OF False assms(1), of C addr buf c] show ?thesis
      by (auto simp: sealed_log)
  next
    case no: False
    with False assms c write_region_err [OF False assms(1), of C addr buf c] show ?thesis
      by auto
  qed
qed

theorem write_region_wire_witness:
  "ep0_log (snd (rtw88_usb_write_region idle_ops 0x04 [0xAB, 0xCD] (on_bus_hw ()))) =
     [EpWrite 0x04 [0xAB, 0xCD], EpWrite 0x04E0 [0xAB]]"
proof -
  have "fst (c_write idle_ops 0x04 [0xAB, 0xCD] (chip (on_bus_hw ())))" by code_simp
  with write_region_wire [OF _ surjective_pairing, of "on_bus_hw ()" idle_ops "0x04" "[0xAB, 0xCD]"]
  show ?thesis
    by (simp add: on_bus_hw_def rtw88_addr_in_on_section_def at_def)
qed

text \<open>C16. Register reads on the wire, as for writes: one vendor request, the seal with the first byte
  read when it succeeds in an always-on section, EIO and a count when it fails, the flag released
  and the mutex held on every branch. The value returned has the length asked for.\<close>
theorem read_region_wire:
  fixes s :: "('c, 'z) hw_scheme"
  assumes "\<not> sc_io_busy s" "rtw88_usb_read_region C addr len s = (r, s')"
    and "mtx_depth s \<noteq> 0 \<or> invariants s"
  shows "\<not> sc_io_busy s' \<and> mtx_depth s' = mtx_depth s \<and> hw.more s' = hw.more s \<and>
    (if mtx_depth s = 0 then r = Inl Panic \<and> s' = s
     else case fst (c_read C addr len (chip s)) of
       None \<Rightarrow> r = Inl (Errno EIO) \<and> ep0_log s' = ep0_log s @ [EpRead addr len] \<and>
         sc_stat_usb_errors s' = sc_stat_usb_errors s + 1
     | Some f \<Rightarrow> (\<exists>buf. r = Inr buf \<and> length buf = unat len \<and> (\<forall>i. i < unat len \<longrightarrow> buf ! i = f i) \<and>
         ep0_log s' = ep0_log s @ [EpRead addr len] @
           (if rtw88_addr_in_on_section addr then [EpWrite 0x04E0 [at buf 0]] else []) \<and>
         sc_stat_usb_errors s' = sc_stat_usb_errors s))"
proof (cases "mtx_depth s = 0")
  case True
  with assms show ?thesis
    by (simp add: rtw88_usb_read_region_def RTW88_ASSERT_LOCKED_def seqE_def tryE_def)
next
  case False
  obtain res c where c: "c_read C addr len (chip s) = (res, c)" by fastforce
  show ?thesis
  proof (cases res)
    case (Some f)
    with False assms c read_region_ok [OF False assms(1), of C addr len f c] show ?thesis
      by (auto simp: sealed_log)
  next
    case None
    with False assms c read_region_err [OF False assms(1), of C addr len c] show ?thesis
      by auto
  qed
qed

theorem read_region_wire_witness:
  "ep0_log (snd (rtw88_usb_read_region idle_ops 0x1CC 1 (on_bus_hw ()))) = [EpRead 0x1CC 1]"
proof -
  have "c_read idle_ops 0x1CC 1 (chip (on_bus_hw ())) = (Some (\<lambda>_. 0), ())" by (simp add: idle_ops_def)
  with read_region_wire [OF _ surjective_pairing, of "on_bus_hw ()" idle_ops "0x1CC" 1]
  show ?thesis
    by (auto simp: on_bus_hw_def rtw88_addr_in_on_section_def)
qed

end
