(* ===== verification/Rtw_Ep0_Lock.thy ===== *)
theory Rtw_Ep0_Lock
  imports Rtw_Usb
begin

section \<open>Interleaved register accesses\<close>

text \<open>
  \<^verbatim>\<open>usbd_do_request_flags\<close> releases \<^verbatim>\<open>sc_mtx\<close> while the request is on the wire, so threads that all take the
  mutex can still meet on EP0; \<^verbatim>\<open>rtw88_usb_io_enter\<close> and \<^verbatim>\<open>rtw88_usb_io_exit\<close> are there to keep their
  accesses apart. This theory models any number of threads (numbered by \<open>nat\<close>) that run
  \<^verbatim>\<open>rtw88_usb_read_region\<close> or \<^verbatim>\<open>rtw88_usb_write_region\<close>, one rule per point at which another thread can
  run: taking the mutex, testing the flag, sleeping in \<^verbatim>\<open>msleep\<close> (which releases the mutex),
  submitting the request (which releases it again), completing it, the seal request of an
  always-on address, \<^verbatim>\<open>io_exit\<close> with its \<^verbatim>\<open>wakeup_one\<close>, and releasing the mutex.
\<close>

datatype pc =
    Out          \<comment> \<open>does not hold the mutex, not in the driver\<close>
  | Held         \<comment> \<open>holds the mutex, between two accesses\<close>
  | Testing      \<comment> \<open>holds the mutex, at the \<^verbatim>\<open>while\<close> of \<^verbatim>\<open>io_enter\<close>\<close>
  | Asleep       \<comment> \<open>in \<^verbatim>\<open>msleep\<close>\<close>
  | Woken        \<comment> \<open>woken, has to take the mutex again\<close>
  | Claimed      \<comment> \<open>holds the mutex, has set the flag\<close>
  | Wire         \<comment> \<open>its request is on EP0, mutex released\<close>
  | Done         \<comment> \<open>holds the mutex, request completed\<close>
  | SealWire     \<comment> \<open>its seal request is on EP0, mutex released\<close>
  | SealDone     \<comment> \<open>holds the mutex, seal completed\<close>

datatype ep0_event = Main nat | Seal nat

record ep0_sys =
  pcs :: "nat \<Rightarrow> pc"
  owner :: "nat option"
  busy :: bool
  wire :: "ep0_event list"   \<comment> \<open>requests submitted on EP0, latest first\<close>

definition ep0_init :: ep0_sys where
  "ep0_init = \<lparr>pcs = (\<lambda>_. Out), owner = None, busy = False, wire = []\<rparr>"

inductive ep0_step :: "ep0_sys \<Rightarrow> ep0_sys \<Rightarrow> bool" where
  lock: "pcs s i = Out \<Longrightarrow> owner s = None \<Longrightarrow>
     ep0_step s (s\<lparr>pcs := (pcs s)(i := Held), owner := Some i\<rparr>)"
| unlock: "pcs s i = Held \<Longrightarrow>
     ep0_step s (s\<lparr>pcs := (pcs s)(i := Out), owner := None\<rparr>)"
| enter: "pcs s i = Held \<Longrightarrow>
     ep0_step s (s\<lparr>pcs := (pcs s)(i := Testing)\<rparr>)"
| sleep: "pcs s i = Testing \<Longrightarrow> busy s \<Longrightarrow>
     ep0_step s (s\<lparr>pcs := (pcs s)(i := Asleep), owner := None\<rparr>)"
| retest: "pcs s i = Woken \<Longrightarrow> owner s = None \<Longrightarrow>
     ep0_step s (s\<lparr>pcs := (pcs s)(i := Testing), owner := Some i\<rparr>)"
| claim: "pcs s i = Testing \<Longrightarrow> \<not> busy s \<Longrightarrow>
     ep0_step s (s\<lparr>pcs := (pcs s)(i := Claimed), busy := True\<rparr>)"
| submit: "pcs s i = Claimed \<Longrightarrow>
     ep0_step s (s\<lparr>pcs := (pcs s)(i := Wire), owner := None, wire := Main i # wire s\<rparr>)"
| complete: "pcs s i = Wire \<Longrightarrow> owner s = None \<Longrightarrow>
     ep0_step s (s\<lparr>pcs := (pcs s)(i := Done), owner := Some i\<rparr>)"
| seal: "pcs s i = Done \<Longrightarrow>
     ep0_step s (s\<lparr>pcs := (pcs s)(i := SealWire), owner := None, wire := Seal i # wire s\<rparr>)"
| seal_complete: "pcs s i = SealWire \<Longrightarrow> owner s = None \<Longrightarrow>
     ep0_step s (s\<lparr>pcs := (pcs s)(i := SealDone), owner := Some i\<rparr>)"
| exit_quiet: "pcs s i = Done \<or> pcs s i = SealDone \<Longrightarrow> (\<forall>j. pcs s j \<noteq> Asleep) \<Longrightarrow>
     ep0_step s (s\<lparr>pcs := (pcs s)(i := Held), busy := False\<rparr>)"
| exit_wake: "pcs s i = Done \<or> pcs s i = SealDone \<Longrightarrow> pcs s j = Asleep \<Longrightarrow>
     ep0_step s (s\<lparr>pcs := (pcs s)(i := Held, j := Woken), busy := False\<rparr>)"

inductive ep0_reach :: "ep0_sys \<Rightarrow> bool" where
  start: "ep0_reach ep0_init"
| step: "ep0_reach s \<Longrightarrow> ep0_step s t \<Longrightarrow> ep0_reach t"

inductive_cases ep0_stepE: "ep0_step s t"

subsection \<open>The invariant\<close>

text \<open>The points at which a thread holds the mutex, and those at which it has the flag.\<close>

definition holds_mtx :: "pc \<Rightarrow> bool" where
  "holds_mtx p \<longleftrightarrow> p \<in> {Held, Testing, Claimed, Done, SealDone}"

definition holds_flag :: "pc \<Rightarrow> bool" where
  "holds_flag p \<longleftrightarrow> p \<in> {Claimed, Wire, Done, SealWire, SealDone}"

lemma pc_class_simps [simp]:
  "\<not> holds_mtx Out" "holds_mtx Held" "holds_mtx Testing" "\<not> holds_mtx Asleep" "\<not> holds_mtx Woken"
  "holds_mtx Claimed" "\<not> holds_mtx Wire" "holds_mtx Done" "\<not> holds_mtx SealWire" "holds_mtx SealDone"
  "\<not> holds_flag Out" "\<not> holds_flag Held" "\<not> holds_flag Testing" "\<not> holds_flag Asleep"
  "\<not> holds_flag Woken" "holds_flag Claimed" "holds_flag Wire" "holds_flag Done"
  "holds_flag SealWire" "holds_flag SealDone"
  by (simp_all add: holds_mtx_def holds_flag_def)

definition owner_inv :: "ep0_sys \<Rightarrow> bool" where
  "owner_inv s \<longleftrightarrow> (\<forall>i. holds_mtx (pcs s i) \<longleftrightarrow> owner s = Some i)"

definition flag_inv :: "ep0_sys \<Rightarrow> bool" where
  "flag_inv s \<longleftrightarrow> (busy s \<longleftrightarrow> (\<exists>i. holds_flag (pcs s i))) \<and>
     (\<forall>i j. holds_flag (pcs s i) \<longrightarrow> holds_flag (pcs s j) \<longrightarrow> i = j)"

text \<open>A sleeper is always owed a wake-up: somebody has the flag, or was woken and will test it.\<close>

definition wake_inv :: "ep0_sys \<Rightarrow> bool" where
  "wake_inv s \<longleftrightarrow> (\<exists>i. pcs s i = Asleep) \<longrightarrow> busy s \<or> (\<exists>i. pcs s i = Woken \<or> pcs s i = Testing)"

text \<open>Seals directly follow the request they seal.\<close>

fun seals_ok :: "ep0_event list \<Rightarrow> bool" where
  "seals_ok [] \<longleftrightarrow> True"
| "seals_ok (Main i # es) \<longleftrightarrow> seals_ok es"
| "seals_ok (Seal i # es) \<longleftrightarrow> (case es of Main j # _ \<Rightarrow> j = i | _ \<Rightarrow> False) \<and> seals_ok es"

definition wire_inv :: "ep0_sys \<Rightarrow> bool" where
  "wire_inv s \<longleftrightarrow> seals_ok (wire s) \<and>
     (\<forall>i. pcs s i = Wire \<or> pcs s i = Done \<longrightarrow> (\<exists>es. wire s = Main i # es))"

lemma owner_inv_holds: "owner_inv s \<Longrightarrow> holds_mtx (pcs s i) \<Longrightarrow> owner s = Some i"
  by (simp add: owner_inv_def)

lemma owner_inv_upd:
  assumes "owner_inv s" "pcs t = (pcs s)(i := p)" "owner s = Some i \<or> owner s = None"
    and "owner t = (if holds_mtx p then Some i else None)"
  shows "owner_inv t"
  using assms unfolding owner_inv_def by (metis fun_upd_apply option.distinct(1) option.inject)

lemma owner_inv_step:
  assumes step: "ep0_step s t" and inv: "owner_inv s"
  shows "owner_inv t"
  using step
proof (cases rule: ep0_step.cases)
  case (exit_wake i j)
  then have "holds_mtx (pcs s i)" by auto
  from owner_inv_holds [OF inv this] have o: "owner s = Some i" .
  have "owner_inv (s\<lparr>pcs := (pcs s)(i := Held)\<rparr>)"
    by (rule owner_inv_upd [OF inv, where i = i and p = Held]) (simp_all add: o)
  then show ?thesis
    using exit_wake o unfolding owner_inv_def by (auto split: if_splits)
next
  case (lock i)
  then show ?thesis by (intro owner_inv_upd [OF inv, of t i Held]) auto
next
  case (unlock i)
  then have "holds_mtx (pcs s i)" by auto
  from owner_inv_holds [OF inv this] unlock show ?thesis
    by (intro owner_inv_upd [OF inv, of t i Out]) auto
next
  case (enter i)
  then have "holds_mtx (pcs s i)" by auto
  from owner_inv_holds [OF inv this] enter show ?thesis
    by (intro owner_inv_upd [OF inv, of t i Testing]) auto
next
  case (sleep i)
  then have "holds_mtx (pcs s i)" by auto
  from owner_inv_holds [OF inv this] sleep show ?thesis
    by (intro owner_inv_upd [OF inv, of t i Asleep]) auto
next
  case (retest i)
  then show ?thesis by (intro owner_inv_upd [OF inv, of t i Testing]) auto
next
  case (claim i)
  then have "holds_mtx (pcs s i)" by auto
  from owner_inv_holds [OF inv this] claim show ?thesis
    by (intro owner_inv_upd [OF inv, of t i Claimed]) auto
next
  case (submit i)
  then have "holds_mtx (pcs s i)" by auto
  from owner_inv_holds [OF inv this] submit show ?thesis
    by (intro owner_inv_upd [OF inv, of t i Wire]) auto
next
  case (complete i)
  then show ?thesis by (intro owner_inv_upd [OF inv, of t i Done]) auto
next
  case (seal i)
  then have "holds_mtx (pcs s i)" by auto
  from owner_inv_holds [OF inv this] seal show ?thesis
    by (intro owner_inv_upd [OF inv, of t i SealWire]) auto
next
  case (seal_complete i)
  then show ?thesis by (intro owner_inv_upd [OF inv, of t i SealDone]) auto
next
  case (exit_quiet i)
  then have "holds_mtx (pcs s i)" by auto
  from owner_inv_holds [OF inv this] exit_quiet show ?thesis
    by (intro owner_inv_upd [OF inv, of t i Held]) auto
qed

lemma flag_inv_same:
  "flag_inv s \<Longrightarrow> busy t = busy s \<Longrightarrow> (\<And>k. holds_flag (pcs t k) = holds_flag (pcs s k)) \<Longrightarrow> flag_inv t"
  by (simp add: flag_inv_def)

lemma flag_inv_exit:
  assumes "flag_inv s" "holds_flag (pcs s i)" "\<not> busy t"
    and "\<And>k. holds_flag (pcs t k) \<Longrightarrow> k \<noteq> i \<and> holds_flag (pcs s k)"
  shows "flag_inv t"
proof -
  from assms(1,2) have "\<And>k. holds_flag (pcs s k) \<Longrightarrow> k = i" unfolding flag_inv_def by blast
  with assms(4) have "\<And>k. \<not> holds_flag (pcs t k)" by blast
  with assms(3) show ?thesis by (simp add: flag_inv_def)
qed

lemma flag_inv_step:
  assumes "ep0_step s t" "flag_inv s"
  shows "flag_inv t"
  using assms
proof (cases rule: ep0_step.cases)
  case (claim i)
  with \<open>flag_inv s\<close> show ?thesis by (simp add: flag_inv_def)
next
  case (exit_quiet i)
  then have "holds_flag (pcs s i)" by auto
  then show ?thesis
    by (rule flag_inv_exit [OF \<open>flag_inv s\<close>]) (use exit_quiet in \<open>auto split: if_splits\<close>)
next
  case (exit_wake i j)
  then have "holds_flag (pcs s i)" by auto
  then show ?thesis
    by (rule flag_inv_exit [OF \<open>flag_inv s\<close>]) (use exit_wake in \<open>auto split: if_splits\<close>)
qed (auto intro!: flag_inv_same [OF \<open>flag_inv s\<close>] split: if_splits)

lemma wake_inv_other:
  assumes "wake_inv s" "busy t = busy s" "pcs t = (pcs s)(i := p)" "p \<noteq> Asleep"
    and "pcs s i \<noteq> Woken" "pcs s i \<noteq> Testing"
  shows "wake_inv t"
  unfolding wake_inv_def
proof
  assume "\<exists>k. pcs t k = Asleep"
  with assms(3,4) have "\<exists>k. pcs s k = Asleep" by (metis fun_upd_apply)
  with assms(1) consider "busy s" | k where "pcs s k = Woken \<or> pcs s k = Testing"
    by (auto simp: wake_inv_def)
  then show "busy t \<or> (\<exists>k. pcs t k = Woken \<or> pcs t k = Testing)"
  proof cases
    case 1
    with assms(2) show ?thesis by simp
  next
    case 2
    with assms(5,6) have "k \<noteq> i" by auto
    with 2 assms(3) show ?thesis by (metis fun_upd_apply)
  qed
qed

lemma wake_inv_step:
  assumes step: "ep0_step s t" and inv: "wake_inv s"
  shows "wake_inv t"
  using step
proof (cases rule: ep0_step.cases)
  case (sleep i)
  then show ?thesis by (simp add: wake_inv_def)
next
  case (claim i)
  then show ?thesis by (simp add: wake_inv_def)
next
  case (retest i)
  then show ?thesis by (auto simp: wake_inv_def)
next
  case (exit_quiet i)
  then show ?thesis by (auto simp: wake_inv_def)
next
  case (exit_wake i j)
  then show ?thesis by (auto simp: wake_inv_def)
next
  case (lock i)
  then show ?thesis by (intro wake_inv_other [OF inv, of t i Held]) auto
next
  case (unlock i)
  then show ?thesis by (intro wake_inv_other [OF inv, of t i Out]) auto
next
  case (enter i)
  then show ?thesis by (intro wake_inv_other [OF inv, of t i Testing]) auto
next
  case (submit i)
  then show ?thesis by (intro wake_inv_other [OF inv, of t i Wire]) auto
next
  case (complete i)
  then show ?thesis by (intro wake_inv_other [OF inv, of t i Done]) auto
next
  case (seal i)
  then show ?thesis by (intro wake_inv_other [OF inv, of t i SealWire]) auto
next
  case (seal_complete i)
  then show ?thesis by (intro wake_inv_other [OF inv, of t i SealDone]) auto
qed

lemma wire_inv_same:
  assumes "wire_inv s" "wire t = wire s"
    and "\<And>k. pcs t k = Wire \<or> pcs t k = Done \<Longrightarrow> pcs s k = Wire \<or> pcs s k = Done"
  shows "wire_inv t"
  using assms unfolding wire_inv_def by metis

lemma flag_inv_one: "flag_inv s \<Longrightarrow> holds_flag (pcs s i) \<Longrightarrow> holds_flag (pcs s j) \<Longrightarrow> j = i"
  by (simp add: flag_inv_def)

lemma wire_inv_step:
  assumes step: "ep0_step s t" and one: "flag_inv s" and inv: "wire_inv s"
  shows "wire_inv t"
  using step
proof (cases rule: ep0_step.cases)
  case (submit i)
  then have "pcs s j = Wire \<or> pcs s j = Done \<Longrightarrow> j = i" for j
    using flag_inv_one [OF one, of i j] by auto
  with submit inv show ?thesis by (auto simp: wire_inv_def)
next
  case (seal i)
  then have "pcs s j = Wire \<or> pcs s j = Done \<Longrightarrow> j = i" for j
    using flag_inv_one [OF one, of i j] by auto
  with seal inv show ?thesis by (auto simp: wire_inv_def split: list.splits)
qed (rule wire_inv_same [OF inv]; force split: if_splits; fail)+

definition ep0_inv :: "ep0_sys \<Rightarrow> bool" where
  "ep0_inv s \<longleftrightarrow> owner_inv s \<and> flag_inv s \<and> wake_inv s \<and> wire_inv s"

lemma ep0_inv_init: "ep0_inv ep0_init"
  by (simp add: ep0_inv_def ep0_init_def owner_inv_def flag_inv_def wake_inv_def wire_inv_def)

lemma ep0_inv_step: "ep0_step s t \<Longrightarrow> ep0_inv s \<Longrightarrow> ep0_inv t"
  unfolding ep0_inv_def
  by (blast intro: owner_inv_step flag_inv_step wake_inv_step wire_inv_step)

lemma ep0_reach_inv: "ep0_reach s \<Longrightarrow> ep0_inv s"
  by (induction rule: ep0_reach.induct) (auto intro: ep0_inv_init ep0_inv_step)

lemma ep0_reach_steps: "ep0_step\<^sup>*\<^sup>* s t \<Longrightarrow> ep0_reach s \<Longrightarrow> ep0_reach t"
  by (induction rule: rtranclp_induct) (auto intro: ep0_reach.step)

text \<open>A step of a thread that is already in the driver.\<close>

definition inside_step :: "ep0_sys \<Rightarrow> ep0_sys \<Rightarrow> bool" where
  "inside_step s t \<longleftrightarrow> ep0_step s t \<and> (\<exists>j. pcs s j \<noteq> Out \<and> pcs t j \<noteq> pcs s j)"

lemma inside_stepI: "ep0_step s t \<Longrightarrow> pcs s j \<noteq> Out \<Longrightarrow> pcs t j \<noteq> pcs s j \<Longrightarrow> \<exists>t. inside_step s t"
  unfolding inside_step_def by blast

lemma inside_enter: "pcs s i = Held \<Longrightarrow> \<exists>t. inside_step s t"
  by (rule inside_stepI [OF ep0_step.enter, where j = i]) auto

lemma inside_sleep: "pcs s i = Testing \<Longrightarrow> busy s \<Longrightarrow> \<exists>t. inside_step s t"
  by (rule inside_stepI [OF ep0_step.sleep, where j = i]) auto

lemma inside_claim: "pcs s i = Testing \<Longrightarrow> \<not> busy s \<Longrightarrow> \<exists>t. inside_step s t"
  by (rule inside_stepI [OF ep0_step.claim, where j = i]) auto

lemma inside_submit: "pcs s i = Claimed \<Longrightarrow> \<exists>t. inside_step s t"
  by (rule inside_stepI [OF ep0_step.submit, where j = i]) auto

lemma inside_seal: "pcs s i = Done \<Longrightarrow> \<exists>t. inside_step s t"
  by (rule inside_stepI [OF ep0_step.seal, where j = i]) auto

lemma inside_exit_quiet: "pcs s i = SealDone \<Longrightarrow> \<forall>j. pcs s j \<noteq> Asleep \<Longrightarrow> \<exists>t. inside_step s t"
  by (rule inside_stepI [OF ep0_step.exit_quiet, where j = i]) auto

lemma inside_exit_wake: "pcs s i = SealDone \<Longrightarrow> pcs s j = Asleep \<Longrightarrow> \<exists>t. inside_step s t"
  by (rule inside_stepI [OF ep0_step.exit_wake [where i = i and j = j], where j = j]) auto

lemma inside_retest: "pcs s i = Woken \<Longrightarrow> owner s = None \<Longrightarrow> \<exists>t. inside_step s t"
  by (rule inside_stepI [OF ep0_step.retest, where j = i]) auto

lemma inside_complete: "pcs s i = Wire \<Longrightarrow> owner s = None \<Longrightarrow> \<exists>t. inside_step s t"
  by (rule inside_stepI [OF ep0_step.complete, where j = i]) auto

lemma inside_seal_complete: "pcs s i = SealWire \<Longrightarrow> owner s = None \<Longrightarrow> \<exists>t. inside_step s t"
  by (rule inside_stepI [OF ep0_step.seal_complete, where j = i]) auto

text \<open>Some thread can always move on: the holder of the mutex, or whoever takes it next.\<close>

lemma ep0_inv_progress:
  assumes inv: "ep0_inv s" and awake: "pcs s i \<noteq> Out"
  shows "\<exists>t. inside_step s t"
proof (cases "owner s")
  case (Some j)
  with inv have "holds_mtx (pcs s j)" by (auto simp: ep0_inv_def owner_inv_def)
  then consider "pcs s j = Held" | "pcs s j = Testing" "busy s" | "pcs s j = Testing" "\<not> busy s"
    | "pcs s j = Claimed" | "pcs s j = Done" | "pcs s j = SealDone" "\<forall>k. pcs s k \<noteq> Asleep"
    | k where "pcs s j = SealDone" "pcs s k = Asleep"
    by (auto simp: holds_mtx_def)
  then show ?thesis
  proof cases
    case 1 then show ?thesis by (blast intro: inside_enter)
  next
    case 2 then show ?thesis by (blast intro: inside_sleep)
  next
    case 3 then show ?thesis by (blast intro: inside_claim)
  next
    case 4 then show ?thesis by (blast intro: inside_submit)
  next
    case 5 then show ?thesis by (blast intro: inside_seal)
  next
    case 6 then show ?thesis by (blast intro: inside_exit_quiet)
  next
    case 7 then show ?thesis by (blast intro: inside_exit_wake)
  qed
next
  case None
  with inv have nobody: "\<And>k. \<not> holds_mtx (pcs s k)" by (auto simp: ep0_inv_def owner_inv_def)
  have "\<exists>k. pcs s k = Woken \<or> pcs s k = Wire \<or> pcs s k = SealWire"
  proof (cases "pcs s i = Asleep")
    case True
    with inv have "busy s \<or> (\<exists>k. pcs s k = Woken \<or> pcs s k = Testing)"
      by (auto simp: ep0_inv_def wake_inv_def)
    with inv nobody show ?thesis
      unfolding ep0_inv_def flag_inv_def holds_flag_def holds_mtx_def by blast
  next
    case False
    with awake nobody [of i] show ?thesis by (cases "pcs s i") auto
  qed
  then obtain k where "pcs s k = Woken \<or> pcs s k = Wire \<or> pcs s k = SealWire" by blast
  with None show ?thesis
    by (blast intro: inside_retest inside_complete inside_seal_complete)
qed

subsection \<open>What the discipline gives\<close>

text \<open>A run that two threads share: thread 0 has its request on the wire, thread 1 sleeps.\<close>

definition ep0_two :: ep0_sys where
  "ep0_two = \<lparr>pcs = (\<lambda>_. Out)(0 := Wire, 1 := Asleep), owner = None, busy = True, wire = [Main 0]\<rparr>"

lemma ep0_two_reach: "ep0_reach ep0_two"
proof -
  let ?f = "\<lambda>p q. (\<lambda>_. Out)(0 := p, 1 := q) :: nat \<Rightarrow> pc"
  have s1: "ep0_step ep0_init \<lparr>pcs = ?f Held Out, owner = Some 0, busy = False, wire = []\<rparr>"
  proof -
    have "?f Held Out = (\<lambda>_. Out)(0 := Held)" by auto
    then show ?thesis using ep0_step.lock [of ep0_init 0] by (simp add: ep0_init_def)
  qed
  have s2: "ep0_step \<lparr>pcs = ?f Held Out, owner = Some 0, busy = False, wire = []\<rparr>
      \<lparr>pcs = ?f Testing Out, owner = Some 0, busy = False, wire = []\<rparr>"
    using ep0_step.enter [of "\<lparr>pcs = ?f Held Out, owner = Some 0, busy = False, wire = []\<rparr>" 0]
    by (simp add: fun_upd_twist)
  have s3: "ep0_step \<lparr>pcs = ?f Testing Out, owner = Some 0, busy = False, wire = []\<rparr>
      \<lparr>pcs = ?f Claimed Out, owner = Some 0, busy = True, wire = []\<rparr>"
    using ep0_step.claim [of "\<lparr>pcs = ?f Testing Out, owner = Some 0, busy = False, wire = []\<rparr>" 0]
    by (simp add: fun_upd_twist)
  have s4: "ep0_step \<lparr>pcs = ?f Claimed Out, owner = Some 0, busy = True, wire = []\<rparr>
      \<lparr>pcs = ?f Wire Out, owner = None, busy = True, wire = [Main 0]\<rparr>"
    using ep0_step.submit [of "\<lparr>pcs = ?f Claimed Out, owner = Some 0, busy = True, wire = []\<rparr>" 0]
    by (simp add: fun_upd_twist)
  have s5: "ep0_step \<lparr>pcs = ?f Wire Out, owner = None, busy = True, wire = [Main 0]\<rparr>
      \<lparr>pcs = ?f Wire Held, owner = Some 1, busy = True, wire = [Main 0]\<rparr>"
    using ep0_step.lock [of "\<lparr>pcs = ?f Wire Out, owner = None, busy = True, wire = [Main 0]\<rparr>" 1]
    by (simp add: fun_upd_twist)
  have s6: "ep0_step \<lparr>pcs = ?f Wire Held, owner = Some 1, busy = True, wire = [Main 0]\<rparr>
      \<lparr>pcs = ?f Wire Testing, owner = Some 1, busy = True, wire = [Main 0]\<rparr>"
    using ep0_step.enter [of "\<lparr>pcs = ?f Wire Held, owner = Some 1, busy = True, wire = [Main 0]\<rparr>" 1]
    by (simp add: fun_upd_twist)
  have s7: "ep0_step \<lparr>pcs = ?f Wire Testing, owner = Some 1, busy = True, wire = [Main 0]\<rparr> ep0_two"
    using ep0_step.sleep [of "\<lparr>pcs = ?f Wire Testing, owner = Some 1, busy = True, wire = [Main 0]\<rparr>" 1]
    by (simp add: fun_upd_twist ep0_two_def)
  show ?thesis
    by (rule ep0_reach.step [OF ep0_reach.step [OF ep0_reach.step [OF ep0_reach.step
          [OF ep0_reach.step [OF ep0_reach.step [OF ep0_reach.step [OF ep0_reach.start s1] s2] s3] s4] s5] s6] s7])
qed

text \<open>C9. Register accesses never overlap on EP0. However many threads run accesses, in whatever interleaving,
  at most one of them is between \<^verbatim>\<open>rtw88_usb_io_enter\<close> having set the flag and \<^verbatim>\<open>rtw88_usb_io_exit\<close>
  having cleared it, although the mutex is released while its requests are on the wire; the flag is set exactly while there is
  such a thread.\<close>
theorem ep0_mutual_exclusion:
  assumes "ep0_reach s"
  shows "(holds_flag (pcs s i) \<and> holds_flag (pcs s j) \<longrightarrow> i = j) \<and>
    (busy s \<longleftrightarrow> (\<exists>k. holds_flag (pcs s k)))"
  using ep0_reach_inv [OF assms] by (auto simp: ep0_inv_def flag_inv_def)

theorem ep0_mutual_exclusion_witness:
  "busy ep0_two \<and> \<not> holds_flag (pcs ep0_two 1)"
  using ep0_mutual_exclusion [OF ep0_two_reach, of 0 1] by (auto simp: ep0_two_def)

text \<open>C10. A seal always seals: in the order in which the requests of all threads reach EP0, every seal of the
  always-on section comes directly after the access of the same thread that it belongs to, with no
  other thread's request in between.\<close>
theorem ep0_seal_adjacent:
  assumes "ep0_reach s" "wire s = later @ Seal i # earlier"
  shows "\<exists>before. earlier = Main i # before"
proof -
  have "seals_ok (wire s)" using ep0_reach_inv [OF assms(1)] by (simp add: ep0_inv_def wire_inv_def)
  moreover have "seals_ok (l @ Seal i # e) \<Longrightarrow> \<exists>b. e = Main i # b" for l e
  proof (induction l)
    case Nil
    then show ?case by (cases e rule: seals_ok.cases) auto
  next
    case (Cons x l)
    then show ?case by (cases x) auto
  qed
  ultimately show ?thesis using assms(2) by simp
qed

text \<open>One access of an always-on address to its seal.\<close>

definition ep0_sealing :: ep0_sys where
  "ep0_sealing = \<lparr>pcs = (\<lambda>_. Out)(0 := SealWire, 1 := Asleep), owner = None, busy = True, wire = [Seal 0, Main 0]\<rparr>"

lemma ep0_sealing_reach: "ep0_reach ep0_sealing"
proof -
  let ?f = "\<lambda>p. (\<lambda>_. Out)(0 := p, 1 := Asleep) :: nat \<Rightarrow> pc"
  have s1: "ep0_step ep0_two \<lparr>pcs = ?f Done, owner = Some 0, busy = True, wire = [Main 0]\<rparr>"
    using ep0_step.complete [of ep0_two 0] by (simp add: ep0_two_def fun_upd_twist)
  have s2: "ep0_step \<lparr>pcs = ?f Done, owner = Some 0, busy = True, wire = [Main 0]\<rparr> ep0_sealing"
    using ep0_step.seal [of "\<lparr>pcs = ?f Done, owner = Some 0, busy = True, wire = [Main 0]\<rparr>" 0]
    by (simp add: ep0_sealing_def fun_upd_twist)
  show ?thesis by (rule ep0_reach.step [OF ep0_reach.step [OF ep0_two_reach s1] s2])
qed

theorem ep0_seal_adjacent_witness:
  "\<exists>before. [Main 0] = Main 0 # (before :: ep0_event list)"
  using ep0_seal_adjacent [OF ep0_sealing_reach, of "[]" 0 "[Main 0]"] by (simp add: ep0_sealing_def)

text \<open>C11. No thread waits for ever because of a lost wake-up: while any thread is inside the driver, some
  thread inside it can take a step, and a sleeper sleeps only while the flag is set or another thread
  is about to test it. In particular \<^verbatim>\<open>wakeup_one\<close> in \<^verbatim>\<open>io_exit\<close> is enough, although
  only one of the sleepers is woken and the flag may be taken by a newcomer before it runs.\<close>
theorem ep0_no_lost_wakeup:
  assumes "ep0_reach s" "pcs s i \<noteq> Out"
  shows "(\<exists>t. inside_step s t) \<and>
    (pcs s i = Asleep \<longrightarrow> busy s \<or> (\<exists>k. pcs s k = Woken \<or> pcs s k = Testing))"
  using ep0_inv_progress [OF ep0_reach_inv [OF assms(1)] assms(2)] ep0_reach_inv [OF assms(1)]
  by (auto simp: ep0_inv_def wake_inv_def)

theorem ep0_no_lost_wakeup_witness: "\<exists>t. inside_step ep0_two t"
  using ep0_no_lost_wakeup [OF ep0_two_reach, of 1] by (simp add: ep0_two_def)

end
