(* ===== verification/Rtw_Hci.thy ===== *)
theory Rtw_Hci
  imports Rtw_Usb
begin

section \<open>The bus abstraction: \<open>struct rtw88_hci_ops\<close> and \<open>struct rtw88_dev\<close>\<close>

text \<open>
  \<^verbatim>\<open>rtw88.h\<close> and the two back-ends. A subsystem (coex, ps, bf, led, regd, efuse, debug) reaches the chip
  only through the function table \<^verbatim>\<open>hci_ops\<close>, and takes the mutex that the bus owns through the pointer
  \<^verbatim>\<open>mtx\<close>; both are fields of \<open>hci_ops\<close> here. \<open>'w\<close> is the state of the bus back-end (what \<^verbatim>\<open>priv\<close> points
  to). The locale \<open>hci_bus\<close> is the contract that the subsystems rely on, the locale \<open>hci_regs\<close>
  adds what a register read returns after a write; both are interpreted on the USB and the PCI back-end.
\<close>

record 'w hci_ops =
  op_read8 :: "u32 \<Rightarrow> ('w, u8) cm"
  op_read16 :: "u32 \<Rightarrow> ('w, u16) cm"
  op_read32 :: "u32 \<Rightarrow> ('w, u32) cm"
  op_write8 :: "u32 \<Rightarrow> u8 \<Rightarrow> ('w, unit) cm"
  op_write16 :: "u32 \<Rightarrow> u16 \<Rightarrow> ('w, unit) cm"
  op_write32 :: "u32 \<Rightarrow> u32 \<Rightarrow> ('w, unit) cm"
  op_read_region :: "u32 \<Rightarrow> u32 \<Rightarrow> ('w, u8 list) cm"
  op_write_region :: "u32 \<Rightarrow> u8 list \<Rightarrow> ('w, unit) cm"
  op_h2c :: "u8 \<Rightarrow> u32 \<Rightarrow> u32 \<Rightarrow> ('w, unit) cm"
  dev_lock :: "('w, unit) cm"
  dev_unlock :: "('w, unit) cm"
  dev_assert_locked :: "('w, unit) cm"

datatype rtw88_chip_ident = RTW88_CHIP_ID_8822B | RTW88_CHIP_ID_8822C | RTW88_CHIP_ID_8723D
  | RTW88_CHIP_ID_8821C | RTW88_CHIP_ID_8703B | RTW88_CHIP_ID_8812A | RTW88_CHIP_ID_8814A
  | RTW88_CHIP_ID_8821A

text \<open>
  \<^verbatim>\<open>struct rtw88_chip_info\<close>. \<^verbatim>\<open>coex_switch_rf_wonly\<close> is never called. The hook \<^verbatim>\<open>coex_cfg_init\<close> runs
  on the bus state.
\<close>

record 'w chip_info =
  chip_id :: rtw88_chip_ident
  efuse_size :: u16
  efuse_ptct_size :: u16
  efuse_mac_offset :: u16
  efuse_xtal_k_offset :: u16
  efuse_rfe_offset :: u16
  coex_default_tdma :: u8
  coex_bt_wifi_ctrl_payload :: u32
  coex_tdma_type_payload :: u32
  coex_rfe_btg_mask :: u32
  lps_deep_mode_supported :: u32
  bf_su_supported :: bool
  bf_mu_supported :: bool
  led_supported :: bool
  led_gpio_mask :: u32
  max_power_index :: u8
  coex_cfg_init :: "('w, unit) cm option"

definition rtw88_8821c_chip_info :: "'w chip_info" where
  "rtw88_8821c_chip_info = \<lparr>
     chip_id = RTW88_CHIP_ID_8821C,
     efuse_size = 512, efuse_ptct_size = 96,
     efuse_mac_offset = 0x107, efuse_xtal_k_offset = 0x0B9, efuse_rfe_offset = 0x0CA,
     coex_default_tdma = 0,
     coex_bt_wifi_ctrl_payload = 0x00010c69,
     coex_tdma_type_payload = 0x00000060,
     coex_rfe_btg_mask = push_bit 2 1 OR push_bit 4 1 OR push_bit 7 1 OR push_bit 10 1
       OR push_bit 12 1 OR push_bit 15 1,
     lps_deep_mode_supported = 0,
     bf_su_supported = True, bf_mu_supported = False,
     led_supported = True, led_gpio_mask = 1,
     max_power_index = 0x3F,
     coex_cfg_init = None \<rparr>"

record rtw88_efuse =
  ef_valid :: bool
  ef_mac_addr :: "u8 list"
  ef_xtal_cap :: u8
  ef_rfe_option :: u8
  ef_pkg_type :: u8
  ef_btcoex :: bool
  ef_raw :: "u8 list"

record rtw88_coex_state =
  cx_enabled :: bool
  cx_bt_disabled :: bool
  cx_current_tdma_case :: u8
  cx_last_bt_wifi_ctrl_payload :: u32
  cx_link_up_count :: u32

datatype rtw88_lps_mode = RTW88_LPS_MODE_ACTIVE | RTW88_LPS_MODE_LEGACY | RTW88_LPS_MODE_UAPSD
  | RTW88_LPS_MODE_WMMPS

record rtw88_lps_state =
  lps_mode :: rtw88_lps_mode
  lps_in_lps :: bool
  lps_wow :: bool
  lps_awake_interval :: u8
  lps_smart_ps :: u8
  lps_macid :: u8

record rtw88_bf_state =
  bf_attached :: bool
  bf_su_active :: bool
  bf_mu_active :: bool
  bf_peer_mac :: "u8 list"
  bf_paid :: u16
  bf_gid :: u16

record rtw88_led_state =
  led_attached :: bool
  led_cdev :: bool        \<comment> \<open>the pointer is not NULL\<close>
  led_on :: bool

record rtw88_regd_state =
  rg_country :: "char list"   \<comment> \<open>\<^verbatim>\<open>char country[3]\<close>\<close>
  rg_regd_2g :: u8
  rg_regd_5g :: u8

text \<open>The event counters of \<^verbatim>\<open>rtw88_debug.c\<close>; the array is one static block of the driver.\<close>

datatype rtw88_debug_counter = RTW88_DBG_CNT_COEX_LINK_UP | RTW88_DBG_CNT_PS_ENTER
  | RTW88_DBG_CNT_PS_LEAVE | RTW88_DBG_CNT_BF_ASSOC | RTW88_DBG_CNT_REGD_CHANGE
  | RTW88_DBG_CNT_H2C_TX | RTW88_DBG_CNT_C2H_RX

record 'w rtw88_dev =
  priv :: 'w
  dev_efuse :: rtw88_efuse
  dev_coex :: rtw88_coex_state
  dev_lps :: rtw88_lps_state
  dev_bf :: rtw88_bf_state
  dev_led :: rtw88_led_state
  dev_regd :: rtw88_regd_state
  dbg_counters :: "rtw88_debug_counter \<Rightarrow> u64"

subsection \<open>Bus operations on the device handle\<close>

text \<open>\<open>on_priv m\<close> runs an operation of the bus on the state that \<^verbatim>\<open>d->priv\<close> points to.\<close>

definition on_priv :: "('w, 'a) cm \<Rightarrow> ('w rtw88_dev, 'a) cm" where
  "on_priv m = (\<lambda>d. let (r, w) = m (priv d) in (r, d\<lparr>priv := w\<rparr>))"

definition rtw_read8 :: "'w hci_ops \<Rightarrow> u32 \<Rightarrow> ('w rtw88_dev, u8) cm" where
  "rtw_read8 ops a = on_priv (op_read8 ops a)"

definition rtw_read16 :: "'w hci_ops \<Rightarrow> u32 \<Rightarrow> ('w rtw88_dev, u16) cm" where
  "rtw_read16 ops a = on_priv (op_read16 ops a)"

definition rtw_read32 :: "'w hci_ops \<Rightarrow> u32 \<Rightarrow> ('w rtw88_dev, u32) cm" where
  "rtw_read32 ops a = on_priv (op_read32 ops a)"

definition rtw_write8 :: "'w hci_ops \<Rightarrow> u32 \<Rightarrow> u8 \<Rightarrow> ('w rtw88_dev, unit) cm" where
  "rtw_write8 ops a v = on_priv (op_write8 ops a v)"

definition rtw_write16 :: "'w hci_ops \<Rightarrow> u32 \<Rightarrow> u16 \<Rightarrow> ('w rtw88_dev, unit) cm" where
  "rtw_write16 ops a v = on_priv (op_write16 ops a v)"

definition rtw_write32 :: "'w hci_ops \<Rightarrow> u32 \<Rightarrow> u32 \<Rightarrow> ('w rtw88_dev, unit) cm" where
  "rtw_write32 ops a v = on_priv (op_write32 ops a v)"

definition rtw_h2c :: "'w hci_ops \<Rightarrow> u8 \<Rightarrow> u32 \<Rightarrow> u32 \<Rightarrow> ('w rtw88_dev, unit) cm" where
  "rtw_h2c ops cmd msg msg_ext = on_priv (op_h2c ops cmd msg msg_ext)"

definition rtw_rmw32 :: "'w hci_ops \<Rightarrow> u32 \<Rightarrow> u32 \<Rightarrow> u32 \<Rightarrow> ('w rtw88_dev, unit) cm" where
  "rtw_rmw32 ops addr msk val =
     tryE (rtw_read32 ops addr) (\<lambda>v. rtw_write32 ops addr ((v AND NOT msk) OR (val AND msk)))"

definition RTW88_DEV_LOCK :: "'w hci_ops \<Rightarrow> ('w rtw88_dev, unit) cm" where
  "RTW88_DEV_LOCK ops = on_priv (dev_lock ops)"

definition RTW88_DEV_UNLOCK :: "'w hci_ops \<Rightarrow> ('w rtw88_dev, unit) cm" where
  "RTW88_DEV_UNLOCK ops = on_priv (dev_unlock ops)"

definition RTW88_DEV_ASSERT_LOCKED :: "'w hci_ops \<Rightarrow> ('w rtw88_dev, unit) cm" where
  "RTW88_DEV_ASSERT_LOCKED ops = on_priv (dev_assert_locked ops)"

text \<open>A field of \<^verbatim>\<open>d->chip\<close>: a NULL \<^verbatim>\<open>chip\<close> pointer (the PCI front-end has one) is a page fault.\<close>

definition deref_chip :: "'w chip_info option \<Rightarrow> ('s, 'w chip_info) cm" where
  "deref_chip ci = (case ci of None \<Rightarrow> fail Panic | Some c \<Rightarrow> ret c)"

text \<open>The handle in a softc that the kernel has zeroed.\<close>

definition rtw88_dev_zero :: "'w \<Rightarrow> 'w rtw88_dev" where
  "rtw88_dev_zero w = \<lparr>priv = w,
     dev_efuse = \<lparr>ef_valid = False, ef_mac_addr = replicate 6 0, ef_xtal_cap = 0, ef_rfe_option = 0,
       ef_pkg_type = 0, ef_btcoex = False, ef_raw = replicate 512 0\<rparr>,
     dev_coex = \<lparr>cx_enabled = False, cx_bt_disabled = False, cx_current_tdma_case = 0,
       cx_last_bt_wifi_ctrl_payload = 0, cx_link_up_count = 0\<rparr>,
     dev_lps = \<lparr>lps_mode = RTW88_LPS_MODE_ACTIVE, lps_in_lps = False, lps_wow = False,
       lps_awake_interval = 0, lps_smart_ps = 0, lps_macid = 0\<rparr>,
     dev_bf = \<lparr>bf_attached = False, bf_su_active = False, bf_mu_active = False,
       bf_peer_mac = replicate 6 0, bf_paid = 0, bf_gid = 0\<rparr>,
     dev_led = \<lparr>led_attached = False, led_cdev = False, led_on = False\<rparr>,
     dev_regd = \<lparr>rg_country = replicate 3 (CHR 0x00), rg_regd_2g = 0, rg_regd_5g = 0\<rparr>,
     dbg_counters = (\<lambda>_. 0)\<rparr>"

lemma priv_dev_zero [simp]: "priv (rtw88_dev_zero w) = w"
  by (simp add: rtw88_dev_zero_def)

lemma priv_write_back: "d'\<lparr>priv := x\<rparr> = d \<Longrightarrow> d' = d\<lparr>priv := priv d'\<rparr>"
  by (cases d; cases d') simp

lemma on_priv_run: "m (priv d) = (r, w) \<Longrightarrow> on_priv m d = (r, d\<lparr>priv := w\<rparr>)"
  by (simp add: on_priv_def)

text \<open>\<open>on_dev P R\<close>: the bus state satisfies \<open>P\<close> and the rest of the device handle satisfies \<open>R\<close>.\<close>

definition on_dev :: "('w \<Rightarrow> bool) \<Rightarrow> ('w rtw88_dev \<Rightarrow> bool) \<Rightarrow> 'w rtw88_dev \<Rightarrow> bool" where
  "on_dev P R d \<longleftrightarrow> P (priv d) \<and> R d"

definition priv_free :: "('w rtw88_dev \<Rightarrow> bool) \<Rightarrow> bool" where
  "priv_free R \<longleftrightarrow> (\<forall>d w. R (d\<lparr>priv := w\<rparr>) = R d)"

lemma keeps_on_priv: "keeps P F m \<Longrightarrow> priv_free R \<Longrightarrow> keeps (on_dev P R) F (on_priv m)"
  by (auto simp: keeps_def on_dev_def priv_free_def on_priv_def split: prod.splits)

subsection \<open>The contract of a bus back-end\<close>

text \<open>
  \<open>free\<close> and \<open>held\<close> are the states of the bus in which the calling thread does not hold, and holds,
  the mutex, with no access in flight. With the mutex held every operation ends with the mutex held
  and at worst with an error code.
\<close>

locale hci_bus =
  fixes ops :: "'w hci_ops" and free :: "'w \<Rightarrow> bool" and held :: "'w \<Rightarrow> bool"
  assumes k_read8: "keeps held is_errno (op_read8 ops a)"
    and k_read16: "keeps held is_errno (op_read16 ops a)"
    and k_read32: "keeps held is_errno (op_read32 ops a)"
    and k_write8: "keeps held is_errno (op_write8 ops a b)"
    and k_write16: "keeps held is_errno (op_write16 ops a h)"
    and k_write32: "keeps held is_errno (op_write32 ops a v)"
    and k_h2c: "keeps held is_errno (op_h2c ops c v v')"
    and k_assert: "keeps held no_fault (dev_assert_locked ops)"
    and lock_free: "free w \<Longrightarrow> \<exists>w'. dev_lock ops w = (Inr (), w') \<and> held w'"
    and unlock_held: "held w \<Longrightarrow> \<exists>w'. dev_unlock ops w = (Inr (), w') \<and> free w'"
begin

lemma dev_keeps [keeps_intros]:
  assumes "priv_free R"
  shows "keeps (on_dev held R) is_errno (rtw_read8 ops a)"
    and "keeps (on_dev held R) is_errno (rtw_read16 ops a)"
    and "keeps (on_dev held R) is_errno (rtw_read32 ops a)"
    and "keeps (on_dev held R) is_errno (rtw_write8 ops a b)"
    and "keeps (on_dev held R) is_errno (rtw_write16 ops a h)"
    and "keeps (on_dev held R) is_errno (rtw_write32 ops a v)"
    and "keeps (on_dev held R) is_errno (rtw_h2c ops c v v')"
    and "keeps (on_dev held R) F (RTW88_DEV_ASSERT_LOCKED ops)"
  unfolding rtw_read8_def rtw_read16_def rtw_read32_def rtw_write8_def rtw_write16_def
    rtw_write32_def rtw_h2c_def RTW88_DEV_ASSERT_LOCKED_def
  using assms by (simp_all add: keeps_on_priv k_read8 k_read16 k_read32 k_write8 k_write16
      k_write32 k_h2c keeps_no_faultI [OF k_assert])

lemma rmw32_keeps: "priv_free R \<Longrightarrow> keeps (on_dev held R) is_errno (rtw_rmw32 ops a m v)"
  unfolding rtw_rmw32_def by (intro keeps_intros)

lemma lock_step:
  "on_dev free R d \<Longrightarrow> priv_free R \<Longrightarrow> \<exists>d1. RTW88_DEV_LOCK ops d = (Inr (), d1) \<and> on_dev held R d1"
  by (auto simp: on_dev_def RTW88_DEV_LOCK_def priv_free_def on_priv_run dest!: lock_free)

lemma unlock_step:
  "on_dev held R d \<Longrightarrow> priv_free R \<Longrightarrow> \<exists>d1. RTW88_DEV_UNLOCK ops d = (Inr (), d1) \<and> on_dev free R d1"
  by (auto simp: on_dev_def RTW88_DEV_UNLOCK_def priv_free_def on_priv_run dest!: unlock_held)

text \<open>A function that runs between lock and unlock: the mutex is free before and after it.\<close>

lemma locked_section:
  assumes body: "keeps (on_dev held R) is_errno m" and R: "priv_free R" and d: "on_dev free R d"
  shows "\<exists>r d'. seqE (RTW88_DEV_LOCK ops) (tryE (attempt m) (\<lambda>x. seqE (RTW88_DEV_UNLOCK ops) (ret x))) d
       = (Inr r, d') \<and> on_dev free R d'"
proof -
  from d obtain w where w: "dev_lock ops (priv d) = (Inr (), w)" "held w"
    by (auto simp: on_dev_def dest: lock_free)
  from d w R have d1: "on_dev held R (d\<lparr>priv := w\<rparr>)" by (simp add: on_dev_def priv_free_def)
  obtain r d2 where m: "m (d\<lparr>priv := w\<rparr>) = (r, d2)" by fastforce
  from keepsD [OF body d1 m] have d2: "on_dev held R d2" and r: "\<forall>e. r = Inl e \<longrightarrow> is_errno e" by auto
  then obtain w2 where w2: "dev_unlock ops (priv d2) = (Inr (), w2)" "free w2"
    by (auto simp: on_dev_def dest: unlock_held)
  from d2 w2 R have "on_dev free R (d2\<lparr>priv := w2\<rparr>)" by (simp add: on_dev_def priv_free_def)
  moreover obtain x where "attempt m (d\<lparr>priv := w\<rparr>) = (Inr x, d2)"
    using m r by (cases r) (auto simp: is_errno_def split: fault.splits)
  ultimately show ?thesis
    using w(1) w2(1) by (simp add: RTW88_DEV_LOCK_def RTW88_DEV_UNLOCK_def on_priv_run)
qed

end

subsection \<open>What a register holds\<close>

text \<open>
  \<open>peek w a\<close> is the byte at address \<open>a\<close>; \<open>plain\<close> are the addresses of configuration registers, which
  keep what is written to them (status bits, FIFOs and the like are not in it, and nothing is
  assumed of them); \<open>usable\<close> are the start addresses the back-end can carry without wrapping.
\<close>

definition peek16 :: "(u32 \<Rightarrow> u8) \<Rightarrow> u32 \<Rightarrow> u16" where
  "peek16 f a = le16 (f a) (f (a + 1))"

definition peek32 :: "(u32 \<Rightarrow> u8) \<Rightarrow> u32 \<Rightarrow> u32" where
  "peek32 f a = le32 (f a) (f (a + 1)) (f (a + 2)) (f (a + 3))"

definition span :: "nat \<Rightarrow> 'n::len word \<Rightarrow> 'n word set" where
  "span n a = {x. unat (x - a) < n}"

locale hci_regs = hci_bus ops free held
  for ops :: "'w hci_ops" and free :: "'w \<Rightarrow> bool" and held :: "'w \<Rightarrow> bool" +
  fixes peek :: "'w \<Rightarrow> u32 \<Rightarrow> u8" and plain :: "u32 set" and usable :: "u32 set"
  assumes read8_val: "held w \<Longrightarrow> op_read8 ops a w = (Inr b, w') \<Longrightarrow> a \<in> plain \<Longrightarrow> b = peek w a"
    and read16_val: "held w \<Longrightarrow> op_read16 ops a w = (Inr h, w') \<Longrightarrow> a \<in> usable \<Longrightarrow>
      span 2 a \<subseteq> plain \<Longrightarrow> h = peek16 (peek w) a"
    and read32_val: "held w \<Longrightarrow> op_read32 ops a w = (Inr v, w') \<Longrightarrow> a \<in> usable \<Longrightarrow>
      span 4 a \<subseteq> plain \<Longrightarrow> v = peek32 (peek w) a"
    and read8_frame: "held w \<Longrightarrow> op_read8 ops a w = (r1, w') \<Longrightarrow> x \<in> plain \<Longrightarrow> peek w' x = peek w x"
    and read16_frame: "held w \<Longrightarrow> op_read16 ops a w = (r2, w') \<Longrightarrow> x \<in> plain \<Longrightarrow> peek w' x = peek w x"
    and read32_frame: "held w \<Longrightarrow> op_read32 ops a w = (r3, w') \<Longrightarrow> x \<in> plain \<Longrightarrow> peek w' x = peek w x"
    and write8_val: "held w \<Longrightarrow> op_write8 ops a b w = (Inr (), w') \<Longrightarrow> a \<in> plain \<Longrightarrow> peek w' a = b"
    and write16_val: "held w \<Longrightarrow> op_write16 ops a h w = (Inr (), w') \<Longrightarrow> a \<in> usable \<Longrightarrow>
      span 2 a \<subseteq> plain \<Longrightarrow> peek16 (peek w') a = h"
    and write32_val: "held w \<Longrightarrow> op_write32 ops a v w = (Inr (), w') \<Longrightarrow> a \<in> usable \<Longrightarrow>
      span 4 a \<subseteq> plain \<Longrightarrow> peek32 (peek w') a = v"
    and write8_frame: "held w \<Longrightarrow> op_write8 ops a b w = (r, w') \<Longrightarrow> a \<in> usable \<Longrightarrow>
      x \<in> plain \<Longrightarrow> x \<noteq> a \<Longrightarrow> peek w' x = peek w x"
    and write16_frame: "held w \<Longrightarrow> op_write16 ops a h w = (r, w') \<Longrightarrow> a \<in> usable \<Longrightarrow>
      x \<in> plain \<Longrightarrow> x \<notin> span 2 a \<Longrightarrow> peek w' x = peek w x"
    and write32_frame: "held w \<Longrightarrow> op_write32 ops a v w = (r, w') \<Longrightarrow> a \<in> usable \<Longrightarrow>
      x \<in> plain \<Longrightarrow> x \<notin> span 4 a \<Longrightarrow> peek w' x = peek w x"
begin

text \<open>Read-modify-write of a configuration register changes the masked bits of that register only.\<close>

lemma rmw32_effect:
  assumes d: "held (priv d)" and run: "rtw_rmw32 ops a m v d = (Inr (), d')"
    and a: "a \<in> usable" "span 4 a \<subseteq> plain"
  shows "peek32 (peek (priv d')) a = (peek32 (peek (priv d)) a AND NOT m) OR (v AND m)"
    and "x \<in> plain \<Longrightarrow> x \<notin> span 4 a \<Longrightarrow> peek (priv d') x = peek (priv d) x"
    and "held (priv d')"
proof -
  obtain r1 w1 where rd: "op_read32 ops a (priv d) = (r1, w1)" by fastforce
  with run obtain old where r1: "r1 = Inr old"
    by (cases r1) (auto simp: rtw_rmw32_def rtw_read32_def tryE_def on_priv_def)
  obtain r2 w2 where wr: "op_write32 ops a ((old AND NOT m) OR (v AND m)) w1 = (r2, w2)" by fastforce
  from run rd wr r1 have r2: "r2 = Inr ()" "priv d' = w2"
    by (auto simp: rtw_rmw32_def rtw_read32_def rtw_write32_def tryE_def on_priv_def)
  from keepsD [OF k_read32 d rd] have h1: "held w1" by blast
  from keepsD [OF k_write32 h1 wr] r2 show "held (priv d')" by blast
  have old: "old = peek32 (peek (priv d)) a" using read32_val [OF d rd [unfolded r1] a] .
  show "peek32 (peek (priv d')) a = (peek32 (peek (priv d)) a AND NOT m) OR (v AND m)"
    using write32_val [OF h1 wr [unfolded r2(1)] a] old r2(2) by simp
  assume "x \<in> plain" "x \<notin> span 4 a"
  then show "peek (priv d') x = peek (priv d) x"
    using write32_frame [OF h1 wr a(1)] read32_frame [OF d rd] r2(2) by simp
qed

end

subsection \<open>Back-ends whose device answers\<close>

text \<open>
  With a device that answers every request the operations do what they do on a plain memory: the
  calculus \<open>eff\<close> below computes the memory after a function from the memory before it.
\<close>

definition put16 :: "u32 \<Rightarrow> u16 \<Rightarrow> (u32 \<Rightarrow> u8) \<Rightarrow> u32 \<Rightarrow> u8" where
  "put16 a v m = (\<lambda>x. if unat (x - a) < 2 then le16enc v ! unat (x - a) else m x)"

definition put32 :: "u32 \<Rightarrow> u32 \<Rightarrow> (u32 \<Rightarrow> u8) \<Rightarrow> u32 \<Rightarrow> u8" where
  "put32 a v m = (\<lambda>x. if unat (x - a) < 4 then le32enc v ! unat (x - a) else m x)"

lemma le32enc_peek: "le32enc (peek32 f a) = [f a, f (a + 1), f (a + 2), f (a + 3)]"
  by (simp add: le32enc_def peek32_def le32_bytes)

lemma le16enc_peek: "le16enc (peek16 f a) = [f a, f (a + 1)]"
  by (simp add: le16enc_def peek16_def le16_bytes)

lemma word_offset_cases:
  fixes x a :: u32
  assumes "unat (x - a) < 4"
  shows "x = a \<or> x = a + 1 \<or> x = a + 2 \<or> x = a + 3"
proof -
  have x: "x = a + of_nat (unat (x - a))" by simp
  from assms consider "unat (x - a) = 0" | "unat (x - a) = 1" | "unat (x - a) = 2" | "unat (x - a) = 3"
    by linarith
  then show ?thesis
    by cases (use x in \<open>simp_all\<close>)
qed

lemma put32_peek: "unat (x - a) < 4 \<Longrightarrow> put32 a (peek32 f a) m x = f x"
  by (auto simp: put32_def le32enc_peek dest!: word_offset_cases)

lemma put16_peek: "unat (x - a) < 2 \<Longrightarrow> put16 a (peek16 f a) m x = f x"
proof -
  assume x: "unat (x - a) < 2"
  then have "unat (x - a) < 4" by simp
  from word_offset_cases [OF this] x show ?thesis
    by (auto simp: put16_def le16enc_peek)
qed

lemma peek32_put32: "peek32 (put32 a v m) a = v"
  by (simp add: peek32_def put32_def le32enc_def le32_enc)

lemma peek16_put16: "peek16 (put16 a v m) a = v"
  by (simp add: peek16_def put16_def le16enc_def le16_enc)

text \<open>Reading beside a register that was written; the side conditions are about numerals.\<close>

named_theorems reg_simps "reads and writes of different registers"

lemma unat_far:
  fixes x a :: u32
  assumes "unat x < unat a \<or> unat a + n \<le> unat x" "unat a + n \<le> 2 ^ 32"
  shows "\<not> unat (x - a) < n"
proof -
  have "unat (x - a) = (if unat a \<le> unat x then unat x - unat a else unat x + 2 ^ 32 - unat a)"
    by (simp add: unat_sub_if_size word_size)
  with assms show ?thesis by (simp split: if_splits)
qed

lemma put32_other [reg_simps]:
  "unat x < unat a \<or> unat a + 4 \<le> unat x \<Longrightarrow> unat a + 4 \<le> 2 ^ 32 \<Longrightarrow> put32 a v m x = m x"
  unfolding put32_def using unat_far [of x a 4] by simp

lemma put16_other [reg_simps]:
  "unat x < unat a \<or> unat a + 2 \<le> unat x \<Longrightarrow> unat a + 2 \<le> 2 ^ 32 \<Longrightarrow> put16 a v m x = m x"
  unfolding put16_def using unat_far [of x a 2] by simp

lemma unat_add_small:
  fixes b :: u32
  assumes "unat b + n < 2 ^ 32"
  shows "unat (b + of_nat n) = unat b + n"
proof -
  have "unat (of_nat n :: u32) = n" using assms by (simp add: unat_of_nat)
  then show ?thesis using assms by (subst unat_word_ariths(1)) simp
qed

lemma peek32_cong:
  assumes "\<And>x. unat b \<le> unat x \<Longrightarrow> unat x < unat b + 4 \<Longrightarrow> f x = g x" "unat b + 4 \<le> 2 ^ 32"
  shows "peek32 f b = peek32 g b"
proof -
  have "f (b + of_nat i) = g (b + of_nat i)" if "i < 4" for i
    using that assms(2) unat_add_small [of b i] by (intro assms(1)) auto
  from this [of 0] this [of 1] this [of 2] this [of 3] show ?thesis by (simp add: peek32_def)
qed

lemma peek16_cong:
  assumes "\<And>x. unat b \<le> unat x \<Longrightarrow> unat x < unat b + 2 \<Longrightarrow> f x = g x" "unat b + 2 \<le> 2 ^ 32"
  shows "peek16 f b = peek16 g b"
proof -
  have "f (b + of_nat i) = g (b + of_nat i)" if "i < 2" for i
    using that assms(2) unat_add_small [of b i] by (intro assms(1)) auto
  from this [of 0] this [of 1] show ?thesis by (simp add: peek16_def)
qed

lemma peek32_put32_other [reg_simps]:
  "unat b + 4 \<le> unat a \<or> unat a + 4 \<le> unat b \<Longrightarrow> unat a + 4 \<le> 2 ^ 32 \<Longrightarrow> unat b + 4 \<le> 2 ^ 32 \<Longrightarrow>
    peek32 (put32 a v m) b = peek32 m b"
  by (rule peek32_cong) (auto intro: put32_other)

lemma peek32_put16_other [reg_simps]:
  "unat b + 4 \<le> unat a \<or> unat a + 2 \<le> unat b \<Longrightarrow> unat a + 2 \<le> 2 ^ 32 \<Longrightarrow> unat b + 4 \<le> 2 ^ 32 \<Longrightarrow>
    peek32 (put16 a v m) b = peek32 m b"
  by (rule peek32_cong) (auto intro: put16_other)

lemma peek16_put32_other [reg_simps]:
  "unat b + 2 \<le> unat a \<or> unat a + 4 \<le> unat b \<Longrightarrow> unat a + 4 \<le> 2 ^ 32 \<Longrightarrow> unat b + 2 \<le> 2 ^ 32 \<Longrightarrow>
    peek16 (put32 a v m) b = peek16 m b"
  by (rule peek16_cong) (auto intro: put32_other)

lemma peek32_upd_other [reg_simps]:
  "unat x < unat b \<or> unat b + 4 \<le> unat x \<Longrightarrow> unat b + 4 \<le> 2 ^ 32 \<Longrightarrow> peek32 (m(x := v)) b = peek32 m b"
  by (rule peek32_cong) auto

lemma peek16_upd_other [reg_simps]:
  "unat x < unat b \<or> unat b + 2 \<le> unat x \<Longrightarrow> unat b + 2 \<le> 2 ^ 32 \<Longrightarrow> peek16 (m(x := v)) b = peek16 m b"
  by (rule peek16_cong) auto

declare peek32_put32 [reg_simps]
declare peek16_put16 [reg_simps]

definition mem_agrees :: "('w \<Rightarrow> u32 \<Rightarrow> u8) \<Rightarrow> u32 set \<Rightarrow> 'w \<Rightarrow> (u32 \<Rightarrow> u8) \<Rightarrow> bool" where
  "mem_agrees peek plain w m \<longleftrightarrow> (\<forall>x \<in> plain. peek w x = m x)"

text \<open>
  \<open>mem_eff A H M m x H' m'\<close>: from a bus state with \<open>H\<close> whose memory is \<open>m\<close>, the function \<open>M\<close> returns \<open>x\<close>, changes
  nothing of the device handle but the bus, and leaves it in a state with \<open>H'\<close> and memory \<open>m'\<close>.
\<close>

definition mem_eff :: "('w \<Rightarrow> (u32 \<Rightarrow> u8) \<Rightarrow> bool) \<Rightarrow> ('w \<Rightarrow> bool) \<Rightarrow> ('w rtw88_dev, 'a) cm \<Rightarrow>
    (u32 \<Rightarrow> u8) \<Rightarrow> 'a \<Rightarrow> ('w \<Rightarrow> bool) \<Rightarrow> (u32 \<Rightarrow> u8) \<Rightarrow> bool" where
  "mem_eff A H M m x H' m' \<longleftrightarrow> (\<forall>d. H (priv d) \<and> A (priv d) m \<longrightarrow>
     (\<exists>w. M d = (Inr x, d\<lparr>priv := w\<rparr>) \<and> H' w \<and> A w m'))"

locale hci_answers = hci_regs ops free held peek plain usable
  for ops :: "'w hci_ops" and free :: "'w \<Rightarrow> bool" and held :: "'w \<Rightarrow> bool"
    and peek :: "'w \<Rightarrow> u32 \<Rightarrow> u8" and plain :: "u32 set" and usable :: "u32 set" +
  assumes up_read8: "held w \<Longrightarrow> \<exists>b w'. op_read8 ops a w = (Inr b, w')"
    and up_read16: "held w \<Longrightarrow> \<exists>h w'. op_read16 ops a w = (Inr h, w')"
    and up_read32: "held w \<Longrightarrow> \<exists>v w'. op_read32 ops a w = (Inr v, w')"
    and up_write8: "held w \<Longrightarrow> \<exists>w'. op_write8 ops a b w = (Inr (), w')"
    and up_write16: "held w \<Longrightarrow> \<exists>w'. op_write16 ops a h w = (Inr (), w')"
    and up_write32: "held w \<Longrightarrow> \<exists>w'. op_write32 ops a v w = (Inr (), w')"
    and assert_held: "held w \<Longrightarrow> dev_assert_locked ops w = (Inr (), w)"
    and lock_peek: "free w \<Longrightarrow> dev_lock ops w = (r, w') \<Longrightarrow> peek w' = peek w"
    and unlock_peek: "held w \<Longrightarrow> dev_unlock ops w = (r, w') \<Longrightarrow> peek w' = peek w"
begin

abbreviation agrees :: "'w \<Rightarrow> (u32 \<Rightarrow> u8) \<Rightarrow> bool" where
  "agrees \<equiv> mem_agrees peek plain"

abbreviation eff :: "('w \<Rightarrow> bool) \<Rightarrow> ('w rtw88_dev, 'a) cm \<Rightarrow> (u32 \<Rightarrow> u8) \<Rightarrow> 'a \<Rightarrow>
    ('w \<Rightarrow> bool) \<Rightarrow> (u32 \<Rightarrow> u8) \<Rightarrow> bool" where
  "eff \<equiv> mem_eff agrees"

lemmas agrees_def = mem_agrees_def
lemmas eff_def = mem_eff_def

lemma effD: "eff H M m x H' m' \<Longrightarrow> H (priv d) \<Longrightarrow> agrees (priv d) m \<Longrightarrow>
    \<exists>w. M d = (Inr x, d\<lparr>priv := w\<rparr>) \<and> H' w \<and> agrees w m'"
  by (simp add: eff_def)

lemma agrees_self: "agrees w (peek w)"
  by (simp add: agrees_def)

lemma peek32_agrees: "agrees w m \<Longrightarrow> span 4 a \<subseteq> plain \<Longrightarrow> peek32 (peek w) a = peek32 m a"
  by (auto simp: agrees_def peek32_def span_def subset_iff)

lemma peek16_agrees: "agrees w m \<Longrightarrow> span 2 a \<subseteq> plain \<Longrightarrow> peek16 (peek w) a = peek16 m a"
  by (auto simp: agrees_def peek16_def span_def subset_iff)

lemma eff_ret: "eff H (ret v) m v H m"
  by (auto simp: eff_def) (metis rtw88_dev.surjective rtw88_dev.update_convs(1))

lemma eff_tryE:
  assumes "eff H M m x H1 m1" "eff H1 (f x) m1 y H2 m2"
  shows "eff H (tryE M f) m y H2 m2"
  unfolding eff_def
proof (intro allI impI)
  fix d :: "'w rtw88_dev"
  assume "H (priv d) \<and> agrees (priv d) m"
  with assms(1) obtain w where w: "M d = (Inr x, d\<lparr>priv := w\<rparr>)" "H1 w" "agrees w m1"
    unfolding eff_def by blast
  then have "H1 (priv (d\<lparr>priv := w\<rparr>)) \<and> agrees (priv (d\<lparr>priv := w\<rparr>)) m1" by simp
  with assms(2) obtain w' where "f x (d\<lparr>priv := w\<rparr>) = (Inr y, d\<lparr>priv := w, priv := w'\<rparr>)" "H2 w'"
      "agrees w' m2"
    unfolding eff_def by blast
  with w(1) show "\<exists>w. tryE M f d = (Inr y, d\<lparr>priv := w\<rparr>) \<and> H2 w \<and> agrees w m2" by auto
qed

lemma eff_seqE: "eff H M m () H1 m1 \<Longrightarrow> eff H1 K m1 y H2 m2 \<Longrightarrow> eff H (seqE M K) m y H2 m2"
  unfolding seqE_def by (rule eff_tryE)

lemma eff_attempt: "eff H M m x H' m' \<Longrightarrow> eff H (attempt M) m (Inr x) H' m'"
  unfolding eff_def by (metis attempt_Inr)

lemma eff_discard: "eff H M m x H' m' \<Longrightarrow> eff H (discard M) m () H' m'"
  unfolding eff_def by (metis discard_Inr)

lemma eff_read8: "a \<in> plain \<Longrightarrow> eff held (rtw_read8 ops a) m (m a) held m"
  unfolding eff_def rtw_read8_def
proof (intro allI impI)
  fix d :: "'w rtw88_dev"
  assume a: "a \<in> plain" and d: "held (priv d) \<and> agrees (priv d) m"
  then obtain b w where r: "op_read8 ops a (priv d) = (Inr b, w)" using up_read8 by blast
  from d a read8_val [OF _ r] have "b = m a" by (simp add: agrees_def)
  moreover from d read8_frame [OF _ r] have "agrees w m" by (auto simp: agrees_def)
  moreover from d keepsD [OF k_read8 _ r] have "held w" by blast
  ultimately show "\<exists>w. on_priv (op_read8 ops a) d = (Inr (m a), d\<lparr>priv := w\<rparr>) \<and> held w \<and> agrees w m"
    using on_priv_run [of "op_read8 ops a" d, OF r] by blast
qed

lemma eff_read16: "a \<in> usable \<Longrightarrow> span 2 a \<subseteq> plain \<Longrightarrow> eff held (rtw_read16 ops a) m (peek16 m a) held m"
  unfolding eff_def rtw_read16_def
proof (intro allI impI)
  fix d :: "'w rtw88_dev"
  assume a: "a \<in> usable" "span 2 a \<subseteq> plain" and d: "held (priv d) \<and> agrees (priv d) m"
  then obtain b w where r: "op_read16 ops a (priv d) = (Inr b, w)" using up_read16 by blast
  from d a read16_val [OF _ r] have "b = peek16 m a" by (simp add: peek16_agrees)
  moreover from d read16_frame [OF _ r] have "agrees w m" by (auto simp: agrees_def)
  moreover from d keepsD [OF k_read16 _ r] have "held w" by blast
  ultimately show "\<exists>w. on_priv (op_read16 ops a) d = (Inr (peek16 m a), d\<lparr>priv := w\<rparr>) \<and> held w \<and> agrees w m"
    using on_priv_run [of "op_read16 ops a" d, OF r] by blast
qed

lemma eff_read32: "a \<in> usable \<Longrightarrow> span 4 a \<subseteq> plain \<Longrightarrow> eff held (rtw_read32 ops a) m (peek32 m a) held m"
  unfolding eff_def rtw_read32_def
proof (intro allI impI)
  fix d :: "'w rtw88_dev"
  assume a: "a \<in> usable" "span 4 a \<subseteq> plain" and d: "held (priv d) \<and> agrees (priv d) m"
  then obtain b w where r: "op_read32 ops a (priv d) = (Inr b, w)" using up_read32 by blast
  from d a read32_val [OF _ r] have "b = peek32 m a" by (simp add: peek32_agrees)
  moreover from d read32_frame [OF _ r] have "agrees w m" by (auto simp: agrees_def)
  moreover from d keepsD [OF k_read32 _ r] have "held w" by blast
  ultimately show "\<exists>w. on_priv (op_read32 ops a) d = (Inr (peek32 m a), d\<lparr>priv := w\<rparr>) \<and> held w \<and> agrees w m"
    using on_priv_run [of "op_read32 ops a" d, OF r] by blast
qed

lemma eff_write8: "a \<in> usable \<Longrightarrow> a \<in> plain \<Longrightarrow> eff held (rtw_write8 ops a b) m () held (m(a := b))"
  unfolding eff_def rtw_write8_def
proof (intro allI impI)
  fix d :: "'w rtw88_dev"
  assume a: "a \<in> usable" "a \<in> plain" and d: "held (priv d) \<and> agrees (priv d) m"
  then obtain w where r: "op_write8 ops a b (priv d) = (Inr (), w)" using up_write8 by blast
  have "agrees w (m(a := b))"
    using d a write8_val [OF _ r] write8_frame [OF _ r] by (auto simp: agrees_def)
  moreover from d keepsD [OF k_write8 _ r] have "held w" by blast
  ultimately show "\<exists>w. on_priv (op_write8 ops a b) d = (Inr (), d\<lparr>priv := w\<rparr>) \<and> held w \<and> agrees w (m(a := b))"
    using on_priv_run [of "op_write8 ops a b" d, OF r] by blast
qed

lemma eff_write16:
  "a \<in> usable \<Longrightarrow> span 2 a \<subseteq> plain \<Longrightarrow> eff held (rtw_write16 ops a v) m () held (put16 a v m)"
  unfolding eff_def rtw_write16_def
proof (intro allI impI)
  fix d :: "'w rtw88_dev"
  assume a: "a \<in> usable" "span 2 a \<subseteq> plain" and d: "held (priv d) \<and> agrees (priv d) m"
  then obtain w where r: "op_write16 ops a v (priv d) = (Inr (), w)" using up_write16 by blast
  have "agrees w (put16 a v m)"
    unfolding agrees_def
  proof
    fix x assume x: "x \<in> plain"
    show "peek w x = put16 a v m x"
    proof (cases "x \<in> span 2 a")
      case True
      with d a write16_val [OF _ r] put16_peek [of x a "peek w" m] show ?thesis by (simp add: span_def)
    next
      case False
      with d a x write16_frame [OF _ r] show ?thesis by (simp add: span_def put16_def agrees_def)
    qed
  qed
  moreover from d keepsD [OF k_write16 _ r] have "held w" by blast
  ultimately show "\<exists>w. on_priv (op_write16 ops a v) d = (Inr (), d\<lparr>priv := w\<rparr>) \<and> held w \<and> agrees w (put16 a v m)"
    using on_priv_run [of "op_write16 ops a v" d, OF r] by blast
qed

lemma eff_write32:
  "a \<in> usable \<Longrightarrow> span 4 a \<subseteq> plain \<Longrightarrow> eff held (rtw_write32 ops a v) m () held (put32 a v m)"
  unfolding eff_def rtw_write32_def
proof (intro allI impI)
  fix d :: "'w rtw88_dev"
  assume a: "a \<in> usable" "span 4 a \<subseteq> plain" and d: "held (priv d) \<and> agrees (priv d) m"
  then obtain w where r: "op_write32 ops a v (priv d) = (Inr (), w)" using up_write32 by blast
  have "agrees w (put32 a v m)"
    unfolding agrees_def
  proof
    fix x assume x: "x \<in> plain"
    show "peek w x = put32 a v m x"
    proof (cases "x \<in> span 4 a")
      case True
      with d a write32_val [OF _ r] put32_peek [of x a "peek w" m] show ?thesis by (simp add: span_def)
    next
      case False
      with d a x write32_frame [OF _ r] show ?thesis by (simp add: span_def put32_def agrees_def)
    qed
  qed
  moreover from d keepsD [OF k_write32 _ r] have "held w" by blast
  ultimately show "\<exists>w. on_priv (op_write32 ops a v) d = (Inr (), d\<lparr>priv := w\<rparr>) \<and> held w \<and> agrees w (put32 a v m)"
    using on_priv_run [of "op_write32 ops a v" d, OF r] by blast
qed

lemma eff_rmw32: "a \<in> usable \<Longrightarrow> span 4 a \<subseteq> plain \<Longrightarrow>
  eff held (rtw_rmw32 ops a k v) m () held (put32 a ((peek32 m a AND NOT k) OR (v AND k)) m)"
  unfolding rtw_rmw32_def by (rule eff_tryE [OF eff_read32 eff_write32])

lemma eff_assert: "eff held (RTW88_DEV_ASSERT_LOCKED ops) m () held m"
  unfolding eff_def RTW88_DEV_ASSERT_LOCKED_def by (metis assert_held on_priv_run)

lemma eff_lock: "eff free (RTW88_DEV_LOCK ops) m () held m"
  unfolding eff_def RTW88_DEV_LOCK_def
  by (metis agrees_def lock_free lock_peek on_priv_run)

lemma eff_unlock: "eff held (RTW88_DEV_UNLOCK ops) m () free m"
  unfolding eff_def RTW88_DEV_UNLOCK_def
  by (metis agrees_def unlock_held unlock_peek on_priv_run)

lemmas eff_intros = eff_ret eff_seqE eff_attempt eff_discard eff_read8 eff_read16 eff_read32
  eff_write8 eff_write16 eff_write32 eff_assert eff_lock eff_unlock

end

end
