(* ===== verification/Rtw_Debug.thy ===== *)
theory Rtw_Debug
  imports Rtw_Hci
begin

section \<open>Debug counters and the register window\<close>

text \<open>
  \<^verbatim>\<open>rtw88_debug.c\<close>: the event counters that the other subsystems bump, and the pair of sysctls that
  select a register address and read it. The strings that the state sysctls print are output only
  and are not modelled. A sysctl request is the new value written by the user, if any.
\<close>

definition rtw88_debug_inc :: "rtw88_debug_counter \<Rightarrow> 'w rtw88_dev \<Rightarrow> 'w rtw88_dev" where
  "rtw88_debug_inc c d = d\<lparr>dbg_counters := (dbg_counters d)(c := dbg_counters d c + 1)\<rparr>"

record rtw88_dbg_reg_slot =
  slot_addr :: u32
  slot_last_val :: u32

definition rtw88_debug_attach_slot :: "rtw88_dbg_reg_slot" where
  "rtw88_debug_attach_slot = \<lparr>slot_addr = 0, slot_last_val = 0\<rparr>"

text \<open>Reading the sysctl gives the address; writing it selects another one.\<close>

definition rtw88_dbg_mac_addr_sysctl ::
  "u32 option \<Rightarrow> rtw88_dbg_reg_slot \<Rightarrow> u32 \<times> rtw88_dbg_reg_slot" where
  "rtw88_dbg_mac_addr_sysctl newval slot =
     (slot_addr slot, case newval of None \<Rightarrow> slot | Some a \<Rightarrow> slot\<lparr>slot_addr := a\<rparr>)"

text \<open>The value reported is the one read, or the last one that could be read.\<close>

definition rtw88_dbg_mac_val_sysctl ::
  "'w hci_ops \<Rightarrow> rtw88_dbg_reg_slot \<Rightarrow> ('w rtw88_dev, u32 \<times> rtw88_dbg_reg_slot) cm" where
  "rtw88_dbg_mac_val_sysctl ops slot =
     seqE (RTW88_DEV_LOCK ops)
     (tryE (attempt (rtw_read32 ops (slot_addr slot))) (\<lambda>r.
      seqE (RTW88_DEV_UNLOCK ops)
      (let slot' = (case r of Inl _ \<Rightarrow> slot | Inr v \<Rightarrow> slot\<lparr>slot_last_val := v\<rparr>)
       in ret (slot_last_val slot', slot'))))"

lemma debug_inc_simps [simp]:
  "priv (rtw88_debug_inc c d) = priv d"
  "dev_efuse (rtw88_debug_inc c d) = dev_efuse d"
  "dev_coex (rtw88_debug_inc c d) = dev_coex d"
  "dev_lps (rtw88_debug_inc c d) = dev_lps d"
  "dev_bf (rtw88_debug_inc c d) = dev_bf d"
  "dev_led (rtw88_debug_inc c d) = dev_led d"
  "dev_regd (rtw88_debug_inc c d) = dev_regd d"
  "dbg_counters (rtw88_debug_inc c d) = (dbg_counters d)(c := dbg_counters d c + 1)"
  by (simp_all add: rtw88_debug_inc_def)

text \<open>The order of the enumeration, which is the index order of the counter array.\<close>

primrec counter_index :: "rtw88_debug_counter \<Rightarrow> nat" where
  "counter_index RTW88_DBG_CNT_COEX_LINK_UP = 0"
| "counter_index RTW88_DBG_CNT_PS_ENTER = 1"
| "counter_index RTW88_DBG_CNT_PS_LEAVE = 2"
| "counter_index RTW88_DBG_CNT_BF_ASSOC = 3"
| "counter_index RTW88_DBG_CNT_REGD_CHANGE = 4"
| "counter_index RTW88_DBG_CNT_H2C_TX = 5"
| "counter_index RTW88_DBG_CNT_C2H_RX = 6"

lemma counter_index_inj: "counter_index c = counter_index c' \<Longrightarrow> c = c'"
  by (cases c; cases c') simp_all

instantiation rtw88_debug_counter :: linorder
begin

definition less_eq_rtw88_debug_counter :: "rtw88_debug_counter \<Rightarrow> rtw88_debug_counter \<Rightarrow> bool" where
  "less_eq_rtw88_debug_counter c c' \<longleftrightarrow> counter_index c \<le> counter_index c'"

definition less_rtw88_debug_counter :: "rtw88_debug_counter \<Rightarrow> rtw88_debug_counter \<Rightarrow> bool" where
  "less_rtw88_debug_counter c c' \<longleftrightarrow> counter_index c < counter_index c'"

instance
  by standard (auto simp: less_eq_rtw88_debug_counter_def less_rtw88_debug_counter_def
      intro: counter_index_inj)

end

end
