(* ===== verification/Rtw_Hci_Usb.thy ===== *)
theory Rtw_Hci_Usb
  imports Rtw_Hci
begin

section \<open>The USB back-end of the bus abstraction\<close>

text \<open>
  The wrappers of \<^verbatim>\<open>if_rtw88_usb.c\<close> that make the EP0 accessors and the H2C mailbox the function table
  \<^verbatim>\<open>rtw88_usb_hci_ops\<close> (the 32-bit address of the interface is cut to the 16 bits of the request),
  and the interpretations of the two bus contracts on them. A chip of which nothing is assumed is
  enough for \<open>hci_bus\<close>; for \<open>hci_regs\<close> the chip has to keep its configuration registers, which is
  what the locale \<open>regfile_chip\<close> says.
\<close>

definition rtw88_usb_hci_ops :: "'c chip_ops \<Rightarrow> ('c, 'z) hw_scheme hci_ops" where
  "rtw88_usb_hci_ops C = \<lparr>
     op_read8 = (\<lambda>a. rtw88_usb_read1 C (ucast a)),
     op_read16 = (\<lambda>a. rtw88_usb_read2 C (ucast a)),
     op_read32 = (\<lambda>a. rtw88_usb_read4 C (ucast a)),
     op_write8 = (\<lambda>a v. rtw88_usb_write1 C (ucast a) v),
     op_write16 = (\<lambda>a v. rtw88_usb_write2 C (ucast a) v),
     op_write32 = (\<lambda>a v. rtw88_usb_write4 C (ucast a) v),
     op_read_region = (\<lambda>a n. rtw88_usb_read_region C (ucast a) (ucast n)),
     op_write_region = (\<lambda>a buf. rtw88_usb_write_region C (ucast a) buf),
     op_h2c = (\<lambda>_ msg msg_ext. rtw88_h2c_mailbox C msg msg_ext),
     dev_lock = RTW88_LOCK, dev_unlock = RTW88_UNLOCK, dev_assert_locked = RTW88_ASSERT_LOCKED \<rparr>"

lemma usb_hci_ops_simps [simp]:
  "op_read8 (rtw88_usb_hci_ops C) a = rtw88_usb_read1 C (ucast a)"
  "op_read16 (rtw88_usb_hci_ops C) a = rtw88_usb_read2 C (ucast a)"
  "op_read32 (rtw88_usb_hci_ops C) a = rtw88_usb_read4 C (ucast a)"
  "op_write8 (rtw88_usb_hci_ops C) a b = rtw88_usb_write1 C (ucast a) b"
  "op_write16 (rtw88_usb_hci_ops C) a h = rtw88_usb_write2 C (ucast a) h"
  "op_write32 (rtw88_usb_hci_ops C) a v = rtw88_usb_write4 C (ucast a) v"
  "op_h2c (rtw88_usb_hci_ops C) c m x = rtw88_h2c_mailbox C m x"
  "dev_lock (rtw88_usb_hci_ops C) = RTW88_LOCK"
  "dev_unlock (rtw88_usb_hci_ops C) = RTW88_UNLOCK"
  "dev_assert_locked (rtw88_usb_hci_ops C) = RTW88_ASSERT_LOCKED"
  by (simp_all add: rtw88_usb_hci_ops_def)

subsection \<open>The bus contract\<close>

definition usb_free :: "bool \<Rightarrow> 'z \<Rightarrow> ep0_req list \<Rightarrow> ('c, 'z) hw_scheme \<Rightarrow> bool" where
  "usb_free k z L s \<longleftrightarrow> mtx_depth s = 0 \<and> \<not> sc_io_busy s \<and> invariants s = k \<and>
     hw.more s = z \<and> (\<exists>xs. ep0_log s = L @ xs)"

lemma usb_lock: "usb_free k z L s \<Longrightarrow> \<exists>s'. RTW88_LOCK s = (Inr (), s') \<and> on_bus 0 k z L s'"
  by (auto simp: usb_free_def RTW88_LOCK_def on_bus_def)

lemma usb_unlock: "on_bus 0 k z L s \<Longrightarrow> \<exists>s'. RTW88_UNLOCK s = (Inr (), s') \<and> usb_free k z L s'"
  by (auto simp: usb_free_def RTW88_UNLOCK_def on_bus_def)

interpretation usb_bus: hci_bus "rtw88_usb_hci_ops C" "usb_free k z L" "on_bus 0 k z L"
  for C :: "'c chip_ops" and k and z :: 'z and L
  by unfold_locales (simp_all add: keeps_intros usb_lock usb_unlock)

lemma usb_free_start: "usb_free True () [] (free_hw c)"
  by (simp add: usb_free_def free_hw_def on_bus_hw_def)

subsection \<open>Chips that keep their configuration registers\<close>

definition mem_write :: "(u16 \<Rightarrow> u8) \<Rightarrow> u16 \<Rightarrow> u8 list \<Rightarrow> u16 \<Rightarrow> u8" where
  "mem_write m a bs = (\<lambda>x. if unat (x - a) < length bs then bs ! unat (x - a) else m x)"

text \<open>Cutting a 32-bit address to 16 bits.\<close>

lemma ucast_add16: "(ucast (a + b :: u32) :: u16) = ucast a + ucast b"
proof -
  have "unat (ucast (a + b) :: u16) = ((unat a + unat b) mod 2 ^ 32) mod 2 ^ 16"
    by (simp add: unsigned_ucast_eq take_bit_eq_mod unat_word_ariths)
  also have "\<dots> = (unat a + unat b) mod 2 ^ 16"
    by (simp add: mod_mod_cancel)
  also have "\<dots> = unat (ucast a + ucast b :: u16)"
    by (simp add: unsigned_ucast_eq take_bit_eq_mod unat_word_ariths mod_simps)
  finally show ?thesis by (simp add: word_unat_eq_iff)
qed

lemma far16:
  fixes x a :: u32
  assumes "unat x < 65536" "unat a \<le> 0xFFFC" "n \<le> 4" "\<not> unat (x - a) < n"
  shows "n \<le> unat (ucast x - ucast a :: u16)"
proof -
  have ux: "unat (ucast x :: u16) = unat x" "unat (ucast a :: u16) = unat a"
    using assms(1,2) by (simp_all add: unsigned_ucast_eq take_bit_nat_eq_self)
  show ?thesis
    using assms ux by (simp add: unat_sub_if_size word_size word_le_nat_alt split: if_splits)
qed

definition usb_plain :: "u16 set \<Rightarrow> u32 set" where
  "usb_plain cfg = {a. unat a < 65536 \<and> ucast a \<in> cfg}"

definition usb_usable :: "u32 set" where
  "usb_usable = {a. unat a \<le> 0xFFFC}"

lemma span_cfg:
  assumes "span n a \<subseteq> usb_plain cfg" "i < n" "n \<le> 4"
  shows "ucast a + of_nat i \<in> cfg"
proof -
  have "unat (of_nat i :: u32) = i" using assms(2,3) by (simp add: unat_of_nat)
  with assms(2) have "a + of_nat i \<in> span n a" by (simp add: span_def)
  with assms(1) have "ucast (a + of_nat i) \<in> cfg" by (auto simp: usb_plain_def)
  moreover have "(ucast (of_nat i :: u32) :: u16) = of_nat i"
    using assms(2,3) by (simp add: unat_of_nat word_unat_eq_iff unsigned_ucast_eq take_bit_nat_eq_self)
  ultimately show ?thesis by (simp add: ucast_add16)
qed

lemma on_bus_owns: "on_bus n k z L s \<Longrightarrow> mtx_depth s \<noteq> 0 \<and> \<not> sc_io_busy s"
  by (simp add: on_bus_def)

definition usb_peek :: "('c \<Rightarrow> u16 \<Rightarrow> u8) \<Rightarrow> ('c, 'z) hw_scheme \<Rightarrow> u32 \<Rightarrow> u8" where
  "usb_peek mem s a = mem (chip s) (ucast a)"

locale regfile_chip =
  fixes C :: "'c chip_ops" and mem :: "'c \<Rightarrow> u16 \<Rightarrow> u8" and cfg :: "u16 set"
  assumes ping_not_cfg: "RTW88_REG_SEC_PING_ADDR \<notin> cfg"
    and rd_val: "c_read C a n c = (Some f, c') \<Longrightarrow> i < unat n \<Longrightarrow> a + of_nat i \<in> cfg \<Longrightarrow>
      f i = mem c (a + of_nat i)"
    and rd_frame: "c_read C a n c = (r, c') \<Longrightarrow> x \<in> cfg \<Longrightarrow> mem c' x = mem c x"
    and wr_val: "c_write C a bs c = (True, c') \<Longrightarrow> x \<in> cfg \<Longrightarrow> mem c' x = mem_write (mem c) a bs x"
    and wr_frame: "c_write C a bs c = (False, c') \<Longrightarrow> x \<in> cfg \<Longrightarrow> length bs \<le> unat (x - a) \<Longrightarrow>
      mem c' x = mem c x"
begin

lemma sealed_mem: "x \<in> cfg \<Longrightarrow> mem (chip (sealed C a d s)) x = mem (chip s) x"
proof (cases "rtw88_addr_in_on_section a")
  case True
  assume x: "x \<in> cfg"
  with ping_not_cfg have "x \<noteq> RTW88_REG_SEC_PING_ADDR" by auto
  then have far: "length [d] \<le> unat (x - RTW88_REG_SEC_PING_ADDR)"
    by (metis One_nat_def Suc_leI length_Cons list.size(3) right_minus_eq unat_gt_0)
  obtain ok c where "c_write C RTW88_REG_SEC_PING_ADDR [d] (chip s) = (ok, c)" by fastforce
  with True x far show ?thesis
    by (cases ok) (auto simp: sealed_def mem_write_def dest: wr_val wr_frame)
qed (simp add: sealed_def)

lemma read_region_val:
  assumes "mtx_depth s \<noteq> 0" "\<not> sc_io_busy s"
    and "rtw88_usb_read_region C a n s = (Inr buf, s')"
    and "i < unat n" "a + of_nat i \<in> cfg"
  shows "at buf i = mem (chip s) (a + of_nat i)"
proof -
  obtain r c where c: "c_read C a n (chip s) = (r, c)" by fastforce
  with assms show ?thesis
    by (cases r) (auto simp: read_region_ok read_region_err dest: rd_val)
qed

lemma read_region_frame:
  assumes "mtx_depth s \<noteq> 0" "\<not> sc_io_busy s"
    and "rtw88_usb_read_region C a n s = (r, s')" and x: "x \<in> cfg"
  shows "mem (chip s') x = mem (chip s) x"
proof -
  obtain r c where c: "c_read C a n (chip s) = (r, c)" by fastforce
  with assms rd_frame [OF c x] show ?thesis
    by (cases r) (auto simp: read_region_ok read_region_err sealed_mem)
qed

lemma write_region_val:
  assumes "mtx_depth s \<noteq> 0" "\<not> sc_io_busy s"
    and "rtw88_usb_write_region C a buf s = (Inr u, s')" and x: "x \<in> cfg"
  shows "mem (chip s') x = mem_write (mem (chip s)) a buf x"
proof -
  obtain ok c where c: "c_write C a buf (chip s) = (ok, c)" by fastforce
  with assms show ?thesis
    by (cases ok) (auto simp: write_region_ok write_region_err sealed_mem wr_val)
qed

lemma write_region_frame:
  assumes "mtx_depth s \<noteq> 0" "\<not> sc_io_busy s"
    and "rtw88_usb_write_region C a buf s = (r, s')" and x: "x \<in> cfg"
    and far: "length buf \<le> unat (x - a)"
  shows "mem (chip s') x = mem (chip s) x"
proof -
  obtain ok c where c: "c_write C a buf (chip s) = (ok, c)" by fastforce
  with assms wr_val [of a buf "chip s" c x] wr_frame [of a buf "chip s" c x] show ?thesis
    by (cases ok) (auto simp: write_region_ok write_region_err sealed_mem mem_write_def)
qed


lemma region_val:
  assumes "on_bus n k z L s" "rtw88_usb_read_region C (ucast a) len s = (Inr buf, s')"
    and "span (unat len) a \<subseteq> usb_plain cfg" "i < unat len" "unat len \<le> 4"
  shows "at buf i = usb_peek mem s (a + of_nat i)"
proof -
  have "(ucast (of_nat i :: u32) :: u16) = of_nat i"
    using assms(4,5) by (simp add: unat_of_nat word_unat_eq_iff unsigned_ucast_eq take_bit_nat_eq_self)
  moreover from assms on_bus_owns [OF assms(1)] have "at buf i = mem (chip s) (ucast a + of_nat i)"
    by (intro read_region_val [of s "ucast a" len]) (auto intro: span_cfg)
  ultimately show ?thesis by (simp add: usb_peek_def ucast_add16)
qed

lemma region_frame:
  assumes "on_bus n k z L s" "rtw88_usb_read_region C (ucast a) len s = (r, s')" "x \<in> usb_plain cfg"
  shows "usb_peek mem s' x = usb_peek mem s x"
  using assms on_bus_owns [OF assms(1)] read_region_frame [of s "ucast a" len r s' "ucast x"]
  by (simp add: usb_peek_def usb_plain_def)

lemma region_written:
  assumes "on_bus n k z L s" "rtw88_usb_write_region C (ucast a) buf s = (Inr u, s')"
    and "span (length buf) a \<subseteq> usb_plain cfg" "i < length buf" "length buf \<le> 4"
  shows "usb_peek mem s' (a + of_nat i) = buf ! i"
proof -
  have i: "(ucast (of_nat i :: u32) :: u16) = of_nat i" "unat (of_nat i :: u16) = i"
    using assms(4,5) by (simp_all add: unat_of_nat word_unat_eq_iff unsigned_ucast_eq take_bit_nat_eq_self)
  have "mem (chip s') (ucast a + of_nat i) = mem_write (mem (chip s)) (ucast a) buf (ucast a + of_nat i)"
    using assms on_bus_owns [OF assms(1)] by (intro write_region_val) (auto intro: span_cfg)
  with i assms(4) show ?thesis by (simp add: usb_peek_def ucast_add16 mem_write_def)
qed

lemma region_write_frame:
  assumes "on_bus n k z L s" "rtw88_usb_write_region C (ucast a) buf s = (r, s')"
    and "a \<in> usb_usable" "x \<in> usb_plain cfg" "x \<notin> span (length buf) a" "length buf \<le> 4"
  shows "usb_peek mem s' x = usb_peek mem s x"
  using assms on_bus_owns [OF assms(1)] far16 [of x a "length buf"]
    write_region_frame [of s "ucast a" buf r s' "ucast x"]
  by (simp add: usb_peek_def usb_plain_def usb_usable_def span_def)

end

text \<open>Bytes of a register and the register.\<close>

lemma tryE_ret_Inr: "tryE m (\<lambda>x. ret (f x)) s = (Inr v, s') \<Longrightarrow> \<exists>x. m s = (Inr x, s') \<and> v = f x"
  by (auto simp: tryE_def split: prod.splits sum.splits)

lemma reads_as_region:
  "rtw88_usb_read1 C a s = (r1, s') \<Longrightarrow> \<exists>r. rtw88_usb_read_region C a 1 s = (r, s')"
  "rtw88_usb_read2 C a s = (r2, s') \<Longrightarrow> \<exists>r. rtw88_usb_read_region C a 2 s = (r, s')"
  "rtw88_usb_read4 C a s = (r4, s') \<Longrightarrow> \<exists>r. rtw88_usb_read_region C a 4 s = (r, s')"
  by (auto simp: rtw88_usb_read1_def rtw88_usb_read2_def rtw88_usb_read4_def tryE_def
      split: prod.splits sum.splits)

lemma le16enc_nth: "le16enc v ! 0 = ucast v" "le16enc v ! Suc 0 = ucast (drop_bit 8 v)"
  by (simp_all add: le16enc_def)

lemma le32enc_nth: "le32enc v ! 0 = ucast v" "le32enc v ! Suc 0 = ucast (drop_bit 8 v)"
  "le32enc v ! 2 = ucast (drop_bit 16 v)" "le32enc v ! 3 = ucast (drop_bit 24 v)"
  by (simp_all add: le32enc_def)

sublocale regfile_chip < usb_regs: hci_regs "rtw88_usb_hci_ops C" "usb_free k z L" "on_bus 0 k z L"
    "usb_peek mem" "usb_plain cfg" usb_usable
  for k and z :: 'z and L
proof unfold_locales
  fix w w' :: "('c, 'z) hw_scheme" and a b
  assume w: "on_bus 0 k z L w" and a: "a \<in> usb_plain cfg"
  { assume "op_read8 (rtw88_usb_hci_ops C) a w = (Inr b, w')"
    then obtain buf where "rtw88_usb_read_region C (ucast a) 1 w = (Inr buf, w')" "b = at buf 0"
      by (auto simp: rtw88_usb_read1_def dest: tryE_ret_Inr)
    with region_val [OF w this(1), of 0] a show "b = usb_peek mem w a"
      by (auto simp: span_def usb_plain_def unat_eq_0) }
  { assume "op_write8 (rtw88_usb_hci_ops C) a b w = (Inr (), w')"
    with region_written [OF w, of a "[b]" _ w' 0] a show "usb_peek mem w' a = b"
      by (auto simp: rtw88_usb_write1_def span_def usb_plain_def unat_eq_0) }
next
  fix w w' :: "('c, 'z) hw_scheme" and a h
  assume w: "on_bus 0 k z L w" and a: "a \<in> usb_usable" and s: "span 2 a \<subseteq> usb_plain cfg"
  { assume "op_read16 (rtw88_usb_hci_ops C) a w = (Inr h, w')"
    then obtain buf where "rtw88_usb_read_region C (ucast a) 2 w = (Inr buf, w')" "h = le16dec buf 0"
      by (auto simp: rtw88_usb_read2_def dest: tryE_ret_Inr)
    with region_val [OF w this(1), of 0] region_val [OF w this(1), of 1] s
    show "h = peek16 (usb_peek mem w) a"
      by (simp add: le16dec_def peek16_def) }
  { assume "op_write16 (rtw88_usb_hci_ops C) a h w = (Inr (), w')"
    with region_written [OF w, of a "le16enc h" _ w' 0] region_written [OF w, of a "le16enc h" _ w' 1] s
    show "peek16 (usb_peek mem w') a = h"
      by (simp add: rtw88_usb_write2_def peek16_def le16enc_nth le16_enc) }
next
  fix w w' :: "('c, 'z) hw_scheme" and a v
  assume w: "on_bus 0 k z L w" and a: "a \<in> usb_usable" and s: "span 4 a \<subseteq> usb_plain cfg"
  { assume "op_read32 (rtw88_usb_hci_ops C) a w = (Inr v, w')"
    then obtain buf where "rtw88_usb_read_region C (ucast a) 4 w = (Inr buf, w')" "v = le32dec buf 0"
      by (auto simp: rtw88_usb_read4_def dest: tryE_ret_Inr)
    with region_val [OF w this(1), of 0] region_val [OF w this(1), of 1]
      region_val [OF w this(1), of 2] region_val [OF w this(1), of 3] s
    show "v = peek32 (usb_peek mem w) a"
      by (simp add: le32dec_0 peek32_def) }
  { assume "op_write32 (rtw88_usb_hci_ops C) a v w = (Inr (), w')"
    with region_written [OF w, of a "le32enc v" _ w' 0] region_written [OF w, of a "le32enc v" _ w' 1]
      region_written [OF w, of a "le32enc v" _ w' 2] region_written [OF w, of a "le32enc v" _ w' 3] s
    show "peek32 (usb_peek mem w') a = v"
      by (simp add: rtw88_usb_write4_def peek32_def le32enc_nth le32_enc) }
next
  fix w w' :: "('c, 'z) hw_scheme" and a x r
  assume w: "on_bus 0 k z L w" and x: "x \<in> usb_plain cfg"
  show "op_read8 (rtw88_usb_hci_ops C) a w = (r, w') \<Longrightarrow> usb_peek mem w' x = usb_peek mem w x"
    by (auto dest!: reads_as_region(1) dest: region_frame [OF w _ x])
next
  fix w w' :: "('c, 'z) hw_scheme" and a x r
  assume w: "on_bus 0 k z L w" and x: "x \<in> usb_plain cfg"
  show "op_read16 (rtw88_usb_hci_ops C) a w = (r, w') \<Longrightarrow> usb_peek mem w' x = usb_peek mem w x"
    by (auto dest!: reads_as_region(2) dest: region_frame [OF w _ x])
next
  fix w w' :: "('c, 'z) hw_scheme" and a x r
  assume w: "on_bus 0 k z L w" and x: "x \<in> usb_plain cfg"
  show "op_read32 (rtw88_usb_hci_ops C) a w = (r, w') \<Longrightarrow> usb_peek mem w' x = usb_peek mem w x"
    by (auto dest!: reads_as_region(3) dest: region_frame [OF w _ x])
next
  fix w w' :: "('c, 'z) hw_scheme" and a x r
  assume w: "on_bus 0 k z L w" and a: "a \<in> usb_usable" and x: "x \<in> usb_plain cfg"
  show "op_write8 (rtw88_usb_hci_ops C) a b w = (r, w') \<Longrightarrow> x \<noteq> a \<Longrightarrow>
      usb_peek mem w' x = usb_peek mem w x" for b
    using region_write_frame [OF w _ a x, of "[b]"]
    by (auto simp: rtw88_usb_write1_def span_def unat_eq_0)
  show "op_write16 (rtw88_usb_hci_ops C) a h w = (r, w') \<Longrightarrow> x \<notin> span 2 a \<Longrightarrow>
      usb_peek mem w' x = usb_peek mem w x" for h
    using region_write_frame [OF w _ a x, of "le16enc h"] by (simp add: rtw88_usb_write2_def)
  show "op_write32 (rtw88_usb_hci_ops C) a v w = (r, w') \<Longrightarrow> x \<notin> span 4 a \<Longrightarrow>
      usb_peek mem w' x = usb_peek mem w x" for v
    using region_write_frame [OF w _ a x, of "le32enc v"] by (simp add: rtw88_usb_write4_def)
qed

subsection \<open>Chips that answer\<close>

locale answering_chip = regfile_chip C mem cfg
  for C :: "'c chip_ops" and mem :: "'c \<Rightarrow> u16 \<Rightarrow> u8" and cfg :: "u16 set" +
  assumes rd_up: "fst (c_read C a n c) \<noteq> None" and wr_up: "fst (c_write C a bs c)"
begin

lemma read_region_up:
  assumes "mtx_depth s \<noteq> 0" "\<not> sc_io_busy s"
  shows "\<exists>buf s'. rtw88_usb_read_region C a n s = (Inr buf, s')"
proof -
  obtain f c where "c_read C a n (chip s) = (Some f, c)"
    using rd_up [of a n "chip s"] by (cases "c_read C a n (chip s)") auto
  from read_region_ok [OF assms this] show ?thesis by blast
qed

lemma write_region_up:
  assumes "mtx_depth s \<noteq> 0" "\<not> sc_io_busy s"
  shows "\<exists>s'. rtw88_usb_write_region C a bs s = (Inr (), s')"
proof -
  obtain c where "c_write C a bs (chip s) = (True, c)"
    using wr_up [of a bs "chip s"] by (cases "c_write C a bs (chip s)") auto
  from write_region_ok [OF assms this] show ?thesis by blast
qed

end

sublocale answering_chip < usb_up: hci_answers "rtw88_usb_hci_ops C" "usb_free k z L" "on_bus 0 k z L"
    "usb_peek mem" "usb_plain cfg" usb_usable
  for k and z :: 'z and L
proof unfold_locales
  fix w :: "('c, 'z) hw_scheme" and a b h v
  assume "on_bus 0 k z L w"
  then have w: "mtx_depth w \<noteq> 0" "\<not> sc_io_busy w" by (simp_all add: on_bus_def)
  show "\<exists>b w'. op_read8 (rtw88_usb_hci_ops C) a w = (Inr b, w')"
    using read_region_up [OF w, of "ucast a" 1] by (auto simp: rtw88_usb_read1_def tryE_def)
  show "\<exists>h w'. op_read16 (rtw88_usb_hci_ops C) a w = (Inr h, w')"
    using read_region_up [OF w, of "ucast a" 2] by (auto simp: rtw88_usb_read2_def tryE_def)
  show "\<exists>v w'. op_read32 (rtw88_usb_hci_ops C) a w = (Inr v, w')"
    using read_region_up [OF w, of "ucast a" 4] by (auto simp: rtw88_usb_read4_def tryE_def)
  show "\<exists>w'. op_write8 (rtw88_usb_hci_ops C) a b w = (Inr (), w')"
    using write_region_up [OF w] by (simp add: rtw88_usb_write1_def)
  show "\<exists>w'. op_write16 (rtw88_usb_hci_ops C) a h w = (Inr (), w')"
    using write_region_up [OF w] by (simp add: rtw88_usb_write2_def)
  show "\<exists>w'. op_write32 (rtw88_usb_hci_ops C) a v w = (Inr (), w')"
    using write_region_up [OF w] by (simp add: rtw88_usb_write4_def)
  show "dev_assert_locked (rtw88_usb_hci_ops C) w = (Inr (), w)"
    using w by (simp add: RTW88_ASSERT_LOCKED_def)
  fix r w' assume "dev_unlock (rtw88_usb_hci_ops C) w = (r, w')"
  then show "usb_peek mem w' = usb_peek mem w"
    using w by (auto simp: RTW88_UNLOCK_def usb_peek_def fun_eq_iff)
next
  fix w :: "('c, 'z) hw_scheme" and r w'
  assume "usb_free k z L w" "dev_lock (rtw88_usb_hci_ops C) w = (r, w')"
  then show "usb_peek mem w' = usb_peek mem w"
    by (auto simp: RTW88_LOCK_def usb_free_def usb_peek_def fun_eq_iff)
qed

context answering_chip
begin

lemma usb_answers_here:
  "hci_answers (rtw88_usb_hci_ops C) (usb_free k z L) (on_bus 0 k z L) (usb_peek mem)
    (usb_plain cfg) usb_usable"
  by (rule usb_up.hci_answers_axioms)

end

lemma usb_answers:
  assumes "answering_chip C mem cfg"
  shows "hci_answers (rtw88_usb_hci_ops C) (usb_free k z L) (on_bus 0 k z L) (usb_peek mem)
    (usb_plain cfg) usb_usable"
  by (rule answering_chip.usb_answers_here [OF assms])

text \<open>Where the register addresses of the driver lie: inside the 16-bit window, off the seal address.\<close>

lemma unat_span:
  fixes a x :: u32
  assumes "x \<in> span n a" "unat a + n \<le> 65536"
  shows "unat a \<le> unat x \<and> unat x < unat a + n"
proof -
  have "unat x = unat (a + (x - a))" by simp
  also have "\<dots> = (unat a + unat (x - a)) mod 2 ^ 32"
    by (subst unat_word_ariths(1)) simp
  finally have "unat x = (unat a + unat (x - a)) mod 2 ^ 32" .
  moreover have "unat a + unat (x - a) < 2 ^ 32" using assms by (simp add: span_def)
  ultimately have "unat x = unat a + unat (x - a)" by simp
  with assms show ?thesis by (simp add: span_def)
qed

lemma span_plain:
  assumes "unat a + n \<le> 65536" "unat a + n \<le> 0x4E0 \<or> 0x4E0 < unat a"
  shows "span n a \<subseteq> usb_plain (- {RTW88_REG_SEC_PING_ADDR})"
proof
  fix x :: u32 assume "x \<in> span n a"
  from unat_span [OF this assms(1)] assms have x: "unat x < 65536" "unat x \<noteq> 0x4E0" by auto
  then have "unat (ucast x :: u16) = unat x"
    by (simp add: unsigned_ucast_eq take_bit_nat_eq_self)
  with x(2) have "(ucast x :: u16) \<noteq> 0x4E0" by auto
  with x show "x \<in> usb_plain (- {RTW88_REG_SEC_PING_ADDR})" by (simp add: usb_plain_def)
qed

lemma addr_plain:
  "unat a < 65536 \<Longrightarrow> unat a \<noteq> 0x4E0 \<Longrightarrow> a \<in> usb_plain (- {RTW88_REG_SEC_PING_ADDR})"
proof -
  assume a: "unat a < 65536" "unat a \<noteq> 0x4E0"
  then have "unat (ucast a :: u16) = unat a" by (simp add: unsigned_ucast_eq take_bit_nat_eq_self)
  with a(2) have "(ucast a :: u16) \<noteq> 0x4E0" by auto
  with a(1) show "a \<in> usb_plain (- {RTW88_REG_SEC_PING_ADDR})" by (simp add: usb_plain_def)
qed

subsection \<open>A concrete chip\<close>

text \<open>A register file that answers every request: the chip of the witnesses.\<close>

definition regfile_ops :: "(u16 \<Rightarrow> u8) chip_ops" where
  "regfile_ops = \<lparr>
     c_read = (\<lambda>a n m. (Some (\<lambda>i. m (a + of_nat i)), m)),
     c_write = (\<lambda>a bs m. (True, mem_write m a bs)),
     c_bulk = (\<lambda>p bs m. (XferDone, m)) \<rparr>"

interpretation regfile: regfile_chip regfile_ops "\<lambda>m. m" "- {RTW88_REG_SEC_PING_ADDR}"
  by unfold_locales (auto simp: regfile_ops_def)

lemma regfile_answers: "answering_chip regfile_ops (\<lambda>m. m) (- {RTW88_REG_SEC_PING_ADDR})"
  by unfold_locales (auto simp: regfile_ops_def)

interpretation regfile_up: answering_chip regfile_ops "\<lambda>m. m" "- {RTW88_REG_SEC_PING_ADDR}"
  by (rule regfile_answers)

end
