(* ===== verification/Rtw_Efuse.thy ===== *)
theory Rtw_Efuse
  imports Rtw_Debug Rtw_Hci_Usb
begin

section \<open>EFUSE\<close>

text \<open>
  \<^verbatim>\<open>rtw88_efuse.c\<close>: reading the one-time-programmable memory byte by byte, decoding its sections into the
  logical map, and extracting the parameters of the card. The decoder is a loop whose index is a
  16-bit word and whose end depends on the data, so it is a partial function (\<open>None\<close> is a run that
  never ends); a read or write outside one of the two buffers is the fault \<open>Panic\<close>.
\<close>

subsection \<open>The physical map\<close>

definition efuse_ctrl_cmd :: "u16 \<Rightarrow> u32 \<Rightarrow> u32" where
  "efuse_ctrl_cmd addr val =
     (let v1 = val AND NOT (BIT_MASK_EF_DATA OR BITS_EF_ADDR);
          v2 = v1 OR push_bit BIT_SHIFT_EF_ADDR (ucast (addr AND BIT_MASK_EF_ADDR))
      in v2 AND NOT BIT_EF_FLAG)"

definition rtw88_efuse_read_phys_byte :: "'w hci_ops \<Rightarrow> u16 \<Rightarrow> ('w rtw88_dev, u8) cm" where
  "rtw88_efuse_read_phys_byte ops addr =
     seqE (RTW88_DEV_ASSERT_LOCKED ops)
     (tryE (rtw_read32 ops REG_EFUSE_CTRL) (\<lambda>val.
      seqE (rtw_write32 ops REG_EFUSE_CTRL (efuse_ctrl_cmd addr val))
      (tryE (pollE 1000 (tryE (rtw_read32 ops REG_EFUSE_CTRL) (\<lambda>v.
               ret (if v AND BIT_EF_FLAG \<noteq> 0 then Some v else None)))) (\<lambda>r. case r of
         None \<Rightarrow> fail (Errno ETIMEDOUT)
       | Some v \<Rightarrow> ret (ucast (v AND BIT_MASK_EF_DATA))))))"

fun efuse_phys_bytes :: "'w hci_ops \<Rightarrow> nat \<Rightarrow> u16 \<Rightarrow> ('w rtw88_dev, u8 list) cm" where
  "efuse_phys_bytes ops 0 addr = ret []"
| "efuse_phys_bytes ops (Suc n) addr =
     tryE (rtw88_efuse_read_phys_byte ops addr) (\<lambda>b.
     tryE (efuse_phys_bytes ops n (addr + 1)) (\<lambda>bs. ret (b # bs)))"

definition rtw88_efuse_read_phys_map :: "'w hci_ops \<Rightarrow> 'w chip_info \<Rightarrow> ('w rtw88_dev, u8 list) cm" where
  "rtw88_efuse_read_phys_map ops ci =
     seqE (RTW88_DEV_ASSERT_LOCKED ops)
     (tryE (rtw_read32 ops REG_LDO_EFUSE_CTRL) (\<lambda>ldo.
      seqE (rtw_write32 ops REG_LDO_EFUSE_CTRL (ldo AND NOT BIT_MASK_EFUSE_BANK_SEL))
      (tryE (rtw_read8 ops (REG_LDO_EFUSE_CTRL + 3)) (\<lambda>ldo_pwr.
       seqE (rtw_write8 ops (REG_LDO_EFUSE_CTRL + 3) (ldo_pwr AND NOT (push_bit 7 1)))
        (efuse_phys_bytes ops (unat (efuse_size ci)) 0)))))"

subsection \<open>From sections to the logical map\<close>

definition efuse_hdr_long :: "u8 \<Rightarrow> bool" where
  "efuse_hdr_long hdr1 \<longleftrightarrow> hdr1 AND 0x1f = 0xf"

definition efuse_hdr_end :: "u8 \<Rightarrow> u8 \<Rightarrow> bool" where
  "efuse_hdr_end hdr1 hdr2 \<longleftrightarrow> hdr1 = 0xff \<or> (efuse_hdr_long hdr1 \<and> hdr2 = 0xff)"

definition efuse_hdr_blk :: "u8 \<Rightarrow> u8 \<Rightarrow> u8" where
  "efuse_hdr_blk hdr1 hdr2 =
     (if efuse_hdr_long hdr1 then drop_bit 1 (hdr2 AND 0xf0) OR (drop_bit 5 hdr1 AND 0x07)
      else drop_bit 4 (hdr1 AND 0xf0))"

definition efuse_hdr_en :: "u8 \<Rightarrow> u8 \<Rightarrow> u8" where
  "efuse_hdr_en hdr1 hdr2 = (if efuse_hdr_long hdr1 then hdr2 AND 0xf else hdr1 AND 0xf)"

text \<open>
  \<open>lim\<close> is \<^verbatim>\<open>size - protect\<close>, cut at 0 (the C difference is an \<^verbatim>\<open>int\<close>, and every index reaches a negative
  limit as it reaches 0). The inner loop runs over the word
  numbers still to do.
\<close>

fun efuse_words :: "nat \<Rightarrow> u16 \<Rightarrow> u8 list \<Rightarrow> u8 \<Rightarrow> u8 \<Rightarrow> nat list \<Rightarrow> u16 \<Rightarrow> u8 list \<Rightarrow> fault + (u16 \<times> u8 list)" where
  "efuse_words lim sz phy blk_idx word_en [] phy_idx log = Inr (phy_idx, log)"
| "efuse_words lim sz phy blk_idx word_en (i # ws) phy_idx log =
     (if bit word_en i then efuse_words lim sz phy blk_idx word_en ws phy_idx log
      else
        let log_idx = 8 * unat blk_idx + 2 * i in
        if unat phy_idx + 1 \<ge> lim then Inl (Errno EINVAL)
        else if log_idx + 1 \<ge> unat sz then Inl (Errno EINVAL)
        else if unat phy_idx + 1 \<ge> length phy \<or> log_idx + 1 \<ge> length log then Inl Panic
        else efuse_words lim sz phy blk_idx word_en ws (phy_idx + 2)
               (log[log_idx := phy ! unat phy_idx, log_idx + 1 := phy ! (unat phy_idx + 1)]))"

partial_function (option) efuse_walk ::
  "nat \<Rightarrow> u16 \<Rightarrow> u8 list \<Rightarrow> u16 \<Rightarrow> u8 list \<Rightarrow> (fault + u8 list) option" where
  [code]: "efuse_walk lim sz phy phy_idx log =
     (if unat phy_idx \<ge> lim then Some (Inr log)
      else if unat phy_idx + 1 \<ge> length phy then Some (Inl Panic)
      else
        let hdr1 = phy ! unat phy_idx; hdr2 = phy ! (unat phy_idx + 1) in
        if efuse_hdr_end hdr1 hdr2 then Some (Inr log)
        else
          case efuse_words lim sz phy (efuse_hdr_blk hdr1 hdr2) (efuse_hdr_en hdr1 hdr2) [0, 1, 2, 3]
                 (phy_idx + (if efuse_hdr_long hdr1 then 2 else 1)) log of
            Inl e \<Rightarrow> Some (Inl e)
          | Inr (phy_idx', log') \<Rightarrow> efuse_walk lim sz phy phy_idx' log')"

definition rtw88_efuse_logical_walk :: "'w chip_info \<Rightarrow> u8 list \<Rightarrow> (fault + u8 list) option" where
  "rtw88_efuse_logical_walk ci phy =
     efuse_walk (unat (efuse_size ci) - unat (efuse_ptct_size ci)) (efuse_size ci) phy 0
       (replicate (unat (efuse_size ci)) 0xff)"

subsection \<open>The parameters of the card\<close>

text \<open>The copies out of the map fault when the chip description points past the buffers.\<close>

definition efuse_extract :: "'w chip_info \<Rightarrow> u8 list \<Rightarrow> fault + rtw88_efuse" where
  "efuse_extract ci log =
     (if unat (efuse_size ci) > 512 \<or> unat (efuse_mac_offset ci) + 6 > length log
       \<or> unat (efuse_xtal_k_offset ci) \<ge> length log \<or> unat (efuse_rfe_offset ci) \<ge> length log then Inl Panic
      else
        let rfe_option = log ! unat (efuse_rfe_offset ci) AND 0x1F in
        Inr \<lparr>ef_valid = True,
             ef_mac_addr = take 6 (drop (unat (efuse_mac_offset ci)) log),
             ef_xtal_cap = log ! unat (efuse_xtal_k_offset ci) AND 0x3F,
             ef_rfe_option = rfe_option,
             ef_pkg_type = (if bit (log ! unat (efuse_rfe_offset ci)) 5 then 1 else 0),
             ef_btcoex = (push_bit (unat rfe_option) 1 AND coex_rfe_btg_mask ci \<noteq> 0),
             ef_raw = log\<rparr>)"

text \<open>Only the bytes of the map are copied into \<^verbatim>\<open>raw\<close>: the rest of it keeps its contents.\<close>

definition efuse_store :: "rtw88_efuse \<Rightarrow> 'w rtw88_dev \<Rightarrow> 'w rtw88_dev" where
  "efuse_store ef d = d\<lparr>dev_efuse := ef\<lparr>ef_raw := ef_raw ef @ drop (length (ef_raw ef)) (ef_raw (dev_efuse d))\<rparr>\<rparr>"

text \<open>A walk that never ends is a thread that hangs.\<close>

definition rtw88_efuse_read :: "'w hci_ops \<Rightarrow> 'w chip_info option \<Rightarrow> ('w rtw88_dev, unit) cm" where
  "rtw88_efuse_read ops ch = tryE (deref_chip ch) (\<lambda>ci.
     seqE (RTW88_DEV_LOCK ops)
     (tryE (attempt (rtw88_efuse_read_phys_map ops ci)) (\<lambda>r.
      seqE (RTW88_DEV_UNLOCK ops)
      (case r of
         Inl e \<Rightarrow> fail (Errno e)
       | Inr phy \<Rightarrow>
         (case rtw88_efuse_logical_walk ci phy of
            None \<Rightarrow> fail Hang
          | Some (Inl e) \<Rightarrow> fail e
          | Some (Inr log) \<Rightarrow>
            (case efuse_extract ci log of
               Inl e \<Rightarrow> fail e
             | Inr ef \<Rightarrow>
                 seqE (updS (efuse_store ef))
                 (seqE (RTW88_DEV_LOCK ops)
                 (seqE (forE (\<lambda>i. discard (rtw_write8 ops (REG_MACID0 + of_nat i) (ef_mac_addr ef ! i))) [0..<6])
                  (RTW88_DEV_UNLOCK ops)))))))))"

lemma unat_u16: "unat (p :: u16) < 65536"
  by (rule order_less_le_trans [OF unsigned_less]) simp

subsection \<open>The walk ends, and inside the buffers\<close>

text \<open>
  The physical index only grows, and never past \<open>lim\<close> by more than a header, so it cannot wrap when
  \<open>lim\<close> is at most 65534.
\<close>

lemma efuse_words_ok:
  assumes "efuse_words lim sz phy blk en ws p log = r"
    and "lim \<le> length phy" "lim \<le> 65534" "unat sz \<le> length log" "unat p < 65536"
  shows "case r of Inl e \<Rightarrow> e = Errno EINVAL
    | Inr (p', log') \<Rightarrow> unat p \<le> unat p' \<and> length log' = length log \<and> (p' = p \<or> unat p' \<le> lim)"
  using assms(1,4,5)
proof (induction ws arbitrary: p log)
  case Nil
  then show ?case by auto
next
  case (Cons i ws)
  let ?l = "8 * unat blk + 2 * i"
  consider (skip) "bit en i" | (lim) "\<not> bit en i" "unat p + 1 \<ge> lim"
    | (log) "\<not> bit en i" "\<not> unat p + 1 \<ge> lim" "?l + 1 \<ge> unat sz"
    | (store) "\<not> bit en i" "\<not> unat p + 1 \<ge> lim" "\<not> ?l + 1 \<ge> unat sz" by blast
  then show ?case
  proof cases
    case skip
    with Cons.prems Cons.IH [of p log] show ?thesis by simp
  next
    case lim
    with Cons.prems show ?thesis by auto
  next
    case log
    with Cons.prems show ?thesis by auto
  next
    case store
    let ?log = "log[?l := phy ! unat p, ?l + 1 := phy ! (unat p + 1)]"
    have p: "unat p + 1 < length phy" "?l + 1 < length log"
      using store assms(2) Cons.prems(2) by (auto)
    have p2: "unat (p + 2) = unat p + 2"
      using store(2) assms(3) by (subst unat_word_ariths(1)) (simp)
    have run: "efuse_words lim sz phy blk en ws (p + 2) ?log = r"
      using Cons.prems(1) store p by (simp add: Let_def)
    have "unat sz \<le> length ?log" "unat (p + 2) < 65536" using Cons.prems(2) p2 store(2) assms(3)
      by (simp_all)
    from Cons.IH [OF run this] p2 store(2) show ?thesis
      by (auto split: sum.splits)
  qed
qed

lemma efuse_walk_step:
  assumes "unat p < lim" "unat p + 1 < length phy" "\<not> efuse_hdr_end (phy ! unat p) (phy ! (unat p + 1))"
  shows "efuse_walk lim sz phy p log =
    (case efuse_words lim sz phy (efuse_hdr_blk (phy ! unat p) (phy ! (unat p + 1)))
        (efuse_hdr_en (phy ! unat p) (phy ! (unat p + 1))) [0, 1, 2, 3]
        (p + (if efuse_hdr_long (phy ! unat p) then 2 else 1)) log of
       Inl e \<Rightarrow> Some (Inl e) | Inr (p', log') \<Rightarrow> efuse_walk lim sz phy p' log')"
  by (subst efuse_walk.simps) (use assms in \<open>simp add: Let_def del: efuse_words.simps\<close>)

lemma efuse_walk_total:
  assumes "lim < length phy" "lim \<le> 65534" "unat sz \<le> length log"
  shows "\<exists>r. efuse_walk lim sz phy p log = Some r \<and>
    (case r of Inl e \<Rightarrow> e = Errno EINVAL | Inr log' \<Rightarrow> length log' = length log)"
  using assms(3)
proof (induction "lim - unat p" arbitrary: p log rule: less_induct)
  case less
  show ?case
  proof (cases "unat p \<ge> lim")
    case True
    then show ?thesis by (subst efuse_walk.simps) simp
  next
    case False
    let ?h1 = "phy ! unat p" and ?h2 = "phy ! (unat p + 1)"
    let ?n = "if efuse_hdr_long ?h1 then 2 else 1 :: u16"
    have in_phy: "\<not> unat p + 1 \<ge> length phy" using False assms(1) by (simp)
    show ?thesis
    proof (cases "efuse_hdr_end ?h1 ?h2")
      case True
      with False in_phy show ?thesis by (subst efuse_walk.simps) (simp add: Let_def)
    next
      case cont: False
      have p_n: "unat (p + ?n) = unat p + (if efuse_hdr_long ?h1 then 2 else 1)"
        using False assms(2) by (subst unat_word_ariths(1)) (simp)
      obtain r where r: "efuse_words lim sz phy (efuse_hdr_blk ?h1 ?h2) (efuse_hdr_en ?h1 ?h2)
          [0, 1, 2, 3] (p + ?n) log = r" by blast
      have words: "case r of Inl e \<Rightarrow> e = Errno EINVAL | Inr (p', log') \<Rightarrow>
          unat (p + ?n) \<le> unat p' \<and> length log' = length log \<and> (p' = p + ?n \<or> unat p' \<le> lim)"
        by (rule efuse_words_ok [OF r]) (use assms(1,2) less.prems unat_u16 [of "p + ?n"] in \<open>simp_all\<close>)
      show ?thesis
      proof (cases r)
        case (Inl e)
        with words r False in_phy cont efuse_walk_step [of p lim phy sz log] show ?thesis
          by (simp del: efuse_words.simps)
      next
        case (Inr q)
        obtain p' log' where q: "q = (p', log')" by fastforce
        with words Inr have p': "unat p < unat p'" "length log' = length log"
          using p_n by (auto split: if_splits)
        then have "lim - unat p' < lim - unat p" using False by (simp)
        from less.hyps [OF this, of log', unfolded p'(2), OF less.prems] obtain r' where
          "efuse_walk lim sz phy p' log' = Some r'"
          "case r' of Inl e \<Rightarrow> e = Errno EINVAL | Inr l \<Rightarrow> length l = length log" by blast
        with r Inr q False in_phy cont p'(2) efuse_walk_step [of p lim phy sz log] show ?thesis
          by (simp del: efuse_words.simps)
      qed
    qed
  qed
qed

subsection \<open>The format\<close>

text \<open>
  The specification of the format: a section is a block number, a choice of the one- or two-byte header, and
  four words each of which may be absent. \<open>sec_bytes\<close> writes it the way a programmer of the memory does, \<open>sec_apply\<close> is
  what it means for the logical map.
\<close>

record efuse_section =
  sec_blk :: u8
  sec_long :: bool
  sec_data :: "(u8 \<times> u8) option list"

primrec sec_en :: "(u8 \<times> u8) option list \<Rightarrow> u8" where
  "sec_en [] = 0"
| "sec_en (x # xs) = (if x = None then 1 else 0) OR push_bit 1 (sec_en xs)"

definition sec_header :: "efuse_section \<Rightarrow> u8 list" where
  "sec_header s = (if sec_long s
     then [push_bit 5 (take_bit 3 (sec_blk s)) OR 0xf, push_bit 4 (drop_bit 3 (sec_blk s)) OR sec_en (sec_data s)]
     else [push_bit 4 (sec_blk s) OR sec_en (sec_data s)])"

primrec sec_words :: "(u8 \<times> u8) option list \<Rightarrow> u8 list" where
  "sec_words [] = []"
| "sec_words (x # xs) = (case x of None \<Rightarrow> [] | Some (a, b) \<Rightarrow> [a, b]) @ sec_words xs"

definition sec_bytes :: "efuse_section \<Rightarrow> u8 list" where
  "sec_bytes s = sec_header s @ sec_words (sec_data s)"

primrec put_words :: "nat \<Rightarrow> (u8 \<times> u8) option list \<Rightarrow> u8 list \<Rightarrow> u8 list" where
  "put_words k [] log = log"
| "put_words k (x # xs) log =
     put_words (k + 2) xs (case x of None \<Rightarrow> log | Some (a, b) \<Rightarrow> log[k := a, k + 1 := b])"

definition sec_apply :: "efuse_section \<Rightarrow> u8 list \<Rightarrow> u8 list" where
  "sec_apply s log = put_words (8 * unat (sec_blk s)) (sec_data s) log"

text \<open>Four words, one of them present, a block number that fits the header, and a block inside the map.\<close>

definition sec_ok :: "nat \<Rightarrow> efuse_section \<Rightarrow> bool" where
  "sec_ok sz s \<longleftrightarrow> length (sec_data s) = 4 \<and> sec_data s \<noteq> [None, None, None, None] \<and>
     (if sec_long s then unat (sec_blk s) < 128 else unat (sec_blk s) < 16) \<and> 8 * unat (sec_blk s) + 8 \<le> sz"

lemma sec_en_bit: "length xs \<le> 8 \<Longrightarrow> bit (sec_en xs) i \<longleftrightarrow> i < length xs \<and> xs ! i = None"
proof (induction xs arbitrary: i)
  case Nil
  then show ?case by simp
next
  case (Cons x xs)
  show ?case
  proof (cases i)
    case 0
    then show ?thesis unfolding sec_en.simps bit_or_iff bit_push_bit_iff by simp
  next
    case (Suc j)
    have "bit (sec_en xs) j \<longleftrightarrow> j < length xs \<and> xs ! j = None" using Cons.IH Cons.prems by simp
    moreover have "bit (sec_en (x # xs)) (Suc j) \<longleftrightarrow> Suc j < 8 \<and> bit (sec_en xs) j"
      unfolding sec_en.simps bit_or_iff bit_push_bit_iff by (simp add: bit_1_iff)
    ultimately show ?thesis using Suc Cons.prems by auto
  qed
qed

lemma sec_en_full:
  assumes "length xs = 4" "sec_en xs = 0xf"
  shows "xs = [None, None, None, None]"
proof -
  obtain a b c d where xs: "xs = [a, b, c, d]"
    using assms(1) by (auto simp: length_Suc_conv numeral_eq_Suc)
  have "bit (sec_en xs) i" if "i < 4" for i
    using that unfolding assms(2) by (auto dest!: less_4_cases)
  from this [of 0] this [of 1] this [of 2] this [of 3] show ?thesis
    using sec_en_bit [of xs] by (auto simp: xs)
qed

lemma sec_en_nibble: "length xs = 4 \<Longrightarrow> take_bit 4 (sec_en xs) = sec_en xs"
  by (rule bit_word_eqI) (auto simp: bit_take_bit_iff sec_en_bit)

text \<open>What the decoder makes of a header.\<close>

lemma and_masks:
  "v AND 0xf = take_bit 4 v" "v AND 0x1f = take_bit 5 v" "v AND 7 = take_bit 3 v" for v :: u8
  by (simp_all add: take_bit_eq_mask mask_eq_exp_minus_1)

lemma and_hi: "v AND 0xf0 = push_bit 4 (drop_bit 4 v)" for v :: u8
proof -
  have "NOT (mask 4) = (0xf0 :: u8)" by (simp add: mask_eq_exp_minus_1)
  then have "v AND 0xf0 = v AND NOT (mask 4)" by (simp only:)
  also have "\<dots> = push_bit 4 (drop_bit 4 v)" by (rule bit_word_eqI) (auto simp: bit_simps)
  finally show ?thesis .
qed

lemma nibble_bits: "take_bit 4 b = b \<Longrightarrow> bit b n \<Longrightarrow> n < 4" for b :: u8
  by (metis bit_take_bit_iff)

lemma short_header:
  assumes "take_bit 4 b = b" "take_bit 4 e = e" "e \<noteq> (0xf :: u8)"
  shows "\<not> efuse_hdr_long (push_bit 4 b OR e)" "\<not> efuse_hdr_end (push_bit 4 b OR e) h2"
    "efuse_hdr_blk (push_bit 4 b OR e) h2 = b" "efuse_hdr_en (push_bit 4 b OR e) h2 = e"
proof -
  let ?h = "push_bit 4 b OR e"
  have lo: "take_bit 4 ?h = e"
    using assms(2) by (simp add: take_bit_or take_bit_push_bit)
  have hi: "drop_bit 4 ?h = b"
  proof (rule bit_word_eqI)
    fix n assume "n < LENGTH(8)"
    have "bit b n \<longleftrightarrow> bit (take_bit 4 b) n" "bit e (4 + n) \<longleftrightarrow> bit (take_bit 4 e) (4 + n)"
      using assms(1,2) by simp_all
    then show "bit (drop_bit 4 ?h) n \<longleftrightarrow> bit b n" by (auto simp: bit_simps)
  qed
  show long: "\<not> efuse_hdr_long ?h"
  proof
    assume "efuse_hdr_long ?h"
    then have "take_bit 4 (take_bit 5 ?h) = take_bit 4 (0xf :: u8)"
      by (simp only: efuse_hdr_long_def and_masks)
    then have "take_bit 4 ?h = 0xf" by simp
    with lo assms(3) show False by simp
  qed
  have "?h \<noteq> 0xff"
  proof
    assume "?h = 0xff"
    then have "take_bit 4 ?h = take_bit 4 (0xff :: u8)" by (rule arg_cong)
    with lo assms(3) show False by simp
  qed
  with long show "\<not> efuse_hdr_end ?h h2" by (simp add: efuse_hdr_end_def)
  show "efuse_hdr_en ?h h2 = e"
    unfolding efuse_hdr_en_def and_masks using long lo by simp
  have "drop_bit 4 (push_bit 4 (drop_bit 4 ?h)) = b"
    unfolding hi by (rule bit_word_eqI) (auto simp: bit_simps dest: nibble_bits [OF assms(1)])
  with long show "efuse_hdr_blk ?h h2 = b"
    unfolding efuse_hdr_blk_def and_hi by simp
qed

lemma septet_bits: "unat (b :: u8) < 128 \<Longrightarrow> bit b n \<Longrightarrow> n < 7"
proof -
  assume "unat b < 128" and n: "bit b n"
  then have "take_bit 7 b = b"
    by (simp add: word_unat_eq_iff unsigned_take_bit_eq take_bit_nat_eq_self)
  with n show "n < 7" by (metis bit_take_bit_iff)
qed

lemma long_header:
  assumes b: "unat b < 128" and e: "take_bit 4 e = e" "e \<noteq> (0xf :: u8)"
  defines "h1 \<equiv> push_bit 5 (take_bit 3 b) OR 0xf" and "h2 \<equiv> push_bit 4 (drop_bit 3 b) OR e"
  shows "efuse_hdr_long h1" "\<not> efuse_hdr_end h1 h2" "efuse_hdr_blk h1 h2 = b" "efuse_hdr_en h1 h2 = e"
proof -
  have f: "(0xf :: u8) = mask 4" by (simp add: mask_eq_exp_minus_1)
  have lo1: "take_bit 5 h1 = 0xf"
    unfolding h1_def f by (rule bit_word_eqI) (auto simp: bit_simps)
  show long: "efuse_hdr_long h1"
    using lo1 by (simp add: efuse_hdr_long_def and_masks)
  have lo2: "take_bit 4 h2 = e"
    unfolding h2_def using e(1) by (simp only: take_bit_or take_bit_push_bit) simp
  have hi1: "take_bit 3 (drop_bit 5 h1) = take_bit 3 b"
    unfolding h1_def f by (rule bit_word_eqI) (auto simp: bit_simps)
  have hi2: "drop_bit 4 h2 = drop_bit 3 b"
    unfolding h2_def by (rule bit_word_eqI) (auto simp: bit_simps dest: nibble_bits [OF e(1)] septet_bits [OF b])
  have "h1 \<noteq> 0xff"
  proof
    assume "h1 = 0xff"
    then have "take_bit 5 h1 = take_bit 5 (0xff :: u8)" by (rule arg_cong)
    with lo1 show False by simp
  qed
  moreover have "h2 \<noteq> 0xff"
  proof
    assume "h2 = 0xff"
    then have "take_bit 4 h2 = take_bit 4 (0xff :: u8)" by (rule arg_cong)
    with lo2 e(2) show False by simp
  qed
  ultimately show "\<not> efuse_hdr_end h1 h2" by (simp add: efuse_hdr_end_def)
  have "drop_bit 1 (push_bit 4 (drop_bit 3 b)) OR take_bit 3 b = b"
    by (rule bit_word_eqI) (auto simp: bit_simps dest: septet_bits [OF b])
  with long hi1 hi2 show "efuse_hdr_blk h1 h2 = b"
    unfolding efuse_hdr_blk_def and_hi and_masks by simp
  show "efuse_hdr_en h1 h2 = e"
    unfolding efuse_hdr_en_def and_masks using long lo2 by simp
qed

text \<open>The words of a section, from any position of the two buffers.\<close>

lemma length_put_words [simp]: "length (put_words k xs log) = length log"
  by (induction xs arbitrary: k log) (auto split: option.split)

lemma efuse_words_data:
  assumes "drop (unat p) phy = sec_words xs @ rest" "i + length xs = 4"
    and en: "\<And>j. j < 4 \<Longrightarrow> i \<le> j \<Longrightarrow> bit en j \<longleftrightarrow> xs ! (j - i) = None"
    and fit: "unat p + length (sec_words xs) \<le> lim" "lim \<le> length phy" "lim \<le> 65534"
      "8 * unat blk + 8 \<le> unat sz" "unat sz \<le> length log"
  shows "efuse_words lim sz phy blk en [i..<4] p log =
    Inr (p + of_nat (length (sec_words xs)), put_words (8 * unat blk + 2 * i) xs log)"
  using assms
proof (induction xs arbitrary: i p log)
  case Nil
  then show ?case by simp
next
  case (Cons x xs)
  have range: "[i..<4] = i # [Suc i..<4]" using Cons.prems(2) by (simp add: upt_conv_Cons)
  have i: "i < 4" "Suc i + length xs = 4" using Cons.prems(2) by auto
  have en': "bit en j \<longleftrightarrow> xs ! (j - Suc i) = None" if "j < 4" "Suc i \<le> j" for j
    using Cons.prems(3) [of j] that by (simp add: nth_Cons' Suc_diff_Suc)
  have x: "bit en i \<longleftrightarrow> x = None" using Cons.prems(3) [of i] i by simp
  show ?case
  proof (cases x)
    case None
    with Cons.IH [of p "Suc i" log] Cons.prems i en' x show ?thesis
      by (simp add: range algebra_simps)
  next
    case (Some w)
    obtain a b where w: "w = (a, b)" by fastforce
    let ?l = "8 * unat blk + 2 * i"
    let ?log = "log[?l := a, ?l + 1 := b]"
    have at_p: "drop (unat p) phy = a # b # sec_words xs @ rest" using Cons.prems(1) Some w by simp
    have "2 \<le> length (drop (unat p) phy)" by (simp add: at_p)
    then have in_phy: "unat p + 1 < length phy" by simp
    have "drop (unat p) phy ! 0 = a" "drop (unat p) phy ! 1 = b" by (simp_all add: at_p)
    then have phy_p: "phy ! unat p = a" "phy ! (unat p + 1) = b" using in_phy by simp_all
    have p2: "unat (p + 2) = unat p + 2"
      using Cons.prems(4-6) Some w by (subst unat_word_ariths(1)) simp
    have rest: "drop (unat (p + 2)) phy = sec_words xs @ rest"
    proof -
      have "drop (unat (p + 2)) phy = drop 2 (drop (unat p) phy)" by (simp add: p2 add.commute)
      then show ?thesis by (simp add: at_p)
    qed
    have "efuse_words lim sz phy blk en (i # [Suc i..<4]) p log =
        efuse_words lim sz phy blk en [Suc i..<4] (p + 2) ?log"
      using Cons.prems(4-8) Some w x i in_phy phy_p by (simp add: Let_def)
    also have "\<dots> = Inr (p + 2 + of_nat (length (sec_words xs)), put_words (8 * unat blk + 2 * Suc i) xs ?log)"
      using Cons.prems(4-8) Some w i en' p2 by (intro Cons.IH [OF rest]) auto
    finally show ?thesis using Some w by (simp add: range algebra_simps)
  qed
qed

lemma length_sec_header: "length (sec_header s) = (if sec_long s then 2 else 1)"
  by (simp add: sec_header_def)

lemma sec_words_nonempty: "xs \<noteq> replicate (length xs) None \<Longrightarrow> 2 \<le> length (sec_words xs)"
  by (induction xs) (auto split: option.splits)

text \<open>One turn of the walk decodes one section.\<close>

lemma efuse_walk_section:
  assumes at_p: "drop (unat p) phy = sec_bytes s @ rest" and s: "sec_ok (unat sz) s"
    and fit: "unat p + length (sec_bytes s) \<le> lim" "lim \<le> length phy" "lim \<le> 65534" "unat sz \<le> length log"
  shows "efuse_walk lim sz phy p log =
    efuse_walk lim sz phy (p + of_nat (length (sec_bytes s))) (sec_apply s log)"
proof -
  let ?n = "length (sec_header s)" and ?e = "sec_en (sec_data s)"
  from s have len: "length (sec_data s) = 4" and some: "sec_data s \<noteq> [None, None, None, None]"
    by (simp_all add: sec_ok_def)
  have e: "take_bit 4 ?e = ?e" "?e \<noteq> 0xf" using sec_en_nibble [OF len] sec_en_full [OF len] some by auto
  have rep: "replicate (length (sec_data s)) None = [None, None, None, None]"
    unfolding len by (simp add: numeral_eq_Suc)
  have two: "2 \<le> length (sec_words (sec_data s))"
    by (rule sec_words_nonempty) (simp only: rep some not_False_eq_True)
  have long_len: "length (sec_bytes s) = ?n + length (sec_words (sec_data s))" by (simp add: sec_bytes_def)
  have "2 \<le> length (drop (unat p) phy)" using at_p two by (simp add: sec_bytes_def)
  then have in_phy: "unat p + 1 < length phy" by simp
  have "phy ! unat p = drop (unat p) phy ! 0" "phy ! (unat p + 1) = drop (unat p) phy ! 1"
    using in_phy by simp_all
  then have h: "phy ! unat p = (sec_bytes s @ rest) ! 0" "phy ! (unat p + 1) = (sec_bytes s @ rest) ! 1"
    unfolding at_p by auto
  have hdr: "\<not> efuse_hdr_end (phy ! unat p) (phy ! (unat p + 1)) \<and>
      efuse_hdr_blk (phy ! unat p) (phy ! (unat p + 1)) = sec_blk s \<and>
      efuse_hdr_en (phy ! unat p) (phy ! (unat p + 1)) = ?e \<and>
      (efuse_hdr_long (phy ! unat p) \<longleftrightarrow> sec_long s)"
  proof (cases "sec_long s")
    case True
    with s have "unat (sec_blk s) < 128" by (simp add: sec_ok_def)
    from long_header [OF this e] True h show ?thesis by (simp add: sec_bytes_def sec_header_def)
  next
    case False
    with s have "take_bit 4 (sec_blk s) = sec_blk s"
      by (simp add: sec_ok_def word_unat_eq_iff unsigned_take_bit_eq take_bit_nat_eq_self)
    from short_header [OF this e] False h(1) show ?thesis by (simp add: sec_bytes_def sec_header_def)
  qed
  have pn: "unat (p + of_nat ?n) = unat p + ?n"
    using fit(1,3) long_len length_sec_header [of s]
    by (subst unat_word_ariths(1)) (simp add: unat_of_nat)
  have "drop (unat (p + of_nat ?n)) phy = drop ?n (drop (unat p) phy)" by (simp add: pn add.commute)
  then have rest: "drop (unat (p + of_nat ?n)) phy = sec_words (sec_data s) @ rest"
    by (simp add: at_p sec_bytes_def)
  have "efuse_words lim sz phy (sec_blk s) ?e [0..<4] (p + of_nat ?n) log =
      Inr (p + of_nat ?n + of_nat (length (sec_words (sec_data s))), put_words (8 * unat (sec_blk s) + 2 * 0) (sec_data s) log)"
    by (rule efuse_words_data [OF rest])
      (use len s fit pn long_len sec_en_bit [of "sec_data s"] in \<open>auto simp: sec_ok_def\<close>)
  moreover have "[0..<4] = [0, 1, 2, 3 :: nat]" by (simp add: upt_rec)
  moreover have "of_nat ?n = (if efuse_hdr_long (phy ! unat p) then 2 else 1 :: u16)"
    using hdr by (simp add: length_sec_header)
  ultimately have "efuse_words lim sz phy (sec_blk s) ?e [0, 1, 2, 3]
      (p + (if efuse_hdr_long (phy ! unat p) then 2 else 1)) log =
      Inr (p + of_nat (length (sec_bytes s)), sec_apply s log)"
    by (simp add: long_len sec_apply_def add.assoc del: efuse_words.simps)
  with efuse_walk_step [of p lim phy sz log] hdr in_phy fit(1) two long_len show ?thesis
    by (simp del: efuse_words.simps)
qed

lemma length_sec_apply [simp]: "length (sec_apply s log) = length log"
  by (simp add: sec_apply_def)

lemma efuse_walk_sections:
  assumes "drop (unat p) phy = concat (map sec_bytes ss) @ rest" "\<forall>s \<in> set ss. sec_ok (unat sz) s"
    and "unat p + length (concat (map sec_bytes ss)) \<le> lim" "lim < length phy" "lim \<le> 65534"
      "unat sz \<le> length log" "rest \<noteq> [] \<Longrightarrow> hd rest = 0xff"
  shows "efuse_walk lim sz phy p log = Some (Inr (fold sec_apply ss log))"
  using assms
proof (induction ss arbitrary: p log)
  case Nil
  show ?case
  proof (cases "lim \<le> unat p")
    case True
    then show ?thesis by (subst efuse_walk.simps) simp
  next
    case False
    with Nil have in_phy: "unat p + 1 < length phy" "rest \<noteq> []" by auto
    have "drop (unat p) phy ! 0 = 0xff" using Nil in_phy(2) by (simp add: hd_conv_nth)
    then have "phy ! unat p = 0xff" using in_phy by simp
    then show ?thesis using False in_phy
      by (subst efuse_walk.simps) (simp add: efuse_hdr_end_def)
  qed
next
  case (Cons s ss)
  let ?q = "p + of_nat (length (sec_bytes s))"
  have at_p: "drop (unat p) phy = sec_bytes s @ concat (map sec_bytes ss) @ rest" using Cons.prems(1) by simp
  have q: "unat ?q = unat p + length (sec_bytes s)"
    using Cons.prems(3,5) by (subst unat_word_ariths(1)) (simp add: unat_of_nat)
  have "drop (unat ?q) phy = drop (length (sec_bytes s)) (drop (unat p) phy)" by (simp add: q add.commute)
  then have at_q: "drop (unat ?q) phy = concat (map sec_bytes ss) @ rest" by (simp add: at_p)
  have "efuse_walk lim sz phy p log = efuse_walk lim sz phy ?q (sec_apply s log)"
    by (rule efuse_walk_section [OF at_p]) (use Cons.prems in auto)
  also have "\<dots> = Some (Inr (fold sec_apply ss (sec_apply s log)))"
    by (rule Cons.IH [OF at_q]) (use Cons.prems q in auto)
  finally show ?case by simp
qed

subsection \<open>Reading the card\<close>

context hci_bus
begin

lemma efuse_byte_keeps: "priv_free R \<Longrightarrow> keeps (on_dev held R) is_errno (rtw88_efuse_read_phys_byte ops addr)"
  unfolding rtw88_efuse_read_phys_byte_def by (intro keeps_intros dev_keeps is_errno_simps)

lemma efuse_bytes_keeps: "priv_free R \<Longrightarrow> keeps (on_dev held R) is_errno (efuse_phys_bytes ops n addr)"
  by (induction n arbitrary: addr) (auto intro!: keeps_intros efuse_byte_keeps)

lemma efuse_map_keeps: "priv_free R \<Longrightarrow> keeps (on_dev held R) is_errno (rtw88_efuse_read_phys_map ops ci)"
  unfolding rtw88_efuse_read_phys_map_def by (intro keeps_intros dev_keeps efuse_bytes_keeps)

end

lemma efuse_bytes_length: "efuse_phys_bytes ops n addr d = (Inr bs, d') \<Longrightarrow> length bs = n"
  by (induction n arbitrary: addr d bs d') (auto elim!: tryE_Inr_elim)

lemma efuse_map_length: "rtw88_efuse_read_phys_map ops ci d = (Inr bs, d') \<Longrightarrow> length bs = unat (efuse_size ci)"
  unfolding rtw88_efuse_read_phys_map_def
  by (elim seqE_Inr_elim tryE_Inr_elim) (rule efuse_bytes_length)

text \<open>The 8821C description keeps every extraction inside the map.\<close>

definition efuse_params_ok :: "rtw88_efuse \<Rightarrow> bool" where
  "efuse_params_ok ef \<longleftrightarrow> ef_valid ef \<and> length (ef_mac_addr ef) = 6 \<and> length (ef_raw ef) = 512 \<and>
     ef_mac_addr ef = take 6 (drop 0x107 (ef_raw ef)) \<and>
     unat (ef_xtal_cap ef) < 64 \<and> unat (ef_rfe_option ef) < 32 \<and> ef_pkg_type ef \<in> {0, 1} \<and>
     (ef_btcoex ef \<longleftrightarrow> unat (ef_rfe_option ef) \<in> {2, 4, 7, 10, 12, 15})"

lemma btg_mask_bits:
  "n < 32 \<Longrightarrow> push_bit n (1 :: u32) AND (push_bit 2 1 OR push_bit 4 1 OR push_bit 7 1 OR push_bit 10 1
     OR push_bit 12 1 OR push_bit 15 1) \<noteq> 0 \<longleftrightarrow> n \<in> {2, 4, 7, 10, 12, 15}"
proof -
  assume n: "n < 32"
  have "push_bit n (1 :: u32) AND v \<noteq> 0 \<longleftrightarrow> bit v n" for v
    using bit_iff_and_push_bit_not_eq_0 [of v n] by (simp only: and.commute)
  then show ?thesis
    using n by (simp only: bit_or_iff bit_push_bit_iff bit_1_iff possible_bit_word) auto
qed

lemma efuse_extract_8821c:
  assumes "length log = 512"
  shows "\<exists>ef. efuse_extract rtw88_8821c_chip_info log = Inr ef \<and> efuse_params_ok ef \<and> ef_raw ef = log"
proof -
  let ?r = "log ! 0xCA AND 0x1F"
  have "unat ?r < 32" using and_mask_bound [of "log ! 0xCA" "0x1F"] by simp
  note btg = btg_mask_bits [OF this]
  have "unat (log ! 0xB9 AND 0x3F) < 64" using and_mask_bound [of "log ! 0xB9" "0x3F"] by simp
  then show ?thesis
    using assms \<open>unat ?r < 32\<close> btg
    by (simp add: efuse_extract_def rtw88_8821c_chip_info_def efuse_params_ok_def Let_def del: push_bit_of_1)
qed

lemma efuse_walk_ends:
  assumes "length phy = unat (efuse_size ci)" "0 < efuse_ptct_size ci" "unat (efuse_size ci) \<le> 65534"
    and "0 < efuse_size ci"
  shows "\<exists>r. rtw88_efuse_logical_walk ci phy = Some r \<and>
    (r = Inl (Errno EINVAL) \<or> (\<exists>log. r = Inr log \<and> length log = unat (efuse_size ci)))"
proof -
  have "0 < unat (efuse_ptct_size ci)" "0 < unat (efuse_size ci)"
    using assms(2,4) by (simp_all add: unat_gt_0)
  then have "unat (efuse_size ci) - unat (efuse_ptct_size ci) < length phy" using assms(1) by simp
  moreover have "unat (efuse_size ci) - unat (efuse_ptct_size ci) \<le> 65534" using assms(3) by simp
  ultimately obtain r where "efuse_walk (unat (efuse_size ci) - unat (efuse_ptct_size ci)) (efuse_size ci) phy 0
      (replicate (unat (efuse_size ci)) 0xff) = Some r"
    "case r of Inl e \<Rightarrow> e = Errno EINVAL | Inr log \<Rightarrow> length log = unat (efuse_size ci)"
    using efuse_walk_total [of "unat (efuse_size ci) - unat (efuse_ptct_size ci)" phy "efuse_size ci"
        "replicate (unat (efuse_size ci)) 0xff" 0, unfolded length_replicate] by blast
  then show ?thesis unfolding rtw88_efuse_logical_walk_def by (cases r) auto
qed

subsection \<open>What the decoder and the reader give\<close>

text \<open>C21. The EFUSE decoder inverts the format. For every list of well-formed sections (either header form, any
  block inside the map, any non-empty choice of words) that fits in front of the protected area,
  decoding the physical map that holds their bytes followed by erased bytes gives the logical map that results from applying the
  sections in order to an erased one, later sections overriding earlier ones.\<close>
theorem efuse_walk_decodes:
  assumes "\<forall>s \<in> set ss. sec_ok (unat (efuse_size ci)) s"
    and "length (concat (map sec_bytes ss)) \<le> unat (efuse_size ci) - unat (efuse_ptct_size ci)"
    and "0 < efuse_ptct_size ci" "unat (efuse_size ci) \<le> 65534" "0 < efuse_size ci"
  shows "rtw88_efuse_logical_walk ci
      (concat (map sec_bytes ss) @ replicate (unat (efuse_size ci) - length (concat (map sec_bytes ss))) 0xff)
    = Some (Inr (fold sec_apply ss (replicate (unat (efuse_size ci)) 0xff)))"
  unfolding rtw88_efuse_logical_walk_def
proof (rule efuse_walk_sections [where p = 0])
  have "0 < unat (efuse_ptct_size ci)" "0 < unat (efuse_size ci)"
    using assms(3,5) by (simp_all add: unat_gt_0)
  then show "unat (efuse_size ci) - unat (efuse_ptct_size ci) < length (concat (map sec_bytes ss) @
      replicate (unat (efuse_size ci) - length (concat (map sec_bytes ss))) 0xff)"
    using assms(2) by simp
qed (use assms in auto)

definition wit_section :: efuse_section where
  "wit_section = \<lparr>sec_blk = 0x17, sec_long = True, sec_data = [None, Some (0xAA, 0xBB), None, Some (1, 2)]\<rparr>"

theorem efuse_walk_decodes_witness:
  "rtw88_efuse_logical_walk (rtw88_8821c_chip_info :: unit chip_info)
     (sec_bytes wit_section @ replicate 506 0xff)
   = Some (Inr ((replicate 512 0xff)[0x17 * 8 + 2 := 0xAA, 0x17 * 8 + 3 := 0xBB, 0x17 * 8 + 6 := 1, 0x17 * 8 + 7 := 2]))"
  using efuse_walk_decodes [of "[wit_section]" "rtw88_8821c_chip_info :: unit chip_info"]
  by (simp add: wit_section_def rtw88_8821c_chip_info_def sec_ok_def sec_bytes_def sec_header_def sec_apply_def)

text \<open>C24. The EFUSE decoder is safe on any data. With a protected area, whatever bytes the physical map holds the walk ends, never
  touches a byte outside the physical or the logical buffer, and either returns a logical map of the full size or
  EINVAL.\<close>
theorem efuse_walk_safe:
  assumes "length phy = unat (efuse_size ci)" "0 < efuse_ptct_size ci" "unat (efuse_size ci) \<le> 65534"
    and "0 < efuse_size ci"
  shows "\<exists>r. rtw88_efuse_logical_walk ci phy = Some r \<and>
    (r = Inl (Errno EINVAL) \<or> (\<exists>log. r = Inr log \<and> length log = unat (efuse_size ci)))"
  by (rule efuse_walk_ends [OF assms])

theorem efuse_walk_safe_witness:
  "\<exists>r. rtw88_efuse_logical_walk (rtw88_8821c_chip_info :: unit chip_info) (replicate 512 0) = Some r \<and> r \<noteq> Inl Panic"
  using efuse_walk_safe [of "replicate 512 0" "rtw88_8821c_chip_info :: unit chip_info"]
  by (auto simp: rtw88_8821c_chip_info_def)

context hci_bus
begin

text \<open>Every end of the reader, from a state in which the mutex is free.\<close>

lemma efuse_read_ends:
  assumes R: "priv_free R" "\<And>d ef. R d \<Longrightarrow> R (efuse_store ef d)" and d: "on_dev free R d"
  obtains (failed) e d' where "rtw88_efuse_read ops (Some rtw88_8821c_chip_info) d = (Inl (Errno e), d')"
      "on_dev free R d'" "dev_efuse d' = dev_efuse d"
  | (read) ef d' where "rtw88_efuse_read ops (Some rtw88_8821c_chip_info) d = (Inr (), d')"
      "on_dev free R d'" "dev_efuse d' = dev_efuse (efuse_store ef d)" "efuse_params_ok ef"
proof -
  let ?R = "\<lambda>d'. R d' \<and> dev_efuse d' = dev_efuse d"
  have R': "priv_free ?R" using R(1) by (auto simp: priv_free_def)
  let ?ci = "rtw88_8821c_chip_info :: 'w chip_info"
  have "on_dev free ?R d" using d by (simp add: on_dev_def)
  from lock_step [OF this R'] obtain d1 where d1: "RTW88_DEV_LOCK ops d = (Inr (), d1)" "on_dev held ?R d1"
    by blast
  show thesis
  proof (rule attempt_errno [OF efuse_map_keeps [OF R', of ?ci] d1(2)])
    fix e d2 assume d2: "attempt (rtw88_efuse_read_phys_map ops ?ci) d1 = (Inr (Inl e), d2)" "on_dev held ?R d2"
    from unlock_step [OF d2(2) R'] obtain d3 where "RTW88_DEV_UNLOCK ops d2 = (Inr (), d3)" "on_dev free ?R d3"
      by blast
    with d1 d2 show thesis
      by (intro failed [of e d3]) (auto simp: rtw88_efuse_read_def deref_chip_def tryE_def seqE_def on_dev_def)
  next
    fix phy d2 assume phy: "rtw88_efuse_read_phys_map ops ?ci d1 = (Inr phy, d2)"
      and d2: "attempt (rtw88_efuse_read_phys_map ops ?ci) d1 = (Inr (Inr phy), d2)" "on_dev held ?R d2"
    from unlock_step [OF d2(2) R'] obtain d3 where
      d3: "RTW88_DEV_UNLOCK ops d2 = (Inr (), d3)" "on_dev free ?R d3" by blast
    note run = d1(1) d2(1) d3(1)
    have len: "length phy = 512" using efuse_map_length [OF phy] by (simp add: rtw88_8821c_chip_info_def)
    then have "length phy = unat (efuse_size ?ci)" by (simp add: rtw88_8821c_chip_info_def)
    from efuse_walk_ends [OF this] obtain r where r: "rtw88_efuse_logical_walk ?ci phy = Some r"
      "r = Inl (Errno EINVAL) \<or> (\<exists>log. r = Inr log \<and> length log = 512)"
      by (auto simp: rtw88_8821c_chip_info_def)
    from r(2) show thesis
    proof
      assume "r = Inl (Errno EINVAL)"
      with run r d3 show thesis
        by (intro failed [of EINVAL d3]) (auto simp: rtw88_efuse_read_def deref_chip_def tryE_def seqE_def on_dev_def)
    next
      assume "\<exists>log. r = Inr log \<and> length log = 512"
      then obtain log where log: "r = Inr log" "length log = 512" by blast
      from efuse_extract_8821c [OF log(2)] obtain ef where
        ef: "efuse_extract ?ci log = Inr ef" "efuse_params_ok ef" by blast
      let ?R2 = "\<lambda>d'. R d' \<and> dev_efuse d' = dev_efuse (efuse_store ef d)"
      have R2: "priv_free ?R2" using R(1) by (auto simp: priv_free_def)
      let ?d4 = "efuse_store ef d3"
      have "R ?d4" using R(2) d3(2) by (auto simp: on_dev_def)
      then have "on_dev free ?R2 ?d4"
        using d3(2) by (simp add: on_dev_def) (simp add: efuse_store_def)
      from lock_step [OF this R2] obtain d5 where d5: "RTW88_DEV_LOCK ops ?d4 = (Inr (), d5)" "on_dev held ?R2 d5"
        by blast
      let ?mac = "forE (\<lambda>i. discard (rtw_write8 ops (REG_MACID0 + of_nat i) (ef_mac_addr ef ! i))) [0..<6]"
      have "keeps (on_dev held ?R2) no_fault ?mac"
        by (intro keeps_forE keeps_discard_all dev_keeps R2)
      from keeps_no_fault [OF this d5(2)] obtain d6 where d6: "?mac d5 = (Inr (), d6)" "on_dev held ?R2 d6" by auto
      from unlock_step [OF d6(2) R2] obtain d7 where d7: "RTW88_DEV_UNLOCK ops d6 = (Inr (), d7)" "on_dev free ?R2 d7"
        by blast
      have "rtw88_efuse_read ops (Some ?ci) d = (Inr (), d7)"
        using run r log ef(1) d5(1) d6(1) d7(1)
        by (simp add: rtw88_efuse_read_def deref_chip_def tryE_def [of "ret c" for c]
            tryE_def [of "attempt m" for m] del: upt.simps)
      with d7(2) ef(2) show thesis by (intro read [of d7 ef]) (auto simp: on_dev_def)
    qed
  qed
qed

end

text \<open>C26. Reading the EFUSE of an 8821C over USB, with any device and any contents. The call returns (no panic, no endless
  walk, no access outside its buffers) with the bus mutex free; on an error the stored parameters are
  untouched, and on success they are those of a decoded map: the six address bytes at 0x107, a six-bit crystal
  trim, a five-bit RFE option, and the Bluetooth-path flag set exactly for the options 2, 4, 7, 10, 12
  and 15.\<close>
theorem efuse_read_usb:
  fixes d :: "('c, 'z) hw_scheme rtw88_dev"
  assumes "usb_free k z L (priv d)" "length (ef_raw (dev_efuse d)) = 512"
  shows "\<exists>r d'. rtw88_efuse_read (rtw88_usb_hci_ops C) (Some rtw88_8821c_chip_info) d = (r, d') \<and>
    usb_free k z L (priv d') \<and> dev_coex d' = dev_coex d \<and> dev_lps d' = dev_lps d \<and>
    (case r of Inl e \<Rightarrow> (\<exists>n. e = Errno n) \<and> dev_efuse d' = dev_efuse d
     | Inr _ \<Rightarrow> efuse_params_ok (dev_efuse d'))"
proof -
  let ?R = "\<lambda>d'. dev_coex d' = dev_coex d \<and> dev_lps d' = dev_lps d"
  have R: "priv_free ?R" "\<And>d' ef. ?R d' \<Longrightarrow> ?R (efuse_store ef d')"
    by (auto simp: priv_free_def efuse_store_def)
  have start: "on_dev (usb_free k z L) ?R d" using assms(1) by (simp add: on_dev_def)
  show ?thesis
  proof (rule usb_bus.efuse_read_ends [OF R start, of C])
    fix e d' assume "rtw88_efuse_read (rtw88_usb_hci_ops C) (Some rtw88_8821c_chip_info) d = (Inl (Errno e), d')"
      "on_dev (usb_free k z L) ?R d'" "dev_efuse d' = dev_efuse d"
    then show ?thesis by (auto simp: on_dev_def)
  next
    fix ef d' assume run: "rtw88_efuse_read (rtw88_usb_hci_ops C) (Some rtw88_8821c_chip_info) d = (Inr (), d')"
      "on_dev (usb_free k z L) ?R d'" and ef: "dev_efuse d' = dev_efuse (efuse_store ef d)" "efuse_params_ok ef"
    from ef have "dev_efuse d' = ef"
      using assms(2) by (simp add: efuse_store_def efuse_params_ok_def)
    with run ef(2) show ?thesis by (auto simp: on_dev_def)
  qed
qed

theorem efuse_read_usb_witness:
  "\<exists>r d'. rtw88_efuse_read (rtw88_usb_hci_ops idle_ops) (Some rtw88_8821c_chip_info)
      (rtw88_dev_zero (free_hw ())) = (r, d') \<and> r \<noteq> Inl Panic \<and> mtx_depth (priv d') = 0"
proof -
  have "usb_free True () [] (priv (rtw88_dev_zero (free_hw ())))" by (simp add: usb_free_start)
  from efuse_read_usb [OF this, of idle_ops]
  obtain r d' where run: "rtw88_efuse_read (rtw88_usb_hci_ops idle_ops) (Some rtw88_8821c_chip_info)
      (rtw88_dev_zero (free_hw ())) = (r, d')" "usb_free True () [] (priv d')"
    and r: "case r of Inl e \<Rightarrow> (\<exists>n. e = Errno n) \<and> dev_efuse d' = dev_efuse (rtw88_dev_zero (free_hw ()))
      | Inr _ \<Rightarrow> efuse_params_ok (dev_efuse d')"
    by (auto simp: rtw88_dev_zero_def [of "free_hw ()"])
  from r have "r \<noteq> Inl Panic" by (cases r) auto
  with run show ?thesis by (auto simp: usb_free_def)
qed

end
