(* ===== verification/Rtw_Led.thy ===== *)
theory Rtw_Led
  imports Rtw_Debug Rtw_Hci_Usb
begin

section \<open>The LED\<close>

text \<open>
  \<^verbatim>\<open>rtw88_led.c\<close>. \<^verbatim>\<open>led_create\<close> belongs to the kernel: whether it made a device node is a parameter. The
  callback takes the bus mutex itself, so its callers must not hold it.
\<close>

definition rtw88_led_callback :: "'w hci_ops \<Rightarrow> bool \<Rightarrow> ('w rtw88_dev, unit) cm" where
  "rtw88_led_callback ops onoff = tryE (getS dev_led) (\<lambda>l.
     if \<not> led_attached l then ret ()
     else seqE (RTW88_DEV_LOCK ops)
       (tryE (attempt (rtw_read32 ops REG_LED_CFG)) (\<lambda>r. case r of
          Inl e \<Rightarrow> RTW88_DEV_UNLOCK ops
        | Inr v \<Rightarrow>
            seqE (discard (rtw_write32 ops REG_LED_CFG
                    (if onoff then v AND NOT BIT_LED0_SV else v OR BIT_LED0_SV)))
            (seqE (RTW88_DEV_UNLOCK ops)
             (updS (\<lambda>d. d\<lparr>dev_led := (dev_led d)\<lparr>led_on := onoff\<rparr>\<rparr>))))))"

definition rtw88_led_set :: "'w hci_ops \<Rightarrow> bool \<Rightarrow> ('w rtw88_dev, unit) cm" where
  "rtw88_led_set ops on = rtw88_led_callback ops on"

definition rtw88_led_attach :: "'w hci_ops \<Rightarrow> 'w chip_info option \<Rightarrow> bool \<Rightarrow> ('w rtw88_dev, unit) cm" where
  "rtw88_led_attach ops ci created = tryE (deref_chip ci) (\<lambda>chip.
     if \<not> led_supported chip then ret ()
     else seqE (updS (\<lambda>d. d\<lparr>dev_led := (dev_led d)\<lparr>led_cdev := created\<rparr>\<rparr>))
       (if \<not> created then fail (Errno ENOMEM)
        else seqE (updS (\<lambda>d. d\<lparr>dev_led := (dev_led d)\<lparr>led_attached := True\<rparr>\<rparr>))
          (rtw88_led_set ops False)))"

definition rtw88_led_detach :: "'w rtw88_dev \<Rightarrow> 'w rtw88_dev" where
  "rtw88_led_detach d = (if \<not> led_attached (dev_led d) then d
     else d\<lparr>dev_led := (dev_led d)\<lparr>led_cdev := False, led_attached := False\<rparr>\<rparr>)"

context hci_answers
begin

lemma led_callback_eff:
  assumes "REG_LED_CFG \<in> usable" "span 4 REG_LED_CFG \<subseteq> plain"
    and d: "free (priv d)" "led_attached (dev_led d)"
  defines "v \<equiv> peek32 (peek (priv d)) REG_LED_CFG"
  shows "\<exists>w. rtw88_led_callback ops on d =
      (Inr (), d\<lparr>priv := w, dev_led := (dev_led d)\<lparr>led_on := on\<rparr>\<rparr>) \<and> free w \<and>
    agrees w (put32 REG_LED_CFG (if on then v AND NOT BIT_LED0_SV else v OR BIT_LED0_SV) (peek (priv d)))"
proof -
  let ?new = "if on then v AND NOT BIT_LED0_SV else v OR BIT_LED0_SV"
  from effD [OF eff_lock d(1) agrees_self] obtain w1 where w1:
    "RTW88_DEV_LOCK ops d = (Inr (), d\<lparr>priv := w1\<rparr>)" "held w1" "agrees w1 (peek (priv d))" by blast
  from effD [OF eff_read32 [OF assms(1,2)], of "d\<lparr>priv := w1\<rparr>"] w1 obtain w2 where w2:
    "rtw_read32 ops REG_LED_CFG (d\<lparr>priv := w1\<rparr>) = (Inr v, d\<lparr>priv := w2\<rparr>)" "held w2"
    "agrees w2 (peek (priv d))" by (auto simp: v_def)
  from effD [OF eff_discard [OF eff_write32 [OF assms(1,2)]], of "d\<lparr>priv := w2\<rparr>"] w2 obtain w3 where w3:
    "discard (rtw_write32 ops REG_LED_CFG ?new) (d\<lparr>priv := w2\<rparr>) = (Inr (), d\<lparr>priv := w3\<rparr>)" "held w3"
    "agrees w3 (put32 REG_LED_CFG ?new (peek (priv d)))" by auto
  from effD [OF eff_unlock, of "d\<lparr>priv := w3\<rparr>"] w3 obtain w4 where w4:
    "RTW88_DEV_UNLOCK ops (d\<lparr>priv := w3\<rparr>) = (Inr (), d\<lparr>priv := w4\<rparr>)" "free w4"
    "agrees w4 (put32 REG_LED_CFG ?new (peek (priv d)))" by auto
  have "rtw88_led_callback ops on d = (Inr (), d\<lparr>priv := w4, dev_led := (dev_led d)\<lparr>led_on := on\<rparr>\<rparr>)"
    using w1(1) w2(1) w3(1) w4(1) d(2)
    by (simp add: rtw88_led_callback_def tryE_def [of "attempt m" for m] del: if_split)
  with w4 show ?thesis by blast
qed

end

lemma led_bit: "bit (BIT_LED0_SV :: u32) n \<longleftrightarrow> n = 27"
proof -
  have eq: "(BIT_LED0_SV :: u32) = push_bit 27 1" by simp
  show ?thesis
    by (subst eq, simp only: bit_push_bit_iff bit_1_iff possible_bit_word) auto
qed

lemma led_bits:
  fixes v :: u32
  assumes "n < 32"
  shows "bit (v AND NOT BIT_LED0_SV) n \<longleftrightarrow> n \<noteq> 27 \<and> bit v n"
    and "bit (v OR BIT_LED0_SV) n \<longleftrightarrow> n = 27 \<or> bit v n"
proof -
  show "bit (v AND NOT BIT_LED0_SV) n \<longleftrightarrow> n \<noteq> 27 \<and> bit v n"
    using assms by (simp only: bit_and_iff bit_not_iff_eq led_bit possible_bit_word) auto
  show "bit (v OR BIT_LED0_SV) n \<longleftrightarrow> n = 27 \<or> bit v n"
    by (simp only: bit_or_iff led_bit) auto
qed

text \<open>Setting the LED over USB, with a device that answers and keeps its configuration registers: the call
  succeeds with the mutex free again, bit 27 of the LED register is clear for on and set for off (the pin
  is active-low), the other 31 bits of the register and every other configuration register are as
  before, and the driver's own record of the LED agrees.\<close>
theorem led_set_effect:
  assumes "answering_chip C mem cfg" "span 4 REG_LED_CFG \<subseteq> usb_plain cfg"
    and "usb_free k z L (priv d)" "led_attached (dev_led d)"
  shows "\<exists>w. rtw88_led_set (rtw88_usb_hci_ops C) on d =
      (Inr (), d\<lparr>priv := w, dev_led := (dev_led d)\<lparr>led_on := on\<rparr>\<rparr>) \<and> usb_free k z L w \<and>
    (\<forall>n < 32. bit (peek32 (usb_peek mem w) REG_LED_CFG) n =
       (if n = 27 then \<not> on else bit (peek32 (usb_peek mem (priv d)) REG_LED_CFG) n)) \<and>
    (\<forall>x \<in> usb_plain cfg - span 4 REG_LED_CFG. usb_peek mem w x = usb_peek mem (priv d) x)"
proof -
  note up = usb_answers [OF assms(1)]
  let ?old = "peek32 (usb_peek mem (priv d)) REG_LED_CFG"
  let ?new = "if on then ?old AND NOT BIT_LED0_SV else ?old OR BIT_LED0_SV"
  have "(REG_LED_CFG :: u32) \<in> usb_usable" by (simp add: usb_usable_def)
  from hci_answers.led_callback_eff [OF up this assms(2-4), of on]
  obtain w where w: "rtw88_led_callback (rtw88_usb_hci_ops C) on d =
      (Inr (), d\<lparr>priv := w, dev_led := (dev_led d)\<lparr>led_on := on\<rparr>\<rparr>)" "usb_free k z L w"
    and a: "mem_agrees (usb_peek mem) (usb_plain cfg) w (put32 REG_LED_CFG ?new (usb_peek mem (priv d)))"
    by blast
  have new: "peek32 (usb_peek mem w) REG_LED_CFG = ?new"
    using hci_answers.peek32_agrees [OF up a assms(2)] by (simp only: peek32_put32)
  have "bit ?new n = (if n = 27 then \<not> on else bit ?old n)" if "n < 32" for n
    by (cases on) (simp_all only: led_bits [OF that] if_True if_False, auto)
  moreover have "usb_peek mem w x = usb_peek mem (priv d) x"
    if "x \<in> usb_plain cfg - span 4 REG_LED_CFG" for x
    using that a by (auto simp: mem_agrees_def put32_def span_def)
  ultimately show ?thesis
    using w new unfolding rtw88_led_set_def by auto
qed

theorem led_set_effect_witness:
  "\<exists>w. rtw88_led_set (rtw88_usb_hci_ops regfile_ops) True
      ((rtw88_dev_zero (free_hw (\<lambda>_. 0xFF)))\<lparr>dev_led := \<lparr>led_attached = True, led_cdev = True, led_on = False\<rparr>\<rparr>)
    = (Inr (), (rtw88_dev_zero w)\<lparr>dev_led := \<lparr>led_attached = True, led_cdev = True, led_on = True\<rparr>\<rparr>)
    \<and> \<not> bit (peek32 (usb_peek (\<lambda>m. m) w) REG_LED_CFG) 27"
proof -
  let ?d = "(rtw88_dev_zero (free_hw (\<lambda>_. 0xFF)))\<lparr>dev_led := \<lparr>led_attached = True, led_cdev = True, led_on = False\<rparr>\<rparr>"
  have "usb_free True () [] (priv ?d)" by (simp add: rtw88_dev_zero_def usb_free_start)
  from led_set_effect [OF regfile_answers span_plain this, of True] show ?thesis
    by (auto simp: rtw88_dev_zero_def)
qed

end
