(* ===== verification/Rtw_Coex.thy ===== *)
theory Rtw_Coex
  imports Rtw_Debug Rtw_Hci_Usb
begin

section \<open>Coexistence with Bluetooth\<close>

text \<open>
  \<^verbatim>\<open>rtw88_coex.c\<close>: the indirect access to the LTE coex registers, the wifi-only state of the grant lines and
  of the antenna switch, the arbiter set-up, the two firmware commands and the entry points that
  combine them. The bus is a parameter; the last sections run the functions on the USB back-end.
\<close>

subsection \<open>The LTE coex window\<close>

definition rtw88_ltecoex_ready :: "'w hci_ops \<Rightarrow> ('w rtw88_dev, unit) cm" where
  "rtw88_ltecoex_ready ops =
     tryE (pollE 100 (tryE (attempt (rtw_read32 ops REG_LTECOEX_CTRL)) (\<lambda>r. case r of
             Inl e \<Rightarrow> fail (Errno EIO)
           | Inr v \<Rightarrow> ret (if v AND BIT_LTECOEX_READY \<noteq> 0 then Some () else None))))
     (\<lambda>r. case r of Some _ \<Rightarrow> ret () | None \<Rightarrow> fail (Errno ETIMEDOUT))"

definition rtw88_ltecoex_read_indirect :: "'w hci_ops \<Rightarrow> u16 \<Rightarrow> ('w rtw88_dev, u32) cm" where
  "rtw88_ltecoex_read_indirect ops offset =
     seqE (rtw88_ltecoex_ready ops)
     (seqE (rtw_write32 ops REG_LTECOEX_CTRL (LTECOEX_READ_OP OR ucast offset))
      (rtw_read32 ops REG_LTECOEX_RDATA))"

definition rtw88_ltecoex_write_indirect_raw :: "'w hci_ops \<Rightarrow> u16 \<Rightarrow> u32 \<Rightarrow> ('w rtw88_dev, unit) cm" where
  "rtw88_ltecoex_write_indirect_raw ops offset val =
     seqE (rtw88_ltecoex_ready ops)
     (seqE (rtw_write32 ops REG_LTECOEX_WDATA val)
      (rtw_write32 ops REG_LTECOEX_CTRL (LTECOEX_WRITE_OP OR ucast offset)))"

definition lte_merge :: "u32 \<Rightarrow> u32 \<Rightarrow> u32 \<Rightarrow> u32" where
  "lte_merge msk val cur = (cur AND NOT msk) OR (push_bit (ffs msk - 1) val AND msk)"

definition rtw88_ltecoex_write_indirect ::
  "'w hci_ops \<Rightarrow> u16 \<Rightarrow> u32 \<Rightarrow> u32 \<Rightarrow> ('w rtw88_dev, unit) cm" where
  "rtw88_ltecoex_write_indirect ops offset msk val =
     tryE (rtw88_ltecoex_read_indirect ops offset) (\<lambda>cur.
       rtw88_ltecoex_write_indirect_raw ops offset (lte_merge msk val cur))"

definition rtw88_coex_set_gnt_wonly :: "'w hci_ops \<Rightarrow> ('w rtw88_dev, unit) cm" where
  "rtw88_coex_set_gnt_wonly ops =
     seqE (RTW88_DEV_ASSERT_LOCKED ops)
     (seqE (discard (rtw88_ltecoex_write_indirect ops LTE_COEX_CTRL_OFFSET LTE_GNT_BT_HI_MASK COEX_GNT_SET_SW_LOW))
     (seqE (discard (rtw88_ltecoex_write_indirect ops LTE_COEX_CTRL_OFFSET LTE_GNT_BT_LO_MASK COEX_GNT_SET_SW_LOW))
     (seqE (discard (rtw88_ltecoex_write_indirect ops LTE_COEX_CTRL_OFFSET LTE_GNT_WL_HI_MASK COEX_GNT_SET_SW_HIGH))
      (discard (rtw88_ltecoex_write_indirect ops LTE_COEX_CTRL_OFFSET LTE_GNT_WL_LO_MASK COEX_GNT_SET_SW_HIGH)))))"

subsection \<open>Antenna switch and arbiter\<close>

definition ant_led_value :: "u32 \<Rightarrow> u32" where
  "ant_led_value v = (v AND NOT BIT_DPDT_SEL_EN) OR BIT_DPDT_WL_SEL"

definition ant_rfe_value :: "u32 \<Rightarrow> u32" where
  "ant_rfe_value v = (let v1 = (v AND NOT RFE_CTRL8_RFE_SEL89_MASK) OR RFE_CTRL8_RFE_SEL89_DPDT
     in (v1 AND NOT RFE_CTRL8_R_RFE_SEL_15_MASK) OR RFE_CTRL8_R_RFE_SEL_15_BBSW_WLG)"

definition rtw88_coex_set_ant_2g_bbsw :: "'w hci_ops \<Rightarrow> ('w rtw88_dev, unit) cm" where
  "rtw88_coex_set_ant_2g_bbsw ops =
     seqE (RTW88_DEV_ASSERT_LOCKED ops)
     (tryE (attempt (rtw_read32 ops REG_LED_CFG)) (\<lambda>r. case r of
        Inl e \<Rightarrow> ret ()
      | Inr v \<Rightarrow>
          seqE (discard (rtw_write32 ops REG_LED_CFG (ant_led_value v)))
          (tryE (attempt (rtw_read32 ops REG_RFE_CTRL8)) (\<lambda>r. case r of
             Inl e \<Rightarrow> ret ()
           | Inr v \<Rightarrow> discard (rtw_write32 ops REG_RFE_CTRL8 (ant_rfe_value v))))))"

text \<open>\<^verbatim>\<open>if (rtw_read(d, a, &v) == 0) { v = f(v); (void)rtw_write(d, a, v); }\<close> in its three widths.\<close>

definition modify8 :: "'w hci_ops \<Rightarrow> u32 \<Rightarrow> (u8 \<Rightarrow> u8) \<Rightarrow> ('w rtw88_dev, unit) cm" where
  "modify8 ops a f = tryE (attempt (rtw_read8 ops a)) (\<lambda>r. case r of
     Inl e \<Rightarrow> ret () | Inr v \<Rightarrow> discard (rtw_write8 ops a (f v)))"

definition modify16 :: "'w hci_ops \<Rightarrow> u32 \<Rightarrow> (u16 \<Rightarrow> u16) \<Rightarrow> ('w rtw88_dev, unit) cm" where
  "modify16 ops a f = tryE (attempt (rtw_read16 ops a)) (\<lambda>r. case r of
     Inl e \<Rightarrow> ret () | Inr v \<Rightarrow> discard (rtw_write16 ops a (f v)))"

definition modify32 :: "'w hci_ops \<Rightarrow> u32 \<Rightarrow> (u32 \<Rightarrow> u32) \<Rightarrow> ('w rtw88_dev, unit) cm" where
  "modify32 ops a f = tryE (attempt (rtw_read32 ops a)) (\<lambda>r. case r of
     Inl e \<Rightarrow> ret () | Inr v \<Rightarrow> discard (rtw_write32 ops a (f v)))"

definition rtw88_coex_cfg_init_default :: "'w hci_ops \<Rightarrow> ('w rtw88_dev, unit) cm" where
  "rtw88_coex_cfg_init_default ops =
     seqE (RTW88_DEV_ASSERT_LOCKED ops)
     (seqE (modify8 ops REG_BCN_CTRL (\<lambda>v. v OR BIT_EN_BCN_FUNCTION))
     (seqE (modify8 ops REG_BT_TDMA_TIME (\<lambda>v. (v AND NOT BIT_MASK_SAMPLE_RATE) OR 0x05))
     (seqE (discard (rtw_write8 ops REG_BT_STAT_CTRL BT_CNT_ENABLE))
     (seqE (modify32 ops REG_GPIO_MUXCFG (\<lambda>v. v OR (BIT_BT_PTA_EN OR BIT_PO_BT_PTA_PINS)))
     (seqE (modify8 ops REG_QUEUE_CTRL (\<lambda>v. (v OR BIT_PTA_WL_TX_EN) AND NOT BIT_PTA_EDCCA_EN))
     (seqE (modify16 ops REG_BT_COEX_V2 (\<lambda>v. v OR BIT_GNT_BT_POLARITY))
     (seqE (modify8 ops (REG_BT_COEX_TABLE_H + 3) (\<lambda>v. v OR BCN_PRI_EN))
     (seqE (discard (rtw_write32 ops REG_BT_COEX_TABLE0 COEX_TABLE_WL_ONLY))
     (seqE (discard (rtw_write32 ops REG_BT_COEX_TABLE1 COEX_TABLE_WL_ONLY))
      (discard (rtw_write32 ops REG_BT_COEX_BRK_TABLE COEX_BRK_TABLE_DEF)))))))))))"

subsection \<open>Firmware commands\<close>

definition coex_bt_wifi_msg :: "u8 \<Rightarrow> u8 \<Rightarrow> u32" where
  "coex_bt_wifi_msg b1 b2 = H2C_CMD_BT_WIFI_CONTROL OR push_bit 8 (ucast b1) OR push_bit 16 (ucast b2)"

definition coex_tdma_msg :: "u8 \<Rightarrow> u32" where
  "coex_tdma_msg tdma_case = H2C_CMD_COEX_TDMA_TYPE OR push_bit 8 (ucast tdma_case)"

definition rtw88_coex_h2c_bt_wifi_control :: "'w hci_ops \<Rightarrow> u8 \<Rightarrow> u8 \<Rightarrow> ('w rtw88_dev, unit) cm" where
  "rtw88_coex_h2c_bt_wifi_control ops b1 b2 =
     seqE (rtw_h2c ops H2C_CMD_BT_WIFI_CONTROL (coex_bt_wifi_msg b1 b2) 0)
       (updS (\<lambda>d. rtw88_debug_inc RTW88_DBG_CNT_H2C_TX
         (d\<lparr>dev_coex := (dev_coex d)\<lparr>cx_last_bt_wifi_ctrl_payload := coex_bt_wifi_msg b1 b2\<rparr>\<rparr>)))"

definition rtw88_coex_h2c_tdma_type :: "'w hci_ops \<Rightarrow> u8 \<Rightarrow> ('w rtw88_dev, unit) cm" where
  "rtw88_coex_h2c_tdma_type ops tdma_case =
     seqE (rtw_h2c ops H2C_CMD_COEX_TDMA_TYPE (coex_tdma_msg tdma_case) 0)
       (updS (\<lambda>d. rtw88_debug_inc RTW88_DBG_CNT_H2C_TX
         (d\<lparr>dev_coex := (dev_coex d)\<lparr>cx_current_tdma_case := tdma_case\<rparr>\<rparr>)))"

subsection \<open>Entry points\<close>

definition coex_b1 :: "'w chip_info \<Rightarrow> u8" where
  "coex_b1 ci = ucast (drop_bit 8 (coex_bt_wifi_ctrl_payload ci) AND 0xff)"

definition coex_b2 :: "'w chip_info \<Rightarrow> u8" where
  "coex_b2 ci = ucast (drop_bit 16 (coex_bt_wifi_ctrl_payload ci) AND 0xff)"

definition rtw88_coex_init :: "'w hci_ops \<Rightarrow> 'w chip_info option \<Rightarrow> ('w rtw88_dev, unit) cm" where
  "rtw88_coex_init ops ch =
     seqE (RTW88_DEV_LOCK ops)
     (tryE (deref_chip ch) (\<lambda>ci.
      seqE (case coex_cfg_init ci of Some hook \<Rightarrow> on_priv hook | None \<Rightarrow> rtw88_coex_cfg_init_default ops)
     (seqE (rtw88_coex_set_gnt_wonly ops)
     (seqE (rtw88_coex_set_ant_2g_bbsw ops)
     (seqE (RTW88_DEV_UNLOCK ops)
     (seqE (discard (rtw88_coex_h2c_bt_wifi_control ops (coex_b1 ci) (coex_b2 ci)))
     (seqE (discard (rtw88_coex_h2c_tdma_type ops (coex_default_tdma ci)))
      (updS (\<lambda>d. d\<lparr>dev_coex := (dev_coex d)\<lparr>cx_enabled := True, cx_bt_disabled := True\<rparr>\<rparr>)))))))))"

definition rtw88_coex_link_up :: "'w hci_ops \<Rightarrow> 'w chip_info option \<Rightarrow> ('w rtw88_dev, unit) cm" where
  "rtw88_coex_link_up ops ch = tryE (deref_chip ch) (\<lambda>ci.
     seqE (updS (\<lambda>d. rtw88_debug_inc RTW88_DBG_CNT_COEX_LINK_UP
        (d\<lparr>dev_coex := (dev_coex d)\<lparr>cx_link_up_count := cx_link_up_count (dev_coex d) + 1\<rparr>\<rparr>)))
     (seqE (discard (rtw88_coex_h2c_bt_wifi_control ops (coex_b1 ci) (coex_b2 ci)))
      (discard (rtw88_coex_h2c_tdma_type ops (coex_default_tdma ci)))))"

definition rtw88_coex_link_down :: "'w rtw88_dev \<Rightarrow> 'w rtw88_dev" where
  "rtw88_coex_link_down d = d"

definition rtw88_coex_prepare_tx :: "'w hci_ops \<Rightarrow> ('w rtw88_dev, unit) cm" where
  "rtw88_coex_prepare_tx ops =
     seqE (RTW88_DEV_ASSERT_LOCKED ops)
     (seqE (rtw88_coex_set_gnt_wonly ops) (rtw88_coex_set_ant_2g_bbsw ops))"

subsection \<open>On any bus\<close>

text \<open>The register part keeps the mutex and never faults beyond an error code.\<close>

context hci_bus
begin

lemma coex_ready_keeps: "priv_free R \<Longrightarrow> keeps (on_dev held R) is_errno (rtw88_ltecoex_ready ops)"
  unfolding rtw88_ltecoex_ready_def by (intro keeps_intros dev_keeps is_errno_simps)

lemma coex_lte_write_keeps:
  "priv_free R \<Longrightarrow> keeps (on_dev held R) is_errno (rtw88_ltecoex_write_indirect ops off m v)"
  unfolding rtw88_ltecoex_write_indirect_def rtw88_ltecoex_write_indirect_raw_def
    rtw88_ltecoex_read_indirect_def
  by (intro keeps_intros dev_keeps coex_ready_keeps)

lemma coex_gnt_keeps: "priv_free R \<Longrightarrow> keeps (on_dev held R) F (rtw88_coex_set_gnt_wonly ops)"
  unfolding rtw88_coex_set_gnt_wonly_def by (intro keeps_seqE keeps_discard_all dev_keeps coex_lte_write_keeps)

lemma coex_ant_keeps: "priv_free R \<Longrightarrow> keeps (on_dev held R) F (rtw88_coex_set_ant_2g_bbsw ops)"
  unfolding rtw88_coex_set_ant_2g_bbsw_def
  by (intro keeps_seqE keeps_discard_all keeps_tryE keeps_attempt_all keeps_case_sum keeps_ret dev_keeps)

lemma coex_modify_keeps:
  assumes "priv_free R"
  shows "keeps (on_dev held R) F (modify8 ops a f)"
    and "keeps (on_dev held R) F (modify16 ops a g)"
    and "keeps (on_dev held R) F (modify32 ops a h)"
  unfolding modify8_def modify16_def modify32_def
  by (intro keeps_discard_all keeps_tryE keeps_attempt_all keeps_case_sum keeps_ret dev_keeps assms)+

lemma coex_cfg_keeps: "priv_free R \<Longrightarrow> keeps (on_dev held R) F (rtw88_coex_cfg_init_default ops)"
  unfolding rtw88_coex_cfg_init_default_def
  by (intro keeps_seqE keeps_discard_all dev_keeps coex_modify_keeps)

lemma coex_prepare_tx_keeps: "priv_free R \<Longrightarrow> keeps (on_dev held R) F (rtw88_coex_prepare_tx ops)"
  unfolding rtw88_coex_prepare_tx_def by (intro keeps_seqE dev_keeps coex_gnt_keeps coex_ant_keeps)

end

subsection \<open>On a device that answers\<close>

context hci_answers
begin

lemma eff_case_Inr: "eff H (g v) m x H' m' \<Longrightarrow> eff H (case Inr v of Inl e \<Rightarrow> f e | Inr v \<Rightarrow> g v) m x H' m'"
  by simp

lemma eff_modify8:
  "a \<in> usable \<Longrightarrow> a \<in> plain \<Longrightarrow> eff held (modify8 ops a f) m () held (m(a := f (m a)))"
  unfolding modify8_def
  by (rule eff_tryE [OF eff_attempt [OF eff_read8]], assumption)
    (rule eff_case_Inr, rule eff_discard, rule eff_write8)

lemma eff_modify16:
  "a \<in> usable \<Longrightarrow> span 2 a \<subseteq> plain \<Longrightarrow>
    eff held (modify16 ops a f) m () held (put16 a (f (peek16 m a)) m)"
  unfolding modify16_def
  by (rule eff_tryE [OF eff_attempt [OF eff_read16]], assumption, assumption)
    (rule eff_case_Inr, rule eff_discard, rule eff_write16)

lemma eff_modify32:
  "a \<in> usable \<Longrightarrow> span 4 a \<subseteq> plain \<Longrightarrow>
    eff held (modify32 ops a f) m () held (put32 a (f (peek32 m a)) m)"
  unfolding modify32_def
  by (rule eff_tryE [OF eff_attempt [OF eff_read32]], assumption, assumption)
    (rule eff_case_Inr, rule eff_discard, rule eff_write32)

lemma eff_set_ant:
  assumes "REG_LED_CFG \<in> usable" "span 4 REG_LED_CFG \<subseteq> plain"
    and "REG_RFE_CTRL8 \<in> usable" "span 4 REG_RFE_CTRL8 \<subseteq> plain"
  shows "eff held (rtw88_coex_set_ant_2g_bbsw ops) m () held
    (put32 REG_RFE_CTRL8 (ant_rfe_value (peek32 (put32 REG_LED_CFG (ant_led_value (peek32 m REG_LED_CFG)) m) REG_RFE_CTRL8))
      (put32 REG_LED_CFG (ant_led_value (peek32 m REG_LED_CFG)) m))"
  unfolding rtw88_coex_set_ant_2g_bbsw_def
  by (rule eff_seqE [OF eff_assert], rule eff_tryE [OF eff_attempt [OF eff_read32 [OF assms(1,2)]]],
      rule eff_case_Inr, rule eff_seqE [OF eff_discard [OF eff_write32 [OF assms(1,2)]]],
      rule eff_tryE [OF eff_attempt [OF eff_read32 [OF assms(3,4)]]],
      rule eff_case_Inr, rule eff_discard [OF eff_write32 [OF assms(3,4)]])

text \<open>The window registers of the LTE block may behave in any way; the configuration registers do not move.\<close>

abbreviation lte_window_off :: bool where
  "lte_window_off \<equiv> REG_LTECOEX_CTRL \<in> usable \<and> REG_LTECOEX_WDATA \<in> usable \<and>
     span 4 REG_LTECOEX_CTRL \<inter> plain = {} \<and> span 4 REG_LTECOEX_WDATA \<inter> plain = {}"

lemma window_keeps:
  assumes "priv_free R" lte_window_off
  shows "keeps (on_dev (\<lambda>w. held w \<and> agrees w m) R) is_errno (rtw_read32 ops a)"
    and "keeps (on_dev (\<lambda>w. held w \<and> agrees w m) R) is_errno (rtw_write32 ops REG_LTECOEX_CTRL v)"
    and "keeps (on_dev (\<lambda>w. held w \<and> agrees w m) R) is_errno (rtw_write32 ops REG_LTECOEX_WDATA v)"
proof -
  have "keeps (\<lambda>w. held w \<and> agrees w m) is_errno (op_read32 ops a)"
    using k_read32 [of a] read32_frame by (auto simp: keeps_def agrees_def) (metis surjective_pairing)
  then show "keeps (on_dev (\<lambda>w. held w \<and> agrees w m) R) is_errno (rtw_read32 ops a)"
    unfolding rtw_read32_def by (rule keeps_on_priv [OF _ assms(1)])
  have w: "keeps (\<lambda>w. held w \<and> agrees w m) is_errno (op_write32 ops b v)"
    if b: "b \<in> usable" "span 4 b \<inter> plain = {}" for b
  proof (rule keepsI)
    fix w r w' assume w: "held w \<and> agrees w m" and run: "op_write32 ops b v w = (r, w')"
    from w b write32_frame [OF _ run b(1)] have "agrees w' m" by (auto simp: agrees_def)
    with keepsD [OF k_write32 _ run] w show "(held w' \<and> agrees w' m) \<and> (\<forall>e. r = Inl e \<longrightarrow> is_errno e)"
      by blast
  qed
  from assms(2) show "keeps (on_dev (\<lambda>w. held w \<and> agrees w m) R) is_errno (rtw_write32 ops REG_LTECOEX_CTRL v)"
    and "keeps (on_dev (\<lambda>w. held w \<and> agrees w m) R) is_errno (rtw_write32 ops REG_LTECOEX_WDATA v)"
    unfolding rtw_write32_def by (auto intro!: keeps_on_priv [OF _ assms(1)] w)
qed

lemma lte_write_keeps_mem:
  assumes "priv_free R" lte_window_off
  shows "keeps (on_dev (\<lambda>w. held w \<and> agrees w m) R) is_errno (rtw88_ltecoex_write_indirect ops off k v)"
  unfolding rtw88_ltecoex_write_indirect_def rtw88_ltecoex_write_indirect_raw_def
    rtw88_ltecoex_read_indirect_def rtw88_ltecoex_ready_def
  by (intro keeps_intros window_keeps [OF assms] is_errno_simps)

lemma eff_set_gnt:
  assumes lte_window_off
  shows "eff held (rtw88_coex_set_gnt_wonly ops) m () held m"
  unfolding eff_def
proof (intro allI impI)
  fix d :: "'w rtw88_dev" assume d: "held (priv d) \<and> agrees (priv d) m"
  let ?R = "\<lambda>d'. d'\<lparr>priv := priv d\<rparr> = d"
  have R: "priv_free ?R" by (simp add: priv_free_def)
  have a: "keeps (on_dev (\<lambda>w. held w \<and> agrees w m) ?R) no_fault (RTW88_DEV_ASSERT_LOCKED ops)"
    unfolding RTW88_DEV_ASSERT_LOCKED_def
    by (rule keeps_on_priv [OF _ R]) (auto simp: keeps_def assert_held)
  have "keeps (on_dev (\<lambda>w. held w \<and> agrees w m) ?R) no_fault (rtw88_coex_set_gnt_wonly ops)"
    unfolding rtw88_coex_set_gnt_wonly_def
    by (intro keeps_seqE a keeps_discard_all lte_write_keeps_mem [OF R assms])
  from keeps_no_fault [OF this, of d] d obtain v s' where
    "rtw88_coex_set_gnt_wonly ops d = (Inr v, s')" "on_dev (\<lambda>w. held w \<and> agrees w m) ?R s'"
    by (auto simp: on_dev_def)
  then show "\<exists>w. rtw88_coex_set_gnt_wonly ops d = (Inr (), d\<lparr>priv := w\<rparr>) \<and> held w \<and> agrees w m"
    by (intro exI [of _ "priv s'"]) (auto simp: on_dev_def intro: priv_write_back)
qed

end

subsection \<open>On the USB back-end\<close>

text \<open>The registers of the arbiter set-up and of the antenna switch.\<close>

definition coex_regs :: "u32 set" where
  "coex_regs = {REG_BCN_CTRL, REG_BT_TDMA_TIME, REG_BT_STAT_CTRL, REG_QUEUE_CTRL, REG_BT_COEX_TABLE_H + 3} \<union>
     span 4 REG_GPIO_MUXCFG \<union> span 2 REG_BT_COEX_V2 \<union> span 4 REG_BT_COEX_TABLE0 \<union>
     span 4 REG_BT_COEX_TABLE1 \<union> span 4 REG_BT_COEX_BRK_TABLE"

text \<open>The memory that the arbiter set-up leaves, in the order of its writes.\<close>

definition coex_cfg_mem :: "(u32 \<Rightarrow> u8) \<Rightarrow> u32 \<Rightarrow> u8" where
  "coex_cfg_mem m0 =
     (let m1 = m0(REG_BCN_CTRL := m0 REG_BCN_CTRL OR BIT_EN_BCN_FUNCTION);
          m2 = m1(REG_BT_TDMA_TIME := (m1 REG_BT_TDMA_TIME AND NOT BIT_MASK_SAMPLE_RATE) OR 0x05);
          m3 = m2(REG_BT_STAT_CTRL := BT_CNT_ENABLE);
          m4 = put32 REG_GPIO_MUXCFG (peek32 m3 REG_GPIO_MUXCFG OR (BIT_BT_PTA_EN OR BIT_PO_BT_PTA_PINS)) m3;
          m5 = m4(REG_QUEUE_CTRL := (m4 REG_QUEUE_CTRL OR BIT_PTA_WL_TX_EN) AND NOT BIT_PTA_EDCCA_EN);
          m6 = put16 REG_BT_COEX_V2 (peek16 m5 REG_BT_COEX_V2 OR BIT_GNT_BT_POLARITY) m5;
          m7 = m6(REG_BT_COEX_TABLE_H + 3 := m6 (REG_BT_COEX_TABLE_H + 3) OR BCN_PRI_EN);
          m8 = put32 REG_BT_COEX_TABLE0 COEX_TABLE_WL_ONLY m7;
          m9 = put32 REG_BT_COEX_TABLE1 COEX_TABLE_WL_ONLY m8
      in put32 REG_BT_COEX_BRK_TABLE COEX_BRK_TABLE_DEF m9)"

lemma span_self: "0 < n \<Longrightarrow> a \<in> span n a"
  by (simp add: span_def)

lemma coex_cfg_regs:
  "peek32 (coex_cfg_mem m) REG_BT_COEX_TABLE0 = COEX_TABLE_WL_ONLY"
  "peek32 (coex_cfg_mem m) REG_BT_COEX_TABLE1 = COEX_TABLE_WL_ONLY"
  "peek32 (coex_cfg_mem m) REG_BT_COEX_BRK_TABLE = COEX_BRK_TABLE_DEF"
  "peek32 (coex_cfg_mem m) REG_GPIO_MUXCFG = peek32 m REG_GPIO_MUXCFG OR (BIT_BT_PTA_EN OR BIT_PO_BT_PTA_PINS)"
  "peek16 (coex_cfg_mem m) REG_BT_COEX_V2 = peek16 m REG_BT_COEX_V2 OR BIT_GNT_BT_POLARITY"
  "coex_cfg_mem m REG_BCN_CTRL = m REG_BCN_CTRL OR BIT_EN_BCN_FUNCTION"
  "coex_cfg_mem m REG_BT_TDMA_TIME = (m REG_BT_TDMA_TIME AND NOT BIT_MASK_SAMPLE_RATE) OR 0x05"
  "coex_cfg_mem m REG_BT_STAT_CTRL = BT_CNT_ENABLE"
  "coex_cfg_mem m REG_QUEUE_CTRL = (m REG_QUEUE_CTRL OR BIT_PTA_WL_TX_EN) AND NOT BIT_PTA_EDCCA_EN"
  "coex_cfg_mem m (REG_BT_COEX_TABLE_H + 3) = m (REG_BT_COEX_TABLE_H + 3) OR BCN_PRI_EN"
  by (simp_all add: coex_cfg_mem_def Let_def reg_simps)

lemma coex_cfg_frame: "x \<notin> coex_regs \<Longrightarrow> coex_cfg_mem m x = m x"
  by (simp add: coex_cfg_mem_def coex_regs_def put32_def put16_def span_def Let_def)

lemma mask_numerals: "(- 32 :: u8) = 0xE0" "(- 33 :: u8) = 0xDF" "(- 4026532096 :: u32) = 0x0FFFFF00"
  by simp_all

lemma coex_usable:
  "REG_BCN_CTRL \<in> usb_usable" "REG_BT_TDMA_TIME \<in> usb_usable" "REG_BT_STAT_CTRL \<in> usb_usable"
  "REG_QUEUE_CTRL \<in> usb_usable" "REG_BT_COEX_TABLE_H + 3 \<in> usb_usable" "REG_GPIO_MUXCFG \<in> usb_usable"
  "REG_BT_COEX_V2 \<in> usb_usable" "REG_BT_COEX_TABLE0 \<in> usb_usable" "REG_BT_COEX_TABLE1 \<in> usb_usable"
  "REG_BT_COEX_BRK_TABLE \<in> usb_usable" "REG_LED_CFG \<in> usb_usable" "REG_RFE_CTRL8 \<in> usb_usable"
  "REG_LTECOEX_CTRL \<in> usb_usable" "REG_LTECOEX_WDATA \<in> usb_usable"
  by (simp_all add: usb_usable_def)

context hci_answers
begin

lemma eff_cfg_init:
  assumes "coex_regs \<subseteq> plain" "usb_usable \<subseteq> usable"
  shows "eff held (rtw88_coex_cfg_init_default ops) m () held (coex_cfg_mem m)"
proof -
  note u = coex_usable [THEN subsetD [OF assms(2)]]
  have p: "REG_BCN_CTRL \<in> plain" "REG_BT_TDMA_TIME \<in> plain" "REG_BT_STAT_CTRL \<in> plain"
    "REG_QUEUE_CTRL \<in> plain" "REG_BT_COEX_TABLE_H + 3 \<in> plain" "span 4 REG_GPIO_MUXCFG \<subseteq> plain"
    "span 2 REG_BT_COEX_V2 \<subseteq> plain" "span 4 REG_BT_COEX_TABLE0 \<subseteq> plain"
    "span 4 REG_BT_COEX_TABLE1 \<subseteq> plain" "span 4 REG_BT_COEX_BRK_TABLE \<subseteq> plain"
    using assms(1) by (auto simp: coex_regs_def)
  show ?thesis
    unfolding rtw88_coex_cfg_init_default_def coex_cfg_mem_def Let_def
    by (rule eff_seqE [OF eff_assert], rule eff_seqE [OF eff_modify8 [OF u(1) p(1)]],
        rule eff_seqE [OF eff_modify8 [OF u(2) p(2)]],
        rule eff_seqE [OF eff_discard [OF eff_write8 [OF u(3) p(3)]]],
        rule eff_seqE [OF eff_modify32 [OF u(6) p(6)]],
        rule eff_seqE [OF eff_modify8 [OF u(4) p(4)]],
        rule eff_seqE [OF eff_modify16 [OF u(7) p(7)]],
        rule eff_seqE [OF eff_modify8 [OF u(5) p(5)]],
        rule eff_seqE [OF eff_discard [OF eff_write32 [OF u(8) p(8)]]],
        rule eff_seqE [OF eff_discard [OF eff_write32 [OF u(9) p(9)]]],
        rule eff_discard [OF eff_write32 [OF u(10) p(10)]])
qed

lemma eff_prepare_tx:
  assumes "usb_usable \<subseteq> usable" "span 4 REG_LED_CFG \<subseteq> plain" "span 4 REG_RFE_CTRL8 \<subseteq> plain"
    and "span 4 REG_LTECOEX_CTRL \<inter> plain = {}" "span 4 REG_LTECOEX_WDATA \<inter> plain = {}"
  shows "eff held (rtw88_coex_prepare_tx ops) m () held
    (put32 REG_RFE_CTRL8 (ant_rfe_value (peek32 (put32 REG_LED_CFG (ant_led_value (peek32 m REG_LED_CFG)) m) REG_RFE_CTRL8))
      (put32 REG_LED_CFG (ant_led_value (peek32 m REG_LED_CFG)) m))"
proof -
  note u = coex_usable [THEN subsetD [OF assms(1)]]
  show ?thesis
    unfolding rtw88_coex_prepare_tx_def
    by (rule eff_seqE [OF eff_assert], rule eff_seqE [OF eff_set_gnt],
        use u(13,14) assms(4,5) in blast, rule eff_set_ant [OF u(11) assms(2) u(12) assms(3)])
qed

end

text \<open>The arbiter set-up over USB on a device that answers: called with the mutex held it succeeds with it
  held, every register of the set-up has the value the wifi-only state needs (with the other bits
  of the read-modify-write registers as they were), and no other configuration register moves.\<close>
theorem coex_cfg_init_registers:
  fixes m :: "u32 \<Rightarrow> u8"
  assumes "answering_chip C mem cfg" "coex_regs \<subseteq> usb_plain cfg" "on_bus 0 k z L (priv d)"
  defines "m \<equiv> usb_peek mem (priv d)"
  shows "\<exists>w m'. rtw88_coex_cfg_init_default (rtw88_usb_hci_ops C) d = (Inr (), d\<lparr>priv := w\<rparr>) \<and>
    on_bus 0 k z L w \<and> (\<forall>x \<in> usb_plain cfg. usb_peek mem w x = m' x) \<and> (\<forall>x. x \<notin> coex_regs \<longrightarrow> m' x = m x) \<and>
    m' 0x550 = m 0x550 OR 0x08 \<and>
    m' 0x790 = (m 0x790 AND 0xE0) OR 0x05 \<and>
    m' 0x778 = 1 \<and>
    peek32 m' 0x40 = peek32 m 0x40 OR 0x220 \<and>
    m' 0x4C6 = (m 0x4C6 OR 0x10) AND 0xDF \<and>
    peek16 m' 0x762 = peek16 m 0x762 OR 0x1000 \<and>
    m' 0x6CF = m 0x6CF OR 0x80 \<and>
    peek32 m' 0x6C0 = 0x55555555 \<and> peek32 m' 0x6C4 = 0x55555555 \<and> peek32 m' 0x6C8 = 0xF0FFFFFF"
proof -
  note up = usb_answers [OF assms(1)]
  from hci_answers.effD [OF up hci_answers.eff_cfg_init [OF up assms(2) subset_refl] assms(3), of m]
  obtain w where w: "rtw88_coex_cfg_init_default (rtw88_usb_hci_ops C) d = (Inr (), d\<lparr>priv := w\<rparr>)"
    "on_bus 0 k z L w" "mem_agrees (usb_peek mem) (usb_plain cfg) w (coex_cfg_mem m)"
    by (auto simp: m_def mem_agrees_def)
  then show ?thesis
    by (intro exI [of _ w] exI [of _ "coex_cfg_mem m"])
      (use coex_cfg_regs [of m] coex_cfg_frame [of _ m] in \<open>simp add: mem_agrees_def mask_numerals\<close>)
qed

lemma coex_regs_plain: "coex_regs \<subseteq> usb_plain (- {RTW88_REG_SEC_PING_ADDR})"
  by (simp add: coex_regs_def addr_plain span_plain)

theorem coex_cfg_init_registers_witness:
  "\<exists>w. rtw88_coex_cfg_init_default (rtw88_usb_hci_ops regfile_ops) (rtw88_dev_zero (on_bus_hw (\<lambda>_. 0xFF)))
      = (Inr (), (rtw88_dev_zero (on_bus_hw (\<lambda>_. 0xFF)))\<lparr>priv := w\<rparr>) \<and>
    usb_peek (\<lambda>m. m) w 0x4C6 = 0xDF"
proof -
  have "on_bus 0 True () [] (priv (rtw88_dev_zero (on_bus_hw (\<lambda>_::u16. 0xFF::u8))))"
    by (simp add: on_bus_def on_bus_hw_def)
  from coex_cfg_init_registers [OF regfile_answers coex_regs_plain this]
  obtain w m' where w: "rtw88_coex_cfg_init_default (rtw88_usb_hci_ops regfile_ops)
      (rtw88_dev_zero (on_bus_hw (\<lambda>_. 0xFF))) = (Inr (), (rtw88_dev_zero (on_bus_hw (\<lambda>_. 0xFF)))\<lparr>priv := w\<rparr>)"
    and "\<forall>x \<in> usb_plain (- {0x4E0}). usb_peek (\<lambda>m. m) w x = m' x"
    and "m' 0x4C6 = (usb_peek (\<lambda>m. m) (on_bus_hw (\<lambda>_. 0xFF)) 0x4C6 OR 0x10) AND 0xDF"
    by auto
  moreover have "(0x4C6 :: u32) \<in> usb_plain (- {0x4E0})" by (rule addr_plain) simp_all
  ultimately have "usb_peek (\<lambda>m. m) w 0x4C6 =
      (usb_peek (\<lambda>m. m) (on_bus_hw (\<lambda>_. 0xFF)) 0x4C6 OR 0x10) AND 0xDF" by metis
  then have "usb_peek (\<lambda>m. m) w 0x4C6 = 0xDF" by (simp add: usb_peek_def on_bus_hw_def)
  with w show ?thesis by blast
qed

text \<open>Before each transmission the coexistence refresh selects the 2.4 GHz WLAN antenna path: whatever the LTE
  window registers do (they may time out or fail), the function succeeds with the mutex held, the LED register
  has DPDT_SEL_EN clear and DPDT_WL_SEL set, RFE_CTRL8 has 0x77 in its low byte and 2 in its top
  nibble, and no other bit of the configuration registers moves.\<close>
theorem coex_prepare_tx_antenna:
  assumes "answering_chip C mem cfg" "on_bus 0 k z L (priv d)"
    and "span 4 REG_LED_CFG \<subseteq> usb_plain cfg" "span 4 REG_RFE_CTRL8 \<subseteq> usb_plain cfg"
    and "span 4 REG_LTECOEX_CTRL \<inter> usb_plain cfg = {}" "span 4 REG_LTECOEX_WDATA \<inter> usb_plain cfg = {}"
  shows "\<exists>w. rtw88_coex_prepare_tx (rtw88_usb_hci_ops C) d = (Inr (), d\<lparr>priv := w\<rparr>) \<and> on_bus 0 k z L w \<and>
    peek32 (usb_peek mem w) 0x4C = (peek32 (usb_peek mem (priv d)) 0x4C AND NOT 0x800000) OR 0x1000000 \<and>
    peek32 (usb_peek mem w) 0xCB4 = (peek32 (usb_peek mem (priv d)) 0xCB4 AND 0x0FFFFF00) OR 0x20000077 \<and>
    (\<forall>x \<in> usb_plain cfg - span 4 0x4C - span 4 0xCB4. usb_peek mem w x = usb_peek mem (priv d) x)"
proof -
  note up = usb_answers [OF assms(1)]
  let ?m = "usb_peek mem (priv d)"
  let ?m1 = "put32 REG_LED_CFG (ant_led_value (peek32 ?m REG_LED_CFG)) ?m"
  let ?m2 = "put32 REG_RFE_CTRL8 (ant_rfe_value (peek32 ?m1 REG_RFE_CTRL8)) ?m1"
  from hci_answers.effD [OF up hci_answers.eff_prepare_tx [OF up subset_refl assms(3-6)] assms(2), of ?m]
  obtain w where w: "rtw88_coex_prepare_tx (rtw88_usb_hci_ops C) d = (Inr (), d\<lparr>priv := w\<rparr>)"
    "on_bus 0 k z L w" and a: "mem_agrees (usb_peek mem) (usb_plain cfg) w ?m2"
    by (auto simp: mem_agrees_def)
  have "peek32 (usb_peek mem w) 0x4C = ant_led_value (peek32 ?m 0x4C)"
    using hci_answers.peek32_agrees [OF up a assms(3)] by (simp add: reg_simps)
  moreover have "peek32 (usb_peek mem w) 0xCB4 = ant_rfe_value (peek32 ?m 0xCB4)"
    using hci_answers.peek32_agrees [OF up a assms(4)] by (simp add: reg_simps)
  moreover have "ant_rfe_value v = (v AND 0x0FFFFF00) OR 0x20000077" for v
    unfolding ant_rfe_value_def Let_def
    by (simp add: bit.conj_disj_distrib2 and.assoc or.assoc mask_numerals)
  moreover have "usb_peek mem w x = ?m x" if "x \<in> usb_plain cfg - span 4 0x4C - span 4 0xCB4" for x
    using that a by (auto simp: mem_agrees_def put32_def span_def)
  ultimately show ?thesis using w by (auto simp: ant_led_value_def)
qed

theorem coex_prepare_tx_antenna_witness:
  "\<exists>w. rtw88_coex_prepare_tx (rtw88_usb_hci_ops regfile_ops) (rtw88_dev_zero (on_bus_hw (\<lambda>_. 0xFF)))
      = (Inr (), (rtw88_dev_zero (on_bus_hw (\<lambda>_. 0xFF)))\<lparr>priv := w\<rparr>) \<and>
    peek32 (usb_peek (\<lambda>m. m) w) 0xCB4 = 0x2FFFFF77"
proof -
  let ?cfg = "{0x40..0x4F} \<union> {0xCB0..0xCBF} :: u16 set"
  have chip: "answering_chip regfile_ops (\<lambda>m. m) ?cfg"
    by unfold_locales (auto simp: regfile_ops_def)
  have in_cfg: "x \<in> usb_plain ?cfg"
    if "0x40 \<le> unat x \<and> unat x \<le> 0x4F \<or> 0xCB0 \<le> unat x \<and> unat x \<le> 0xCBF" for x
    using that
    by (auto simp: usb_plain_def word_le_nat_alt unsigned_ucast_eq take_bit_nat_eq_self)
  have off: "x \<notin> usb_plain ?cfg" if "0x1700 \<le> unat x" for x
    using that
    by (auto simp: usb_plain_def word_le_nat_alt unsigned_ucast_eq take_bit_nat_eq_self)
  have "on_bus 0 True () [] (priv (rtw88_dev_zero (on_bus_hw (\<lambda>_::u16. 0xFF::u8))))"
    by (simp add: on_bus_def on_bus_hw_def)
  note at_rest = this
  have "span 4 0x4C \<subseteq> usb_plain ?cfg" "span 4 0xCB4 \<subseteq> usb_plain ?cfg"
    by (rule subsetI, rule in_cfg, drule unat_span, simp, simp)+
  moreover have "span 4 0x1700 \<inter> usb_plain ?cfg = {}" "span 4 0x1704 \<inter> usb_plain ?cfg = {}"
    using unat_span [of _ 4 "0x1700"] unat_span [of _ 4 "0x1704"] off by (fastforce simp: disjoint_iff)+
  ultimately have "\<exists>w. rtw88_coex_prepare_tx (rtw88_usb_hci_ops regfile_ops) (rtw88_dev_zero (on_bus_hw (\<lambda>_. 0xFF)))
      = (Inr (), (rtw88_dev_zero (on_bus_hw (\<lambda>_. 0xFF)))\<lparr>priv := w\<rparr>) \<and>
    peek32 (usb_peek (\<lambda>m. m) w) 0xCB4 =
      (peek32 (usb_peek (\<lambda>m. m) (on_bus_hw (\<lambda>_. 0xFF))) 0xCB4 AND 0x0FFFFF00) OR 0x20000077"
    using coex_prepare_tx_antenna [OF chip at_rest] unfolding priv_dev_zero by blast
  then show ?thesis by (simp add: peek32_def usb_peek_def on_bus_hw_def le32_def)
qed

text \<open>C35. On a kernel with INVARIANTS, \<^verbatim>\<open>rtw88_coex_init\<close> always panics over USB, for any device: called with the
  mutex held it recurses on it, and called without it, its two firmware commands run after it has released the
  mutex that the mailbox asserts. Since \<^verbatim>\<open>rtw88_download_firmware\<close> reaches it with the mutex held, bringing the chip
  up there is not possible.\<close>
theorem coex_init_panics:
  fixes d :: "('c, 'z) hw_scheme rtw88_dev"
  assumes "invariants (priv d)" "\<not> sc_io_busy (priv d)"
    and "coex_cfg_init ci = None"
  shows "fst (rtw88_coex_init (rtw88_usb_hci_ops C) (Some ci) d) = Inl Panic"
proof (cases "mtx_depth (priv d) = 0")
  case False
  then have "RTW88_DEV_LOCK (rtw88_usb_hci_ops C) d = (Inl Panic, d\<lparr>priv := priv d\<rparr>)"
    using assms(1) by (simp add: RTW88_DEV_LOCK_def on_priv_def RTW88_LOCK_def)
  then show ?thesis by (simp add: rtw88_coex_init_def)
next
  case True
  let ?z = "hw.more (priv d)" and ?L = "ep0_log (priv d)"
  let ?held = "on_bus 0 True ?z ?L" and ?ops = "rtw88_usb_hci_ops C"
  have R: "priv_free (\<lambda>_. True)" by (simp add: priv_free_def)
  obtain d1 where d1: "RTW88_DEV_LOCK ?ops d = (Inr (), d1)" "on_dev ?held (\<lambda>_. True) d1"
    using True assms(1,2) by (auto simp: RTW88_DEV_LOCK_def on_priv_def RTW88_LOCK_def on_dev_def on_bus_def)
  obtain d2 where d2: "rtw88_coex_cfg_init_default ?ops d1 = (Inr (), d2)" "on_dev ?held (\<lambda>_. True) d2"
    using keeps_no_fault [OF usb_bus.coex_cfg_keeps [OF R] d1(2)] by auto
  obtain d3 where d3: "rtw88_coex_set_gnt_wonly ?ops d2 = (Inr (), d3)" "on_dev ?held (\<lambda>_. True) d3"
    using keeps_no_fault [OF usb_bus.coex_gnt_keeps [OF R] d2(2)] by auto
  obtain d4 where d4: "rtw88_coex_set_ant_2g_bbsw ?ops d3 = (Inr (), d4)" "on_dev ?held (\<lambda>_. True) d4"
    using keeps_no_fault [OF usb_bus.coex_ant_keeps [OF R] d3(2)] by auto
  obtain d5 where d5: "RTW88_DEV_UNLOCK ?ops d4 = (Inr (), d5)" "mtx_depth (priv d5) = 0" "invariants (priv d5)"
    using d4(2) by (auto simp: RTW88_DEV_UNLOCK_def on_priv_def RTW88_UNLOCK_def on_dev_def on_bus_def)
  have "rtw88_coex_h2c_bt_wifi_control ?ops b1 b2 d5 = (Inl Panic, d5\<lparr>priv := priv d5\<rparr>)" for b1 b2
    using d5 by (simp add: rtw88_coex_h2c_bt_wifi_control_def rtw_h2c_def on_priv_def
        rtw88_h2c_mailbox_def RTW88_ASSERT_LOCKED_def seqE_def tryE_def)
  then show ?thesis
    using d1(1) d2(1) d3(1) d4(1) d5(1) assms(3)
    by (simp add: rtw88_coex_init_def deref_chip_def seqE_def tryE_def [of "ret c" for c])
qed

theorem coex_init_panics_witness:
  "fst (rtw88_coex_init (rtw88_usb_hci_ops idle_ops) (Some rtw88_8821c_chip_info)
     (rtw88_dev_zero (free_hw ()))) = Inl Panic \<and>
   fst (rtw88_coex_init (rtw88_usb_hci_ops idle_ops) (Some rtw88_8821c_chip_info)
     (rtw88_dev_zero (on_bus_hw ()))) = Inl Panic"
proof
  show "fst (rtw88_coex_init (rtw88_usb_hci_ops idle_ops) (Some rtw88_8821c_chip_info)
     (rtw88_dev_zero (free_hw ()))) = Inl Panic"
    by (rule coex_init_panics) (simp_all add: free_hw_def on_bus_hw_def rtw88_8821c_chip_info_def)
  show "fst (rtw88_coex_init (rtw88_usb_hci_ops idle_ops) (Some rtw88_8821c_chip_info)
     (rtw88_dev_zero (on_bus_hw ()))) = Inl Panic"
    by (rule coex_init_panics) (simp_all add: on_bus_hw_def rtw88_8821c_chip_info_def)
qed

text \<open>The two commands of \<^verbatim>\<open>rtw88_coex_link_up\<close> on a bus that accepts them.\<close>

lemma coex_8821c_messages:
  "coex_bt_wifi_msg (coex_b1 rtw88_8821c_chip_info) (coex_b2 rtw88_8821c_chip_info)
     = coex_bt_wifi_ctrl_payload (rtw88_8821c_chip_info :: 'w chip_info)"
  "coex_tdma_msg (coex_default_tdma rtw88_8821c_chip_info)
     = coex_tdma_type_payload (rtw88_8821c_chip_info :: 'w chip_info)"
  by (simp_all add: coex_bt_wifi_msg_def coex_b1_def coex_b2_def coex_tdma_msg_def
      rtw88_8821c_chip_info_def)

end
