(* ===== verification/Rtw_Pci.thy ===== *)
theory Rtw_Pci
  imports Rtw_Efuse Rtw_Led Rtw_Coex
begin

section \<open>The PCI front-end\<close>

text \<open>
  \<^verbatim>\<open>if_rtw88_pci.c\<close>: the second back-end of the bus abstraction (registers through \<^verbatim>\<open>bus_space\<close>), the device
  match, and the resource handling of attach and detach. \<^verbatim>\<open>bus_space\<close> is the parameter \<open>pci_space\<close>; what the
  newbus calls of the kernel answer is the parameter \<open>pci_answers\<close>.
\<close>

record 'm pci_space =
  bus_read_1 :: "u32 \<Rightarrow> 'm \<Rightarrow> u8 \<times> 'm"
  bus_read_2 :: "u32 \<Rightarrow> 'm \<Rightarrow> u16 \<times> 'm"
  bus_read_4 :: "u32 \<Rightarrow> 'm \<Rightarrow> u32 \<times> 'm"
  bus_write_1 :: "u32 \<Rightarrow> u8 \<Rightarrow> 'm \<Rightarrow> 'm"
  bus_write_2 :: "u32 \<Rightarrow> u16 \<Rightarrow> 'm \<Rightarrow> 'm"
  bus_write_4 :: "u32 \<Rightarrow> u32 \<Rightarrow> 'm \<Rightarrow> 'm"
  bus_read_region_1 :: "u32 \<Rightarrow> u32 \<Rightarrow> 'm \<Rightarrow> u8 list \<times> 'm"
  bus_write_region_1 :: "u32 \<Rightarrow> u8 list \<Rightarrow> 'm \<Rightarrow> 'm"

text \<open>The softc as the operations use it: the mapped window and the mutex.\<close>

record 'm pci_hw =
  bar0 :: 'm
  pci_mtx_depth :: nat
  pci_invariants :: bool

definition pci_rd :: "('m \<Rightarrow> 'a \<times> 'm) \<Rightarrow> ('m pci_hw, 'a) cm" where
  "pci_rd f = (\<lambda>s. let (v, m) = f (bar0 s) in (Inr v, s\<lparr>bar0 := m\<rparr>))"

definition pci_wr :: "('m \<Rightarrow> 'm) \<Rightarrow> ('m pci_hw, unit) cm" where
  "pci_wr f = updS (\<lambda>s. s\<lparr>bar0 := f (bar0 s)\<rparr>)"

definition pci_lock :: "('m pci_hw, unit) cm" where
  "pci_lock = (\<lambda>s. if pci_mtx_depth s \<noteq> 0 \<and> pci_invariants s then (Inl Panic, s)
                   else (Inr (), s\<lparr>pci_mtx_depth := Suc (pci_mtx_depth s)\<rparr>))"

definition pci_unlock :: "('m pci_hw, unit) cm" where
  "pci_unlock = (\<lambda>s. if pci_mtx_depth s = 0 then (Inl Panic, s)
                     else (Inr (), s\<lparr>pci_mtx_depth := pci_mtx_depth s - 1\<rparr>))"

definition pci_assert_locked :: "('m pci_hw, unit) cm" where
  "pci_assert_locked = (\<lambda>s. if pci_mtx_depth s = 0 \<and> pci_invariants s then (Inl Panic, s) else (Inr (), s))"

definition rtw88_pci_hci_ops :: "'m pci_space \<Rightarrow> 'm pci_hw hci_ops" where
  "rtw88_pci_hci_ops B = \<lparr>
     op_read8 = (\<lambda>a. pci_rd (bus_read_1 B a)),
     op_read16 = (\<lambda>a. pci_rd (bus_read_2 B a)),
     op_read32 = (\<lambda>a. pci_rd (bus_read_4 B a)),
     op_write8 = (\<lambda>a v. pci_wr (bus_write_1 B a v)),
     op_write16 = (\<lambda>a v. pci_wr (bus_write_2 B a v)),
     op_write32 = (\<lambda>a v. pci_wr (bus_write_4 B a v)),
     op_read_region = (\<lambda>a n. pci_rd (bus_read_region_1 B a n)),
     op_write_region = (\<lambda>a buf. pci_wr (bus_write_region_1 B a buf)),
     op_h2c = (\<lambda>_ _ _. fail (Errno EOPNOTSUPP)),
     dev_lock = pci_lock, dev_unlock = pci_unlock, dev_assert_locked = pci_assert_locked \<rparr>"

lemma pci_ops_simps [simp]:
  "op_read8 (rtw88_pci_hci_ops B) a = pci_rd (bus_read_1 B a)"
  "op_read16 (rtw88_pci_hci_ops B) a = pci_rd (bus_read_2 B a)"
  "op_read32 (rtw88_pci_hci_ops B) a = pci_rd (bus_read_4 B a)"
  "op_write8 (rtw88_pci_hci_ops B) a b = pci_wr (bus_write_1 B a b)"
  "op_write16 (rtw88_pci_hci_ops B) a h = pci_wr (bus_write_2 B a h)"
  "op_write32 (rtw88_pci_hci_ops B) a v = pci_wr (bus_write_4 B a v)"
  "op_h2c (rtw88_pci_hci_ops B) c m x = fail (Errno EOPNOTSUPP)"
  "dev_lock (rtw88_pci_hci_ops B) = pci_lock"
  "dev_unlock (rtw88_pci_hci_ops B) = pci_unlock"
  "dev_assert_locked (rtw88_pci_hci_ops B) = pci_assert_locked"
  by (simp_all add: rtw88_pci_hci_ops_def)

subsection \<open>The bus contracts\<close>

definition pci_free :: "bool \<Rightarrow> 'm pci_hw \<Rightarrow> bool" where
  "pci_free k s \<longleftrightarrow> pci_mtx_depth s = 0 \<and> pci_invariants s = k"

definition pci_held :: "bool \<Rightarrow> 'm pci_hw \<Rightarrow> bool" where
  "pci_held k s \<longleftrightarrow> pci_mtx_depth s = 1 \<and> pci_invariants s = k"

lemma pci_rd_keeps: "keeps (pci_held k) F (pci_rd f)"
  by (auto simp: keeps_def pci_rd_def pci_held_def split: prod.splits)

lemma pci_wr_keeps: "keeps (pci_held k) F (pci_wr f)"
  by (auto simp: keeps_def pci_wr_def pci_held_def)

lemma pci_assert_keeps: "keeps (pci_held k) F pci_assert_locked"
  by (auto simp: keeps_def pci_assert_locked_def pci_held_def)

interpretation pci_bus: hci_bus "rtw88_pci_hci_ops B" "pci_free k" "pci_held k"
  for B :: "'m pci_space" and k
  by unfold_locales
    (auto simp: pci_rd_keeps pci_wr_keeps pci_assert_keeps keeps_fail pci_free_def pci_held_def
      pci_lock_def pci_unlock_def)

text \<open>
  A window that keeps its configuration registers: reads give the bytes of \<open>mem\<close>, writes store them. A
  multi-byte access must not run past the 32-bit address space.
\<close>

definition pci_usable :: "u32 set" where
  "pci_usable = {a. unat a \<le> 0xFFFFFFFC}"

locale pci_window =
  fixes B :: "'m pci_space" and mem :: "'m \<Rightarrow> u32 \<Rightarrow> u8" and cfg :: "u32 set"
  assumes r1: "bus_read_1 B a m = (b, m') \<Longrightarrow> (a \<in> cfg \<longrightarrow> b = mem m a) \<and> (\<forall>x \<in> cfg. mem m' x = mem m x)"
    and r2: "bus_read_2 B a m = (h, m') \<Longrightarrow> (span 2 a \<subseteq> cfg \<longrightarrow> h = peek16 (mem m) a) \<and> (\<forall>x \<in> cfg. mem m' x = mem m x)"
    and r4: "bus_read_4 B a m = (v, m') \<Longrightarrow> (span 4 a \<subseteq> cfg \<longrightarrow> v = peek32 (mem m) a) \<and> (\<forall>x \<in> cfg. mem m' x = mem m x)"
    and w1: "x \<in> cfg \<Longrightarrow> mem (bus_write_1 B a b m) x = ((mem m)(a := b)) x"
    and w2: "x \<in> cfg \<Longrightarrow> mem (bus_write_2 B a h m) x = put16 a h (mem m) x"
    and w4: "x \<in> cfg \<Longrightarrow> mem (bus_write_4 B a v m) x = put32 a v (mem m) x"

definition pci_peek :: "('m \<Rightarrow> u32 \<Rightarrow> u8) \<Rightarrow> 'm pci_hw \<Rightarrow> u32 \<Rightarrow> u8" where
  "pci_peek mem s = mem (bar0 s)"

lemma peek16_on: "(\<And>x. x \<in> span 2 a \<Longrightarrow> f x = g x) \<Longrightarrow> peek16 f a = peek16 g a"
  by (simp add: peek16_def span_def)

lemma peek32_on: "(\<And>x. x \<in> span 4 a \<Longrightarrow> f x = g x) \<Longrightarrow> peek32 f a = peek32 g a"
  by (simp add: peek32_def span_def)

sublocale pci_window < pci_up: hci_answers "rtw88_pci_hci_ops B" "pci_free k" "pci_held k"
    "pci_peek mem" cfg pci_usable
  for k
proof unfold_locales
  fix w w' :: "'m pci_hw" and a b h v x
  show "op_read8 (rtw88_pci_hci_ops B) a w = (Inr b, w') \<Longrightarrow> a \<in> cfg \<Longrightarrow> b = pci_peek mem w a"
    using r1 by (auto simp: pci_rd_def pci_peek_def split: prod.splits)
  show "op_read16 (rtw88_pci_hci_ops B) a w = (Inr h, w') \<Longrightarrow> span 2 a \<subseteq> cfg \<Longrightarrow> h = peek16 (pci_peek mem w) a"
    using r2 by (auto simp: pci_rd_def pci_peek_def split: prod.splits)
  show "op_read32 (rtw88_pci_hci_ops B) a w = (Inr v, w') \<Longrightarrow> span 4 a \<subseteq> cfg \<Longrightarrow> v = peek32 (pci_peek mem w) a"
    using r4 by (auto simp: pci_rd_def pci_peek_def split: prod.splits)
  show "op_write8 (rtw88_pci_hci_ops B) a b w = (Inr (), w') \<Longrightarrow> a \<in> cfg \<Longrightarrow> pci_peek mem w' a = b"
    using w1 by (auto simp: pci_wr_def pci_peek_def)
  show "op_write16 (rtw88_pci_hci_ops B) a h w = (Inr (), w') \<Longrightarrow> span 2 a \<subseteq> cfg \<Longrightarrow> peek16 (pci_peek mem w') a = h"
  proof -
    assume "op_write16 (rtw88_pci_hci_ops B) a h w = (Inr (), w')" "span 2 a \<subseteq> cfg"
    then have "peek16 (pci_peek mem w') a = peek16 (put16 a h (mem (bar0 w))) a"
      using w2 by (intro peek16_on) (auto simp: pci_wr_def pci_peek_def)
    then show ?thesis by (simp add: peek16_put16)
  qed
  show "op_write32 (rtw88_pci_hci_ops B) a v w = (Inr (), w') \<Longrightarrow> span 4 a \<subseteq> cfg \<Longrightarrow> peek32 (pci_peek mem w') a = v"
  proof -
    assume "op_write32 (rtw88_pci_hci_ops B) a v w = (Inr (), w')" "span 4 a \<subseteq> cfg"
    then have "peek32 (pci_peek mem w') a = peek32 (put32 a v (mem (bar0 w))) a"
      using w4 by (intro peek32_on) (auto simp: pci_wr_def pci_peek_def)
    then show ?thesis by (simp add: peek32_put32)
  qed
next
  fix w w' :: "'m pci_hw" and a x and r1' :: "fault + u8" and r2' :: "fault + u16" and r4' :: "fault + u32"
  show "op_read8 (rtw88_pci_hci_ops B) a w = (r1', w') \<Longrightarrow> x \<in> cfg \<Longrightarrow> pci_peek mem w' x = pci_peek mem w x"
    using r1 by (auto simp: pci_rd_def pci_peek_def split: prod.splits)
  show "op_read16 (rtw88_pci_hci_ops B) a w = (r2', w') \<Longrightarrow> x \<in> cfg \<Longrightarrow> pci_peek mem w' x = pci_peek mem w x"
    using r2 by (auto simp: pci_rd_def pci_peek_def split: prod.splits)
  show "op_read32 (rtw88_pci_hci_ops B) a w = (r4', w') \<Longrightarrow> x \<in> cfg \<Longrightarrow> pci_peek mem w' x = pci_peek mem w x"
    using r4 by (auto simp: pci_rd_def pci_peek_def split: prod.splits)
next
  fix w w' :: "'m pci_hw" and a b h v x and r :: "fault + unit"
  show "op_write8 (rtw88_pci_hci_ops B) a b w = (r, w') \<Longrightarrow> x \<in> cfg \<Longrightarrow> x \<noteq> a \<Longrightarrow> pci_peek mem w' x = pci_peek mem w x"
    using w1 by (auto simp: pci_wr_def pci_peek_def)
  show "op_write16 (rtw88_pci_hci_ops B) a h w = (r, w') \<Longrightarrow> x \<in> cfg \<Longrightarrow> x \<notin> span 2 a \<Longrightarrow> pci_peek mem w' x = pci_peek mem w x"
    using w2 by (auto simp: pci_wr_def pci_peek_def put16_def span_def)
  show "op_write32 (rtw88_pci_hci_ops B) a v w = (r, w') \<Longrightarrow> x \<in> cfg \<Longrightarrow> x \<notin> span 4 a \<Longrightarrow> pci_peek mem w' x = pci_peek mem w x"
    using w4 by (auto simp: pci_wr_def pci_peek_def put32_def span_def)
qed (auto simp: pci_rd_def pci_wr_def pci_held_def pci_free_def pci_assert_locked_def pci_lock_def
    pci_unlock_def pci_peek_def split: prod.splits if_splits)

context pci_window
begin

lemma pci_answers_here:
  "hci_answers (rtw88_pci_hci_ops B) (pci_free k) (pci_held k) (pci_peek mem) cfg pci_usable"
  by (rule pci_up.hci_answers_axioms)

end

text \<open>A memory as the window: the instance of the witnesses.\<close>

definition mem_space :: "(u32 \<Rightarrow> u8) pci_space" where
  "mem_space = \<lparr>
     bus_read_1 = (\<lambda>a m. (m a, m)), bus_read_2 = (\<lambda>a m. (peek16 m a, m)), bus_read_4 = (\<lambda>a m. (peek32 m a, m)),
     bus_write_1 = (\<lambda>a b m. m(a := b)), bus_write_2 = put16, bus_write_4 = put32,
     bus_read_region_1 = (\<lambda>a n m. (map (\<lambda>i. m (a + of_nat i)) [0..<unat n], m)),
     bus_write_region_1 = (\<lambda>a bs m. (\<lambda>x. if unat (x - a) < length bs then bs ! unat (x - a) else m x))\<rparr>"

interpretation mem_window: pci_window mem_space "\<lambda>m. m" UNIV
  by unfold_locales (auto simp: mem_space_def)

subsection \<open>Match and probe\<close>

definition rtw88_pci_devs :: "(u16 \<times> u16) list" where
  "rtw88_pci_devs = [(0x10ec, 0xB822), (0x10ec, 0xC822), (0x10ec, 0xC82F), (0x10ec, 0x8813)]"

definition rtw88_pci_match :: "u16 \<Rightarrow> u16 \<Rightarrow> (u16 \<times> u16) option" where
  "rtw88_pci_match vid did = find (\<lambda>e. fst e = vid \<and> snd e = did) rtw88_pci_devs"

text \<open>\<^verbatim>\<open>BUS_PROBE_DEFAULT\<close> is the \<open>Inr\<close> case.\<close>

definition rtw88_pci_probe :: "u16 \<Rightarrow> u16 \<Rightarrow> errno + unit" where
  "rtw88_pci_probe vid did = (case rtw88_pci_match vid did of None \<Rightarrow> Inl ENXIO | Some _ \<Rightarrow> Inr ())"

subsection \<open>Attach and detach\<close>

text \<open>
  The resources of the device as the kernel sees them (\<open>k_*\<close>: what is allocated, whatever the softc thinks) and the
  fields of the softc that attach and detach go by.
\<close>

record pci_res =
  k_busmaster :: bool
  k_bar0 :: bool
  k_msi :: bool
  k_irq :: bool
  k_intr :: bool
  k_mtx :: bool
  s_bar0 :: bool       \<comment> \<open>\<^verbatim>\<open>sc->bar0 != NULL\<close>\<close>
  s_irq :: bool
  s_ih :: bool
  s_msi_count :: nat
  s_irq_rid :: nat
  s_chip :: bool       \<comment> \<open>\<^verbatim>\<open>sc->rtwdev.chip != NULL\<close>\<close>

record pci_answers =
  ans_bar0 :: bool     \<comment> \<open>\<^verbatim>\<open>bus_alloc_resource_any\<close> for BAR0\<close>
  ans_msi :: "nat option"   \<comment> \<open>\<^verbatim>\<open>pci_alloc_msi\<close>: the count granted, or an error\<close>
  ans_irq :: bool
  ans_intr :: bool

definition pci_res_zero :: pci_res where
  "pci_res_zero = \<lparr>k_busmaster = False, k_bar0 = False, k_msi = False, k_irq = False, k_intr = False,
     k_mtx = False, s_bar0 = False, s_irq = False, s_ih = False, s_msi_count = 0, s_irq_rid = 0, s_chip = False\<rparr>"

definition pci_fail_bar :: "pci_res \<Rightarrow> pci_res" where
  "pci_fail_bar s = s\<lparr>k_bar0 := False, s_bar0 := False, k_busmaster := False\<rparr>"

definition pci_fail_irq :: "pci_res \<Rightarrow> pci_res" where
  "pci_fail_irq s =
     (let s1 = s\<lparr>k_irq := False, s_irq := False\<rparr>;
          s2 = (if s_msi_count s1 > 0 then s1\<lparr>k_msi := False\<rparr> else s1)
      in pci_fail_bar s2)"

definition rtw88_pci_attach :: "pci_answers \<Rightarrow> pci_res \<Rightarrow> (errno + unit) \<times> pci_res" where
  "rtw88_pci_attach A s0 =
     (let s1 = s0\<lparr>k_busmaster := True\<rparr> in
      if \<not> ans_bar0 A then (Inl ENXIO, s1\<lparr>s_bar0 := False\<rparr>)
      else
        let s2 = s1\<lparr>k_bar0 := True, s_bar0 := True, s_msi_count := 1, s_irq_rid := 0\<rparr>;
            s3 = (case ans_msi A of
                Some n \<Rightarrow> if n \<ge> 1 then s2\<lparr>k_msi := True, s_msi_count := n, s_irq_rid := 1\<rparr>
                          else s2\<lparr>s_msi_count := 0\<rparr>
              | None \<Rightarrow> s2\<lparr>s_msi_count := 0\<rparr>)
        in if \<not> ans_irq A then (Inl ENXIO, pci_fail_bar (s3\<lparr>s_irq := False\<rparr>))
           else
             let s4 = s3\<lparr>k_irq := True, s_irq := True\<rparr> in
             if \<not> ans_intr A then (Inl ENXIO, pci_fail_irq s4)
             else (Inr (), s4\<lparr>k_intr := True, s_ih := True, k_mtx := True, s_chip := False\<rparr>))"

definition rtw88_pci_detach :: "pci_res \<Rightarrow> pci_res" where
  "rtw88_pci_detach s0 =
     (let s1 = (if s_ih s0 then s0\<lparr>k_intr := False, s_ih := False\<rparr> else s0);
          s2 = (if s_irq s1 then s1\<lparr>k_irq := False, s_irq := False\<rparr> else s1);
          s3 = (if s_msi_count s2 > 0 then s2\<lparr>k_msi := False, s_msi_count := 0\<rparr> else s2);
          s4 = (if s_bar0 s3 then s3\<lparr>k_bar0 := False, s_bar0 := False\<rparr> else s3);
          s5 = (if k_mtx s4 then s4\<lparr>k_mtx := False\<rparr> else s4)
      in s5\<lparr>k_busmaster := False\<rparr>)"

definition pci_holds_nothing :: "pci_res \<Rightarrow> bool" where
  "pci_holds_nothing s \<longleftrightarrow> \<not> k_busmaster s \<and> \<not> k_bar0 s \<and> \<not> k_msi s \<and> \<not> k_irq s \<and> \<not> k_intr s \<and> \<not> k_mtx s"

text \<open>Resources of the PCI front-end, for every combination of answers of the kernel. A successful attach followed by detach
  leaves nothing allocated. A failed attach leaves nothing allocated either, except in two cases: bus mastering stays
  enabled when BAR0 cannot be mapped, and the MSI vector stays allocated when it was granted but its interrupt resource was
  refused.\<close>
theorem pci_attach_resources:
  assumes "rtw88_pci_attach A pci_res_zero = (r, s)"
  shows "case r of
      Inr _ \<Rightarrow> ans_bar0 A \<and> ans_irq A \<and> ans_intr A \<and> pci_holds_nothing (rtw88_pci_detach s)
    | Inl e \<Rightarrow> e = ENXIO \<and> \<not> k_bar0 s \<and> \<not> k_irq s \<and> \<not> k_intr s \<and> \<not> k_mtx s \<and>
        (k_busmaster s \<longleftrightarrow> \<not> ans_bar0 A) \<and>
        (k_msi s \<longleftrightarrow> ans_bar0 A \<and> \<not> ans_irq A \<and> (\<exists>n. ans_msi A = Some n \<and> 1 \<le> n))"
  using assms
  by (auto simp: rtw88_pci_attach_def rtw88_pci_detach_def pci_fail_bar_def pci_fail_irq_def pci_res_zero_def
      pci_holds_nothing_def Let_def split: if_splits option.splits)

theorem pci_attach_resources_witness:
  "k_msi (snd (rtw88_pci_attach \<lparr>ans_bar0 = True, ans_msi = Some 1, ans_irq = False, ans_intr = True\<rparr> pci_res_zero))"
  using pci_attach_resources [OF surjective_pairing,
      of "\<lparr>ans_bar0 = True, ans_msi = Some 1, ans_irq = False, ans_intr = True\<rparr>"]
  by (auto simp: rtw88_pci_attach_def Let_def split: sum.splits)

text \<open>The subsystems cannot run on the PCI front-end. Its attach leaves the chip pointer NULL, and with it reading the
  EFUSE, attaching the LED, bringing coexistence up on a free mutex and refreshing it at link-up all dereference the NULL pointer,
  on any device.\<close>
theorem pci_subsystems_need_chip:
  fixes d :: "'m pci_hw rtw88_dev"
  assumes "rtw88_pci_attach A s = (Inr (), s')" "pci_mtx_depth (priv d) = 0"
  shows "\<not> s_chip s' \<and>
    fst (rtw88_efuse_read (rtw88_pci_hci_ops B) None d) = Inl Panic \<and>
    fst (rtw88_led_attach (rtw88_pci_hci_ops B) None created d) = Inl Panic \<and>
    fst (rtw88_coex_init (rtw88_pci_hci_ops B) None d) = Inl Panic \<and>
    fst (rtw88_coex_link_up (rtw88_pci_hci_ops B) None d) = Inl Panic"
proof -
  have "\<not> s_chip s'"
    using assms(1) by (auto simp: rtw88_pci_attach_def Let_def split: if_splits option.splits)
  then show ?thesis
    using assms(2)
    by (simp add: rtw88_efuse_read_def rtw88_led_attach_def rtw88_coex_init_def rtw88_coex_link_up_def
        deref_chip_def tryE_def seqE_def RTW88_DEV_LOCK_def on_priv_def pci_lock_def)
qed

definition pci_idle_hw :: "nat \<Rightarrow> (u32 \<Rightarrow> u8) pci_hw" where
  "pci_idle_hw n = \<lparr>bar0 = (\<lambda>_. 0), pci_mtx_depth = n, pci_invariants = True\<rparr>"

theorem pci_subsystems_need_chip_witness:
  "fst (rtw88_efuse_read (rtw88_pci_hci_ops mem_space) None (rtw88_dev_zero (pci_idle_hw 0))) = Inl Panic"
proof -
  let ?A = "\<lparr>ans_bar0 = True, ans_msi = None, ans_irq = True, ans_intr = True\<rparr>"
  have "rtw88_pci_attach ?A pci_res_zero = (Inr (), snd (rtw88_pci_attach ?A pci_res_zero))"
    by (simp add: rtw88_pci_attach_def Let_def)
  from pci_subsystems_need_chip [OF this, of "rtw88_dev_zero (pci_idle_hw 0)"]
  show ?thesis by (simp add: pci_idle_hw_def)
qed

subsection \<open>One subsystem on two buses\<close>

definition same_on :: "u32 set \<Rightarrow> (u32 \<Rightarrow> u8) \<Rightarrow> (u32 \<Rightarrow> u8) \<Rightarrow> bool" where
  "same_on S f g \<longleftrightarrow> (\<forall>x \<in> S. f x = g x)"

lemma same_on_peek:
  "same_on S f g \<Longrightarrow> span 4 a \<subseteq> S \<Longrightarrow> peek32 f a = peek32 g a"
  "same_on S f g \<Longrightarrow> span 2 a \<subseteq> S \<Longrightarrow> peek16 f a = peek16 g a"
  by (auto simp: same_on_def intro!: peek32_on peek16_on)

lemma peek32_bytes:
  assumes "peek32 f a = peek32 g a" "x \<in> span 4 a"
  shows "f x = g x"
proof -
  have "[f a, f (a + 1), f (a + 2), f (a + 3)] = [g a, g (a + 1), g (a + 2), g (a + 3)]"
    using arg_cong [OF assms(1), of le32enc] by (simp only: le32enc_peek)
  with assms(2) show ?thesis by (auto simp: span_def dest!: word_offset_cases)
qed

lemma peek16_bytes:
  assumes "peek16 f a = peek16 g a" "x \<in> span 2 a"
  shows "f x = g x"
proof -
  have eq: "[f a, f (a + 1)] = [g a, g (a + 1)]"
    using arg_cong [OF assms(1), of le16enc] by (simp only: le16enc_peek)
  from assms(2) have "unat (x - a) < 4" by (simp add: span_def)
  from word_offset_cases [OF this] assms(2) eq show ?thesis by (auto simp: span_def)
qed

lemma same_on_at: "same_on S f g \<Longrightarrow> x \<in> S \<Longrightarrow> f x = g x"
  by (simp add: same_on_def)

lemma coex_cfg_mem_same:
  assumes "same_on coex_regs f g"
  shows "same_on coex_regs (coex_cfg_mem f) (coex_cfg_mem g)"
proof -
  note at = same_on_at [OF assms]
  have single: "f REG_BCN_CTRL = g REG_BCN_CTRL" "f REG_BT_TDMA_TIME = g REG_BT_TDMA_TIME"
    "f REG_QUEUE_CTRL = g REG_QUEUE_CTRL" "f (REG_BT_COEX_TABLE_H + 3) = g (REG_BT_COEX_TABLE_H + 3)"
    by (rule at, simp add: coex_regs_def)+
  have wide: "peek32 f REG_GPIO_MUXCFG = peek32 g REG_GPIO_MUXCFG" "peek16 f REG_BT_COEX_V2 = peek16 g REG_BT_COEX_V2"
    by (rule peek32_on, rule at, simp add: coex_regs_def, rule peek16_on, rule at, simp add: coex_regs_def)
  note regs = coex_cfg_regs [of f] coex_cfg_regs [of g] single wide
  have "coex_cfg_mem f x = coex_cfg_mem g x" if "x \<in> coex_regs" for x
  proof -
    from that consider "x \<in> {REG_BCN_CTRL, REG_BT_TDMA_TIME, REG_BT_STAT_CTRL, REG_QUEUE_CTRL, REG_BT_COEX_TABLE_H + 3}"
      | "x \<in> span 4 REG_GPIO_MUXCFG" | "x \<in> span 2 REG_BT_COEX_V2" | "x \<in> span 4 REG_BT_COEX_TABLE0"
      | "x \<in> span 4 REG_BT_COEX_TABLE1" | "x \<in> span 4 REG_BT_COEX_BRK_TABLE"
      unfolding coex_regs_def by blast
    then show ?thesis
    proof cases
      case 1
      then show ?thesis by (elim insertE emptyE) (simp_all only: regs)
    next
      case 3
      then show ?thesis by (rule peek16_bytes [rotated]) (simp only: regs)
    qed (erule peek32_bytes [rotated], simp only: regs)+
  qed
  then show ?thesis by (simp add: same_on_def)
qed

text \<open>C36. The arbiter set-up does the same through either back-end. On devices that answer and keep their configuration registers, and
  whose registers of the set-up hold the same values, the run over USB vendor requests and the run over the PCI
  window both succeed with their mutex held and leave those registers equal again.\<close>
theorem coex_cfg_init_bus_independent:
  assumes "answering_chip C mem cfg" "coex_regs \<subseteq> usb_plain cfg" "on_bus 0 k z L (priv d)"
    and "pci_window B mem' cfg'" "coex_regs \<subseteq> cfg'" "usb_usable \<subseteq> pci_usable" "pci_held k' (priv e)"
    and "\<forall>x \<in> coex_regs. usb_peek mem (priv d) x = pci_peek mem' (priv e) x"
  shows "\<exists>w w'. rtw88_coex_cfg_init_default (rtw88_usb_hci_ops C) d = (Inr (), d\<lparr>priv := w\<rparr>) \<and>
    rtw88_coex_cfg_init_default (rtw88_pci_hci_ops B) e = (Inr (), e\<lparr>priv := w'\<rparr>) \<and>
    on_bus 0 k z L w \<and> pci_held k' w' \<and> (\<forall>x \<in> coex_regs. usb_peek mem w x = pci_peek mem' w' x)"
proof -
  note usb = usb_answers [OF assms(1)] and pci = pci_window.pci_answers_here [OF assms(4)]
  have "mem_agrees (usb_peek mem) (usb_plain cfg) (priv d) (usb_peek mem (priv d))"
    "mem_agrees (pci_peek mem') cfg' (priv e) (pci_peek mem' (priv e))" by (simp_all add: mem_agrees_def)
  from hci_answers.effD [OF usb hci_answers.eff_cfg_init [OF usb assms(2) subset_refl] assms(3) this(1)]
    hci_answers.effD [OF pci hci_answers.eff_cfg_init [OF pci assms(5,6)] assms(7) this(2)]
  obtain w w' where run: "rtw88_coex_cfg_init_default (rtw88_usb_hci_ops C) d = (Inr (), d\<lparr>priv := w\<rparr>)"
    "rtw88_coex_cfg_init_default (rtw88_pci_hci_ops B) e = (Inr (), e\<lparr>priv := w'\<rparr>)"
    "on_bus 0 k z L w" "pci_held k' w'"
    and agree: "mem_agrees (usb_peek mem) (usb_plain cfg) w (coex_cfg_mem (usb_peek mem (priv d)))"
    "mem_agrees (pci_peek mem') cfg' w' (coex_cfg_mem (pci_peek mem' (priv e)))" by blast
  have "same_on coex_regs (usb_peek mem (priv d)) (pci_peek mem' (priv e))"
    using assms(8) by (simp add: same_on_def)
  from coex_cfg_mem_same [OF this] agree assms(2,5)
  have "\<forall>x \<in> coex_regs. usb_peek mem w x = pci_peek mem' w' x"
    unfolding same_on_def mem_agrees_def by (metis subsetD)
  with run show ?thesis by blast
qed

lemma usb_usable_pci: "usb_usable \<subseteq> pci_usable"
  by (auto simp: usb_usable_def pci_usable_def)

theorem coex_cfg_init_bus_independent_witness:
  "\<exists>w w'. rtw88_coex_cfg_init_default (rtw88_usb_hci_ops regfile_ops) (rtw88_dev_zero (on_bus_hw (\<lambda>_. 0)))
      = (Inr (), (rtw88_dev_zero (on_bus_hw (\<lambda>_. 0)))\<lparr>priv := w\<rparr>) \<and>
    rtw88_coex_cfg_init_default (rtw88_pci_hci_ops mem_space) (rtw88_dev_zero (pci_idle_hw 1))
      = (Inr (), (rtw88_dev_zero (pci_idle_hw 1))\<lparr>priv := w'\<rparr>) \<and>
    (\<forall>x \<in> coex_regs. usb_peek (\<lambda>m. m) w x = pci_peek (\<lambda>m. m) w' x)"
proof -
  have a: "on_bus 0 True () [] (priv (rtw88_dev_zero (on_bus_hw (\<lambda>_::u16. 0::u8))))"
    by (simp add: on_bus_def on_bus_hw_def)
  have b: "pci_held True (priv (rtw88_dev_zero (pci_idle_hw 1)))" by (simp add: pci_held_def pci_idle_hw_def)
  have c: "\<forall>x \<in> coex_regs. usb_peek (\<lambda>m. m) (priv (rtw88_dev_zero (on_bus_hw (\<lambda>_::u16. 0::u8)))) x =
      pci_peek (\<lambda>m. m) (priv (rtw88_dev_zero (pci_idle_hw 1))) x"
    by (simp add: usb_peek_def pci_peek_def on_bus_hw_def pci_idle_hw_def)
  show ?thesis
    using coex_cfg_init_bus_independent [OF regfile_answers coex_regs_plain a mem_window.pci_window_axioms
        subset_UNIV usb_usable_pci b c] by blast
qed

end
