(* ===== verification/Rtw_Power.thy ===== *)
theory Rtw_Power
  imports Rtw_Coex
begin

section \<open>MAC power sequences\<close>

text \<open>
  \<^verbatim>\<open>rtw88_8821c_power.h\<close> (the command tables) and the part of \<^verbatim>\<open>if_rtw88_usb.c\<close> that runs them: the parser, the
  configuration before and after the power-on flow, the test whether the MAC is on, and \<^verbatim>\<open>rtw88_mac_power_on\<close>. A delay
  changes nothing here (the chip may change its state at every request anyway).
\<close>

abbreviation (input) RTW_PWR_POLLING_CNT :: nat where "RTW_PWR_POLLING_CNT \<equiv> 20000"
abbreviation (input) RTW_PWR_CMD_READ :: u8 where "RTW_PWR_CMD_READ \<equiv> 0"
abbreviation (input) RTW_PWR_CMD_WRITE :: u8 where "RTW_PWR_CMD_WRITE \<equiv> 1"
abbreviation (input) RTW_PWR_CMD_POLLING :: u8 where "RTW_PWR_CMD_POLLING \<equiv> 2"
abbreviation (input) RTW_PWR_CMD_DELAY :: u8 where "RTW_PWR_CMD_DELAY \<equiv> 3"
abbreviation (input) RTW_PWR_CMD_END :: u8 where "RTW_PWR_CMD_END \<equiv> 4"
abbreviation (input) RTW_PWR_ADDR_MAC :: u8 where "RTW_PWR_ADDR_MAC \<equiv> 0"
abbreviation (input) RTW_PWR_ADDR_SDIO :: u8 where "RTW_PWR_ADDR_SDIO \<equiv> 3"
abbreviation (input) RTW_PWR_INTF_SDIO_MSK :: u8 where "RTW_PWR_INTF_SDIO_MSK \<equiv> 1"
abbreviation (input) RTW_PWR_INTF_USB_MSK :: u8 where "RTW_PWR_INTF_USB_MSK \<equiv> 2"
abbreviation (input) RTW_PWR_INTF_PCI_MSK :: u8 where "RTW_PWR_INTF_PCI_MSK \<equiv> 4"
abbreviation (input) RTW_PWR_INTF_ALL_MSK :: u8 where "RTW_PWR_INTF_ALL_MSK \<equiv> 0xF"
abbreviation (input) RTW_PWR_CUT_ALL_MSK :: u8 where "RTW_PWR_CUT_ALL_MSK \<equiv> 0xFF"
abbreviation (input) RTW_PWR_DELAY_US :: u8 where "RTW_PWR_DELAY_US \<equiv> 0"
abbreviation (input) RTW_PWR_DELAY_MS :: u8 where "RTW_PWR_DELAY_MS \<equiv> 1"

datatype rtw88_pwr_seq_cmd = PwrCmd (pwr_offset: u16) (pwr_cut_mask: u8) (pwr_intf_mask: u8)
  (pwr_base: u8) (pwr_cmd: u8) (pwr_mask: u8) (pwr_value: u8)

subsection \<open>The tables of the 8821C\<close>

definition trans_carddis_to_cardemu_8821c :: "rtw88_pwr_seq_cmd list" where
  "trans_carddis_to_cardemu_8821c = [
   PwrCmd 0x0086 RTW_PWR_CUT_ALL_MSK RTW_PWR_INTF_SDIO_MSK RTW_PWR_ADDR_SDIO RTW_PWR_CMD_WRITE 0x01 0,
   PwrCmd 0x0086 RTW_PWR_CUT_ALL_MSK RTW_PWR_INTF_SDIO_MSK RTW_PWR_ADDR_SDIO RTW_PWR_CMD_POLLING 0x02 0x02,
   PwrCmd 0x004A RTW_PWR_CUT_ALL_MSK RTW_PWR_INTF_USB_MSK RTW_PWR_ADDR_MAC RTW_PWR_CMD_WRITE 0x01 0,
   PwrCmd 0x0005 RTW_PWR_CUT_ALL_MSK RTW_PWR_INTF_ALL_MSK RTW_PWR_ADDR_MAC RTW_PWR_CMD_WRITE 0x98 0,
   PwrCmd 0x0300 RTW_PWR_CUT_ALL_MSK RTW_PWR_INTF_PCI_MSK RTW_PWR_ADDR_MAC RTW_PWR_CMD_WRITE 0xFF 0,
   PwrCmd 0x0301 RTW_PWR_CUT_ALL_MSK RTW_PWR_INTF_PCI_MSK RTW_PWR_ADDR_MAC RTW_PWR_CMD_WRITE 0xFF 0,
   PwrCmd 0xFFFF RTW_PWR_CUT_ALL_MSK RTW_PWR_INTF_ALL_MSK 0 RTW_PWR_CMD_END 0 0]"

definition trans_cardemu_to_act_8821c :: "rtw88_pwr_seq_cmd list" where
  "trans_cardemu_to_act_8821c = [
   PwrCmd 0x0020 RTW_PWR_CUT_ALL_MSK (RTW_PWR_INTF_USB_MSK OR RTW_PWR_INTF_SDIO_MSK) RTW_PWR_ADDR_MAC RTW_PWR_CMD_WRITE 0x01 0x01,
   PwrCmd 0x0001 RTW_PWR_CUT_ALL_MSK (RTW_PWR_INTF_USB_MSK OR RTW_PWR_INTF_SDIO_MSK) RTW_PWR_ADDR_MAC RTW_PWR_CMD_DELAY 1 RTW_PWR_DELAY_MS,
   PwrCmd 0x0000 RTW_PWR_CUT_ALL_MSK (RTW_PWR_INTF_USB_MSK OR RTW_PWR_INTF_SDIO_MSK) RTW_PWR_ADDR_MAC RTW_PWR_CMD_WRITE 0x20 0,
   PwrCmd 0x0005 RTW_PWR_CUT_ALL_MSK RTW_PWR_INTF_ALL_MSK RTW_PWR_ADDR_MAC RTW_PWR_CMD_WRITE 0x1C 0,
   PwrCmd 0x0075 RTW_PWR_CUT_ALL_MSK RTW_PWR_INTF_PCI_MSK RTW_PWR_ADDR_MAC RTW_PWR_CMD_WRITE 0x01 0x01,
   PwrCmd 0x0006 RTW_PWR_CUT_ALL_MSK RTW_PWR_INTF_ALL_MSK RTW_PWR_ADDR_MAC RTW_PWR_CMD_POLLING 0x02 0x02,
   PwrCmd 0x0075 RTW_PWR_CUT_ALL_MSK RTW_PWR_INTF_PCI_MSK RTW_PWR_ADDR_MAC RTW_PWR_CMD_WRITE 0x01 0,
   PwrCmd 0x0006 RTW_PWR_CUT_ALL_MSK RTW_PWR_INTF_ALL_MSK RTW_PWR_ADDR_MAC RTW_PWR_CMD_WRITE 0x01 0x01,
   PwrCmd 0x0005 RTW_PWR_CUT_ALL_MSK RTW_PWR_INTF_ALL_MSK RTW_PWR_ADDR_MAC RTW_PWR_CMD_WRITE 0x80 0,
   PwrCmd 0x0005 RTW_PWR_CUT_ALL_MSK RTW_PWR_INTF_ALL_MSK RTW_PWR_ADDR_MAC RTW_PWR_CMD_WRITE 0x18 0,
   PwrCmd 0x10C3 RTW_PWR_CUT_ALL_MSK RTW_PWR_INTF_USB_MSK RTW_PWR_ADDR_MAC RTW_PWR_CMD_WRITE 0x01 0x01,
   PwrCmd 0x0005 RTW_PWR_CUT_ALL_MSK RTW_PWR_INTF_ALL_MSK RTW_PWR_ADDR_MAC RTW_PWR_CMD_WRITE 0x01 0x01,
   PwrCmd 0x0005 RTW_PWR_CUT_ALL_MSK RTW_PWR_INTF_ALL_MSK RTW_PWR_ADDR_MAC RTW_PWR_CMD_POLLING 0x01 0,
   PwrCmd 0x0020 RTW_PWR_CUT_ALL_MSK RTW_PWR_INTF_ALL_MSK RTW_PWR_ADDR_MAC RTW_PWR_CMD_WRITE 0x08 0x08,
   PwrCmd 0x0074 RTW_PWR_CUT_ALL_MSK RTW_PWR_INTF_PCI_MSK RTW_PWR_ADDR_MAC RTW_PWR_CMD_WRITE 0x20 0x20,
   PwrCmd 0x0022 RTW_PWR_CUT_ALL_MSK RTW_PWR_INTF_PCI_MSK RTW_PWR_ADDR_MAC RTW_PWR_CMD_WRITE 0x02 0,
   PwrCmd 0x0062 RTW_PWR_CUT_ALL_MSK RTW_PWR_INTF_PCI_MSK RTW_PWR_ADDR_MAC RTW_PWR_CMD_WRITE 0xE0 0xE0,
   PwrCmd 0x0061 RTW_PWR_CUT_ALL_MSK RTW_PWR_INTF_PCI_MSK RTW_PWR_ADDR_MAC RTW_PWR_CMD_WRITE 0xE0 0,
   PwrCmd 0x007C RTW_PWR_CUT_ALL_MSK RTW_PWR_INTF_ALL_MSK RTW_PWR_ADDR_MAC RTW_PWR_CMD_WRITE 0x02 0,
   PwrCmd 0xFFFF RTW_PWR_CUT_ALL_MSK RTW_PWR_INTF_ALL_MSK 0 RTW_PWR_CMD_END 0 0]"

definition trans_act_to_cardemu_8821c :: "rtw88_pwr_seq_cmd list" where
  "trans_act_to_cardemu_8821c = [
   PwrCmd 0x0093 RTW_PWR_CUT_ALL_MSK RTW_PWR_INTF_ALL_MSK RTW_PWR_ADDR_MAC RTW_PWR_CMD_WRITE 0x08 0,
   PwrCmd 0x001F RTW_PWR_CUT_ALL_MSK RTW_PWR_INTF_ALL_MSK RTW_PWR_ADDR_MAC RTW_PWR_CMD_WRITE 0xFF 0,
   PwrCmd 0x0049 RTW_PWR_CUT_ALL_MSK RTW_PWR_INTF_ALL_MSK RTW_PWR_ADDR_MAC RTW_PWR_CMD_WRITE 0x02 0,
   PwrCmd 0x0006 RTW_PWR_CUT_ALL_MSK RTW_PWR_INTF_ALL_MSK RTW_PWR_ADDR_MAC RTW_PWR_CMD_WRITE 0x01 0x01,
   PwrCmd 0x0002 RTW_PWR_CUT_ALL_MSK RTW_PWR_INTF_ALL_MSK RTW_PWR_ADDR_MAC RTW_PWR_CMD_WRITE 0x02 0,
   PwrCmd 0x10C3 RTW_PWR_CUT_ALL_MSK RTW_PWR_INTF_USB_MSK RTW_PWR_ADDR_MAC RTW_PWR_CMD_WRITE 0x01 0,
   PwrCmd 0x0005 RTW_PWR_CUT_ALL_MSK RTW_PWR_INTF_ALL_MSK RTW_PWR_ADDR_MAC RTW_PWR_CMD_WRITE 0x02 0x02,
   PwrCmd 0x0005 RTW_PWR_CUT_ALL_MSK RTW_PWR_INTF_ALL_MSK RTW_PWR_ADDR_MAC RTW_PWR_CMD_POLLING 0x02 0,
   PwrCmd 0x0020 RTW_PWR_CUT_ALL_MSK RTW_PWR_INTF_ALL_MSK RTW_PWR_ADDR_MAC RTW_PWR_CMD_WRITE 0x08 0,
   PwrCmd 0x0000 RTW_PWR_CUT_ALL_MSK (RTW_PWR_INTF_USB_MSK OR RTW_PWR_INTF_SDIO_MSK) RTW_PWR_ADDR_MAC RTW_PWR_CMD_WRITE 0x20 0x20,
   PwrCmd 0xFFFF RTW_PWR_CUT_ALL_MSK RTW_PWR_INTF_ALL_MSK 0 RTW_PWR_CMD_END 0 0]"

definition trans_cardemu_to_carddis_8821c :: "rtw88_pwr_seq_cmd list" where
  "trans_cardemu_to_carddis_8821c = [
   PwrCmd 0x0007 RTW_PWR_CUT_ALL_MSK (RTW_PWR_INTF_USB_MSK OR RTW_PWR_INTF_SDIO_MSK) RTW_PWR_ADDR_MAC RTW_PWR_CMD_WRITE 0xFF 0x20,
   PwrCmd 0x0067 RTW_PWR_CUT_ALL_MSK RTW_PWR_INTF_ALL_MSK RTW_PWR_ADDR_MAC RTW_PWR_CMD_WRITE 0x20 0,
   PwrCmd 0x004A RTW_PWR_CUT_ALL_MSK RTW_PWR_INTF_USB_MSK RTW_PWR_ADDR_MAC RTW_PWR_CMD_WRITE 0x01 0,
   PwrCmd 0x0081 RTW_PWR_CUT_ALL_MSK RTW_PWR_INTF_ALL_MSK RTW_PWR_ADDR_MAC RTW_PWR_CMD_WRITE 0xC0 0,
   PwrCmd 0x0005 RTW_PWR_CUT_ALL_MSK (RTW_PWR_INTF_USB_MSK OR RTW_PWR_INTF_SDIO_MSK) RTW_PWR_ADDR_MAC RTW_PWR_CMD_WRITE 0x18 0x08,
   PwrCmd 0x0090 RTW_PWR_CUT_ALL_MSK (RTW_PWR_INTF_USB_MSK OR RTW_PWR_INTF_PCI_MSK) RTW_PWR_ADDR_MAC RTW_PWR_CMD_WRITE 0x02 0,
   PwrCmd 0xFFFF RTW_PWR_CUT_ALL_MSK RTW_PWR_INTF_ALL_MSK 0 RTW_PWR_CMD_END 0 0]"

definition card_enable_flow_8821c :: "rtw88_pwr_seq_cmd list list" where
  "card_enable_flow_8821c = [trans_carddis_to_cardemu_8821c, trans_cardemu_to_act_8821c]"

definition card_disable_flow_8821c :: "rtw88_pwr_seq_cmd list list" where
  "card_disable_flow_8821c = [trans_act_to_cardemu_8821c, trans_cardemu_to_carddis_8821c]"

subsection \<open>The parser\<close>

definition pwr_merge :: "rtw88_pwr_seq_cmd \<Rightarrow> u8 \<Rightarrow> u8" where
  "pwr_merge row v = (v AND NOT (pwr_mask row)) OR (pwr_value row AND pwr_mask row)"

definition pwr_hit :: "rtw88_pwr_seq_cmd \<Rightarrow> u8 \<Rightarrow> bool" where
  "pwr_hit row v \<longleftrightarrow> v AND pwr_mask row = pwr_value row AND pwr_mask row"

definition pwr_row :: "'c chip_ops \<Rightarrow> rtw88_pwr_seq_cmd \<Rightarrow> (('c, 'z) hw_scheme, unit) cm" where
  "pwr_row C row =
     (if pwr_cmd row = RTW_PWR_CMD_WRITE then
        tryE (rtw88_usb_read1 C (pwr_offset row)) (\<lambda>v. rtw88_usb_write1 C (pwr_offset row) (pwr_merge row v))
      else if pwr_cmd row = RTW_PWR_CMD_POLLING then
        tryE (pollE RTW_PWR_POLLING_CNT (tryE (rtw88_usb_read1 C (pwr_offset row)) (\<lambda>v.
                ret (if pwr_hit row v then Some () else None)))) (\<lambda>r. case r of
          None \<Rightarrow> fail (Errno EBUSY) | Some _ \<Rightarrow> ret ())
      else if pwr_cmd row = RTW_PWR_CMD_DELAY then ret ()
      else fail (Errno EINVAL))"

text \<open>The inner loop reads rows until \<^verbatim>\<open>RTW_PWR_CMD_END\<close>; reading past the end of a table is a fault.\<close>

definition pwr_applies :: "rtw88_pwr_seq_cmd \<Rightarrow> bool" where
  "pwr_applies row \<longleftrightarrow> pwr_intf_mask row AND RTW_PWR_INTF_USB_MSK \<noteq> 0 \<and> pwr_base row = RTW_PWR_ADDR_MAC"

fun pwr_table :: "'c chip_ops \<Rightarrow> rtw88_pwr_seq_cmd list \<Rightarrow> (('c, 'z) hw_scheme, unit) cm" where
  "pwr_table C [] = fail Panic"
| "pwr_table C (row # rows) =
     (if pwr_cmd row = RTW_PWR_CMD_END then ret ()
      else seqE (whenE (pwr_applies row) (pwr_row C row)) (pwr_table C rows))"

definition rtw88_pwr_seq_parser ::
  "'c chip_ops \<Rightarrow> rtw88_pwr_seq_cmd list list \<Rightarrow> (('c, 'z) hw_scheme, unit) cm" where
  "rtw88_pwr_seq_parser C tables = forE (pwr_table C) tables"

subsection \<open>Configuration around the power-on flow\<close>

definition rtw88_mac_pre_system_cfg :: "'c chip_ops \<Rightarrow> (('c, 'z) hw_scheme, unit) cm" where
  "rtw88_mac_pre_system_cfg C =
     seqE (rtw88_usb_write1 C REG_RSV_CTRL 0)
     (tryE (rtw88_usb_read4 C REG_PAD_CTRL1) (\<lambda>v.
      seqE (rtw88_usb_write4 C REG_PAD_CTRL1 (v OR (BIT_PAPE_WLBT_SEL OR BIT_LNAON_WLBT_SEL)))
      (tryE (rtw88_usb_read4 C REG_LED_CFG) (\<lambda>v.
       seqE (rtw88_usb_write4 C REG_LED_CFG (v AND NOT (BIT_PAPE_SEL_EN OR BIT_LNAON_SEL_EN)))
       (tryE (rtw88_usb_read4 C REG_GPIO_MUXCFG) (\<lambda>v.
        seqE (rtw88_usb_write4 C REG_GPIO_MUXCFG (v OR BIT_WLRFE_4_5_EN))
        (tryE (rtw88_usb_read1 C REG_SYS_FUNC_EN) (\<lambda>b.
         seqE (rtw88_usb_write1 C REG_SYS_FUNC_EN (b AND NOT (BIT_FEN_BB_RSTB OR BIT_FEN_BB_GLB_RST)))
         (tryE (rtw88_usb_read1 C REG_RF_CTRL) (\<lambda>b.
          seqE (rtw88_usb_write1 C REG_RF_CTRL (b AND NOT (BIT_RF_SDM_RSTB OR BIT_RF_RSTB OR BIT_RF_EN)))
          (tryE (rtw88_usb_read4 C REG_WLRF1) (\<lambda>v.
           rtw88_usb_write4 C REG_WLRF1 (v AND NOT BIT_WLRF1_BBRF_EN)))))))))))))"

definition rtw88_mac_init_system_cfg :: "'c chip_ops \<Rightarrow> (('c, 'z) hw_scheme, unit) cm" where
  "rtw88_mac_init_system_cfg C =
     tryE (rtw88_usb_read4 C REG_CPU_DMEM_CON) (\<lambda>v.
     seqE (rtw88_usb_write4 C REG_CPU_DMEM_CON (v OR (BIT_WL_PLATFORM_RST OR BIT_DDMA_EN)))
     (seqE (rtw88_usb_setbits1 C (REG_SYS_FUNC_EN + 1) 0xD8)
     (tryE (rtw88_usb_read1 C (REG_CR_EXT + 3)) (\<lambda>b.
      seqE (rtw88_usb_write1 C (REG_CR_EXT + 3) ((b AND 0xF0) OR 0x0C))
      (tryE (rtw88_usb_read4 C REG_MCUFW_CTRL) (\<lambda>v.
       if v AND BIT_BOOT_FSPI_EN \<noteq> 0 then
         seqE (rtw88_usb_write4 C REG_MCUFW_CTRL (v AND NOT BIT_BOOT_FSPI_EN))
         (tryE (rtw88_usb_read4 C REG_GPIO_MUXCFG) (\<lambda>g.
          rtw88_usb_write4 C REG_GPIO_MUXCFG (g AND NOT BIT_FSPI_EN)))
       else ret ()))))))"

subsection \<open>Power on and off\<close>

text \<open>A failed read counts as "off".\<close>

definition rtw88_mac_currently_on :: "'c chip_ops \<Rightarrow> (('c, 'z) hw_scheme, bool) cm" where
  "rtw88_mac_currently_on C =
     tryE (attempt (rtw88_usb_read1 C REG_CR)) (\<lambda>r. case r of
       Inl _ \<Rightarrow> ret False
     | Inr cr \<Rightarrow>
         if cr = 0xEA then ret False
         else tryE (attempt (rtw88_usb_read1 C (REG_SYS_STATUS1 + 1))) (\<lambda>r. case r of
                Inl _ \<Rightarrow> ret False
              | Inr st \<Rightarrow> ret (st AND 1 = 0)))"

definition rtw88_mac_power_off :: "'c chip_ops \<Rightarrow> (('c, 'z) hw_scheme, unit) cm" where
  "rtw88_mac_power_off C = rtw88_pwr_seq_parser C card_disable_flow_8821c"

definition rtw88_mac_power_up_once :: "'c chip_ops \<Rightarrow> (('c, 'z) hw_scheme, unit) cm" where
  "rtw88_mac_power_up_once C =
     seqE (rtw88_mac_pre_system_cfg C)
     (seqE (rtw88_pwr_seq_parser C card_enable_flow_8821c)
     (tryE (rtw88_usb_read1 C (REG_SYS_STATUS1 + 1)) (\<lambda>b.
      seqE (rtw88_usb_write1 C (REG_SYS_STATUS1 + 1) (b AND NOT 1))
      (rtw88_mac_init_system_cfg C))))"

text \<open>
  The bring-up acts on the softc and, through its device handle, on the coexistence state; \<^verbatim>\<open>sc_rtwdev.priv\<close> is the
  softc itself. The chip description of the device is \<open>ci\<close>.
\<close>

definition rtw88_mac_power_on ::
  "'c chip_ops \<Rightarrow> ('c, 'z) hw_scheme chip_info option \<Rightarrow> (('c, 'z) hw_scheme rtw88_dev, unit) cm" where
  "rtw88_mac_power_on C ci =
     tryE (on_priv (rtw88_mac_currently_on C)) (\<lambda>on.
     seqE (whenE on (on_priv (rtw88_mac_power_off C)))
     (seqE (on_priv (rtw88_mac_power_up_once C))
      (discard (rtw88_coex_init (rtw88_usb_hci_ops C) ci))))"


subsection \<open>Byte accesses on the wire\<close>

text \<open>
  \<open>grew s s' t\<close>: from \<open>s\<close> to \<open>s'\<close> the requests \<open>t\<close> went over EP0, and the mutex, the in-flight flag, the mailbox
  turn and the fields of the layers above are as they were.
\<close>

definition grew :: "('c, 'z) hw_scheme \<Rightarrow> ('c, 'z) hw_scheme \<Rightarrow> ep0_req list \<Rightarrow> bool" where
  "grew s s' t \<longleftrightarrow> ep0_log s' = ep0_log s @ t \<and> mtx_depth s' = mtx_depth s \<and>
     sc_io_busy s' = sc_io_busy s \<and> invariants s' = invariants s \<and>
     sc_h2c_box_next s' = sc_h2c_box_next s \<and> hw.more s' = hw.more s"

definition owner :: "('c, 'z) hw_scheme \<Rightarrow> bool" where
  "owner s \<longleftrightarrow> mtx_depth s \<noteq> 0 \<and> \<not> sc_io_busy s"

lemma grew_refl: "grew s s []"
  by (simp add: grew_def)

lemma grew_trans: "grew s s1 t \<Longrightarrow> grew s1 s2 u \<Longrightarrow> grew s s2 (t @ u)"
  by (simp add: grew_def)

lemma grew_owner: "grew s s' t \<Longrightarrow> owner s \<Longrightarrow> owner s'"
  by (simp add: grew_def owner_def)

lemma on_bus_owner: "on_bus n k z L s \<Longrightarrow> owner s"
  by (simp add: on_bus_def owner_def)

definition seal_log :: "u16 \<Rightarrow> u8 \<Rightarrow> ep0_req list" where
  "seal_log a v = (if rtw88_addr_in_on_section a then [EpWrite RTW88_REG_SEC_PING_ADDR [v]] else [])"

definition rd1_log :: "u16 \<Rightarrow> u8 \<Rightarrow> ep0_req list" where
  "rd1_log a v = EpRead a 1 # seal_log a v"

definition wr1_log :: "u16 \<Rightarrow> u8 \<Rightarrow> ep0_req list" where
  "wr1_log a v = EpWrite a [v] # seal_log a v"

lemma read1_wire:
  assumes "owner s" "rtw88_usb_read1 C a s = (r, s')"
  shows "case r of Inl e \<Rightarrow> e = Errno EIO \<and> grew s s' [EpRead a 1] | Inr v \<Rightarrow> grew s s' (rd1_log a v)"
proof -
  obtain res c where c: "c_read C a 1 (chip s) = (res, c)" by fastforce
  from assms(1) have o: "mtx_depth s \<noteq> 0" "\<not> sc_io_busy s" by (simp_all add: owner_def)
  show ?thesis
    using assms(2) read_region_err [OF o, of C a 1 c] read_region_ok [OF o, of C a 1 _ c] c
    by (cases res) (auto simp: rtw88_usb_read1_def grew_def rd1_log_def seal_log_def sealed_log at_def)
qed

lemma write1_wire:
  assumes "owner s" "rtw88_usb_write1 C a v s = (r, s')"
  shows "case r of Inl e \<Rightarrow> e = Errno EIO \<and> grew s s' [EpWrite a [v]] | Inr _ \<Rightarrow> grew s s' (wr1_log a v)"
proof -
  obtain ok c where c: "c_write C a [v] (chip s) = (ok, c)" by fastforce
  from assms(1) have o: "mtx_depth s \<noteq> 0" "\<not> sc_io_busy s" by (simp_all add: owner_def)
  show ?thesis
    using assms(2) write_region_err [OF o, of C a "[v]" c] write_region_ok [OF o, of C a "[v]" c] c
    by (cases ok) (auto simp: rtw88_usb_write1_def grew_def wr1_log_def seal_log_def sealed_log at_def)
qed

subsection \<open>What a table means\<close>

text \<open>
  The abstract reading of a table: the rows for this bus, in order, each one either done with the
  requests of its command or failed, in which case it is the last. A write row is a read and a write that
  changes the bits of its mask only; a poll row is up to \<^verbatim>\<open>RTW_PWR_POLLING_CNT\<close> reads of which the last one hits.
\<close>

definition pwr_rows :: "rtw88_pwr_seq_cmd list \<Rightarrow> rtw88_pwr_seq_cmd list" where
  "pwr_rows rows = filter pwr_applies (takeWhile (\<lambda>row. pwr_cmd row \<noteq> RTW_PWR_CMD_END) rows)"

definition pwr_missed :: "rtw88_pwr_seq_cmd \<Rightarrow> u8 list \<Rightarrow> bool" where
  "pwr_missed row vs \<longleftrightarrow> (\<forall>v \<in> set vs. \<not> pwr_hit row v)"

abbreviation poll_log :: "rtw88_pwr_seq_cmd \<Rightarrow> u8 list \<Rightarrow> ep0_req list" where
  "poll_log row vs \<equiv> concat (map (rd1_log (pwr_offset row)) vs)"

inductive row_done :: "rtw88_pwr_seq_cmd \<Rightarrow> ep0_req list \<Rightarrow> bool" where
  done_write: "pwr_cmd row = RTW_PWR_CMD_WRITE \<Longrightarrow>
    row_done row (rd1_log (pwr_offset row) v @ wr1_log (pwr_offset row) (pwr_merge row v))"
| done_poll: "pwr_cmd row = RTW_PWR_CMD_POLLING \<Longrightarrow> pwr_missed row vs \<Longrightarrow> pwr_hit row v \<Longrightarrow>
    length vs < RTW_PWR_POLLING_CNT \<Longrightarrow> row_done row (poll_log row (vs @ [v]))"
| done_delay: "pwr_cmd row = RTW_PWR_CMD_DELAY \<Longrightarrow> row_done row []"

inductive row_failed :: "rtw88_pwr_seq_cmd \<Rightarrow> fault \<Rightarrow> ep0_req list \<Rightarrow> bool" where
  fail_read: "pwr_cmd row = RTW_PWR_CMD_WRITE \<Longrightarrow> row_failed row (Errno EIO) [EpRead (pwr_offset row) 1]"
| fail_write: "pwr_cmd row = RTW_PWR_CMD_WRITE \<Longrightarrow> row_failed row (Errno EIO)
    (rd1_log (pwr_offset row) v @ [EpWrite (pwr_offset row) [pwr_merge row v]])"
| fail_poll: "pwr_cmd row = RTW_PWR_CMD_POLLING \<Longrightarrow> pwr_missed row vs \<Longrightarrow> length vs < RTW_PWR_POLLING_CNT \<Longrightarrow>
    row_failed row (Errno EIO) (poll_log row vs @ [EpRead (pwr_offset row) 1])"
| fail_busy: "pwr_cmd row = RTW_PWR_CMD_POLLING \<Longrightarrow> pwr_missed row vs \<Longrightarrow> length vs = RTW_PWR_POLLING_CNT \<Longrightarrow>
    row_failed row (Errno EBUSY) (poll_log row vs)"
| fail_cmd: "pwr_cmd row \<notin> {RTW_PWR_CMD_WRITE, RTW_PWR_CMD_POLLING, RTW_PWR_CMD_DELAY} \<Longrightarrow>
    row_failed row (Errno EINVAL) []"

inductive pwr_run :: "rtw88_pwr_seq_cmd list \<Rightarrow> ep0_req list \<Rightarrow> fault option \<Rightarrow> bool" where
  run_nil: "pwr_run [] [] None"
| run_done: "row_done row t \<Longrightarrow> pwr_run rows u f \<Longrightarrow> pwr_run (row # rows) (t @ u) f"
| run_failed: "row_failed row f t \<Longrightarrow> pwr_run (row # rows) t (Some f)"

inductive_simps pwr_run_Nil [simp]: "pwr_run [] t f"

abbreviation (input) outcome :: "fault + unit \<Rightarrow> fault option" where
  "outcome r \<equiv> (case r of Inl f \<Rightarrow> Some f | Inr _ \<Rightarrow> None)"

lemma pwr_run_append:
  "pwr_run rows t f \<Longrightarrow> (case f of None \<Rightarrow> pwr_run rows' u f' \<longrightarrow> pwr_run (rows @ rows') (t @ u) f'
     | Some x \<Rightarrow> pwr_run (rows @ rows') t f)"
  by (induction rule: pwr_run.induct)
    (auto intro: pwr_run.intros split: option.splits)

abbreviation (input) pwr_poll :: "'c chip_ops \<Rightarrow> rtw88_pwr_seq_cmd \<Rightarrow> (('c, 'z) hw_scheme, unit option) cm" where
  "pwr_poll C row \<equiv> tryE (rtw88_usb_read1 C (pwr_offset row)) (\<lambda>v. ret (if pwr_hit row v then Some () else None))"

lemma pwr_poll_wire:
  assumes "owner s" "pollE n (pwr_poll C row) s = (r, s')"
  shows "\<exists>vs. pwr_missed row vs \<and> (case r of
      Inl e \<Rightarrow> e = Errno EIO \<and> length vs < n \<and> grew s s' (poll_log row vs @ [EpRead (pwr_offset row) 1])
    | Inr None \<Rightarrow> length vs = n \<and> grew s s' (poll_log row vs)
    | Inr (Some _) \<Rightarrow> length vs < n \<and> (\<exists>v. pwr_hit row v \<and> grew s s' (poll_log row (vs @ [v]))))"
  using assms
proof (induction n arbitrary: s)
  case 0
  then show ?case by (auto simp: pwr_missed_def grew_refl)
next
  case (Suc n)
  obtain r1 s1 where r1: "rtw88_usb_read1 C (pwr_offset row) s = (r1, s1)" by fastforce
  note w = read1_wire [OF Suc.prems(1) r1]
  show ?case
  proof (cases r1)
    case (Inl e)
    with r1 Suc.prems(2) w show ?thesis
      by (intro exI [of _ "[]"]) (auto simp: tryE_def pwr_missed_def)
  next
    case (Inr v)
    with w have g: "grew s s1 (rd1_log (pwr_offset row) v)" by simp
    show ?thesis
    proof (cases "pwr_hit row v")
      case True
      with r1 Suc.prems(2) Inr g show ?thesis
        by (intro exI [of _ "[]"]) (auto simp: tryE_def pwr_missed_def)
    next
      case False
      with r1 Inr have "pwr_poll C row s = (Inr None, s1)" by simp
      from pollE_None_next [where body = "pwr_poll C row", OF this] Suc.prems(2)
      have run: "pollE n (pwr_poll C row) s1 = (r, s')" by (simp only:)
      from Suc.IH [OF grew_owner [OF g Suc.prems(1)] run] obtain vs where vs: "pwr_missed row vs"
        and "case r of
            Inl e \<Rightarrow> e = Errno EIO \<and> length vs < n \<and> grew s1 s' (poll_log row vs @ [EpRead (pwr_offset row) 1])
          | Inr None \<Rightarrow> length vs = n \<and> grew s1 s' (poll_log row vs)
          | Inr (Some _) \<Rightarrow> length vs < n \<and> (\<exists>v. pwr_hit row v \<and> grew s1 s' (poll_log row (vs @ [v])))" by blast
      moreover from vs False have "pwr_missed row (v # vs)" by (simp add: pwr_missed_def)
      moreover note grew_trans [OF g]
      ultimately show ?thesis
        by (intro exI [of _ "v # vs"]) (auto split: sum.splits option.splits)
    qed
  qed
qed


lemma pwr_row_wire:
  assumes "owner s" "pwr_row C row s = (r, s')"
  shows "\<exists>t. grew s s' t \<and> (case r of Inl f \<Rightarrow> row_failed row f t | Inr _ \<Rightarrow> row_done row t)"
proof (cases "pwr_cmd row = RTW_PWR_CMD_WRITE")
  case True
  let ?a = "pwr_offset row"
  obtain r1 s1 where r1: "rtw88_usb_read1 C ?a s = (r1, s1)" by fastforce
  note w1 = read1_wire [OF assms(1) r1]
  show ?thesis
  proof (cases r1)
    case (Inl e)
    with True assms(2) r1 w1 show ?thesis by (auto simp: pwr_row_def intro!: fail_read exI)
  next
    case (Inr v)
    with w1 have g: "grew s s1 (rd1_log ?a v)" by simp
    obtain r2 s2 where r2: "rtw88_usb_write1 C ?a (pwr_merge row v) s1 = (r2, s2)" by fastforce
    note w2 = write1_wire [OF grew_owner [OF g assms(1)] r2]
    have "s' = s2" "r = r2" using True assms(2) r1 r2 Inr by (simp_all add: pwr_row_def)
    with True w2 grew_trans [OF g, of s2] show ?thesis
      by (cases r2) (auto intro: fail_write done_write)
  qed
next
  case w: False
  show ?thesis
  proof (cases "pwr_cmd row = RTW_PWR_CMD_POLLING")
    case True
    obtain r1 s1 where r1: "pollE RTW_PWR_POLLING_CNT (pwr_poll C row) s = (r1, s1)" by fastforce
    from pwr_poll_wire [OF assms(1) r1] obtain vs where vs: "pwr_missed row vs" and res: "case r1 of
        Inl e \<Rightarrow> e = Errno EIO \<and> length vs < RTW_PWR_POLLING_CNT \<and>
          grew s s1 (poll_log row vs @ [EpRead (pwr_offset row) 1])
      | Inr None \<Rightarrow> length vs = RTW_PWR_POLLING_CNT \<and> grew s s1 (poll_log row vs)
      | Inr (Some _) \<Rightarrow> length vs < RTW_PWR_POLLING_CNT \<and> (\<exists>v. pwr_hit row v \<and> grew s s1 (poll_log row (vs @ [v])))"
      by blast
    have eq: "pwr_row C row = tryE (pollE RTW_PWR_POLLING_CNT (pwr_poll C row)) (\<lambda>r. case r of
        None \<Rightarrow> fail (Errno EBUSY) | Some _ \<Rightarrow> ret ())"
      unfolding pwr_row_def if_not_P [OF w] if_P [OF True] by (rule refl)
    consider (io) e where "r1 = Inl e" | (full) "r1 = Inr None" | (hit) u where "r1 = Inr (Some u)"
      by (cases r1; metis not_None_eq)
    then show ?thesis
    proof cases
      case io
      with r1 assms(2) have "s' = s1" "r = Inl e" unfolding eq by simp_all
      with io res fail_poll [OF True vs] show ?thesis by auto
    next
      case full
      with r1 assms(2) have "s' = s1" "r = Inl (Errno EBUSY)" unfolding eq by simp_all
      with full res fail_busy [OF True vs] show ?thesis by auto
    next
      case hit
      with r1 assms(2) have "s' = s1" "r = Inr ()" unfolding eq by simp_all
      moreover from hit res obtain v where "pwr_hit row v" "grew s s1 (poll_log row (vs @ [v]))"
        "length vs < RTW_PWR_POLLING_CNT" by auto
      ultimately show ?thesis using done_poll [OF True vs] by auto
    qed
  next
    case p: False
    with w assms(2) show ?thesis
      by (cases "pwr_cmd row = RTW_PWR_CMD_DELAY")
        (auto simp: pwr_row_def grew_refl intro!: exI [of _ "[]"] done_delay fail_cmd)
  qed
qed

definition table_ends :: "rtw88_pwr_seq_cmd list \<Rightarrow> bool" where
  "table_ends rows \<longleftrightarrow> (\<exists>row \<in> set rows. pwr_cmd row = RTW_PWR_CMD_END)"

lemma pwr_rows_simps:
  "pwr_cmd row = RTW_PWR_CMD_END \<Longrightarrow> pwr_rows (row # rows) = []"
  "pwr_cmd row \<noteq> RTW_PWR_CMD_END \<Longrightarrow> pwr_applies row \<Longrightarrow> pwr_rows (row # rows) = row # pwr_rows rows"
  "pwr_cmd row \<noteq> RTW_PWR_CMD_END \<Longrightarrow> \<not> pwr_applies row \<Longrightarrow> pwr_rows (row # rows) = pwr_rows rows"
  by (simp_all add: pwr_rows_def)

lemma pwr_table_wire:
  assumes "owner s" "table_ends rows" "pwr_table C rows s = (r, s')"
  shows "\<exists>t. grew s s' t \<and> pwr_run (pwr_rows rows) t (outcome r)"
  using assms
proof (induction rows arbitrary: s)
  case Nil
  then show ?case by (simp add: table_ends_def)
next
  case (Cons row rows)
  consider (last) "pwr_cmd row = RTW_PWR_CMD_END" | (skip) "pwr_cmd row \<noteq> RTW_PWR_CMD_END" "\<not> pwr_applies row"
    | (act) "pwr_cmd row \<noteq> RTW_PWR_CMD_END" "pwr_applies row" by blast
  then show ?case
  proof cases
    case last
    with Cons.prems show ?thesis by (auto simp: pwr_rows_simps grew_refl)
  next
    case skip
    with Cons show ?thesis by (simp add: pwr_rows_simps whenE_def table_ends_def)
  next
    case act
    obtain r1 s1 where r1: "pwr_row C row s = (r1, s1)" by fastforce
    from pwr_row_wire [OF Cons.prems(1) r1] obtain t where t: "grew s s1 t"
      "case r1 of Inl f \<Rightarrow> row_failed row f t | Inr _ \<Rightarrow> row_done row t" by blast
    show ?thesis
    proof (cases r1)
      case (Inl f)
      with act r1 t Cons.prems(3) show ?thesis
        by (auto simp: pwr_rows_simps whenE_def intro!: exI [of _ t] run_failed)
    next
      case (Inr u)
      with act r1 Cons.prems(2,3) have "table_ends rows" "pwr_table C rows s1 = (r, s')"
        by (auto simp: whenE_def table_ends_def)
      from Cons.IH [OF grew_owner [OF t(1) Cons.prems(1)] this] obtain u where
        "grew s1 s' u" "pwr_run (pwr_rows rows) u (outcome r)" by blast
      with act t Inr show ?thesis
        by (auto simp: pwr_rows_simps intro!: exI [of _ "t @ u"] run_done grew_trans [OF t(1)])
    qed
  qed
qed

lemma pwr_tables_wire:
  assumes "owner s" "\<And>rows. rows \<in> set tables \<Longrightarrow> table_ends rows" "rtw88_pwr_seq_parser C tables s = (r, s')"
  shows "\<exists>t. grew s s' t \<and> pwr_run (concat (map pwr_rows tables)) t (outcome r)"
  using assms
proof (induction tables arbitrary: s)
  case Nil
  then show ?case by (auto simp: rtw88_pwr_seq_parser_def grew_refl)
next
  case (Cons rows tables)
  obtain r1 s1 where r1: "pwr_table C rows s = (r1, s1)" by fastforce
  from pwr_table_wire [OF Cons.prems(1) _ r1] Cons.prems(2) obtain t where t: "grew s s1 t"
    "pwr_run (pwr_rows rows) t (outcome r1)" by auto
  show ?case
  proof (cases r1)
    case (Inl f)
    with r1 t Cons.prems(3) pwr_run_append [OF t(2)] show ?thesis
      by (auto simp: rtw88_pwr_seq_parser_def)
  next
    case (Inr u)
    with r1 Cons.prems(3) have "rtw88_pwr_seq_parser C tables s1 = (r, s')"
      by (simp add: rtw88_pwr_seq_parser_def)
    from Cons.IH [OF grew_owner [OF t(1) Cons.prems(1)] Cons.prems(2) this] obtain u where
      u: "grew s1 s' u" "pwr_run (concat (map pwr_rows tables)) u (outcome r)" by auto
    with t Inr pwr_run_append [OF t(2), of "concat (map pwr_rows tables)" u "outcome r"] show ?thesis
      by (auto intro!: exI [of _ "t @ u"] grew_trans [OF t(1) u(1)])
  qed
qed


subsection \<open>The flows of the 8821C\<close>

lemma flows_end: "rows \<in> set card_enable_flow_8821c \<union> set card_disable_flow_8821c \<Longrightarrow> table_ends rows"
  by (auto simp: card_enable_flow_8821c_def card_disable_flow_8821c_def table_ends_def
      trans_carddis_to_cardemu_8821c_def trans_cardemu_to_act_8821c_def
      trans_act_to_cardemu_8821c_def trans_cardemu_to_carddis_8821c_def)

definition flow_rows :: "rtw88_pwr_seq_cmd list list \<Rightarrow> rtw88_pwr_seq_cmd list" where
  "flow_rows flow = concat (map pwr_rows flow)"

text \<open>Every row that runs over USB addresses an always-on register, so each of its accesses is sealed.\<close>

lemma flow_rows_on_section:
  "row \<in> set (flow_rows card_enable_flow_8821c) \<union> set (flow_rows card_disable_flow_8821c) \<Longrightarrow>
   rtw88_addr_in_on_section (pwr_offset row)"
  by (auto simp: flow_rows_def pwr_rows_def card_enable_flow_8821c_def card_disable_flow_8821c_def pwr_applies_def
      trans_carddis_to_cardemu_8821c_def trans_cardemu_to_act_8821c_def
      trans_act_to_cardemu_8821c_def trans_cardemu_to_carddis_8821c_def rtw88_addr_in_on_section_def)


subsection \<open>The bring-up keeps the bus discipline\<close>

lemma keeps_pwr_row [keeps_intros]: "keeps (on_bus n k z L) is_errno (pwr_row C row)"
  unfolding pwr_row_def by (intro keeps_intros is_errno_simps)

lemma keeps_pwr_table:
  "table_ends rows \<Longrightarrow> keeps (on_bus n k z L) is_errno (pwr_table C rows)"
proof (induction rows)
  case Nil
  then show ?case by (simp add: table_ends_def)
next
  case (Cons row rows)
  show ?case
  proof (cases "pwr_cmd row = RTW_PWR_CMD_END")
    case True
    show ?thesis unfolding pwr_table.simps if_P [OF True] by (rule keeps_ret)
  next
    case False
    with Cons have "keeps (on_bus n k z L) is_errno (pwr_table C rows)" by (simp add: table_ends_def)
    with False show ?thesis by (simp add: keeps_seqE keeps_whenE keeps_pwr_row)
  qed
qed

lemma keeps_pwr_seq:
  "(\<And>rows. rows \<in> set tables \<Longrightarrow> table_ends rows) \<Longrightarrow>
   keeps (on_bus n k z L) is_errno (rtw88_pwr_seq_parser C tables)"
  unfolding rtw88_pwr_seq_parser_def
  by (induction tables) (simp_all add: keeps_ret keeps_seqE keeps_pwr_table)

lemma keeps_pre_system_cfg [keeps_intros]: "keeps (on_bus n k z L) is_errno (rtw88_mac_pre_system_cfg C)"
  unfolding rtw88_mac_pre_system_cfg_def by (intro keeps_intros)

lemma keeps_init_system_cfg [keeps_intros]: "keeps (on_bus n k z L) is_errno (rtw88_mac_init_system_cfg C)"
  unfolding rtw88_mac_init_system_cfg_def by (intro keeps_intros)

lemma keeps_currently_on [keeps_intros]: "keeps (on_bus n k z L) is_errno (rtw88_mac_currently_on C)"
  unfolding rtw88_mac_currently_on_def by (intro keeps_intros)

lemma keeps_power_off [keeps_intros]: "keeps (on_bus n k z L) is_errno (rtw88_mac_power_off C)"
  unfolding rtw88_mac_power_off_def by (rule keeps_pwr_seq) (simp add: flows_end)

lemma keeps_power_up_once [keeps_intros]: "keeps (on_bus n k z L) is_errno (rtw88_mac_power_up_once C)"
proof -
  have "keeps (on_bus n k z L) is_errno (rtw88_pwr_seq_parser C card_enable_flow_8821c)"
    by (rule keeps_pwr_seq) (simp add: flows_end)
  then show ?thesis unfolding rtw88_mac_power_up_once_def by (intro keeps_intros)
qed

text \<open>
  Without \<^verbatim>\<open>INVARIANTS\<close> the kernel counts the recursion on the mutex instead of refusing it, so a section that locks a mutex its
  thread already holds still satisfies the contract of the subsystems, one level up.
\<close>

interpretation usb_recursive: hci_bus "rtw88_usb_hci_ops C" "on_bus n False z L" "on_bus (Suc n) False z L"
  for C :: "'c chip_ops" and n and z :: 'z and L
proof unfold_locales
  fix w :: "('c, 'z) hw_scheme"
  show "on_bus n False z L w \<Longrightarrow> \<exists>w'. dev_lock (rtw88_usb_hci_ops C) w = (Inr (), w') \<and> on_bus (Suc n) False z L w'"
    by (auto simp: on_bus_def RTW88_LOCK_def)
  show "on_bus (Suc n) False z L w \<Longrightarrow> \<exists>w'. dev_unlock (rtw88_usb_hci_ops C) w = (Inr (), w') \<and> on_bus n False z L w'"
    by (auto simp: on_bus_def RTW88_UNLOCK_def)
qed (simp_all add: keeps_intros)

lemma keeps_coex_commands:
  "keeps (on_dev (on_bus n k z L) (\<lambda>_. True)) is_errno (rtw88_coex_h2c_bt_wifi_control (rtw88_usb_hci_ops C) b1 b2)"
  "keeps (on_dev (on_bus n k z L) (\<lambda>_. True)) is_errno (rtw88_coex_h2c_tdma_type (rtw88_usb_hci_ops C) c)"
  unfolding rtw88_coex_h2c_bt_wifi_control_def rtw88_coex_h2c_tdma_type_def rtw_h2c_def
  by (auto intro!: keeps_seqE keeps_updS keeps_on_priv keeps_h2c_mailbox simp: on_dev_def priv_free_def)

lemma coex_init_recursive:
  fixes d :: "('c, 'z) hw_scheme rtw88_dev"
  assumes "on_bus n False z L (priv d)" "coex_cfg_init ci = None"
  shows "\<exists>d'. rtw88_coex_init (rtw88_usb_hci_ops C) (Some ci) d = (Inr (), d') \<and>
    on_bus n False z L (priv d') \<and> cx_enabled (dev_coex d') \<and> cx_bt_disabled (dev_coex d')"
proof -
  let ?ops = "rtw88_usb_hci_ops C" and ?T = "\<lambda>_. True"
  have R: "priv_free ?T" by (simp add: priv_free_def)
  have d: "on_dev (on_bus n False z L) ?T d" using assms(1) by (simp add: on_dev_def)
  obtain d1 where d1: "RTW88_DEV_LOCK ?ops d = (Inr (), d1)" "on_dev (on_bus (Suc n) False z L) ?T d1"
    using usb_recursive.lock_step [OF d R] by blast
  obtain d2 where d2: "rtw88_coex_cfg_init_default ?ops d1 = (Inr (), d2)" "on_dev (on_bus (Suc n) False z L) ?T d2"
    using keeps_no_fault [OF usb_recursive.coex_cfg_keeps [OF R] d1(2)] by auto
  obtain d3 where d3: "rtw88_coex_set_gnt_wonly ?ops d2 = (Inr (), d3)" "on_dev (on_bus (Suc n) False z L) ?T d3"
    using keeps_no_fault [OF usb_recursive.coex_gnt_keeps [OF R] d2(2)] by auto
  obtain d4 where d4: "rtw88_coex_set_ant_2g_bbsw ?ops d3 = (Inr (), d4)" "on_dev (on_bus (Suc n) False z L) ?T d4"
    using keeps_no_fault [OF usb_recursive.coex_ant_keeps [OF R] d3(2)] by auto
  obtain d5 where d5: "RTW88_DEV_UNLOCK ?ops d4 = (Inr (), d5)" "on_dev (on_bus n False z L) ?T d5"
    using usb_recursive.unlock_step [OF d4(2) R] by blast
  obtain d6 where d6: "discard (rtw88_coex_h2c_bt_wifi_control ?ops (coex_b1 ci) (coex_b2 ci)) d5 = (Inr (), d6)"
    "on_dev (on_bus n False z L) ?T d6"
    using keeps_no_fault [OF keeps_discard_all [OF keeps_coex_commands(1)] d5(2)] by (metis (full_types) unit.exhaust)
  obtain d7 where d7: "discard (rtw88_coex_h2c_tdma_type ?ops (coex_default_tdma ci)) d6 = (Inr (), d7)"
    "on_dev (on_bus n False z L) ?T d7"
    using keeps_no_fault [OF keeps_discard_all [OF keeps_coex_commands(2)] d6(2)] by (metis (full_types) unit.exhaust)
  show ?thesis
    using d1(1) d2(1) d3(1) d4(1) d5(1) d6(1) d7 assms(2)
    by (simp add: rtw88_coex_init_def deref_chip_def on_dev_def tryE_def [of "ret c" for c])
qed

lemma coex_init_locked_panics:
  fixes d :: "('c, 'z) hw_scheme rtw88_dev"
  assumes "on_bus n True z L (priv d)"
  shows "fst (rtw88_coex_init (rtw88_usb_hci_ops C) (Some ci) d) = Inl Panic"
  using assms by (simp add: rtw88_coex_init_def RTW88_DEV_LOCK_def on_priv_def RTW88_LOCK_def on_bus_def
      seqE_def tryE_def)

lemma keeps_lift: "keeps P F m \<Longrightarrow> keeps (on_dev P (\<lambda>_. True)) F (on_priv m)"
  by (rule keeps_on_priv) (simp_all add: priv_free_def)

text \<open>The bring-up before coexistence.\<close>

definition power_cycle :: "'c chip_ops \<Rightarrow> (('c, 'z) hw_scheme rtw88_dev, unit) cm" where
  "power_cycle C = tryE (on_priv (rtw88_mac_currently_on C)) (\<lambda>on.
     seqE (whenE on (on_priv (rtw88_mac_power_off C))) (on_priv (rtw88_mac_power_up_once C)))"

lemma keeps_power_cycle: "keeps (on_dev (on_bus n k z L) (\<lambda>_. True)) is_errno (power_cycle C)"
  unfolding power_cycle_def by (intro keeps_tryE keeps_seqE keeps_whenE keeps_lift keeps_intros)

lemma power_on_split:
  "rtw88_mac_power_on C ci = seqE (power_cycle C) (discard (rtw88_coex_init (rtw88_usb_hci_ops C) ci))"
  by (simp add: rtw88_mac_power_on_def power_cycle_def seqE_tryE seqE_assoc)

lemma power_on_run:
  assumes "on_bus n k z L (priv d)" "coex_cfg_init ci = None"
    and "rtw88_mac_power_on C (Some ci) d = (r, d')"
  shows "if k then r \<noteq> Inr () \<and> (\<forall>f. r = Inl f \<longrightarrow> is_errno f \<or> f = Panic)
    else on_bus n False z L (priv d') \<and> (case r of Inl f \<Rightarrow> is_errno f | Inr _ \<Rightarrow> cx_enabled (dev_coex d'))"
proof -
  have d: "on_dev (on_bus n k z L) (\<lambda>_. True) d" using assms(1) by (simp add: on_dev_def)
  obtain r1 d1 where p: "power_cycle C d = (r1, d1)" by fastforce
  from keepsD [OF keeps_power_cycle d p] have d1: "on_bus n k z L (priv d1)" "\<forall>e. r1 = Inl e \<longrightarrow> is_errno e"
    by (auto simp: on_dev_def)
  show ?thesis
  proof (cases r1)
    case (Inl e)
    with p d1 assms(3) show ?thesis by (auto simp: power_on_split)
  next
    case (Inr u)
    then have run: "discard (rtw88_coex_init (rtw88_usb_hci_ops C) (Some ci)) d1 = (r, d')"
      using p assms(3) by (simp add: power_on_split)
    show ?thesis
    proof (cases k)
      case True
      with d1(1) have "fst (rtw88_coex_init (rtw88_usb_hci_ops C) (Some ci) d1) = Inl Panic"
        by (intro coex_init_locked_panics) simp
      then obtain d2 where "rtw88_coex_init (rtw88_usb_hci_ops C) (Some ci) d1 = (Inl Panic, d2)"
        by (metis prod.collapse)
      with run True show ?thesis by auto
    next
      case False
      with d1(1) coex_init_recursive [OF _ assms(2), of n z L d1 C] run show ?thesis by auto
    qed
  qed
qed

text \<open>C29. Power sequences on the wire. For any terminated tables and any device, a run of the parser issues the requests of a
  run of the abstract table reader: the rows for USB in the order of the tables, each done (a write changes the bits of its mask
  only, a poll reads at most 20000 times and stops at the first hit) until all are done or the first one fails; it
  returns success, EIO, EBUSY or EINVAL accordingly, and nothing else of the softc changes.\<close>
theorem pwr_seq_refines:
  assumes "owner s" "\<forall>rows \<in> set tables. table_ends rows" "rtw88_pwr_seq_parser C tables s = (r, s')"
  shows "\<exists>t. grew s s' t \<and> pwr_run (flow_rows tables) t (outcome r)"
  unfolding flow_rows_def by (rule pwr_tables_wire [OF assms(1) _ assms(3)]) (use assms(2) in blast)

theorem pwr_seq_refines_witness:
  "fst (rtw88_pwr_seq_parser idle_ops [trans_cardemu_to_carddis_8821c] (on_bus_hw ())) = Inr () \<and>
   (\<exists>t. grew (on_bus_hw ()) (snd (rtw88_pwr_seq_parser idle_ops [trans_cardemu_to_carddis_8821c] (on_bus_hw ()))) t \<and>
     pwr_run (flow_rows [trans_cardemu_to_carddis_8821c]) t None)"
proof -
  have run: "fst (rtw88_pwr_seq_parser idle_ops [trans_cardemu_to_carddis_8821c] (on_bus_hw ())) = Inr ()" by code_simp
  have "owner (on_bus_hw ())" by (simp add: owner_def on_bus_hw_def)
  from pwr_seq_refines [OF this _ surjective_pairing, of "[trans_cardemu_to_carddis_8821c]" idle_ops] run
  show ?thesis by (simp add: flows_end [unfolded card_disable_flow_8821c_def])
qed

text \<open>C28. The MAC bring-up with the mutex held, as the firmware download calls it, for any device. On a kernel with INVARIANTS it
  never returns success: it fails in the power sequence or panics when coexistence takes the mutex again. On a kernel
  without INVARIANTS it neither panics nor sleeps for good, it returns with the mutex held exactly as before, and success means that
  coexistence has been set up.\<close>
theorem mac_power_on_outcome:
  assumes "on_bus n k z L (priv d)" "coex_cfg_init ci = None"
    and "rtw88_mac_power_on C (Some ci) d = (r, d')"
  shows "if k then r \<noteq> Inr () \<and> (\<forall>f. r = Inl f \<longrightarrow> is_errno f \<or> f = Panic)
    else on_bus n False z L (priv d') \<and> (case r of Inl f \<Rightarrow> is_errno f | Inr _ \<Rightarrow> cx_enabled (dev_coex d'))"
  by (rule power_on_run [OF assms])

theorem mac_power_on_outcome_witness:
  "fst (rtw88_mac_power_on idle_ops (Some rtw88_8821c_chip_info) (rtw88_dev_zero (on_bus_hw ()))) \<noteq> Inr ()"
proof -
  have "on_bus 0 True () [] (priv (rtw88_dev_zero (on_bus_hw ())))"
    by (simp add: on_bus_def on_bus_hw_def)
  from mac_power_on_outcome [OF this _ surjective_pairing, of rtw88_8821c_chip_info idle_ops]
  show ?thesis by (simp add: rtw88_8821c_chip_info_def)
qed

end
