(* ===== verification/Rtw_Softc.thy ===== *)
theory Rtw_Softc
  imports Rtw_Power
begin

section \<open>The softc of the USB front-end and the transmit staging buffer\<close>

text \<open>
  \<^verbatim>\<open>struct rtw88_usb_softc\<close> beyond the fields of the transport: what the firmware loader, the receive and
  transmit paths, the radio set-up, the link and the key and gain tasks of \<^verbatim>\<open>if_rtw88_usb.c\<close> keep in it. The
  fields have the names of the struct; those of one component are grouped in a record of their own, as the comments of the struct group them. \<open>bulk_log\<close>
  and \<open>sc_xfer_started\<close> are not fields of the struct: the first records the bulk-OUT transfers handed to the USB
  stack, in order, the second the calls of \<^verbatim>\<open>usbd_transfer_start\<close>. This theory also has what every sender
  shares: the checksum of a transmit descriptor and the synchronous transfer.
\<close>

datatype usb_error = USB_ERR_NORMAL_COMPLETION | USB_ERR_CANCELLED | USB_ERR_OTHER

text \<open>
  A packet (\<^verbatim>\<open>struct mbuf\<close> with its packet header): the address that identifies it, its bytes and the node it goes
  to (\<^verbatim>\<open>m_pkthdr.rcvif\<close>); packets are in one piece. A queue of packets has a bound.
\<close>

record mbuf =
  m_id :: nat
  m_data :: "u8 list"
  m_node :: "nat option"

record mbufq =
  mq_list :: "mbuf list"
  mq_maxlen :: nat

definition mbufq_enqueue :: "mbuf \<Rightarrow> mbufq \<Rightarrow> mbufq option" where
  "mbufq_enqueue m q = (if length (mq_list q) \<ge> mq_maxlen q then None else Some (q\<lparr>mq_list := mq_list q @ [m]\<rparr>))"

definition mbufq_dequeue :: "mbufq \<Rightarrow> (mbuf \<times> mbufq) option" where
  "mbufq_dequeue q = (case mq_list q of [] \<Rightarrow> None | m # ms \<Rightarrow> Some (m, q\<lparr>mq_list := ms\<rparr>))"

definition mbufq_drain :: "mbufq \<Rightarrow> mbufq" where
  "mbufq_drain q = q\<lparr>mq_list := []\<rparr>"

text \<open>What attach learns about the chip, and the channel it is on.\<close>

record phy_softc =
  sc_mac :: "u8 list"
  sc_crystal_cap :: u8
  sc_rfe_option :: u8
  sc_pkg_type :: u8
  sc_cut_version :: u8
  sc_rfe_btg :: bool
  sc_ch_param :: "u32 list"
  sc_cur_channel :: u8
  sc_cur_bw :: u8
  sc_cur_primary_ch_idx :: u8
  sc_tbl_blob :: "u8 list option"

record dig_softc =
  sc_dig_active :: bool
  sc_dig_scan_save :: u8
  sc_igi_log :: "u8 list"
  sc_fa_log :: "u16 list"
  sc_igi_trend_bits :: u8

record rx_softc =
  sc_avg_rssi :: u8
  sc_avg_rssi_valid :: bool
  sc_rx_packets :: u64
  sc_rx_frames :: u64
  sc_stat_rx_errors :: u64
  sc_stat_rx_drops :: u64
  sc_stat_rx_cck :: u64
  sc_stat_rx_ofdm :: u64
  sc_stat_rx_mcs :: u64
  sc_stat_c2h :: u64
  sc_stat_c2h_unknown :: u64
  sc_stat_tx_acked :: u64
  sc_stat_tx_xretries :: u64

record tx_softc =
  sc_ampdu :: bool
  sc_rate_id :: u8
  sc_tx_report_sn :: u8
  sc_tx_seq :: u16
  sc_eapol_qos_upgrade :: bool
  sc_stat_eapol_qos_upgrade :: u32
  sc_m1_bcn_refire :: bool
  sc_stat_m1_bcn_refire :: u32
  sc_ptk_install_pending :: bool
  sc_m4_needs_encap :: "nat option"
  sc_tx_pending_q :: mbufq
  sc_tx_mgmt_q :: mbufq
  sc_tx_data_q :: mbufq
  sc_tx_data_vo_q :: mbufq
  sc_tx_mgmt_inflight :: "mbuf option"
  sc_tx_data_inflight :: "mbuf option"
  sc_tx_data_vo_inflight :: "mbuf option"
  sc_stat_tx_packets :: u64
  sc_stat_tx_drops :: u64
  sc_stat_tx_data_qlen_max :: u32
  sc_stat_tx_mgmt_qlen_max :: u32
  sc_stat_tx_pending_qlen_max :: u32
  sc_xfer_started :: "nat list"

text \<open>A key operation that waits for the task, and the state the link tasks share.\<close>

datatype cam_op_kind = RTW88_CAM_OP_INSTALL | RTW88_CAM_OP_CLEAR

record rtw88_cam_op =
  cop_op :: cam_op_kind
  cop_slot :: u8
  cop_type :: u8
  cop_keyidx :: u8
  cop_group :: bool
  cop_peer :: "u8 list"
  cop_key :: "u8 list"
  cop_keylen :: u8

record link_softc =
  sc_post_state_ops :: u8
  sc_post_state_bssid :: "u8 list"
  sc_post_state_aid :: u16
  sc_post_state_ht :: bool
  sc_post_state_sgi :: bool
  sc_post_state_5ghz :: bool
  sc_linkup_skip :: u16
  sc_linkup_iqk :: bool
  sc_assoc_ticks :: "32 word"
  sc_fwka_active :: bool
  sc_ra_tighten_fired :: bool
  sc_ra_tighten_mask :: u32
  sc_last_rx_packets :: u64
  sc_fw_stall_ticks :: u8
  sc_fw_stall_logged :: bool
  sc_stat_fw_stalls :: u64
  sc_cam_q :: "rtw88_cam_op list"
  sc_stat_cam_fails :: u64

record 'c softc = "'c hw" +
  bulk_log :: "(nat \<times> u8 list) list"
  sc_fw :: "u8 list option"
  sc_tx_buf :: "u8 list"
  sc_tx_len :: u32
  sc_tx_pending :: bool
  sc_tx_done :: bool
  sc_tx_err :: usb_error
  sc_stat_tx_errors :: u64
  sc_phy :: phy_softc
  sc_dig :: dig_softc
  sc_rx :: rx_softc
  sc_tx :: tx_softc
  sc_link :: link_softc

abbreviation (input) RTW88_BULK_RX :: nat where "RTW88_BULK_RX \<equiv> 0"
abbreviation (input) RTW88_BULK_TX_HI :: nat where "RTW88_BULK_TX_HI \<equiv> 1"
abbreviation (input) RTW88_BULK_TX_NORMAL :: nat where "RTW88_BULK_TX_NORMAL \<equiv> 2"
abbreviation (input) RTW88_BULK_TX_LO :: nat where "RTW88_BULK_TX_LO \<equiv> 3"
abbreviation (input) RTW88_BULK_TX_H2C :: nat where "RTW88_BULK_TX_H2C \<equiv> 4"
abbreviation (input) RTW88_TX_BUFSZ :: nat where "RTW88_TX_BUFSZ \<equiv> 16384"
abbreviation (input) RTW88_RX_BUFSZ :: nat where "RTW88_RX_BUFSZ \<equiv> 32768"

subsection \<open>Transmit descriptors\<close>

text \<open>
  The 16-bit XOR over the first 32 bytes, stored at offset 28 of a descriptor whose bytes 28 and 29 are zero.
\<close>

definition txdesc_xor :: "u8 list \<Rightarrow> u16" where
  "txdesc_xor d = foldr (XOR) (map (\<lambda>i. le16dec d (i * 2)) [0..<16]) 0"

definition store16 :: "u8 list \<Rightarrow> nat \<Rightarrow> u16 \<Rightarrow> u8 list" where
  "store16 d off v = d[off := ucast v, off + 1 := ucast (drop_bit 8 v)]"

definition store32 :: "u8 list \<Rightarrow> nat \<Rightarrow> u32 \<Rightarrow> u8 list" where
  "store32 d off v = d[off := ucast v, off + 1 := ucast (drop_bit 8 v), off + 2 := ucast (drop_bit 16 v),
     off + 3 := ucast (drop_bit 24 v)]"

definition txdesc_seal :: "u8 list \<Rightarrow> u8 list" where
  "txdesc_seal d = store16 d 28 (txdesc_xor d)"

lemma length_store [simp]: "length (store16 d off h) = length d" "length (store32 d off v) = length d"
  by (simp_all add: store16_def store32_def)

lemma length_txdesc_seal [simp]: "length (txdesc_seal d) = length d"
  by (simp add: txdesc_seal_def)

lemma at_update: "at (d[i := v]) j = (if j = i \<and> i < length d then v else at d j)"
  by (simp add: at_def nth_list_update)

lemma le16dec_store16_other:
  "off + 1 < i \<or> i + 1 < off \<Longrightarrow> le16dec (store16 d off v) i = le16dec d i"
  by (auto simp: le16dec_def store16_def at_update)

lemma le16dec_store16: "off + 1 < length d \<Longrightarrow> le16dec (store16 d off v) off = v"
  by (simp add: le16dec_def store16_def at_update le16_enc)

lemma foldr_xor_append: "foldr (XOR) (xs @ ys) (0 :: u16) = foldr (XOR) xs 0 XOR foldr (XOR) ys 0"
  by (induction xs) (simp_all add: ac_simps)

lemma xor_word_14: "txdesc_xor d = le16dec d 28 XOR foldr (XOR) (map (\<lambda>i. le16dec d (i * 2)) ([0..<14] @ [15])) 0"
proof -
  have split: "[0..<16] = [0..<14] @ [14, 15 :: nat]" by (simp add: upt_conv_Cons)
  show ?thesis
    unfolding txdesc_xor_def split map_append foldr_xor_append
    by (simp add: ac_simps del: upt_rec_numeral)
qed

text \<open>A sealed descriptor has XOR zero: this is what the chip checks.\<close>

lemma txdesc_seal_zero:
  assumes "30 \<le> length d" "le16dec d 28 = 0"
  shows "txdesc_xor (txdesc_seal d) = 0"
proof -
  have "map (\<lambda>i. le16dec (txdesc_seal d) (i * 2)) ([0..<14] @ [15]) = map (\<lambda>i. le16dec d (i * 2)) ([0..<14] @ [15])"
    unfolding txdesc_seal_def by (rule map_cong [OF refl], rule le16dec_store16_other) auto
  moreover have "le16dec (txdesc_seal d) 28 = txdesc_xor d"
    unfolding txdesc_seal_def by (rule le16dec_store16) (use assms in simp)
  ultimately show ?thesis
    using assms(2) by (simp only: xor_word_14 [of "txdesc_seal d"]) (simp only: xor_word_14 [of d] xor_self_eq and_zero_eq xor.left_neutral)
qed

subsection \<open>The synchronous transfer\<close>

text \<open>
  \<^verbatim>\<open>rtw88_bulk_tx_sync\<close>, with no other frame in flight on its pipe (the interleavings with queued
  frames are in the theory of the bulk pipes): the callback copies the first \<^verbatim>\<open>sc_tx_len\<close> bytes of the
  staging buffer to the USB stack, and completes, fails, or is not called within the time of the wait.
\<close>

definition usbd_bulk :: "'c chip_ops \<Rightarrow> nat \<Rightarrow> u8 list \<Rightarrow> ('c softc, xfer_end) cm" where
  "usbd_bulk C pipe bytes = (\<lambda>s. let (e, c) = c_bulk C pipe bytes (chip s)
     in (Inr e, s\<lparr>chip := c, bulk_log := bulk_log s @ [(pipe, bytes)]\<rparr>))"

definition rtw88_bulk_tx_sync :: "'c chip_ops \<Rightarrow> nat \<Rightarrow> u8 list \<Rightarrow> ('c softc, unit) cm" where
  "rtw88_bulk_tx_sync C pipe data =
     seqE RTW88_ASSERT_LOCKED
     (if length data = 0 \<or> length data > RTW88_TX_BUFSZ then fail (Errno EINVAL)
      else if pipe < RTW88_BULK_TX_HI \<or> pipe > RTW88_BULK_TX_H2C then fail (Errno EINVAL)
      else
        seqE (updS (\<lambda>s. s\<lparr>sc_tx_buf := data @ drop (length data) (sc_tx_buf s), sc_tx_len := of_nat (length data),
                sc_tx_pending := True, sc_tx_done := False, sc_tx_err := USB_ERR_NORMAL_COMPLETION\<rparr>))
        (tryE (getS (\<lambda>s. take (unat (sc_tx_len s)) (sc_tx_buf s))) (\<lambda>bytes.
         tryE (usbd_bulk C pipe bytes) (\<lambda>e. case e of
           XferDone \<Rightarrow> updS (\<lambda>s. s\<lparr>sc_tx_err := USB_ERR_NORMAL_COMPLETION, sc_tx_pending := False, sc_tx_done := True\<rparr>)
         | XferError \<Rightarrow>
             seqE (updS (\<lambda>s. s\<lparr>sc_stat_tx_errors := sc_stat_tx_errors s + 1, sc_tx_err := USB_ERR_OTHER,
                     sc_tx_pending := False, sc_tx_done := True\<rparr>))
             (fail (Errno EIO))
         | XferSilent \<Rightarrow>
             seqE (updS (\<lambda>s. s\<lparr>sc_tx_pending := False\<rparr>)) (fail (Errno ETIMEDOUT))))))"

text \<open>The softc once attach has set up its queues (the kernel has zeroed the rest), held by a thread on the bus or free, on either kind of kernel.\<close>

definition phy_zero :: phy_softc where
  "phy_zero = \<lparr>sc_mac = replicate 6 0, sc_crystal_cap = 0, sc_rfe_option = 0, sc_pkg_type = 0, sc_cut_version = 0,
     sc_rfe_btg = False, sc_ch_param = [0, 0, 0], sc_cur_channel = 0, sc_cur_bw = 0, sc_cur_primary_ch_idx = 0,
     sc_tbl_blob = None\<rparr>"

definition dig_zero :: dig_softc where
  "dig_zero = \<lparr>sc_dig_active = False, sc_dig_scan_save = 0, sc_igi_log = [0, 0, 0, 0], sc_fa_log = [0, 0, 0, 0],
     sc_igi_trend_bits = 0\<rparr>"

definition rx_zero :: rx_softc where
  "rx_zero = \<lparr>sc_avg_rssi = 0, sc_avg_rssi_valid = False, sc_rx_packets = 0, sc_rx_frames = 0, sc_stat_rx_errors = 0,
     sc_stat_rx_drops = 0, sc_stat_rx_cck = 0, sc_stat_rx_ofdm = 0, sc_stat_rx_mcs = 0, sc_stat_c2h = 0,
     sc_stat_c2h_unknown = 0, sc_stat_tx_acked = 0, sc_stat_tx_xretries = 0\<rparr>"

definition mbufq_init :: "nat \<Rightarrow> mbufq" where
  "mbufq_init n = \<lparr>mq_list = [], mq_maxlen = n\<rparr>"

definition tx_zero :: tx_softc where
  "tx_zero = \<lparr>sc_ampdu = False, sc_rate_id = 0, sc_tx_report_sn = 0, sc_tx_seq = 0, sc_eapol_qos_upgrade = False,
     sc_stat_eapol_qos_upgrade = 0, sc_m1_bcn_refire = False, sc_stat_m1_bcn_refire = 0,
     sc_ptk_install_pending = False, sc_m4_needs_encap = None, sc_tx_pending_q = mbufq_init 16,
     sc_tx_mgmt_q = mbufq_init 64, sc_tx_data_q = mbufq_init 256, sc_tx_data_vo_q = mbufq_init 256,
     sc_tx_mgmt_inflight = None, sc_tx_data_inflight = None, sc_tx_data_vo_inflight = None,
     sc_stat_tx_packets = 0, sc_stat_tx_drops = 0, sc_stat_tx_data_qlen_max = 0, sc_stat_tx_mgmt_qlen_max = 0,
     sc_stat_tx_pending_qlen_max = 0, sc_xfer_started = []\<rparr>"

definition link_zero :: link_softc where
  "link_zero = \<lparr>sc_post_state_ops = 0, sc_post_state_bssid = replicate 6 0, sc_post_state_aid = 0, sc_post_state_ht = False,
     sc_post_state_sgi = False, sc_post_state_5ghz = False, sc_linkup_skip = 0, sc_linkup_iqk = False,
     sc_assoc_ticks = 0, sc_fwka_active = False, sc_ra_tighten_fired = False, sc_ra_tighten_mask = 0,
     sc_last_rx_packets = 0, sc_fw_stall_ticks = 0, sc_fw_stall_logged = False, sc_stat_fw_stalls = 0,
     sc_cam_q = [], sc_stat_cam_fails = 0\<rparr>"

definition softc_zero :: "'c \<Rightarrow> nat \<Rightarrow> bool \<Rightarrow> 'c softc" where
  "softc_zero c n k = \<lparr>chip = c, ep0_log = [], mtx_depth = n, invariants = k, sc_io_busy = False,
     sc_stat_usb_errors = 0, sc_write_trace = 0, sc_h2c_box_next = 0,
     bulk_log = [], sc_fw = None, sc_tx_buf = [], sc_tx_len = 0, sc_tx_pending = False,
     sc_tx_done = False, sc_tx_err = USB_ERR_NORMAL_COMPLETION, sc_stat_tx_errors = 0,
     sc_phy = phy_zero, sc_dig = dig_zero, sc_rx = rx_zero, sc_tx = tx_zero, sc_link = link_zero\<rparr>"

end
