(* ===== verification/Rtw_Fw.thy ===== *)
theory Rtw_Fw
  imports Rtw_Softc
begin

section \<open>Firmware download\<close>

text \<open>
  The loader of \<^verbatim>\<open>if_rtw88_usb.c\<close>: the image header, the preparation of the chip, one fragment through the beacon
  queue, the copy by the chip's DMA, one memory segment, and the download as a whole. The image is a list of bytes; a
  copy that would read past it is the fault \<open>Panic\<close>.
\<close>

subsection \<open>The image header\<close>

abbreviation (input) RTW88_FW_HDR_SIZE :: "'a::numeral" where "RTW88_FW_HDR_SIZE \<equiv> 64"

record rtw88_fw_hdr_summary =
  fw_signature :: u16
  fw_version :: u16
  fw_subversion :: u8
  fw_subindex :: u8
  fw_year :: u16
  fw_month :: u8
  fw_day :: u8
  fw_hour :: u8
  fw_min :: u8
  fw_mem_usage :: u8
  fw_h2c_fmt_ver :: u16
  fw_dmem_addr :: u32
  fw_dmem_size :: u32
  fw_imem_addr :: u32
  fw_imem_size :: u32
  fw_emem_addr :: u32
  fw_emem_size :: u32

definition rtw88_fw_hdr_decode :: "u8 list \<Rightarrow> rtw88_fw_hdr_summary" where
  "rtw88_fw_hdr_decode p = \<lparr>
     fw_signature = le16dec p 0x00, fw_version = le16dec p 0x04,
     fw_subversion = at p 0x06, fw_subindex = at p 0x07,
     fw_year = le16dec p 0x14, fw_month = at p 0x10, fw_day = at p 0x11, fw_hour = at p 0x12, fw_min = at p 0x13,
     fw_mem_usage = at p 0x18, fw_h2c_fmt_ver = le16dec p 0x1C,
     fw_dmem_addr = le32dec p 0x20, fw_dmem_size = le32dec p 0x24,
     fw_imem_addr = le32dec p 0x3C, fw_imem_size = le32dec p 0x30,
     fw_emem_addr = le32dec p 0x38, fw_emem_size = le32dec p 0x34\<rparr>"

text \<open>\<^verbatim>\<open>firmware_get\<close> answers with an image or nothing; \<open>sig\<close> is \<^verbatim>\<open>sc_chip->chip_id\<close>. What is refused is put back.\<close>

definition rtw88_fw_acquire :: "u8 list option \<Rightarrow> u16 \<Rightarrow> ('c softc, unit) cm" where
  "rtw88_fw_acquire fw sig = (case fw of
       None \<Rightarrow> fail (Errno ENOENT)
     | Some img \<Rightarrow>
         if length img < RTW88_FW_HDR_SIZE then fail (Errno EINVAL)
         else if fw_signature (rtw88_fw_hdr_decode img) \<noteq> sig then fail (Errno EINVAL)
         else updS (\<lambda>s. s\<lparr>sc_fw := Some img\<rparr>))"

definition rtw88_fw_release :: "'c softc \<Rightarrow> 'c softc" where
  "rtw88_fw_release s = s\<lparr>sc_fw := None\<rparr>"

subsection \<open>Preparing the chip\<close>

definition bcn_quiet :: "u8 \<Rightarrow> u8" where
  "bcn_quiet b = (b AND NOT BIT_EN_BCN_FUNCTION) OR BIT_DIS_TSF_UDT"

definition rtw88_dlfw_prep_chip :: "'c chip_ops \<Rightarrow> (('c, 'z) hw_scheme, unit) cm" where
  "rtw88_dlfw_prep_chip C =
     seqE (rtw88_usb_write1 C (REG_TXDMA_PQ_MAP + 1) (push_bit 6 RTW_DMA_MAPPING_HIGH))
     (seqE (rtw88_usb_write1 C REG_CR (BIT_HCI_TXDMA_EN OR BIT_TXDMA_EN))
     (seqE (rtw88_usb_write4 C REG_H2CQ_CSR BIT_H2CQ_FULL)
     (seqE (rtw88_usb_write2 C REG_FIFOPAGE_INFO_1 0x0200)
     (tryE (rtw88_usb_read4 C REG_RQPN_CTRL_2) (\<lambda>rqpn.
      seqE (rtw88_usb_write4 C REG_RQPN_CTRL_2 (rqpn OR BIT_LD_RQPN))
      (tryE (rtw88_usb_read1 C REG_BCN_CTRL) (\<lambda>b.
       rtw88_usb_write1 C REG_BCN_CTRL (bcn_quiet b))))))))"

definition rtw88_wcpu_enable :: "'c chip_ops \<Rightarrow> bool \<Rightarrow> (('c, 'z) hw_scheme, unit) cm" where
  "rtw88_wcpu_enable C enable =
     (if enable then
        seqE (rtw88_usb_setbits1 C (REG_RSV_CTRL + 1) (ucast (drop_bit 8 (BIT_WLMCU_IOIF :: u32))))
         (rtw88_usb_setbits1 C (REG_SYS_FUNC_EN + 1) (ucast (drop_bit 8 (BIT_FEN_CPUEN :: u32))))
      else
        seqE (rtw88_usb_clrbits1 C (REG_SYS_FUNC_EN + 1) (ucast (drop_bit 8 (BIT_FEN_CPUEN :: u32))))
         (rtw88_usb_clrbits1 C (REG_RSV_CTRL + 1) (ucast (drop_bit 8 (BIT_WLMCU_IOIF :: u32)))))"

definition rtw88_reset_platform :: "'c chip_ops \<Rightarrow> (('c, 'z) hw_scheme, unit) cm" where
  "rtw88_reset_platform C =
     seqE (rtw88_usb_clrbits1 C (REG_CPU_DMEM_CON + 2) (ucast (drop_bit 16 (BIT_WL_PLATFORM_RST :: u32))))
     (seqE (rtw88_usb_clrbits1 C (REG_SYS_CLK_CTRL + 1) (ucast (drop_bit 8 (BIT_CPU_CLK_EN :: u32))))
     (seqE (rtw88_usb_setbits1 C (REG_CPU_DMEM_CON + 2) (ucast (drop_bit 16 (BIT_WL_PLATFORM_RST :: u32))))
      (rtw88_usb_setbits1 C (REG_SYS_CLK_CTRL + 1) (ucast (drop_bit 8 (BIT_CPU_CLK_EN :: u32))))))"

subsection \<open>One fragment\<close>

text \<open>The first 32 bytes of the descriptor hold the only fields that are not zero.\<close>

definition fw_desc_fields :: "u32 \<Rightarrow> u8 list" where
  "fw_desc_fields sz =
     le32enc (push_bit RTW88_TXD_W0_TXPKTSIZE_S (sz AND 0xFFFF) OR
              push_bit RTW88_TXD_W0_OFFSET_S RTW88_TX_PKT_DESC_SZ OR RTW88_TXD_W0_LS) @
     le32enc (push_bit RTW88_TXD_W1_QSEL_S TX_DESC_QSEL_BEACON) @
     replicate 40 0"

definition fw_desc :: "u32 \<Rightarrow> u8 list" where
  "fw_desc sz = txdesc_seal (fw_desc_fields sz)"

definition rtw88_send_firmware_pkt ::
  "'c chip_ops \<Rightarrow> u16 \<Rightarrow> u32 \<Rightarrow> u8 list \<Rightarrow> nat \<Rightarrow> ('c softc, unit) cm" where
  "rtw88_send_firmware_pkt C pg_addr sz img p =
     (if sz = 0 \<or> unat sz > RTW88_TX_BUFSZ - RTW88_TX_PKT_DESC_SZ then fail (Errno EINVAL)
      else
        tryE (rtw88_usb_read1 C REG_BCN_CTRL) (\<lambda>b.
        seqE (rtw88_usb_write2 C REG_FIFOPAGE_CTRL_2 ((pg_addr AND BIT_MASK_BCN_HEAD_1_V1) OR BIT_BCN_VALID_V1))
        (seqE (rtw88_usb_setbits1 C (REG_CR + 1) (ucast (drop_bit 8 (BIT_ENSWBCN :: u32))))
        (seqE (rtw88_usb_write1 C REG_BCN_CTRL (bcn_quiet b))
        (if p + unat sz > length img then fail Panic
         else
           seqE (rtw88_bulk_tx_sync C RTW88_BULK_TX_HI (fw_desc sz @ take (unat sz) (drop p img)))
            (rtw88_check_hw_ready C REG_FIFOPAGE_CTRL_2 BIT_BCN_VALID_V1 BIT_BCN_VALID_V1))))))"

subsection \<open>The chip's DMA and the checksum of a segment\<close>

definition iddma_ctrl :: "u32 \<Rightarrow> bool \<Rightarrow> u32" where
  "iddma_ctrl len first =
     BIT_DDMACH0_CHKSUM_EN OR BIT_DDMACH0_OWN OR (len AND BIT_MASK_DDMACH0_DLEN) OR
     (if first then 0 else BIT_DDMACH0_CHKSUM_CONT)"

definition rtw88_iddma_chunk :: "'c chip_ops \<Rightarrow> u32 \<Rightarrow> u32 \<Rightarrow> u32 \<Rightarrow> bool \<Rightarrow> (('c, 'z) hw_scheme, unit) cm" where
  "rtw88_iddma_chunk C src dst len first =
     seqE (rtw88_check_hw_ready C REG_DDMA_CH0CTRL BIT_DDMACH0_OWN 0)
     (seqE (rtw88_usb_write4 C REG_DDMA_CH0SA src)
     (seqE (rtw88_usb_write4 C REG_DDMA_CH0DA dst)
     (seqE (rtw88_usb_write4 C REG_DDMA_CH0CTRL (iddma_ctrl len first))
      (rtw88_check_hw_ready C REG_DDMA_CH0CTRL BIT_DDMACH0_OWN 0))))"

definition ack_bits :: "u32 \<Rightarrow> bool \<Rightarrow> u8 \<Rightarrow> u8" where
  "ack_bits dst ok f =
     (if dst < 0x00200000 then
        (if ok then (f OR BIT_IMEM_DW_OK) OR BIT_IMEM_CHKSUM_OK else (f OR BIT_IMEM_DW_OK) AND NOT BIT_IMEM_CHKSUM_OK)
      else
        (if ok then (f OR BIT_DMEM_DW_OK) OR BIT_DMEM_CHKSUM_OK else (f OR BIT_DMEM_DW_OK) AND NOT BIT_DMEM_CHKSUM_OK))"

definition rtw88_segment_checksum_ack :: "'c chip_ops \<Rightarrow> u32 \<Rightarrow> (('c, 'z) hw_scheme, bool) cm" where
  "rtw88_segment_checksum_ack C dst_addr =
     tryE (attempt (rtw88_usb_read1 C REG_MCUFW_CTRL)) (\<lambda>r. case r of
       Inl _ \<Rightarrow> ret False
     | Inr fw_ctrl \<Rightarrow>
         tryE (attempt (rtw88_usb_read4 C REG_DDMA_CH0CTRL)) (\<lambda>r. case r of
           Inl _ \<Rightarrow> ret False
         | Inr ddma \<Rightarrow>
             let ok = (ddma AND BIT_DDMACH0_CHKSUM_STS = 0) in
             seqE (discard (rtw88_usb_write1 C REG_MCUFW_CTRL (ack_bits dst_addr ok fw_ctrl))) (ret ok)))"

subsection \<open>One segment\<close>

text \<open>\<open>p\<close> is the place of the segment's first byte in the image.\<close>

function fw_segment_loop ::
  "'c chip_ops \<Rightarrow> u32 \<Rightarrow> u8 list \<Rightarrow> nat \<Rightarrow> u32 \<Rightarrow> u32 \<Rightarrow> bool \<Rightarrow> ('c softc, unit) cm" where
  "fw_segment_loop C dst img p off remain first =
     (if remain = 0 then ret ()
      else
        let chunk = (if remain > 0x1000 then 0x1000 else remain) in
        seqE (rtw88_send_firmware_pkt C 0 chunk img (p + unat off))
        (seqE (rtw88_iddma_chunk C (OCPBASE_TXBUF_88XX + RTW88_TX_PKT_DESC_SZ) (dst + off) chunk first)
         (fw_segment_loop C dst img p (off + chunk) (remain - chunk) False)))"
  by pat_completeness auto

lemma fw_chunk_shrinks:
  "remain \<noteq> 0 \<Longrightarrow> unat (remain - (if remain > 0x1000 then 0x1000 else remain)) < unat (remain :: u32)"
  by (auto simp: unat_sub_if_size word_less_nat_alt unat_gt_0)

termination fw_segment_loop
  by (relation "measure (\<lambda>(C, dst, img, p, off, remain, first). unat remain)")
    (simp_all add: fw_chunk_shrinks del: if_split)

declare fw_segment_loop.simps [simp del]

definition rtw88_download_firmware_segment ::
  "'c chip_ops \<Rightarrow> u32 \<Rightarrow> u8 list \<Rightarrow> nat \<Rightarrow> u32 \<Rightarrow> ('c softc, unit) cm" where
  "rtw88_download_firmware_segment C dst img p sz =
     tryE (rtw88_usb_read4 C REG_DDMA_CH0CTRL) (\<lambda>v.
     seqE (rtw88_usb_write4 C REG_DDMA_CH0CTRL (v OR BIT_DDMACH0_RESET_CHKSUM_STS))
     (seqE (fw_segment_loop C dst img p 0 sz True)
     (tryE (rtw88_segment_checksum_ack C dst) (\<lambda>ok.
      if ok then ret () else fail (Errno EIO)))))"

subsection \<open>The download\<close>

definition fw_dmem_len :: "u8 list \<Rightarrow> u32" where
  "fw_dmem_len img = fw_dmem_size (rtw88_fw_hdr_decode img) + 8"

definition fw_imem_len :: "u8 list \<Rightarrow> u32" where
  "fw_imem_len img = fw_imem_size (rtw88_fw_hdr_decode img) + 8"

definition fw_emem_len :: "u8 list \<Rightarrow> u32" where
  "fw_emem_len img = (if fw_mem_usage (rtw88_fw_hdr_decode img) AND 0x10 \<noteq> 0
     then fw_emem_size (rtw88_fw_hdr_decode img) + 8 else 0)"

text \<open>The comparison is between 32-bit integers.\<close>

definition fw_size_ok :: "u8 list \<Rightarrow> bool" where
  "fw_size_ok img \<longleftrightarrow>
     RTW88_FW_HDR_SIZE + fw_dmem_len img + fw_imem_len img + fw_emem_len img = of_nat (length img)"

definition fw_segments :: "'c chip_ops \<Rightarrow> u8 list \<Rightarrow> ('c softc, unit) cm" where
  "fw_segments C img =
     (let h = rtw88_fw_hdr_decode img; top = NOT (push_bit 31 1);
          p1 = RTW88_FW_HDR_SIZE; p2 = p1 + unat (fw_dmem_len img); p3 = p2 + unat (fw_imem_len img) in
      seqE (rtw88_download_firmware_segment C (fw_dmem_addr h AND top) img p1 (fw_dmem_len img))
      (seqE (rtw88_download_firmware_segment C (fw_imem_addr h AND top) img p2 (fw_imem_len img))
       (whenE (fw_emem_len img > 0)
          (rtw88_download_firmware_segment C (fw_emem_addr h AND top) img p3 (fw_emem_len img)))))"

text \<open>The part that runs after the MAC is up, and the part that runs after the segments.\<close>

definition fw_open_window :: "'c chip_ops \<Rightarrow> (('c, 'z) hw_scheme, unit) cm" where
  "fw_open_window C =
     seqE (rtw88_wcpu_enable C False)
     (seqE (rtw88_dlfw_prep_chip C)
     (seqE (rtw88_reset_platform C)
     (tryE (rtw88_usb_read4 C REG_MCUFW_CTRL) (\<lambda>v.
      rtw88_usb_write2 C REG_MCUFW_CTRL (ucast ((v AND 0x3800) OR BIT_MCUFWDL_EN))))))"

definition fw_close_window :: "'c chip_ops \<Rightarrow> (('c, 'z) hw_scheme, unit) cm" where
  "fw_close_window C =
     seqE (discard (rtw88_usb_write4 C REG_TXDMA_STATUS BTI_PAGE_OVF))
     (tryE (rtw88_usb_read4 C REG_MCUFW_CTRL) (\<lambda>v.
      if v AND BIT_CHECK_SUM_OK \<noteq> BIT_CHECK_SUM_OK then fail (Errno EIO)
      else
        seqE (rtw88_usb_write2 C REG_MCUFW_CTRL (ucast (((v OR BIT_FW_DW_RDY) AND NOT BIT_MCUFWDL_EN) AND 0xFFFF)))
        (seqE (rtw88_wcpu_enable C True)
        (tryE (attempt (rtw88_check_hw_ready C REG_MCUFW_CTRL FW_READY_MASK FW_READY)) (\<lambda>r. case r of
           Inl e \<Rightarrow> seqE (discard (rtw88_usb_read4 C REG_MCUFW_CTRL)) (fail (Errno e))
         | Inr _ \<Rightarrow> ret ())))))"

definition rtw88_download_firmware ::
  "'c chip_ops \<Rightarrow> 'c softc chip_info option \<Rightarrow> ('c softc rtw88_dev, unit) cm" where
  "rtw88_download_firmware C ci =
     tryE (getS (\<lambda>d. sc_fw (priv d))) (\<lambda>fw. case fw of
       None \<Rightarrow> fail (Errno ENOENT)
     | Some img \<Rightarrow>
         if \<not> fw_size_ok img then fail (Errno EINVAL)
         else
           seqE (on_priv RTW88_LOCK)
           (tryE (attempt
              (seqE (rtw88_mac_power_on C ci)
              (seqE (on_priv (fw_open_window C))
              (seqE (on_priv (fw_segments C img))
               (on_priv (fw_close_window C))))))
            (\<lambda>r. seqE (on_priv RTW88_UNLOCK) (case r of Inl e \<Rightarrow> fail (Errno e) | Inr _ \<Rightarrow> ret ()))))"


subsection \<open>The loader keeps the bus discipline\<close>

lemma keeps_fw_regs [keeps_intros]:
  "keeps (on_bus n k z L) is_errno (rtw88_dlfw_prep_chip C)"
  "keeps (on_bus n k z L) is_errno (rtw88_reset_platform C)"
  "keeps (on_bus n k z L) is_errno (rtw88_iddma_chunk C src dst len first)"
  "keeps (on_bus n k z L) is_errno (rtw88_segment_checksum_ack C dst)"
  unfolding rtw88_dlfw_prep_chip_def rtw88_reset_platform_def rtw88_iddma_chunk_def rtw88_segment_checksum_ack_def
  by (intro keeps_intros)+

lemma keeps_wcpu [keeps_intros]: "keeps (on_bus n k z L) is_errno (rtw88_wcpu_enable C b)"
  unfolding rtw88_wcpu_enable_def by (intro keeps_intros)

lemma keeps_fw_window [keeps_intros]:
  "keeps (on_bus n k z L) is_errno (fw_open_window C)"
  "keeps (on_bus n k z L) is_errno (fw_close_window C)"
  unfolding fw_open_window_def fw_close_window_def by (intro keeps_intros is_errno_simps)+

text \<open>\<open>on_line n k s\<close>: the softc of a thread on the bus. A function of the transport keeps every field of the softc.\<close>

definition on_line :: "nat \<Rightarrow> bool \<Rightarrow> ('c, 'z) hw_scheme \<Rightarrow> bool" where
  "on_line n k s \<longleftrightarrow> mtx_depth s = Suc n \<and> \<not> sc_io_busy s \<and> invariants s = k"

lemma on_bus_line: "on_bus n k z L s \<Longrightarrow> on_line n k s"
  by (simp add: on_bus_def on_line_def)

lemma on_line_bus: "on_line n k s \<Longrightarrow> on_bus n k (hw.more s) (ep0_log s) s"
  by (simp add: on_bus_def on_line_def)

lemma quietD:
  assumes "\<And>z L. keeps (on_bus n k z L) is_errno m" "on_line n k s" "m s = (r, s')"
  shows "on_line n k s' \<and> hw.more s' = hw.more s \<and> (\<forall>e. r = Inl e \<longrightarrow> is_errno e)"
  using keepsD [OF assms(1) on_line_bus [OF assms(2)] assms(3)] by (auto simp: on_bus_def on_line_def)

lemma quiet_keeps: "(\<And>z L. keeps (on_bus n k z L) is_errno m) \<Longrightarrow> keeps (on_line n k) is_errno m"
  by (rule keepsI) (use quietD in blast)

text \<open>What the layers above the transport keep through a download.\<close>

abbreviation same_soft :: "'c softc \<Rightarrow> 'c softc \<Rightarrow> bool" where
  "same_soft s' s \<equiv> sc_fw s' = sc_fw s \<and> sc_tx s' = sc_tx s \<and> sc_link s' = sc_link s"

lemma same_more: "hw.more s' = hw.more s \<Longrightarrow> bulk_log s' = bulk_log s \<and> same_soft s' s" for s s' :: "'c softc"
  by (cases s; cases s') simp

lemma bulk_tx_sync_run:
  assumes "on_line n k s" "rtw88_bulk_tx_sync C pipe data s = (r, s')"
    and "data \<noteq> []" "length data \<le> RTW88_TX_BUFSZ" "1 \<le> pipe" "pipe \<le> 4"
  shows "on_line n k s' \<and> bulk_log s' = bulk_log s @ [(pipe, data)] \<and> same_soft s' s \<and>
    (\<forall>e. r = Inl e \<longrightarrow> is_errno e)"
proof -
  have len: "unat (of_nat (length data) :: u32) = length data" using assms(4) by (simp add: unat_of_nat)
  let ?s1 = "s\<lparr>sc_tx_buf := data @ drop (length data) (sc_tx_buf s), sc_tx_len := of_nat (length data),
    sc_tx_pending := True, sc_tx_done := False, sc_tx_err := USB_ERR_NORMAL_COMPLETION\<rparr>"
  obtain e c where e: "c_bulk C pipe data (chip s) = (e, c)" by fastforce
  from assms len e show ?thesis
    by (cases e) (auto simp: rtw88_bulk_tx_sync_def usbd_bulk_def on_line_def RTW88_ASSERT_LOCKED_def seqE_def tryE_def)
qed

subsection \<open>What a segment puts on the bulk pipe\<close>

fun fw_cut :: "u8 list \<Rightarrow> u8 list list" where
  "fw_cut bs = (if bs = [] then [] else take 4096 bs # fw_cut (drop 4096 bs))"

declare fw_cut.simps [simp del]

definition fw_packet :: "u8 list \<Rightarrow> nat \<times> u8 list" where
  "fw_packet chunk = (RTW88_BULK_TX_HI, fw_desc (of_nat (length chunk)) @ chunk)"

lemma concat_fw_cut: "concat (fw_cut bs) = bs"
  by (induction bs rule: fw_cut.induct) (subst fw_cut.simps, simp)

lemma fw_cut_bound: "c \<in> set (fw_cut bs) \<Longrightarrow> 0 < length c \<and> length c \<le> 4096"
proof (induction bs rule: fw_cut.induct)
  case (1 bs)
  then show ?case by (subst (asm) fw_cut.simps) (auto split: if_splits)
qed

lemma length_fw_desc [simp]: "length (fw_desc sz) = 48"
  by (simp add: fw_desc_def fw_desc_fields_def)

lemma fw_desc_not_empty [simp]: "fw_desc sz \<noteq> []"
  using length_fw_desc [of sz] by fastforce

lemma fw_desc_sealed: "txdesc_xor (fw_desc sz) = 0"
  unfolding fw_desc_def
  by (rule txdesc_seal_zero) (simp_all add: fw_desc_fields_def le16dec_def at_def nth_append le16_def)

lemma txdesc_xor_append: "32 \<le> length d \<Longrightarrow> txdesc_xor (d @ c) = txdesc_xor d"
  unfolding txdesc_xor_def
  by (rule arg_cong [where f = "\<lambda>xs. foldr (XOR) xs 0"], rule map_cong) (auto simp: le16dec_def)

lemma fw_packet_sealed: "txdesc_xor (snd (fw_packet c)) = 0"
  by (simp add: fw_packet_def txdesc_xor_append fw_desc_sealed)

lemma send_firmware_pkt_run:
  assumes "on_line n k s" "rtw88_send_firmware_pkt C pg sz img p s = (r, s')" "sz \<le> 0x1000" "0 < sz"
  shows "((r = Inl Panic \<and> length img < p + unat sz) \<or>
    (on_line n k s' \<and> same_soft s' s \<and> (\<forall>e. r = Inl e \<longrightarrow> is_errno e) \<and>
     (r = Inr () \<longrightarrow> p + unat sz \<le> length img \<and>
        bulk_log s' = bulk_log s @ [fw_packet (take (unat sz) (drop p img))]))) \<and>
    (bulk_log s' = bulk_log s \<or> p + unat sz \<le> length img \<and> bulk_log s' = bulk_log s @ [fw_packet (take (unat sz) (drop p img))])"
proof -
  have sz: "unat sz \<le> 4096" "sz \<noteq> 0" using assms(3,4) by (auto simp: word_le_nat_alt)
  let ?pre = "tryE (rtw88_usb_read1 C REG_BCN_CTRL) (\<lambda>b.
        seqE (rtw88_usb_write2 C REG_FIFOPAGE_CTRL_2 ((pg AND BIT_MASK_BCN_HEAD_1_V1) OR BIT_BCN_VALID_V1))
        (seqE (rtw88_usb_setbits1 C (REG_CR + 1) (ucast (drop_bit 8 (BIT_ENSWBCN :: u32))))
         (rtw88_usb_write1 C REG_BCN_CTRL (bcn_quiet b))))"
  let ?data = "fw_desc sz @ take (unat sz) (drop p img)"
  let ?post = "if p + unat sz > length img then fail Panic
         else seqE (rtw88_bulk_tx_sync C RTW88_BULK_TX_HI ?data)
            (rtw88_check_hw_ready C REG_FIFOPAGE_CTRL_2 BIT_BCN_VALID_V1 BIT_BCN_VALID_V1)"
  have split: "rtw88_send_firmware_pkt C pg sz img p = seqE ?pre ?post"
    using sz by (simp add: rtw88_send_firmware_pkt_def seqE_tryE seqE_assoc)
  obtain r1 s1 where pre: "?pre s = (r1, s1)" by fastforce
  have "keeps (on_bus n k z L) is_errno ?pre" for z L by (intro keeps_intros)
  from quietD [OF this assms(1) pre] have s1: "on_line n k s1" "bulk_log s1 = bulk_log s" "same_soft s1 s"
    "\<forall>e. r1 = Inl e \<longrightarrow> is_errno e" using same_more by blast+
  show ?thesis
  proof (cases r1)
    case (Inl e)
    with pre assms(2) s1 show ?thesis unfolding split by auto
  next
    case (Inr u)
    then have post: "?post s1 = (r, s')" using pre assms(2) unfolding split by (simp only: seqE_Inr)
    show ?thesis
    proof (cases "p + unat sz > length img")
      case True
      with post s1(2) show ?thesis by simp
    next
      case False
      have data: "?data \<noteq> []" "length ?data \<le> RTW88_TX_BUFSZ" using sz by auto
      obtain r2 s2 where bulk: "rtw88_bulk_tx_sync C RTW88_BULK_TX_HI ?data s1 = (r2, s2)" by fastforce
      from bulk_tx_sync_run [OF s1(1) bulk data] have s2: "on_line n k s2" "same_soft s2 s"
        "bulk_log s2 = bulk_log s @ [(RTW88_BULK_TX_HI, ?data)]" "\<forall>e. r2 = Inl e \<longrightarrow> is_errno e" using s1 by auto
      have pkt: "fw_packet (take (unat sz) (drop p img)) = (RTW88_BULK_TX_HI, ?data)"
        using False by (simp add: fw_packet_def)
      show ?thesis
      proof (cases r2)
        case (Inl e)
        with bulk post False s2 pkt show ?thesis by auto
      next
        case (Inr v)
        then have last: "rtw88_check_hw_ready C REG_FIFOPAGE_CTRL_2 BIT_BCN_VALID_V1 BIT_BCN_VALID_V1 s2 = (r, s')"
          using bulk post False by (simp only: if_False seqE_Inr)
        from quietD [OF keeps_check_hw_ready s2(1) last] same_more [of s' s2] s2 pkt False show ?thesis by auto
      qed
    qed
  qed
qed


lemma fw_cut_step:
  assumes "0 < n" "c = min n 4096" "xs \<noteq> []"
  shows "fw_cut (take n xs) = take c xs # fw_cut (take (n - c) (drop c xs))"
proof -
  have "take 4096 (take n xs) = take c xs" "drop 4096 (take n xs) = take (n - c) (drop c xs)"
    using assms by (auto simp: min_def drop_take)
  moreover have "take n xs \<noteq> []" using assms by auto
  ultimately show ?thesis by (subst fw_cut.simps) simp
qed

text \<open>What a run of the loop from offset \<open>off\<close> leaves, in terms of \<open>run_ok\<close>: the mutex held, the image kept, an error code if any.\<close>

definition run_ok :: "nat \<Rightarrow> bool \<Rightarrow> 'c softc \<Rightarrow> fault + unit \<Rightarrow> 'c softc \<Rightarrow> bool" where
  "run_ok n k s r s' \<longleftrightarrow> on_line n k s' \<and> same_soft s' s \<and> (\<forall>e. r = Inl e \<longrightarrow> is_errno e)"

lemma run_ok_trans: "run_ok n k s r1 s1 \<Longrightarrow> run_ok n k s1 r s' \<Longrightarrow> run_ok n k s r s'"
  by (simp add: run_ok_def)

lemma quiet_run:
  assumes "\<And>z L. keeps (on_bus n k z L) is_errno m" "on_line n k s" "m s = (r, s')"
  shows "run_ok n k s (case r of Inl e \<Rightarrow> Inl e | Inr _ \<Rightarrow> Inr ()) s' \<and> bulk_log s' = bulk_log s"
  using quietD [OF assms] same_more [of s' s] by (auto simp: run_ok_def split: sum.splits)

definition fw_delivered :: "u8 list \<Rightarrow> nat \<Rightarrow> nat \<Rightarrow> 'c softc \<Rightarrow> 'c softc \<Rightarrow> bool" where
  "fw_delivered img p len s s' \<longleftrightarrow> (0 < len \<longrightarrow> p + len \<le> length img) \<and>
     bulk_log s' = bulk_log s @ map fw_packet (fw_cut (take len (drop p img)))"

lemma fw_segment_loop_run:
  assumes "on_line n k s" "fw_segment_loop C dst img p off remain first s = (r, s')"
    and "unat off + unat remain < 2 ^ 32"
  shows "(r = Inl Panic \<and> length img < p + unat off + unat remain) \<or>
    (run_ok n k s r s' \<and> (r = Inr () \<longrightarrow> fw_delivered img (p + unat off) (unat remain) s s'))"
  using assms
proof (induction C dst img p off remain first arbitrary: s rule: fw_segment_loop.induct)
  case (1 C dst img p off remain first)
  show ?case
  proof (cases "remain = 0")
    case True
    with 1 show ?thesis
      by (subst (asm) fw_segment_loop.simps) (auto simp: run_ok_def fw_delivered_def fw_cut.simps)
  next
    case False
    define chunk where "chunk = (if remain > 0x1000 then 0x1000 else remain)"
    have c: "unat chunk = min (unat remain) 4096" "chunk \<le> 0x1000" "0 < chunk" "chunk \<le> remain"
      using False by (auto simp: chunk_def word_le_nat_alt word_less_nat_alt unat_gt_0)
    have off: "unat (off + chunk) = unat off + unat chunk"
      using c(1) "1.prems"(3) by (subst unat_add_lem [THEN iffD1]) auto
    have rest: "unat (remain - chunk) = unat remain - unat chunk" using c(4) by (rule unat_sub)
    let ?rec = "fw_segment_loop C dst img p (off + chunk) (remain - chunk) False"
    have eq: "fw_segment_loop C dst img p off remain first =
        seqE (rtw88_send_firmware_pkt C 0 chunk img (p + unat off))
        (seqE (rtw88_iddma_chunk C (OCPBASE_TXBUF_88XX + RTW88_TX_PKT_DESC_SZ) (dst + off) chunk first) ?rec)"
      using False by (subst fw_segment_loop.simps) (simp add: chunk_def)
    obtain r1 s1 where send: "rtw88_send_firmware_pkt C 0 chunk img (p + unat off) s = (r1, s1)" by fastforce
    note s1 = send_firmware_pkt_run [OF "1.prems"(1) send c(2,3), THEN conjunct1]
    show ?thesis
    proof (cases r1)
      case (Inl e)
      with send "1.prems"(2) s1 c(1) show ?thesis unfolding eq run_ok_def by auto
    next
      case (Inr u)
      with s1 have s1: "run_ok n k s (Inr ()) s1" "p + unat off + unat chunk \<le> length img"
        "bulk_log s1 = bulk_log s @ [fw_packet (take (unat chunk) (drop (p + unat off) img))]"
        by (auto simp: run_ok_def)
      then have line1: "on_line n k s1" by (simp add: run_ok_def)
      obtain r2 s2 where dma: "rtw88_iddma_chunk C (OCPBASE_TXBUF_88XX + RTW88_TX_PKT_DESC_SZ) (dst + off) chunk first s1
          = (r2, s2)" by fastforce
      from quiet_run [OF keeps_fw_regs(3) line1 dma]
      have s2: "run_ok n k s1 r2 s2" "bulk_log s2 = bulk_log s1" by (auto split: sum.splits)
      show ?thesis
      proof (cases r2)
        case (Inl e)
        with send dma Inr "1.prems"(2) run_ok_trans [OF s1(1) s2(1)] show ?thesis unfolding eq by auto
      next
        case ok: (Inr v)
        with send dma Inr "1.prems"(2) have rec: "?rec s2 = (r, s')" unfolding eq by simp
        from s2(1) have "on_line n k s2" by (simp add: run_ok_def)
        from "1.IH" [OF False chunk_def this rec] "1.prems"(3) c(1)
        have ih: "(r = Inl Panic \<and> length img < p + unat (off + chunk) + unat (remain - chunk)) \<or>
          (run_ok n k s2 r s' \<and> (r = Inr () \<longrightarrow>
             fw_delivered img (p + unat (off + chunk)) (unat (remain - chunk)) s2 s'))"
          unfolding off rest by simp
        have "fw_delivered img (p + unat off) (unat remain) s s'"
          if "fw_delivered img (p + unat (off + chunk)) (unat (remain - chunk)) s2 s'"
        proof -
          from that s1(2) c(1) have len: "unat remain \<le> length (drop (p + unat off) img)"
            unfolding fw_delivered_def off rest by (auto simp: min_def split: if_splits)
          have whole: "p + unat off + unat remain \<le> length img" using len s1(2) by simp
          have pos: "0 < unat remain" using False by (simp add: unat_gt_0)
          then have "drop (p + unat off) img \<noteq> []" using len by auto
          from fw_cut_step [OF pos c(1) this] that s1(3) s2(2) whole
          show ?thesis unfolding fw_delivered_def off rest by (simp add: ac_simps)
        qed
        with ih run_ok_trans [OF s1(1)] run_ok_trans [OF s2(1)] show ?thesis
          unfolding off rest using c(1) by auto
      qed
    qed
  qed
qed


text \<open>\<open>sent_part cs s s'\<close>: from \<open>s\<close> to \<open>s'\<close> the packets of the first chunks of \<open>cs\<close> have been sent, in order, and nothing else.\<close>

definition sent_part :: "u8 list list \<Rightarrow> 'c softc \<Rightarrow> 'c softc \<Rightarrow> bool" where
  "sent_part cs s s' \<longleftrightarrow> (\<exists>as bs. cs = as @ bs \<and> bulk_log s' = bulk_log s @ map fw_packet as)"

lemma sent_none: "bulk_log s' = bulk_log s \<Longrightarrow> sent_part cs s s'"
  by (simp add: sent_part_def)

lemma sent_then: "bulk_log s1 = bulk_log s @ map fw_packet as \<Longrightarrow> sent_part bs s1 s' \<Longrightarrow> sent_part (as @ bs) s s'"
  unfolding sent_part_def by (metis append.assoc map_append)

lemma sent_first: "sent_part as s s' \<Longrightarrow> sent_part (as @ bs) s s'"
  unfolding sent_part_def by (metis append.assoc)

lemma sent_quiet: "sent_part cs s1 s' \<Longrightarrow> bulk_log s1 = bulk_log s \<Longrightarrow> sent_part cs s s'"
  "sent_part cs s s1 \<Longrightarrow> bulk_log s' = bulk_log s1 \<Longrightarrow> sent_part cs s s'"
  by (auto simp: sent_part_def)

lemma fw_segment_loop_sent:
  assumes "on_line n k s" "fw_segment_loop C dst img p off remain first s = (r, s')"
    and "unat off + unat remain < 2 ^ 32"
  shows "sent_part (fw_cut (take (unat remain) (drop (p + unat off) img))) s s'"
  using assms
proof (induction C dst img p off remain first arbitrary: s rule: fw_segment_loop.induct)
  case (1 C dst img p off remain first)
  show ?case
  proof (cases "remain = 0")
    case True
    with 1 show ?thesis by (subst (asm) fw_segment_loop.simps) (simp add: sent_none)
  next
    case False
    define chunk where "chunk = (if remain > 0x1000 then 0x1000 else remain)"
    have c: "unat chunk = min (unat remain) 4096" "chunk \<le> 0x1000" "0 < chunk" "chunk \<le> remain"
      using False by (auto simp: chunk_def word_le_nat_alt word_less_nat_alt unat_gt_0)
    have off: "unat (off + chunk) = unat off + unat chunk"
      using c(1) "1.prems"(3) by (subst unat_add_lem [THEN iffD1]) auto
    have rest: "unat (remain - chunk) = unat remain - unat chunk" using c(4) by (rule unat_sub)
    let ?xs = "drop (p + unat off) img"
    let ?tail = "fw_cut (take (unat (remain - chunk)) (drop (p + unat (off + chunk)) img))"
    have cut: "fw_cut (take (unat remain) ?xs) = [take (unat chunk) ?xs] @ ?tail" if "p + unat off + unat chunk \<le> length img"
    proof -
      have "0 < unat chunk" using c(3) by (simp add: word_less_nat_alt)
      then have "0 < unat remain" "?xs \<noteq> []" using c(1) that by auto
      from fw_cut_step [OF this(1) c(1) this(2)] show ?thesis unfolding off rest by (simp add: ac_simps)
    qed
    let ?dma = "rtw88_iddma_chunk C (OCPBASE_TXBUF_88XX + RTW88_TX_PKT_DESC_SZ) (dst + off) chunk first"
    let ?rec = "fw_segment_loop C dst img p (off + chunk) (remain - chunk) False"
    have eq: "fw_segment_loop C dst img p off remain first =
        seqE (rtw88_send_firmware_pkt C 0 chunk img (p + unat off)) (seqE ?dma ?rec)"
      using False by (subst fw_segment_loop.simps) (simp add: chunk_def)
    obtain r1 s1 where send: "rtw88_send_firmware_pkt C 0 chunk img (p + unat off) s = (r1, s1)" by fastforce
    note s1 = send_firmware_pkt_run [OF "1.prems"(1) send c(2,3)]
    show ?thesis
    proof (cases r1)
      case (Inl e)
      with send "1.prems"(2) have s': "s1 = s'" unfolding eq by simp
      from s1 have "bulk_log s' = bulk_log s \<or> p + unat off + unat chunk \<le> length img \<and>
          bulk_log s' = bulk_log s @ map fw_packet [take (unat chunk) ?xs]" unfolding s' by simp
      then show ?thesis
      proof
        assume "p + unat off + unat chunk \<le> length img \<and> bulk_log s' = bulk_log s @ map fw_packet [take (unat chunk) ?xs]"
        then have fits: "p + unat off + unat chunk \<le> length img" and "bulk_log s' = bulk_log s @ map fw_packet [take (unat chunk) ?xs]"
          by blast+
        from sent_then [OF this(2) sent_none [OF refl]] show ?thesis unfolding cut [OF fits] .
      qed (rule sent_none)
    next
      case (Inr u)
      with s1 have s1: "on_line n k s1" "p + unat off + unat chunk \<le> length img"
        "bulk_log s1 = bulk_log s @ map fw_packet [take (unat chunk) ?xs]" by auto
      obtain r2 s2 where dma: "?dma s1 = (r2, s2)" by fastforce
      from quiet_run [OF keeps_fw_regs(3) s1(1) dma]
      have s2: "run_ok n k s1 (case r2 of Inl e \<Rightarrow> Inl e | Inr _ \<Rightarrow> Inr ()) s2" "bulk_log s2 = bulk_log s1" by auto
      have tail: "sent_part ?tail s1 s'"
      proof (cases r2)
        case (Inl e)
        with send dma Inr "1.prems"(2) s2(2) show ?thesis unfolding eq by (simp add: sent_none)
      next
        case ok: (Inr v)
        with send dma Inr "1.prems"(2) have rec: "?rec s2 = (r, s')" unfolding eq by simp
        from s2(1) have "on_line n k s2" by (simp add: run_ok_def)
        from "1.IH" [OF False chunk_def this rec] "1.prems"(3) c(1)
        have "sent_part ?tail s2 s'" unfolding off rest by simp
        with s2(2) show ?thesis by (rule sent_quiet(1) [rotated])
      qed
      from sent_then [OF s1(3) tail] show ?thesis unfolding cut [OF s1(2)] .
    qed
  qed
qed

lemma segment_run:
  assumes "on_line n k s" "rtw88_download_firmware_segment C dst img p sz s = (r, s')"
  shows "(r = Inl Panic \<and> length img < p + unat sz) \<or>
    (run_ok n k s r s' \<and> (r = Inr () \<longrightarrow> fw_delivered img p (unat sz) s s'))"
proof -
  let ?arm = "tryE (rtw88_usb_read4 C REG_DDMA_CH0CTRL) (\<lambda>v.
     rtw88_usb_write4 C REG_DDMA_CH0CTRL (v OR BIT_DDMACH0_RESET_CHKSUM_STS))"
  let ?ack = "tryE (rtw88_segment_checksum_ack C dst) (\<lambda>ok. if ok then ret () else fail (Errno EIO))"
  have eq: "rtw88_download_firmware_segment C dst img p sz = seqE ?arm (seqE (fw_segment_loop C dst img p 0 sz True) ?ack)"
    by (simp add: rtw88_download_firmware_segment_def seqE_tryE)
  obtain r1 s1 where arm: "?arm s = (r1, s1)" by fastforce
  have "keeps (on_bus n k z L) is_errno ?arm" for z L by (intro keeps_intros)
  from quiet_run [OF this assms(1) arm] have s1: "run_ok n k s r1 s1" "bulk_log s1 = bulk_log s"
    by (auto split: sum.splits)
  show ?thesis
  proof (cases r1)
    case (Inl e)
    with arm assms(2) s1 show ?thesis unfolding eq by auto
  next
    case (Inr u)
    obtain r2 s2 where loop: "fw_segment_loop C dst img p 0 sz True s1 = (r2, s2)" by fastforce
    from s1(1) have "on_line n k s1" by (simp add: run_ok_def)
    from fw_segment_loop_run [OF this loop]
    have s2: "(r2 = Inl Panic \<and> length img < p + unat sz) \<or>
      (run_ok n k s1 r2 s2 \<and> (r2 = Inr () \<longrightarrow> fw_delivered img p (unat sz) s1 s2))"
      using unsigned_less [of sz] by simp
    show ?thesis
    proof (cases r2)
      case (Inl e)
      with arm loop Inr assms(2) s2 run_ok_trans [OF s1(1)] show ?thesis unfolding eq by auto
    next
      case ok: (Inr v)
      with s2 have s2: "run_ok n k s1 (Inr ()) s2" "fw_delivered img p (unat sz) s1 s2" by auto
      from arm loop Inr ok assms(2) have ack: "?ack s2 = (r, s')" unfolding eq by simp
      from s2(1) have "on_line n k s2" by (simp add: run_ok_def)
      moreover have "keeps (on_bus n k z L) is_errno ?ack" for z L by (intro keeps_intros is_errno_simps)
      ultimately have "run_ok n k s2 r s' \<and> bulk_log s' = bulk_log s2"
        using quiet_run [of n k ?ack s2 r s'] ack by (auto split: sum.splits)
      with s1 s2 show ?thesis by (auto simp: run_ok_def fw_delivered_def)
    qed
  qed
qed

lemma segment_sent:
  assumes "on_line n k s" "rtw88_download_firmware_segment C dst img p sz s = (r, s')"
  shows "sent_part (fw_cut (take (unat sz) (drop p img))) s s'"
proof -
  let ?arm = "tryE (rtw88_usb_read4 C REG_DDMA_CH0CTRL) (\<lambda>v.
     rtw88_usb_write4 C REG_DDMA_CH0CTRL (v OR BIT_DDMACH0_RESET_CHKSUM_STS))"
  let ?ack = "tryE (rtw88_segment_checksum_ack C dst) (\<lambda>ok. if ok then ret () else fail (Errno EIO))"
  have eq: "rtw88_download_firmware_segment C dst img p sz = seqE ?arm (seqE (fw_segment_loop C dst img p 0 sz True) ?ack)"
    by (simp add: rtw88_download_firmware_segment_def seqE_tryE)
  obtain r1 s1 where arm: "?arm s = (r1, s1)" by fastforce
  have "keeps (on_bus n k z L) is_errno ?arm" for z L by (intro keeps_intros)
  from quiet_run [OF this assms(1) arm] have s1: "on_line n k s1" "bulk_log s1 = bulk_log s"
    by (auto simp: run_ok_def split: sum.splits)
  show ?thesis
  proof (cases r1)
    case (Inl e)
    with arm assms(2) s1 show ?thesis unfolding eq by (simp add: sent_none)
  next
    case (Inr u)
    obtain r2 s2 where loop: "fw_segment_loop C dst img p 0 sz True s1 = (r2, s2)" by fastforce
    have sent: "sent_part (fw_cut (take (unat sz) (drop p img))) s s2"
      using fw_segment_loop_sent [OF s1(1) loop] s1(2) unsigned_less [of sz] by (auto intro: sent_quiet)
    show ?thesis
    proof (cases r2)
      case (Inl e)
      with arm loop Inr assms(2) sent show ?thesis unfolding eq by simp
    next
      case ok: (Inr v)
      from fw_segment_loop_run [OF s1(1) loop] ok unsigned_less [of sz] have "on_line n k s2" by (auto simp: run_ok_def)
      moreover from arm loop Inr ok assms(2) have ack: "?ack s2 = (r, s')" unfolding eq by simp
      moreover have "keeps (on_bus n k z L) is_errno ?ack" for z L by (intro keeps_intros is_errno_simps)
      ultimately have "bulk_log s' = bulk_log s2" using quiet_run [of n k ?ack s2 r s'] by blast
      with sent show ?thesis by (rule sent_quiet(2))
    qed
  qed
qed

text \<open>The image body cut where the header says.\<close>

definition fw_body_len :: "u8 list \<Rightarrow> nat" where
  "fw_body_len img = unat (fw_dmem_len img) + unat (fw_imem_len img) + unat (fw_emem_len img)"

definition fw_parts :: "u8 list \<Rightarrow> u8 list list" where
  "fw_parts img =
     (let body = drop 64 img; d = unat (fw_dmem_len img); i = unat (fw_imem_len img)
      in fw_cut (take d body) @ fw_cut (take i (drop d body)) @
         fw_cut (take (unat (fw_emem_len img)) (drop (d + i) body)))"

lemma segments_run:
  assumes "on_line n k s" "fw_segments C img s = (r, s')" "64 \<le> length img"
  shows "(r = Inl Panic \<and> length img < 64 + fw_body_len img) \<or>
    (run_ok n k s r s' \<and> (r = Inr () \<longrightarrow> 64 + fw_body_len img \<le> length img \<and>
       bulk_log s' = bulk_log s @ map fw_packet (fw_parts img)))"
proof -
  let ?h = "rtw88_fw_hdr_decode img" and ?top = "NOT (push_bit 31 1) :: u32"
  let ?d = "unat (fw_dmem_len img)" and ?i = "unat (fw_imem_len img)" and ?e = "unat (fw_emem_len img)"
  let ?D = "rtw88_download_firmware_segment C (fw_dmem_addr ?h AND ?top) img 64 (fw_dmem_len img)"
  let ?I = "rtw88_download_firmware_segment C (fw_imem_addr ?h AND ?top) img (64 + ?d) (fw_imem_len img)"
  let ?E = "whenE (fw_emem_len img > 0)
    (rtw88_download_firmware_segment C (fw_emem_addr ?h AND ?top) img (64 + ?d + ?i) (fw_emem_len img))"
  have eq: "fw_segments C img = seqE ?D (seqE ?I ?E)" by (simp add: fw_segments_def Let_def)
  obtain r1 s1 where D: "?D s = (r1, s1)" by fastforce
  from segment_run [OF assms(1) D] consider (oob) "r1 = Inl Panic" "length img < 64 + ?d"
    | (err) f where "r1 = Inl f" "run_ok n k s r1 s1"
    | (ok) "r1 = Inr ()" "run_ok n k s r1 s1" "fw_delivered img 64 ?d s s1" by (cases r1) auto
  then show ?thesis
  proof cases
    case oob
    with D assms(2) show ?thesis unfolding eq by (auto simp: fw_body_len_def)
  next
    case err
    with D assms(2) show ?thesis unfolding eq by auto
  next
    case ok
    obtain r2 s2 where I: "?I s1 = (r2, s2)" by fastforce
    from ok(2) have "on_line n k s1" by (simp add: run_ok_def)
    from segment_run [OF this I] consider (oob) "r2 = Inl Panic" "length img < 64 + ?d + ?i"
      | (err) f where "r2 = Inl f" "run_ok n k s1 r2 s2"
      | (ok2) "r2 = Inr ()" "run_ok n k s1 r2 s2" "fw_delivered img (64 + ?d) ?i s1 s2" by (cases r2) auto
    then show ?thesis
    proof cases
      case oob
      with D I ok(1) assms(2) show ?thesis unfolding eq by (auto simp: fw_body_len_def)
    next
      case err
      with D I ok(1) assms(2) run_ok_trans [of n k s "Inr ()" s1 r2 s2] ok(2) show ?thesis
        unfolding eq by (auto simp: run_ok_def)
    next
      case ok2
      with D I ok(1) assms(2) have E: "?E s2 = (r, s')" unfolding eq by simp
      from ok2(2) have line2: "on_line n k s2" by (simp add: run_ok_def)
      have last: "(r = Inl Panic \<and> length img < 64 + ?d + ?i + ?e) \<or>
        (run_ok n k s2 r s' \<and> (r = Inr () \<longrightarrow> fw_delivered img (64 + ?d + ?i) ?e s2 s'))"
      proof (cases "fw_emem_len img > 0")
        case True
        with E segment_run [OF line2] show ?thesis by (simp add: whenE_def)
      next
        case False
        with E line2 show ?thesis
          by (auto simp: whenE_def run_ok_def fw_delivered_def fw_cut.simps word_gt_0)
      qed
      have "64 + fw_body_len img \<le> length img \<and> bulk_log s' = bulk_log s @ map fw_packet (fw_parts img)"
        if "fw_delivered img (64 + ?d + ?i) ?e s2 s'"
        using that ok(3) ok2(3) assms(3)
        by (auto simp: fw_delivered_def fw_body_len_def fw_parts_def Let_def ac_simps)
      with last ok ok2 show ?thesis by (auto simp: run_ok_def fw_body_len_def)
    qed
  qed
qed

lemma segments_sent:
  assumes "on_line n k s" "fw_segments C img s = (r, s')" "64 \<le> length img"
  shows "sent_part (fw_parts img) s s'"
proof -
  let ?h = "rtw88_fw_hdr_decode img" and ?top = "NOT (push_bit 31 1) :: u32"
  let ?d = "unat (fw_dmem_len img)" and ?i = "unat (fw_imem_len img)" and ?e = "unat (fw_emem_len img)"
  let ?D = "rtw88_download_firmware_segment C (fw_dmem_addr ?h AND ?top) img 64 (fw_dmem_len img)"
  let ?I = "rtw88_download_firmware_segment C (fw_imem_addr ?h AND ?top) img (64 + ?d) (fw_imem_len img)"
  let ?E = "whenE (fw_emem_len img > 0)
    (rtw88_download_firmware_segment C (fw_emem_addr ?h AND ?top) img (64 + ?d + ?i) (fw_emem_len img))"
  have eq: "fw_segments C img = seqE ?D (seqE ?I ?E)" by (simp add: fw_segments_def Let_def)
  have parts: "fw_parts img = fw_cut (take ?d (drop 64 img)) @ fw_cut (take ?i (drop (64 + ?d) img)) @
      fw_cut (take ?e (drop (64 + ?d + ?i) img))"
    by (simp add: fw_parts_def Let_def ac_simps)
  obtain r1 s1 where D: "?D s = (r1, s1)" by fastforce
  show ?thesis
  proof (cases r1)
    case (Inl e)
    with D assms(2) segment_sent [OF assms(1) D] show ?thesis unfolding eq parts by (auto intro: sent_first)
  next
    case (Inr u)
    with segment_run [OF assms(1) D] have 1: "on_line n k s1" "bulk_log s1 = bulk_log s @ map fw_packet (fw_cut (take ?d (drop 64 img)))"
      by (auto simp: run_ok_def fw_delivered_def)
    obtain r2 s2 where I: "?I s1 = (r2, s2)" by fastforce
    have "sent_part (fw_cut (take ?i (drop (64 + ?d) img)) @ fw_cut (take ?e (drop (64 + ?d + ?i) img))) s1 s'"
    proof (cases r2)
      case (Inl e)
      with D I Inr assms(2) segment_sent [OF 1(1) I] show ?thesis unfolding eq by (auto intro: sent_first)
    next
      case ok: (Inr v)
      with segment_run [OF 1(1) I] have 2: "on_line n k s2" "bulk_log s2 = bulk_log s1 @ map fw_packet (fw_cut (take ?i (drop (64 + ?d) img)))"
        by (auto simp: run_ok_def fw_delivered_def)
      from D I Inr ok assms(2) have E: "?E s2 = (r, s')" unfolding eq by simp
      have "sent_part (fw_cut (take ?e (drop (64 + ?d + ?i) img))) s2 s'"
        using E segment_sent [OF 2(1)] by (auto simp: whenE_def intro: sent_none split: if_splits)
      with 2(2) show ?thesis by (rule sent_then)
    qed
    with 1(2) show ?thesis unfolding parts by (rule sent_then)
  qed
qed

lemma concat_fw_parts:
  assumes "length img = 64 + fw_body_len img"
  shows "concat (fw_parts img) = drop 64 img"
proof -
  let ?d = "unat (fw_dmem_len img)" and ?i = "unat (fw_imem_len img)" and ?b = "drop 64 img"
  have "take (unat (fw_emem_len img)) (drop (?d + ?i) ?b) = drop (?d + ?i) ?b"
    using assms by (simp add: fw_body_len_def)
  moreover have "drop (?d + ?i) ?b = drop ?i (drop ?d ?b)" by (simp add: ac_simps)
  ultimately show ?thesis
    unfolding fw_parts_def Let_def concat_append concat_fw_cut by (metis append_take_drop_id)
qed

text \<open>The 32-bit check and a body inside the file give the exact sum.\<close>

lemma fw_size_exact:
  assumes "fw_size_ok img" "64 + fw_body_len img \<le> length img" "length img < 2 ^ 32"
  shows "length img = 64 + fw_body_len img"
proof -
  have "of_nat (64 + fw_body_len img) = (of_nat (length img) :: u32)"
    using assms(1) by (simp add: fw_size_ok_def fw_body_len_def add.assoc)
  from arg_cong [OF this, of unat] have "(64 + fw_body_len img) mod 2 ^ 32 = length img mod 2 ^ 32"
    unfolding unat_of_nat by simp
  then show ?thesis using assms(2,3) by simp
qed

lemma fw_parts_chunks: "c \<in> set (fw_parts img) \<Longrightarrow> 0 < length c \<and> length c \<le> 4096"
  by (auto simp: fw_parts_def Let_def dest: fw_cut_bound)


subsection \<open>The download as a whole\<close>

text \<open>The part under the lock, after the MAC is up.\<close>

definition fw_program :: "'c chip_ops \<Rightarrow> u8 list \<Rightarrow> ('c softc, unit) cm" where
  "fw_program C img = seqE (fw_open_window C) (seqE (fw_segments C img) (fw_close_window C))"

lemma on_priv_seq: "seqE (on_priv a) (on_priv b) = on_priv (seqE a b)"
  by (rule ext) (simp add: seqE_def tryE_def on_priv_def split: prod.splits sum.splits)

lemma fw_program_run:
  assumes "on_line n k s" "fw_program C img s = (r, s')" "64 \<le> length img"
  shows "(r = Inl Panic \<and> length img < 64 + fw_body_len img) \<or>
    (run_ok n k s r s' \<and> (r = Inr () \<longrightarrow> 64 + fw_body_len img \<le> length img \<and>
       bulk_log s' = bulk_log s @ map fw_packet (fw_parts img)))"
proof -
  obtain r1 s1 where a: "fw_open_window C s = (r1, s1)" by fastforce
  from quiet_run [OF keeps_fw_window(1) assms(1) a] have s1: "run_ok n k s r1 s1" "bulk_log s1 = bulk_log s"
    by (auto split: sum.splits)
  show ?thesis
  proof (cases r1)
    case (Inl e)
    with a s1 assms(2) show ?thesis by (auto simp: fw_program_def)
  next
    case (Inr u)
    obtain r2 s2 where b: "fw_segments C img s1 = (r2, s2)" by fastforce
    from s1 have "on_line n k s1" by (simp add: run_ok_def)
    note s2 = segments_run [OF this b assms(3)]
    show ?thesis
    proof (cases r2)
      case (Inl e)
      with a b Inr s1 s2 assms(2) show ?thesis by (auto simp: fw_program_def run_ok_def)
    next
      case ok: (Inr v)
      with s2 have s2: "run_ok n k s1 (Inr ()) s2" "64 + fw_body_len img \<le> length img"
        "bulk_log s2 = bulk_log s1 @ map fw_packet (fw_parts img)" by auto
      then have "on_line n k s2" by (simp add: run_ok_def)
      moreover from a b Inr ok assms(2) have "fw_close_window C s2 = (r, s')" by (simp add: fw_program_def)
      ultimately have "run_ok n k s2 r s' \<and> bulk_log s' = bulk_log s2"
        using quiet_run [OF keeps_fw_window(2), of n k s2 C r s'] by (auto split: sum.splits)
      with s1 s2 show ?thesis by (auto simp: run_ok_def)
    qed
  qed
qed

lemma fw_program_sent:
  assumes "on_line n k s" "fw_program C img s = (r, s')" "64 \<le> length img"
  shows "sent_part (fw_parts img) s s'"
proof -
  obtain r1 s1 where a: "fw_open_window C s = (r1, s1)" by fastforce
  from quiet_run [OF keeps_fw_window(1) assms(1) a] have s1: "on_line n k s1" "bulk_log s1 = bulk_log s"
    by (auto simp: run_ok_def split: sum.splits)
  show ?thesis
  proof (cases r1)
    case (Inl e)
    with a s1 assms(2) show ?thesis by (simp add: fw_program_def sent_none)
  next
    case (Inr u)
    obtain r2 s2 where b: "fw_segments C img s1 = (r2, s2)" by fastforce
    have sent: "sent_part (fw_parts img) s s2" using segments_sent [OF s1(1) b assms(3)] s1(2) by (rule sent_quiet(1))
    show ?thesis
    proof (cases r2)
      case (Inl e)
      with a b Inr assms(2) sent show ?thesis by (simp add: fw_program_def)
    next
      case ok: (Inr v)
      with segments_run [OF s1(1) b assms(3)] have "on_line n k s2" by (simp add: run_ok_def)
      moreover from a b Inr ok assms(2) have "fw_close_window C s2 = (r, s')" by (simp add: fw_program_def)
      ultimately have "bulk_log s' = bulk_log s2" using quiet_run [OF keeps_fw_window(2), of n k s2 C r s'] by simp
      with sent show ?thesis by (rule sent_quiet(2))
    qed
  qed
qed

definition fw_ready :: "nat \<Rightarrow> bool \<Rightarrow> u8 list \<Rightarrow> 'c softc \<Rightarrow> bool" where
  "fw_ready n k img s \<longleftrightarrow> mtx_depth s = n \<and> \<not> sc_io_busy s \<and> invariants s = k \<and> sc_fw s = Some img"

lemma fw_ready_lock: "fw_ready 0 k img s \<Longrightarrow> RTW88_LOCK s = (Inr (), s\<lparr>mtx_depth := 1\<rparr>)"
  by (simp add: fw_ready_def RTW88_LOCK_def)

lemma locked_body_run:
  assumes "on_line 0 k (priv d)" "coex_cfg_init ci = None" "64 \<le> length img"
    and "seqE (rtw88_mac_power_on C (Some ci)) (on_priv (fw_program C img)) d = (r, d')"
  shows "if k then r \<noteq> Inr () \<and> (\<forall>f. r = Inl f \<longrightarrow> is_errno f \<or> f = Panic) \<and> (r \<noteq> Inl Panic \<longrightarrow> on_line 0 True (priv d') \<and>
      same_soft (priv d') (priv d) \<and> bulk_log (priv d') = bulk_log (priv d))
    else (r = Inl Panic \<and> length img < 64 + fw_body_len img) \<or>
      (run_ok 0 False (priv d) r (priv d') \<and> (r = Inr () \<longrightarrow> 64 + fw_body_len img \<le> length img \<and>
       bulk_log (priv d') = bulk_log (priv d) @ map fw_packet (fw_parts img)))"
proof -
  obtain r1 d1 where up: "rtw88_mac_power_on C (Some ci) d = (r1, d1)" by fastforce
  note run = power_on_run [OF on_line_bus [OF assms(1)] assms(2) up]
  show ?thesis
  proof (cases k)
    case True
    with run obtain f where f: "r1 = Inl f" "is_errno f \<or> f = Panic" by (cases r1) auto
    moreover have "on_line 0 True (priv d1) \<and> same_soft (priv d1) (priv d) \<and> bulk_log (priv d1) = bulk_log (priv d)" if "f \<noteq> Panic"
    proof -
      have d: "on_dev (on_bus 0 True (hw.more (priv d)) (ep0_log (priv d))) (\<lambda>_. True) d"
        using on_line_bus [OF assms(1)] True by (simp add: on_dev_def)
      obtain r2 d2 where p: "power_cycle C d = (r2, d2)" by fastforce
      from keepsD [OF keeps_power_cycle d p]
      have d2: "on_bus 0 True (hw.more (priv d)) (ep0_log (priv d)) (priv d2)" by (simp add: on_dev_def)
      have "r2 = Inl f \<and> d1 = d2"
      proof (cases r2)
        case (Inl e)
        with p up f(1) show ?thesis by (simp add: power_on_split)
      next
        case (Inr u)
        obtain x d3 where c: "rtw88_coex_init (rtw88_usb_hci_ops C) (Some ci) d2 = (x, d3)" by fastforce
        with coex_init_locked_panics [OF d2, of C ci] have "x = Inl Panic" by simp
        with Inr p c up f(1) that show ?thesis by (simp add: power_on_split)
      qed
      with d2 same_more [of "priv d2" "priv d"] show ?thesis by (auto simp: on_bus_def on_line_def)
    qed
    ultimately show ?thesis using up assms(4) True by auto
  next
    case False
    with run have d1: "on_bus 0 False (hw.more (priv d)) (ep0_log (priv d)) (priv d1)"
      "\<forall>f. r1 = Inl f \<longrightarrow> is_errno f" by (auto split: sum.splits)
    then have line: "on_line 0 False (priv d1)" "bulk_log (priv d1) = bulk_log (priv d)" "same_soft (priv d1) (priv d)"
      using same_more [of "priv d1" "priv d"] by (auto simp: on_bus_def on_line_def)
    show ?thesis
    proof (cases r1)
      case (Inl e)
      with up assms(4) d1 line False show ?thesis by (auto simp: run_ok_def)
    next
      case (Inr u)
      obtain r2 s2 where p: "fw_program C img (priv d1) = (r2, s2)" by fastforce
      with up Inr assms(4) have "r = r2" "priv d' = s2" by (auto simp: on_priv_run)
      with fw_program_run [OF line(1) p assms(3)] line(2,3) False show ?thesis by (auto simp: run_ok_def)
    qed
  qed
qed

text \<open>What the part under the lock has sent: the first of the packets, and none when the bring-up of the MAC has failed, as it always does with INVARIANTS.\<close>

lemma locked_body_sent:
  assumes "on_line 0 k (priv d)" "coex_cfg_init ci = None" "64 \<le> length img"
    and "seqE (rtw88_mac_power_on C (Some ci)) (on_priv (fw_program C img)) d = (r, d')"
  shows "\<not> k \<Longrightarrow> sent_part (fw_parts img) (priv d) (priv d')"
    "k \<Longrightarrow> r \<noteq> Inl Panic \<Longrightarrow> bulk_log (priv d') = bulk_log (priv d)"
proof -
  assume k: "\<not> k"
  obtain r1 d1 where up: "rtw88_mac_power_on C (Some ci) d = (r1, d1)" by fastforce
  from power_on_run [OF on_line_bus [OF assms(1)] assms(2) up] k
  have "on_bus 0 False (hw.more (priv d)) (ep0_log (priv d)) (priv d1)" by (auto split: sum.splits)
  then have line: "on_line 0 False (priv d1)" "bulk_log (priv d1) = bulk_log (priv d)"
    using same_more [of "priv d1" "priv d"] by (auto simp: on_bus_def on_line_def)
  show "sent_part (fw_parts img) (priv d) (priv d')"
  proof (cases r1)
    case (Inl e)
    with up assms(4) line show ?thesis by (simp add: sent_none)
  next
    case (Inr u)
    obtain r2 s2 where p: "fw_program C img (priv d1) = (r2, s2)" by fastforce
    with up Inr assms(4) have "priv d' = s2" by (auto simp: on_priv_run)
    with fw_program_sent [OF line(1) p assms(3)] line(2) show ?thesis by (auto intro: sent_quiet)
  qed
next
  assume "k" "r \<noteq> Inl Panic"
  with locked_body_run [OF assms] show "bulk_log (priv d') = bulk_log (priv d)" by simp
qed

lemma on_priv_unlock:
  "on_line 0 k (priv d) \<Longrightarrow> \<exists>d'. on_priv RTW88_UNLOCK d = (Inr (), d') \<and> mtx_depth (priv d') = 0 \<and>
     \<not> sc_io_busy (priv d') \<and> bulk_log (priv d') = bulk_log (priv d) \<and> same_soft (priv d') (priv d)" for d :: "'c softc rtw88_dev"
  by (auto simp: on_priv_def RTW88_UNLOCK_def on_line_def)

lemma download_split:
  "sc_fw (priv d) = Some img \<Longrightarrow> fw_size_ok img \<Longrightarrow> rtw88_download_firmware C ci d =
     seqE (on_priv RTW88_LOCK)
       (tryE (attempt (seqE (rtw88_mac_power_on C ci) (on_priv (fw_program C img))))
        (\<lambda>r. seqE (on_priv RTW88_UNLOCK) (case r of Inl e \<Rightarrow> fail (Errno e) | Inr _ \<Rightarrow> ret ()))) d"
  unfolding rtw88_download_firmware_def fw_program_def on_priv_seq
  by (simp add: on_priv_seq [symmetric])

lemma download_run:
  assumes "fw_ready 0 k img (priv d)" "coex_cfg_init ci = None" "64 \<le> length img" "length img < 2 ^ 32"
    and "rtw88_download_firmware C (Some ci) d = (r, d')"
  shows "(k \<longrightarrow> r \<noteq> Inr ()) \<and> r \<noteq> Inl Hang \<and>
    (r \<noteq> Inl Panic \<longrightarrow> mtx_depth (priv d') = 0 \<and> \<not> sc_io_busy (priv d') \<and> same_soft (priv d') (priv d)) \<and>
    (r = Inl Panic \<longrightarrow> k \<or> fw_size_ok img \<and> length img \<noteq> 64 + fw_body_len img) \<and>
    (r = Inr () \<longrightarrow> (\<exists>cs. bulk_log (priv d') = bulk_log (priv d) @ map fw_packet cs \<and> concat cs = drop 64 img \<and>
       (\<forall>c \<in> set cs. 0 < length c \<and> length c \<le> 4096 \<and> txdesc_xor (snd (fw_packet c)) = 0)))"
proof (cases "fw_size_ok img")
  case False
  with assms(1,5) show ?thesis
    by (auto simp: rtw88_download_firmware_def fw_ready_def)
next
  case True
  let ?d1 = "d\<lparr>priv := (priv d)\<lparr>mtx_depth := 1\<rparr>\<rparr>"
  let ?body = "seqE (rtw88_mac_power_on C (Some ci)) (on_priv (fw_program C img))"
  note xor = fw_packet_sealed
  have fw: "sc_fw (priv d) = Some img" using assms(1) by (simp add: fw_ready_def)
  have line: "on_line 0 k (priv ?d1)" using assms(1) by (simp add: fw_ready_def on_line_def)
  have lock: "on_priv RTW88_LOCK d = (Inr (), ?d1)" using fw_ready_lock [OF assms(1)] by (simp add: on_priv_run)
  obtain r1 d2 where b: "?body ?d1 = (r1, d2)" by fastforce
  note body = locked_body_run [OF line assms(2,3) b]
  have run: "tryE (attempt ?body) (\<lambda>r. seqE (on_priv RTW88_UNLOCK) (case r of Inl e \<Rightarrow> fail (Errno e) | Inr _ \<Rightarrow> ret ()))
      ?d1 = (r, d')"
    using assms(5) lock download_split [OF fw True, of C "Some ci"] by simp
  consider (panic) "r1 = Inl Panic" "k \<or> length img < 64 + fw_body_len img"
    | (err) e where "r1 = Inl (Errno e)" "on_line 0 k (priv d2)" "same_soft (priv d2) (priv d)"
    | (ok) "r1 = Inr ()" "\<not> k" "on_line 0 k (priv d2)" "same_soft (priv d2) (priv d)" "64 + fw_body_len img \<le> length img"
        "bulk_log (priv d2) = bulk_log (priv d) @ map fw_packet (fw_parts img)"
  proof (cases r1)
    case (Inl f)
    with body panic err show thesis
      by (cases f; cases k) (auto simp: run_ok_def is_errno_def)
  next
    case (Inr u)
    with body ok show thesis by (cases k) (auto simp: run_ok_def)
  qed
  then show ?thesis
  proof cases
    case panic
    with b run True assms(3) show ?thesis by auto
  next
    case err
    from on_priv_unlock [OF err(2)] obtain d3 where "on_priv RTW88_UNLOCK d2 = (Inr (), d3)"
      "mtx_depth (priv d3) = 0" "\<not> sc_io_busy (priv d3)" "same_soft (priv d3) (priv d2)" by blast
    with b run err(1,3) show ?thesis by auto
  next
    case ok
    from on_priv_unlock [OF ok(3)] obtain d3 where d3: "on_priv RTW88_UNLOCK d2 = (Inr (), d3)"
      "mtx_depth (priv d3) = 0" "\<not> sc_io_busy (priv d3)" "bulk_log (priv d3) = bulk_log (priv d2)"
      "same_soft (priv d3) (priv d2)" by blast
    with b run ok(1) have "r = Inr ()" "d' = d3" by auto
    moreover have "concat (fw_parts img) = drop 64 img"
      by (rule concat_fw_parts, rule fw_size_exact [OF True ok(5) assms(4)])
    ultimately show ?thesis using d3 ok fw_parts_chunks xor by auto
  qed
qed

lemma download_sent:
  assumes "fw_ready 0 k img (priv d)" "coex_cfg_init ci = None" "64 \<le> length img"
    and "rtw88_download_firmware C (Some ci) d = (r, d')"
  shows "fw_size_ok img \<Longrightarrow> \<not> k \<Longrightarrow> sent_part (fw_parts img) (priv d) (priv d')"
    "fw_size_ok img \<Longrightarrow> k \<Longrightarrow> r \<noteq> Inl Panic \<Longrightarrow> bulk_log (priv d') = bulk_log (priv d)"
    "\<not> fw_size_ok img \<Longrightarrow> r = Inl (Errno EINVAL) \<and> d' = d"
proof -
  have fw: "sc_fw (priv d) = Some img" using assms(1) by (simp add: fw_ready_def)
  then show "\<not> fw_size_ok img \<Longrightarrow> r = Inl (Errno EINVAL) \<and> d' = d" using assms(4) by (simp add: rtw88_download_firmware_def)
  let ?d1 = "d\<lparr>priv := (priv d)\<lparr>mtx_depth := 1\<rparr>\<rparr>"
  let ?body = "seqE (rtw88_mac_power_on C (Some ci)) (on_priv (fw_program C img))"
  have line: "on_line 0 k (priv ?d1)" using assms(1) by (simp add: fw_ready_def on_line_def)
  have lock: "on_priv RTW88_LOCK d = (Inr (), ?d1)" using fw_ready_lock [OF assms(1)] by (simp add: on_priv_run)
  obtain r1 d2 where b: "?body ?d1 = (r1, d2)" by fastforce
  have log1: "bulk_log (priv ?d1) = bulk_log (priv d)" by simp
  have end_log: "bulk_log (priv d') = bulk_log (priv d2) \<and> (r = Inl Panic \<longleftrightarrow> r1 = Inl Panic)" if ok: "fw_size_ok img"
  proof -
    have run: "tryE (attempt ?body) (\<lambda>r. seqE (on_priv RTW88_UNLOCK) (case r of Inl e \<Rightarrow> fail (Errno e) | Inr _ \<Rightarrow> ret ()))
        ?d1 = (r, d')"
      using assms(4) lock download_split [OF fw ok, of C "Some ci"] by simp
    have "r1 \<noteq> Inl Panic \<Longrightarrow> on_line 0 k (priv d2) \<and> (\<forall>f. r1 = Inl f \<longrightarrow> is_errno f)"
      using locked_body_run [OF line assms(2,3) b] by (cases k; cases r1) (auto simp: run_ok_def)
    moreover have "\<exists>d3. on_priv RTW88_UNLOCK d2 = (Inr (), d3) \<and> bulk_log (priv d3) = bulk_log (priv d2)" if "on_line 0 k (priv d2)"
      using on_priv_unlock [OF that] by blast
    ultimately show ?thesis using run b
      by (cases r1; cases "r1 = Inl Panic") (auto simp: is_errno_def split: fault.splits)
  qed
  show "sent_part (fw_parts img) (priv d) (priv d')" if "fw_size_ok img" "\<not> k"
    using locked_body_sent(1) [OF line assms(2,3) b that(2)] end_log [OF that(1)] log1 by (metis sent_quiet)
  show "bulk_log (priv d') = bulk_log (priv d)" if "fw_size_ok img" "k" "r \<noteq> Inl Panic"
    using locked_body_sent(2) [OF line assms(2,3) b that(2)] end_log [OF that(1)] log1 that(3) by simp
qed

text \<open>C27. The firmware download, for any image and any device, started with the mutex free. An image whose header
  lengths do not add up to its size modulo \<open>2^32\<close> is EINVAL with nothing sent. On a kernel with INVARIANTS the download never succeeds, and an error code
  means that nothing was sent. Without INVARIANTS an error code can follow some packets, but whatever the outcome, those sent
  are the first packets of the image in order, each of at most 4096 bytes behind a sealed descriptor; on success they are all of them and
  their payloads are exactly the image without its header. Whenever the download returns, with success or an error code, the mutex is free again and
  no request is in flight. A kernel without INVARIANTS faults only for an image whose header lengths do not add up to its
  size, although the size check, whose sum wraps, has accepted it.\<close>
theorem fw_download_outcome:
  assumes "fw_ready 0 k img (priv d)" "coex_cfg_init ci = None" "64 \<le> length img" "length img < 2 ^ 32"
    and "rtw88_download_firmware C (Some ci) d = (r, d')"
  shows "(k \<longrightarrow> r \<noteq> Inr ()) \<and> r \<noteq> Inl Hang \<and> (\<not> fw_size_ok img \<longrightarrow> r = Inl (Errno EINVAL)) \<and>
    (r \<noteq> Inl Panic \<longrightarrow> mtx_depth (priv d') = 0 \<and> \<not> sc_io_busy (priv d')) \<and>
    (r = Inl Panic \<longrightarrow> k \<or> fw_size_ok img \<and> length img \<noteq> 64 + fw_body_len img) \<and>
    (\<not> k \<or> r \<noteq> Inl Panic \<longrightarrow> (\<exists>cs ds. fw_parts img = cs @ ds \<and> bulk_log (priv d') = bulk_log (priv d) @ map fw_packet cs \<and>
       (\<forall>c \<in> set cs. 0 < length c \<and> length c \<le> 4096 \<and> txdesc_xor (snd (fw_packet c)) = 0) \<and>
       (k \<or> \<not> fw_size_ok img \<longrightarrow> cs = []) \<and> (r = Inr () \<longrightarrow> concat cs = drop 64 img)))"
proof -
  note run = download_run [OF assms] and sent = download_sent [OF assms(1-3,5)]
  have chunks: "\<forall>c \<in> set cs. 0 < length c \<and> length c \<le> 4096 \<and> txdesc_xor (snd (fw_packet c)) = 0" if "fw_parts img = cs @ ds" for cs ds
  proof
    fix c assume "c \<in> set cs"
    with that have "c \<in> set (fw_parts img)" by simp
    then show "0 < length c \<and> length c \<le> 4096 \<and> txdesc_xor (snd (fw_packet c)) = 0"
      using fw_parts_chunks [of c img] by (auto simp: fw_packet_sealed)
  qed
  have payload: "concat cs = concat (map (\<lambda>p. drop 48 (snd p)) (map fw_packet cs))" for cs
    by (induction cs) (simp_all add: fw_packet_def)
  have inj: "concat cs = concat cs'" if "map fw_packet cs = map fw_packet cs'" for cs cs'
    unfolding payload [of cs] payload [of cs'] that ..
  have part: "\<exists>cs ds. fw_parts img = cs @ ds \<and> bulk_log (priv d') = bulk_log (priv d) @ map fw_packet cs \<and>
      (k \<or> \<not> fw_size_ok img \<longrightarrow> cs = []) \<and> (r = Inr () \<longrightarrow> concat cs = drop 64 img)" if "\<not> k \<or> r \<noteq> Inl Panic"
  proof (cases "fw_size_ok img \<and> \<not> k")
    case True
    with sent(1) obtain cs ds where cs: "fw_parts img = cs @ ds" "bulk_log (priv d') = bulk_log (priv d) @ map fw_packet cs"
      by (auto simp: sent_part_def)
    have "concat cs = drop 64 img" if ok: "r = Inr ()"
    proof -
      from run ok obtain cs' where "bulk_log (priv d') = bulk_log (priv d) @ map fw_packet cs'" "concat cs' = drop 64 img" by blast
      with cs(2) inj [of cs cs'] show ?thesis by simp
    qed
    with cs True show ?thesis by blast
  next
    case False
    have "bulk_log (priv d') = bulk_log (priv d)" "r \<noteq> Inr ()"
      using False that run sent(2,3) by (cases "fw_size_ok img"; simp)+
    then show ?thesis by (intro exI [of _ "[]"] exI [of _ "fw_parts img"]) simp
  qed
  show ?thesis
  proof (intro conjI impI)
    assume "\<not> k \<or> r \<noteq> Inl Panic"
    from part [OF this] obtain cs ds where cs: "fw_parts img = cs @ ds" "bulk_log (priv d') = bulk_log (priv d) @ map fw_packet cs"
      "k \<or> \<not> fw_size_ok img \<longrightarrow> cs = []" "r = Inr () \<longrightarrow> concat cs = drop 64 img" by blast
    from cs chunks [OF cs(1)] show "\<exists>cs ds. fw_parts img = cs @ ds \<and> bulk_log (priv d') = bulk_log (priv d) @ map fw_packet cs \<and>
       (\<forall>c \<in> set cs. 0 < length c \<and> length c \<le> 4096 \<and> txdesc_xor (snd (fw_packet c)) = 0) \<and>
       (k \<or> \<not> fw_size_ok img \<longrightarrow> cs = []) \<and> (r = Inr () \<longrightarrow> concat cs = drop 64 img)" by (intro exI [of _ cs] exI [of _ ds] conjI)
  qed (use run sent(3) in blast)+
qed

text \<open>A device that answers every step of the bring-up, and an image of 16 bytes behind its header.\<close>

definition boot_reg :: "u16 \<Rightarrow> u8" where
  "boot_reg a = (if a = 0x06 then 2 else if a = 0x80 then 0x78 else if a = 0x81 then 0xC0
     else if a = 0x205 then 0x80 else if a = 0xF5 then 1 else if a = 0x1703 then 0x20 else 0)"

definition boot_ops :: "unit chip_ops" where
  "boot_ops = \<lparr>c_read = (\<lambda>a n c. (Some (\<lambda>i. boot_reg (a + of_nat i)), c)), c_write = (\<lambda>a bs c. (True, c)),
     c_bulk = (\<lambda>p bs c. (XferDone, c))\<rparr>"

definition small_image :: "u8 list" where
  "small_image = replicate 64 0 @ [1, 2, 3, 4, 5, 6, 7, 8, 9, 10, 11, 12, 13, 14, 15, 16]"

definition boot_dev :: "unit softc rtw88_dev" where
  "boot_dev = rtw88_dev_zero ((softc_zero () 0 False)\<lparr>sc_fw := Some small_image\<rparr>)"



text \<open>The loader succeeds on that device.\<close>

lemma boot_segment: "fst (rtw88_download_firmware_segment boot_ops 0x200000 small_image 64 8 (softc_zero () 1 False)) = Inr ()"
  by code_simp

theorem fw_download_outcome_witness:
  "fst (rtw88_download_firmware boot_ops (Some rtw88_8821c_chip_info) boot_dev) \<noteq> Inl Panic \<and>
   mtx_depth (priv (snd (rtw88_download_firmware boot_ops (Some rtw88_8821c_chip_info) boot_dev))) = 0"
proof -
  have "fw_ready 0 False small_image (priv boot_dev)"
    by (simp add: fw_ready_def boot_dev_def softc_zero_def)
  moreover have "fw_body_len small_image = 16" by code_simp
  moreover have "length small_image = 80" by (simp add: small_image_def)
  ultimately show ?thesis
    using fw_download_outcome [OF _ _ _ _ surjective_pairing, of False small_image boot_dev rtw88_8821c_chip_info boot_ops]
    by (auto simp: rtw88_8821c_chip_info_def)
qed

text \<open>An image of 64 bytes whose header claims 4096 bytes of data memory and \<open>2^32 - 4096\<close> bytes of code.\<close>

definition wrap_image :: "u8 list" where
  "wrap_image = (replicate 64 0)[0 := 0x21, 1 := 0x88, 0x24 := 0xF8, 0x25 := 0x0F,
     0x30 := 0xF8, 0x31 := 0xEF, 0x32 := 0xFF, 0x33 := 0xFF]"

text \<open>The size check of the loader can be passed by an image whose segments run past its end, because its sum wraps at 32
  bits: the image below is accepted when it is acquired, passes the check, and its first fragment is copied from beyond
  the buffer.\<close>
theorem fw_size_check_wraps:
  "fst (rtw88_fw_acquire (Some wrap_image) 0x8821 (softc_zero () 0 False)) = Inr () \<and> fw_size_ok wrap_image \<and>
   length wrap_image = 64 \<and> fw_body_len wrap_image = 2 ^ 32 \<and>
   fst (fw_segments boot_ops wrap_image (softc_zero () 1 False)) = Inl Panic"
proof -
  have a: "fst (rtw88_fw_acquire (Some wrap_image) 0x8821 (softc_zero () 0 False)) = Inr ()" by code_simp
  have b: "fw_size_ok wrap_image" by code_simp
  have c: "length wrap_image = 64" by (simp add: wrap_image_def)
  have d: "fw_dmem_len wrap_image = 0x1000" "fw_imem_len wrap_image = 0xFFFFF000" "fw_emem_len wrap_image = 0"
    by code_simp+
  then have e: "fw_body_len wrap_image = 2 ^ 32" by (simp add: fw_body_len_def)
  have h: "fw_dmem_addr (rtw88_fw_hdr_decode wrap_image) = 0" by code_simp
  have "fst (rtw88_download_firmware_segment boot_ops 0 wrap_image 64 0x1000 (softc_zero () 1 False)) = Inl Panic"
    by code_simp
  then obtain s' where "rtw88_download_firmware_segment boot_ops 0 wrap_image 64 0x1000 (softc_zero () 1 False) = (Inl Panic, s')"
    by (metis prod.collapse)
  then have f: "fst (fw_segments boot_ops wrap_image (softc_zero () 1 False)) = Inl Panic"
    by (simp add: fw_segments_def Let_def h d)
  from a b c e f show ?thesis by blast
qed

end
