(* ===== verification/Rtw_Consts.thy ===== *)
theory Rtw_Consts
  imports Rtw_Regs
begin

section \<open>Numbers and masks of the USB front-end\<close>

text \<open>
  The numeric macros of \<^verbatim>\<open>sys/dev/rtw88/if_rtw88_usb.c\<close> that no other theory declares, in the order of that file, under the
  same convention as the macros of \<^verbatim>\<open>rtw88_regs.h\<close>.
\<close>

abbreviation (input) RTW88_VENDOR_REALTEK :: "'a::numeral" where "RTW88_VENDOR_REALTEK \<equiv> 0xBDA"
abbreviation (input) RTW88_VENDOR_DLINK :: "'a::numeral" where "RTW88_VENDOR_DLINK \<equiv> 0x2001"
abbreviation (input) RTW88_VENDOR_EDIMAX :: "'a::numeral" where "RTW88_VENDOR_EDIMAX \<equiv> 0x7392"
abbreviation (input) RTW88_VENDOR_MERCUSYS :: "'a::numeral" where "RTW88_VENDOR_MERCUSYS \<equiv> 0x2C4E"
abbreviation (input) RTW88_CAP_HT20 :: "'a::one" where "RTW88_CAP_HT20 \<equiv> 1"
abbreviation (input) RTW88_CAP_HT40 :: "'a::numeral" where "RTW88_CAP_HT40 \<equiv> 2"
abbreviation (input) RTW88_CAP_VHT80 :: "'a::numeral" where "RTW88_CAP_VHT80 \<equiv> 4"
abbreviation (input) RTW88_CAP_2GHZ :: "'a::numeral" where "RTW88_CAP_2GHZ \<equiv> 8"
abbreviation (input) RTW88_CAP_5GHZ :: "'a::numeral" where "RTW88_CAP_5GHZ \<equiv> 0x10"
abbreviation (input) RTW88_CAP_LPS :: "'a::numeral" where "RTW88_CAP_LPS \<equiv> 0x20"
abbreviation (input) RTW88_CAP_BTCOEX :: "'a::numeral" where "RTW88_CAP_BTCOEX \<equiv> 0x40"
abbreviation (input) RTW88_CAP_BEAMFORMING :: "'a::numeral" where "RTW88_CAP_BEAMFORMING \<equiv> 0x80"
abbreviation (input) RTW88_CAP_AMSDU :: "'a::numeral" where "RTW88_CAP_AMSDU \<equiv> 0x100"
abbreviation (input) RTW88_CHANNEL_WIDTH_20 :: "'a::zero" where "RTW88_CHANNEL_WIDTH_20 \<equiv> 0"
abbreviation (input) RTW88_CHANNEL_WIDTH_40 :: "'a::one" where "RTW88_CHANNEL_WIDTH_40 \<equiv> 1"
abbreviation (input) RTW88_CHANNEL_WIDTH_80 :: "'a::numeral" where "RTW88_CHANNEL_WIDTH_80 \<equiv> 2"
abbreviation (input) RTW88_SC_DONT_CARE :: "'a::zero" where "RTW88_SC_DONT_CARE \<equiv> 0"
abbreviation (input) RTW88_SC_20_UPPER :: "'a::one" where "RTW88_SC_20_UPPER \<equiv> 1"
abbreviation (input) RTW88_SC_20_LOWER :: "'a::numeral" where "RTW88_SC_20_LOWER \<equiv> 2"
abbreviation (input) RTW88_SC_20_UPMOST :: "'a::numeral" where "RTW88_SC_20_UPMOST \<equiv> 3"
abbreviation (input) RTW88_SC_20_LOWEST :: "'a::numeral" where "RTW88_SC_20_LOWEST \<equiv> 4"
abbreviation (input) RTW88_USB_REQ_REGS :: "'a::numeral" where "RTW88_USB_REQ_REGS \<equiv> 5"
abbreviation (input) RTW88_EP0_READ_TIMEOUT :: "'a::numeral" where "RTW88_EP0_READ_TIMEOUT \<equiv> 0x3E8"
abbreviation (input) RTW88_EP0_WRITE_TIMEOUT :: "'a::numeral" where "RTW88_EP0_WRITE_TIMEOUT \<equiv> 0x1F4"
abbreviation (input) REG_SYS_CFG1 :: "'a::numeral" where "REG_SYS_CFG1 \<equiv> 0xF0"
abbreviation (input) REG_SYS_CFG2 :: "'a::numeral" where "REG_SYS_CFG2 \<equiv> 0xFC"
abbreviation (input) SYS_CFG1_CHIP_VER_SHIFT :: "'a::numeral" where "SYS_CFG1_CHIP_VER_SHIFT \<equiv> 0xC"
abbreviation (input) SYS_CFG1_CHIP_VER_MASK :: "'a::numeral" where "SYS_CFG1_CHIP_VER_MASK \<equiv> 0xF"
abbreviation (input) SYS_CFG1_VENDOR_SHIFT :: "'a::numeral" where "SYS_CFG1_VENDOR_SHIFT \<equiv> 0x10"
abbreviation (input) SYS_CFG1_VENDOR_MASK :: "'a::numeral" where "SYS_CFG1_VENDOR_MASK \<equiv> 0xF"
abbreviation (input) SYS_CFG1_BIT_RTL_ID :: "'a::numeral" where "SYS_CFG1_BIT_RTL_ID \<equiv> 0x800000"
abbreviation (input) SYS_CFG1_BIT_LDO :: "'a::numeral" where "SYS_CFG1_BIT_LDO \<equiv> 0x1000000"
abbreviation (input) SYS_CFG1_BIT_RF_TYPE :: "'a::numeral" where "SYS_CFG1_BIT_RF_TYPE \<equiv> 0x8000000"
abbreviation (input) RTW88_TX_TIMEOUT :: "'a::numeral" where "RTW88_TX_TIMEOUT \<equiv> 0x1388"
abbreviation (input) RTW88_RX_DESC_SZ :: "'a::numeral" where "RTW88_RX_DESC_SZ \<equiv> 0x18"
abbreviation (input) RTW88_RX_DESC_W0_PKT_LEN_M :: "'a::numeral" where "RTW88_RX_DESC_W0_PKT_LEN_M \<equiv> 0x3FFF"
abbreviation (input) RTW88_RX_DESC_W0_CRC_ERR :: "'a::numeral" where "RTW88_RX_DESC_W0_CRC_ERR \<equiv> 0x4000"
abbreviation (input) RTW88_RX_DESC_W0_ICV_ERR :: "'a::numeral" where "RTW88_RX_DESC_W0_ICV_ERR \<equiv> 0x8000"
abbreviation (input) RTW88_RX_DESC_W0_DRVINFO_SZ_M :: "'a::numeral" where "RTW88_RX_DESC_W0_DRVINFO_SZ_M \<equiv> 0xF0000"
abbreviation (input) RTW88_RX_DESC_W0_DRVINFO_SZ_S :: "'a::numeral" where "RTW88_RX_DESC_W0_DRVINFO_SZ_S \<equiv> 0x10"
abbreviation (input) RTW88_RX_DESC_W0_ENC_TYPE_M :: "'a::numeral" where "RTW88_RX_DESC_W0_ENC_TYPE_M \<equiv> 0x700000"
abbreviation (input) RTW88_RX_DESC_W0_ENC_TYPE_S :: "'a::numeral" where "RTW88_RX_DESC_W0_ENC_TYPE_S \<equiv> 0x14"
abbreviation (input) RTW88_RX_DESC_W0_SHIFT_M :: "'a::numeral" where "RTW88_RX_DESC_W0_SHIFT_M \<equiv> 0x3000000"
abbreviation (input) RTW88_RX_DESC_W0_SHIFT_S :: "'a::numeral" where "RTW88_RX_DESC_W0_SHIFT_S \<equiv> 0x18"
abbreviation (input) RTW88_RX_DESC_W0_PHYST :: "'a::numeral" where "RTW88_RX_DESC_W0_PHYST \<equiv> 0x4000000"
abbreviation (input) RTW88_RX_DESC_W0_SWDEC :: "'a::numeral" where "RTW88_RX_DESC_W0_SWDEC \<equiv> 0x8000000"
abbreviation (input) RTW88_RX_DESC_W2_C2H :: "'a::numeral" where "RTW88_RX_DESC_W2_C2H \<equiv> 0x10000000"
abbreviation (input) RTW88_RX_DESC_W3_RX_RATE_M :: "'a::numeral" where "RTW88_RX_DESC_W3_RX_RATE_M \<equiv> 0x7F"
abbreviation (input) RTW88_RX_DESC_W4_BW_M :: "'a::numeral" where "RTW88_RX_DESC_W4_BW_M \<equiv> 0x30"
abbreviation (input) RTW88_RX_DESC_W4_BW_S :: "'a::numeral" where "RTW88_RX_DESC_W4_BW_S \<equiv> 4"
abbreviation (input) RTW88_DESC_RATE_CCK_MAX :: "'a::numeral" where "RTW88_DESC_RATE_CCK_MAX \<equiv> 3"
abbreviation (input) RTW88_DESC_RATE_OFDM_MIN :: "'a::numeral" where "RTW88_DESC_RATE_OFDM_MIN \<equiv> 4"
abbreviation (input) RTW88_DESC_RATE_OFDM_MAX :: "'a::numeral" where "RTW88_DESC_RATE_OFDM_MAX \<equiv> 0xB"
abbreviation (input) RTW88_DESC_RATE_MCS_MIN :: "'a::numeral" where "RTW88_DESC_RATE_MCS_MIN \<equiv> 0xC"
abbreviation (input) RTW88_DESC_RATE_MCS_MAX :: "'a::numeral" where "RTW88_DESC_RATE_MCS_MAX \<equiv> 0x23"
abbreviation (input) RTW88_DESC_RATE_VHT_MIN :: "'a::numeral" where "RTW88_DESC_RATE_VHT_MIN \<equiv> 0x2C"
abbreviation (input) RTW88_RX_DESC_ENC_NONE :: "'a::zero" where "RTW88_RX_DESC_ENC_NONE \<equiv> 0"
abbreviation (input) RTW88_RX_DESC_ENC_AES :: "'a::numeral" where "RTW88_RX_DESC_ENC_AES \<equiv> 4"
abbreviation (input) RTW88_CCMP_HDR_LEN :: "'a::numeral" where "RTW88_CCMP_HDR_LEN \<equiv> 8"
abbreviation (input) RTW88_CCMP_MIC_LEN :: "'a::numeral" where "RTW88_CCMP_MIC_LEN \<equiv> 8"
abbreviation (input) RTW88_PHY_STATUS_SIZE :: "'a::numeral" where "RTW88_PHY_STATUS_SIZE \<equiv> 0x10"
abbreviation (input) RTW88_POST_BSSID :: "'a::one" where "RTW88_POST_BSSID \<equiv> 1"
abbreviation (input) RTW88_POST_LINK_UP :: "'a::numeral" where "RTW88_POST_LINK_UP \<equiv> 2"
abbreviation (input) RTW88_POST_LINK_DOWN :: "'a::numeral" where "RTW88_POST_LINK_DOWN \<equiv> 4"
abbreviation (input) RTW88_CAM_QUEUE_DEPTH :: "'a::numeral" where "RTW88_CAM_QUEUE_DEPTH \<equiv> 0x10"
abbreviation (input) RTW88_C2H_TRACE_BOOT :: "'a::numeral" where "RTW88_C2H_TRACE_BOOT \<equiv> 0x10"
abbreviation (input) RTW88_C2H_CCX_TX_RPT :: "'a::numeral" where "RTW88_C2H_CCX_TX_RPT \<equiv> 3"
abbreviation (input) RTW88_C2H_BT_INFO :: "'a::numeral" where "RTW88_C2H_BT_INFO \<equiv> 9"
abbreviation (input) RTW88_C2H_BT_MP_INFO :: "'a::numeral" where "RTW88_C2H_BT_MP_INFO \<equiv> 0xB"
abbreviation (input) RTW88_C2H_RA_RPT :: "'a::numeral" where "RTW88_C2H_RA_RPT \<equiv> 0xC"
abbreviation (input) RTW88_C2H_HW_FEATURE_REPORT :: "'a::numeral" where "RTW88_C2H_HW_FEATURE_REPORT \<equiv> 0x19"
abbreviation (input) RTW88_C2H_WLAN_INFO :: "'a::numeral" where "RTW88_C2H_WLAN_INFO \<equiv> 0x27"
abbreviation (input) RTW88_C2H_WLAN_RFON :: "'a::numeral" where "RTW88_C2H_WLAN_RFON \<equiv> 0x32"
abbreviation (input) RTW88_C2H_RTL8821CU_TICK :: "'a::numeral" where "RTW88_C2H_RTL8821CU_TICK \<equiv> 0x15"
abbreviation (input) RTW88_C2H_BCN_FILTER_NOTIFY :: "'a::numeral" where "RTW88_C2H_BCN_FILTER_NOTIFY \<equiv> 0x36"
abbreviation (input) RTW88_C2H_ADAPTIVITY :: "'a::numeral" where "RTW88_C2H_ADAPTIVITY \<equiv> 0x37"
abbreviation (input) RTW88_C2H_SCAN_RESULT :: "'a::numeral" where "RTW88_C2H_SCAN_RESULT \<equiv> 0x38"
abbreviation (input) RTW88_C2H_HALMAC :: "'a::numeral" where "RTW88_C2H_HALMAC \<equiv> 0xFF"
abbreviation (input) RTW88_C2H_HALMAC_SCAN_STATUS_RPT :: "'a::numeral" where "RTW88_C2H_HALMAC_SCAN_STATUS_RPT \<equiv> 3"
abbreviation (input) RTW88_C2H_HALMAC_CCX_RPT :: "'a::numeral" where "RTW88_C2H_HALMAC_CCX_RPT \<equiv> 0xF"
abbreviation (input) RTW88_C2H_HALMAC_CHAN_SWITCH :: "'a::numeral" where "RTW88_C2H_HALMAC_CHAN_SWITCH \<equiv> 0x22"
abbreviation (input) RTW88_RF_DTXLOK :: "'a::numeral" where "RTW88_RF_DTXLOK \<equiv> 8"
abbreviation (input) RTW88_RFREG_MASK :: "'a::numeral" where "RTW88_RFREG_MASK \<equiv> 0xFFFFF"
abbreviation (input) RTW88_REG_IQKFAILMSK :: "'a::numeral" where "RTW88_REG_IQKFAILMSK \<equiv> 0x1BF0"
abbreviation (input) RTW88_FWKA_INTERVAL_MS :: "'a::numeral" where "RTW88_FWKA_INTERVAL_MS \<equiv> 0x3E8"
abbreviation (input) RTW88_RA_TIGHTEN_MS :: "'a::numeral" where "RTW88_RA_TIGHTEN_MS \<equiv> 0x7D0"
abbreviation (input) RTW88_RXFF_SIZE :: "'a::numeral" where "RTW88_RXFF_SIZE \<equiv> 0x4000"
abbreviation (input) RTW88_C2H_PKT_BUF :: "'a::numeral" where "RTW88_C2H_PKT_BUF \<equiv> 0x100"
abbreviation (input) RTW88_USB_TX_AGG_DESC_NUM :: "'a::numeral" where "RTW88_USB_TX_AGG_DESC_NUM \<equiv> 3"
abbreviation (input) WLAN_SLOT_TIME :: "'a::numeral" where "WLAN_SLOT_TIME \<equiv> 9"
abbreviation (input) WLAN_PIFS_TIME :: "'a::numeral" where "WLAN_PIFS_TIME \<equiv> 0x19"
abbreviation (input) WLAN_SIFS_CCK_CONT_TX :: "'a::numeral" where "WLAN_SIFS_CCK_CONT_TX \<equiv> 0xA"
abbreviation (input) WLAN_SIFS_OFDM_CONT_TX :: "'a::numeral" where "WLAN_SIFS_OFDM_CONT_TX \<equiv> 0xE"
abbreviation (input) WLAN_SIFS_CCK_TRX :: "'a::numeral" where "WLAN_SIFS_CCK_TRX \<equiv> 0x10"
abbreviation (input) WLAN_SIFS_OFDM_TRX :: "'a::numeral" where "WLAN_SIFS_OFDM_TRX \<equiv> 0x10"
abbreviation (input) WLAN_VO_TXOP_LIMIT :: "'a::numeral" where "WLAN_VO_TXOP_LIMIT \<equiv> 0x186"
abbreviation (input) WLAN_VI_TXOP_LIMIT :: "'a::numeral" where "WLAN_VI_TXOP_LIMIT \<equiv> 0x3BC"
abbreviation (input) WLAN_RDG_NAV :: "'a::numeral" where "WLAN_RDG_NAV \<equiv> 5"
abbreviation (input) WLAN_TXOP_NAV :: "'a::numeral" where "WLAN_TXOP_NAV \<equiv> 0x1B"
abbreviation (input) WLAN_CCK_RX_TSF :: "'a::numeral" where "WLAN_CCK_RX_TSF \<equiv> 0x30"
abbreviation (input) WLAN_OFDM_RX_TSF :: "'a::numeral" where "WLAN_OFDM_RX_TSF \<equiv> 0x30"
abbreviation (input) WLAN_TBTT_PROHIBIT :: "'a::numeral" where "WLAN_TBTT_PROHIBIT \<equiv> 4"
abbreviation (input) WLAN_TBTT_HOLD_TIME :: "'a::numeral" where "WLAN_TBTT_HOLD_TIME \<equiv> 0x64"
abbreviation (input) WLAN_DRV_EARLY_INT :: "'a::numeral" where "WLAN_DRV_EARLY_INT \<equiv> 4"
abbreviation (input) WLAN_BCN_DMA_TIME :: "'a::numeral" where "WLAN_BCN_DMA_TIME \<equiv> 2"
abbreviation (input) WLAN_RX_FILTER0 :: "'a::numeral" where "WLAN_RX_FILTER0 \<equiv> 0xFFFFFFF"
abbreviation (input) WLAN_RX_FILTER2 :: "'a::numeral" where "WLAN_RX_FILTER2 \<equiv> 0xFFFF"
abbreviation (input) WLAN_RCR_CFG :: "'a::numeral" where "WLAN_RCR_CFG \<equiv> 0xE400220E"
abbreviation (input) WLAN_RXPKT_MAX_SZ_512 :: "'a::numeral" where "WLAN_RXPKT_MAX_SZ_512 \<equiv> 0x18"
abbreviation (input) WLAN_AMPDU_MAX_TIME :: "'a::numeral" where "WLAN_AMPDU_MAX_TIME \<equiv> 0x70"
abbreviation (input) WLAN_RTS_LEN_TH :: "'a::numeral" where "WLAN_RTS_LEN_TH \<equiv> 0xFF"
abbreviation (input) WLAN_RTS_TX_TIME_TH :: "'a::numeral" where "WLAN_RTS_TX_TIME_TH \<equiv> 8"
abbreviation (input) WLAN_MAX_AGG_PKT_LIMIT :: "'a::numeral" where "WLAN_MAX_AGG_PKT_LIMIT \<equiv> 0x20"
abbreviation (input) WLAN_RTS_MAX_AGG_PKT_LIMIT :: "'a::numeral" where "WLAN_RTS_MAX_AGG_PKT_LIMIT \<equiv> 0x20"
abbreviation (input) FAST_EDCA_VO_TH :: "'a::numeral" where "FAST_EDCA_VO_TH \<equiv> 6"
abbreviation (input) FAST_EDCA_VI_TH :: "'a::numeral" where "FAST_EDCA_VI_TH \<equiv> 6"
abbreviation (input) FAST_EDCA_BE_TH :: "'a::numeral" where "FAST_EDCA_BE_TH \<equiv> 6"
abbreviation (input) FAST_EDCA_BK_TH :: "'a::numeral" where "FAST_EDCA_BK_TH \<equiv> 6"
abbreviation (input) WLAN_BAR_RETRY_LIMIT :: "'a::one" where "WLAN_BAR_RETRY_LIMIT \<equiv> 1"
abbreviation (input) WLAN_RA_TRY_RATE_AGG_LIMIT :: "'a::numeral" where "WLAN_RA_TRY_RATE_AGG_LIMIT \<equiv> 8"
abbreviation (input) WLAN_TX_FUNC_CFG1 :: "'a::numeral" where "WLAN_TX_FUNC_CFG1 \<equiv> 0x30"
abbreviation (input) WLAN_TX_FUNC_CFG2 :: "'a::numeral" where "WLAN_TX_FUNC_CFG2 \<equiv> 0x30"
abbreviation (input) WLAN_MAC_OPT_NORM_FUNC1 :: "'a::numeral" where "WLAN_MAC_OPT_NORM_FUNC1 \<equiv> 0x98"
abbreviation (input) WLAN_MAC_OPT_FUNC2 :: "'a::numeral" where "WLAN_MAC_OPT_FUNC2 \<equiv> 0xB0810041"
abbreviation (input) WLAN_PRE_TXCNT_TIME_TH :: "'a::numeral" where "WLAN_PRE_TXCNT_TIME_TH \<equiv> 0x1E4"
abbreviation (input) WLAN_SIFS_CFG :: "'a::numeral" where "WLAN_SIFS_CFG \<equiv> 0x10100E0A"
abbreviation (input) WLAN_TBTT_TIME :: "'a::numeral" where "WLAN_TBTT_TIME \<equiv> 0x6404"
abbreviation (input) WLAN_NAV_CFG :: "'a::numeral" where "WLAN_NAV_CFG \<equiv> 0x1B0005"
abbreviation (input) WLAN_RX_TSF_CFG :: "'a::numeral" where "WLAN_RX_TSF_CFG \<equiv> 0x3030"
abbreviation (input) BIT_RXDMA_ARBBW_EN :: "'a::one" where "BIT_RXDMA_ARBBW_EN \<equiv> 1"
abbreviation (input) RTW88_TBL_KIND_MAC :: "'a::one" where "RTW88_TBL_KIND_MAC \<equiv> 1"
abbreviation (input) RTW88_TBL_KIND_BB :: "'a::numeral" where "RTW88_TBL_KIND_BB \<equiv> 2"
abbreviation (input) RTW88_TBL_KIND_AGC :: "'a::numeral" where "RTW88_TBL_KIND_AGC \<equiv> 3"
abbreviation (input) RTW88_TBL_KIND_RF_A :: "'a::numeral" where "RTW88_TBL_KIND_RF_A \<equiv> 4"
abbreviation (input) RTW88_PHY_COND_BIT_POS :: "'a::numeral" where "RTW88_PHY_COND_BIT_POS \<equiv> 0x80000000"
abbreviation (input) RTW88_PHY_COND_BIT_NEG :: "'a::numeral" where "RTW88_PHY_COND_BIT_NEG \<equiv> 0x40000000"
abbreviation (input) RTW88_PHY_COND_BRANCH_IF :: "'a::zero" where "RTW88_PHY_COND_BRANCH_IF \<equiv> 0"
abbreviation (input) RTW88_PHY_COND_BRANCH_ELIF :: "'a::one" where "RTW88_PHY_COND_BRANCH_ELIF \<equiv> 1"
abbreviation (input) RTW88_PHY_COND_BRANCH_ELSE :: "'a::numeral" where "RTW88_PHY_COND_BRANCH_ELSE \<equiv> 2"
abbreviation (input) RTW88_PHY_COND_BRANCH_ENDIF :: "'a::numeral" where "RTW88_PHY_COND_BRANCH_ENDIF \<equiv> 3"
abbreviation (input) RTW88_INTF_USB :: "'a::numeral" where "RTW88_INTF_USB \<equiv> 2"
abbreviation (input) RTW88_RF_SIPI_ADDR_A :: "'a::numeral" where "RTW88_RF_SIPI_ADDR_A \<equiv> 0xC90"
abbreviation (input) RTW88_RF_REG_ADDR_MASK :: "'a::numeral" where "RTW88_RF_REG_ADDR_MASK \<equiv> 0xFF"
abbreviation (input) RTW88_RF_DATA_MASK :: "'a::numeral" where "RTW88_RF_DATA_MASK \<equiv> 0xFFFFF"
abbreviation (input) RTW88_BF_REG_TXBF_CTRL :: "'a::numeral" where "RTW88_BF_REG_TXBF_CTRL \<equiv> 0x42C"
abbreviation (input) RTW88_BF_REG_NDPA_OPT_CTRL :: "'a::numeral" where "RTW88_BF_REG_NDPA_OPT_CTRL \<equiv> 0x45F"
abbreviation (input) RTW88_BF_REG_BBPSF_CTRL :: "'a::numeral" where "RTW88_BF_REG_BBPSF_CTRL \<equiv> 0x6DC"
abbreviation (input) RTW88_BF_REG_MU_TX_CTL :: "'a::numeral" where "RTW88_BF_REG_MU_TX_CTL \<equiv> 0x14C0"
abbreviation (input) RTW88_BF_REG_WMAC_MU_BF_OPTION :: "'a::numeral" where "RTW88_BF_REG_WMAC_MU_BF_OPTION \<equiv> 0x167C"
abbreviation (input) RTW88_BF_REG_WMAC_MU_BF_CTL :: "'a::numeral" where "RTW88_BF_REG_WMAC_MU_BF_CTL \<equiv> 0x1680"
abbreviation (input) RTW88_BF_REG_GROUPING_BITMAP_8821C :: "'a::numeral" where "RTW88_BF_REG_GROUPING_BITMAP_8821C \<equiv> 0x1C94"
abbreviation (input) RTW88_BF_BIT_USE_NDPA_PARAMETER :: "'a::numeral" where "RTW88_BF_BIT_USE_NDPA_PARAMETER \<equiv> 0x40000000"
abbreviation (input) RTW88_BF_BIT_MU_P1_WAIT_STATE_EN :: "'a::numeral" where "RTW88_BF_BIT_MU_P1_WAIT_STATE_EN \<equiv> 0x10000"
abbreviation (input) RTW88_BF_BIT_EN_MU_MIMO :: "'a::numeral" where "RTW88_BF_BIT_EN_MU_MIMO \<equiv> 0x80"
abbreviation (input) RTW88_BF_BIT_WMAC_TXMU_ACKPOLICY_EN :: "'a::numeral" where "RTW88_BF_BIT_WMAC_TXMU_ACKPOLICY_EN \<equiv> 0x40"
abbreviation (input) RTW88_BF_BIT_SHIFT_R_MU_RL :: "'a::numeral" where "RTW88_BF_BIT_SHIFT_R_MU_RL \<equiv> 0xC"
abbreviation (input) RTW88_BF_BIT_MASK_R_MU_RL :: "'a::numeral" where "RTW88_BF_BIT_MASK_R_MU_RL \<equiv> 0xF000"
abbreviation (input) RTW88_BF_BIT_MASK_R_MU_TABLE_VALID :: "'a::numeral" where "RTW88_BF_BIT_MASK_R_MU_TABLE_VALID \<equiv> 0x3F"
abbreviation (input) RTW88_BF_BIT_SHIFT_CSI_RATE :: "'a::numeral" where "RTW88_BF_BIT_SHIFT_CSI_RATE \<equiv> 0x18"
abbreviation (input) RTW88_BF_BIT_MASK_CSI_RATE :: "'a::numeral" where "RTW88_BF_BIT_MASK_CSI_RATE \<equiv> 0x3F000000"
abbreviation (input) RTW88_BF_BIT_SHIFT_WMAC_TXMU_ACKPOLICY :: "'a::numeral" where "RTW88_BF_BIT_SHIFT_WMAC_TXMU_ACKPOLICY \<equiv> 4"
abbreviation (input) RTW88_BF_DESC_RATE6M :: "'a::numeral" where "RTW88_BF_DESC_RATE6M \<equiv> 4"

end
