(* ===== verification/Rtw_Fifo.thy ===== *)
theory Rtw_Fifo
  imports Rtw_Consts
begin

section \<open>The layout of the transmit FIFO\<close>

text \<open>
  The page counts and page addresses of \<^verbatim>\<open>if_rtw88_usb.c\<close> that divide the 64 KiB transmit FIFO of the chip into 128-byte pages for the
  queues and the reserved areas of driver and firmware, by the expressions of the macros.
\<close>

definition RTW88_TX_PAGE_SIZE_SHIFT :: nat where
  "RTW88_TX_PAGE_SIZE_SHIFT = 7"

definition RTW88_TXFF_SIZE :: nat where
  "RTW88_TXFF_SIZE = 65536"

definition RTW88_TXFF_PG_NUM :: nat where
  "RTW88_TXFF_PG_NUM = drop_bit RTW88_TX_PAGE_SIZE_SHIFT RTW88_TXFF_SIZE"

definition RTW88_RSVD_DRV_PG_NUM :: nat where
  "RTW88_RSVD_DRV_PG_NUM = 8"

definition RTW88_RSVD_H2C_EXTRAINFO_NUM :: nat where
  "RTW88_RSVD_H2C_EXTRAINFO_NUM = 24"

definition RTW88_RSVD_H2C_STATICINFO_NUM :: nat where
  "RTW88_RSVD_H2C_STATICINFO_NUM = 8"

definition RTW88_RSVD_H2CQ_NUM :: nat where
  "RTW88_RSVD_H2CQ_NUM = 8"

definition RTW88_RSVD_CPU_INSTR_NUM :: nat where
  "RTW88_RSVD_CPU_INSTR_NUM = 0"

definition RTW88_RSVD_FW_TXBUF_NUM :: nat where
  "RTW88_RSVD_FW_TXBUF_NUM = 4"

definition RTW88_CSI_BUF_PG_NUM :: nat where
  "RTW88_CSI_BUF_PG_NUM = 0"

definition RTW88_RSVD_PG_NUM :: nat where
  "RTW88_RSVD_PG_NUM = RTW88_RSVD_DRV_PG_NUM + RTW88_RSVD_H2C_EXTRAINFO_NUM + RTW88_RSVD_H2C_STATICINFO_NUM +
     RTW88_RSVD_H2CQ_NUM + RTW88_RSVD_CPU_INSTR_NUM + RTW88_RSVD_FW_TXBUF_NUM + RTW88_CSI_BUF_PG_NUM"

definition RTW88_ACQ_PG_NUM :: nat where
  "RTW88_ACQ_PG_NUM = RTW88_TXFF_PG_NUM - RTW88_RSVD_PG_NUM"

definition RTW88_RSVD_BOUNDARY :: nat where
  "RTW88_RSVD_BOUNDARY = RTW88_ACQ_PG_NUM"

definition RTW88_RSVD_CSIBUF_ADDR :: nat where
  "RTW88_RSVD_CSIBUF_ADDR = RTW88_TXFF_PG_NUM - RTW88_CSI_BUF_PG_NUM"

definition RTW88_RSVD_FW_TXBUF_ADDR :: nat where
  "RTW88_RSVD_FW_TXBUF_ADDR = RTW88_RSVD_CSIBUF_ADDR - RTW88_RSVD_FW_TXBUF_NUM"

definition RTW88_RSVD_CPU_INSTR_ADDR :: nat where
  "RTW88_RSVD_CPU_INSTR_ADDR = RTW88_RSVD_FW_TXBUF_ADDR - RTW88_RSVD_CPU_INSTR_NUM"

definition RTW88_RSVD_H2CQ_ADDR :: nat where
  "RTW88_RSVD_H2CQ_ADDR = RTW88_RSVD_CPU_INSTR_ADDR - RTW88_RSVD_H2CQ_NUM"

definition RTW88_RSVD_H2C_STA_ADDR :: nat where
  "RTW88_RSVD_H2C_STA_ADDR = RTW88_RSVD_H2CQ_ADDR - RTW88_RSVD_H2C_STATICINFO_NUM"

definition RTW88_RSVD_H2C_INFO_ADDR :: nat where
  "RTW88_RSVD_H2C_INFO_ADDR = RTW88_RSVD_H2C_STA_ADDR - RTW88_RSVD_H2C_EXTRAINFO_NUM"

definition RTW88_RSVD_DRV_ADDR :: nat where
  "RTW88_RSVD_DRV_ADDR = RTW88_RSVD_H2C_INFO_ADDR - RTW88_RSVD_DRV_PG_NUM"

definition RTW88_PG_HQ_NUM :: nat where
  "RTW88_PG_HQ_NUM = 16"

definition RTW88_PG_NQ_NUM :: nat where
  "RTW88_PG_NQ_NUM = 16"

definition RTW88_PG_LQ_NUM :: nat where
  "RTW88_PG_LQ_NUM = 16"

definition RTW88_PG_EXQ_NUM :: nat where
  "RTW88_PG_EXQ_NUM = 0"

definition RTW88_PG_GAPQ_NUM :: nat where
  "RTW88_PG_GAPQ_NUM = 1"

definition RTW88_PG_PUBQ_NUM :: nat where
  "RTW88_PG_PUBQ_NUM = RTW88_ACQ_PG_NUM - RTW88_PG_HQ_NUM - RTW88_PG_NQ_NUM - RTW88_PG_LQ_NUM -
     RTW88_PG_EXQ_NUM - RTW88_PG_GAPQ_NUM"

lemmas fifo_layout = RTW88_TX_PAGE_SIZE_SHIFT_def RTW88_TXFF_SIZE_def RTW88_TXFF_PG_NUM_def RTW88_RSVD_DRV_PG_NUM_def 
  RTW88_RSVD_H2C_EXTRAINFO_NUM_def RTW88_RSVD_H2C_STATICINFO_NUM_def RTW88_RSVD_H2CQ_NUM_def RTW88_RSVD_CPU_INSTR_NUM_def RTW88_RSVD_FW_TXBUF_NUM_def RTW88_CSI_BUF_PG_NUM_def 
  RTW88_RSVD_PG_NUM_def RTW88_ACQ_PG_NUM_def RTW88_RSVD_BOUNDARY_def RTW88_RSVD_CSIBUF_ADDR_def RTW88_RSVD_FW_TXBUF_ADDR_def 
  RTW88_RSVD_CPU_INSTR_ADDR_def RTW88_RSVD_H2CQ_ADDR_def RTW88_RSVD_H2C_STA_ADDR_def RTW88_RSVD_H2C_INFO_ADDR_def RTW88_RSVD_DRV_ADDR_def 
  RTW88_PG_HQ_NUM_def RTW88_PG_NQ_NUM_def RTW88_PG_LQ_NUM_def RTW88_PG_EXQ_NUM_def RTW88_PG_GAPQ_NUM_def RTW88_PG_PUBQ_NUM_def

lemma fifo_numbers:
  "RTW88_TXFF_PG_NUM = 512" "RTW88_RSVD_PG_NUM = 52" "RTW88_RSVD_BOUNDARY = 460" "RTW88_PG_PUBQ_NUM = 411"
  "RTW88_RSVD_DRV_ADDR = 460" "RTW88_RSVD_H2C_INFO_ADDR = 468" "RTW88_RSVD_H2C_STA_ADDR = 492" "RTW88_RSVD_H2CQ_ADDR = 500"
  "RTW88_RSVD_CPU_INSTR_ADDR = 508" "RTW88_RSVD_FW_TXBUF_ADDR = 508" "RTW88_RSVD_CSIBUF_ADDR = 512"
  by (simp_all add: fifo_layout drop_bit_eq_div)

lemmas fifo_pages = RTW88_PG_HQ_NUM_def RTW88_PG_NQ_NUM_def RTW88_PG_LQ_NUM_def RTW88_PG_EXQ_NUM_def RTW88_PG_GAPQ_NUM_def
  RTW88_RSVD_DRV_PG_NUM_def RTW88_RSVD_H2C_EXTRAINFO_NUM_def RTW88_RSVD_H2C_STATICINFO_NUM_def RTW88_RSVD_H2CQ_NUM_def
  RTW88_RSVD_CPU_INSTR_NUM_def RTW88_RSVD_FW_TXBUF_NUM_def RTW88_CSI_BUF_PG_NUM_def

end
