(* ===== verification/Rtw_H2c.thy ===== *)
theory Rtw_H2c
  imports Rtw_Fw Rtw_Fifo
begin

section \<open>Commands to the firmware\<close>

text \<open>
  The commands that \<^verbatim>\<open>if_rtw88_usb.c\<close> sends to the firmware: the eight-byte messages of the mailbox, the
  32-byte packets of the command queue, and the reserved pages with the frame templates the
  firmware sends on its own. The functions named as in \<^verbatim>\<open>rtw88_ps.c\<close> have the suffix \<open>_usb\<close>.
\<close>

abbreviation (input) H2C_CMD_KEEP_ALIVE :: "'a::numeral" where "H2C_CMD_KEEP_ALIVE \<equiv> 0x03"
abbreviation (input) H2C_CMD_DEFAULT_PORT :: "'a::numeral" where "H2C_CMD_DEFAULT_PORT \<equiv> 0x2c"
abbreviation (input) H2C_CMD_RSVD_PAGE :: "'a::zero" where "H2C_CMD_RSVD_PAGE \<equiv> 0"
abbreviation (input) RTW88_RSVD_TOTAL_BYTES :: nat where "RTW88_RSVD_TOTAL_BYTES \<equiv> 464"
abbreviation (input) RTW88_RSVD_PAGE0_BYTES :: nat where "RTW88_RSVD_PAGE0_BYTES \<equiv> 80"
abbreviation (input) RTW88_RSVD_PAGE_BYTES :: nat where "RTW88_RSVD_PAGE_BYTES \<equiv> 128"

subsection \<open>Mailbox messages\<close>

definition wl_ch_info_msg :: "u8 \<Rightarrow> u8 \<Rightarrow> u8 \<Rightarrow> u32" where
  "wl_ch_info_msg link channel bw =
     H2C_CMD_WL_CH_INFO OR push_bit 8 (ucast link) OR push_bit 16 (ucast channel) OR push_bit 24 (ucast bw)"

definition rtw88_h2c_wl_ch_info :: "'c chip_ops \<Rightarrow> u8 \<Rightarrow> u8 \<Rightarrow> u8 \<Rightarrow> (('c, 'z) hw_scheme, unit) cm" where
  "rtw88_h2c_wl_ch_info C link channel bw = rtw88_h2c_mailbox C (wl_ch_info_msg link channel bw) 0"

definition rtw88_h2c_pwr_mode_active_usb :: "'c chip_ops \<Rightarrow> (('c, 'z) hw_scheme, unit) cm" where
  "rtw88_h2c_pwr_mode_active_usb C =
     rtw88_h2c_mailbox C (H2C_CMD_SET_PWR_MODE OR push_bit 8 0 OR push_bit 16 0 OR push_bit 20 0 OR push_bit 24 1)
       (push_bit 5 0 OR push_bit 8 0x0c)"

definition rtw88_h2c_pwr_mode_lps_usb :: "'c chip_ops \<Rightarrow> u8 \<Rightarrow> (('c, 'z) hw_scheme, unit) cm" where
  "rtw88_h2c_pwr_mode_lps_usb C awake_interval =
     rtw88_h2c_mailbox C
       (H2C_CMD_SET_PWR_MODE OR push_bit 8 1 OR push_bit 16 1 OR push_bit 20 2 OR push_bit 24 (ucast awake_interval))
       (push_bit 5 0 OR push_bit 8 0x04)"

definition media_status_msg :: "u8 \<Rightarrow> bool \<Rightarrow> u32" where
  "media_status_msg macid connect =
     H2C_CMD_MEDIA_STATUS_RPT OR push_bit 8 (b2w connect) OR push_bit 16 (ucast macid)"

definition rtw88_h2c_media_status_report :: "'c chip_ops \<Rightarrow> u8 \<Rightarrow> bool \<Rightarrow> (('c, 'z) hw_scheme, unit) cm" where
  "rtw88_h2c_media_status_report C macid connect = rtw88_h2c_mailbox C (media_status_msg macid connect) 0"

text \<open>The parameters of a rate-adaptation command.\<close>

record ra_params =
  ra_mac_id :: u8
  ra_rate_id :: u8
  ra_bw_mode :: u8
  ra_init_lvl :: u8
  ra_sgi :: bool
  ra_ldpc :: bool
  ra_vht :: u8
  ra_no_update :: bool
  ra_rate_mask :: u32

definition ra_info_msg :: "ra_params \<Rightarrow> u32" where
  "ra_info_msg p =
     H2C_CMD_RA_INFO OR push_bit 8 (ucast (ra_mac_id p)) OR push_bit 16 (ucast (ra_rate_id p AND 0x1F)) OR
     push_bit 21 (ucast (ra_init_lvl p AND 0x3)) OR push_bit 23 (b2w (ra_sgi p)) OR
     push_bit 24 (ucast (ra_bw_mode p AND 0x3)) OR push_bit 26 (b2w (ra_ldpc p)) OR
     push_bit 27 (b2w (ra_no_update p)) OR push_bit 28 (ucast (ra_vht p AND 0x3)) OR push_bit 30 1"

definition rtw88_h2c_ra_info :: "'c chip_ops \<Rightarrow> ra_params \<Rightarrow> (('c, 'z) hw_scheme, unit) cm" where
  "rtw88_h2c_ra_info C p = rtw88_h2c_mailbox C (ra_info_msg p) (ra_rate_mask p)"

definition rtw88_h2c_keep_alive :: "'c chip_ops \<Rightarrow> bool \<Rightarrow> (('c, 'z) hw_scheme, unit) cm" where
  "rtw88_h2c_keep_alive C enable =
     rtw88_h2c_mailbox C (H2C_CMD_KEEP_ALIVE OR push_bit 8 (b2w enable)) (if enable then 0x02000000 else 0)"

definition rtw88_h2c_default_port :: "'c chip_ops \<Rightarrow> u8 \<Rightarrow> u8 \<Rightarrow> (('c, 'z) hw_scheme, unit) cm" where
  "rtw88_h2c_default_port C portid macid =
     rtw88_h2c_mailbox C (H2C_CMD_DEFAULT_PORT OR push_bit 8 (ucast portid) OR push_bit 16 (ucast macid)) 0"

definition rsvd_page_msg :: u32 where
  "rsvd_page_msg = H2C_CMD_RSVD_PAGE OR push_bit 8 0 OR push_bit 16 1 OR push_bit 24 3"

definition rsvd_page_ext :: u32 where
  "rsvd_page_ext = 2"

definition rtw88_h2c_rsvd_page :: "'c chip_ops \<Rightarrow> (('c, 'z) hw_scheme, unit) cm" where
  "rtw88_h2c_rsvd_page C = rtw88_h2c_mailbox C rsvd_page_msg rsvd_page_ext"

lemma keeps_h2c_commands [keeps_intros]:
  "keeps (on_bus n k z L) is_errno (rtw88_h2c_wl_ch_info C a b c)"
  "keeps (on_bus n k z L) is_errno (rtw88_h2c_pwr_mode_active_usb C)"
  "keeps (on_bus n k z L) is_errno (rtw88_h2c_pwr_mode_lps_usb C a)"
  "keeps (on_bus n k z L) is_errno (rtw88_h2c_media_status_report C a on)"
  "keeps (on_bus n k z L) is_errno (rtw88_h2c_ra_info C p)"
  "keeps (on_bus n k z L) is_errno (rtw88_h2c_keep_alive C on)"
  "keeps (on_bus n k z L) is_errno (rtw88_h2c_default_port C a b)"
  "keeps (on_bus n k z L) is_errno (rtw88_h2c_rsvd_page C)"
  unfolding rtw88_h2c_wl_ch_info_def rtw88_h2c_pwr_mode_active_usb_def rtw88_h2c_pwr_mode_lps_usb_def
    rtw88_h2c_media_status_report_def rtw88_h2c_ra_info_def rtw88_h2c_keep_alive_def
    rtw88_h2c_default_port_def rtw88_h2c_rsvd_page_def
  by (intro keeps_intros)+

lemma bulk_tx_sync_phy: "rtw88_bulk_tx_sync C pipe data s = (r, s') \<Longrightarrow> sc_phy s' = sc_phy s"
  by (auto simp: rtw88_bulk_tx_sync_def usbd_bulk_def RTW88_ASSERT_LOCKED_def seqE_def tryE_def
      split: if_splits prod.splits xfer_end.splits)

subsection \<open>Reserved pages\<close>

text \<open>
  The buffer behind the descriptor: page 0 is what the descriptor leaves of the first 128 bytes, then one page
  each for the PS-Poll, QoS Null and Null frames.
\<close>

definition rsvd_pages :: "u8 list \<Rightarrow> u8 list \<Rightarrow> u8 list" where
  "rsvd_pages ap mac =
     blit (RTW88_RSVD_PAGE0_BYTES + 2 * RTW88_RSVD_PAGE_BYTES) ([0x48, 0x01, 0, 0] @ ap @ mac @ ap)
     (blit (RTW88_RSVD_PAGE0_BYTES + 1 * RTW88_RSVD_PAGE_BYTES) ([0xC8, 0x01, 0, 0] @ ap @ mac @ ap)
     (blit (RTW88_RSVD_PAGE0_BYTES + 0 * RTW88_RSVD_PAGE_BYTES) ([0xA4, 0x00, 0x00, 0xC0] @ ap @ mac)
     (replicate RTW88_RSVD_TOTAL_BYTES 0)))"

definition rtw88_upload_rsvd_pages :: "'c chip_ops \<Rightarrow> u8 list \<Rightarrow> ('c softc, unit) cm" where
  "rtw88_upload_rsvd_pages C ap =
     seqE RTW88_ASSERT_LOCKED
     (tryE (getS (\<lambda>s. rsvd_pages ap (sc_mac (sc_phy s)))) (\<lambda>buf.
      tryE (attempt (rtw88_send_firmware_pkt C (of_nat RTW88_RSVD_DRV_ADDR) (of_nat (length buf)) buf 0)) (\<lambda>r.
      seqE (discard (tryE (rtw88_usb_read1 C (REG_CR + 1)) (\<lambda>cr1.
              discard (rtw88_usb_write1 C (REG_CR + 1) (cr1 AND NOT (ucast (drop_bit 8 (BIT_ENSWBCN :: u32))))))))
       (case r of Inl e \<Rightarrow> fail (Errno e) | Inr _ \<Rightarrow> ret ()))))"

subsection \<open>Packets of the command queue\<close>

abbreviation (input) RTW88_H2C_PKT_SIZE :: nat where "RTW88_H2C_PKT_SIZE \<equiv> 32"
abbreviation (input) RTW88_H2C_PKT_HDR_SIZE :: nat where "RTW88_H2C_PKT_HDR_SIZE \<equiv> 8"
abbreviation (input) RTW88_H2C_PKT_CATEGORY :: "'a::one" where "RTW88_H2C_PKT_CATEGORY \<equiv> 1"
abbreviation (input) RTW88_H2C_PKT_CMD_ID :: "'a::numeral" where "RTW88_H2C_PKT_CMD_ID \<equiv> 0xFF"
abbreviation (input) RTW88_H2C_SUB_IQK :: u8 where "RTW88_H2C_SUB_IQK \<equiv> 0x0E"
abbreviation (input) RTW88_H2C_SUB_GENERAL_INFO :: u8 where "RTW88_H2C_SUB_GENERAL_INFO \<equiv> 0x0D"
abbreviation (input) RTW88_H2C_SUB_PHYDM_INFO :: u8 where "RTW88_H2C_SUB_PHYDM_INFO \<equiv> 0x11"
abbreviation (input) RTW88_FW_RF_1T1R :: "'a::numeral" where "RTW88_FW_RF_1T1R \<equiv> 4"

definition h2c_hdr0 :: "u8 \<Rightarrow> u32" where
  "h2c_hdr0 sub = (RTW88_H2C_PKT_CATEGORY AND 0x7F) OR push_bit 8 RTW88_H2C_PKT_CMD_ID OR push_bit 16 (ucast sub)"

definition h2c_pkt :: "u8 \<Rightarrow> u8 list \<Rightarrow> u8 list" where
  "h2c_pkt sub body =
     blit RTW88_H2C_PKT_HDR_SIZE body
     (blit 4 (le32enc (of_nat (RTW88_H2C_PKT_HDR_SIZE + length body)))
     (blit 0 (le32enc (h2c_hdr0 sub)) (replicate RTW88_H2C_PKT_SIZE 0)))"

definition h2c_desc :: "u8 list" where
  "h2c_desc = txdesc_seal
     (blit 4 (le32enc (push_bit RTW88_TXD_W1_QSEL_S TX_DESC_QSEL_H2C))
     (blit 0 (le32enc (of_nat RTW88_H2C_PKT_SIZE AND 0xFFFF)) (replicate RTW88_TX_PKT_DESC_SZ 0)))"

definition rtw88_h2c_packet :: "'c chip_ops \<Rightarrow> u8 \<Rightarrow> u8 list \<Rightarrow> ('c softc, unit) cm" where
  "rtw88_h2c_packet C sub body =
     seqE RTW88_ASSERT_LOCKED
     (if length body > RTW88_H2C_PKT_SIZE - RTW88_H2C_PKT_HDR_SIZE then fail (Errno EINVAL)
      else rtw88_bulk_tx_sync C RTW88_BULK_TX_H2C (h2c_desc @ h2c_pkt sub body))"

definition rtw88_fw_do_iqk :: "'c chip_ops \<Rightarrow> bool \<Rightarrow> ('c softc, unit) cm" where
  "rtw88_fw_do_iqk C segment = rtw88_h2c_packet C RTW88_H2C_SUB_IQK [if segment then 0x02 else 0x00]"

definition rtw88_h2c_general_info :: "'c chip_ops \<Rightarrow> ('c softc, unit) cm" where
  "rtw88_h2c_general_info C = rtw88_h2c_packet C RTW88_H2C_SUB_GENERAL_INFO (le32enc (push_bit 16 0x30))"

definition phydm_info_word :: "phy_softc \<Rightarrow> u32" where
  "phydm_info_word p =
     (ucast (sc_rfe_option p) AND 0xFF) OR push_bit 8 RTW88_FW_RF_1T1R OR push_bit 16 (ucast (sc_cut_version p)) OR
     push_bit 24 1 OR push_bit 28 1"

definition rtw88_h2c_phydm_info :: "'c chip_ops \<Rightarrow> ('c softc, unit) cm" where
  "rtw88_h2c_phydm_info C = tryE (getS (phydm_info_word \<circ> sc_phy)) (\<lambda>w2.
     rtw88_h2c_packet C RTW88_H2C_SUB_PHYDM_INFO (le32enc w2 @ le32enc 0))"


subsection \<open>Functions that change the softc\<close>

text \<open>
  \<open>on_tape n k L\<close>: a thread on the bus, whatever its softc holds, whose requests extend \<open>L\<close>. \<open>taped n k m\<close>: the function
  keeps that, and \<open>does n k Q m\<close>: each of its runs that succeeds issues a request with \<open>Q\<close>.
\<close>

definition on_tape :: "nat \<Rightarrow> bool \<Rightarrow> ep0_req list \<Rightarrow> ('c, 'z) hw_scheme \<Rightarrow> bool" where
  "on_tape n k L s \<longleftrightarrow> on_line n k s \<and> (\<exists>xs. ep0_log s = L @ xs)"

lemma on_tape_line: "on_tape n k (ep0_log s) s \<longleftrightarrow> on_line n k s"
  by (simp add: on_tape_def)

lemma on_tape_bus: "on_tape n k L s \<longleftrightarrow> on_bus n k (hw.more s) L s"
  by (auto simp: on_tape_def on_bus_def on_line_def)

lemma keeps_tape:
  assumes "\<And>z. keeps (on_bus n k z L) F m"
  shows "keeps (on_tape n k L) F m"
proof (rule keepsI)
  fix s r s' assume s: "on_tape n k L s" and m: "m s = (r, s')"
  from keepsD [OF assms s [unfolded on_tape_bus] m] show "on_tape n k L s' \<and> (\<forall>e. r = Inl e \<longrightarrow> F e)"
    by (auto simp: on_tape_def on_bus_def on_line_def)
qed

lemma keeps_line:
  assumes "\<And>L. keeps (on_tape n k L) F m"
  shows "keeps (on_line n k) F m"
proof (rule keepsI)
  fix s r s' assume s: "on_line n k s" and m: "m s = (r, s')"
  from keepsD [OF assms on_tape_line [THEN iffD2, OF s] m] show "on_line n k s' \<and> (\<forall>e. r = Inl e \<longrightarrow> F e)"
    by (simp add: on_tape_def)
qed

text \<open>\<open>locked m\<close> is \<^verbatim>\<open>RTW88_LOCK(sc); ... goto out; ... out: RTW88_UNLOCK(sc); return (error);\<close>.\<close>

definition locked :: "(('c, 'z) hw_scheme, 'a) cm \<Rightarrow> (('c, 'z) hw_scheme, 'a) cm" where
  "locked m = seqE RTW88_LOCK (tryE (attempt m) (\<lambda>r.
     seqE RTW88_UNLOCK (case r of Inl e \<Rightarrow> fail (Errno e) | Inr v \<Rightarrow> ret v)))"

lemma locked_run:
  assumes "mtx_depth s = 0" "\<not> sc_io_busy s" "keeps (on_line 0 (invariants s)) is_errno m" "locked m s = (r, s')"
  obtains s1 where "m (s\<lparr>mtx_depth := 1\<rparr>) = (r, s1)" "on_line 0 (invariants s) s1" "s' = s1\<lparr>mtx_depth := 0\<rparr>"
proof -
  have line: "on_line 0 (invariants s) (s\<lparr>mtx_depth := 1\<rparr>)" using assms(2) by (simp add: on_line_def)
  obtain r1 s1 where m: "m (s\<lparr>mtx_depth := 1\<rparr>) = (r1, s1)" by fastforce
  from keepsD [OF assms(3) line m] have 1: "on_line 0 (invariants s) s1" "\<forall>e. r1 = Inl e \<longrightarrow> is_errno e" by auto
  have lock: "RTW88_LOCK s = (Inr (), s\<lparr>mtx_depth := 1\<rparr>)" using assms(1) by (simp add: RTW88_LOCK_def)
  have unlock: "RTW88_UNLOCK s1 = (Inr (), s1\<lparr>mtx_depth := 0\<rparr>)" using 1(1) by (simp add: RTW88_UNLOCK_def on_line_def)
  have "r1 = r \<and> s' = s1\<lparr>mtx_depth := 0\<rparr>"
  proof (cases r1)
    case (Inl f)
    with 1(2) obtain e where "f = Errno e" by (cases f) auto
    with Inl assms(4) lock unlock m show ?thesis by (simp add: locked_def)
  next
    case (Inr v)
    with assms(4) lock unlock m show ?thesis by (simp add: locked_def)
  qed
  with m 1(1) show thesis by (intro that) auto
qed

definition taped :: "nat \<Rightarrow> bool \<Rightarrow> (('c, 'z) hw_scheme, 'a) cm \<Rightarrow> bool" where
  "taped n k m \<longleftrightarrow> (\<forall>L. keeps (on_tape n k L) (\<lambda>_. True) m)"

lemma taped_quiet: "(\<And>z L. keeps (on_bus n k z L) F m) \<Longrightarrow> taped n k m"
  unfolding taped_def by (intro allI keeps_tape) (rule keeps_weaken, assumption, simp)

lemma tapedD:
  assumes "taped n k m" "on_line n k s" "m s = (r, s')"
  shows "on_line n k s' \<and> (\<exists>xs. ep0_log s' = ep0_log s @ xs)"
  using keepsD [OF assms(1) [unfolded taped_def, rule_format, of "ep0_log s"] _ assms(3)] assms(2)
  by (auto simp: on_tape_def)

definition wrote :: "(ep0_req \<Rightarrow> bool) \<Rightarrow> ('c, 'z) hw_scheme \<Rightarrow> ('c, 'z) hw_scheme \<Rightarrow> bool" where
  "wrote Q s s' \<longleftrightarrow> (\<exists>xs x ys. ep0_log s' = ep0_log s @ xs @ x # ys \<and> Q x)"

lemma wroteI: "ep0_log s' = ep0_log s @ x # ys \<Longrightarrow> Q x \<Longrightarrow> wrote Q s s'"
  unfolding wrote_def by (rule exI [of _ "[]"]) auto

definition does :: "nat \<Rightarrow> bool \<Rightarrow> (ep0_req \<Rightarrow> bool) \<Rightarrow> (('c, 'z) hw_scheme, 'a) cm \<Rightarrow> bool" where
  "does n k Q m \<longleftrightarrow> (\<forall>s v s'. on_line n k s \<and> m s = (Inr v, s') \<longrightarrow> wrote Q s s')"

lemma does_tryE:
  assumes "taped n k m" "\<And>v. does n k Q (f v)"
  shows "does n k Q (tryE m f)"
  unfolding does_def
proof (intro allI impI, elim conjE)
  fix s v s' assume s: "on_line n k s" and run: "tryE m f s = (Inr v, s')"
  from run obtain x s1 where 1: "m s = (Inr x, s1)" "f x s1 = (Inr v, s')" by (rule tryE_Inr_elim)
  from tapedD [OF assms(1) s 1(1)] obtain xs where "on_line n k s1" "ep0_log s1 = ep0_log s @ xs" by blast
  moreover from this(1) 1(2) assms(2) have "wrote Q s1 s'" unfolding does_def by blast
  ultimately show "wrote Q s s'" unfolding wrote_def by (metis append_assoc)
qed

lemma does_seqE: "taped n k m \<Longrightarrow> does n k Q j \<Longrightarrow> does n k Q (seqE m j)"
  unfolding seqE_def by (rule does_tryE)

lemma does_seqE_first:
  assumes "does n k Q m" "taped n k m" "taped n k j"
  shows "does n k Q (seqE m j)"
  unfolding does_def
proof (intro allI impI, elim conjE)
  fix s v s' assume s: "on_line n k s" and run: "seqE m j s = (Inr v, s')"
  from run obtain s1 where 1: "m s = (Inr (), s1)" "j s1 = (Inr v, s')" by (rule seqE_Inr_elim)
  from s 1(1) assms(1) have "wrote Q s s1" unfolding does_def by blast
  moreover from tapedD [OF assms(2) s 1(1)] have "on_line n k s1" by blast
  with tapedD [OF assms(3) _ 1(2)] obtain xs where "ep0_log s' = ep0_log s1 @ xs" by blast
  ultimately show "wrote Q s s'" unfolding wrote_def by (metis append.assoc append_Cons)
qed

lemma does_write4:
  assumes "Q (EpWrite a (le32enc v))"
  shows "does n k Q (rtw88_usb_write4 C a v)"
  unfolding does_def
proof (intro allI impI, elim conjE)
  fix s u s' assume s: "on_line n k s" and run: "rtw88_usb_write4 C a v s = (Inr u, s')"
  obtain ok c where c: "c_write C a (le32enc v) (chip s) = (ok, c)" by fastforce
  from s have o: "mtx_depth s \<noteq> 0" "\<not> sc_io_busy s" by (simp_all add: on_line_def)
  show "wrote Q s s'"
    using run write_region_err [OF o, of C a "le32enc v" c] write_region_ok [OF o, of C a "le32enc v" c] c assms
    by (cases ok) (auto simp: rtw88_usb_write4_def sealed_log intro!: wroteI)
qed

lemma does_mono: "does n k P m \<Longrightarrow> (\<And>x. P x \<Longrightarrow> Q x) \<Longrightarrow> does n k Q m"
  unfolding does_def wrote_def by metis

subsection \<open>What the firmware reads\<close>

lemma bit_u8_high: "8 \<le> n \<Longrightarrow> \<not> bit (w :: u8) n"
  using bit_imp_le_length [of w n] by auto

lemma ra_info_bytes:
  "ucast (ra_info_msg p) = (H2C_CMD_RA_INFO :: u8)"
  "ucast (drop_bit 8 (ra_info_msg p)) = ra_mac_id p"
  "take_bit 5 (ucast (drop_bit 16 (ra_info_msg p)) :: u8) = take_bit 5 (ra_rate_id p)"
  "take_bit 2 (drop_bit 5 (ucast (drop_bit 16 (ra_info_msg p)) :: u8)) = take_bit 2 (ra_init_lvl p)"
  "bit (ucast (drop_bit 16 (ra_info_msg p)) :: u8) 7 = ra_sgi p"
  "take_bit 2 (ucast (drop_bit 24 (ra_info_msg p)) :: u8) = take_bit 2 (ra_bw_mode p)"
  "bit (ucast (drop_bit 24 (ra_info_msg p)) :: u8) 2 = ra_ldpc p"
  "bit (ucast (drop_bit 24 (ra_info_msg p)) :: u8) 3 = ra_no_update p"
  "take_bit 2 (drop_bit 4 (ucast (drop_bit 24 (ra_info_msg p)) :: u8)) = take_bit 2 (ra_vht p)"
  "bit (ucast (drop_bit 24 (ra_info_msg p)) :: u8) 6"
  "\<not> bit (ucast (drop_bit 24 (ra_info_msg p)) :: u8) 7"
  by ((rule bit_word_eqI)?, simp add: ra_info_msg_def bit_simps; auto simp: less_Suc_eq numeral_eq_Suc bit_u8_high)+

text \<open>C31. Rate-adaptation commands carry their parameters. When the command succeeds, the last two requests on EP0 write the
  rate mask to the extension word of a box and then four bytes to the box, from which every parameter can be read
  back at its place: the command number, the peer, the low five bits of the rate set, the low two bits of level, bandwidth and
  VHT mode, and the three flags.\<close>
theorem ra_info_fields:
  assumes "mtx_depth s \<noteq> 0" "\<not> sc_io_busy s" "rtw88_h2c_ra_info C p s = (Inr (), s')"
  shows "\<exists>t box b0 b1 b2 b3. ep0_log s' = ep0_log s @ t @
      [EpWrite (box_ex_addr ! box) (le32enc (ra_rate_mask p)), EpWrite (box_addr ! box) [b0, b1, b2, b3]] \<and>
    b0 = H2C_CMD_RA_INFO \<and> b1 = ra_mac_id p \<and>
    take_bit 5 b2 = take_bit 5 (ra_rate_id p) \<and> take_bit 2 (drop_bit 5 b2) = take_bit 2 (ra_init_lvl p) \<and>
    bit b2 7 = ra_sgi p \<and> take_bit 2 b3 = take_bit 2 (ra_bw_mode p) \<and> bit b3 2 = ra_ldpc p \<and>
    bit b3 3 = ra_no_update p \<and> take_bit 2 (drop_bit 4 b3) = take_bit 2 (ra_vht p) \<and> bit b3 6 \<and> \<not> bit b3 7"
proof -
  have ex: "\<exists>t box. box < 4 \<and> ep0_log s' = ep0_log s @ t @
      [EpWrite (box_ex_addr ! box) (le32enc (ra_rate_mask p)), EpWrite (box_addr ! box) (le32enc (ra_info_msg p))]"
    by (rule h2c_mailbox_sent [OF assms(1,2) assms(3) [unfolded rtw88_h2c_ra_info_def]])
  have "ucast (ra_info_msg p) = (H2C_CMD_RA_INFO :: u8)" "ucast (drop_bit 8 (ra_info_msg p)) = ra_mac_id p"
    by (simp_all add: ra_info_bytes)
  with ex show ?thesis
    unfolding le32enc_def [of "ra_info_msg p"] using ra_info_bytes [of p] by metis
qed

text \<open>The frame templates, by the location byte that announces them: PS-Poll, Null and QoS Null.\<close>

definition template :: "nat \<Rightarrow> u8 list \<Rightarrow> u8 list \<Rightarrow> u8 list" where
  "template i ap mac = [[0xA4, 0x00, 0x00, 0xC0] @ ap @ mac, [0x48, 0x01, 0, 0] @ ap @ mac @ ap,
     [0xC8, 0x01, 0, 0] @ ap @ mac @ ap] ! i"

definition template_loc :: "nat \<Rightarrow> nat" where
  "template_loc i = unat ((drop 2 (le32enc rsvd_page_msg) @ le32enc rsvd_page_ext) ! i)"

lemma template_locs: "template_loc 0 = 1" "template_loc 1 = 3" "template_loc 2 = 2" "template_loc (Suc 0) = 3"
  by code_simp+

lemma rsvd_pages_at:
  assumes "length ap = 6" "length mac = 6" "i < 3"
  shows "take (length (template i ap mac)) (drop (RTW88_RSVD_PAGE_BYTES * template_loc i - RTW88_TX_PKT_DESC_SZ) (rsvd_pages ap mac))
    = template i ap mac"
proof -
  from assms(3) consider "i = 0" | "i = 1" | "i = 2" by linarith
  then show ?thesis
    by cases (use assms(1,2) template_locs in \<open>simp_all add: template_def rsvd_pages_def blit_def\<close>)
qed

lemma packet_template:
  assumes "length ap = 6" "length mac = 6" "i < 3"
  shows "drop (RTW88_RSVD_PAGE_BYTES * template_loc i) (fw_desc m @ rsvd_pages ap mac) =
    template i ap mac @ drop (RTW88_RSVD_PAGE_BYTES * template_loc i + length (template i ap mac)) (fw_desc m @ rsvd_pages ap mac)"
proof -
  have "i = 0 \<or> i = 1 \<or> i = 2" using assms(3) by linarith
  then have "1 \<le> template_loc i" by (auto simp: template_locs)
  then have "drop (RTW88_RSVD_PAGE_BYTES * template_loc i) (fw_desc m @ rsvd_pages ap mac) =
      drop (RTW88_RSVD_PAGE_BYTES * template_loc i - RTW88_TX_PKT_DESC_SZ) (rsvd_pages ap mac)" (is "?d = ?b")
    by simp
  moreover have "take (length (template i ap mac)) ?b = template i ap mac" by (rule rsvd_pages_at [OF assms])
  moreover have "drop (length (template i ap mac)) ?d =
      drop (RTW88_RSVD_PAGE_BYTES * template_loc i + length (template i ap mac)) (fw_desc m @ rsvd_pages ap mac)"
    unfolding drop_drop by (simp add: add.commute)
  ultimately show ?thesis by (metis append_take_drop_id)
qed

text \<open>C30. The frame templates are where the firmware is told to look for them. When an upload of the reserved pages succeeds, one
  sealed packet of 512 bytes (four pages) has gone to the high-priority pipe, and the page that the RSVD_PAGE command announces
  for the PS-Poll, Null and QoS Null frames starts with that frame, addressed to the access point from the station. An
  upload that fails returns an error code, with the mutex held as before.\<close>
theorem rsvd_pages_announced:
  assumes "on_line n k s" "length ap = 6" "length (sc_mac (sc_phy s)) = 6"
    and "rtw88_upload_rsvd_pages C ap s = (r, s')"
  shows "on_line n k s' \<and> (case r of Inl e \<Rightarrow> is_errno e
    | Inr _ \<Rightarrow> \<exists>pkt. bulk_log s' = bulk_log s @ [(RTW88_BULK_TX_HI, pkt)] \<and> length pkt = 4 * RTW88_RSVD_PAGE_BYTES \<and>
        txdesc_xor pkt = 0 \<and> (\<forall>i < 3. \<exists>rest.
          drop (RTW88_RSVD_PAGE_BYTES * template_loc i) pkt = template i ap (sc_mac (sc_phy s)) @ rest))"
proof -
  let ?buf = "rsvd_pages ap (sc_mac (sc_phy s))"
  let ?down = "discard (tryE (rtw88_usb_read1 C (REG_CR + 1)) (\<lambda>cr1.
      discard (rtw88_usb_write1 C (REG_CR + 1) (cr1 AND NOT (ucast (drop_bit 8 (BIT_ENSWBCN :: u32)))))))"
  have len: "length ?buf = 464" using assms(2,3) by (simp add: rsvd_pages_def)
  obtain r1 s1 where send: "rtw88_send_firmware_pkt C (of_nat RTW88_RSVD_DRV_ADDR) (of_nat (length ?buf)) ?buf 0 s = (r1, s1)" by fastforce
  note sent = send_firmware_pkt_run [OF assms(1) send, THEN conjunct1]
  have s1: "on_line n k s1" "\<forall>e. r1 = Inl e \<longrightarrow> is_errno e"
    "r1 = Inr () \<Longrightarrow> bulk_log s1 = bulk_log s @ [fw_packet ?buf]"
    using sent len by (auto simp: unat_of_nat)
  obtain r2 s2 where down: "?down s1 = (r2, s2)" by fastforce
  have "keeps (on_bus n k z L) no_fault ?down" for z L
    by (rule keeps_discard_all) (intro keeps_intros)
  from keepsD [OF this on_line_bus [OF s1(1)] down]
  have r2: "r2 = Inr ()" and s2: "on_line n k s2" "bulk_log s2 = bulk_log s1"
    using same_more [of s2 s1] by (cases r2; auto simp: no_fault_def on_bus_def on_line_def)+
  from assms(1) have locked: "RTW88_ASSERT_LOCKED s = (Inr (), s)" by (simp add: RTW88_ASSERT_LOCKED_def on_line_def)
  show ?thesis
  proof (cases r1)
    case (Inl f)
    with s1(2) obtain e where e: "f = Errno e" by (cases f) auto
    have "(r, s') = (Inl (Errno e), s2)"
      using assms(4) locked send down r2 Inl e by (simp add: rtw88_upload_rsvd_pages_def)
    with s2 show ?thesis by simp
  next
    case (Inr u)
    have fin: "(r, s') = (Inr (), s2)"
      using assms(4) locked send down r2 Inr by (simp add: rtw88_upload_rsvd_pages_def)
    let ?pkt = "fw_desc (of_nat 464) @ ?buf"
    have "drop (RTW88_RSVD_PAGE_BYTES * template_loc i) ?pkt =
        template i ap (sc_mac (sc_phy s)) @ drop (RTW88_RSVD_PAGE_BYTES * template_loc i + length (template i ap (sc_mac (sc_phy s)))) ?pkt"
      if "i < 3" for i
      by (rule packet_template [OF assms(2,3) that])
    moreover have "txdesc_xor ?pkt = 0" using fw_packet_sealed [of ?buf] len by (simp add: fw_packet_def)
    ultimately show ?thesis
      using fin s2 s1(3) Inr len by (auto simp: fw_packet_def)
  qed
qed

definition ra_example :: ra_params where
  "ra_example = \<lparr>ra_mac_id = 0, ra_rate_id = 6, ra_bw_mode = 0, ra_init_lvl = 1, ra_sgi = True, ra_ldpc = False, ra_vht = 0,
     ra_no_update = False, ra_rate_mask = 0xFF015\<rparr>"

theorem ra_info_fields_witness:
  "\<exists>t box b0 b1 b2 b3. ep0_log (snd (rtw88_h2c_ra_info idle_ops ra_example (on_bus_hw ()))) =
    t @ [EpWrite (box_ex_addr ! box) (le32enc 0xFF015), EpWrite (box_addr ! box) [b0, b1, b2, b3]] \<and> bit b2 7"
proof -
  obtain s' where run: "rtw88_h2c_ra_info idle_ops ra_example (on_bus_hw ()) = (Inr (), s')"
  proof -
    have "fst (rtw88_h2c_ra_info idle_ops ra_example (on_bus_hw ())) = Inr ()" by code_simp
    then show thesis by (intro that) (rule prod_eqI; simp)
  qed
  have bus: "mtx_depth (on_bus_hw ()) \<noteq> 0" "\<not> sc_io_busy (on_bus_hw ())" by (simp_all add: on_bus_hw_def)
  have "ra_rate_mask ra_example = 0xFF015" "ra_sgi ra_example" by (simp_all add: ra_example_def)
  with ra_info_fields [OF bus run] obtain t box b0 b1 b2 b3 where
    "ep0_log s' = (ep0_log (on_bus_hw ()) @ t) @ [EpWrite (box_ex_addr ! box) (le32enc 0xFF015), EpWrite (box_addr ! box) [b0, b1, b2, b3]]"
    "bit b2 7" by auto
  then show ?thesis unfolding run snd_conv by blast
qed

text \<open>On the device of \<^const>\<open>boot_ops\<close>, which answers every request and has the beacon-valid bit set, the upload succeeds.\<close>

lemma boot_chip:
  "c_read boot_ops a len c = (Some (\<lambda>i. boot_reg (a + of_nat i)), c)" "c_write boot_ops a bs c = (True, c)"
  "c_bulk boot_ops p bs c = (XferDone, c)"
  by (simp_all add: boot_ops_def)

lemma boot_read:
  assumes "on_line n k s"
  shows "\<exists>s'. rtw88_usb_read_region boot_ops a len s = (Inr (map (\<lambda>i. boot_reg (a + of_nat i)) [0..<unat len]), s') \<and>
    on_line n k s' \<and> hw.more s' = hw.more s"
proof -
  have o: "mtx_depth s \<noteq> 0" "\<not> sc_io_busy s" using assms by (auto simp: on_line_def)
  obtain s' where "rtw88_usb_read_region boot_ops a len s = (Inr (map (\<lambda>i. boot_reg (a + of_nat i)) [0..<unat len]), s')"
    using read_region_ok [OF o boot_chip(1)] by blast
  with keepsD [OF keeps_read_region on_line_bus [OF assms]] show ?thesis by (auto simp: on_bus_def on_line_def)
qed

lemma boot_write:
  assumes "on_line n k s"
  shows "\<exists>s'. rtw88_usb_write_region boot_ops a bs s = (Inr (), s') \<and> on_line n k s' \<and> hw.more s' = hw.more s"
proof -
  have o: "mtx_depth s \<noteq> 0" "\<not> sc_io_busy s" using assms by (auto simp: on_line_def)
  obtain s' where "rtw88_usb_write_region boot_ops a bs s = (Inr (), s')" using write_region_ok [OF o boot_chip(2)] by blast
  with keepsD [OF keeps_write_region on_line_bus [OF assms]] show ?thesis by (auto simp: on_bus_def on_line_def)
qed

text \<open>\<open>goes m\<close>: on the bus of that device \<open>m\<close> comes back with success.\<close>

definition goes :: "(unit softc, 'a) cm \<Rightarrow> bool" where
  "goes m \<longleftrightarrow> (\<forall>n k s. on_line n k s \<longrightarrow> (\<exists>v s'. m s = (Inr v, s') \<and> on_line n k s' \<and> hw.more s' = hw.more s))"

lemma goes_tryE: "goes m \<Longrightarrow> (\<And>v. goes (f v)) \<Longrightarrow> goes (tryE m f)"
  unfolding goes_def by (metis tryE_Inr)

lemma goes_seqE: "goes m \<Longrightarrow> goes m' \<Longrightarrow> goes (seqE m m')"
  unfolding seqE_def by (rule goes_tryE)

lemma goes_ret: "goes (ret v)"
  by (simp add: goes_def)

lemma goes_discard: "goes m \<Longrightarrow> goes (discard m)"
  unfolding goes_def by (metis discard_Inr)

lemma goesD:
  fixes m :: "(unit softc, unit) cm"
  assumes "goes m" "on_line n k s"
  shows "\<exists>s'. m s = (Inr (), s') \<and> on_line n k s'"
proof -
  obtain v s' where "m s = (Inr v, s')" "on_line n k s'" using assms unfolding goes_def by blast
  then show ?thesis by auto
qed

lemma goes_regs:
  "goes (rtw88_usb_read1 boot_ops a)" "goes (rtw88_usb_write1 boot_ops a b)" "goes (rtw88_usb_write2 boot_ops a w)"
  "goes (rtw88_usb_setbits1 boot_ops a b)"
proof -
  have r: "goes (rtw88_usb_read_region boot_ops a len)" and w: "goes (rtw88_usb_write_region boot_ops a bs)" for a len bs
    unfolding goes_def using boot_read boot_write by blast+
  then show "goes (rtw88_usb_read1 boot_ops a)" "goes (rtw88_usb_write1 boot_ops a b)" "goes (rtw88_usb_write2 boot_ops a w)"
    "goes (rtw88_usb_setbits1 boot_ops a b)"
    by (auto simp: rtw88_usb_read1_def rtw88_usb_write1_def rtw88_usb_write2_def rtw88_usb_setbits1_def intro!: goes_tryE goes_seqE goes_ret)
qed

lemma boot_valid: "le32dec (map (\<lambda>i. boot_reg (REG_FIFOPAGE_CTRL_2 + of_nat i)) [0..<4]) 0 AND BIT_BCN_VALID_V1 = BIT_BCN_VALID_V1"
  by code_simp

lemma boot_ready:
  assumes "on_line n k s"
  shows "fst (rtw88_check_hw_ready boot_ops REG_FIFOPAGE_CTRL_2 BIT_BCN_VALID_V1 BIT_BCN_VALID_V1 s) = Inr ()"
proof -
  obtain s' where read: "rtw88_usb_read4 boot_ops REG_FIFOPAGE_CTRL_2 s =
      (Inr (le32dec (map (\<lambda>i. boot_reg (REG_FIFOPAGE_CTRL_2 + of_nat i)) [0..<4]) 0), s')"
    using boot_read [OF assms, of REG_FIFOPAGE_CTRL_2 4] by (auto simp: rtw88_usb_read4_def)
  let ?body = "tryE (attempt (rtw88_usb_read4 boot_ops REG_FIFOPAGE_CTRL_2)) (\<lambda>r. case r of Inl e \<Rightarrow> ret None
      | Inr val \<Rightarrow> ret (if val AND BIT_BCN_VALID_V1 = BIT_BCN_VALID_V1 then Some () else None))"
  have "?body s = (Inr (Some ()), s')" using read boot_valid by (simp add: tryE_def attempt_def)
  from pollE_Some_first [where body = ?body and n = 49, OF this] show ?thesis by (simp add: rtw88_check_hw_ready_def tryE_def)
qed

lemma boot_bulk:
  assumes "on_line n k s" "data \<noteq> []" "length data \<le> RTW88_TX_BUFSZ"
  shows "\<exists>s'. rtw88_bulk_tx_sync boot_ops RTW88_BULK_TX_HI data s = (Inr (), s')"
  using assms by (simp add: rtw88_bulk_tx_sync_def usbd_bulk_def boot_chip on_line_def RTW88_ASSERT_LOCKED_def seqE_def tryE_def)

lemma boot_send:
  assumes s: "on_line n k s" and buf: "length buf = 464"
  shows "\<exists>s'. rtw88_send_firmware_pkt boot_ops pg 464 buf 0 s = (Inr (), s') \<and> on_line n k s'"
proof -
  let ?pre = "tryE (rtw88_usb_read1 boot_ops REG_BCN_CTRL) (\<lambda>b.
        seqE (rtw88_usb_write2 boot_ops REG_FIFOPAGE_CTRL_2 ((pg AND BIT_MASK_BCN_HEAD_1_V1) OR BIT_BCN_VALID_V1))
        (seqE (rtw88_usb_setbits1 boot_ops (REG_CR + 1) (ucast (drop_bit 8 (BIT_ENSWBCN :: u32))))
         (rtw88_usb_write1 boot_ops REG_BCN_CTRL (bcn_quiet b))))"
  let ?ready = "rtw88_check_hw_ready boot_ops REG_FIFOPAGE_CTRL_2 BIT_BCN_VALID_V1 BIT_BCN_VALID_V1"
  define data where "data = fw_desc 464 @ take 464 buf"
  have data: "data \<noteq> []" "length data \<le> RTW88_TX_BUFSZ"
    using buf by (auto simp: data_def)
  have "goes ?pre" by (intro goes_tryE goes_seqE goes_regs)
  from goesD [OF this s] obtain s1 where s1: "?pre s = (Inr (), s1)" "on_line n k s1" by blast
  obtain s2 where s2: "rtw88_bulk_tx_sync boot_ops RTW88_BULK_TX_HI data s1 = (Inr (), s2)"
    using boot_bulk [OF s1(2) data] by blast
  from bulk_tx_sync_run [OF s1(2) s2 data] have "on_line n k s2" by simp
  from boot_ready [OF this] obtain s3 where s3: "?ready s2 = (Inr (), s3)" by (metis prod.collapse)
  have split: "rtw88_send_firmware_pkt boot_ops pg 464 buf 0 = seqE ?pre
      (if 0 + unat (464 :: u32) > length buf then fail Panic
       else seqE (rtw88_bulk_tx_sync boot_ops RTW88_BULK_TX_HI data) ?ready)"
    by (simp add: rtw88_send_firmware_pkt_def seqE_tryE seqE_assoc data_def)
  have pre: "seqE ?pre m s = m s1" for m by (rule seqE_Inr) (rule s1)
  have bulk: "seqE (rtw88_bulk_tx_sync boot_ops RTW88_BULK_TX_HI data) m s1 = m s2" for m by (rule seqE_Inr) (rule s2)
  have fits: "(0 + unat (464 :: u32) > length buf) = False" using buf by simp
  have "rtw88_send_firmware_pkt boot_ops pg 464 buf 0 s = (Inr (), s3)"
    unfolding split fits if_False pre bulk by (rule s3)
  moreover from send_firmware_pkt_run [OF s this] have "on_line n k s3" by simp
  ultimately show ?thesis by blast
qed

lemma boot_upload:
  assumes "on_line n k s" "length ap = 6" "length (sc_mac (sc_phy s)) = 6"
  shows "fst (rtw88_upload_rsvd_pages boot_ops ap s) = Inr ()"
proof -
  define buf where "buf = rsvd_pages ap (sc_mac (sc_phy s))"
  have len: "length buf = 464" using assms(2,3) by (simp add: buf_def rsvd_pages_def)
  let ?down = "tryE (rtw88_usb_read1 boot_ops (REG_CR + 1)) (\<lambda>cr1.
      discard (rtw88_usb_write1 boot_ops (REG_CR + 1) (cr1 AND NOT (ucast (drop_bit 8 (BIT_ENSWBCN :: u32))))))"
  obtain s3 where send: "rtw88_send_firmware_pkt boot_ops (of_nat RTW88_RSVD_DRV_ADDR) 464 buf 0 s = (Inr (), s3)" "on_line n k s3"
    using boot_send [OF assms(1) len] by blast
  have "goes ?down" by (intro goes_tryE goes_discard goes_regs)
  from goesD [OF this send(2)] obtain s4 where down: "?down s3 = (Inr (), s4)" by blast
  have "RTW88_ASSERT_LOCKED s = (Inr (), s)" using assms(1) by (simp add: RTW88_ASSERT_LOCKED_def on_line_def)
  then show ?thesis using send(1) down len by (simp add: rtw88_upload_rsvd_pages_def buf_def [symmetric])
qed

theorem rsvd_pages_announced_witness:
  "\<exists>s' pkt rest. rtw88_upload_rsvd_pages boot_ops (replicate 6 0xAA) (softc_zero () 1 True) = (Inr (), s') \<and>
     bulk_log s' = [(RTW88_BULK_TX_HI, pkt)] \<and> txdesc_xor pkt = 0 \<and>
     drop (RTW88_RSVD_PAGE_BYTES * template_loc 1) pkt = template 1 (replicate 6 0xAA) (replicate 6 0) @ rest"
proof -
  let ?s = "softc_zero () 1 True"
  have s: "on_line 0 True ?s" "length (replicate 6 (0xAA :: u8)) = 6" "length (sc_mac (sc_phy ?s)) = 6"
    "bulk_log ?s = []" "sc_mac (sc_phy ?s) = replicate 6 0"
    by (simp_all add: on_line_def softc_zero_def phy_zero_def)
  obtain s' where run: "rtw88_upload_rsvd_pages boot_ops (replicate 6 0xAA) ?s = (Inr (), s')"
    using boot_upload [OF s(1-3)] by (metis prod.collapse)
  from rsvd_pages_announced [OF s(1-3) run] obtain pkt where "bulk_log s' = bulk_log ?s @ [(RTW88_BULK_TX_HI, pkt)]" "txdesc_xor pkt = 0"
    and t: "\<forall>i < 3. \<exists>rest. drop (RTW88_RSVD_PAGE_BYTES * template_loc i) pkt = template i (replicate 6 0xAA) (sc_mac (sc_phy ?s)) @ rest"
    unfolding sum.case by blast
  moreover from t obtain rest where "drop (RTW88_RSVD_PAGE_BYTES * template_loc 1) pkt =
      template 1 (replicate 6 0xAA) (sc_mac (sc_phy ?s)) @ rest" by fastforce
  ultimately show ?thesis using run s(4,5) by auto
qed

end
