(* ===== verification/Rtw_Rf.thy ===== *)
theory Rtw_Rf
  imports Rtw_H2c
begin

section \<open>Radio registers, calibration and the channel switch\<close>

text \<open>
  RF path A of the chip (read through a window, written through the serial port at 0x0C90), the IQ calibration
  that the firmware does on request, and the whole channel switch of \<^verbatim>\<open>if_rtw88_usb.c\<close>: base
  band, MAC and RF for both bands, the filters, the bandwidth fall-back and the transmit-power words.
  \<open>modify4\<close> and \<open>modify1\<close> are the \<^verbatim>\<open>read, change, write back\<close> blocks these functions are made of.
\<close>

definition modify4 :: "'c chip_ops \<Rightarrow> u16 \<Rightarrow> (u32 \<Rightarrow> u32) \<Rightarrow> (('c, 'z) hw_scheme, unit) cm" where
  "modify4 C a f = tryE (rtw88_usb_read4 C a) (\<lambda>v. rtw88_usb_write4 C a (f v))"

definition modify1 :: "'c chip_ops \<Rightarrow> u16 \<Rightarrow> (u8 \<Rightarrow> u8) \<Rightarrow> (('c, 'z) hw_scheme, unit) cm" where
  "modify1 C a f = tryE (rtw88_usb_read1 C a) (\<lambda>v. rtw88_usb_write1 C a (f v))"

lemma keeps_modify [keeps_intros]:
  "keeps (on_bus n k z L) is_errno (modify4 C a f)" "keeps (on_bus n k z L) is_errno (modify1 C a g)"
  unfolding modify4_def modify1_def by (intro keeps_intros)+

subsection \<open>RF path A\<close>

definition rf_window :: "u8 \<Rightarrow> u16" where
  "rf_window addr = ucast (RTW88_RF_PATH_A_BASE + push_bit 2 (ucast addr :: u32))"

definition rtw88_phy_read_rf_a :: "'c chip_ops \<Rightarrow> u8 \<Rightarrow> u32 \<Rightarrow> (('c, 'z) hw_scheme, u32) cm" where
  "rtw88_phy_read_rf_a C addr msk =
     seqE RTW88_ASSERT_LOCKED (tryE (rtw88_usb_read4 C (rf_window addr)) (\<lambda>raw. ret (raw AND msk)))"

definition rtw88_read_rf_a :: "'c chip_ops \<Rightarrow> u8 \<Rightarrow> u32 \<Rightarrow> (('c, 'z) hw_scheme, u32) cm" where
  "rtw88_read_rf_a C addr msk =
     seqE RTW88_ASSERT_LOCKED (tryE (rtw88_usb_read4 C (rf_window addr)) (\<lambda>val.
       if msk = RFREG_MASK then ret (val AND RFREG_MASK) else ret (val AND msk)))"

definition sipi_cmd :: "u32 \<Rightarrow> u32 \<Rightarrow> u32" where
  "sipi_cmd addr data =
     (push_bit 20 (addr AND RTW88_RF_REG_ADDR_MASK) OR (data AND RTW88_RF_DATA_MASK)) AND 0x0FFFFFFF"

definition rtw88_phy_write_rf_a :: "'c chip_ops \<Rightarrow> u32 \<Rightarrow> u32 \<Rightarrow> (('c, 'z) hw_scheme, unit) cm" where
  "rtw88_phy_write_rf_a C addr data =
     seqE RTW88_ASSERT_LOCKED (rtw88_usb_write4 C RTW88_RF_SIPI_ADDR_A (sipi_cmd addr data))"

definition rf_merge :: "u32 \<Rightarrow> u32 \<Rightarrow> u32 \<Rightarrow> u32" where
  "rf_merge msk data old = (old AND NOT msk) OR (push_bit (ffs msk - 1) data AND msk)"

definition rtw88_write_rf_a_mask :: "'c chip_ops \<Rightarrow> u8 \<Rightarrow> u32 \<Rightarrow> u32 \<Rightarrow> (('c, 'z) hw_scheme, unit) cm" where
  "rtw88_write_rf_a_mask C addr msk data =
     seqE RTW88_ASSERT_LOCKED
     (if msk = RFREG_MASK then rtw88_phy_write_rf_a C (ucast addr) data
      else tryE (rtw88_read_rf_a C addr RFREG_MASK) (\<lambda>old.
        rtw88_phy_write_rf_a C (ucast addr) (rf_merge msk data old)))"

lemma keeps_rf [keeps_intros]:
  "keeps (on_bus n k z L) is_errno (rtw88_phy_read_rf_a C r m)"
  "keeps (on_bus n k z L) is_errno (rtw88_read_rf_a C r m)"
  "keeps (on_bus n k z L) is_errno (rtw88_phy_write_rf_a C a d)"
  "keeps (on_bus n k z L) is_errno (rtw88_write_rf_a_mask C r m d)"
  unfolding rtw88_phy_read_rf_a_def rtw88_read_rf_a_def rtw88_phy_write_rf_a_def rtw88_write_rf_a_mask_def
  by (intro keeps_intros)+

subsection \<open>Calibration\<close>

definition rtw88_phy_calibration :: "'c chip_ops \<Rightarrow> ('c softc, unit) cm" where
  "rtw88_phy_calibration C =
     seqE RTW88_ASSERT_LOCKED
     (seqE (rtw88_fw_do_iqk C False)
     (tryE (pollE 300 (tryE (attempt (rtw88_phy_read_rf_a C RTW88_RF_DTXLOK RTW88_RFREG_MASK)) (\<lambda>r.
              ret (if r = Inr 0xABCDE then Some () else None)))) (\<lambda>iqk.
      seqE (discard (rtw88_usb_read4 C RTW88_REG_IQKFAILMSK))
      (seqE (discard (rtw88_phy_write_rf_a C RTW88_RF_DTXLOK 0))
       (if iqk = Some () then ret () else fail (Errno ETIMEDOUT))))))"

definition rtw88_chip_prepare_tx :: "'c chip_ops \<Rightarrow> ('c softc rtw88_dev, unit) cm" where
  "rtw88_chip_prepare_tx C =
     seqE (on_priv RTW88_ASSERT_LOCKED)
     (seqE (rtw88_coex_prepare_tx (rtw88_usb_hci_ops C))
      (on_priv (discard (rtw88_phy_calibration C))))"

definition rtw88_prepare_tx_task :: "'c chip_ops \<Rightarrow> ('c softc rtw88_dev, unit) cm" where
  "rtw88_prepare_tx_task C =
     seqE (on_priv RTW88_LOCK) (seqE (rtw88_chip_prepare_tx C) (on_priv RTW88_UNLOCK))"

subsection \<open>Switching the radio between the bands\<close>

definition rfe_switch_2g :: "bool \<Rightarrow> u32 \<Rightarrow> u32" where
  "rfe_switch_2g btg reg =
     (if btg then (reg OR B_BTG_SWITCH) AND NOT (B_CTRL_SWITCH OR B_WL_SWITCH OR B_WLG_SWITCH OR B_WLA_SWITCH)
      else (reg OR (B_WL_SWITCH OR B_WLG_SWITCH)) AND NOT (B_BTG_SWITCH OR B_CTRL_SWITCH OR B_WLA_SWITCH))"

definition rtw88_switch_rf_set_2g :: "'c chip_ops \<Rightarrow> bool \<Rightarrow> (('c, 'z) hw_scheme, unit) cm" where
  "rtw88_switch_rf_set_2g C btg =
     steps [RTW88_ASSERT_LOCKED,
       rtw88_usb_setbits1 C (REG_DMEM_CTRL_BB + 2) (ucast (drop_bit 16 (BIT_WL_RST :: u32))),
       rtw88_usb_setbits1 C (REG_SYS_CTRL_BB + 3) (ucast (drop_bit 24 (BIT_FEN_EN :: u32))),
       tryE (rtw88_usb_read4 C REG_RFECTL_A) (\<lambda>reg. steps [
         modify4 C REG_ENRXCCA (\<lambda>cca. (cca AND NOT 0x00FF0000) OR push_bit 16 (if btg then BTG_CCA else WLG_CCA)),
         modify4 C REG_ENTXCCK (\<lambda>lna. (lna AND NOT 0x0000FFFF) OR (if btg then BTG_LNA else WLG_LNA)),
         rtw88_usb_write4 C REG_RFECTL_A (rfe_switch_2g btg reg)])]"

definition rfe_switch_5g :: "u32 \<Rightarrow> u32" where
  "rfe_switch_5g reg = (reg OR (B_WL_SWITCH OR B_WLA_SWITCH)) AND NOT (B_BTG_SWITCH OR B_CTRL_SWITCH OR B_WLG_SWITCH)"

definition rtw88_switch_rf_set_5g :: "'c chip_ops \<Rightarrow> (('c, 'z) hw_scheme, unit) cm" where
  "rtw88_switch_rf_set_5g C =
     steps [RTW88_ASSERT_LOCKED,
       rtw88_usb_setbits1 C (REG_DMEM_CTRL_BB + 2) (ucast (drop_bit 16 (BIT_WL_RST :: u32))),
       rtw88_usb_setbits1 C (REG_SYS_CTRL_BB + 3) (ucast (drop_bit 24 (BIT_FEN_EN :: u32))),
       modify4 C REG_RFECTL_A rfe_switch_5g]"

definition rf18_bw :: "u8 \<Rightarrow> u32" where
  "rf18_bw bw = (if bw = RTW88_CHANNEL_WIDTH_40 then RF18_BW_40M
     else if bw = RTW88_CHANNEL_WIDTH_80 then RF18_BW_80M else RF18_BW_20M)"

definition rf18_clear :: "u32 \<Rightarrow> u32" where
  "rf18_clear v = v AND NOT (RF18_BAND_MASK OR RF18_CHANNEL_MASK OR RF18_RFSI_MASK OR RF18_BW_MASK)"

definition rf18_2g :: "u8 \<Rightarrow> u8 \<Rightarrow> u32 \<Rightarrow> u32" where
  "rf18_2g channel bw v = ((rf18_clear v OR RF18_BAND_2G) OR (ucast channel AND RF18_CHANNEL_MASK)) OR rf18_bw bw"

definition rf18_5g :: "u8 \<Rightarrow> u8 \<Rightarrow> u32 \<Rightarrow> u32" where
  "rf18_5g channel bw v =
     (((rf18_clear v OR RF18_BAND_5G) OR (ucast channel AND RF18_CHANNEL_MASK)) OR rf18_bw bw) OR
     (if channel \<ge> 100 \<and> channel \<le> 140 then RF18_RFSI_GE else if channel > 140 then RF18_RFSI_GT else 0)"

definition rtw88_set_channel_rf_2g :: "'c chip_ops \<Rightarrow> u8 \<Rightarrow> u8 \<Rightarrow> ('c softc, unit) cm" where
  "rtw88_set_channel_rf_2g C channel bw =
     seqE RTW88_ASSERT_LOCKED
     (tryE (rtw88_read_rf_a C RF_REG_18 RFREG_MASK) (\<lambda>v.
      tryE (getS (sc_rfe_btg \<circ> sc_phy)) (\<lambda>btg. steps [
        rtw88_switch_rf_set_2g C btg,
        rtw88_write_rf_a_mask C RF_LUTDBG (push_bit 6 1) 1,
        rtw88_write_rf_a_mask C 0x64 0xF 0xF,
        rtw88_phy_write_rf_a C RF_REG_18 (rf18_2g channel bw v),
        rtw88_write_rf_a_mask C RF_XTALX2 (push_bit 19 1) 0,
        rtw88_write_rf_a_mask C RF_XTALX2 (push_bit 19 1) 1])))"

definition rtw88_set_channel_rf_5g :: "'c chip_ops \<Rightarrow> u8 \<Rightarrow> u8 \<Rightarrow> (('c, 'z) hw_scheme, unit) cm" where
  "rtw88_set_channel_rf_5g C channel bw =
     seqE RTW88_ASSERT_LOCKED
     (tryE (rtw88_read_rf_a C RF_REG_18 RFREG_MASK) (\<lambda>v. steps [
        rtw88_switch_rf_set_5g C,
        rtw88_write_rf_a_mask C RF_LUTDBG (push_bit 6 1) 0,
        rtw88_phy_write_rf_a C RF_REG_18 (rf18_5g channel bw v),
        rtw88_write_rf_a_mask C RF_XTALX2 (push_bit 19 1) 0,
        rtw88_write_rf_a_mask C RF_XTALX2 (push_bit 19 1) 1]))"

subsection \<open>MAC, filters and base band of a channel\<close>

definition data_sc :: "u8 \<Rightarrow> u8 \<Rightarrow> u8" where
  "data_sc bw primary =
     (let txsc40 = (if bw = RTW88_CHANNEL_WIDTH_80 then
          (if primary = RTW88_SC_20_UPPER \<or> primary = RTW88_SC_20_UPMOST then 1 else 2) else 0)
      in (primary AND 0xF) OR push_bit 4 (txsc40 AND 0xF))"

definition rfmod :: "u8 \<Rightarrow> u32 \<Rightarrow> u32" where
  "rfmod bw v = (v AND NOT BIT_RFMOD) OR
     (if bw = RTW88_CHANNEL_WIDTH_40 then push_bit 7 1 else if bw = RTW88_CHANNEL_WIDTH_80 then push_bit 8 1 else 0)"

definition rtw88_set_channel_mac :: "'c chip_ops \<Rightarrow> u8 \<Rightarrow> u8 \<Rightarrow> u8 \<Rightarrow> (('c, 'z) hw_scheme, unit) cm" where
  "rtw88_set_channel_mac C channel bw primary = steps [RTW88_ASSERT_LOCKED,
     rtw88_usb_write1 C REG_DATA_SC (data_sc bw primary),
     modify4 C REG_WMAC_TRXPTCL_CTL (rfmod bw),
     modify4 C REG_AFE_CTRL1 (\<lambda>v. v AND NOT BIT_MAC_CLK_SEL),
     rtw88_usb_write1 C REG_USTIME_TSF MAC_CLK_SPEED,
     rtw88_usb_write1 C REG_USTIME_EDCA MAC_CLK_SPEED,
     modify1 C REG_CCK_CHECK (\<lambda>b. (b AND NOT BIT_CHECK_CCK_EN) OR (if channel > 14 then BIT_CHECK_CCK_EN else 0))]"

definition top_bit :: "bool \<Rightarrow> u32 \<Rightarrow> u32" where
  "top_bit on v = (if on then v OR push_bit 31 1 else v AND NOT (push_bit 31 1))"

definition rtw88_set_channel_rxdfir :: "'c chip_ops \<Rightarrow> u8 \<Rightarrow> (('c, 'z) hw_scheme, unit) cm" where
  "rtw88_set_channel_rxdfir C bw = steps [RTW88_ASSERT_LOCKED,
     modify4 C REG_ACBB0 (\<lambda>v. (v AND NOT (push_bit 28 3)) OR push_bit 28 2),
     modify4 C REG_ACBBRXFIR (\<lambda>v. (v AND NOT (push_bit 28 3)) OR push_bit 28 (if bw = RTW88_CHANNEL_WIDTH_80 then 1 else 2)),
     modify4 C REG_TXDFIR (top_bit (bw = RTW88_CHANNEL_WIDTH_20)),
     modify4 C REG_CHFIR (top_bit (bw = RTW88_CHANNEL_WIDTH_80))]"

definition rtw88_set_channel_bb_bw :: "'c chip_ops \<Rightarrow> u8 \<Rightarrow> u8 \<Rightarrow> (('c, 'z) hw_scheme, unit) cm" where
  "rtw88_set_channel_bb_bw C bw primary =
     seqE RTW88_ASSERT_LOCKED
     (seqE
       (if bw = RTW88_CHANNEL_WIDTH_40 then steps [
          modify4 C REG_RXSB (\<lambda>v. if primary = 1 then v OR push_bit 4 1 else v AND NOT (push_bit 4 1)),
          modify4 C REG_ADCCLK (\<lambda>v. (v AND 0xFF3FF300) OR
            (0x20020000 OR push_bit 2 (ucast primary AND 0xF) OR RTW88_CHANNEL_WIDTH_40))]
        else if bw = RTW88_CHANNEL_WIDTH_80 then
          modify4 C REG_ADCCLK (\<lambda>v. (v AND 0xFCFFCF00) OR
            (0x40040000 OR push_bit 2 (ucast primary AND 0xF) OR RTW88_CHANNEL_WIDTH_80))
        else modify4 C REG_ADCCLK (\<lambda>v. (v AND 0xFFCFFC00) OR 0x10010000))
       (modify4 C REG_ADC160 (\<lambda>v. v OR push_bit 30 1)))"

definition rtw88_set_channel_bb_2g :: "'c chip_ops \<Rightarrow> u8 \<Rightarrow> u8 \<Rightarrow> u8 \<Rightarrow> ('c softc, unit) cm" where
  "rtw88_set_channel_bb_2g C channel bw primary = steps [RTW88_ASSERT_LOCKED,
     modify4 C REG_RXPSEL (\<lambda>v. v OR push_bit 28 1),
     modify4 C REG_CCK_CHECK (\<lambda>v. v AND NOT (push_bit 7 1)),
     modify4 C REG_ENTXCCK (\<lambda>v. v AND NOT (push_bit 18 1)),
     modify4 C REG_RXCCAMSK (\<lambda>v. (v AND NOT 0x0000FC00) OR push_bit 10 (15 AND 0x3F)),
     modify4 C REG_TXSCALE_A (\<lambda>v. v AND NOT 0xF00),
     modify4 C REG_CLKTRK (\<lambda>v. (v AND NOT 0x1FFE0000) OR push_bit 17 0x96A),
     whenE (channel \<noteq> 14) (tryE (getS (sc_ch_param \<circ> sc_phy)) (\<lambda>p. steps [
       rtw88_usb_write4 C REG_TXSF2 (p ! 0),
       modify4 C REG_TXSF6 (\<lambda>v. (v AND NOT 0xFFFF) OR (p ! 1 AND 0xFFFF)),
       rtw88_usb_write4 C REG_TXFILTER (p ! 2)])),
     rtw88_set_channel_bb_bw C bw primary]"

definition txscale_5g :: "u8 \<Rightarrow> u32" where
  "txscale_5g channel = (if channel \<ge> 36 \<and> channel \<le> 64 then 1 else if channel \<ge> 100 \<and> channel \<le> 144 then 2 else 3)"

definition clktrk_5g :: "u8 \<Rightarrow> u32" where
  "clktrk_5g channel = (if channel \<ge> 36 \<and> channel \<le> 48 then 0x494
     else if channel \<ge> 52 \<and> channel \<le> 64 then 0x453 else if channel \<ge> 100 \<and> channel \<le> 116 then 0x452 else 0x412)"

definition rtw88_set_channel_bb_5g :: "'c chip_ops \<Rightarrow> u8 \<Rightarrow> u8 \<Rightarrow> u8 \<Rightarrow> (('c, 'z) hw_scheme, unit) cm" where
  "rtw88_set_channel_bb_5g C channel bw primary = steps [RTW88_ASSERT_LOCKED,
     modify4 C REG_ENTXCCK (\<lambda>v. v OR push_bit 18 1),
     modify4 C REG_CCK_CHECK (\<lambda>v. v OR push_bit 7 1),
     modify4 C REG_RXPSEL (\<lambda>v. v AND NOT (push_bit 28 1)),
     modify4 C REG_RXCCAMSK (\<lambda>v. (v AND NOT 0x0000FC00) OR push_bit 10 (15 AND 0x3F)),
     modify4 C REG_TXSCALE_A (\<lambda>v. (v AND NOT 0xF00) OR push_bit 8 (txscale_5g channel)),
     modify4 C REG_CLKTRK (\<lambda>v. (v AND NOT 0x1FFE0000) OR push_bit 17 (clktrk_5g channel)),
     rtw88_set_channel_bb_bw C bw primary]"

subsection \<open>The channel switch\<close>

text \<open>What the part of this driver that is ported can do (\<^verbatim>\<open>caps\<close> of the chip table).\<close>

definition rtw88_8821c_caps :: u16 where
  "rtw88_8821c_caps = RTW88_CAP_HT20 OR RTW88_CAP_2GHZ OR RTW88_CAP_5GHZ OR RTW88_CAP_AMSDU OR RTW88_CAP_LPS"

definition channel_valid :: "u8 \<Rightarrow> bool" where
  "channel_valid channel \<longleftrightarrow> \<not> (channel < 1 \<or> (channel > 14 \<and> channel < 36) \<or> channel > 177)"

definition narrowed :: "u16 \<Rightarrow> u8 \<Rightarrow> u8 \<Rightarrow> u8 \<times> u8" where
  "narrowed caps bw primary =
     (if bw = RTW88_CHANNEL_WIDTH_40 \<and> caps AND RTW88_CAP_HT40 = 0 \<or>
         bw = RTW88_CHANNEL_WIDTH_80 \<and> caps AND RTW88_CAP_VHT80 = 0
      then (RTW88_CHANNEL_WIDTH_20, 0) else (bw, primary))"

definition txpwr_words :: "(u16 \<times> u32) list" where
  "txpwr_words = [(0x1D00, 0x2D2D2D2D), (0x1D04, 0x35353535), (0x1D08, 0x2F313335), (0x1D0C, 0x33333333),
     (0x1D10, 0x2D2F3133), (0x1D2C, 0x35373737), (0x1D30, 0x2D2F3133), (0x1D34, 0x0000292B)]"

definition channel_body :: "'c chip_ops \<Rightarrow> u8 \<Rightarrow> u8 \<Rightarrow> u8 \<Rightarrow> ('c softc, unit) cm" where
  "channel_body C channel bw primary = steps [
     (if channel > 14 then rtw88_set_channel_bb_5g C channel bw primary else rtw88_set_channel_bb_2g C channel bw primary),
     rtw88_set_channel_mac C channel bw primary,
     (if channel > 14 then rtw88_set_channel_rf_5g C channel bw else rtw88_set_channel_rf_2g C channel bw),
     rtw88_set_channel_rxdfir C bw,
     updS (\<lambda>s. s\<lparr>sc_phy := (sc_phy s)\<lparr>sc_cur_bw := bw, sc_cur_primary_ch_idx := primary\<rparr>\<rparr>),
     discard (rtw88_h2c_wl_ch_info C 0 channel 0),
     discard (rtw88_usb_write1 C REG_FWHW_TXQ_CTRL 0x80),
     discard (rtw88_usb_write1 C (REG_FWHW_TXQ_CTRL + 1) 0x1F),
     whenE (\<not> channel > 14) (forE (\<lambda>(a, v). discard (rtw88_usb_write4 C a v)) txpwr_words)]"

definition rtw88_phy_set_channel :: "'c chip_ops \<Rightarrow> u16 \<Rightarrow> u8 \<Rightarrow> u8 \<Rightarrow> u8 \<Rightarrow> ('c softc, unit) cm" where
  "rtw88_phy_set_channel C caps channel bw primary = locked
     (if \<not> channel_valid channel then fail (Errno EINVAL)
      else if channel > 14 \<and> caps AND RTW88_CAP_5GHZ = 0 then fail (Errno EOPNOTSUPP)
      else if \<not> channel > 14 \<and> caps AND RTW88_CAP_2GHZ = 0 then fail (Errno EOPNOTSUPP)
      else case narrowed caps bw primary of (bw', primary') \<Rightarrow>
        seqE (channel_body C channel bw' primary')
         (updS (\<lambda>s. s\<lparr>sc_phy := (sc_phy s)\<lparr>sc_cur_channel := channel\<rparr>\<rparr>)))"

subsection \<open>What the switch does\<close>

lemma keeps_channel_regs [keeps_intros]:
  "keeps (on_bus n k z L) is_errno (rtw88_switch_rf_set_2g C btg)"
  "keeps (on_bus n k z L) is_errno (rtw88_switch_rf_set_5g C)"
  "keeps (on_bus n k z L) is_errno (rtw88_set_channel_mac C channel bw primary)"
  "keeps (on_bus n k z L) is_errno (rtw88_set_channel_rxdfir C bw)"
  "keeps (on_bus n k z L) is_errno (rtw88_set_channel_bb_bw C bw primary)"
  unfolding rtw88_switch_rf_set_2g_def rtw88_switch_rf_set_5g_def rtw88_set_channel_mac_def
    rtw88_set_channel_rxdfir_def rtw88_set_channel_bb_bw_def
  by (intro keeps_intros)+

lemma keeps_channel_bands [keeps_intros]:
  "keeps (on_bus n k z L) is_errno (rtw88_set_channel_rf_2g C channel bw)"
  "keeps (on_bus n k z L) is_errno (rtw88_set_channel_rf_5g C channel bw)"
  "keeps (on_bus n k z L) is_errno (rtw88_set_channel_bb_2g C channel bw primary)"
  "keeps (on_bus n k z L) is_errno (rtw88_set_channel_bb_5g C channel bw primary)"
  unfolding rtw88_set_channel_rf_2g_def rtw88_set_channel_rf_5g_def
    rtw88_set_channel_bb_2g_def rtw88_set_channel_bb_5g_def
  by (intro keeps_intros)+

text \<open>\<open>rf18_for channel bw x\<close>: the request writes RF register 0x18 with this channel, its band and this bandwidth.\<close>

definition rf18_for :: "u8 \<Rightarrow> u8 \<Rightarrow> ep0_req \<Rightarrow> bool" where
  "rf18_for channel bw x \<longleftrightarrow> (\<exists>w. x = EpWrite RTW88_RF_SIPI_ADDR_A (le32enc w) \<and> drop_bit 20 w = RF_REG_18 \<and>
     w AND RF18_CHANNEL_MASK = ucast channel \<and>
     w AND RF18_BAND_MASK = (if channel > 14 then RF18_BAND_5G else RF18_BAND_2G) \<and> w AND RF18_BW_MASK = rf18_bw bw)"

lemma rf18_fields:
  "drop_bit 20 (sipi_cmd RF_REG_18 w) = RF_REG_18"
  "sipi_cmd RF_REG_18 w AND RF18_CHANNEL_MASK = w AND RF18_CHANNEL_MASK"
  "sipi_cmd RF_REG_18 w AND RF18_BAND_MASK = w AND RF18_BAND_MASK"
  "sipi_cmd RF_REG_18 w AND RF18_BW_MASK = w AND RF18_BW_MASK"
  by (rule bit_word_eqI; auto simp: sipi_cmd_def bit_simps less_Suc_eq numeral_eq_Suc)+

lemma channel_and [simp]:
  fixes channel :: u8
  shows "(ucast channel :: u32) AND 0xFF = ucast channel" "(ucast channel :: u32) AND 0x10300 = 0"
    "(ucast channel :: u32) AND 0xC00 = 0"
  by (rule bit_word_eqI; auto simp: bit_simps less_Suc_eq numeral_eq_Suc bit_u8_high)+

lemma rf18_2g_fields:
  "rf18_2g channel bw v AND RF18_CHANNEL_MASK = ucast channel"
  "rf18_2g channel bw v AND RF18_BAND_MASK = RF18_BAND_2G" "rf18_2g channel bw v AND RF18_BW_MASK = rf18_bw bw"
  by (simp_all add: rf18_2g_def rf18_clear_def rf18_bw_def bit.conj_disj_distrib2 and.assoc)

lemma rf18_5g_fields:
  "rf18_5g channel bw v AND RF18_CHANNEL_MASK = ucast channel"
  "rf18_5g channel bw v AND RF18_BAND_MASK = RF18_BAND_5G" "rf18_5g channel bw v AND RF18_BW_MASK = rf18_bw bw"
  by (simp_all add: rf18_5g_def rf18_clear_def rf18_bw_def bit.conj_disj_distrib2 and.assoc)

lemma rf18_forI:
  assumes "w AND RF18_CHANNEL_MASK = ucast channel"
    and "w AND RF18_BAND_MASK = (if channel > 14 then RF18_BAND_5G else RF18_BAND_2G)" "w AND RF18_BW_MASK = rf18_bw bw"
  shows "rf18_for channel bw (EpWrite RTW88_RF_SIPI_ADDR_A (le32enc (sipi_cmd RF_REG_18 w)))"
  unfolding rf18_for_def by (rule exI [of _ "sipi_cmd RF_REG_18 w"]) (simp only: rf18_fields assms refl simp_thms)

lemma rf18_written:
  "\<not> channel > 14 \<Longrightarrow> rf18_for channel bw (EpWrite RTW88_RF_SIPI_ADDR_A (le32enc (sipi_cmd RF_REG_18 (rf18_2g channel bw v))))"
  "channel > 14 \<Longrightarrow> rf18_for channel bw (EpWrite RTW88_RF_SIPI_ADDR_A (le32enc (sipi_cmd RF_REG_18 (rf18_5g channel bw v))))"
  by (rule rf18_forI; simp add: rf18_2g_fields rf18_5g_fields)+

lemmas taped_regs = taped_quiet [OF keeps_assert_locked] taped_quiet [OF keeps_rf(1)] taped_quiet [OF keeps_rf(2)]
  taped_quiet [OF keeps_rf(3)] taped_quiet [OF keeps_rf(4)] taped_quiet [OF keeps_getS] taped_quiet [OF keeps_ret]
  taped_quiet [OF keeps_channel_regs(1)] taped_quiet [OF keeps_channel_regs(2)] taped_quiet [OF keeps_channel_regs(3)]
  taped_quiet [OF keeps_channel_regs(4)] taped_quiet [OF keeps_channel_bands(1)] taped_quiet [OF keeps_channel_bands(2)]
  taped_quiet [OF keeps_channel_bands(3)] taped_quiet [OF keeps_channel_bands(4)]

lemma taped_seqE: "taped n k m \<Longrightarrow> taped n k j \<Longrightarrow> taped n k (seqE m j)"
  unfolding taped_def by (blast intro: keeps_seqE)

lemma does_rf_write:
  "Q (EpWrite RTW88_RF_SIPI_ADDR_A (le32enc (sipi_cmd a d))) \<Longrightarrow> does n k Q (rtw88_phy_write_rf_a C a d)"
  unfolding rtw88_phy_write_rf_a_def by (intro does_seqE taped_regs does_write4)

lemma does_rf18:
  "\<not> channel > 14 \<Longrightarrow> does n k (rf18_for channel bw) (rtw88_set_channel_rf_2g C channel bw)"
  "channel > 14 \<Longrightarrow> does n k (rf18_for channel bw) (rtw88_set_channel_rf_5g C channel bw)"
  unfolding rtw88_set_channel_rf_2g_def rtw88_set_channel_rf_5g_def steps_simps
  by (intro does_seqE does_tryE does_seqE_first [OF does_rf_write] rf18_written taped_seqE taped_regs; assumption?)+

text \<open>The body in three parts: what can fail, the bookkeeping, what cannot fail any more.\<close>

definition channel_pre :: "'c chip_ops \<Rightarrow> u8 \<Rightarrow> u8 \<Rightarrow> u8 \<Rightarrow> ('c softc, unit) cm" where
  "channel_pre C channel bw primary = steps [
     (if channel > 14 then rtw88_set_channel_bb_5g C channel bw primary else rtw88_set_channel_bb_2g C channel bw primary),
     rtw88_set_channel_mac C channel bw primary,
     (if channel > 14 then rtw88_set_channel_rf_5g C channel bw else rtw88_set_channel_rf_2g C channel bw),
     rtw88_set_channel_rxdfir C bw]"

definition channel_post :: "'c chip_ops \<Rightarrow> u8 \<Rightarrow> ('c softc, unit) cm" where
  "channel_post C channel = steps [
     discard (rtw88_h2c_wl_ch_info C 0 channel 0),
     discard (rtw88_usb_write1 C REG_FWHW_TXQ_CTRL 0x80),
     discard (rtw88_usb_write1 C (REG_FWHW_TXQ_CTRL + 1) 0x1F),
     whenE (\<not> channel > 14) (forE (\<lambda>(a, v). discard (rtw88_usb_write4 C a v)) txpwr_words)]"

lemma seqE_ret: "seqE (ret v) m = m"
  by (rule ext) simp

lemma channel_body_split:
  "channel_body C channel bw primary = seqE (channel_pre C channel bw primary)
     (seqE (updS (\<lambda>s. s\<lparr>sc_phy := (sc_phy s)\<lparr>sc_cur_bw := bw, sc_cur_primary_ch_idx := primary\<rparr>\<rparr>)) (channel_post C channel))"
  unfolding channel_body_def channel_pre_def channel_post_def steps_simps by (simp only: seqE_assoc seqE_ret)

lemma keeps_channel_pre: "keeps (on_bus n k z L) is_errno (channel_pre C channel bw primary)"
  unfolding channel_pre_def by (intro keeps_intros)

lemma keeps_channel_post: "keeps (on_bus n k z L) no_fault (channel_post C channel)"
  unfolding channel_post_def split_def
  by (intro keeps_steps keeps_ball_Cons keeps_ball_Nil keeps_whenE keeps_forE keeps_discard_all keeps_intros)

lemma does_channel_pre: "does n k (rf18_for channel bw) (channel_pre C channel bw primary)"
proof (cases "channel > 14")
  case True
  then show ?thesis
    unfolding channel_pre_def steps_simps if_P [OF True]
    by (intro does_seqE does_seqE_first [OF does_rf18(2)] taped_seqE taped_regs; assumption?)
next
  case False
  then show ?thesis
    unfolding channel_pre_def steps_simps if_not_P [OF False]
    by (intro does_seqE does_seqE_first [OF does_rf18(1)] taped_seqE taped_regs; assumption?)
qed

lemma channel_body_run:
  assumes "on_line n k s" "channel_body C channel bw primary s = (r, s')"
  shows "on_line n k s' \<and> (case r of Inl f \<Rightarrow> is_errno f \<and> sc_phy s' = sc_phy s
    | Inr _ \<Rightarrow> sc_phy s' = (sc_phy s)\<lparr>sc_cur_bw := bw, sc_cur_primary_ch_idx := primary\<rparr> \<and>
        wrote (rf18_for channel bw) s s')"
proof -
  obtain r1 s1 where pre: "channel_pre C channel bw primary s = (r1, s1)" by fastforce
  from quietD [OF keeps_channel_pre assms(1) pre]
  have 1: "on_line n k s1" "hw.more s1 = hw.more s" "\<forall>e. r1 = Inl e \<longrightarrow> is_errno e" by auto
  have phy1: "sc_phy s1 = sc_phy s" using 1(2) by (cases s; cases s1) simp
  show ?thesis
  proof (cases r1)
    case (Inl f)
    with assms(2) pre 1 phy1 show ?thesis by (auto simp: channel_body_split)
  next
    case (Inr u)
    let ?s2 = "s1\<lparr>sc_phy := (sc_phy s1)\<lparr>sc_cur_bw := bw, sc_cur_primary_ch_idx := primary\<rparr>\<rparr>"
    have 2: "on_line n k ?s2" using 1(1) by (simp add: on_line_def)
    obtain r3 s3 where post: "channel_post C channel ?s2 = (r3, s3)" by fastforce
    from keepsD [OF keeps_channel_post on_line_bus [OF 2] post]
    have 3: "on_line n k s3" "hw.more s3 = hw.more ?s2" "r3 = Inr ()" "\<exists>xs. ep0_log s3 = ep0_log s1 @ xs"
      by (cases r3; auto simp: no_fault_def on_bus_def on_line_def)+
    have phy3: "sc_phy s3 = sc_phy ?s2" using 3(2) by (cases s3; cases ?s2) simp
    have "wrote (rf18_for channel bw) s s1"
      using does_channel_pre [of n k channel bw C primary, unfolded does_def, rule_format] assms(1) pre Inr by simp
    with 3(4) have "wrote (rf18_for channel bw) s s3" unfolding wrote_def by (metis append.assoc append_Cons)
    with assms(2) pre post Inr 3 phy1 phy3 show ?thesis by (simp add: channel_body_split)
  qed
qed

lemma wrote_upd:
  "wrote Q (s\<lparr>mtx_depth := d\<rparr>) s' = wrote Q s s'" "wrote Q s (s'\<lparr>mtx_depth := d\<rparr>) = wrote Q s s'"
  "wrote Q t (t'\<lparr>sc_phy := p\<rparr>) = wrote Q t t'" for t t' :: "'c softc"
  by (simp_all add: wrote_def)

lemma keeps_channel_body: "keeps (on_line n k) is_errno (channel_body C channel bw primary)"
proof (rule keepsI)
  fix s r s' assume "on_line n k s" "channel_body C channel bw primary s = (r, s')"
  from channel_body_run [OF this] show "on_line n k s' \<and> (\<forall>e. r = Inl e \<longrightarrow> is_errno e)"
    by (auto split: sum.splits)
qed

text \<open>C32. The channel switch, for any device and any argument, called with the mutex free. It returns with the mutex free and no request
  in flight. A channel outside 1-14 and 36-177 is EINVAL, and a channel of a band the chip lacks is EOPNOTSUPP, both
  with nothing on the wire. On an error the driver's idea of the current channel and bandwidth is what it was. On success the band
  is one the chip has, the current channel is the argument with the bandwidth narrowed to what is ported, and the
  radio has been sent RF register 0x18 with that channel, its band and that bandwidth.\<close>
theorem set_channel_outcome:
  assumes "mtx_depth s = 0" "\<not> sc_io_busy s" "rtw88_phy_set_channel C caps channel bw primary s = (r, s')"
  shows "mtx_depth s' = 0 \<and> \<not> sc_io_busy s' \<and>
    (\<not> channel_valid channel \<longrightarrow> r = Inl (Errno EINVAL) \<and> ep0_log s' = ep0_log s) \<and>
    (channel_valid channel \<and> caps AND (if channel > 14 then RTW88_CAP_5GHZ else RTW88_CAP_2GHZ) = 0 \<longrightarrow>
       r = Inl (Errno EOPNOTSUPP) \<and> ep0_log s' = ep0_log s) \<and>
    (case r of Inl f \<Rightarrow> is_errno f \<and> sc_phy s' = sc_phy s
     | Inr _ \<Rightarrow> caps AND (if channel > 14 then RTW88_CAP_5GHZ else RTW88_CAP_2GHZ) \<noteq> 0 \<and>
         sc_phy s' = (sc_phy s)\<lparr>sc_cur_channel := channel, sc_cur_bw := fst (narrowed caps bw primary),
           sc_cur_primary_ch_idx := snd (narrowed caps bw primary)\<rparr> \<and>
         wrote (rf18_for channel (fst (narrowed caps bw primary))) s s')"
proof -
  let ?s1 = "s\<lparr>mtx_depth := 1\<rparr>"
  let ?body = "\<lambda>bw' primary'. seqE (channel_body C channel bw' primary')
      (updS (\<lambda>s. s\<lparr>sc_phy := (sc_phy s)\<lparr>sc_cur_channel := channel\<rparr>\<rparr>))"
  let ?m = "if \<not> channel_valid channel then fail (Errno EINVAL)
      else if channel > 14 \<and> caps AND RTW88_CAP_5GHZ = 0 then fail (Errno EOPNOTSUPP)
      else if \<not> channel > 14 \<and> caps AND RTW88_CAP_2GHZ = 0 then fail (Errno EOPNOTSUPP)
      else case narrowed caps bw primary of (bw', primary') \<Rightarrow> ?body bw' primary'"
  obtain bw' primary' where nar: "narrowed caps bw primary = (bw', primary')" by fastforce
  have k: "keeps (on_line 0 (invariants s)) is_errno ?m"
    unfolding nar prod.case
    by (intro keeps_if keeps_fail keeps_seqE keeps_updS keeps_channel_body is_errno_simps) (simp add: on_line_def)
  from locked_run [OF assms(1,2) k assms(3) [unfolded rtw88_phy_set_channel_def]]
  obtain t where t: "?m ?s1 = (r, t)" "on_line 0 (invariants s) t" "s' = t\<lparr>mtx_depth := 0\<rparr>" by blast
  have line: "on_line 0 (invariants s) ?s1" using assms(2) by (simp add: on_line_def)
  obtain r1 s2 where body: "channel_body C channel bw' primary' ?s1 = (r1, s2)" by fastforce
  note b = channel_body_run [OF line body]
  show ?thesis
  proof (cases "channel_valid channel \<and> caps AND (if channel > 14 then RTW88_CAP_5GHZ else RTW88_CAP_2GHZ) \<noteq> 0")
    case False
    then have "?m ?s1 = (Inl (Errno (if channel_valid channel then EOPNOTSUPP else EINVAL)), ?s1)" by (auto split: if_splits)
    with t show ?thesis by (auto simp: on_line_def split: if_splits)
  next
    case True
    then have "?m = ?body bw' primary'" using nar by (auto split: if_splits)
    with t(1) body have "(case r1 of Inl f \<Rightarrow> (Inl f, s2)
        | Inr _ \<Rightarrow> (Inr (), s2\<lparr>sc_phy := (sc_phy s2)\<lparr>sc_cur_channel := channel\<rparr>\<rparr>)) = (r, t)"
      by (cases r1) auto
    with t True b nar show ?thesis
      by (cases r1) (auto simp: on_line_def wrote_upd)
  qed
qed

theorem set_channel_outcome_witness:
  "sc_phy (snd (rtw88_phy_set_channel idle_ops rtw88_8821c_caps 15 0 0 (softc_zero () 0 True))) = phy_zero \<and>
   fst (rtw88_phy_set_channel idle_ops RTW88_CAP_2GHZ 36 0 0 (softc_zero () 0 True)) = Inl (Errno EOPNOTSUPP) \<and>
   (\<exists>s'. rtw88_phy_set_channel idle_ops rtw88_8821c_caps 36 2 1 (softc_zero () 0 True) = (Inr (), s') \<and> sc_cur_bw (sc_phy s') = 0)"
proof -
  have z: "mtx_depth (softc_zero () 0 True) = 0" "\<not> sc_io_busy (softc_zero () 0 True)" "sc_phy (softc_zero () 0 True) = phy_zero"
    by (simp_all add: softc_zero_def)
  have "fst (rtw88_phy_set_channel idle_ops rtw88_8821c_caps 36 2 1 (softc_zero () 0 True)) = Inr ()"
    by code_simp
  then obtain s' where run: "rtw88_phy_set_channel idle_ops rtw88_8821c_caps 36 2 1 (softc_zero () 0 True) = (Inr (), s')"
    by (metis prod.collapse)
  have "\<not> channel_valid 15" by (simp add: channel_valid_def)
  with set_channel_outcome [OF z(1,2) surjective_pairing, of idle_ops rtw88_8821c_caps 15 0 0] z(3)
  have "sc_phy (snd (rtw88_phy_set_channel idle_ops rtw88_8821c_caps 15 0 0 (softc_zero () 0 True))) = phy_zero" by (auto split: sum.splits)
  moreover have "channel_valid 36 \<and> (RTW88_CAP_2GHZ :: u16) AND (if (36 :: u8) > 14 then RTW88_CAP_5GHZ else RTW88_CAP_2GHZ) = 0" by code_simp
  with set_channel_outcome [OF z(1,2) surjective_pairing, of idle_ops RTW88_CAP_2GHZ 36 0 0]
  have "fst (rtw88_phy_set_channel idle_ops RTW88_CAP_2GHZ 36 0 0 (softc_zero () 0 True)) = Inl (Errno EOPNOTSUPP)" by blast
  moreover have "narrowed rtw88_8821c_caps 2 1 = (0, 0)" by code_simp
  with set_channel_outcome [OF z(1,2) run] have "sc_cur_bw (sc_phy s') = 0" by simp
  ultimately show ?thesis using run by blast
qed

end
