(* ===== verification/Rtw_Mac.thy ===== *)
theory Rtw_Mac
  imports Rtw_Rf
begin

section \<open>Bringing up the MAC\<close>

text \<open>
  \<^verbatim>\<open>rtw88_mac_init\<close> of \<^verbatim>\<open>if_rtw88_usb.c\<close> and its six steps: the map from queues to DMA priorities, the page
  counts and the linked list of the transmit FIFO, the ring of firmware commands, the protocol engine, what the
  receiver puts in front of a frame, and the USB bursts; then the writes whose failure is ignored.
\<close>

subsection \<open>Queues and FIFO\<close>

definition RTW88_TXDMA_PQ_MAP_8821CU :: u16 where
  "RTW88_TXDMA_PQ_MAP_8821CU = push_bit 4 2 OR push_bit 6 2 OR push_bit 8 1 OR push_bit 10 1 OR push_bit 12 3 OR push_bit 14 3"

definition rtw88_txdma_queue_mapping :: "'c chip_ops \<Rightarrow> (('c, 'z) hw_scheme, unit) cm" where
  "rtw88_txdma_queue_mapping C = steps [RTW88_ASSERT_LOCKED,
     rtw88_usb_write2 C REG_TXDMA_PQ_MAP RTW88_TXDMA_PQ_MAP_8821CU,
     rtw88_usb_write1 C REG_CR 0,
     rtw88_usb_write1 C REG_CR (ucast ((MAC_TRX_ENABLE :: u32) AND 0xFF)),
     rtw88_usb_write4 C REG_H2CQ_CSR BIT_H2CQ_FULL,
     rtw88_usb_setbits1 C REG_TXDMA_PQ_MAP BIT_RXDMA_ARBBW_EN]"

definition llt_desc_num :: "u32 \<Rightarrow> u32" where
  "llt_desc_num v = (v AND NOT BIT_MASK_BLK_DESC_NUM) OR (push_bit 4 RTW88_USB_TX_AGG_DESC_NUM AND BIT_MASK_BLK_DESC_NUM)"

definition rtw88_priority_queue_cfg :: "'c chip_ops \<Rightarrow> (('c, 'z) hw_scheme, unit) cm" where
  "rtw88_priority_queue_cfg C = steps [RTW88_ASSERT_LOCKED,
     rtw88_usb_write2 C REG_FIFOPAGE_INFO_1 (of_nat RTW88_PG_HQ_NUM),
     rtw88_usb_write2 C REG_FIFOPAGE_INFO_2 (of_nat RTW88_PG_LQ_NUM),
     rtw88_usb_write2 C REG_FIFOPAGE_INFO_3 (of_nat RTW88_PG_NQ_NUM),
     rtw88_usb_write2 C REG_FIFOPAGE_INFO_4 (of_nat RTW88_PG_EXQ_NUM),
     rtw88_usb_write2 C REG_FIFOPAGE_INFO_5 (of_nat RTW88_PG_PUBQ_NUM),
     modify4 C REG_RQPN_CTRL_2 (\<lambda>v. v OR BIT_LD_RQPN),
     rtw88_usb_write2 C REG_FIFOPAGE_CTRL_2 (of_nat RTW88_RSVD_BOUNDARY),
     rtw88_usb_setbits1 C (REG_FWHW_TXQ_CTRL + 2) (ucast (drop_bit 16 (BIT_EN_WR_FREE_TAIL :: u32))),
     rtw88_usb_write2 C REG_BCNQ_BDNY_V1 (of_nat RTW88_RSVD_BOUNDARY),
     rtw88_usb_write2 C (REG_FIFOPAGE_CTRL_2 + 2) (of_nat RTW88_RSVD_BOUNDARY),
     rtw88_usb_write2 C REG_BCNQ1_BDNY_V1 (of_nat RTW88_RSVD_BOUNDARY),
     rtw88_usb_write4 C REG_RXFF_BNDY (RTW88_RXFF_SIZE - RTW88_C2H_PKT_BUF - 1),
     modify4 C REG_AUTO_LLT_V1 llt_desc_num,
     rtw88_usb_write1 C (REG_AUTO_LLT_V1 + 3) RTW88_USB_TX_AGG_DESC_NUM,
     rtw88_usb_setbits1 C (REG_TXDMA_OFFSET_CHK + 1) (push_bit 1 1),
     rtw88_usb_setbits1 C REG_AUTO_LLT_V1 BIT_AUTO_INIT_LLT_V1,
     tryE (pollE 50 (tryE (rtw88_usb_read4 C REG_AUTO_LLT_V1) (\<lambda>v.
             ret (if v AND BIT_AUTO_INIT_LLT_V1 = 0 then Some () else None)))) (\<lambda>r.
       if r = None then fail (Errno EBUSY) else ret ()),
     rtw88_usb_write1 C (REG_CR + 3) 0]"

definition h2cq_addr :: u32 where
  "h2cq_addr = push_bit RTW88_TX_PAGE_SIZE_SHIFT (of_nat RTW88_RSVD_H2CQ_ADDR)"

definition h2cq_size :: u32 where
  "h2cq_size = push_bit RTW88_TX_PAGE_SIZE_SHIFT (of_nat RTW88_RSVD_H2CQ_NUM)"

definition h2c_ptr :: "u32 \<Rightarrow> u32 \<Rightarrow> u32" where
  "h2c_ptr p v = (v AND 0xFFFC0000) OR p"

definition rtw88_init_h2c :: "'c chip_ops \<Rightarrow> (('c, 'z) hw_scheme, unit) cm" where
  "rtw88_init_h2c C = steps [RTW88_ASSERT_LOCKED,
     modify4 C REG_H2C_HEAD (h2c_ptr h2cq_addr),
     modify4 C REG_H2C_READ_ADDR (h2c_ptr h2cq_addr),
     modify4 C REG_H2C_TAIL (h2c_ptr (h2cq_addr + h2cq_size)),
     modify1 C REG_H2C_INFO (\<lambda>v. (v AND 0xFC) OR 0x01),
     modify1 C REG_H2C_INFO (\<lambda>v. (v AND 0xFB) OR 0x04),
     modify1 C (REG_TXDMA_OFFSET_CHK + 1) (\<lambda>v. (v AND 0x7F) OR 0x80)]"

subsection \<open>Protocol, receiver, USB\<close>

definition pre_txcnt :: u16 where
  "pre_txcnt = WLAN_PRE_TXCNT_TIME_TH OR BIT_EN_PRECNT"

definition prot_mode :: u32 where
  "prot_mode = WLAN_RTS_LEN_TH OR push_bit 8 WLAN_RTS_TX_TIME_TH OR push_bit 16 WLAN_MAX_AGG_PKT_LIMIT OR
     push_bit 24 WLAN_RTS_MAX_AGG_PKT_LIMIT"

definition bar_mode :: u16 where
  "bar_mode = WLAN_BAR_RETRY_LIMIT OR push_bit 8 WLAN_RA_TRY_RATE_AGG_LIMIT"

definition rtw88_8821c_mac_init :: "'c chip_ops \<Rightarrow> (('c, 'z) hw_scheme, unit) cm" where
  "rtw88_8821c_mac_init C = steps [RTW88_ASSERT_LOCKED,
     rtw88_usb_write1 C REG_AMPDU_MAX_TIME_V1 WLAN_AMPDU_MAX_TIME,
     rtw88_usb_setbits1 C REG_TX_HANG_CTRL BIT_EN_EOF_V1,
     rtw88_usb_write1 C REG_PRECNT_CTRL (ucast (pre_txcnt AND 0xFF)),
     rtw88_usb_write1 C (REG_PRECNT_CTRL + 1) (ucast (drop_bit 8 pre_txcnt)),
     rtw88_usb_write4 C REG_PROT_MODE_CTRL prot_mode,
     rtw88_usb_write2 C (REG_BAR_MODE_CTRL + 2) bar_mode,
     rtw88_usb_write1 C REG_FAST_EDCA_VOVI_SETTING FAST_EDCA_VO_TH,
     rtw88_usb_write1 C (REG_FAST_EDCA_VOVI_SETTING + 2) FAST_EDCA_VI_TH,
     rtw88_usb_write1 C REG_FAST_EDCA_BEBK_SETTING FAST_EDCA_BE_TH,
     rtw88_usb_write1 C (REG_FAST_EDCA_BEBK_SETTING + 2) FAST_EDCA_BK_TH,
     rtw88_usb_setbits1 C REG_INIRTS_RATE_SEL (push_bit 5 1),
     rtw88_usb_clrbits1 C REG_TIMER0_SRC_SEL BIT_TSFT_SEL_TIMER0,
     rtw88_usb_write2 C REG_TXPAUSE 0,
     rtw88_usb_write1 C REG_SLOT WLAN_SLOT_TIME,
     rtw88_usb_write1 C REG_PIFS WLAN_PIFS_TIME,
     rtw88_usb_write4 C REG_SIFS WLAN_SIFS_CFG,
     rtw88_usb_write2 C (REG_EDCA_VO_PARAM + 2) WLAN_VO_TXOP_LIMIT,
     rtw88_usb_write2 C (REG_EDCA_VI_PARAM + 2) WLAN_VI_TXOP_LIMIT,
     rtw88_usb_write4 C REG_RD_NAV_NXT WLAN_NAV_CFG,
     rtw88_usb_write2 C REG_RXTSF_OFFSET_CCK WLAN_RX_TSF_CFG,
     rtw88_usb_setbits1 C REG_BCN_CTRL BIT_EN_BCN_FUNCTION,
     rtw88_usb_write4 C REG_TBTT_PROHIBIT WLAN_TBTT_TIME,
     rtw88_usb_write1 C REG_DRVERLYINT WLAN_DRV_EARLY_INT,
     rtw88_usb_write1 C REG_BCNDMATIM WLAN_BCN_DMA_TIME,
     rtw88_usb_clrbits1 C (REG_TX_PTCL_CTRL + 1) (ucast (drop_bit 8 (BIT_SIFS_BK_EN :: u32))),
     rtw88_usb_write4 C REG_RXFLTMAP0 WLAN_RX_FILTER0,
     rtw88_usb_write2 C REG_RXFLTMAP2 WLAN_RX_FILTER2,
     rtw88_usb_write4 C REG_RCR WLAN_RCR_CFG,
     rtw88_usb_write1 C REG_RX_PKT_LIMIT WLAN_RXPKT_MAX_SZ_512,
     rtw88_usb_write1 C (REG_TCR + 2) WLAN_TX_FUNC_CFG2,
     rtw88_usb_write1 C (REG_TCR + 1) WLAN_TX_FUNC_CFG1,
     rtw88_usb_write1 C REG_ACKTO_CCK 0x40,
     rtw88_usb_write1 C REG_ACKTO 0x40,
     rtw88_usb_write2 C REG_RRSR RRSR_INIT_2G,
     rtw88_usb_setbits1 C REG_WMAC_TRXPTCL_CTL_H (push_bit 1 1),
     rtw88_usb_setbits1 C REG_SND_PTCL_CTRL BIT_DIS_CHK_VHTSIGB_CRC,
     rtw88_usb_write4 C (REG_WMAC_OPTION_FUNCTION + 8) WLAN_MAC_OPT_FUNC2,
     rtw88_usb_write1 C (REG_WMAC_OPTION_FUNCTION + 4) WLAN_MAC_OPT_NORM_FUNC1]"

definition rtw88_drv_info_cfg :: "'c chip_ops \<Rightarrow> (('c, 'z) hw_scheme, unit) cm" where
  "rtw88_drv_info_cfg C = steps [RTW88_ASSERT_LOCKED,
     rtw88_usb_write1 C REG_RX_DRVINFO_SZ 4,
     modify1 C (REG_TRXFF_BNDY + 1) (\<lambda>v. (v AND 0xF0) OR 0xF),
     modify4 C REG_RCR (\<lambda>v. v OR BIT_APP_PHYSTS),
     modify4 C (REG_WMAC_OPTION_FUNCTION + 4) (\<lambda>v. v AND NOT (push_bit 8 1 OR push_bit 9 1))]"

definition rtw88_usb_init_burst :: "'c chip_ops \<Rightarrow> (('c, 'z) hw_scheme, unit) cm" where
  "rtw88_usb_init_burst C = steps [RTW88_ASSERT_LOCKED,
     rtw88_usb_write1 C REG_RXDMA_MODE (BIT_DMA_BURST_CNT OR BIT_DMA_MODE OR push_bit 4 BIT_DMA_BURST_SIZE_512),
     rtw88_usb_setbits1 C (REG_TXDMA_OFFSET_CHK + 1) (ucast (drop_bit 8 (BIT_DROP_DATA_EN :: u32)))]"

subsection \<open>The whole bring-up\<close>

definition sec_config :: "bool \<Rightarrow> u16" where
  "sec_config hw_ccmp = (if hw_ccmp then RTW_SEC_TX_DEC_EN OR RTW_SEC_RX_DEC_EN OR RTW_SEC_TX_UNI_USE_DK OR
     RTW_SEC_RX_UNI_USE_DK OR RTW_SEC_TX_BC_USE_DK OR RTW_SEC_RX_BC_USE_DK else 0)"

definition mac_init_steps :: "'c chip_ops \<Rightarrow> (('c, 'z) hw_scheme, unit) cm" where
  "mac_init_steps C = steps [rtw88_txdma_queue_mapping C, rtw88_priority_queue_cfg C, rtw88_init_h2c C,
     rtw88_8821c_mac_init C, rtw88_drv_info_cfg C, rtw88_usb_init_burst C]"

definition mac_init_tail :: "'c chip_ops \<Rightarrow> bool \<Rightarrow> ('c softc, unit) cm" where
  "mac_init_tail C hw_ccmp = steps [
     discard (rtw88_usb_write1 C (REG_CR + 1) 0x06),
     discard (rtw88_usb_write1 C REG_BCN_CTRL BIT_EN_BCN_FUNCTION),
     discard (rtw88_usb_write4 C REG_WMAC_TRXPTCL_CTL WMAC_TRXPTCL_CTL_INIT),
     discard (rtw88_usb_write2 C RTW_SEC_CONFIG (sec_config hw_ccmp)),
     discard (rtw88_usb_write4 C REG_AID 0),
     forE (\<lambda>i. discard (rtw88_usb_write1 C (REG_BSSID0 + of_nat i) 0)) [0..<6],
     discard (rtw88_h2c_general_info C),
     discard (rtw88_h2c_phydm_info C)]"

definition rtw88_mac_init :: "'c chip_ops \<Rightarrow> bool \<Rightarrow> ('c softc rtw88_dev, unit) cm" where
  "rtw88_mac_init C hw_ccmp =
     seqE (on_priv RTW88_LOCK)
     (tryE (attempt (steps [
        on_priv (mac_init_steps C),
        on_priv (mac_init_tail C hw_ccmp),
        discard (rtw88_coex_h2c_bt_wifi_control (rtw88_usb_hci_ops C) 0x0C 0x01),
        discard (rtw88_coex_h2c_tdma_type (rtw88_usb_hci_ops C) 0),
        on_priv (discard (rtw88_write_rf_a_mask C 0x42 0x30000 0x03))])) (\<lambda>r.
      seqE (on_priv RTW88_UNLOCK) (case r of Inl e \<Rightarrow> fail (Errno e) | Inr _ \<Rightarrow> ret ())))"


subsection \<open>What the bring-up leaves\<close>

lemma keeps_mac_steps [keeps_intros]:
  "keeps (on_bus n k z L) is_errno (rtw88_txdma_queue_mapping C)"
  "keeps (on_bus n k z L) is_errno (rtw88_priority_queue_cfg C)"
  "keeps (on_bus n k z L) is_errno (rtw88_init_h2c C)"
  "keeps (on_bus n k z L) is_errno (rtw88_8821c_mac_init C)"
  "keeps (on_bus n k z L) is_errno (rtw88_drv_info_cfg C)"
  "keeps (on_bus n k z L) is_errno (rtw88_usb_init_burst C)"
  unfolding rtw88_txdma_queue_mapping_def rtw88_priority_queue_cfg_def rtw88_init_h2c_def
    rtw88_8821c_mac_init_def rtw88_drv_info_cfg_def rtw88_usb_init_burst_def
  by (intro keeps_intros is_errno_simps)+

lemma keeps_mac_init_steps: "keeps (on_bus n k z L) is_errno (mac_init_steps C)"
  unfolding mac_init_steps_def by (intro keeps_intros)

definition tail_regs :: "'c chip_ops \<Rightarrow> bool \<Rightarrow> (('c, 'z) hw_scheme, unit) cm" where
  "tail_regs C hw_ccmp = steps [
     discard (rtw88_usb_write1 C (REG_CR + 1) 0x06),
     discard (rtw88_usb_write1 C REG_BCN_CTRL BIT_EN_BCN_FUNCTION),
     discard (rtw88_usb_write4 C REG_WMAC_TRXPTCL_CTL WMAC_TRXPTCL_CTL_INIT),
     discard (rtw88_usb_write2 C RTW_SEC_CONFIG (sec_config hw_ccmp)),
     discard (rtw88_usb_write4 C REG_AID 0),
     forE (\<lambda>i. discard (rtw88_usb_write1 C (REG_BSSID0 + of_nat i) 0)) [0..<6]]"

lemma mac_init_tail_split:
  "mac_init_tail C hw = seqE (tail_regs C hw) (seqE (discard (rtw88_h2c_general_info C)) (discard (rtw88_h2c_phydm_info C)))"
  unfolding mac_init_tail_def tail_regs_def steps_simps seqE_assoc seqE_ret
  by (simp add: seqE_def [of _ "ret ()"] tryE_def [of _ "\<lambda>_. ret ()"] fun_eq_iff seqE_def tryE_def split: prod.splits sum.splits)

lemma keeps_tail_regs: "keeps (on_bus n k z L) no_fault (tail_regs C hw)"
  unfolding tail_regs_def
  by (intro keeps_steps keeps_ball_Cons keeps_ball_Nil keeps_forE keeps_discard_all keeps_intros)

lemma h2c_desc_sealed: "length h2c_desc = 48" "txdesc_xor h2c_desc = 0"
  by code_simp+

text \<open>The two packets of the bring-up on the command pipe.\<close>

definition h2c_frame :: "u8 \<Rightarrow> u8 list \<Rightarrow> nat \<times> u8 list" where
  "h2c_frame sub body = (RTW88_BULK_TX_H2C, h2c_desc @ h2c_pkt sub body)"

lemma length_h2c_pkt: "length body \<le> 24 \<Longrightarrow> length (h2c_pkt sub body) = 32"
  by (simp add: h2c_pkt_def)

lemma h2c_frame_sealed: "txdesc_xor (snd (h2c_frame sub body)) = 0"
  by (simp add: h2c_frame_def txdesc_xor_append h2c_desc_sealed)

lemma h2c_packet_run:
  assumes "on_line n k s" "rtw88_h2c_packet C sub body s = (r, s')" "length body \<le> 24"
  shows "on_line n k s' \<and> bulk_log s' = bulk_log s @ [h2c_frame sub body] \<and> sc_phy s' = sc_phy s \<and> (\<forall>e. r = Inl e \<longrightarrow> is_errno e)"
proof -
  let ?d = "h2c_desc @ h2c_pkt sub body"
  have l: "length ?d = 80" using assms(3) by (simp add: length_h2c_pkt h2c_desc_sealed)
  have "RTW88_ASSERT_LOCKED s = (Inr (), s)" using assms(1) by (simp add: RTW88_ASSERT_LOCKED_def on_line_def)
  with assms(2,3) have run: "rtw88_bulk_tx_sync C RTW88_BULK_TX_H2C ?d s = (r, s')" by (simp add: rtw88_h2c_packet_def)
  have "?d \<noteq> []" "length ?d \<le> RTW88_TX_BUFSZ" using l by auto
  note b = bulk_tx_sync_run [OF assms(1) run this]
  have "sc_phy s' = sc_phy s" by (rule bulk_tx_sync_phy [OF run])
  with b show ?thesis by (simp add: h2c_frame_def)
qed

lemma discard_h2c_packet:
  assumes "on_line n k s" "length body \<le> 24"
  shows "\<exists>s'. discard (rtw88_h2c_packet C sub body) s = (Inr (), s') \<and> on_line n k s' \<and>
    bulk_log s' = bulk_log s @ [h2c_frame sub body] \<and> sc_phy s' = sc_phy s"
proof -
  obtain r s' where run: "rtw88_h2c_packet C sub body s = (r, s')" by fastforce
  from h2c_packet_run [OF assms(1) run assms(2)] show ?thesis
    by (cases r) (auto simp: run is_errno_def split: fault.splits)
qed

text \<open>What the two packets of the bring-up say.\<close>

definition mac_init_packets :: "phy_softc \<Rightarrow> (nat \<times> u8 list) list" where
  "mac_init_packets p = [h2c_frame RTW88_H2C_SUB_GENERAL_INFO (le32enc (push_bit 16 0x30)),
     h2c_frame RTW88_H2C_SUB_PHYDM_INFO (le32enc (phydm_info_word p) @ le32enc 0)]"

lemma quiet_softc:
  fixes s s' :: "'c softc"
  assumes "hw.more s' = hw.more s"
  shows "bulk_log s' = bulk_log s" "sc_phy s' = sc_phy s" "sc_link s' = sc_link s" "sc_tx s' = sc_tx s"
    "sc_rx s' = sc_rx s" "sc_dig s' = sc_dig s" "sc_fw s' = sc_fw s"
  using assms by (cases s; cases s'; simp)+

text \<open>What the registers do leaves everything of the softc alone that \<open>hw.more\<close> settles.\<close>

lemma keeps_quiet:
  assumes "\<And>z L. keeps (on_bus n k z L) F m" "\<And>s s'. hw.more s' = hw.more s \<Longrightarrow> R s \<Longrightarrow> R s'"
  shows "keeps (\<lambda>s. on_line n k s \<and> R s) F m"
proof (rule keepsI)
  fix s r s' assume s: "on_line n k s \<and> R s" and m: "m s = (r, s')"
  from keepsD [OF assms(1) on_line_bus m] s
  have "on_bus n k (hw.more s) (ep0_log s) s'" "\<forall>e. r = Inl e \<longrightarrow> F e" by auto
  with s assms(2) [of s' s] show "(on_line n k s' \<and> R s') \<and> (\<forall>e. r = Inl e \<longrightarrow> F e)"
    by (auto simp: on_bus_def on_line_def)
qed

lemma no_faultD:
  assumes "\<And>z L. keeps (on_bus n k z L) no_fault m" "on_line n k s"
  shows "\<exists>v s'. m s = (Inr v, s') \<and> on_line n k s' \<and> hw.more s' = hw.more s \<and> (\<exists>xs. ep0_log s' = ep0_log s @ xs)"
  using keeps_no_fault [OF assms(1) on_line_bus [OF assms(2)]] by (auto simp: on_bus_def on_line_def)

lemma mac_init_tail_run:
  assumes "on_line n k s"
  shows "\<exists>s'. mac_init_tail C hw s = (Inr (), s') \<and> on_line n k s' \<and> bulk_log s' = bulk_log s @ mac_init_packets (sc_phy s)"
proof -
  obtain s1 where 1: "tail_regs C hw s = (Inr (), s1)" "on_line n k s1" "hw.more s1 = hw.more s"
    using no_faultD [OF keeps_tail_regs assms] by force
  obtain s2 where 2: "discard (rtw88_h2c_general_info C) s1 = (Inr (), s2)" "on_line n k s2"
    "bulk_log s2 = bulk_log s1 @ [h2c_frame RTW88_H2C_SUB_GENERAL_INFO (le32enc (push_bit 16 0x30))]" "sc_phy s2 = sc_phy s1"
    using discard_h2c_packet [OF 1(2), of "le32enc (push_bit 16 0x30)" C RTW88_H2C_SUB_GENERAL_INFO]
    unfolding rtw88_h2c_general_info_def by auto
  have eq: "discard (rtw88_h2c_phydm_info C) s2 =
      discard (rtw88_h2c_packet C RTW88_H2C_SUB_PHYDM_INFO (le32enc (phydm_info_word (sc_phy s2)) @ le32enc 0)) s2"
    by (simp add: rtw88_h2c_phydm_info_def discard_def attempt_def tryE_def)
  from discard_h2c_packet [OF 2(2), of "le32enc (phydm_info_word (sc_phy s2)) @ le32enc 0" C RTW88_H2C_SUB_PHYDM_INFO]
  obtain s3 where 3: "discard (rtw88_h2c_phydm_info C) s2 = (Inr (), s3)" "on_line n k s3"
    "bulk_log s3 = bulk_log s2 @ [h2c_frame RTW88_H2C_SUB_PHYDM_INFO (le32enc (phydm_info_word (sc_phy s2)) @ le32enc 0)]"
    unfolding eq by auto
  from 1 2 3 quiet_softc(1,2) [OF 1(3)] show ?thesis
    by (simp add: mac_init_tail_split mac_init_packets_def)
qed

text \<open>The end of the bring-up: commands and a radio write whose failures are ignored.\<close>

definition mac_init_last :: "'c chip_ops \<Rightarrow> ('c softc rtw88_dev, unit) cm" where
  "mac_init_last C = steps [discard (rtw88_coex_h2c_bt_wifi_control (rtw88_usb_hci_ops C) 0x0C 0x01),
     discard (rtw88_coex_h2c_tdma_type (rtw88_usb_hci_ops C) 0),
     on_priv (discard (rtw88_write_rf_a_mask C 0x42 0x30000 0x03))]"

lemma keeps_mac_init_last: "keeps (on_dev (on_bus n k z L) (\<lambda>_. True)) no_fault (mac_init_last C)"
  unfolding mac_init_last_def
  by (intro keeps_steps keeps_ball_Cons keeps_ball_Nil keeps_discard_all [OF keeps_coex_commands(1)]
      keeps_discard_all [OF keeps_coex_commands(2)] keeps_lift keeps_discard_all keeps_intros)

lemma mac_init_last_run:
  assumes "on_line n k (priv d)"
  shows "\<exists>d'. mac_init_last C d = (Inr (), d') \<and> on_line n k (priv d') \<and> bulk_log (priv d') = bulk_log (priv d)"
proof -
  have "on_dev (on_bus n k (hw.more (priv d)) (ep0_log (priv d))) (\<lambda>_. True) d"
    using on_line_bus [OF assms] by (simp add: on_dev_def)
  from keeps_no_fault [OF keeps_mac_init_last this] obtain u d' where
    "mac_init_last C d = (Inr u, d')" "on_bus n k (hw.more (priv d)) (ep0_log (priv d)) (priv d')" by (auto simp: on_dev_def)
  moreover from this(2) have "on_line n k (priv d')" "hw.more (priv d') = hw.more (priv d)" by (auto simp: on_bus_def on_line_def)
  ultimately show ?thesis using quiet_softc(1) by auto
qed

lemma mac_init_packets_ok: "\<forall>p \<in> set (mac_init_packets ph). fst p = RTW88_BULK_TX_H2C \<and> length (snd p) = 80 \<and> txdesc_xor (snd p) = 0"
  by (simp add: mac_init_packets_def h2c_frame_sealed) (simp add: h2c_frame_def length_h2c_pkt h2c_desc_sealed)

lemma mac_init_run:
  assumes "mtx_depth (priv d) = 0" "\<not> sc_io_busy (priv d)" "rtw88_mac_init C hw d = (r, d')"
  shows "r = fst (mac_init_steps C ((priv d)\<lparr>mtx_depth := 1\<rparr>)) \<and> mtx_depth (priv d') = 0 \<and> \<not> sc_io_busy (priv d') \<and>
    (case r of Inl f \<Rightarrow> is_errno f \<and> bulk_log (priv d') = bulk_log (priv d)
     | Inr _ \<Rightarrow> bulk_log (priv d') = bulk_log (priv d) @ mac_init_packets (sc_phy (priv d)) \<and>
         (\<forall>p \<in> set (mac_init_packets (sc_phy (priv d))). fst p = RTW88_BULK_TX_H2C \<and> length (snd p) = 80 \<and> txdesc_xor (snd p) = 0))"
proof -
  define s1 where "s1 = (priv d)\<lparr>mtx_depth := 1\<rparr>"
  let ?d1 = "d\<lparr>priv := s1\<rparr>"
  have line: "on_line 0 (invariants s1) s1" using assms(2) by (simp add: on_line_def s1_def)
  have lock: "on_priv RTW88_LOCK d = (Inr (), ?d1)" using assms(1) by (simp add: on_priv_run RTW88_LOCK_def s1_def)
  have unlock: "on_priv RTW88_UNLOCK t = (Inr (), t\<lparr>priv := (priv t)\<lparr>mtx_depth := 0\<rparr>\<rparr>)"
    if "on_line 0 k (priv t)" for t :: "'a softc rtw88_dev" and k
    using that by (simp add: on_priv_run RTW88_UNLOCK_def on_line_def)
  obtain r2 s2 where st: "mac_init_steps C s1 = (r2, s2)" by fastforce
  from quietD [OF keeps_mac_init_steps line st] quiet_softc(1,2) [of s2 s1]
  have 2: "on_line 0 (invariants s1) s2" "\<forall>e. r2 = Inl e \<longrightarrow> is_errno e" "bulk_log s2 = bulk_log (priv d)"
    "sc_phy s2 = sc_phy (priv d)" by (auto simp: s1_def)
  have run: "rtw88_mac_init C hw d = tryE (attempt (seqE (on_priv (mac_init_steps C))
      (seqE (on_priv (mac_init_tail C hw)) (mac_init_last C)))) (\<lambda>r.
      seqE (on_priv RTW88_UNLOCK) (case r of Inl e \<Rightarrow> fail (Errno e) | Inr _ \<Rightarrow> ret ())) ?d1"
    unfolding rtw88_mac_init_def mac_init_last_def steps_simps using lock by simp
  show ?thesis
  proof (cases r2)
    case (Inl f)
    with 2(2) obtain e where "f = Errno e" by (cases f) auto
    with Inl st run assms(3) unlock [where t = "d\<lparr>priv := s2\<rparr>"] 2 show ?thesis
      by (auto simp: on_priv_run on_line_def s1_def)
  next
    case (Inr u)
    obtain s3 where 3: "mac_init_tail C hw s2 = (Inr (), s3)" "on_line 0 (invariants s1) s3"
      "bulk_log s3 = bulk_log (priv d) @ mac_init_packets (sc_phy (priv d))"
      using mac_init_tail_run [OF 2(1)] 2(3,4) by auto
    obtain d4 where 4: "mac_init_last C (d\<lparr>priv := s3\<rparr>) = (Inr (), d4)" "on_line 0 (invariants s1) (priv d4)"
      "bulk_log (priv d4) = bulk_log s3"
      using mac_init_last_run [of 0 "invariants s1" "d\<lparr>priv := s3\<rparr>"] 3(2) by auto
    have "r = Inr () \<and> d' = d4\<lparr>priv := (priv d4)\<lparr>mtx_depth := 0\<rparr>\<rparr>"
      using Inr st run assms(3) 3(1) 4(1) unlock [OF 4(2)] by (simp add: on_priv_run)
    with 3 4 mac_init_packets_ok st Inr show ?thesis by (simp add: on_line_def s1_def)
  qed
qed

text \<open>The six steps whose failure ends the bring-up, as a list, and what the error of a sequence of steps says of it: it is
  the error of one of them, and all the steps before that one succeeded.\<close>

definition mac_init_six :: "'c chip_ops \<Rightarrow> (('c, 'z) hw_scheme, unit) cm list" where
  "mac_init_six C = [rtw88_txdma_queue_mapping C, rtw88_priority_queue_cfg C, rtw88_init_h2c C,
     rtw88_8821c_mac_init C, rtw88_drv_info_cfg C, rtw88_usb_init_burst C]"

lemma mac_init_steps_six: "mac_init_steps C = steps (mac_init_six C)" "length (mac_init_six C) = 6"
  by (simp_all add: mac_init_steps_def mac_init_six_def)

lemma steps_first_error:
  assumes "fst (steps ms s) = Inl f"
  shows "\<exists>i t. i < length ms \<and> steps (take i ms) s = (Inr (), t) \<and> fst ((ms ! i) t) = Inl f"
  using assms
proof (induction ms arbitrary: s)
  case (Cons m ms)
  obtain r t where m: "m s = (r, t)" by fastforce
  show ?case
  proof (cases r)
    case (Inl e)
    with m Cons.prems show ?thesis by (intro exI [of _ 0] exI [of _ s]) simp
  next
    case (Inr u)
    with m Cons.prems have "fst (steps ms t) = Inl f" by simp
    from Cons.IH [OF this] obtain i t' where
      "i < length ms" "steps (take i ms) t = (Inr (), t')" "fst ((ms ! i) t') = Inl f" by blast
    with m Inr show ?thesis by (intro exI [of _ "Suc i"] exI [of _ t']) simp
  qed
qed simp

text \<open>C33. The MAC bring-up, for any device, started with the mutex free. It returns with the mutex free and no request in flight. Its
  result is the result of its six steps run one after the other with the mutex held: if they all succeed the bring-up
  succeeds, whatever becomes of the writes after them, and exactly two packets have gone to the command pipe: general
  information, then the RF front-end type and chip cut that attach found, each of 80 bytes behind a descriptor whose
  checksum is right. If one of them fails, the result is the errno of the first that fails, all the steps before it
  having succeeded, and the firmware has been sent no packet.\<close>
theorem mac_init_outcome:
  assumes "mtx_depth (priv d) = 0" "\<not> sc_io_busy (priv d)" "rtw88_mac_init C hw d = (r, d')"
  shows "r = fst (steps (mac_init_six C) ((priv d)\<lparr>mtx_depth := 1\<rparr>)) \<and> mtx_depth (priv d') = 0 \<and> \<not> sc_io_busy (priv d') \<and>
    (case r of Inl f \<Rightarrow> is_errno f \<and> bulk_log (priv d') = bulk_log (priv d) \<and>
         (\<exists>i t. i < 6 \<and> steps (take i (mac_init_six C)) ((priv d)\<lparr>mtx_depth := 1\<rparr>) = (Inr (), t) \<and>
                fst ((mac_init_six C ! i) t) = Inl f)
     | Inr _ \<Rightarrow> bulk_log (priv d') = bulk_log (priv d) @ mac_init_packets (sc_phy (priv d)) \<and>
         (\<forall>p \<in> set (mac_init_packets (sc_phy (priv d))). fst p = RTW88_BULK_TX_H2C \<and> length (snd p) = 80 \<and> txdesc_xor (snd p) = 0))"
proof -
  note run = mac_init_run [OF assms, unfolded mac_init_steps_six]
  show ?thesis
  proof (cases r)
    case (Inl f)
    with run have "fst (steps (mac_init_six C) ((priv d)\<lparr>mtx_depth := 1\<rparr>)) = Inl f" by simp
    from steps_first_error [OF this, unfolded mac_init_steps_six(2)] run show ?thesis unfolding Inl sum.case by blast
  next
    case (Inr u)
    with run show ?thesis unfolding Inr sum.case by blast
  qed
qed

text \<open>The command ring starts and ends below the eighteen bits of its pointer.\<close>

lemma h2cq_range: "h2cq_addr = 0xFA00" "h2cq_addr + h2cq_size = 0xFE00"
  by (simp_all add: h2cq_addr_def h2cq_size_def fifo_numbers RTW88_TX_PAGE_SIZE_SHIFT_def RTW88_RSVD_H2CQ_NUM_def push_bit_eq_mult)

lemma not_mask18: "(0xFFFC0000 :: u32) = NOT (mask 18)"
  by (simp add: mask_eq_exp_minus_1)

lemma h2c_ptr_parts:
  assumes "take_bit 18 p = p"
  shows "take_bit 18 (h2c_ptr p v) = p" "drop_bit 18 (h2c_ptr p v) = drop_bit 18 v"
proof -
  have p: "bit p n \<Longrightarrow> n < 18" for n
    by (subst (asm) assms [symmetric]) (simp add: bit_take_bit_iff)
  show "take_bit 18 (h2c_ptr p v) = p" 
    unfolding h2c_ptr_def not_mask18 by (rule bit_word_eqI) (use p in \<open>auto simp: bit_simps\<close>)
  show "drop_bit 18 (h2c_ptr p v) = drop_bit 18 v"
    unfolding h2c_ptr_def not_mask18 by (rule bit_word_eqI) (use p in \<open>auto simp: bit_simps dest: bit_imp_le_length\<close>)
qed

text \<open>The page numbers that the bring-up programs divide the transmit FIFO exactly. The queues fill the pages below the reserved
  boundary, the reserved areas follow one another from there to the last page, the reserved pages that the driver uploads
  fit their area, and the pointers of the command ring, written into registers with other fields, give the
  byte range of its area and keep those fields.\<close>
theorem fifo_partition:
  "RTW88_PG_HQ_NUM + RTW88_PG_NQ_NUM + RTW88_PG_LQ_NUM + RTW88_PG_EXQ_NUM + RTW88_PG_GAPQ_NUM + RTW88_PG_PUBQ_NUM = RTW88_RSVD_BOUNDARY \<and>
   RTW88_RSVD_BOUNDARY = RTW88_RSVD_DRV_ADDR \<and>
   RTW88_RSVD_DRV_ADDR + RTW88_RSVD_DRV_PG_NUM = RTW88_RSVD_H2C_INFO_ADDR \<and>
   RTW88_RSVD_H2C_INFO_ADDR + RTW88_RSVD_H2C_EXTRAINFO_NUM = RTW88_RSVD_H2C_STA_ADDR \<and>
   RTW88_RSVD_H2C_STA_ADDR + RTW88_RSVD_H2C_STATICINFO_NUM = RTW88_RSVD_H2CQ_ADDR \<and>
   RTW88_RSVD_H2CQ_ADDR + RTW88_RSVD_H2CQ_NUM = RTW88_RSVD_CPU_INSTR_ADDR \<and>
   RTW88_RSVD_CPU_INSTR_ADDR + RTW88_RSVD_CPU_INSTR_NUM = RTW88_RSVD_FW_TXBUF_ADDR \<and>
   RTW88_RSVD_FW_TXBUF_ADDR + RTW88_RSVD_FW_TXBUF_NUM = RTW88_RSVD_CSIBUF_ADDR \<and>
   RTW88_RSVD_CSIBUF_ADDR + RTW88_CSI_BUF_PG_NUM = RTW88_TXFF_PG_NUM \<and>
   RTW88_TX_PKT_DESC_SZ + RTW88_RSVD_TOTAL_BYTES \<le> RTW88_RSVD_PAGE_BYTES * RTW88_RSVD_DRV_PG_NUM \<and>
   (\<forall>v. take_bit 18 (h2c_ptr h2cq_addr v) = of_nat (RTW88_RSVD_PAGE_BYTES * RTW88_RSVD_H2CQ_ADDR) \<and>
        take_bit 18 (h2c_ptr (h2cq_addr + h2cq_size) v) =
          of_nat (RTW88_RSVD_PAGE_BYTES * (RTW88_RSVD_H2CQ_ADDR + RTW88_RSVD_H2CQ_NUM)) \<and>
        drop_bit 18 (h2c_ptr h2cq_addr v) = drop_bit 18 v \<and> drop_bit 18 (h2c_ptr (h2cq_addr + h2cq_size) v) = drop_bit 18 v)"
  unfolding h2cq_range(2) by (simp add: h2cq_range(1) h2c_ptr_parts) (simp add: fifo_numbers fifo_pages)

text \<open>On the idle chip no register access fails.\<close>

lemma idle_chip: "c_read idle_ops a len c = (Some (\<lambda>_. 0), c)" "c_write idle_ops a bs c = (True, c)"
  by (simp_all add: idle_ops_def)

lemma keeps_idle [keeps_intros]:
  "keeps (on_bus n k z L) no_fault (rtw88_usb_read_region idle_ops a len)"
  "keeps (on_bus n k z L) no_fault (rtw88_usb_write_region idle_ops a bs)"
proof -
  have o: "mtx_depth s \<noteq> 0" "\<not> sc_io_busy s" if "on_bus n k z L s" for s
    using that by (auto simp: on_bus_def)
  show "keeps (on_bus n k z L) no_fault (rtw88_usb_read_region idle_ops a len)"
  proof (rule keepsI)
    fix s r s' assume "on_bus n k z L s" "rtw88_usb_read_region idle_ops a len s = (r, s')"
    with read_region_ok [OF o [OF this(1)] idle_chip(1)] show "on_bus n k z L s' \<and> (\<forall>e. r = Inl e \<longrightarrow> no_fault e)"
      by (auto simp: on_bus_def sealed_log)
  qed
  show "keeps (on_bus n k z L) no_fault (rtw88_usb_write_region idle_ops a bs)"
  proof (rule keepsI)
    fix s r s' assume "on_bus n k z L s" "rtw88_usb_write_region idle_ops a bs s = (r, s')"
    with write_region_ok [OF o [OF this(1)] idle_chip(2)] show "on_bus n k z L s' \<and> (\<forall>e. r = Inl e \<longrightarrow> no_fault e)"
      by (auto simp: on_bus_def sealed_log)
  qed
qed

lemma keeps_idle_regs [keeps_intros]:
  "keeps (on_bus n k z L) no_fault (rtw88_usb_read1 idle_ops a)"
  "keeps (on_bus n k z L) no_fault (rtw88_usb_read4 idle_ops a)"
  "keeps (on_bus n k z L) no_fault (rtw88_usb_write1 idle_ops a b)"
  "keeps (on_bus n k z L) no_fault (rtw88_usb_write2 idle_ops a w)"
  "keeps (on_bus n k z L) no_fault (rtw88_usb_write4 idle_ops a v)"
  "keeps (on_bus n k z L) no_fault (rtw88_usb_setbits1 idle_ops a b)"
  "keeps (on_bus n k z L) no_fault (rtw88_usb_clrbits1 idle_ops a b)"
  "keeps (on_bus n k z L) no_fault (modify4 idle_ops a f)"
  "keeps (on_bus n k z L) no_fault (modify1 idle_ops a g)"
  unfolding rtw88_usb_read1_def rtw88_usb_read4_def rtw88_usb_write1_def rtw88_usb_write2_def rtw88_usb_write4_def
    rtw88_usb_setbits1_def rtw88_usb_clrbits1_def modify4_def modify1_def
  unfolding rtw88_usb_read1_def rtw88_usb_read4_def rtw88_usb_write1_def rtw88_usb_write4_def
  by (intro keeps_intros)+

lemma idle_read4:
  assumes "on_bus n k z L s"
  shows "\<exists>s'. rtw88_usb_read4 idle_ops a s = (Inr 0, s') \<and> on_bus n k z L s'"
proof -
  from keeps_no_fault [OF keeps_idle(1) assms] obtain v s' where
    r: "rtw88_usb_read_region idle_ops a 4 s = (Inr v, s')" "on_bus n k z L s'" by blast
  from assms have "mtx_depth s \<noteq> 0" "\<not> sc_io_busy s" by (auto simp: on_bus_def)
  from read_region_ok [OF this idle_chip(1)] r(1) have "v = map (\<lambda>_. 0) [0..<4]" by simp
  then have "le32dec v 0 = 0" by (simp add: le32dec_def le32_def at_def)
  with r show ?thesis by (simp add: rtw88_usb_read4_def)
qed

lemma keeps_idle_llt:
  "keeps (on_bus n k z L) no_fault (tryE (pollE 50 (tryE (rtw88_usb_read4 idle_ops REG_AUTO_LLT_V1) (\<lambda>v.
      ret (if v AND BIT_AUTO_INIT_LLT_V1 = 0 then Some () else None)))) (\<lambda>r.
      if r = None then fail (Errno EBUSY) else ret ()))"
proof (rule keepsI)
  fix s r s' assume s: "on_bus n k z L s" and run: "tryE (pollE 50 (tryE (rtw88_usb_read4 idle_ops REG_AUTO_LLT_V1) (\<lambda>v.
      ret (if v AND BIT_AUTO_INIT_LLT_V1 = 0 then Some () else None)))) (\<lambda>r.
      if r = None then fail (Errno EBUSY) else ret ()) s = (r, s')"
  from idle_read4 [OF s] obtain s1 where "rtw88_usb_read4 idle_ops REG_AUTO_LLT_V1 s = (Inr 0, s1)" "on_bus n k z L s1" by blast
  with run show "on_bus n k z L s' \<and> (\<forall>e. r = Inl e \<longrightarrow> no_fault e)"
    by (auto simp: numeral_eq_Suc)
qed

lemma keeps_idle_mac: "keeps (on_bus n k z L) no_fault (mac_init_steps idle_ops)"
  unfolding mac_init_steps_def rtw88_txdma_queue_mapping_def rtw88_priority_queue_cfg_def rtw88_init_h2c_def
    rtw88_8821c_mac_init_def rtw88_drv_info_cfg_def rtw88_usb_init_burst_def
  by (intro keeps_steps keeps_ball_Cons keeps_ball_Nil keeps_idle_llt keeps_idle_regs keeps_assert_locked)

theorem mac_init_outcome_witness:
  "\<exists>d'. rtw88_mac_init idle_ops False (rtw88_dev_zero (softc_zero () 0 True)) = (Inr (), d') \<and>
     map fst (bulk_log (priv d')) = [RTW88_BULK_TX_H2C, RTW88_BULK_TX_H2C]"
proof -
  let ?d = "rtw88_dev_zero (softc_zero () 0 True)"
  have z: "mtx_depth (priv ?d) = 0" "\<not> sc_io_busy (priv ?d)" "bulk_log (priv ?d) = []" by (simp_all add: softc_zero_def)
  obtain r d' where run: "rtw88_mac_init idle_ops False ?d = (r, d')" by fastforce
  have "on_bus 0 True (hw.more (priv ?d)) [] ((priv ?d)\<lparr>mtx_depth := 1\<rparr>)" by (simp add: on_bus_def softc_zero_def)
  from keeps_no_fault [OF keeps_idle_mac this] have six: "fst (steps (mac_init_six idle_ops) ((priv ?d)\<lparr>mtx_depth := 1\<rparr>)) = Inr ()"
    unfolding mac_init_steps_six by auto
  note o = mac_init_outcome [OF z(1,2) run]
  from o [THEN conjunct1] six have "r = Inr ()" by simp
  with o z(3) run show ?thesis by (simp add: mac_init_packets_def h2c_frame_def)
qed

end
