(* ===== verification/Rtw_Wp.thy ===== *)
theory Rtw_Wp
  imports Rtw_Prelude
begin

section \<open>What a run ends in\<close>

text \<open>
  \<open>ends m Q E s\<close>: run from \<open>s\<close>, the function \<open>m\<close> succeeds with a value and a state in \<open>Q\<close>, or fails with a fault and a state in
  \<open>E\<close>. The equations push the two postconditions through a function, so that a statement about a whole handler becomes
  one about its calls; a call is then settled by its own lemma (\<open>ends_conseq\<close>) or by an invariant it keeps (\<open>ends_keeps\<close>).
\<close>

named_theorems ends_simps "equations that push postconditions through a C function"

definition ends :: "('s, 'a) cm \<Rightarrow> ('a \<Rightarrow> 's \<Rightarrow> bool) \<Rightarrow> (fault \<Rightarrow> 's \<Rightarrow> bool) \<Rightarrow> 's \<Rightarrow> bool" where
  "ends m Q E s \<longleftrightarrow> (case m s of (Inr v, s') \<Rightarrow> Q v s' | (Inl e, s') \<Rightarrow> E e s')"

lemma ends_run: "m s = (r, s') \<Longrightarrow> ends m Q E s \<longleftrightarrow> (case r of Inr v \<Rightarrow> Q v s' | Inl e \<Rightarrow> E e s')"
  by (simp add: ends_def split: sum.splits)

lemma ends_value [ends_simps]: "ends (ret v) Q E = Q v" "ends (fail e) Q E = E e" "ends (getS f) Q E = (\<lambda>s. Q (f s) s)"
  by (simp_all add: ends_def fun_eq_iff)

lemma ends_Pair [ends_simps]: "ends (Pair (Inr v)) Q E = Q v" "ends (Pair (Inl e)) Q E = E e"
  by (simp_all add: ends_def fun_eq_iff)

lemma ends_updS [ends_simps]: "ends (updS g) Q E = (\<lambda>s. Q () (g s))"
  by (simp add: ends_def fun_eq_iff)

lemma ends_tryE [ends_simps]: "ends (tryE m f) Q E = ends m (\<lambda>v. ends (f v) Q E) E"
  by (simp add: ends_def tryE_def fun_eq_iff split: prod.splits sum.splits)

lemma ends_seqE [ends_simps]: "ends (seqE m k) Q E = ends m (\<lambda>_. ends k Q E) E"
  by (simp add: seqE_def ends_tryE)

lemma ends_whenE [ends_simps]: "ends (whenE b m) Q E s \<longleftrightarrow> (if b then ends m Q E s else Q () s)"
  by (simp add: whenE_def ends_value)

lemma ends_if [ends_simps]: "ends (if b then m else k) Q E s \<longleftrightarrow> (if b then ends m Q E s else ends k Q E s)"
  by simp

lemma ends_case_option [ends_simps]:
  "ends (case x of None \<Rightarrow> m | Some v \<Rightarrow> f v) Q E s \<longleftrightarrow> (case x of None \<Rightarrow> ends m Q E s | Some v \<Rightarrow> ends (f v) Q E s)"
  by (simp split: option.splits)

lemma ends_case_prod [ends_simps]:
  "ends (case x of (a, b) \<Rightarrow> f a b) Q E s \<longleftrightarrow> (case x of (a, b) \<Rightarrow> ends (f a b) Q E s)"
  by (simp split: prod.splits)

lemma ends_Let [ends_simps]: "ends (let v = x in f v) Q E s \<longleftrightarrow> (let v = x in ends (f v) Q E s)"
  by (simp add: Let_def)

lemma ends_attempt [ends_simps]:
  "ends (attempt m) Q E s \<longleftrightarrow> ends m (\<lambda>v. Q (Inr v)) (\<lambda>f s'. case f of Errno e \<Rightarrow> Q (Inl e) s' | _ \<Rightarrow> E f s') s"
  by (simp add: ends_def attempt_def split: prod.splits sum.splits fault.splits)

lemma ends_discard [ends_simps]:
  "ends (discard m) Q E s \<longleftrightarrow> ends m (\<lambda>_. Q ()) (\<lambda>f s'. case f of Errno _ \<Rightarrow> Q () s' | _ \<Rightarrow> E f s') s"
  by (simp add: discard_def ends_simps)

lemma ends_steps [ends_simps]:
  "ends (steps []) Q E = Q ()" "ends (steps (m # ms)) Q E = ends m (\<lambda>_. ends (steps ms) Q E) E"
  by (simp_all add: ends_simps)

lemma ends_conseq:
  assumes "ends m Q E s" "\<And>v s'. Q v s' \<Longrightarrow> Q' v s'" "\<And>e s'. E e s' \<Longrightarrow> E' e s'"
  shows "ends m Q' E' s"
  using assms by (auto simp: ends_def split: prod.splits sum.splits)

lemma ends_conj: "ends m Q E s \<Longrightarrow> ends m Q' E' s \<Longrightarrow> ends m (\<lambda>v s'. Q v s' \<and> Q' v s') (\<lambda>e s'. E e s' \<and> E' e s') s"
  by (auto simp: ends_def split: prod.splits sum.splits)

lemma ends_keeps:
  assumes "keeps I F m" "I s" "\<And>v s'. I s' \<Longrightarrow> Q v s'" "\<And>e s'. F e \<Longrightarrow> I s' \<Longrightarrow> E e s'"
  shows "ends m Q E s"
proof -
  obtain r s' where run: "m s = (r, s')" by fastforce
  from keepsD [OF assms(1,2) run] assms(3,4) show ?thesis by (simp add: ends_run [of m, OF run] split: sum.splits)
qed

lemma endsD: "ends m Q E s \<Longrightarrow> m s = (r, s') \<Longrightarrow> (case r of Inr v \<Rightarrow> Q v s' | Inl e \<Rightarrow> E e s')"
  using ends_run [of m s r s' Q E] by blast

lemma ends_keepsI:
  assumes "\<And>s. I s \<Longrightarrow> ends m (\<lambda>_. I) (\<lambda>e s'. F e \<and> I s') s"
  shows "keeps I F m"
proof (rule keepsI)
  fix s r s' assume "I s" and run: "m s = (r, s')"
  from endsD [of m, OF assms run] \<open>I s\<close> show "I s' \<and> (\<forall>e. r = Inl e \<longrightarrow> F e)" by (auto split: sum.splits)
qed

end
