(* ===== verification/Rtw_Rx.thy ===== *)
theory Rtw_Rx
  imports Rtw_Mac Rtw_Wp
begin

section \<open>The receive path\<close>

text \<open>
  From a bulk-IN transfer to the frames given to net80211, as in \<^verbatim>\<open>if_rtw88_usb.c\<close>: receive descriptor, PHY status, removal of the CCMP header and
  trailer, signal average, reports of the firmware (C2H), the EAPOL observer, and the loop over the
  packets of a transfer. What the kernel around the driver decides is the parameter \<open>net_ops\<close>: the header sizes of net80211 and whether an
  mbuf can be had for the packet at some offset of the transfer. A frame given to net80211 is a result of the model; radiotap, traces and messages have no
  model, and other threads do not run in the window in which \<^verbatim>\<open>rtw88_rx_one\<close> drops the lock around \<^verbatim>\<open>ieee80211_input_mimo_all\<close>. Signed bytes are 8-bit words read with \<^const>\<open>sint\<close> where the code compares them.
\<close>

record net_ops =
  ieee80211_hdrsize :: "u8 list \<Rightarrow> nat"
  ieee80211_anyhdrsize :: "u8 list \<Rightarrow> nat"
  m_get2 :: "nat \<Rightarrow> bool"

abbreviation (input) IEEE80211_FC1_PROTECTED :: u8 where "IEEE80211_FC1_PROTECTED \<equiv> 0x40"
abbreviation (input) IEEE80211_FC0_TYPE_MASK :: u8 where "IEEE80211_FC0_TYPE_MASK \<equiv> 0x0C"
abbreviation (input) IEEE80211_FC0_TYPE_DATA :: u8 where "IEEE80211_FC0_TYPE_DATA \<equiv> 0x08"
abbreviation (input) IEEE80211_CRC_LEN :: u16 where "IEEE80211_CRC_LEN \<equiv> 4"
abbreviation (input) MCLBYTES :: u16 where "MCLBYTES \<equiv> 2048"
abbreviation (input) IEEE80211_FRAME_LEN :: nat where "IEEE80211_FRAME_LEN \<equiv> 24"
abbreviation (input) CCMP_HDR :: nat where "CCMP_HDR \<equiv> 8"
abbreviation (input) CCMP_MIC :: nat where "CCMP_MIC \<equiv> 8"

definition upd_rx :: "(rx_softc \<Rightarrow> rx_softc) \<Rightarrow> ('c softc, unit) cm" where
  "upd_rx f = updS (\<lambda>s. s\<lparr>sc_rx := f (sc_rx s)\<rparr>)"

subsection \<open>Descriptor and PHY status\<close>

record rtw88_rx_stat =
  st_pkt_len :: u16
  st_drv_info_sz :: u8
  st_shift :: u8
  st_rate :: u8
  st_bw :: u8
  st_enc_type :: u8
  st_crc_err :: bool
  st_icv_err :: bool
  st_swdec :: bool
  st_phy_status :: bool
  st_is_c2h :: bool
  st_decrypted :: bool
  st_signal_dbm :: u8
  st_rx_power :: u8
  st_tsf_low :: u32

definition rx_desc :: "u8 list \<Rightarrow> rtw88_rx_stat" where
  "rx_desc buf =
     (let w0 = le32dec buf 0; w2 = le32dec buf 8; w3 = le32dec buf 12; w4 = le32dec buf 16; w5 = le32dec buf 20;
          enc = ucast (drop_bit RTW88_RX_DESC_W0_ENC_TYPE_S (w0 AND RTW88_RX_DESC_W0_ENC_TYPE_M));
          swdec = (w0 AND RTW88_RX_DESC_W0_SWDEC \<noteq> 0)
      in \<lparr>st_pkt_len = ucast (w0 AND RTW88_RX_DESC_W0_PKT_LEN_M),
          st_drv_info_sz = ucast (drop_bit RTW88_RX_DESC_W0_DRVINFO_SZ_S (w0 AND RTW88_RX_DESC_W0_DRVINFO_SZ_M) * 8),
          st_shift = ucast (drop_bit RTW88_RX_DESC_W0_SHIFT_S (w0 AND RTW88_RX_DESC_W0_SHIFT_M)),
          st_rate = ucast (w3 AND RTW88_RX_DESC_W3_RX_RATE_M),
          st_bw = ucast (drop_bit RTW88_RX_DESC_W4_BW_S (w4 AND RTW88_RX_DESC_W4_BW_M)),
          st_enc_type = enc,
          st_crc_err = (w0 AND RTW88_RX_DESC_W0_CRC_ERR \<noteq> 0),
          st_icv_err = (w0 AND RTW88_RX_DESC_W0_ICV_ERR \<noteq> 0),
          st_swdec = swdec,
          st_phy_status = (w0 AND RTW88_RX_DESC_W0_PHYST \<noteq> 0),
          st_is_c2h = (w2 AND RTW88_RX_DESC_W2_C2H \<noteq> 0),
          st_decrypted = (\<not> swdec \<and> enc \<noteq> RTW88_RX_DESC_ENC_NONE),
          st_signal_dbm = - 75, st_rx_power = - 75, st_tsf_low = w5\<rparr>)"

definition rtw88_lna_gain_table_0 :: "u8 list" where
  "rtw88_lna_gain_table_0 = [22, 8, -6, -22, -31, -40, -46, -52]"

definition rtw88_lna_gain_table_1 :: "u8 list" where
  "rtw88_lna_gain_table_1 = [10, 6, 2, -2, -6, -10, -14, -17, -20, -24, -28, -31, -34, -37, -40, -44]"

definition rtw88_get_cck_rx_pwr_8821c :: "u8 \<Rightarrow> u8 \<Rightarrow> u8 \<Rightarrow> u8" where
  "rtw88_get_cck_rx_pwr_8821c rfe lna_idx vga_idx =
     (let tab = (if rfe = 0 then rtw88_lna_gain_table_0 else rtw88_lna_gain_table_1)
      in if unat lna_idx \<ge> length tab then - 120 else tab ! unat lna_idx - 2 * vga_idx)"

definition rxsc_bw :: "u8 \<Rightarrow> u32 \<Rightarrow> u8" where
  "rxsc_bw rxsc w3 = (if rxsc \<ge> 1 \<and> rxsc \<le> 8 then 0 else if rxsc \<ge> 9 \<and> rxsc \<le> 12 then 1
     else if rxsc \<ge> 13 then 2 else ucast (drop_bit 28 w3 AND 0x03))"

definition rtw88_query_phy_status_8821c :: "u8 \<Rightarrow> u8 list \<Rightarrow> rtw88_rx_stat \<Rightarrow> rtw88_rx_stat" where
  "rtw88_query_phy_status_8821c rfe ps st =
     (let page = at ps 0 AND 0x0F; w0 = le32dec ps 0; w1 = le32dec ps 4; w3 = le32dec ps 12
      in if page = 0 then
           let vga_idx = ucast (drop_bit 8 w3 AND 0x1F);
               lna_idx = ucast ((drop_bit 13 w3 AND 0x07) OR push_bit 3 (drop_bit 23 w3 AND 0x01));
               pwr = rtw88_get_cck_rx_pwr_8821c rfe lna_idx vga_idx
           in st\<lparr>st_rx_power := pwr, st_signal_dbm := pwr, st_bw := 0\<rparr>
         else if page \<noteq> 1 then st
         else
           let pwdb_a = ucast (drop_bit 8 w0 AND 0xFF); pwr = pwdb_a - 110;
               rxsc = ucast ((if st_rate st > RTW88_DESC_RATE_CCK_MAX \<and> st_rate st < RTW88_DESC_RATE_MCS_MIN
                              then drop_bit 8 w1 else drop_bit 12 w1) AND 0x0F)
           in st\<lparr>st_rx_power := pwr, st_signal_dbm := (if sint pwr < - 120 then - 120 else pwr), st_bw := rxsc_bw rxsc w3\<rparr>)"

subsection \<open>CCMP, statistics and firmware reports\<close>

definition rtw88_rx_strip_hw_ccmp :: "net_ops \<Rightarrow> u8 list \<Rightarrow> u8 list" where
  "rtw88_rx_strip_hw_ccmp N m =
     (if length m < IEEE80211_FRAME_LEN + CCMP_HDR + CCMP_MIC then m
      else if at m 1 AND IEEE80211_FC1_PROTECTED = 0 then m
      else let hdrlen = ieee80211_anyhdrsize N m in
        if length m < hdrlen + CCMP_HDR + CCMP_MIC then m
        else let body = drop CCMP_HDR (blit CCMP_HDR (take hdrlen m) m);
                 m' = take (length body - CCMP_MIC) body
             in m'[1 := at m' 1 AND NOT IEEE80211_FC1_PROTECTED])"

datatype rx_band = RxNoBand | Rx2GHZ | Rx5GHZ
datatype rx_phy = RxCck | RxOfdm | RxHt | RxVht | RxNoPhy
datatype rx_width = RxWidth20 | RxWidth40 | RxWidth80

record ieee80211_rx_stats =
  c_rx_tsf :: u64
  c_nf :: u8
  c_rssi :: u8
  c_pktflags :: rx_phy
  c_rate :: u8
  c_width :: rx_width
  c_freq :: u16
  c_ieee :: u8
  c_band :: rx_band

definition rx_channel :: "u8 \<Rightarrow> rx_band \<times> u16" where
  "rx_channel ch = (if ch \<ge> 36 then (Rx5GHZ, 5000 + ucast ch * 5)
     else if ch \<ge> 1 \<and> ch \<le> 14 then (Rx2GHZ, if ch = 14 then 2484 else 2407 + ucast ch * 5) else (RxNoBand, 0))"

definition rssi_u :: "u8 \<Rightarrow> u8" where
  "rssi_u signal = (let r = sint signal + 100 in if r < 0 then 0 else if r > 100 then 100 else of_int r)"

definition avg_rssi :: "u8 \<Rightarrow> rx_softc \<Rightarrow> rx_softc" where
  "avg_rssi u x =
     (if \<not> sc_avg_rssi_valid x then x\<lparr>sc_avg_rssi := u, sc_avg_rssi_valid := True\<rparr>
      else x\<lparr>sc_avg_rssi := ucast (drop_bit 3 ((ucast (sc_avg_rssi x) :: u32) * 7 + ucast u))\<rparr>)"

definition rtw88_rx_annotate :: "u8 \<Rightarrow> rtw88_rx_stat \<Rightarrow> rx_softc \<Rightarrow> ieee80211_rx_stats \<times> rx_softc" where
  "rtw88_rx_annotate channel st x =
     (let signal = (if st_phy_status st then st_signal_dbm st else - 75)
      in (\<lparr>c_rx_tsf = ucast (st_tsf_low st), c_nf = - 95, c_rssi = signal + 95,
           c_pktflags = (if st_rate st \<le> RTW88_DESC_RATE_CCK_MAX then RxCck else if st_rate st \<le> RTW88_DESC_RATE_OFDM_MAX then RxOfdm
             else if st_rate st \<le> RTW88_DESC_RATE_MCS_MAX then RxHt else if st_rate st \<ge> RTW88_DESC_RATE_VHT_MIN then RxVht else RxNoPhy),
           c_rate = st_rate st,
           c_width = (if st_bw st = 1 then RxWidth40 else if st_bw st = 2 then RxWidth80 else RxWidth20),
           c_freq = snd (rx_channel channel), c_ieee = channel, c_band = fst (rx_channel channel)\<rparr>,
          if st_phy_status st then avg_rssi (rssi_u signal) x else x))"

definition tx_report :: "u8 \<Rightarrow> rx_softc \<Rightarrow> rx_softc" where
  "tx_report b x = (if b AND 0xC0 = 0 then x\<lparr>sc_stat_tx_acked := sc_stat_tx_acked x + 1\<rparr>
     else x\<lparr>sc_stat_tx_xretries := sc_stat_tx_xretries x + 1\<rparr>)"

definition c2h_unknown :: "rx_softc \<Rightarrow> rx_softc" where
  "c2h_unknown x = x\<lparr>sc_stat_c2h_unknown := sc_stat_c2h_unknown x + 1\<rparr>"

definition rtw88_rx_c2h_dispatch :: "u8 list \<Rightarrow> rx_softc \<Rightarrow> rx_softc" where
  "rtw88_rx_c2h_dispatch body x0 =
     (let x = x0\<lparr>sc_stat_c2h := sc_stat_c2h x0 + 1\<rparr> in
      if length body < 2 then x
      else let cid = at body 0; payload = drop 2 body in
        if cid = RTW88_C2H_CCX_TX_RPT then (if length payload \<ge> 1 then tx_report (at payload 0) x else x)
        else if cid \<in> {RTW88_C2H_BT_INFO, RTW88_C2H_BT_MP_INFO, RTW88_C2H_RA_RPT, RTW88_C2H_HW_FEATURE_REPORT, RTW88_C2H_WLAN_INFO,
            RTW88_C2H_WLAN_RFON, RTW88_C2H_BCN_FILTER_NOTIFY, RTW88_C2H_ADAPTIVITY, RTW88_C2H_SCAN_RESULT, RTW88_C2H_RTL8821CU_TICK} then x
        else if cid = RTW88_C2H_HALMAC then
          (if length payload < 1 then c2h_unknown x
           else if at payload 0 \<in> {RTW88_C2H_HALMAC_SCAN_STATUS_RPT, RTW88_C2H_HALMAC_CHAN_SWITCH} then x
           else if at payload 0 = RTW88_C2H_HALMAC_CCX_RPT then (if length payload \<ge> 10 then tx_report (at payload 9) x else x)
           else c2h_unknown x)
        else c2h_unknown x)"

subsection \<open>The EAPOL observer\<close>

text \<open>
  \<^verbatim>\<open>m_copydata(m, off, len, buf)\<close> reads \<open>len\<close> bytes; a kernel with INVARIANTS asserts that the packet has them, and without the assertion it follows
  the null pointer at the end of the chain: either way a read past the end is a panic.
\<close>

definition m_copydata :: "u8 list \<Rightarrow> nat \<Rightarrow> nat \<Rightarrow> ('s, u8 list) cm" where
  "m_copydata m off len = (if off + len \<le> length m then ret (take len (drop off m)) else fail Panic)"

definition rtw88_eapol_key_info :: "net_ops \<Rightarrow> u8 list \<Rightarrow> ('s, u16 option) cm" where
  "rtw88_eapol_key_info N m =
     (if length m < 24 + 8 + 7 then ret None
      else tryE (m_copydata m 0 2) (\<lambda>hdr.
        if at hdr 0 AND IEEE80211_FC0_TYPE_MASK \<noteq> IEEE80211_FC0_TYPE_DATA then ret None
        else tryE (m_copydata m 0 18) (\<lambda>snap_eapol.
          let hdrlen = ieee80211_hdrsize N snap_eapol in
          if length m < hdrlen + 8 + 7 then ret None
          else tryE (m_copydata m hdrlen 8) (\<lambda>snap.
            if at snap 0 \<noteq> 0xAA \<or> at snap 1 \<noteq> 0xAA \<or> at snap 2 \<noteq> 0x03 then ret None
            else if at snap 6 \<noteq> 0x88 \<or> at snap 7 \<noteq> 0x8E then ret None
            else tryE (m_copydata m (hdrlen + 8) 8) (\<lambda>eapol.
              if at eapol 1 \<noteq> 0x03 then ret None
              else ret (Some (push_bit 8 (ucast (at eapol 5)) OR ucast (at eapol 6))))))))"

datatype eapol_msg = M1 | M2 | M3 | M4 | EapolOther

definition eapol_which :: "u16 \<Rightarrow> eapol_msg" where
  "eapol_which key_info =
     (let k = key_info AND 0x13FF
      in if k = 0x008A then M1 else if k = 0x010A then M2 else if k = 0x13CA then M3 else if k = 0x030A then M4 else EapolOther)"

definition upd_tx :: "(tx_softc \<Rightarrow> tx_softc) \<Rightarrow> ('c softc, unit) cm" where
  "upd_tx f = updS (\<lambda>s. s\<lparr>sc_tx := f (sc_tx s)\<rparr>)"

definition rtw88_eapol_log :: "'c chip_ops \<Rightarrow> net_ops \<Rightarrow> u8 list \<Rightarrow> bool \<Rightarrow> ('c softc, unit) cm" where
  "rtw88_eapol_log C N m is_rx =
     tryE (rtw88_eapol_key_info N m) (\<lambda>k. case k of
       None \<Rightarrow> ret ()
     | Some key_info \<Rightarrow>
         tryE (getS (sc_m1_bcn_refire \<circ> sc_tx)) (\<lambda>refire.
           whenE (refire \<and> is_rx \<and> eapol_which key_info = M1)
             (seqE (discard (rtw88_usb_write2 C REG_FIFOPAGE_CTRL_2 0x81CC))
                   (upd_tx (\<lambda>t. t\<lparr>sc_stat_m1_bcn_refire := sc_stat_m1_bcn_refire t + 1\<rparr>)))))"

subsection \<open>One packet\<close>

record rx_frame =
  rx_data :: "u8 list"
  rx_stats :: ieee80211_rx_stats
  rx_ampdu :: bool

definition rx_pkt_offset :: "rtw88_rx_stat \<Rightarrow> nat" where
  "rx_pkt_offset st = RTW88_RX_DESC_SZ + unat (st_drv_info_sz st) + unat (st_shift st)"

definition rx_aligned :: "nat \<Rightarrow> nat" where
  "rx_aligned n = (n + 7) div 8 * 8"

definition rx_error :: "rx_softc \<Rightarrow> rx_softc" where
  "rx_error x = x\<lparr>sc_stat_rx_errors := sc_stat_rx_errors x + 1\<rparr>"

definition rx_drop :: "rx_softc \<Rightarrow> rx_softc" where
  "rx_drop x = x\<lparr>sc_stat_rx_drops := sc_stat_rx_drops x + 1\<rparr>"

definition rx_count :: "u8 \<Rightarrow> rx_softc \<Rightarrow> rx_softc" where
  "rx_count rate x0 =
     (let x = x0\<lparr>sc_rx_frames := sc_rx_frames x0 + 1\<rparr>
      in if rate \<le> RTW88_DESC_RATE_CCK_MAX then x\<lparr>sc_stat_rx_cck := sc_stat_rx_cck x + 1\<rparr>
         else if rate \<le> RTW88_DESC_RATE_OFDM_MAX then x\<lparr>sc_stat_rx_ofdm := sc_stat_rx_ofdm x + 1\<rparr>
         else if rate \<le> RTW88_DESC_RATE_MCS_MAX then x\<lparr>sc_stat_rx_mcs := sc_stat_rx_mcs x + 1\<rparr> else x)"

definition rx_deliver :: "'c chip_ops \<Rightarrow> net_ops \<Rightarrow> rtw88_rx_stat \<Rightarrow> u8 list \<Rightarrow> ('c softc, rx_frame option) cm" where
  "rx_deliver C N st data =
     seqE (upd_rx (rx_count (st_rate st)))
     (let m = (if st_decrypted st \<and> st_enc_type st = RTW88_RX_DESC_ENC_AES then rtw88_rx_strip_hw_ccmp N data else data)
      in tryE (getS (\<lambda>s. sc_ampdu (sc_tx s) \<and> st_pkt_len st \<ge> 24 \<and> at m 0 AND 0x8C = 0x88)) (\<lambda>ampdu.
         tryE (getS (\<lambda>s. rtw88_rx_annotate (sc_cur_channel (sc_phy s)) st (sc_rx s))) (\<lambda>(stats, x).
         seqE (upd_rx (\<lambda>_. x))
         (seqE (rtw88_eapol_log C N m True)
         (ret (Some \<lparr>rx_data = m, rx_stats = stats, rx_ampdu = ampdu\<rparr>))))))"

definition rtw88_rx_one :: "'c chip_ops \<Rightarrow> net_ops \<Rightarrow> nat \<Rightarrow> u8 list \<Rightarrow> ('c softc, nat \<times> rx_frame option) cm" where
  "rtw88_rx_one C N off buf =
     (if length buf < RTW88_RX_DESC_SZ then ret (0, None)
      else let st = rx_desc buf; len = rx_pkt_offset st + unat (st_pkt_len st) in
        if len > length buf then ret (0, None)
        else let aligned = rx_aligned len; body = take (unat (st_pkt_len st)) (drop (rx_pkt_offset st) buf) in
          if st_is_c2h st then seqE (upd_rx (rtw88_rx_c2h_dispatch body)) (ret (aligned, None))
          else if st_pkt_len st = 0 then ret (aligned, None)
          else if st_crc_err st then seqE (upd_rx rx_error) (ret (aligned, None))
          else seqE (whenE (st_icv_err st) (upd_rx rx_error))
            (if st_pkt_len st \<le> IEEE80211_CRC_LEN then ret (aligned, None)
             else let st1 = st\<lparr>st_pkt_len := st_pkt_len st - IEEE80211_CRC_LEN\<rparr> in
               tryE (getS (sc_rfe_option \<circ> sc_phy)) (\<lambda>rfe.
                 let st2 = (if st_phy_status st1 \<and> st_drv_info_sz st1 \<ge> 16
                            then rtw88_query_phy_status_8821c rfe (drop RTW88_RX_DESC_SZ buf) st1 else st1) in
                 if st_pkt_len st2 > MCLBYTES then seqE (upd_rx rx_drop) (ret (aligned, None))
                 else if \<not> m_get2 N off then seqE (upd_rx rx_drop) (ret (aligned, None))
                 else tryE (rx_deliver C N st2 (take (unat (st_pkt_len st2)) (drop (rx_pkt_offset st) buf))) (\<lambda>f.
                   ret (aligned, f)))))"

subsection \<open>The packets of a transfer\<close>

definition cons_frame :: "rx_frame option \<Rightarrow> rx_frame list \<Rightarrow> rx_frame list" where
  "cons_frame f fs = (case f of None \<Rightarrow> fs | Some x \<Rightarrow> x # fs)"

function rx_packets :: "'c chip_ops \<Rightarrow> net_ops \<Rightarrow> u8 list \<Rightarrow> nat \<Rightarrow> ('c softc, rx_frame list) cm" where
  "rx_packets C N stage off =
     (if off < length stage then
        tryE (rtw88_rx_one C N off (drop off stage)) (\<lambda>(consumed, f).
          if consumed = 0 then ret (cons_frame f [])
          else tryE (rx_packets C N stage (off + consumed)) (\<lambda>fs. ret (cons_frame f fs)))
      else ret [])"
  by pat_completeness auto
termination by (relation "measure (\<lambda>(C, N, stage, off). length stage - off)") auto

declare rx_packets.simps [simp del]

text \<open>How the transfer ended, and whether the callback has submitted it again.\<close>

datatype usb_state = USB_ST_SETUP | USB_ST_TRANSFERRED "u8 list" | USB_ST_ERROR usb_error

definition rtw88_bulk_rx_cb :: "'c chip_ops \<Rightarrow> net_ops \<Rightarrow> usb_state \<Rightarrow> ('c softc, bool \<times> rx_frame list) cm" where
  "rtw88_bulk_rx_cb C N st = (case st of
     USB_ST_SETUP \<Rightarrow> ret (True, [])
   | USB_ST_TRANSFERRED stage \<Rightarrow>
       seqE (upd_rx (\<lambda>x. x\<lparr>sc_rx_packets := sc_rx_packets x + 1\<rparr>))
       (if length stage > RTW88_RX_BUFSZ then ret (False, [])
        else tryE (rx_packets C N stage 0) (\<lambda>fs. ret (True, fs)))
   | USB_ST_ERROR e \<Rightarrow>
       if e \<noteq> USB_ERR_CANCELLED then seqE (upd_rx rx_error) (ret (True, [])) else ret (False, []))"

subsection \<open>A transfer is the sequence of its packets\<close>

definition rx_len :: "u8 list \<Rightarrow> nat" where
  "rx_len p = rx_pkt_offset (rx_desc p) + unat (st_pkt_len (rx_desc p))"

text \<open>A packet on its own, padded to eight bytes; and bytes no packet starts with.\<close>

definition rx_packet_ok :: "u8 list \<Rightarrow> bool" where
  "rx_packet_ok p \<longleftrightarrow> RTW88_RX_DESC_SZ \<le> length p \<and> rx_len p \<le> length p \<and> length p = rx_aligned (rx_len p)"

definition rx_stop :: "u8 list \<Rightarrow> bool" where
  "rx_stop p \<longleftrightarrow> length p < RTW88_RX_DESC_SZ \<or> rx_len p > length p"

lemma le32dec_prefix: "i + 3 < length p \<Longrightarrow> le32dec (p @ q) i = le32dec p i"
  by (simp add: le32dec_def at_append)

lemma rx_desc_prefix: "24 \<le> length p \<Longrightarrow> rx_desc (p @ q) = rx_desc p"
  by (simp add: rx_desc_def le32dec_prefix)

lemma phy_status_prefix:
  "16 \<le> length p \<Longrightarrow> rtw88_query_phy_status_8821c rfe (p @ q) st = rtw88_query_phy_status_8821c rfe p st"
proof -
  assume l: "16 \<le> length p"
  then have "p \<noteq> []" by auto
  then have "at (p @ q) 0 = at p 0" by (simp add: at_def nth_append)
  with l show ?thesis by (simp add: rtw88_query_phy_status_8821c_def le32dec_prefix del: at_append)
qed

lemma rx_one_prefix:
  assumes "24 \<le> length p" "rx_len p \<le> length p"
  shows "rtw88_rx_one C N off (p @ q) = rtw88_rx_one C N off p"
proof -
  let ?st = "rx_desc p"
  let ?o = "rx_pkt_offset ?st"
  have st: "rx_desc (p @ q) = ?st" using assms(1) by (rule rx_desc_prefix)
  have o: "?o + unat (st_pkt_len ?st) \<le> length p" using assms(2) by (simp add: rx_len_def)
  have body: "take n (drop ?o (p @ q)) = take n (drop ?o p)" if "n \<le> unat (st_pkt_len ?st)" for n
    using o that by simp
  have less: "unat (st_pkt_len ?st - 4) \<le> unat (st_pkt_len ?st)" if "\<not> st_pkt_len ?st \<le> 4"
    using that by (simp add: word_le_nat_alt unat_sub)
  have phy: "rtw88_query_phy_status_8821c rfe (drop 24 (p @ q)) x = rtw88_query_phy_status_8821c rfe (drop 24 p) x"
    if "st_drv_info_sz ?st \<ge> 16" for rfe x
  proof -
    have "16 \<le> length (drop 24 p)" using o that by (simp add: rx_pkt_offset_def word_le_nat_alt)
    then show ?thesis using assms(1) by (simp add: phy_status_prefix)
  qed
  have fst: "st_pkt_len (if a then rtw88_query_phy_status_8821c rfe w x else x) = st_pkt_len x" for a rfe w x
    by (simp add: rtw88_query_phy_status_8821c_def Let_def)
  show ?thesis
    unfolding rtw88_rx_one_def Let_def st
    using assms(1) o body less phy by (auto simp: fst simp del: drop_append take_append cong: if_cong)
qed

lemma tryE_ret: "tryE (ret v) f = f v"
  by (simp add: tryE_def ret_def)

text \<open>What a packet consumes is settled by its descriptor.\<close>

lemma rx_one_consumes:
  assumes "24 \<le> length p" "rx_len p \<le> length p"
  shows "rtw88_rx_one C N off p = tryE (rtw88_rx_one C N off p) (\<lambda>(k, f). ret (rx_aligned (rx_len p), f))"
proof
  fix s
  obtain r s' where run: "rtw88_rx_one C N off p s = (r, s')" by fastforce
  have "\<exists>f. v = (rx_aligned (rx_len p), f)" if "r = Inr v" for v
    using run that assms
    by (auto simp: rtw88_rx_one_def Let_def rx_len_def elim!: tryE_Inr_elim seqE_Inr_elim split: if_splits)
  then show "rtw88_rx_one C N off p s = tryE (rtw88_rx_one C N off p) (\<lambda>(k, f). ret (rx_aligned (rx_len p), f)) s"
    using run by (cases r) auto
qed

fun rx_each :: "'c chip_ops \<Rightarrow> net_ops \<Rightarrow> nat \<Rightarrow> u8 list list \<Rightarrow> ('c softc, rx_frame list) cm" where
  "rx_each C N off [] = ret []"
| "rx_each C N off (p # ps) =
     tryE (rtw88_rx_one C N off p) (\<lambda>(_, f). tryE (rx_each C N (off + length p) ps) (\<lambda>fs. ret (cons_frame f fs)))"

lemma rx_one_stop: "rx_stop p \<Longrightarrow> rtw88_rx_one C N off p = ret (0, None)"
  by (auto simp: rx_stop_def rx_len_def rtw88_rx_one_def Let_def)

lemma rx_packets_stop:
  assumes "rx_stop junk"
  shows "rx_packets C N (pre @ junk) (length pre) = ret []"
  by (subst rx_packets.simps) (simp add: rx_one_stop [OF assms] tryE_def ret_def cons_frame_def)

lemma rx_packets_step:
  assumes "rx_packet_ok p"
  shows "rx_packets C N (pre @ p @ rest) (length pre) =
    tryE (rtw88_rx_one C N (length pre) p) (\<lambda>(_, f).
      tryE (rx_packets C N ((pre @ p) @ rest) (length (pre @ p))) (\<lambda>fs. ret (cons_frame f fs)))"
proof -
  have l: "24 \<le> length p" "rx_len p \<le> length p" "rx_aligned (rx_len p) = length p"
    using assms by (simp_all add: rx_packet_ok_def)
  have "rx_packets C N (pre @ p @ rest) (length pre) =
      tryE (rtw88_rx_one C N (length pre) (p @ rest)) (\<lambda>(consumed, f).
        if consumed = 0 then ret (cons_frame f [])
        else tryE (rx_packets C N (pre @ p @ rest) (length pre + consumed)) (\<lambda>fs. ret (cons_frame f fs)))"
    using l(1) by (subst rx_packets.simps) auto
  moreover have "rtw88_rx_one C N (length pre) (p @ rest) = tryE (rtw88_rx_one C N (length pre) p) (\<lambda>(k, f). ret (length p, f))"
    using rx_one_prefix [OF l(1,2)] rx_one_consumes [OF l(1,2), of C N "length pre"] by (simp add: l(3))
  moreover have "p \<noteq> []" using l(1) by auto
  ultimately show ?thesis by (simp add: tryE_assoc tryE_ret split_def)
qed

lemma rx_packets_each:
  assumes "\<forall>p \<in> set ps. rx_packet_ok p" "rx_stop junk"
  shows "rx_packets C N (pre @ concat ps @ junk) (length pre) = rx_each C N (length pre) ps"
  using assms(1)
proof (induction ps arbitrary: pre)
  case Nil
  then show ?case by (simp add: rx_packets_stop [OF assms(2)])
next
  case (Cons p ps)
  then have "rx_packet_ok p" by simp
  from rx_packets_step [OF this, of C N pre "concat ps @ junk"] Cons.IH [of "pre @ p"] Cons.prems show ?case by simp
qed

text \<open>C13. A transfer is received as the sequence of its packets. On the concatenation of any packets that are complete and padded
  to eight bytes, followed by bytes with which no packet starts (too few for a descriptor, or a descriptor for more than
  is there), the loop does exactly what the packets do one after the other, each seen alone: the frames come in
  their order, none is lost, none is cut or read past its end, and the loop ends.\<close>
theorem rx_transfer_packets:
  assumes "\<forall>p \<in> set ps. rx_packet_ok p" "rx_stop junk"
  shows "rx_packets C N (concat ps @ junk) 0 = rx_each C N 0 ps"
  using rx_packets_each [OF assms, of C N "[]"] by simp

subsection \<open>The EAPOL observer and short frames\<close>

definition eapol_is :: "net_ops \<Rightarrow> u8 list \<Rightarrow> bool" where
  "eapol_is N m \<longleftrightarrow> at m 0 AND IEEE80211_FC0_TYPE_MASK = IEEE80211_FC0_TYPE_DATA \<and>
     (let h = ieee80211_hdrsize N (take 18 m) in at m h = 0xAA \<and> at m (h + 1) = 0xAA \<and> at m (h + 2) = 0x03 \<and>
       at m (h + 6) = 0x88 \<and> at m (h + 7) = 0x8E)"

lemma at_slice: "i < n \<Longrightarrow> a + n \<le> length m \<Longrightarrow> at (take n (drop a m)) i = at m (a + i)"
  by (simp add: at_def)

lemma eapol_panics_iff:
  "fst (rtw88_eapol_key_info N m s) = Inl Panic \<longleftrightarrow>
     39 \<le> length m \<and> length m = ieee80211_hdrsize N (take 18 m) + 15 \<and> eapol_is N m"
proof -
  define h where "h = ieee80211_hdrsize N (take 18 m)"
  show ?thesis
  proof (cases "39 \<le> length m \<and> at m 0 AND 0x0C = 0x08 \<and> h + 15 \<le> length m")
    case False
    then show ?thesis
      by (auto simp: rtw88_eapol_key_info_def m_copydata_def tryE_def eapol_is_def at_slice [of 0 2 0, simplified] simp flip: h_def)
  next
    case True
    then have at: "at (take 2 m) 0 = at m 0" "at (take 8 (drop h m)) i = at m (h + i)" if "i < 8" for i
      using that at_slice [of 0 2 0 m] at_slice [of i 8 h m] by simp_all
    show ?thesis
      using True at(1) [of 0] at(2) [of 0] at(2) [of 1] at(2) [of 2] at(2) [of 6] at(2) [of 7]
      by (auto simp: rtw88_eapol_key_info_def m_copydata_def tryE_def eapol_is_def Let_def simp flip: h_def)
  qed
qed

text \<open>The frames that stop the machine.\<close>

definition eapol_short :: "net_ops \<Rightarrow> u8 list \<Rightarrow> bool" where
  "eapol_short N m \<longleftrightarrow> 39 \<le> length m \<and> length m = ieee80211_hdrsize N (take 18 m) + 15 \<and> eapol_is N m"

subsection \<open>The frames of a transfer\<close>

text \<open>
  What a transfer carries, as a function of its bytes alone: \<open>rx_frame_of N off buf\<close> is the frame that the packet at the start of \<open>buf\<close> brings
  to net80211, \<open>rx_seen\<close> the frames of the packets of a transfer from \<open>off\<close> on.
\<close>

definition rx_frame_of :: "net_ops \<Rightarrow> nat \<Rightarrow> u8 list \<Rightarrow> u8 list option" where
  "rx_frame_of N off buf =
     (let st = rx_desc buf; n = unat (st_pkt_len st) - 4; data = take n (drop (rx_pkt_offset st) buf)
      in if rx_stop buf \<or> st_is_c2h st \<or> st_crc_err st \<or> n = 0 \<or> n > 2048 \<or> \<not> m_get2 N off then None
         else if st_decrypted st \<and> st_enc_type st = RTW88_RX_DESC_ENC_AES then Some (rtw88_rx_strip_hw_ccmp N data)
         else Some data)"

definition rx_consumed :: "u8 list \<Rightarrow> nat" where
  "rx_consumed buf = (if rx_stop buf then 0 else rx_aligned (rx_len buf))"

function rx_seen :: "net_ops \<Rightarrow> u8 list \<Rightarrow> nat \<Rightarrow> u8 list list" where
  "rx_seen N stage off =
     (if off < length stage then
        (case rx_frame_of N off (drop off stage) of None \<Rightarrow> [] | Some m \<Rightarrow> [m]) @
        (if rx_consumed (drop off stage) = 0 then [] else rx_seen N stage (off + rx_consumed (drop off stage)))
      else [])"
  by pat_completeness auto
termination by (relation "measure (\<lambda>(N, stage, off). length stage - off)") auto

declare rx_seen.simps [simp del]

subsection \<open>What a transfer leaves\<close>

lemma avg_rssi_100:
  assumes "u \<le> 100" "sc_avg_rssi x \<le> 100"
  shows "sc_avg_rssi (avg_rssi u x) \<le> 100"
proof -
  let ?w = "(ucast (sc_avg_rssi x) :: u32) * 7 + ucast u"
  have "unat (ucast (sc_avg_rssi x) :: u32) \<le> 100" "unat (ucast u :: u32) \<le> 100"
    using assms by (simp_all add: word_le_nat_alt unsigned_ucast_eq take_bit_nat_eq_self)
  then have "unat ?w \<le> 800" by (simp add: unat_word_ariths)
  then have w: "unat ?w div 8 \<le> 100" by simp
  have "drop_bit 3 ?w = ?w div 8" by (simp add: drop_bit_eq_div)
  then have "unat (drop_bit 3 ?w) \<le> 100" using w by (simp only: unat_div) simp
  then have "unat (ucast (drop_bit 3 ?w) :: u8) \<le> 100" by (simp add: unsigned_ucast_eq take_bit_nat_eq_self del: drop_bit_eq_div)
  then show ?thesis using assms by (simp only: avg_rssi_def word_le_nat_alt if_split) simp
qed

lemma of_int_100: "0 \<le> r \<Longrightarrow> r \<le> 100 \<Longrightarrow> (of_int r :: u8) \<le> 100"
  by (simp add: word_le_def uint_word_of_int)

lemma rssi_u_100: "rssi_u signal \<le> 100"
proof -
  have "rssi_u signal = 0 \<or> rssi_u signal = 100
      \<or> (\<exists>r. 0 \<le> r \<and> r \<le> 100 \<and> rssi_u signal = of_int r)"
    unfolding rssi_u_def Let_def by (metis linorder_not_less)
  then show ?thesis using of_int_100 by auto
qed

lemma strip_shorter: "length (rtw88_rx_strip_hw_ccmp N m) \<le> length m"
  by (simp add: rtw88_rx_strip_hw_ccmp_def Let_def)

text \<open>The softc between two packets: the signal average is a percentage, and so many frames have been counted.\<close>

definition rx_at :: "nat \<Rightarrow> bool \<Rightarrow> u64 \<Rightarrow> 'c softc \<Rightarrow> bool" where
  "rx_at n k a s \<longleftrightarrow> on_line n k s \<and> sc_avg_rssi (sc_rx s) \<le> 100 \<and> sc_rx_frames (sc_rx s) = a"

lemma keeps_rx_quiet:
  assumes "\<And>z L. keeps (on_bus n k z L) F m"
  shows "keeps (rx_at n k a) F m"
  unfolding rx_at_def by (rule keeps_quiet [OF assms]) (drule quiet_softc(5), simp)

lemma key_info_run: "rtw88_eapol_key_info N m s = (r, s') \<Longrightarrow> s' = s \<and> (\<forall>e. r = Inl e \<longrightarrow> e = Panic)"
  by (auto simp: rtw88_eapol_key_info_def m_copydata_def Let_def tryE_def split: if_splits)

lemma keeps_key_info: "keeps I (\<lambda>e. e = Panic) (rtw88_eapol_key_info N m)"
  by (rule keepsI) (drule key_info_run, simp)

lemma keeps_upd_tx: "keeps (rx_at n k a) F (upd_tx f)"
  unfolding upd_tx_def by (rule keeps_updS) (simp add: rx_at_def on_line_def)

lemma eapol_log_ends:
  assumes "rx_at n k a s"
  shows "ends (rtw88_eapol_log C N m d) (\<lambda>_ s'. rx_at n k a s' \<and> \<not> eapol_short N m)
    (\<lambda>e s'. e = Panic \<and> rx_at n k a s' \<and> eapol_short N m) s"
proof -
  obtain r t where run: "rtw88_eapol_key_info N m s = (r, t)" by fastforce
  from key_info_run [OF run] have t: "t = s" "\<forall>e. r = Inl e \<longrightarrow> e = Panic" by auto
  have short: "r = Inl Panic \<longleftrightarrow> eapol_short N m"
    using eapol_panics_iff [of N m s] run by (simp add: eapol_short_def)
  have tail: "keeps (rx_at n k a) no_fault (case x of None \<Rightarrow> ret () | Some key_info \<Rightarrow>
      tryE (getS (sc_m1_bcn_refire \<circ> sc_tx)) (\<lambda>refire.
        whenE (refire \<and> d \<and> eapol_which key_info = M1)
          (seqE (discard (rtw88_usb_write2 C REG_FIFOPAGE_CTRL_2 0x81CC))
                (upd_tx (\<lambda>t. t\<lparr>sc_stat_m1_bcn_refire := sc_stat_m1_bcn_refire t + 1\<rparr>)))))" for x
    by (intro keeps_tryE keeps_case_option keeps_ret keeps_getS keeps_whenE keeps_seqE keeps_upd_tx
        keeps_rx_quiet [OF keeps_discard_all [OF keeps_write2]])
  show ?thesis
  proof (cases r)
    case (Inl e)
    with t short assms run show ?thesis by (simp add: rtw88_eapol_log_def ends_tryE ends_run [where m = "rtw88_eapol_key_info N m" and s = s, OF run])
  next
    case (Inr x)
    with short have "\<not> eapol_short N m" by auto
    moreover have "ends (case x of None \<Rightarrow> ret () | Some key_info \<Rightarrow>
      tryE (getS (sc_m1_bcn_refire \<circ> sc_tx)) (\<lambda>refire.
        whenE (refire \<and> d \<and> eapol_which key_info = M1)
          (seqE (discard (rtw88_usb_write2 C REG_FIFOPAGE_CTRL_2 0x81CC))
                (upd_tx (\<lambda>t. t\<lparr>sc_stat_m1_bcn_refire := sc_stat_m1_bcn_refire t + 1\<rparr>)))))
        (\<lambda>_. rx_at n k a) (\<lambda>e s'. False) s"
      by (rule ends_keeps [OF tail assms]) (simp_all add: no_fault_def)
    ultimately show ?thesis using Inr t
      by (simp add: rtw88_eapol_log_def ends_tryE ends_run [where m = "rtw88_eapol_key_info N m" and s = s, OF run])
  qed
qed

lemma annotate_keeps:
  assumes "sc_avg_rssi x \<le> 100"
  shows "sc_avg_rssi (snd (rtw88_rx_annotate ch st x)) \<le> 100" "sc_rx_frames (snd (rtw88_rx_annotate ch st x)) = sc_rx_frames x"
  using assms avg_rssi_100 [OF rssi_u_100] by (simp_all add: rtw88_rx_annotate_def Let_def) (simp add: avg_rssi_def)

lemma upd_rx_at: "rx_at n k (sc_rx_frames (f (sc_rx s))) (s\<lparr>sc_rx := f (sc_rx s)\<rparr>) \<longleftrightarrow>
    on_line n k s \<and> sc_avg_rssi (f (sc_rx s)) \<le> 100"
  by (auto simp: rx_at_def on_line_def)

lemma deliver_ends:
  assumes "rx_at n k a s"
    and m: "(if st_decrypted st \<and> st_enc_type st = RTW88_RX_DESC_ENC_AES then rtw88_rx_strip_hw_ccmp N data else data) = m"
  shows "ends (rx_deliver C N st data)
    (\<lambda>f s'. rx_at n k (a + 1) s' \<and> (\<exists>x. f = Some x \<and> rx_data x = m) \<and> \<not> eapol_short N m)
    (\<lambda>e s'. e = Panic \<and> rx_at n k (a + 1) s' \<and> eapol_short N m) s"
proof -
  let ?x = "rx_count (st_rate st) (sc_rx s)"
  let ?ann = "rtw88_rx_annotate (sc_cur_channel (sc_phy s)) st ?x"
  have x: "sc_avg_rssi ?x \<le> 100" "sc_rx_frames ?x = a + 1" "on_line n k s"
    using assms(1) by (simp_all add: rx_count_def Let_def rx_at_def)
  have at: "rx_at n k (a + 1) (s\<lparr>sc_rx := snd ?ann\<rparr>)"
    using annotate_keeps [OF x(1), of "sc_cur_channel (sc_phy s)" st] x by (simp add: rx_at_def on_line_def)
  show ?thesis
    unfolding rx_deliver_def upd_rx_def m
    by (simp add: ends_simps split_def) (rule ends_conseq [OF eapol_log_ends [OF at]], simp_all)
qed

definition rx_panics :: "nat \<Rightarrow> bool \<Rightarrow> fault \<Rightarrow> 'c softc \<Rightarrow> bool" where
  "rx_panics n k e s \<longleftrightarrow> e = Panic \<and> on_line n k s \<and> sc_avg_rssi (sc_rx s) \<le> 100"

text \<open>One packet: what it says is the frame it brings, and it panics when that frame is one of those that stop the machine.\<close>

definition rx_says :: "net_ops \<Rightarrow> u8 list option \<Rightarrow> rx_frame option \<Rightarrow> bool" where
  "rx_says N w f \<longleftrightarrow> map_option rx_data f = w \<and> (\<forall>m. w = Some m \<longrightarrow> \<not> eapol_short N m)"

lemma deliver_one:
  assumes "rx_at n k a s"
    and "w = Some (if st_decrypted st \<and> st_enc_type st = RTW88_RX_DESC_ENC_AES then rtw88_rx_strip_hw_ccmp N data else data)"
  shows "ends (rx_deliver C N st data) (\<lambda>f s'. rx_says N w f \<and> rx_at n k (a + of_nat (length (cons_frame f []))) s')
    (\<lambda>e s'. rx_panics n k e s' \<and> (\<exists>m. w = Some m \<and> eapol_short N m)) s"
  by (rule ends_conseq [OF deliver_ends [OF assms(1) refl]])
    (use assms(2) in \<open>auto simp: rx_says_def cons_frame_def rx_panics_def rx_at_def\<close>)

lemma rx_at_upd:
  assumes "rx_at n k a s" "\<And>x. sc_avg_rssi (f x) = sc_avg_rssi x" "\<And>x. sc_rx_frames (f x) = sc_rx_frames x"
  shows "rx_at n k a (s\<lparr>sc_rx := f (sc_rx s)\<rparr>)"
  using assms by (simp add: rx_at_def on_line_def)

lemma c2h_keeps: "sc_avg_rssi (rtw88_rx_c2h_dispatch b x) = sc_avg_rssi x" "sc_rx_frames (rtw88_rx_c2h_dispatch b x) = sc_rx_frames x"
  by (simp_all add: rtw88_rx_c2h_dispatch_def tx_report_def c2h_unknown_def Let_def)

lemma phy_status_desc:
  "st_decrypted (rtw88_query_phy_status_8821c rfe w st) = st_decrypted st"
  "st_enc_type (rtw88_query_phy_status_8821c rfe w st) = st_enc_type st"
  "st_pkt_len (rtw88_query_phy_status_8821c rfe w st) = st_pkt_len st"
  "rx_pkt_offset (rtw88_query_phy_status_8821c rfe w st) = rx_pkt_offset st"
  by (simp_all add: rtw88_query_phy_status_8821c_def Let_def rx_pkt_offset_def)

lemma one_ends:
  assumes "rx_at n k a s"
  shows "ends (rtw88_rx_one C N off buf)
    (\<lambda>(c, f) s'. c = rx_consumed buf \<and> rx_says N (rx_frame_of N off buf) f \<and> rx_at n k (a + of_nat (length (cons_frame f []))) s')
    (\<lambda>e s'. rx_panics n k e s' \<and> (\<exists>m. rx_frame_of N off buf = Some m \<and> eapol_short N m)) s"
proof (cases "rx_stop buf")
  case True
  with assms show ?thesis by (simp add: rx_one_stop ends_simps rx_frame_of_def rx_consumed_def rx_says_def cons_frame_def)
next
  case go: False
  define st where "st = rx_desc buf"
  define al where "al = rx_consumed buf"
  have d: "rx_at n k a (t\<lparr>sc_rx := rx_drop (sc_rx t)\<rparr>)" "rx_at n k a (t\<lparr>sc_rx := rx_error (sc_rx t)\<rparr>)" if "rx_at n k a t" for t
    using that by (auto intro!: rx_at_upd simp: rx_drop_def rx_error_def)
  note c2h = rx_at_upd [OF assms, of "rtw88_rx_c2h_dispatch b" for b, OF c2h_keeps]
  have len: "\<not> length buf < RTW88_RX_DESC_SZ" "\<not> rx_pkt_offset st + unat (st_pkt_len st) > length buf"
    "rx_aligned (rx_pkt_offset st + unat (st_pkt_len st)) = al"
    using go by (auto simp: rx_stop_def rx_len_def st_def al_def rx_consumed_def)
  note unf = rtw88_rx_one_def [of C N off buf, folded st_def] rx_frame_of_def [of N off buf, folded st_def]
  have none: "rx_says N None None" "cons_frame None [] = []" by (simp_all add: rx_says_def cons_frame_def)
  show ?thesis
  proof (cases "st_is_c2h st \<or> st_pkt_len st \<le> 4 \<or> st_crc_err st")
    case True
    then have "rx_frame_of N off buf = None" by (auto simp: unf(2) Let_def word_le_nat_alt)
    with True len show ?thesis unfolding unf(1) Let_def upd_rx_def al_def [symmetric]
      by (auto simp: ends_simps none assms d c2h)
  next
    case False
    define p where "p = st\<lparr>st_pkt_len := st_pkt_len st - IEEE80211_CRC_LEN\<rparr>"
    define q where "q = (\<lambda>rfe. if st_phy_status p \<and> st_drv_info_sz p \<ge> 16
        then rtw88_query_phy_status_8821c rfe (drop RTW88_RX_DESC_SZ buf) p else p)"
    have q: "st_pkt_len (q rfe) = st_pkt_len st - 4" "st_decrypted (q rfe) = st_decrypted st" "st_enc_type (q rfe) = st_enc_type st" for rfe
      by (simp_all add: q_def p_def phy_status_desc)
    define t where "t = (if st_icv_err st then s\<lparr>sc_rx := rx_error (sc_rx s)\<rparr> else s)"
    have t: "rx_at n k a t" using assms d(2) [OF assms] by (simp add: t_def)
    have nz: "st_pkt_len st \<noteq> 0" using False by auto
    have minus: "unat (st_pkt_len st - 4) = unat (st_pkt_len st) - 4" "\<not> unat (st_pkt_len st) \<le> 4"
      using False by (simp_all add: word_le_nat_alt unat_sub)
    have run: "ends (rtw88_rx_one C N off buf) Q E s \<longleftrightarrow>
        (if st_pkt_len st - 4 > MCLBYTES \<or> \<not> m_get2 N off then Q (al, None) (t\<lparr>sc_rx := rx_drop (sc_rx t)\<rparr>)
         else ends (rx_deliver C N (q (sc_rfe_option (sc_phy s))) (take (unat (st_pkt_len st - 4)) (drop (rx_pkt_offset st) buf)))
           (\<lambda>f. Q (al, f)) E t)" for Q E
      unfolding unf(1) Let_def upd_rx_def
      using False len nz by (simp add: ends_simps q_def t_def p_def phy_status_desc)
    show ?thesis
    proof (cases "st_pkt_len st - 4 > MCLBYTES \<or> \<not> m_get2 N off")
      case True
      then have "rx_frame_of N off buf = None" using minus by (auto simp: unf(2) Let_def word_less_nat_alt)
      with True d(1) [OF t] show ?thesis by (simp add: run none al_def)
    next
      case fits: False
      let ?w = "rx_frame_of N off buf"
      have "?w = Some (if st_decrypted (q rfe) \<and> st_enc_type (q rfe) = RTW88_RX_DESC_ENC_AES
          then rtw88_rx_strip_hw_ccmp N (take (unat (st_pkt_len st - 4)) (drop (rx_pkt_offset st) buf))
          else take (unat (st_pkt_len st - 4)) (drop (rx_pkt_offset st) buf))" for rfe
        using fits False go minus by (auto simp: unf(2) Let_def word_less_nat_alt q)
      from deliver_one [OF t this] fits show ?thesis by (simp add: run al_def)
    qed
  qed
qed

lemma packets_ends:
  "rx_at n k a s \<Longrightarrow> ends (rx_packets C N stage off)
     (\<lambda>fs s'. map rx_data fs = rx_seen N stage off \<and> (\<forall>m \<in> set (rx_seen N stage off). \<not> eapol_short N m) \<and>
        rx_at n k (a + of_nat (length fs)) s')
     (\<lambda>e s'. rx_panics n k e s' \<and> (\<exists>m \<in> set (rx_seen N stage off). eapol_short N m)) s"
proof (induction C N stage off arbitrary: a s rule: rx_packets.induct)
  case (1 C N stage off)
  show ?case
  proof (cases "off < length stage")
    case False
    then have "rx_packets C N stage off = ret []" "rx_seen N stage off = []"
      by (subst rx_packets.simps rx_seen.simps, simp)+
    with "1.prems" show ?thesis by (simp add: ends_simps)
  next
    case True
    define w c where "w = rx_frame_of N off (drop off stage)" and "c = rx_consumed (drop off stage)"
    let ?rest = "if c = 0 then [] else rx_seen N stage (off + c)"
    have seen: "rx_seen N stage off = (case w of None \<Rightarrow> [] | Some m \<Rightarrow> [m]) @ ?rest"
      using True by (subst rx_seen.simps) (simp add: w_def c_def)
    have frame: "rx_says N w f \<Longrightarrow> map rx_data (cons_frame f fs) = (case w of None \<Rightarrow> [] | Some m \<Rightarrow> [m]) @ map rx_data fs"
      "length (cons_frame f fs) = (if f = None then 0 else 1) + length fs" for f fs
      by (auto simp: cons_frame_def rx_says_def split: option.splits)
    have rest: "ends (if c = 0 then ret (cons_frame f []) else tryE (rx_packets C N stage (off + c)) (\<lambda>fs. ret (cons_frame f fs)))
        (\<lambda>fs s'. map rx_data fs = rx_seen N stage off \<and> (\<forall>m \<in> set (rx_seen N stage off). \<not> eapol_short N m) \<and>
          rx_at n k (a + of_nat (length fs)) s')
        (\<lambda>e s'. rx_panics n k e s' \<and> (\<exists>m \<in> set (rx_seen N stage off). eapol_short N m)) s1"
      if f: "rx_says N w f" and at: "rx_at n k (a + of_nat (length (cons_frame f []))) s1" for f s1
    proof (cases "c = 0")
      case True
      with f at frame(1) [OF f, of "[]"] show ?thesis by (auto simp: ends_simps seen rx_says_def split: option.splits)
    next
      case False
      have sh: "\<forall>m \<in> set (case w of None \<Rightarrow> [] | Some m \<Rightarrow> [m]). \<not> eapol_short N m"
        using f by (auto simp: rx_says_def split: option.split)
      have "ends (rx_packets C N stage (off + c)) (\<lambda>fs s'. map rx_data fs = rx_seen N stage (off + c) \<and>
            (\<forall>m \<in> set (rx_seen N stage (off + c)). \<not> eapol_short N m) \<and>
            rx_at n k (a + of_nat (length (cons_frame f [])) + of_nat (length fs)) s')
          (\<lambda>e s'. rx_panics n k e s' \<and> (\<exists>m \<in> set (rx_seen N stage (off + c)). eapol_short N m)) s1"
        by (rule "1.IH" [OF \<open>off < length stage\<close> False at])
      then have "ends (rx_packets C N stage (off + c)) (\<lambda>fs s'. map rx_data (cons_frame f fs) = rx_seen N stage off \<and>
            (\<forall>m \<in> set (rx_seen N stage off). \<not> eapol_short N m) \<and> rx_at n k (a + of_nat (length (cons_frame f fs))) s')
          (\<lambda>e s'. rx_panics n k e s' \<and> (\<exists>m \<in> set (rx_seen N stage off). eapol_short N m)) s1"
        by (rule ends_conseq)
          (use sh False in \<open>auto simp: frame(1) [OF f] frame(2) seen add.assoc\<close>)
      with False show ?thesis by (simp add: ends_simps)
    qed
    show ?thesis
      unfolding rx_packets.simps [of C N stage off] if_P [OF True] ends_tryE
      by (rule ends_conseq [OF one_ends [OF "1.prems", of C N off "drop off stage", folded w_def c_def]])
        (use rest in \<open>auto simp: seen\<close>)
  qed
qed

lemma seen_short: "m \<in> set (rx_seen N stage off) \<Longrightarrow> length m \<le> 2048"
proof (induction N stage off rule: rx_seen.induct)
  case (1 N stage off)
  have "length x \<le> 2048" if "rx_frame_of N off buf = Some x" for buf x
    using that by (auto simp: rx_frame_of_def Let_def intro: order_trans [OF strip_shorter] split: if_splits)
  with 1 show ?case
    by (subst (asm) (2) rx_seen.simps) (auto split: if_splits option.splits)
qed

text \<open>C12. Whatever bytes a transfer carries, a thread on the bus that receives it ends well or panics in the EAPOL observer, and
  nothing else: it panics exactly when the transfer fits the buffer and one of the frames it carries is a data frame with the SNAP header of EAPOL that
  ends 15 bytes after its MAC header. If it ends well, the frames given to net80211 are those the transfer carries, a function of its bytes and of
  the mbufs to be had, none longer than a cluster of 2048 bytes, the frame counter has grown by their number, and the transfer
  is submitted again unless it was larger than the buffer, when nothing is given; in every case the signal average
  is still a percentage and the bus is held as before.\<close>
theorem rx_transfer_account:
  assumes "on_line n k s" "sc_avg_rssi (sc_rx s) \<le> 100" "rtw88_bulk_rx_cb C N (USB_ST_TRANSFERRED stage) s = (r, s')"
  shows "on_line n k s' \<and> sc_avg_rssi (sc_rx s') \<le> 100 \<and>
    (if length stage \<le> RTW88_RX_BUFSZ \<and> (\<exists>m \<in> set (rx_seen N stage 0). eapol_short N m) then r = Inl Panic
     else \<exists>again fs. r = Inr (again, fs) \<and> (again \<longleftrightarrow> length stage \<le> RTW88_RX_BUFSZ) \<and>
         map rx_data fs = (if again then rx_seen N stage 0 else []) \<and> (\<forall>f \<in> set fs. length (rx_data f) \<le> 2048) \<and>
         sc_rx_frames (sc_rx s') = sc_rx_frames (sc_rx s) + of_nat (length fs))"
proof -
  let ?s = "s\<lparr>sc_rx := (sc_rx s)\<lparr>sc_rx_packets := sc_rx_packets (sc_rx s) + 1\<rparr>\<rparr>"
  have "rx_at n k (sc_rx_frames (sc_rx s)) ?s" using assms(1,2) by (simp add: rx_at_def on_line_def)
  note p = packets_ends [OF this, of C N stage 0]
  have "ends (rtw88_bulk_rx_cb C N (USB_ST_TRANSFERRED stage))
    (\<lambda>(again, fs) s'. (again \<longleftrightarrow> length stage \<le> RTW88_RX_BUFSZ) \<and> map rx_data fs = (if again then rx_seen N stage 0 else []) \<and>
        (again \<longrightarrow> (\<forall>m \<in> set (rx_seen N stage 0). \<not> eapol_short N m)) \<and> rx_at n k (sc_rx_frames (sc_rx s) + of_nat (length fs)) s')
    (\<lambda>e s'. rx_panics n k e s' \<and> length stage \<le> RTW88_RX_BUFSZ \<and> (\<exists>m \<in> set (rx_seen N stage 0). eapol_short N m)) s"
    using ends_conseq [OF p] assms(1,2) by (auto simp: rtw88_bulk_rx_cb_def upd_rx_def ends_simps rx_at_def on_line_def)
  note fin = endsD [OF this assms(3)]
  show ?thesis
  proof (cases r)
    case (Inl e)
    with fin show ?thesis by (auto simp: rx_panics_def)
  next
    case (Inr v)
    obtain again fs where v: "v = (again, fs)" by fastforce
    have short: "\<forall>f \<in> set fs. length (rx_data f) \<le> 2048" if "map rx_data fs = rx_seen N stage 0"
      using seen_short [of _ N stage 0] by (metis that image_eqI list.set_map)
    from fin Inr v short show ?thesis by (cases again) (auto simp: rx_at_def)
  qed
qed

subsection \<open>Transfers to evaluate with\<close>

text \<open>Kernel functions to evaluate with, and three packets: a data frame that ends inside its EAPOL header, a plain data frame, a report of the firmware.\<close>

definition plain_net :: net_ops where
  "plain_net = \<lparr>ieee80211_hdrsize = \<lambda>_. 24, ieee80211_anyhdrsize = \<lambda>_. 24, m_get2 = \<lambda>_. True\<rparr>"

definition short_eapol_rx :: "u8 list" where
  "short_eapol_rx = [43, 0, 0, 0] @ replicate 20 0 @ [8] @ replicate 23 0 @ [0xAA, 0xAA, 3, 0, 0, 0, 0x88, 0x8E] @ replicate 7 0 @ replicate 9 0"
definition small_data_rx :: "u8 list" where
  "small_data_rx = [30, 0, 0, 0] @ replicate 20 0 @ [8] @ replicate 25 0 @ replicate 6 0"

definition small_c2h_rx :: "u8 list" where
  "small_c2h_rx = [6, 0, 0, 0, 0, 0, 0, 0, 0, 0, 0, 0x10] @ replicate 12 0 @ [0x03, 0, 0xC0, 0, 0, 0] @ replicate 2 0"

text \<open>C17. The EAPOL observer panics on exactly one kind of frame: a data frame with the SNAP header of EAPOL of which just 15 bytes follow the MAC header,
  one byte less than the observer copies (its guard asks for 15). Such a frame arrives over the air; received in one transfer, it stops the machine.\<close>
theorem eapol_short_panics:
  "(\<forall>N m (s :: unit softc). fst (rtw88_eapol_key_info N m s) = Inl Panic \<longleftrightarrow>
       39 \<le> length m \<and> length m = ieee80211_hdrsize N (take 18 m) + 15 \<and> eapol_is N m) \<and>
   fst (rtw88_bulk_rx_cb idle_ops plain_net (USB_ST_TRANSFERRED short_eapol_rx) (softc_zero () 0 True)) = Inl Panic"
proof -
  have "fst (rtw88_bulk_rx_cb idle_ops plain_net (USB_ST_TRANSFERRED short_eapol_rx) (softc_zero () 0 True)) = Inl Panic" by code_simp
  then show ?thesis using eapol_panics_iff by blast
qed

text \<open>The theorems applied to transfers of these packets.\<close>

lemma small_ok: "rx_packet_ok small_data_rx \<and> rx_packet_ok small_c2h_rx \<and> rx_stop [1, 2, 3]"
  by code_simp

theorem rx_transfer_packets_witness:
  "rx_packets idle_ops plain_net (concat [small_data_rx, small_c2h_rx, small_data_rx] @ [1, 2, 3]) 0 =
     rx_each idle_ops plain_net 0 [small_data_rx, small_c2h_rx, small_data_rx]"
  by (rule rx_transfer_packets) (simp_all add: small_ok)

theorem rx_transfer_account_witness:
  "\<exists>s'. rtw88_bulk_rx_cb idle_ops plain_net (USB_ST_TRANSFERRED (small_data_rx @ small_c2h_rx)) (softc_zero () 1 True) = (Inr (True,
       [\<lparr>rx_data = 8 # replicate 25 0, rx_stats = \<lparr>c_rx_tsf = 0, c_nf = 161, c_rssi = 20, c_pktflags = RxCck, c_rate = 0,
          c_width = RxWidth20, c_freq = 0, c_ieee = 0, c_band = RxNoBand\<rparr>, rx_ampdu = False\<rparr>]), s') \<and>
     on_line 0 True s' \<and> sc_rx_frames (sc_rx s') = 1"
proof -
  let ?run = "rtw88_bulk_rx_cb idle_ops plain_net (USB_ST_TRANSFERRED (small_data_rx @ small_c2h_rx)) (softc_zero () 1 True)"
  let ?fs = "[\<lparr>rx_data = 8 # replicate 25 0, rx_stats = \<lparr>c_rx_tsf = 0, c_nf = 161, c_rssi = 20, c_pktflags = RxCck, c_rate = 0,
      c_width = RxWidth20, c_freq = 0, c_ieee = 0, c_band = RxNoBand\<rparr>, rx_ampdu = False\<rparr>]"
  have run: "fst ?run = Inr (True, ?fs)" by code_simp
  then have eq: "?run = (Inr (True, ?fs), snd ?run)" by (metis prod.collapse)
  have "on_line 0 True (softc_zero () 1 True)" "sc_avg_rssi (sc_rx (softc_zero () 1 True)) \<le> 100"
      "sc_rx_frames (sc_rx (softc_zero () 1 True)) = 0"
    by (simp_all add: softc_zero_def rx_zero_def on_line_def)
  with rx_transfer_account [OF _ _ eq, of 0 True]
  have "on_line 0 True (snd ?run)" "sc_rx_frames (sc_rx (snd ?run)) = 1" by (simp_all split: if_splits)
  then show ?thesis by (intro exI [of _ "snd ?run"] conjI eq)
qed

end
