(* ===== verification/Rtw_Tx.thy ===== *)
theory Rtw_Tx
  imports Rtw_Rx
begin

section \<open>The transmit path\<close>

text \<open>
  From the frame net80211 hands down to the bytes of a bulk-OUT transfer, as in \<^verbatim>\<open>if_rtw88_usb.c\<close>: the rewrite of EAPOL frames,
  software encryption with its slot for one late message 4, the routing to the queues with the gate for a pending
  pairwise key, the draining of a queue into a descriptor and a frame, and the callbacks of the three transmit pipes. \<open>tx_ops\<close> adds what
  the kernel decides on this side: what the cipher makes of a frame (\<open>None\<close> when it refuses it, which leaves the frame as it was), the nodes with an
  aggregation session, whether an mbuf can be pulled up, has room, or can be had anew, and the two tunables. Packets are in one piece. A callback
  returns the bytes it submits and the packets it frees; the mutex is held around it.
\<close>

record tx_ops = net_ops +
  ieee80211_crypto_encap :: "nat \<Rightarrow> u8 list \<Rightarrow> u8 list option"
  node_ht :: "nat \<Rightarrow> bool"
  ampdu_running :: "nat \<Rightarrow> u8 \<Rightarrow> bool"
  m_pullup :: "u8 list \<Rightarrow> bool"
  m_trailing :: "nat \<Rightarrow> nat"
  m_new :: "nat \<Rightarrow> nat option"
  rtw88_ampdu_max_num :: u32
  rtw88_ampdu_density :: u32

abbreviation (input) IEEE80211_FC0_SUBTYPE_QOS_DATA :: u8 where "IEEE80211_FC0_SUBTYPE_QOS_DATA \<equiv> 0x80"

abbreviation net_of :: "'z tx_ops_scheme \<Rightarrow> net_ops" where
  "net_of N \<equiv> net_ops.truncate N"

subsection \<open>The queues\<close>

datatype tx_queue = QMgmt | QData | QVo

fun tx_q :: "tx_queue \<Rightarrow> tx_softc \<Rightarrow> mbufq" where
  "tx_q QMgmt t = sc_tx_mgmt_q t"
| "tx_q QData t = sc_tx_data_q t"
| "tx_q QVo t = sc_tx_data_vo_q t"

fun set_tx_q :: "tx_queue \<Rightarrow> mbufq \<Rightarrow> tx_softc \<Rightarrow> tx_softc" where
  "set_tx_q QMgmt q t = t\<lparr>sc_tx_mgmt_q := q\<rparr>"
| "set_tx_q QData q t = t\<lparr>sc_tx_data_q := q\<rparr>"
| "set_tx_q QVo q t = t\<lparr>sc_tx_data_vo_q := q\<rparr>"

fun tx_inflight :: "tx_queue \<Rightarrow> tx_softc \<Rightarrow> mbuf option" where
  "tx_inflight QMgmt t = sc_tx_mgmt_inflight t"
| "tx_inflight QData t = sc_tx_data_inflight t"
| "tx_inflight QVo t = sc_tx_data_vo_inflight t"

fun set_inflight :: "tx_queue \<Rightarrow> mbuf option \<Rightarrow> tx_softc \<Rightarrow> tx_softc" where
  "set_inflight QMgmt m t = t\<lparr>sc_tx_mgmt_inflight := m\<rparr>"
| "set_inflight QData m t = t\<lparr>sc_tx_data_inflight := m\<rparr>"
| "set_inflight QVo m t = t\<lparr>sc_tx_data_vo_inflight := m\<rparr>"

definition tx_pipe :: "tx_queue \<Rightarrow> nat" where
  "tx_pipe w = (case w of QMgmt \<Rightarrow> RTW88_BULK_TX_HI | QData \<Rightarrow> RTW88_BULK_TX_LO | QVo \<Rightarrow> RTW88_BULK_TX_NORMAL)"

text \<open>A frame is added to a queue, the longest queue seen so far is noted (for the VO queue it is not), and the transfer of its pipe is started.\<close>

definition mbufq_len :: "mbufq \<Rightarrow> u32" where
  "mbufq_len q = of_nat (length (mq_list q))"

fun note_qlen :: "tx_queue \<Rightarrow> tx_softc \<Rightarrow> tx_softc" where
  "note_qlen QMgmt t = t\<lparr>sc_stat_tx_mgmt_qlen_max := max (mbufq_len (sc_tx_mgmt_q t)) (sc_stat_tx_mgmt_qlen_max t)\<rparr>"
| "note_qlen QData t = t\<lparr>sc_stat_tx_data_qlen_max := max (mbufq_len (sc_tx_data_q t)) (sc_stat_tx_data_qlen_max t)\<rparr>"
| "note_qlen QVo t = t"

definition usbd_transfer_start :: "nat \<Rightarrow> ('c softc, unit) cm" where
  "usbd_transfer_start pipe = upd_tx (\<lambda>t. t\<lparr>sc_xfer_started := sc_xfer_started t @ [pipe]\<rparr>)"

definition tx_drop :: "tx_softc \<Rightarrow> tx_softc" where
  "tx_drop t = t\<lparr>sc_stat_tx_drops := sc_stat_tx_drops t + 1\<rparr>"

definition tx_enqueue_on :: "tx_queue \<Rightarrow> mbuf \<Rightarrow> ('c softc, unit) cm" where
  "tx_enqueue_on w m =
     tryE (getS (tx_q w \<circ> sc_tx)) (\<lambda>q. case mbufq_enqueue m q of
       None \<Rightarrow> seqE (upd_tx tx_drop) (fail (Errno ENOBUFS))
     | Some q' \<Rightarrow> seqE (upd_tx (note_qlen w \<circ> set_tx_q w q')) (usbd_transfer_start (tx_pipe w)))"

subsection \<open>Routing\<close>

definition frame_is_data :: "u8 list \<Rightarrow> bool" where
  "frame_is_data d \<longleftrightarrow> at d 0 AND 0x0C = 0x08"

definition frame_protected :: "u8 list \<Rightarrow> bool" where
  "frame_protected d \<longleftrightarrow> at d 1 AND 0x40 \<noteq> 0"

definition frame_bcast :: "u8 list \<Rightarrow> bool" where
  "frame_bcast d \<longleftrightarrow> at d 4 AND 0x01 \<noteq> 0"

definition frame_tid :: "u8 list \<Rightarrow> u8" where
  "frame_tid d = (if at d 0 AND 0x80 \<noteq> 0 \<and> length d \<ge> 26 then at d 24 AND 0x07 else 0)"

definition is_eapol :: "'z tx_ops_scheme \<Rightarrow> u8 list \<Rightarrow> ('s, bool) cm" where
  "is_eapol N d = tryE (rtw88_eapol_key_info (net_of N) d) (\<lambda>k. ret (k \<noteq> None))"

definition tx_park :: "mbuf \<Rightarrow> ('c softc, unit) cm" where
  "tx_park m =
     tryE (getS (sc_tx_pending_q \<circ> sc_tx)) (\<lambda>q. case mbufq_enqueue m q of
       None \<Rightarrow> seqE (upd_tx tx_drop) (fail (Errno ENOBUFS))
     | Some q' \<Rightarrow> upd_tx (\<lambda>t. t\<lparr>sc_tx_pending_q := q', sc_stat_tx_pending_qlen_max := max (mbufq_len q') (sc_stat_tx_pending_qlen_max t)\<rparr>))"

definition rtw88_tx_enqueue_locked :: "'z tx_ops_scheme \<Rightarrow> mbuf \<Rightarrow> ('c softc, unit) cm" where
  "rtw88_tx_enqueue_locked N m =
     (let d = m_data m in
      seqE RTW88_ASSERT_LOCKED
      (if length d = 0 \<or> length d > 0xFFFF then fail (Errno EINVAL)
       else if length d + RTW88_TX_PKT_DESC_SZ > RTW88_TX_BUFSZ then fail (Errno EMSGSIZE)
       else tryE (getS (sc_ptk_install_pending \<circ> sc_tx)) (\<lambda>gate.
         if frame_is_data d \<and> gate \<and> length d \<ge> 24 \<and> frame_protected d \<and> \<not> frame_bcast d then tx_park m
         else if frame_is_data d then
           tryE (is_eapol N d) (\<lambda>e. tx_enqueue_on (if e \<or> frame_tid d \<ge> 4 then QVo else QData) m)
         else tx_enqueue_on QMgmt m)))"

subsection \<open>EAPOL frames and encryption\<close>

definition qos_upgraded :: "u8 list \<Rightarrow> u8 list" where
  "qos_upgraded p = (take 24 p @ [7, 0] @ drop 24 p)[0 := at p 0 OR IEEE80211_FC0_SUBTYPE_QOS_DATA, 22 := 0, 23 := 0]"

definition rtw88_maybe_upgrade_eapol_qos :: "'z tx_ops_scheme \<Rightarrow> mbuf \<Rightarrow> ('c softc, mbuf option) cm" where
  "rtw88_maybe_upgrade_eapol_qos N m =
     tryE (getS (sc_eapol_qos_upgrade \<circ> sc_tx)) (\<lambda>on.
       if \<not> on \<or> length (m_data m) < 24 + 8 + 4 then ret (Some m)
       else tryE (is_eapol N (m_data m)) (\<lambda>e.
         if \<not> e then ret (Some m)
         else if \<not> m_pullup N (m_data m) then ret None
         else case (if m_trailing N (m_id m) < 2 then m_new N (m_id m) else Some (m_id m)) of
           None \<Rightarrow> ret None
         | Some i \<Rightarrow>
             seqE (upd_tx (\<lambda>t. t\<lparr>sc_stat_eapol_qos_upgrade := sc_stat_eapol_qos_upgrade t + 1\<rparr>))
               (ret (Some (m\<lparr>m_id := i, m_data := qos_upgraded (m_data m)\<rparr>)))))"

definition set_protected :: "bool \<Rightarrow> u8 list \<Rightarrow> u8 list" where
  "set_protected b d = d[1 := (if b then at d 1 OR IEEE80211_FC1_PROTECTED else at d 1 AND NOT IEEE80211_FC1_PROTECTED)]"

definition is_m4_info :: "u16 \<Rightarrow> bool" where
  "is_m4_info k \<longleftrightarrow> k AND 0x0300 = 0x0300 \<and> k AND 0x0080 = 0"

text \<open>Message 4 could not be encrypted: the first such frame is marked and the gate closed, for any further one the plain frame goes out.\<close>

definition m4_defer :: "mbuf \<Rightarrow> ('c softc, mbuf) cm" where
  "m4_defer m =
     seqE RTW88_LOCK
     (tryE (getS (sc_m4_needs_encap \<circ> sc_tx)) (\<lambda>slot.
        if slot \<noteq> None then seqE RTW88_UNLOCK (ret (m\<lparr>m_data := set_protected False (m_data m)\<rparr>))
        else seqE (upd_tx (\<lambda>t. t\<lparr>sc_m4_needs_encap := Some (m_id m), sc_ptk_install_pending := True\<rparr>))
          (seqE RTW88_UNLOCK (ret m))))"

definition rtw88_crypto_encap_if_needed :: "'z tx_ops_scheme \<Rightarrow> mbuf \<Rightarrow> ('c softc, mbuf) cm" where
  "rtw88_crypto_encap_if_needed N m =
     (case m_node m of None \<Rightarrow> ret m | Some ni \<Rightarrow>
        if length (m_data m) < IEEE80211_FRAME_LEN then ret m
        else if \<not> frame_protected (m_data m) then
          tryE (rtw88_eapol_key_info (net_of N) (m_data m)) (\<lambda>k.
            case k of None \<Rightarrow> ret m | Some key_info \<Rightarrow>
              if \<not> is_m4_info key_info then ret m
              else let p = set_protected True (m_data m) in
                case ieee80211_crypto_encap N ni p of
                  Some c \<Rightarrow> ret (m\<lparr>m_data := c\<rparr>)
                | None \<Rightarrow> m4_defer (m\<lparr>m_data := p\<rparr>))
        else case ieee80211_crypto_encap N ni (m_data m) of
          None \<Rightarrow> fail (Errno ENOBUFS)
        | Some c \<Rightarrow> ret (m\<lparr>m_data := c\<rparr>))"

text \<open>An error means that the frame is freed.\<close>

definition tx_enqueue :: "'z tx_ops_scheme \<Rightarrow> mbuf \<Rightarrow> ('c softc, unit) cm" where
  "tx_enqueue N m =
     seqE RTW88_LOCK (tryE (attempt (rtw88_tx_enqueue_locked N m)) (\<lambda>r.
       seqE RTW88_UNLOCK (case r of Inl e \<Rightarrow> fail (Errno e) | Inr _ \<Rightarrow> ret ())))"

definition rtw88_transmit :: "'c chip_ops \<Rightarrow> 'z tx_ops_scheme \<Rightarrow> mbuf \<Rightarrow> ('c softc, unit) cm" where
  "rtw88_transmit C N m =
     seqE (rtw88_eapol_log C (net_of N) (m_data m) False)
     (tryE (rtw88_maybe_upgrade_eapol_qos N m) (\<lambda>u. case u of
        None \<Rightarrow> fail (Errno ENOMEM)
      | Some m1 \<Rightarrow> tryE (rtw88_crypto_encap_if_needed N m1) (tx_enqueue N)))"

text \<open>The raw path takes the node as an argument; the packet has the reference as well.\<close>

definition rtw88_raw_xmit :: "'c chip_ops \<Rightarrow> 'z tx_ops_scheme \<Rightarrow> nat \<Rightarrow> mbuf \<Rightarrow> ('c softc, unit) cm" where
  "rtw88_raw_xmit C N ni m =
     seqE (rtw88_eapol_log C (net_of N) (m_data m) False)
     (tryE (rtw88_maybe_upgrade_eapol_qos N m) (\<lambda>u. case u of
        None \<Rightarrow> fail (Errno ENOMEM)
      | Some m1 \<Rightarrow> tryE (rtw88_crypto_encap_if_needed N (m1\<lparr>m_node := Some ni\<rparr>)) (\<lambda>m2.
          tx_enqueue N (m2\<lparr>m_node := m_node m1\<rparr>))))"

end
