(* ===== verification/Rtw_Bulk.thy ===== *)
theory Rtw_Bulk
  imports Rtw_Tx
begin

section \<open>Transmit descriptors and the bulk-OUT callbacks\<close>

text \<open>
  \<^verbatim>\<open>rtw88_bulk_tx_drain_q\<close> of \<^verbatim>\<open>if_rtw88_usb.c\<close>, which turns the head of a queue into a 48-byte descriptor and the frame
  behind it, the three callbacks that call it, and the two stations of the synchronous transfer that shares a pipe and the staging buffer with
  the management queue. The steps of the function are in its order: descriptor, promotion of plain data to QoS data, sequence
  number, checksum.
\<close>

subsection \<open>Words of the descriptor\<close>

definition tx_is_bmc :: "u8 list \<Rightarrow> bool" where
  "tx_is_bmc d \<longleftrightarrow> length d \<ge> 10 \<and> at d 4 AND 0x01 \<noteq> 0"

definition tx_w0 :: "nat \<Rightarrow> bool \<Rightarrow> u32 \<Rightarrow> u32" where
  "tx_w0 framelen bmc extra = (of_nat framelen AND 0xFFFF) OR push_bit RTW88_TXD_W0_OFFSET_S RTW88_TX_PKT_DESC_SZ OR RTW88_TXD_W0_LS
     OR extra OR (if bmc then RTW88_TXD_W0_BMC else 0)"

definition rtw88_tx_use_ampdu :: "'z tx_ops_scheme \<Rightarrow> bool \<Rightarrow> mbuf \<Rightarrow> bool" where
  "rtw88_tx_use_ampdu N on m =
     (on \<and> length (m_data m) \<ge> 26 \<and> at (m_data m) 0 AND 0x8C = 0x88 \<and>
      (case m_node m of None \<Rightarrow> False | Some ni \<Rightarrow> node_ht N ni \<and> ampdu_running N ni (at (m_data m) 24 AND 0x0F)))"

definition tx_qsel :: "bool \<Rightarrow> u8 list \<Rightarrow> u32" where
  "tx_qsel eapol d = (if eapol then 7 else if at d 0 AND 0x80 \<noteq> 0 \<and> length d \<ge> 26 then ucast (at d 24 AND 0x07) else 2)"

definition tx_hdr_seq :: "u8 list \<Rightarrow> u32" where
  "tx_hdr_seq d = ucast (drop_bit 4 (if length d \<ge> 24 then le16dec d 22 else 0)) AND 0xFFF"

text \<open>\<open>sn\<close>: the serial number of the report asked for, when the frame is an EAPOL frame.\<close>

definition tx_data_words :: "'z tx_ops_scheme \<Rightarrow> tx_softc \<Rightarrow> mbuf \<Rightarrow> u8 option \<Rightarrow> u32 list" where
  "tx_data_words N t m sn =
     (let d = m_data m; agg = rtw88_tx_use_ampdu N (sc_ampdu t) m
      in [tx_w0 (length d) (tx_is_bmc d) 0,
          push_bit RTW88_TXD_W1_QSEL_S (tx_qsel (sn \<noteq> None) d) OR push_bit RTW88_TXD_W1_RATE_ID_S (ucast (sc_rate_id t)),
          (if agg then RTW88_TXD_W2_AGG_EN OR push_bit RTW88_TXD_W2_AMPDU_DEN_S (rtw88_ampdu_density N AND 0x7) else 0)
            OR (if sn \<noteq> None then RTW88_TXD_W2_SPE_RPT else 0),
          (if agg then push_bit RTW88_TXD_W3_MAX_AGG_NUM_S (rtw88_ampdu_max_num N AND 0x1F) else 0),
          RTW88_TXD_RATE_OFDM_6M,
          0,
          (case sn of None \<Rightarrow> 0 | Some x \<Rightarrow> push_bit 2 (ucast x) AND 0xFC),
          0, 0,
          push_bit RTW88_TXD_W9_SW_SEQ_S (tx_hdr_seq d)])"

definition tx_mgmt_words :: "mbuf \<Rightarrow> u32 list" where
  "tx_mgmt_words m =
     [tx_w0 (length (m_data m)) (tx_is_bmc (m_data m)) RTW88_TXD_W0_DIS_QSEL_SEQ,
      push_bit RTW88_TXD_W1_QSEL_S TX_DESC_QSEL_MGMT OR push_bit RTW88_TXD_W1_RATE_ID_S RTW_RATEID_B_20M,
      0x00080000,
      RTW88_TXD_W3_USE_RATE OR RTW88_TXD_W3_DISDATAFB,
      RTW88_TXD_RATE_CCK_1M AND RTW88_TXD_W4_DATARATE_M,
      0, 0x00000038, 0, 0x00008000, 0]"

definition words_desc :: "u32 list \<Rightarrow> u8 list" where
  "words_desc ws = concat (map le32enc ws) @ replicate (RTW88_TX_PKT_DESC_SZ - 4 * length ws) 0"

subsection \<open>The frame on the wire\<close>

definition tx_promotes :: "u8 list \<Rightarrow> bool" where
  "tx_promotes d \<longleftrightarrow> frame_is_data d \<and> length d \<ge> 24 \<and> at d 0 AND 0xF0 = 0 \<and> length d + 2 + RTW88_TX_PKT_DESC_SZ \<le> RTW88_TX_BUFSZ"

definition tx_promoted :: "bool \<Rightarrow> u8 list \<Rightarrow> u8 list" where
  "tx_promoted eapol d = (take 24 d @ [if eapol then 0x07 else 0x00, 0x00] @ drop 24 d)[0 := at d 0 OR 0x80]"

text \<open>The length field of the descriptor is encoded again after the promotion.\<close>

definition tx_promote :: "bool \<Rightarrow> u8 list \<times> u8 list \<Rightarrow> u8 list \<times> u8 list" where
  "tx_promote eapol = (\<lambda>(desc, d). if tx_promotes d
     then (let d' = tx_promoted eapol d in (store32 desc 0 (le32dec desc 0 AND NOT 0xFFFF OR (of_nat (length d') AND 0xFFFF)), d'))
     else (desc, d))"

definition tx_stamps :: "u8 list \<Rightarrow> bool" where
  "tx_stamps d \<longleftrightarrow> length d \<ge> 24 \<and> le16dec d 22 = 0"

definition next_seq :: "u16 \<Rightarrow> u16" where
  "next_seq q = (q + 1) AND 0x0FFF"

definition tx_stamp :: "u16 \<Rightarrow> u8 list \<Rightarrow> u8 list" where
  "tx_stamp q d = (if tx_stamps d then store16 d 22 (push_bit 4 (next_seq q)) else d)"

definition tx_frame_bytes :: "'z tx_ops_scheme \<Rightarrow> tx_softc \<Rightarrow> mbuf \<Rightarrow> bool \<Rightarrow> u8 list \<times> tx_softc" where
  "tx_frame_bytes N t m eapol =
     (let data = frame_is_data (m_data m);
          t1 = (if data \<and> eapol then t\<lparr>sc_tx_report_sn := sc_tx_report_sn t + 1\<rparr> else t);
          ws = (if data then tx_data_words N t1 m (if eapol then Some (sc_tx_report_sn t1) else None) else tx_mgmt_words m);
          (desc, d) = tx_promote eapol (words_desc ws, m_data m);
          t2 = (if tx_stamps d then t1\<lparr>sc_tx_seq := next_seq (sc_tx_seq t1)\<rparr> else t1)
      in (txdesc_seal desc @ tx_stamp (sc_tx_seq t1) d, t2))"

subsection \<open>Draining a queue\<close>

text \<open>A callback gives the bytes it submits, if any, and the packets it frees.\<close>

type_synonym tx_done = "u8 list option \<times> mbuf list"

definition rtw88_bulk_tx_drain_q :: "'z tx_ops_scheme \<Rightarrow> tx_queue \<Rightarrow> ('c softc, tx_done) cm" where
  "rtw88_bulk_tx_drain_q N w =
     seqE RTW88_ASSERT_LOCKED
     (tryE (getS (tx_q w \<circ> sc_tx)) (\<lambda>q. case mbufq_dequeue q of
        None \<Rightarrow> ret (None, [])
      | Some (m, q') \<Rightarrow>
          seqE (upd_tx (set_tx_q w q'))
          (let framelen = length (m_data m) mod 65536 in
           if framelen = 0 \<or> framelen + RTW88_TX_PKT_DESC_SZ > RTW88_TX_BUFSZ then ret (None, [m])
           else
             tryE (is_eapol N (m_data m)) (\<lambda>e.
             tryE (getS (\<lambda>s. tx_frame_bytes N (sc_tx s) (m\<lparr>m_data := take framelen (m_data m)\<rparr>) e)) (\<lambda>(bytes, t).
             seqE (updS (\<lambda>s. s\<lparr>sc_tx := set_inflight w (Some m) t, sc_tx_buf := bytes @ drop (length bytes) (sc_tx_buf s)\<rparr>))
             (ret (Some bytes, [])))))))"

definition rtw88_bulk_tx_drain_mgmt :: "'z tx_ops_scheme \<Rightarrow> ('c softc, tx_done) cm" where
  "rtw88_bulk_tx_drain_mgmt N = rtw88_bulk_tx_drain_q N QMgmt"

definition rtw88_bulk_tx_drain_data :: "'z tx_ops_scheme \<Rightarrow> ('c softc, tx_done) cm" where
  "rtw88_bulk_tx_drain_data N = rtw88_bulk_tx_drain_q N QData"

definition rtw88_bulk_tx_drain_data_vo :: "'z tx_ops_scheme \<Rightarrow> ('c softc, tx_done) cm" where
  "rtw88_bulk_tx_drain_data_vo N = rtw88_bulk_tx_drain_q N QVo"

subsection \<open>Callbacks\<close>

datatype tx_state = TX_SETUP | TX_TRANSFERRED | TX_ERROR usb_error

text \<open>The frame in flight is done: it is freed, and counted when it was sent.\<close>

definition tx_finish :: "tx_queue \<Rightarrow> bool \<Rightarrow> ('c softc, mbuf list) cm" where
  "tx_finish w sent =
     tryE (getS (tx_inflight w \<circ> sc_tx)) (\<lambda>m. case m of
       None \<Rightarrow> ret []
     | Some x \<Rightarrow>
         seqE (upd_tx (\<lambda>t. (set_inflight w None t)\<lparr>sc_stat_tx_packets := sc_stat_tx_packets t + (if sent then 1 else 0)\<rparr>))
           (ret [x]))"

definition also_frees :: "mbuf list \<Rightarrow> tx_done \<Rightarrow> tx_done" where
  "also_frees fs = (\<lambda>(b, gs). (b, fs @ gs))"

definition tx_count_error :: "('c softc, unit) cm" where
  "tx_count_error = updS (\<lambda>s. s\<lparr>sc_stat_tx_errors := sc_stat_tx_errors s + 1\<rparr>)"

definition rtw88_bulk_tx_data_be_cb :: "'z tx_ops_scheme \<Rightarrow> tx_state \<Rightarrow> ('c softc, tx_done) cm" where
  "rtw88_bulk_tx_data_be_cb N st = (case st of
     TX_TRANSFERRED \<Rightarrow> tryE (tx_finish QData True) (\<lambda>fs. tryE (rtw88_bulk_tx_drain_data N) (\<lambda>d. ret (also_frees fs d)))
   | TX_SETUP \<Rightarrow> rtw88_bulk_tx_drain_data N
   | TX_ERROR e \<Rightarrow> if e \<noteq> USB_ERR_CANCELLED then seqE tx_count_error (tryE (tx_finish QData False) (\<lambda>fs. ret (None, fs)))
       else ret (None, []))"

definition rtw88_bulk_tx_data_vo_cb :: "'z tx_ops_scheme \<Rightarrow> tx_state \<Rightarrow> ('c softc, tx_done) cm" where
  "rtw88_bulk_tx_data_vo_cb N st = (case st of
     TX_TRANSFERRED \<Rightarrow> tryE (tx_finish QVo True) (\<lambda>fs. tryE (rtw88_bulk_tx_drain_data_vo N) (\<lambda>d. ret (also_frees fs d)))
   | TX_SETUP \<Rightarrow> rtw88_bulk_tx_drain_data_vo N
   | TX_ERROR e \<Rightarrow> if e \<noteq> USB_ERR_CANCELLED then seqE tx_count_error (tryE (tx_finish QVo False) (\<lambda>fs. ret (None, fs)))
       else ret (None, []))"

text \<open>The pipe of the management queue also carries the synchronous transfers.\<close>

definition tx_setup :: "'z tx_ops_scheme \<Rightarrow> ('c softc, tx_done) cm" where
  "tx_setup N =
     tryE (getS sc_tx_pending) (\<lambda>sync. if sync
       then tryE (getS (\<lambda>s. take (unat (sc_tx_len s)) (sc_tx_buf s))) (\<lambda>bytes. ret (Some bytes, []))
       else rtw88_bulk_tx_drain_mgmt N)"

definition sync_done :: "usb_error \<Rightarrow> ('c softc, unit) cm" where
  "sync_done e = updS (\<lambda>s. s\<lparr>sc_tx_err := e, sc_tx_pending := False, sc_tx_done := True\<rparr>)"

definition rtw88_bulk_tx_cb :: "'z tx_ops_scheme \<Rightarrow> tx_state \<Rightarrow> ('c softc, tx_done) cm" where
  "rtw88_bulk_tx_cb N st = (case st of
     TX_TRANSFERRED \<Rightarrow>
       tryE (getS sc_tx_pending) (\<lambda>sync.
       seqE (whenE sync (sync_done USB_ERR_NORMAL_COMPLETION))
       (tryE (tx_finish QMgmt True) (\<lambda>fs. tryE (tx_setup N) (\<lambda>d. ret (also_frees fs d)))))
   | TX_SETUP \<Rightarrow> tx_setup N
   | TX_ERROR e \<Rightarrow>
       if e \<noteq> USB_ERR_CANCELLED then
         seqE tx_count_error
         (seqE (updS (\<lambda>s. s\<lparr>sc_tx_err := e\<rparr>))
         (tryE (getS sc_tx_pending) (\<lambda>sync.
          seqE (whenE sync (sync_done e))
          (tryE (tx_finish QMgmt False) (\<lambda>fs. ret (None, fs))))))
       else ret (None, []))"

subsection \<open>What a descriptor says\<close>

lemma desc_words:
  "length (words_desc [w0, w1, w2, w3, w4, w5, w6, w7, w8, w9]) = 48"
  "le32dec (words_desc [w0, w1, w2, w3, w4, w5, w6, w7, w8, w9]) 0 = w0"
  "le32dec (words_desc [w0, w1, w2, w3, w4, w5, w6, w7, w8, w9]) 4 = w1"
  "le16dec (words_desc [w0, w1, w2, w3, w4, w5, w6, 0, w8, w9]) 28 = 0"
  "le32dec (words_desc [w0, w1, w2, w3, w4, w5, w6, w7, w8, w9]) 36 = w9"
  by (simp_all add: words_desc_def le32enc_def le32dec_def le16dec_def at_def le32_enc le16_def)

lemma le32dec_store32: "off + 3 < length d \<Longrightarrow> le32dec (store32 d off v) off = v"
  by (simp add: le32dec_def store32_def at_update le32_enc)

lemma le32dec_store32_other: "off + 3 < i \<Longrightarrow> le32dec (store32 d off v) i = le32dec d i"
  by (simp add: le32dec_def store32_def at_update)

lemma le16dec_store32_other: "off + 3 < i \<Longrightarrow> le16dec (store32 d off v) i = le16dec d i"
  by (simp add: le16dec_def store32_def at_update)

lemma le32dec_seal: "i + 3 < 28 \<or> 29 < i \<Longrightarrow> le32dec (txdesc_seal d) i = le32dec d i"
  by (auto simp: le32dec_def txdesc_seal_def store16_def at_update)

lemma low16: "n < 65536 \<Longrightarrow> (of_nat n AND 0xFFFF :: u32) = of_nat n"
proof -
  assume "n < 65536"
  then have "take_bit 16 (of_nat n :: u32) = of_nat n" by (simp add: take_bit_of_nat take_bit_nat_eq_self)
  then show ?thesis by (simp add: take_bit_eq_mask mask_eq_exp_minus_1)
qed

lemma high16: "drop_bit 16 (v AND 0xFFFF :: u32) = 0"
proof -
  have "(0xFFFF :: u32) = mask 16" by (simp add: mask_eq_exp_minus_1)
  then show ?thesis by (simp only:) (rule bit_word_eqI, auto simp: bit_simps)
qed

lemma reencode:
  fixes v :: u32
  shows "(v AND NOT 0xFFFF OR (u AND 0xFFFF)) AND 0xFFFF = u AND 0xFFFF" "drop_bit 16 (v AND NOT 0xFFFF OR (u AND 0xFFFF)) = drop_bit 16 v"
proof -
  have m: "(0xFFFF :: u32) = mask 16" by (simp add: mask_eq_exp_minus_1)
  show "(v AND NOT 0xFFFF OR (u AND 0xFFFF)) AND 0xFFFF = u AND 0xFFFF" unfolding m by (rule bit_word_eqI) (auto simp: bit_simps)
  show "drop_bit 16 (v AND NOT 0xFFFF OR (u AND 0xFFFF)) = drop_bit 16 v" unfolding m by (rule bit_word_eqI) (auto simp: bit_simps dest: bit_imp_le_length)
qed

lemma w0_fields:
  assumes "n < 65536" "x = 0 \<or> x = RTW88_TXD_W0_DIS_QSEL_SEQ"
  shows "tx_w0 n bmc x AND 0xFFFF = of_nat n" "drop_bit 16 (tx_w0 n bmc x) AND 0xFF = 48"
proof -
  define a :: u32 where "a = of_nat n AND 0xFFFF"
  have a: "a AND 0xFFFF = a" "drop_bit 16 a = 0" unfolding a_def by (simp add: ac_simps) (rule high16)
  have "a = of_nat n" unfolding a_def using assms(1) by (rule low16)
  with a assms(2) show "tx_w0 n bmc x AND 0xFFFF = of_nat n" "drop_bit 16 (tx_w0 n bmc x) AND 0xFF = 48"
    unfolding tx_w0_def a_def [symmetric] by (auto simp: bit.conj_disj_distrib2 drop_bit_or)
qed

text \<open>The bytes of a frame: a sealed descriptor of 48 bytes with the length of what follows it.\<close>

definition wire_frame :: "bool \<Rightarrow> u16 \<Rightarrow> u8 list \<Rightarrow> u8 list" where
  "wire_frame eapol q d = tx_stamp q (if tx_promotes d then tx_promoted eapol d else d)"

lemma length_tx_promoted [simp]: "24 \<le> length d \<Longrightarrow> length (tx_promoted e d) = length d + 2"
  by (simp add: tx_promoted_def)

lemma length_tx_stamp [simp]: "length (tx_stamp q d) = length d"
  by (simp add: tx_stamp_def)

lemma length_wire: "length (wire_frame e q d) = (if tx_promotes d then length d + 2 else length d)"
  by (auto simp: wire_frame_def tx_promotes_def)

definition tx_words :: "'z tx_ops_scheme \<Rightarrow> tx_softc \<Rightarrow> mbuf \<Rightarrow> bool \<Rightarrow> u32 list" where
  "tx_words N t m e = (if frame_is_data (m_data m)
     then tx_data_words N t m (if e then Some (sc_tx_report_sn t + 1) else None) else tx_mgmt_words m)"

text \<open>The words of any frame.\<close>

lemma tx_words_shape:
  obtains w1 w2 w3 w4 w5 w6 w8 w9 x where
    "tx_words N t m e = [tx_w0 (length (m_data m)) (tx_is_bmc (m_data m)) x, w1, w2, w3, w4, w5, w6, 0, w8, w9]"
    "x = 0 \<or> x = RTW88_TXD_W0_DIS_QSEL_SEQ"
  by (cases "frame_is_data (m_data m)") (simp_all add: tx_words_def tx_data_words_def tx_mgmt_words_def Let_def)

lemma frame_bytes:
  "fst (tx_frame_bytes N t m e) = txdesc_seal (fst (tx_promote e (words_desc (tx_words N t m e), m_data m)))
     @ wire_frame e (sc_tx_seq t) (m_data m)"
proof -
  have eq: "tx_data_words N (t\<lparr>sc_tx_report_sn := sn\<rparr>) m s = tx_data_words N t m s" for sn s
    by (simp add: tx_data_words_def)
  show ?thesis
    by (simp add: tx_frame_bytes_def tx_words_def wire_frame_def tx_promote_def Let_def eq split_def)
qed

text \<open>C18. What drains into the staging buffer is a descriptor that describes it: for every frame that fits, whatever its bytes and the state of
  the driver, the 48 bytes of the descriptor have checksum zero, give 48 as the offset and the length of exactly the bytes behind it; the whole fits
  the buffer; and behind the descriptor stands the frame, promoted to QoS data if it is a plain data frame and with the next sequence number if it
  had none.\<close>
theorem tx_descriptor_sound:
  assumes "length (m_data m) + 48 \<le> RTW88_TX_BUFSZ"
  shows "let b = fst (tx_frame_bytes N t m e); w0 = le32dec b 0; n = length b - 48
    in txdesc_xor b = 0 \<and> drop_bit 16 w0 AND 0xFF = 48 \<and> w0 AND 0xFFFF = of_nat n \<and> 48 + n \<le> RTW88_TX_BUFSZ \<and>
       drop 48 b = wire_frame e (sc_tx_seq t) (m_data m)"
proof -
  let ?d = "m_data m"
  obtain w1 w2 w3 w4 w5 w6 w8 w9 x where ws:
    "tx_words N t m e = [tx_w0 (length ?d) (tx_is_bmc ?d) x, w1, w2, w3, w4, w5, w6, 0, w8, w9]"
    and x: "x = 0 \<or> x = RTW88_TXD_W0_DIS_QSEL_SEQ" by (rule tx_words_shape)
  define desc where "desc = words_desc (tx_words N t m e)"
  define desc' where "desc' = fst (tx_promote e (desc, ?d))"
  let ?w = "wire_frame e (sc_tx_seq t) ?d"
  have lw: "length ?w + 48 \<le> 16384" using assms by (auto simp: length_wire tx_promotes_def)
  have l: "length desc = 48" "le32dec desc 0 = tx_w0 (length ?d) (tx_is_bmc ?d) x" "le16dec desc 28 = 0"
    by (simp_all add: desc_def ws desc_words)
  have fields: "tx_w0 (length ?d) (tx_is_bmc ?d) x AND 0xFFFF = of_nat (length ?d)"
    "drop_bit 16 (tx_w0 (length ?d) (tx_is_bmc ?d) x) AND 0xFF = 48"
    using assms by (intro w0_fields x, simp)+
  have "le32dec desc' 0 AND 0xFFFF = of_nat (length ?w) \<and> drop_bit 16 (le32dec desc' 0) AND 0xFF = 48 \<and>
      length desc' = 48 \<and> le16dec desc' 28 = 0"
  proof (cases "tx_promotes ?d")
    case True
    then have "length ?w = length (tx_promoted e ?d)" "length ?w < 65536" using lw by (auto simp: length_wire tx_promotes_def)
    then have w: "length (tx_promoted e ?d) = length ?w" "of_nat (length ?w) AND 0xFFFF = (of_nat (length ?w) :: u32)"
      by (simp_all only: low16)
    let ?v = "le32dec desc 0 AND NOT 0xFFFF OR (of_nat (length ?w) AND 0xFFFF)"
    have "desc' = store32 desc 0 ?v" using True w(1) by (simp add: desc'_def tx_promote_def Let_def)
    then have "le32dec desc' 0 = ?v" "length desc' = 48" "le16dec desc' 28 = 0"
      using l(1,3) by (simp_all only: le32dec_store32 le16dec_store32_other length_store)
    moreover have "?v AND 0xFFFF = of_nat (length ?w)" by (rule trans [OF reencode(1) w(2)])
    moreover have "drop_bit 16 ?v AND 0xFF = 48" by (subst reencode(2)) (use fields(2) l(2) in simp)
    ultimately show ?thesis by simp
  next
    case False
    then show ?thesis using l fields by (simp add: desc'_def tx_promote_def length_wire)
  qed
  then have w0: "le32dec desc' 0 AND 0xFFFF = of_nat (length ?w)" "drop_bit 16 (le32dec desc' 0) AND 0xFF = 48"
    and l': "length desc' = 48" "le16dec desc' 28 = 0" by simp_all
  have b: "fst (tx_frame_bytes N t m e) = txdesc_seal desc' @ ?w" by (simp add: frame_bytes desc_def desc'_def)
  have "le32dec (txdesc_seal desc' @ ?w) 0 = le32dec desc' 0" using l' by (simp add: le32dec_prefix le32dec_seal)
  moreover have "txdesc_xor (txdesc_seal desc' @ ?w) = 0" using l' by (simp add: txdesc_xor_append txdesc_seal_zero)
  ultimately show ?thesis using w0 l' lw unfolding b Let_def by simp
qed

lemma w1_qsel: "q < 32 \<Longrightarrow> drop_bit 8 (push_bit 8 q OR push_bit 16 r :: u32) AND 0x1F = q"
proof -
  assume q: "q < 32"
  have m: "(0x1F :: u32) = mask 5" by (simp add: mask_eq_exp_minus_1)
  have "drop_bit 8 (push_bit 8 q OR push_bit 16 r) AND 0x1F = q AND 0x1F"
    unfolding m by (rule bit_word_eqI) (auto simp: bit_simps)
  also have "q AND 0x1F = q"
  proof -
    from q have "unat q < 32" by (simp add: word_less_nat_alt)
    then have "take_bit 5 q = q" by (simp add: word_unat_eq_iff unsigned_take_bit_eq take_bit_nat_eq_self)
    then show ?thesis by (simp add: m take_bit_eq_mask)
  qed
  finally show ?thesis .
qed

lemma frame_word:
  assumes "tx_words N t m e = [w0, w1, w2, w3, w4, w5, w6, 0, w8, w9]"
  shows "le32dec (fst (tx_frame_bytes N t m e)) 4 = w1" "le32dec (fst (tx_frame_bytes N t m e)) 36 = w9"
    "drop 48 (fst (tx_frame_bytes N t m e)) = wire_frame e (sc_tx_seq t) (m_data m)"
proof -
  let ?d = "fst (tx_promote e (words_desc (tx_words N t m e), m_data m))"
  have d: "length ?d = 48" "le32dec ?d 4 = w1" "le32dec ?d 36 = w9"
    by (simp_all add: tx_promote_def assms desc_words Let_def le32dec_store32_other)
  then show "le32dec (fst (tx_frame_bytes N t m e)) 4 = w1" "le32dec (fst (tx_frame_bytes N t m e)) 36 = w9"
    "drop 48 (fst (tx_frame_bytes N t m e)) = wire_frame e (sc_tx_seq t) (m_data m)"
    by (simp_all add: frame_bytes le32dec_prefix le32dec_seal)
qed

lemma wire_promoted:
  assumes "tx_promotes d"
  shows "at (wire_frame e q d) 0 = at d 0 OR 0x80" "at (wire_frame e q d) 1 = at d 1" "at (wire_frame e q d) 24 = (if e then 7 else 0)"
    "drop 26 (wire_frame e q d) = drop 24 d" "tx_stamps d \<Longrightarrow> le16dec (wire_frame e q d) 22 = push_bit 4 (next_seq q)"
proof -
  have l: "24 \<le> length d" using assms by (simp add: tx_promotes_def)
  note defs = wire_frame_def tx_promoted_def tx_stamp_def store16_def tx_stamps_def
  show "at (wire_frame e q d) 0 = at d 0 OR 0x80" "at (wire_frame e q d) 1 = at d 1" "at (wire_frame e q d) 24 = (if e then 7 else 0)"
    using assms l by (auto simp: defs at_update) (auto simp: at_def)
  show "drop 26 (wire_frame e q d) = drop 24 d"
    using assms l by (simp add: defs drop_update_cancel)
  assume s: "tx_stamps d"
  then have "tx_stamps (tx_promoted e d)" using l by (auto simp: tx_stamps_def tx_promoted_def le16dec_def at_update at_def nth_append)
  then show "le16dec (wire_frame e q d) 22 = push_bit 4 (next_seq q)"
    using assms l by (simp add: wire_frame_def tx_stamp_def le16dec_store16)
qed

text \<open>C38. The promotion contradicts the rest of the path. For every plain data frame that is not an EAPOL frame the descriptor asks for queue 2 while the
  frame that goes out has TID 0 in its QoS control; the promotion comes after encryption, so that a protected frame goes out with the
  QoS bit and the QoS field, which the cipher has authenticated as absent, and its ciphertext unchanged; and the sequence number in the
  descriptor is 0 when the frame got its number here.\<close>
theorem promotion_after_encryption:
  assumes "tx_promotes (m_data m)"
  shows "let b = fst (tx_frame_bytes N t m False); f = drop 48 b
    in drop_bit 8 (le32dec b 4) AND 0x1F = 2 \<and> at f 24 AND 0x0F = 0 \<and>
       at f 0 = at (m_data m) 0 OR 0x80 \<and> at f 1 = at (m_data m) 1 \<and> drop 26 f = drop 24 (m_data m) \<and>
       (tx_stamps (m_data m) \<longrightarrow> drop_bit 12 (le32dec b 36) = 0 \<and> le16dec f 22 = push_bit 4 (next_seq (sc_tx_seq t)))"
proof -
  have data: "frame_is_data (m_data m)" and sub: "at (m_data m) 0 AND 0xF0 = 0" using assms by (auto simp: tx_promotes_def)
  have "at (m_data m) 0 AND 0x80 = (at (m_data m) 0 AND 0xF0) AND 0x80" by (simp add: and.assoc)
  then have q: "tx_qsel False (m_data m) = 2" using sub by (simp add: tx_qsel_def)
  obtain w0 w2 w3 w4 w5 w6 w8 where ws: "tx_words N t m False =
      [w0, push_bit 8 2 OR push_bit 16 (ucast (sc_rate_id t)), w2, w3, w4, w5, w6, 0, w8, push_bit 12 (tx_hdr_seq (m_data m))]"
    using data q by (simp add: tx_words_def tx_data_words_def Let_def)
  note f = frame_word [OF ws] wire_promoted [OF assms, of False "sc_tx_seq t"]
  have "tx_stamps (m_data m) \<Longrightarrow> tx_hdr_seq (m_data m) = 0" by (simp add: tx_stamps_def tx_hdr_seq_def)
  with f w1_qsel [of 2 "ucast (sc_rate_id t)"] show ?thesis by (simp add: Let_def del: drop_drop)
qed

subsection \<open>The management pipe and the command pipe together\<close>

text \<open>
  The slots \<open>RTW88_BULK_TX_HI\<close> and \<open>RTW88_BULK_TX_H2C\<close> have the same callback, the same staging buffer and the same flag for the synchronous
  transfer. \<open>bus\<close> is the driver with what the USB stack keeps for each slot: not started, started with its callback due, or busy with
  bytes it was given; what it was given so far; and the packets freed. The actor of a step holds the mutex. A start of a busy slot changes nothing.
\<close>

datatype xfer = XIdle | XStarted | XBusy

record 'c bus =
  bs_sc :: "'c softc"
  bs_xfer :: "nat \<Rightarrow> xfer"
  bs_out :: "(nat \<times> u8 list) list"
  bs_freed :: "mbuf list"

datatype bus_event = EvMgmt mbuf | EvSync nat "u8 list" | EvSetup nat | EvDone nat | EvFail nat usb_error

definition bus_start :: "nat \<Rightarrow> 'c bus \<Rightarrow> 'c bus" where
  "bus_start slot b = (if bs_xfer b slot = XIdle then b\<lparr>bs_xfer := (bs_xfer b)(slot := XStarted)\<rparr> else b)"

definition bus_callback :: "'z tx_ops_scheme \<Rightarrow> nat \<Rightarrow> tx_state \<Rightarrow> 'c bus \<Rightarrow> 'c bus option" where
  "bus_callback N slot st b = (case rtw88_bulk_tx_cb N st (bs_sc b) of
     (Inl _, _) \<Rightarrow> None
   | (Inr (given, fs), s') \<Rightarrow> Some (b\<lparr>bs_sc := s', bs_xfer := (bs_xfer b)(slot := (if given = None then XIdle else XBusy)),
       bs_out := bs_out b @ (case given of None \<Rightarrow> [] | Some x \<Rightarrow> [(slot, x)]), bs_freed := bs_freed b @ fs\<rparr>))"

text \<open>The caller of \<^verbatim>\<open>rtw88_bulk_tx_sync\<close> up to its wait.\<close>

definition bulk_tx_stage :: "u8 list \<Rightarrow> 'c softc \<Rightarrow> 'c softc" where
  "bulk_tx_stage data s = s\<lparr>sc_tx_buf := data @ drop (length data) (sc_tx_buf s), sc_tx_len := of_nat (length data),
     sc_tx_pending := True, sc_tx_done := False, sc_tx_err := USB_ERR_NORMAL_COMPLETION\<rparr>"

definition sync_slot :: "nat \<Rightarrow> bool" where
  "sync_slot slot \<longleftrightarrow> slot = RTW88_BULK_TX_HI \<or> slot = RTW88_BULK_TX_H2C"

fun bus_do :: "'z tx_ops_scheme \<Rightarrow> bus_event \<Rightarrow> 'c bus \<Rightarrow> 'c bus option" where
  "bus_do N (EvMgmt m) b = (if frame_is_data (m_data m) then None
     else case rtw88_tx_enqueue_locked N m (bs_sc b) of
       (Inl _, s') \<Rightarrow> Some (b\<lparr>bs_sc := s', bs_freed := bs_freed b @ [m]\<rparr>)
     | (Inr _, s') \<Rightarrow> Some (bus_start RTW88_BULK_TX_HI (b\<lparr>bs_sc := s'\<rparr>)))"
| "bus_do N (EvSync slot data) b = (if sync_slot slot \<and> data \<noteq> [] \<and> length data \<le> RTW88_TX_BUFSZ
     then Some (bus_start slot (b\<lparr>bs_sc := bulk_tx_stage data (bs_sc b)\<rparr>)) else None)"
| "bus_do N (EvSetup slot) b = (if bs_xfer b slot = XStarted then bus_callback N slot TX_SETUP b else None)"
| "bus_do N (EvDone slot) b = (if bs_xfer b slot = XBusy then bus_callback N slot TX_TRANSFERRED b else None)"
| "bus_do N (EvFail slot e) b = (if bs_xfer b slot = XBusy \<and> e \<noteq> USB_ERR_NORMAL_COMPLETION
     then bus_callback N slot (TX_ERROR e) b else None)"

fun bus_run :: "'z tx_ops_scheme \<Rightarrow> bus_event list \<Rightarrow> 'c bus \<Rightarrow> 'c bus option" where
  "bus_run N [] b = Some b"
| "bus_run N (ev # evs) b = Option.bind (bus_do N ev b) (bus_run N evs)"

text \<open>The caller comes back with 0.\<close>

definition sync_returns_0 :: "'c bus \<Rightarrow> bool" where
  "sync_returns_0 b \<longleftrightarrow> sc_tx_done (bs_sc b) \<and> sc_tx_err (bs_sc b) = USB_ERR_NORMAL_COMPLETION"

text \<open>No management frame waits or is in flight, and both slots are at rest.\<close>

definition bus_quiet :: "'c bus \<Rightarrow> bool" where
  "bus_quiet b \<longleftrightarrow> mtx_depth (bs_sc b) \<noteq> 0 \<and> mq_list (sc_tx_mgmt_q (sc_tx (bs_sc b))) = [] \<and>
     sc_tx_mgmt_inflight (sc_tx (bs_sc b)) = None \<and> bs_xfer b RTW88_BULK_TX_HI = XIdle \<and> bs_xfer b RTW88_BULK_TX_H2C = XIdle"

fun bus_usb :: "nat \<Rightarrow> bus_event \<Rightarrow> bool" where
  "bus_usb slot (EvSetup i) \<longleftrightarrow> i = slot"
| "bus_usb slot (EvDone i) \<longleftrightarrow> i = slot"
| "bus_usb slot (EvFail i e) \<longleftrightarrow> i = slot"
| "bus_usb slot _ \<longleftrightarrow> False"

definition sync_phase :: "nat \<Rightarrow> u8 list \<Rightarrow> (nat \<times> u8 list) list \<Rightarrow> 'c bus \<Rightarrow> bool" where
  "sync_phase slot data old b \<longleftrightarrow>
     (let s = bs_sc b; sent = (bs_out b = old @ [(slot, data)]) in
      mtx_depth s \<noteq> 0 \<and> mq_list (sc_tx_mgmt_q (sc_tx s)) = [] \<and> sc_tx_mgmt_inflight (sc_tx s) = None \<and>
      (sc_tx_pending s \<and> \<not> sc_tx_done s \<and> take (unat (sc_tx_len s)) (sc_tx_buf s) = data \<and> bs_xfer b slot = XStarted \<and> bs_out b = old
       \<or> sc_tx_pending s \<and> \<not> sc_tx_done s \<and> bs_xfer b slot \<noteq> XStarted \<and> sent
       \<or> \<not> sc_tx_pending s \<and> sc_tx_done s \<and> bs_xfer b slot = XIdle \<and> sent))"

lemma drain_empty:
  "mtx_depth s \<noteq> 0 \<Longrightarrow> mq_list (tx_q w (sc_tx s)) = [] \<Longrightarrow> rtw88_bulk_tx_drain_q N w s = (Inr (None, []), s)"
  by (simp add: rtw88_bulk_tx_drain_q_def RTW88_ASSERT_LOCKED_def mbufq_dequeue_def seqE_def tryE_def)

lemma finish_none: "tx_inflight w (sc_tx s) = None \<Longrightarrow> tx_finish w b s = (Inr [], s)"
  by (simp add: tx_finish_def)

lemma sync_phase_step:
  assumes "sync_phase slot data old b" "bus_do N ev b = Some b'" "bus_usb slot ev"
  shows "sync_phase slot data old b'"
proof -
  have drain: "rtw88_bulk_tx_drain_mgmt N s = (Inr (None, []), s)"
    if "mtx_depth s \<noteq> 0" "mq_list (sc_tx_mgmt_q (sc_tx s)) = []" for s :: "'a softc"
    unfolding rtw88_bulk_tx_drain_mgmt_def using that by (simp add: drain_empty)
  have fin: "tx_finish QMgmt k s = (Inr [], s)" if "sc_tx_mgmt_inflight (sc_tx s) = None" for k and s :: "'a softc"
    using that by (simp add: finish_none)
  show ?thesis
    using assms
    by (cases ev)
      (auto simp: sync_phase_def Let_def bus_callback_def rtw88_bulk_tx_cb_def tx_setup_def sync_done_def tx_count_error_def
        drain fin also_frees_def whenE_def seqE_def tryE_def split: if_splits)
qed

lemma sync_phase_run:
  "sync_phase slot data old b \<Longrightarrow> \<forall>ev \<in> set evs. bus_usb slot ev \<Longrightarrow> bus_run N evs b = Some b' \<Longrightarrow> sync_phase slot data old b'"
proof (induction evs arbitrary: b)
  case Nil
  then show ?case by simp
next
  case (Cons ev evs)
  then obtain b1 where b1: "bus_do N ev b = Some b1" "bus_run N evs b1 = Some b'" by (auto simp: bind_eq_Some_conv)
  from Cons.prems(2) have "bus_usb slot ev" "\<forall>ev \<in> set evs. bus_usb slot ev" by simp_all
  with Cons.IH [OF sync_phase_step [OF Cons.prems(1) b1(1)] _ b1(2)] show ?case by blast
qed

text \<open>C19. A synchronous transfer alone on its pipe does what its result says. From a state in which no management frame waits or is in flight, whatever
  the USB stack does with the slot (its set-up callback, completions, errors, a cancelled transfer, in any order and number), the bytes
  are given to the device at most once, nothing else is, and if the caller comes back with 0 they were given.\<close>
theorem sync_alone_delivers:
  assumes "bus_quiet b" "sync_slot slot" "data \<noteq> []" "length data \<le> RTW88_TX_BUFSZ"
    "\<forall>ev \<in> set evs. bus_usb slot ev" "bus_run N (EvSync slot data # evs) b = Some b'"
  shows "bs_out b' = bs_out b \<and> \<not> sync_returns_0 b' \<or> bs_out b' = bs_out b @ [(slot, data)]"
proof -
  have "unat (of_nat (length data) :: u32) = length data" using assms(4) by (simp add: unat_of_nat take_bit_nat_eq_self)
  with assms(1,2) have "sync_phase slot data (bs_out b) (bus_start slot (b\<lparr>bs_sc := bulk_tx_stage data (bs_sc b)\<rparr>))"
    by (auto simp: sync_phase_def bus_start_def bus_quiet_def sync_slot_def bulk_tx_stage_def Let_def)
  from sync_phase_run [OF this assms(5)] assms(2-4,6) show ?thesis
    by (auto simp: sync_phase_def sync_returns_0_def Let_def)
qed

text \<open>A kernel in which every allocation succeeds and the cipher adds nothing, and frames to send.\<close>

definition plain_tx :: tx_ops where
  "plain_tx = \<lparr>ieee80211_hdrsize = \<lambda>_. 24, ieee80211_anyhdrsize = \<lambda>_. 24, m_get2 = \<lambda>_. True,
     ieee80211_crypto_encap = \<lambda>_ d. Some d, node_ht = \<lambda>_. False, ampdu_running = \<lambda>_ _. False, m_pullup = \<lambda>_. True,
     m_trailing = \<lambda>_. 2, m_new = \<lambda>i. Some i, rtw88_ampdu_max_num = 31, rtw88_ampdu_density = 4\<rparr>"

definition mgmt_mbuf :: "nat \<Rightarrow> mbuf" where
  "mgmt_mbuf i = \<lparr>m_id = i, m_data = 0xB0 # replicate 29 1, m_node = None\<rparr>"

definition bus_zero :: "unit bus" where
  "bus_zero = \<lparr>bs_sc = softc_zero () 1 True, bs_xfer = \<lambda>_. XIdle, bs_out = [], bs_freed = []\<rparr>"

theorem sync_alone_delivers_witness:
  "\<exists>b'. bus_run plain_tx [EvSync 4 [1, 2, 3], EvSetup 4, EvDone 4] bus_zero = Some b' \<and> sync_returns_0 b' \<and> bs_out b' = [(4, [1, 2, 3])]"
proof -
  have q: "bus_quiet bus_zero \<and> sync_slot 4" by (simp add: bus_quiet_def bus_zero_def softc_zero_def tx_zero_def mbufq_init_def sync_slot_def)
  obtain b' where b': "bus_run plain_tx [EvSync 4 [1, 2, 3], EvSetup 4, EvDone 4] bus_zero = Some b'" "sync_returns_0 b'" "bs_out bus_zero = []"
    by (simp add: bus_zero_def softc_zero_def sync_slot_def bulk_tx_stage_def bus_start_def bus_callback_def rtw88_bulk_tx_cb_def tx_setup_def
        sync_done_def tryE_def seqE_def tx_finish_def tx_zero_def also_frees_def rtw88_bulk_tx_drain_mgmt_def drain_empty mbufq_init_def
        sync_returns_0_def whenE_def)
  from sync_alone_delivers [OF _ _ _ _ _ b'(1)] q b' show ?thesis by auto
qed

text \<open>A small management frame goes to its queue, and out of it as it is.\<close>

definition small_mgmt :: "mbuf \<Rightarrow> bool" where
  "small_mgmt m \<longleftrightarrow> \<not> frame_is_data (m_data m) \<and> 0 < length (m_data m) \<and> length (m_data m) < 39 \<and> \<not> tx_stamps (m_data m)"

definition mgmt_bytes :: "mbuf \<Rightarrow> u8 list" where
  "mgmt_bytes m = txdesc_seal (words_desc (tx_mgmt_words m)) @ m_data m"

lemma length_mgmt_bytes [simp]: "length (mgmt_bytes m) = 48 + length (m_data m)"
  by (simp add: mgmt_bytes_def tx_mgmt_words_def desc_words)

lemma enqueue_small:
  "small_mgmt m \<Longrightarrow> mtx_depth s \<noteq> 0 \<Longrightarrow> rtw88_tx_enqueue_locked N m s = tx_enqueue_on QMgmt m s"
  by (simp add: small_mgmt_def rtw88_tx_enqueue_locked_def RTW88_ASSERT_LOCKED_def seqE_def tryE_def Let_def)

lemma drain_small:
  assumes "small_mgmt m" "mtx_depth s \<noteq> 0" "mq_list (sc_tx_mgmt_q (sc_tx s)) = m # ms"
  shows "rtw88_bulk_tx_drain_mgmt N s = (Inr (Some (mgmt_bytes m), []),
    s\<lparr>sc_tx := (sc_tx s)\<lparr>sc_tx_mgmt_q := (sc_tx_mgmt_q (sc_tx s))\<lparr>mq_list := ms\<rparr>, sc_tx_mgmt_inflight := Some m\<rparr>,
      sc_tx_buf := mgmt_bytes m @ drop (48 + length (m_data m)) (sc_tx_buf s)\<rparr>)"
proof -
  have k: "is_eapol N (m_data m) s' = (Inr False, s')" for s' :: "'a softc"
    using assms(1) by (simp add: is_eapol_def rtw88_eapol_key_info_def small_mgmt_def tryE_def)
  have "\<not> tx_promotes (m_data m)" using assms(1) by (simp add: tx_promotes_def small_mgmt_def)
  then have f: "tx_frame_bytes N t m False = (mgmt_bytes m, t)" for t
    using assms(1) by (simp add: tx_frame_bytes_def small_mgmt_def tx_promote_def mgmt_bytes_def tx_stamp_def Let_def)
  show ?thesis
    using assms unfolding rtw88_bulk_tx_drain_mgmt_def
    by (simp add: rtw88_bulk_tx_drain_q_def RTW88_ASSERT_LOCKED_def mbufq_dequeue_def upd_tx_def small_mgmt_def k f seqE_def tryE_def Let_def)
qed

lemma drain_small_hd:
  assumes "mq_list (sc_tx_mgmt_q (sc_tx s)) \<noteq> []" "small_mgmt (hd (mq_list (sc_tx_mgmt_q (sc_tx s))))" "mtx_depth s \<noteq> 0"
  shows "rtw88_bulk_tx_drain_mgmt N s = (let q = sc_tx_mgmt_q (sc_tx s); m = hd (mq_list q) in (Inr (Some (mgmt_bytes m), []),
    s\<lparr>sc_tx := (sc_tx s)\<lparr>sc_tx_mgmt_q := q\<lparr>mq_list := tl (mq_list q)\<rparr>, sc_tx_mgmt_inflight := Some m\<rparr>,
      sc_tx_buf := mgmt_bytes m @ drop (48 + length (m_data m)) (sc_tx_buf s)\<rparr>))"
  using drain_small [of "hd (mq_list (sc_tx_mgmt_q (sc_tx s)))" s "tl (mq_list (sc_tx_mgmt_q (sc_tx s)))" N] assms by (simp add: Let_def)

lemma small_mgmt_mbuf: "small_mgmt (mgmt_mbuf i)"
proof -
  have "\<not> frame_is_data (0xB0 # replicate 29 1) \<and> \<not> tx_stamps (0xB0 # replicate 29 1)" by code_simp
  then show ?thesis by (simp add: small_mgmt_def mgmt_mbuf_def)
qed

text \<open>Bytes that are a frame of \<open>M\<close> behind its descriptor, whatever the state of the driver they were made in.\<close>

definition frame_cut :: "mbuf \<Rightarrow> mbuf" where
  "frame_cut m = m\<lparr>m_data := take (length (m_data m) mod 65536) (m_data m)\<rparr>"

definition frame_given :: "'z tx_ops_scheme \<Rightarrow> mbuf set \<Rightarrow> u8 list \<Rightarrow> bool" where
  "frame_given N M bytes \<longleftrightarrow> (\<exists>m \<in> M. \<exists>t e. bytes = fst (tx_frame_bytes N t (frame_cut m) e))"

definition mgmt_queue :: "'c bus \<Rightarrow> mbuf list" where
  "mgmt_queue b = mq_list (sc_tx_mgmt_q (sc_tx (bs_sc b)))"

definition mgmt_inflight :: "'c bus \<Rightarrow> mbuf option" where
  "mgmt_inflight b = sc_tx_mgmt_inflight (sc_tx (bs_sc b))"

lemma frame_givenI: "m \<in> M \<Longrightarrow> frame_given N M (fst (tx_frame_bytes N t (frame_cut m) e))"
  by (auto simp: frame_given_def)

lemma drain_mgmt_frames:
  assumes "mtx_depth s \<noteq> 0" "rtw88_bulk_tx_drain_mgmt N s = (Inr (given, fs), s')"
  shows "mtx_depth s' = mtx_depth s \<and> sc_tx_pending s' = sc_tx_pending s \<and> sc_tx_done s' = sc_tx_done s \<and> sc_tx_err s' = sc_tx_err s \<and>
    set (mq_list (sc_tx_mgmt_q (sc_tx s'))) \<subseteq> set (mq_list (sc_tx_mgmt_q (sc_tx s))) \<and>
    (case given of None \<Rightarrow> True | Some bytes \<Rightarrow> frame_given N (set (mq_list (sc_tx_mgmt_q (sc_tx s)))) bytes)"
proof (cases "mq_list (sc_tx_mgmt_q (sc_tx s))")
  case Nil
  with assms show ?thesis by (simp add: rtw88_bulk_tx_drain_mgmt_def drain_empty)
next
  case (Cons m ms)
  have q: "sc_tx_mgmt_q (snd (tx_frame_bytes N t m' e)) = sc_tx_mgmt_q t" for t m' e
    by (simp add: tx_frame_bytes_def Let_def split_def)
  let ?s1 = "s\<lparr>sc_tx := (sc_tx s)\<lparr>sc_tx_mgmt_q := (sc_tx_mgmt_q (sc_tx s))\<lparr>mq_list := ms\<rparr>\<rparr>\<rparr>"
  obtain r t where e: "is_eapol N (m_data m) ?s1 = (r, t)" by fastforce
  then have "t = ?s1" by (auto simp: is_eapol_def tryE_def dest!: key_info_run split: prod.splits sum.splits)
  with e assms Cons show ?thesis
    by (cases r)
      (auto simp: rtw88_bulk_tx_drain_mgmt_def rtw88_bulk_tx_drain_q_def RTW88_ASSERT_LOCKED_def mbufq_dequeue_def upd_tx_def seqE_def
        tryE_def Let_def split_def q frame_givenI simp flip: frame_cut_def split: if_splits)
qed

lemma enqueue_mgmt:
  assumes "mtx_depth s \<noteq> 0" "\<not> frame_is_data (m_data m)" "rtw88_tx_enqueue_locked N m s = (r, s')"
  shows "mtx_depth s' = mtx_depth s \<and> sc_tx_pending s' = sc_tx_pending s \<and> sc_tx_mgmt_inflight (sc_tx s') = sc_tx_mgmt_inflight (sc_tx s) \<and>
    set (mq_list (sc_tx_mgmt_q (sc_tx s'))) \<subseteq> insert m (set (mq_list (sc_tx_mgmt_q (sc_tx s))))"
  using assms
  by (auto simp: rtw88_tx_enqueue_locked_def RTW88_ASSERT_LOCKED_def tx_enqueue_on_def mbufq_enqueue_def tx_drop_def upd_tx_def
      usbd_transfer_start_def seqE_def tryE_def Let_def split: if_splits)

lemma finish_mgmt:
  "\<exists>u. tx_finish QMgmt sent s = (Inr (case sc_tx_mgmt_inflight (sc_tx s) of None \<Rightarrow> [] | Some x \<Rightarrow> [x]), u) \<and>
     mtx_depth u = mtx_depth s \<and> sc_tx_pending u = sc_tx_pending s \<and> sc_tx_done u = sc_tx_done s \<and> sc_tx_err u = sc_tx_err s \<and>
     sc_tx_mgmt_q (sc_tx u) = sc_tx_mgmt_q (sc_tx s) \<and> sc_tx_mgmt_inflight (sc_tx u) = None"
  by (cases "sc_tx_mgmt_inflight (sc_tx s)") (simp_all add: tx_finish_def tryE_def seqE_def upd_tx_def)

lemma bus_start_simps [simp]:
  "bs_sc (bus_start i b) = bs_sc b" "bs_out (bus_start i b) = bs_out b" "bs_freed (bus_start i b) = bs_freed b"
  "bs_xfer b j \<noteq> XIdle \<Longrightarrow> bs_xfer (bus_start i b) j = bs_xfer b j"
  by (auto simp: bus_start_def)

text \<open>No synchronous transfer is staged, and what the device has been given since \<open>out\<close> are frames of \<open>M\<close>.\<close>

definition only_frames :: "'z tx_ops_scheme \<Rightarrow> mbuf set \<Rightarrow> (nat \<times> u8 list) list \<Rightarrow> 'c bus \<Rightarrow> bool" where
  "only_frames N M out b \<longleftrightarrow> mtx_depth (bs_sc b) \<noteq> 0 \<and> \<not> sc_tx_pending (bs_sc b) \<and> set (mgmt_queue b) \<subseteq> M \<and>
     (\<exists>outs. bs_out b = out @ outs \<and> (\<forall>p \<in> set outs. frame_given N M (snd p)))"

lemma frame_given_mono: "frame_given N M bytes \<Longrightarrow> M \<subseteq> M' \<Longrightarrow> frame_given N M' bytes"
  by (auto simp: frame_given_def)

lemma only_frames_mono: "only_frames N M out b \<Longrightarrow> M \<subseteq> M' \<Longrightarrow> only_frames N M' out b"
  unfolding only_frames_def by (blast intro: frame_given_mono subset_trans)

text \<open>What a callback of the shared pipe is, once no synchronous transfer is staged: the end of the frame in flight, and a drain.\<close>

lemma callback_frames:
  assumes "only_frames N M out b" "bus_callback N slot st b = Some b'"
  shows "only_frames N M out b'"
proof -
  obtain given fs s' where cb: "rtw88_bulk_tx_cb N st (bs_sc b) = (Inr (given, fs), s')"
    and b': "b' = b\<lparr>bs_sc := s', bs_xfer := (bs_xfer b)(slot := (if given = None then XIdle else XBusy)),
       bs_out := bs_out b @ (case given of None \<Rightarrow> [] | Some x \<Rightarrow> [(slot, x)]), bs_freed := bs_freed b @ fs\<rparr>"
    using assms(2) by (auto simp: bus_callback_def split: prod.splits sum.splits)
  let ?q = "set (mq_list (sc_tx_mgmt_q (sc_tx (bs_sc b))))"
  have on: "mtx_depth (bs_sc b) \<noteq> 0" "\<not> sc_tx_pending (bs_sc b)" "?q \<subseteq> M"
    using assms(1) by (simp_all add: only_frames_def mgmt_queue_def)
  have "mtx_depth s' \<noteq> 0 \<and> \<not> sc_tx_pending s' \<and> set (mq_list (sc_tx_mgmt_q (sc_tx s'))) \<subseteq> ?q \<and>
      (case given of None \<Rightarrow> True | Some bytes \<Rightarrow> frame_given N ?q bytes)"
  proof (cases st)
    case TX_SETUP
    with cb on have "rtw88_bulk_tx_drain_mgmt N (bs_sc b) = (Inr (given, fs), s')" by (simp add: rtw88_bulk_tx_cb_def tx_setup_def)
    from drain_mgmt_frames [OF on(1) this] on show ?thesis by auto
  next
    case TX_TRANSFERRED
    obtain u gs where fin: "tx_finish QMgmt True (bs_sc b) = (Inr gs, u)" "mtx_depth u = mtx_depth (bs_sc b)"
      "\<not> sc_tx_pending u" "sc_tx_mgmt_q (sc_tx u) = sc_tx_mgmt_q (sc_tx (bs_sc b))"
      using finish_mgmt [of True "bs_sc b"] on(2) by auto
    with TX_TRANSFERRED cb on obtain hs where "rtw88_bulk_tx_drain_mgmt N u = (Inr (given, hs), s')"
      by (auto simp: rtw88_bulk_tx_cb_def tx_setup_def also_frees_def whenE_def elim!: tryE_Inr_elim seqE_Inr_elim split: if_splits)
    from drain_mgmt_frames [OF _ this] fin on show ?thesis by (auto split: option.splits)
  next
    case (TX_ERROR e)
    with cb on show ?thesis
      by (auto simp: rtw88_bulk_tx_cb_def tx_count_error_def tx_finish_def upd_tx_def whenE_def seqE_def tryE_def
          split: if_splits option.splits)
  qed
  with assms(1) on show ?thesis unfolding b'
    by (auto simp: only_frames_def mgmt_queue_def frame_given_mono split: option.splits)
qed

lemma only_frames_step:
  assumes "only_frames N M out b" "bus_do N ev b = Some b'" "\<And>slot data. ev \<noteq> EvSync slot data" "\<And>m. ev = EvMgmt m \<Longrightarrow> m \<in> M"
  shows "only_frames N M out b'"
proof (cases ev)
  case (EvMgmt m)
  obtain r s' where r: "rtw88_tx_enqueue_locked N m (bs_sc b) = (r, s')" by fastforce
  have d: "\<not> frame_is_data (m_data m)" using assms(2) EvMgmt by (auto split: if_splits)
  have "mtx_depth (bs_sc b) \<noteq> 0" using assms(1) by (simp add: only_frames_def)
  from enqueue_mgmt [OF this d r] assms r EvMgmt d show ?thesis
    by (cases r) (auto simp: only_frames_def mgmt_queue_def)
qed (use assms callback_frames [OF assms(1)] in \<open>auto split: if_splits\<close>)

lemma only_frames_run:
  assumes "only_frames N M out b" "bus_run N evs b = Some b'" "\<forall>slot data. EvSync slot data \<notin> set evs" "{m. EvMgmt m \<in> set evs} \<subseteq> M"
  shows "only_frames N M out b'"
  using assms
proof (induction evs arbitrary: b)
  case (Cons ev evs)
  then obtain b1 where b1: "bus_do N ev b = Some b1" "bus_run N evs b1 = Some b'" by (auto simp: bind_eq_Some_conv)
  have "only_frames N M out b1" by (rule only_frames_step [OF Cons.prems(1) b1(1)]) (use Cons.prems(3,4) in auto)
  from Cons.IH [OF this b1(2)] Cons.prems(3,4) show ?case by auto
qed simp

lemma bus_run_append: "bus_run N (evs @ es) b = Option.bind (bus_run N evs b) (bus_run N es)"
proof (induction evs arbitrary: b)
  case (Cons ev evs)
  then show ?case by (cases "bus_do N ev b") (simp_all del: bus_do.simps)
qed simp

text \<open>Frames offered while one is in flight on the management pipe only change the queue.\<close>

lemma mgmt_events:
  assumes "bus_run N (map EvMgmt ms) b = Some b'" "mtx_depth (bs_sc b) \<noteq> 0" "bs_xfer b RTW88_BULK_TX_HI = XBusy"
  shows "mtx_depth (bs_sc b') = mtx_depth (bs_sc b) \<and> sc_tx_pending (bs_sc b') = sc_tx_pending (bs_sc b) \<and>
    mgmt_inflight b' = mgmt_inflight b \<and> bs_xfer b' = bs_xfer b \<and> bs_out b' = bs_out b \<and>
    set (mgmt_queue b') \<subseteq> set (mgmt_queue b) \<union> set ms \<and> (\<exists>fs. bs_freed b' = bs_freed b @ fs)"
  using assms
proof (induction ms arbitrary: b)
  case (Cons m ms)
  then obtain b1 where b1: "bus_do N (EvMgmt m) b = Some b1" "bus_run N (map EvMgmt ms) b1 = Some b'"
    by (auto simp: bind_eq_Some_conv simp del: bus_do.simps)
  obtain r s' where r: "rtw88_tx_enqueue_locked N m (bs_sc b) = (r, s')" by fastforce
  have d: "\<not> frame_is_data (m_data m)" using b1(1) by (auto split: if_splits)
  note e = enqueue_mgmt [OF Cons.prems(2) d r]
  have 1: "bs_sc b1 = s'" "bs_xfer b1 = bs_xfer b" "bs_out b1 = bs_out b" "\<exists>fs. bs_freed b1 = bs_freed b @ fs"
    using b1(1) r d Cons.prems(3) by (cases r; auto simp: bus_start_def)+
  from Cons.IH [OF b1(2)] e Cons.prems(2,3) 1 show ?case by (auto simp: mgmt_inflight_def mgmt_queue_def)
qed simp

lemma done_takes_command:
  assumes "mtx_depth (bs_sc b) \<noteq> 0" "sc_tx_pending (bs_sc b)" "mgmt_inflight b = Some x" "bus_do N (EvDone slot) b = Some b1"
  shows "sync_returns_0 b1 \<and> only_frames N (set (mgmt_queue b)) (bs_out b) b1 \<and> x \<in> set (bs_freed b1) \<and>
    (\<forall>i. i \<noteq> slot \<longrightarrow> bs_xfer b1 i = bs_xfer b i)"
proof -
  let ?s = "(bs_sc b)\<lparr>sc_tx_err := USB_ERR_NORMAL_COMPLETION, sc_tx_pending := False, sc_tx_done := True\<rparr>"
  obtain u where fin: "tx_finish QMgmt True ?s = (Inr [x], u)" "mtx_depth u = mtx_depth (bs_sc b)" "\<not> sc_tx_pending u" "sc_tx_done u"
      "sc_tx_err u = USB_ERR_NORMAL_COMPLETION" "sc_tx_mgmt_q (sc_tx u) = sc_tx_mgmt_q (sc_tx (bs_sc b))"
    using finish_mgmt [of True ?s] assms(3) by (auto simp: mgmt_inflight_def)
  have cb: "bus_callback N slot TX_TRANSFERRED b = Some b1" using assms(4) by (auto split: if_splits)
  have run: "rtw88_bulk_tx_cb N TX_TRANSFERRED (bs_sc b) = tryE (rtw88_bulk_tx_drain_mgmt N) (\<lambda>d. ret (also_frees [x] d)) u"
    using assms(2) fin(1,3) by (simp add: rtw88_bulk_tx_cb_def whenE_def sync_done_def tx_setup_def seqE_def tryE_def)
  obtain rr s' where dr: "rtw88_bulk_tx_drain_mgmt N u = (rr, s')" by fastforce
  with cb run obtain given fs where rr: "rr = Inr (given, fs)" and b1: "b1 = b\<lparr>bs_sc := s',
      bs_xfer := (bs_xfer b)(slot := (if given = None then XIdle else XBusy)),
      bs_out := bs_out b @ (case given of None \<Rightarrow> [] | Some x \<Rightarrow> [(slot, x)]), bs_freed := bs_freed b @ x # fs\<rparr>"
    by (cases rr) (auto simp: bus_callback_def also_frees_def split: prod.splits)
  from drain_mgmt_frames [OF _ dr [unfolded rr]] fin assms(1)
  show ?thesis unfolding b1 by (auto simp: sync_returns_0_def only_frames_def mgmt_queue_def split: option.splits)
qed

text \<open>A frame a drain takes, whatever its bytes.\<close>

definition sendable :: "mbuf \<Rightarrow> bool" where
  "sendable m \<longleftrightarrow> \<not> frame_is_data (m_data m) \<and>
     (let n = length (m_data m) mod 65536 in 0 < n \<and> n + RTW88_TX_PKT_DESC_SZ \<le> RTW88_TX_BUFSZ)"

lemma setup_overwrites:
  assumes "mtx_depth (bs_sc b) \<noteq> 0" "\<not> sc_tx_pending (bs_sc b)" "bs_xfer b slot = XStarted" "mgmt_queue b = m # rest" "sendable m"
  shows "\<exists>b'. bus_do N (EvSetup slot) b = Some b' \<and> mgmt_inflight b' = Some m \<and> mgmt_queue b' = rest \<and> bs_freed b' = bs_freed b"
proof -
  have e: "is_eapol N (m_data m) s = (Inr False, s)" for s :: "'a softc"
    using assms(5) by (auto simp: is_eapol_def rtw88_eapol_key_info_def m_copydata_def tryE_def sendable_def frame_is_data_def at_def Let_def)
  have q: "sc_tx_mgmt_q (snd (tx_frame_bytes N t m' e)) = sc_tx_mgmt_q t" for t m' e
    by (simp add: tx_frame_bytes_def Let_def split_def)
  have f: "\<not> (length (m_data m) mod 65536 = 0 \<or> 16384 < length (m_data m) mod 65536 + 48)"
    using assms(5) by (auto simp: sendable_def Let_def)
  show ?thesis
    using assms(1-4) f
    by (simp add: bus_callback_def rtw88_bulk_tx_cb_def tx_setup_def rtw88_bulk_tx_drain_mgmt_def rtw88_bulk_tx_drain_q_def
        RTW88_ASSERT_LOCKED_def mbufq_dequeue_def upd_tx_def seqE_def tryE_def Let_def split_def e q mgmt_queue_def mgmt_inflight_def)
qed

text \<open>C20. Together with management traffic the flag and the buffer are confused. On any bus with a management frame in flight, let a thread
  stage a firmware command on either slot, let any management frames be offered meanwhile, and let the transfer of the frame complete before the
  set-up callback of the command's slot has run. Then the completion of the frame is taken for that of the command: the caller comes back with 0, and
  whatever happens afterwards (set-up callbacks of either slot, completions, errors, more frames), until a next command is staged,
  the device is given nothing but management frames: the command is never given to it. If the command was staged on an idle command slot, the set-up callback of
  that slot, when it comes, sends the next frame of the queue there and overwrites the reference to the frame in flight
  on the management pipe, which is then neither queued nor in flight nor freed.\<close>
theorem command_lost_behind_frame:
  assumes "mtx_depth (bs_sc b) \<noteq> 0" "mgmt_inflight b = Some x" "bs_xfer b RTW88_BULK_TX_HI = XBusy"
    and "bus_run N (EvSync slot data # map EvMgmt ms @ [EvDone RTW88_BULK_TX_HI]) b = Some b1"
    and "bus_run N evs b1 = Some b2" "\<forall>i bytes. EvSync i bytes \<notin> set evs"
  shows "sync_returns_0 b1 \<and> x \<in> set (bs_freed b1) \<and>
    (\<exists>outs. bs_out b2 = bs_out b @ outs \<and>
       (\<forall>p \<in> set outs. frame_given N (set (mgmt_queue b) \<union> set ms \<union> {m. EvMgmt m \<in> set evs}) (snd p))) \<and>
    (\<forall>y m rest. slot = RTW88_BULK_TX_H2C \<and> bs_xfer b slot = XIdle \<and> mgmt_inflight b1 = Some y \<and> mgmt_queue b1 = m # rest \<and> sendable m \<longrightarrow>
       (\<exists>b3. bus_do N (EvSetup slot) b1 = Some b3 \<and> mgmt_inflight b3 = Some m \<and> mgmt_queue b3 = rest \<and> bs_freed b3 = bs_freed b1))"
proof -
  let ?b0 = "bus_start slot (b\<lparr>bs_sc := bulk_tx_stage data (bs_sc b)\<rparr>)"
  let ?M = "set (mgmt_queue b) \<union> set ms \<union> {m. EvMgmt m \<in> set evs}"
  have 0: "mtx_depth (bs_sc ?b0) \<noteq> 0" "sc_tx_pending (bs_sc ?b0)" "mgmt_inflight ?b0 = Some x" "mgmt_queue ?b0 = mgmt_queue b"
    "bs_xfer ?b0 RTW88_BULK_TX_HI = XBusy" "bs_out ?b0 = bs_out b"
    "slot = RTW88_BULK_TX_H2C \<and> bs_xfer b slot = XIdle \<longrightarrow> bs_xfer ?b0 RTW88_BULK_TX_H2C = XStarted"
    using assms(1-3) by (auto simp: bulk_tx_stage_def mgmt_inflight_def mgmt_queue_def bus_start_def)
  from assms(4) obtain c where run: "bus_run N (map EvMgmt ms) ?b0 = Some c" and fin: "bus_do N (EvDone RTW88_BULK_TX_HI) c = Some b1"
    by (auto simp: bus_run_append bind_eq_Some_conv simp del: bus_do.simps(1,3-5) split: if_splits)
  note c = mgmt_events [OF run 0(1,5)]
  have "mtx_depth (bs_sc c) \<noteq> 0" "sc_tx_pending (bs_sc c)" "mgmt_inflight c = Some x" using c 0 by auto
  note d = done_takes_command [OF this fin]
  have of1: "only_frames N ?M (bs_out b) b1"
  proof -
    have "set (mgmt_queue c) \<subseteq> ?M" "bs_out c = bs_out b" using c 0(4,6) by auto
    with only_frames_mono [of N "set (mgmt_queue c)"] d show ?thesis by auto
  qed
  from only_frames_run [OF of1 assms(5,6)] have of2: "only_frames N ?M (bs_out b) b2" by auto
  have over: "\<exists>b3. bus_do N (EvSetup slot) b1 = Some b3 \<and> mgmt_inflight b3 = Some m \<and> mgmt_queue b3 = rest \<and> bs_freed b3 = bs_freed b1"
    if "slot = RTW88_BULK_TX_H2C \<and> bs_xfer b slot = XIdle" "mgmt_queue b1 = m # rest" "sendable m" for m rest
  proof (rule setup_overwrites [OF _ _ _ that(2,3)])
    show "mtx_depth (bs_sc b1) \<noteq> 0" "\<not> sc_tx_pending (bs_sc b1)" using of1 by (auto simp: only_frames_def)
    show "bs_xfer b1 slot = XStarted" using that(1) 0(7) c d by auto
  qed
  from of2 d over show ?thesis by (auto simp: only_frames_def)
qed

theorem command_lost_behind_frame_witness:
  "\<exists>b b1 b3. bus_run plain_tx [EvMgmt (mgmt_mbuf 1), EvSetup 1] bus_zero = Some b \<and>
     bus_run plain_tx [EvSync 4 [1, 2, 3], EvMgmt (mgmt_mbuf 2), EvMgmt (mgmt_mbuf 3), EvDone 1] b = Some b1 \<and>
     bus_do plain_tx (EvSetup 4) b1 = Some b3 \<and> sync_returns_0 b1 \<and> mgmt_inflight b1 = Some (mgmt_mbuf 2) \<and>
     mgmt_inflight b3 = Some (mgmt_mbuf 3) \<and> mgmt_queue b3 = [] \<and> bs_freed b3 = [mgmt_mbuf 1]"
proof -
  have nd: "\<not> frame_is_data (0xB0 # replicate 29 1)" by code_simp
  then have sd: "\<not> frame_is_data (m_data (mgmt_mbuf i))" "sendable (mgmt_mbuf i)" for i
    by (simp_all add: mgmt_mbuf_def sendable_def)
  note defs = bus_zero_def softc_zero_def tx_zero_def mbufq_init_def bus_start_def bus_callback_def sync_slot_def bulk_tx_stage_def
      enqueue_small drain_small_hd small_mgmt_mbuf Let_def tx_enqueue_on_def mbufq_enqueue_def usbd_transfer_start_def upd_tx_def
      rtw88_bulk_tx_cb_def tx_setup_def tx_finish_def sync_done_def also_frees_def whenE_def seqE_def tryE_def tx_pipe_def sd
  obtain b where b: "bus_run plain_tx [EvMgmt (mgmt_mbuf 1), EvSetup 1] bus_zero = Some b" "mtx_depth (bs_sc b) \<noteq> 0"
      "mgmt_inflight b = Some (mgmt_mbuf 1)" "bs_xfer b 1 = XBusy" "bs_xfer b 4 = XIdle" "bs_freed b = []"
      "mgmt_queue b = []" "mq_maxlen (sc_tx_mgmt_q (sc_tx (bs_sc b))) = mq_maxlen (sc_tx_mgmt_q tx_zero)"
    by (simp add: defs mgmt_inflight_def mgmt_queue_def)
  then obtain b1 where b1: "bus_run plain_tx (EvSync 4 [1, 2, 3] # map EvMgmt [mgmt_mbuf 2, mgmt_mbuf 3] @ [EvDone 1]) b = Some b1"
      "mgmt_inflight b1 = Some (mgmt_mbuf 2)" "mgmt_queue b1 = [mgmt_mbuf 3]" "bs_freed b1 = [mgmt_mbuf 1]"
    by (simp add: defs mgmt_inflight_def mgmt_queue_def)
  note lost = command_lost_behind_frame [OF b(2,3,4) b1(1), of "[]" b1]
  from lost obtain b3 where "bus_do plain_tx (EvSetup 4) b1 = Some b3 \<and> mgmt_inflight b3 = Some (mgmt_mbuf 3) \<and> mgmt_queue b3 = [] \<and> bs_freed b3 = bs_freed b1"
    using b(5) b1(2,3) sd(2) [of 3] by auto
  with lost b(1) b1 show ?thesis by auto
qed

text \<open>The two theorems on descriptors applied to a protected plain data frame.\<close>

definition data_mbuf :: mbuf where
  "data_mbuf = \<lparr>m_id = 7, m_data = 0x08 # 0x41 # replicate 28 0, m_node = None\<rparr>"

theorem tx_descriptor_sound_witness:
  "let b = fst (tx_frame_bytes plain_tx tx_zero data_mbuf False); w0 = le32dec b 0; n = length b - 48
    in txdesc_xor b = 0 \<and> drop_bit 16 w0 AND 0xFF = 48 \<and> w0 AND 0xFFFF = of_nat n \<and> 48 + n \<le> RTW88_TX_BUFSZ \<and>
       drop 48 b = wire_frame False (sc_tx_seq tx_zero) (m_data data_mbuf)"
  by (rule tx_descriptor_sound) (simp add: data_mbuf_def)

lemma data_mbuf_ok: "tx_promotes (m_data data_mbuf) \<and> tx_stamps (m_data data_mbuf)"
proof -
  have "frame_is_data (m_data data_mbuf) \<and> at (m_data data_mbuf) 0 AND 0xF0 = 0 \<and> tx_stamps (m_data data_mbuf)" by code_simp
  then show ?thesis by (simp add: tx_promotes_def) (simp add: data_mbuf_def)
qed

theorem promotion_after_encryption_witness:
  "let b = fst (tx_frame_bytes plain_tx tx_zero data_mbuf False); f = drop 48 b
    in drop_bit 8 (le32dec b 4) AND 0x1F = 2 \<and> at f 24 AND 0x0F = 0 \<and> at f 0 = 0x88 \<and> at f 1 = 0x41 \<and>
       drop_bit 12 (le32dec b 36) = 0 \<and> le16dec f 22 = 16"
proof -
  have "at (m_data data_mbuf) 0 OR 0x80 = 0x88 \<and> at (m_data data_mbuf) 1 = 0x41 \<and> push_bit 4 (next_seq (sc_tx_seq tx_zero)) = 16"
    by code_simp
  with promotion_after_encryption [of data_mbuf plain_tx tx_zero] data_mbuf_ok show ?thesis by (simp add: Let_def)
qed

end
