(* ===== verification/Rtw_Dig.thy ===== *)
theory Rtw_Dig
  imports Rtw_Mac
begin

section \<open>Receiver gain and the keep-alive task\<close>

text \<open>
  The periodic tasks of \<^verbatim>\<open>if_rtw88_usb.c\<close>: the gain loop (sample the false alarms, step the initial gain index, record it), the hooks that
  save and restore the gain around a scan, and the one-second task that keeps the firmware awake, tightens the rate
  set once and watches the receiver. A task returns whether it has armed its callout again; \<open>now\<close> and \<open>hz\<close> are the kernel's
  \<^verbatim>\<open>ticks\<close> and \<^verbatim>\<open>hz\<close>.
\<close>

subsection \<open>The gain register and the false alarms\<close>

definition upd_dig :: "(dig_softc \<Rightarrow> dig_softc) \<Rightarrow> ('c softc, unit) cm" where
  "upd_dig f = updS (\<lambda>s. s\<lparr>sc_dig := f (sc_dig s)\<rparr>)"

definition dig_field :: "u8 \<Rightarrow> u32 \<Rightarrow> u32" where
  "dig_field igi v = (v AND NOT DIG_PATH_A_MASK) OR (ucast igi AND DIG_PATH_A_MASK)"

definition rtw88_dig_write :: "'c chip_ops \<Rightarrow> u8 \<Rightarrow> (('c, 'z) hw_scheme, unit) cm" where
  "rtw88_dig_write C igi = seqE RTW88_ASSERT_LOCKED (modify4 C REG_DIG_PATH_A (dig_field igi))"

definition fa_total :: "u32 \<Rightarrow> u32 option \<Rightarrow> u16" where
  "fa_total ofdm cck =
     (let total = (ofdm AND 0xFFFF) + (case cck of None \<Rightarrow> 0 | Some v \<Rightarrow> v AND 0xFFFF)
      in if total > 0xFFFF then 0xFFFF else ucast total)"

definition fa_reset :: "'c chip_ops \<Rightarrow> (('c, 'z) hw_scheme, unit) cm" where
  "fa_reset C =
     tryE (rtw88_usb_read4 C REG_FAS) (\<lambda>v. steps [
       discard (rtw88_usb_write4 C REG_FAS (v OR push_bit 17 1)),
       discard (rtw88_usb_write4 C REG_FAS (v AND NOT (push_bit 17 1))),
       discard (tryE (rtw88_usb_read4 C REG_RXDESC) (\<lambda>w. steps [
         discard (rtw88_usb_write4 C REG_RXDESC (w AND NOT (push_bit 15 1))),
         discard (rtw88_usb_write4 C REG_RXDESC (w OR push_bit 15 1))])),
       discard (tryE (rtw88_usb_read4 C REG_CNTRST) (\<lambda>w. steps [
         discard (rtw88_usb_write4 C REG_CNTRST (w OR 1)),
         discard (rtw88_usb_write4 C REG_CNTRST (w AND NOT 1))]))])"

definition rtw88_dig_sample_fa :: "'c chip_ops \<Rightarrow> (('c, 'z) hw_scheme, u16) cm" where
  "rtw88_dig_sample_fa C =
     seqE RTW88_ASSERT_LOCKED
     (tryE (rtw88_usb_read4 C REG_RXPSEL) (\<lambda>rxpsel.
      tryE (rtw88_usb_read4 C REG_FA_OFDM) (\<lambda>ofdm.
      tryE (if rxpsel AND push_bit 28 1 \<noteq> 0 then tryE (rtw88_usb_read4 C REG_FA_CCK) (\<lambda>v. ret (Some v)) else ret None) (\<lambda>cck.
      seqE (fa_reset C) (ret (fa_total ofdm cck))))))"

subsection \<open>The gain loop\<close>

definition dig_trend :: "u8 \<Rightarrow> bool \<Rightarrow> u8" where
  "dig_trend bits up = (push_bit 1 bits AND 0xFE) OR (if up then 1 else 0)"

definition rtw88_dig_record :: "u8 \<Rightarrow> u16 \<Rightarrow> dig_softc \<Rightarrow> dig_softc" where
  "rtw88_dig_record igi fa d =
     (let up = igi > sc_igi_log d ! 0
      in d\<lparr>sc_igi_log := [igi, sc_igi_log d ! 0, sc_igi_log d ! 1, sc_igi_log d ! 2],
           sc_fa_log := [fa, sc_fa_log d ! 0, sc_fa_log d ! 1, sc_fa_log d ! 2],
           sc_igi_trend_bits := dig_trend (sc_igi_trend_bits d) up\<rparr>)"

definition dig_delta :: "u16 \<Rightarrow> int" where
  "dig_delta fa = (if fa > DIG_CVRG_FA_TH_EXTRA_HIGH then 4 else if fa > DIG_CVRG_FA_TH_HIGH then 3
     else if fa > DIG_CVRG_FA_TH_LOW then 2 else 0) - 2"

definition dig_next :: "u8 \<Rightarrow> u16 \<Rightarrow> u8" where
  "dig_next pre fa =
     (let delta = dig_delta fa;
          cur = (if delta > 0 then min (uint pre + delta) 0xFF else if - delta > uint pre then 0 else uint pre + delta)
      in if cur < DIG_CVRG_MIN then DIG_CVRG_MIN else if cur > DIG_CVRG_MAX then DIG_CVRG_MAX else of_int cur)"

definition rtw88_dig_tick :: "'c chip_ops \<Rightarrow> ('c softc, unit) cm" where
  "rtw88_dig_tick C =
     seqE RTW88_ASSERT_LOCKED
     (tryE (attempt (rtw88_dig_sample_fa C)) (\<lambda>r. case r of
        Inl _ \<Rightarrow> ret ()
      | Inr fa \<Rightarrow>
          tryE (getS (\<lambda>s. sc_igi_log (sc_dig s) ! 0)) (\<lambda>pre.
          let cur = dig_next pre fa in
          seqE (upd_dig (rtw88_dig_record cur fa))
               (whenE (cur \<noteq> pre) (discard (rtw88_dig_write C cur))))))"

definition rtw88_dig_task :: "'c chip_ops \<Rightarrow> ('c softc, bool) cm" where
  "rtw88_dig_task C = locked
     (tryE (getS (sc_dig_active \<circ> sc_dig)) (\<lambda>active.
        if \<not> active then ret False
        else seqE (rtw88_dig_tick C) (getS (sc_dig_active \<circ> sc_dig))))"

definition rtw88_dig_start :: "'c chip_ops \<Rightarrow> ('c softc, bool) cm" where
  "rtw88_dig_start C =
     seqE RTW88_ASSERT_LOCKED
     (tryE (getS (sc_dig_active \<circ> sc_dig)) (\<lambda>active.
        if active then ret False
        else tryE (attempt (rtw88_usb_read4 C REG_DIG_PATH_A)) (\<lambda>r. case r of
          Inl _ \<Rightarrow> ret False
        | Inr v \<Rightarrow>
            let g = ucast (v AND DIG_PATH_A_MASK) in
            seqE (upd_dig (\<lambda>d. d\<lparr>sc_igi_log := [g, g, g, g],
              sc_fa_log := [0, 0, 0, 0], sc_igi_trend_bits := 0, sc_dig_active := True\<rparr>)) (ret True))))"

definition rtw88_scan_start :: "'c chip_ops \<Rightarrow> ('c softc, unit) cm" where
  "rtw88_scan_start C = locked
     (tryE (attempt (rtw88_usb_read4 C REG_DIG_PATH_A)) (\<lambda>r. case r of
        Inl _ \<Rightarrow> ret ()
      | Inr v \<Rightarrow>
          seqE (upd_dig (\<lambda>d. d\<lparr>sc_dig_scan_save := ucast (v AND DIG_PATH_A_MASK)\<rparr>))
               (discard (rtw88_dig_write C DIG_CVRG_MIN))))"

definition rtw88_scan_end :: "'c chip_ops \<Rightarrow> ('c softc, unit) cm" where
  "rtw88_scan_end C = locked
     (tryE (getS (sc_dig_scan_save \<circ> sc_dig)) (\<lambda>save.
        whenE (save \<noteq> 0) (discard (rtw88_dig_write C save))))"

subsection \<open>The keep-alive task\<close>

abbreviation (input) RTW88_RA_TIGHTEN_MS :: int where "RTW88_RA_TIGHTEN_MS \<equiv> 2000"

definition upd_link :: "(link_softc \<Rightarrow> link_softc) \<Rightarrow> ('c softc, unit) cm" where
  "upd_link f = updS (\<lambda>s. s\<lparr>sc_link := f (sc_link s)\<rparr>)"

definition rtw88_assoc_ms :: "u32 \<Rightarrow> int \<Rightarrow> link_softc \<Rightarrow> int" where
  "rtw88_assoc_ms now hz l =
     (let delta = sint (now - sc_assoc_ticks l) * 1000
      in signed_take_bit 31 (if delta < 0 then - (- delta div hz) else delta div hz))"

definition fwka_tighten :: "u8 \<Rightarrow> u32 \<Rightarrow> ra_params" where
  "fwka_tighten rate_id msk = \<lparr>ra_mac_id = 0, ra_rate_id = rate_id, ra_bw_mode = 0, ra_init_lvl = 0, ra_sgi = False,
     ra_ldpc = False, ra_vht = 0, ra_no_update = True, ra_rate_mask = msk\<rparr>"

definition fwka_watch :: "u64 \<Rightarrow> link_softc \<Rightarrow> link_softc" where
  "fwka_watch rxn l =
     (if rxn = sc_last_rx_packets l then
        let n = (if sc_fw_stall_ticks l < 255 then sc_fw_stall_ticks l + 1 else sc_fw_stall_ticks l);
            l' = l\<lparr>sc_fw_stall_ticks := n\<rparr>
        in if n \<ge> 3 \<and> \<not> sc_fw_stall_logged l'
           then l'\<lparr>sc_stat_fw_stalls := sc_stat_fw_stalls l' + 1, sc_fw_stall_logged := True\<rparr> else l'
      else l\<lparr>sc_fw_stall_ticks := 0, sc_fw_stall_logged := False, sc_last_rx_packets := rxn\<rparr>)"

definition rtw88_fwka_task :: "'c chip_ops \<Rightarrow> u32 \<Rightarrow> int \<Rightarrow> ('c softc, bool) cm" where
  "rtw88_fwka_task C now hz = locked
     (tryE (getS (sc_fwka_active \<circ> sc_link)) (\<lambda>active.
        if \<not> active then ret False
        else
          seqE (discard (rtw88_h2c_pwr_mode_active_usb C))
          (tryE (getS sc_link) (\<lambda>l.
           seqE (whenE (\<not> sc_ra_tighten_fired l \<and> sc_ra_tighten_mask l \<noteq> 0 \<and> rtw88_assoc_ms now hz l \<ge> RTW88_RA_TIGHTEN_MS)
             (tryE (getS (sc_rate_id \<circ> sc_tx)) (\<lambda>rate_id.
              seqE (discard (rtw88_h2c_ra_info C (fwka_tighten rate_id (sc_ra_tighten_mask l))))
                   (upd_link (\<lambda>l. l\<lparr>sc_ra_tighten_fired := True\<rparr>)))))
          (tryE (getS (sc_rx_packets \<circ> sc_rx)) (\<lambda>rxn.
           seqE (upd_link (fwka_watch rxn)) (getS (sc_fwka_active \<circ> sc_link))))))))"

definition rtw88_fwka_start :: "('c softc, bool) cm" where
  "rtw88_fwka_start =
     seqE RTW88_ASSERT_LOCKED
     (tryE (getS (sc_fwka_active \<circ> sc_link)) (\<lambda>active.
        if active then ret False
        else tryE (getS (sc_rx_packets \<circ> sc_rx)) (\<lambda>rxn.
          seqE (upd_link (\<lambda>l. l\<lparr>sc_fwka_active := True, sc_last_rx_packets := rxn, sc_fw_stall_ticks := 0,
                  sc_fw_stall_logged := False, sc_ra_tighten_fired := False\<rparr>))
               (ret True))))"

definition rtw88_fwka_stop :: "('c softc, unit) cm" where
  "rtw88_fwka_stop = seqE RTW88_ASSERT_LOCKED (upd_link (\<lambda>l. l\<lparr>sc_fwka_active := False\<rparr>))"

subsection \<open>The history of the gain\<close>

lemma keeps_dig_regs [keeps_intros]:
  "keeps (on_bus n k z L) is_errno (rtw88_dig_write C igi)"
  "keeps (on_bus n k z L) is_errno (rtw88_dig_sample_fa C)"
  unfolding rtw88_dig_write_def rtw88_dig_sample_fa_def fa_reset_def by (intro keeps_intros)+

text \<open>
  The gain record is in order: four samples of seven bits each; bit \<open>i\<close> of the trend says that move \<open>i\<close> was upward; the
  most recent gain is one the loop may choose, unless the loop has not run since the seed, where all samples are equal.
\<close>

definition dig_ok :: "dig_softc \<Rightarrow> bool" where
  "dig_ok d \<longleftrightarrow> length (sc_igi_log d) = 4 \<and> length (sc_fa_log d) = 4 \<and> (\<forall>x \<in> set (sc_igi_log d). x \<le> 0x7F) \<and>
     sc_dig_scan_save d \<le> 0x7F \<and>
     (\<forall>i < 3. bit (sc_igi_trend_bits d) i \<longleftrightarrow> sc_igi_log d ! i > sc_igi_log d ! Suc i) \<and>
     (DIG_CVRG_MIN \<le> sc_igi_log d ! 0 \<and> sc_igi_log d ! 0 \<le> DIG_CVRG_MAX \<or> (\<forall>x \<in> set (sc_igi_log d). x = sc_igi_log d ! 0))"

lemma dig_next_range: "DIG_CVRG_MIN \<le> dig_next pre fa" "dig_next pre fa \<le> DIG_CVRG_MAX"
proof -
  have r: "0x1C \<le> c \<Longrightarrow> c \<le> 0x2A \<Longrightarrow> uint (of_int c :: u8) = c" for c :: int by (simp add: uint_word_of_int)
  show "DIG_CVRG_MIN \<le> dig_next pre fa" "dig_next pre fa \<le> DIG_CVRG_MAX"
    by (auto simp: dig_next_def Let_def word_le_def r)
qed

lemma seven_bits: "x \<le> DIG_CVRG_MAX \<Longrightarrow> x \<le> 0x7F" for x :: u8
  by (simp add: word_le_nat_alt)

lemma all_less3: "(\<forall>i < 3. P i) \<longleftrightarrow> P 0 \<and> P (Suc 0) \<and> P (Suc (Suc 0))"
  by (auto simp: numeral_eq_Suc less_Suc_eq)

lemma trend_bits [simp]:
  "bit (dig_trend b up) 0 = up" "bit (dig_trend b up) (Suc 0) = bit b 0"
  "bit (dig_trend b up) (Suc (Suc 0)) = bit b (Suc 0)"
  unfolding dig_trend_def bit_or_iff bit_and_iff bit_push_bit_iff by (simp_all add: bit_numeral_rec bit_1_iff)

lemma dig_ok_record:
  assumes "dig_ok d" "igi \<le> DIG_CVRG_MAX" "DIG_CVRG_MIN \<le> igi"
  shows "dig_ok (rtw88_dig_record igi fa d)"
proof -
  have l: "length (sc_igi_log d) = 4" "\<forall>x \<in> set (sc_igi_log d). x \<le> 0x7F" using assms(1) by (simp_all add: dig_ok_def)
  then have "sc_igi_log d ! i \<le> 0x7F" if "i < 3" for i using that by simp
  then have "sc_igi_log d ! 0 \<le> 0x7F" "sc_igi_log d ! 1 \<le> 0x7F" "sc_igi_log d ! 2 \<le> 0x7F" by simp_all
  then show ?thesis
    using assms seven_bits [OF assms(2)] unfolding dig_ok_def all_less3 rtw88_dig_record_def Let_def
    by (simp add: numeral_2_eq_2 numeral_3_eq_3)
qed

definition on_dig :: "nat \<Rightarrow> bool \<Rightarrow> 'c softc \<Rightarrow> bool" where
  "on_dig n k s \<longleftrightarrow> on_line n k s \<and> dig_ok (sc_dig s)"

lemma keeps_dig_quiet:
  assumes "\<And>z L. keeps (on_bus n k z L) F m"
  shows "keeps (on_dig n k) F m"
  unfolding on_dig_def by (rule keeps_quiet [OF assms]) (drule quiet_softc(6), simp)

lemmas keeps_dig_leaf = keeps_dig_quiet [OF keeps_assert_locked] keeps_dig_quiet [OF keeps_dig_regs(1)]
  keeps_dig_quiet [OF keeps_dig_regs(2)] keeps_dig_quiet [OF keeps_read4]

lemma keeps_upd_dig: "(\<And>d. dig_ok d \<Longrightarrow> dig_ok (f d)) \<Longrightarrow> keeps (on_dig n k) F (upd_dig f)"
  unfolding upd_dig_def by (rule keeps_updS) (simp add: on_dig_def on_line_def)

lemma masked_7: "(ucast (v AND DIG_PATH_A_MASK) :: u8) \<le> 0x7F" for v :: u32
proof -
  have "unat (v AND 0x7F) \<le> 0x7F" using and_mask_bound [of v "0x7F"] by simp
  then show ?thesis by (simp add: word_le_nat_alt unsigned_ucast_eq take_bit_nat_eq_self)
qed

text \<open>The errors of the bus stay inside: no fault gets out of the gain functions.\<close>

lemmas keeps_inside = keeps_seqE keeps_tryE keeps_attempt_all keeps_discard_all keeps_case_sum keeps_ret keeps_getS
  keeps_whenE keeps_if

lemma keeps_dig_tick: "keeps (on_dig n k) F (rtw88_dig_tick C)"
  unfolding rtw88_dig_tick_def Let_def
  by (intro keeps_inside keeps_dig_leaf keeps_upd_dig dig_ok_record dig_next_range)

lemma keeps_dig_start: "keeps (on_dig n k) F (rtw88_dig_start C)"
  unfolding rtw88_dig_start_def Let_def
  by (intro keeps_inside keeps_dig_leaf keeps_upd_dig) (simp add: dig_ok_def all_less3 masked_7)

lemma keeps_scan_body:
  "keeps (on_dig n k) F (tryE (attempt (rtw88_usb_read4 C REG_DIG_PATH_A)) (\<lambda>r. case r of
        Inl _ \<Rightarrow> ret ()
      | Inr v \<Rightarrow>
          seqE (upd_dig (\<lambda>d. d\<lparr>sc_dig_scan_save := ucast (v AND DIG_PATH_A_MASK)\<rparr>))
               (discard (rtw88_dig_write C DIG_CVRG_MIN))))"
  by (intro keeps_inside keeps_dig_leaf keeps_upd_dig) (auto simp: dig_ok_def masked_7)

text \<open>What can happen to the gain record: the periodic task, the two scan hooks, and the start at the end of the PHY set-up.\<close>

datatype dig_event = DigTick | DigScanStart | DigScanEnd | DigStart

fun dig_do :: "'c chip_ops \<Rightarrow> dig_event \<Rightarrow> ('c softc, unit) cm" where
  "dig_do C DigTick = tryE (rtw88_dig_task C) (\<lambda>_. ret ())"
| "dig_do C DigScanStart = rtw88_scan_start C"
| "dig_do C DigScanEnd = rtw88_scan_end C"
| "dig_do C DigStart = tryE (locked (rtw88_dig_start C)) (\<lambda>_. ret ())"

definition dig_free :: "'c softc \<Rightarrow> bool" where
  "dig_free s \<longleftrightarrow> mtx_depth s = 0 \<and> \<not> sc_io_busy s \<and> dig_ok (sc_dig s)"

lemma locked_dig:
  assumes "keeps (on_dig 0 (invariants s)) no_fault m" "dig_free s" "locked m s = (r, s')"
  shows "dig_free s' \<and> (\<forall>e. r = Inl e \<longrightarrow> no_fault e)"
proof -
  have on: "on_dig 0 (invariants s) (s\<lparr>mtx_depth := 1\<rparr>)" using assms(2) by (simp add: on_dig_def on_line_def dig_free_def)
  from keeps_no_fault [OF assms(1) on] obtain v s1 where m: "m (s\<lparr>mtx_depth := 1\<rparr>) = (Inr v, s1)" "on_dig 0 (invariants s) s1" by blast
  have "RTW88_LOCK s = (Inr (), s\<lparr>mtx_depth := 1\<rparr>)" using assms(2) by (simp add: RTW88_LOCK_def dig_free_def)
  moreover have "RTW88_UNLOCK s1 = (Inr (), s1\<lparr>mtx_depth := 0\<rparr>)" using m(2) by (simp add: RTW88_UNLOCK_def on_dig_def on_line_def)
  ultimately have "r = Inr v" "s' = s1\<lparr>mtx_depth := 0\<rparr>" using assms(3) m(1) by (auto simp: locked_def)
  with m(2) show ?thesis by (simp add: on_dig_def on_line_def dig_free_def)
qed

lemma locked_dig_keeps: "(\<And>k. keeps (on_dig 0 k) no_fault m) \<Longrightarrow> keeps dig_free no_fault (locked m)"
  by (rule keepsI) (rule locked_dig)

lemma keeps_dig_event: "keeps dig_free no_fault (dig_do C e)"
proof (cases e)
  case DigTick
  then show ?thesis
    by (simp add: rtw88_dig_task_def) (intro keeps_tryE keeps_ret locked_dig_keeps keeps_getS keeps_if keeps_seqE keeps_dig_tick)
next
  case DigScanStart
  then show ?thesis by (simp add: rtw88_scan_start_def locked_dig_keeps keeps_scan_body)
next
  case DigScanEnd
  then show ?thesis
    by (simp add: rtw88_scan_end_def) (intro locked_dig_keeps keeps_tryE keeps_getS keeps_whenE keeps_discard_all keeps_dig_leaf)
next
  case DigStart
  then show ?thesis by (simp, intro keeps_tryE keeps_ret locked_dig_keeps keeps_dig_start)
qed

text \<open>C25. The gain record is sound at all times. From a softc in order, whatever the device answers and however the periodic
  task, the scan hooks and the start follow one another, no call fails, each returns with the mutex free, and the record stays in order: four
  seven-bit samples, a trend that says which of the last three moves were upward, and, once the loop has made a step after
  the seed, a gain between 0x1C and 0x2A.\<close>
theorem dig_record_sound:
  assumes "mtx_depth s = 0" "\<not> sc_io_busy s" "dig_ok (sc_dig s)" "forE (dig_do C) events s = (r, s')"
  shows "r = Inr () \<and> mtx_depth s' = 0 \<and> \<not> sc_io_busy s' \<and> dig_ok (sc_dig s')"
  using keeps_no_fault [OF keeps_forE [of dig_free no_fault "dig_do C", OF keeps_dig_event], of s events] assms by (auto simp: dig_free_def)

theorem dig_record_sound_witness:
  "case forE (dig_do idle_ops) [DigStart, DigTick, DigScanStart, DigTick, DigScanEnd] (softc_zero () 0 True) of
     (r, s') \<Rightarrow> r = Inr () \<and> mtx_depth s' = 0 \<and> dig_ok (sc_dig s')"
proof -
  have "mtx_depth (softc_zero () 0 True) = 0" "\<not> sc_io_busy (softc_zero () 0 True)" "dig_ok (sc_dig (softc_zero () 0 True))"
    by (simp_all add: softc_zero_def dig_zero_def dig_ok_def all_less3)
  from dig_record_sound [OF this, of idle_ops "[DigStart, DigTick, DigScanStart, DigTick, DigScanEnd]"]
  show ?thesis by (auto simp del: forE.simps dig_do.simps split: prod.splits)
qed

subsection \<open>The gain after a scan\<close>

text \<open>\<open>on_says n k a P L\<close>: a thread on the bus that has written only words with \<open>P\<close> to register \<open>a\<close> since the log was \<open>L\<close>.\<close>

definition on_says :: "nat \<Rightarrow> bool \<Rightarrow> u16 \<Rightarrow> (u8 list \<Rightarrow> bool) \<Rightarrow> ep0_req list \<Rightarrow> ('c, 'z) hw_scheme \<Rightarrow> bool" where
  "on_says n k a P L s \<longleftrightarrow> on_line n k s \<and> (\<exists>xs. ep0_log s = L @ xs \<and> (\<forall>bs. EpWrite a bs \<in> set xs \<longrightarrow> P bs))"

lemma keeps_says_read:
  assumes "a \<noteq> RTW88_REG_SEC_PING_ADDR"
  shows "keeps (on_says n k a P L) is_errno (rtw88_usb_read4 C b)"
  unfolding rtw88_usb_read4_def
proof (intro keeps_tryE keeps_ret, rule keepsI)
  fix s r s' assume I: "on_says n k a P L s" and run: "rtw88_usb_read_region C b 4 s = (r, s')"
  obtain res c where c: "c_read C b 4 (chip s) = (res, c)" by fastforce
  from I have "mtx_depth s \<noteq> 0" "\<not> sc_io_busy s" by (auto simp: on_says_def on_line_def)
  with I c run assms show "on_says n k a P L s' \<and> (\<forall>e. r = Inl e \<longrightarrow> is_errno e)"
    by (cases res) (auto simp: read_region_ok read_region_err on_says_def on_line_def sealed_log)
qed

lemma keeps_says_write:
  assumes "a \<noteq> RTW88_REG_SEC_PING_ADDR" "b = a \<Longrightarrow> P (le32enc v)"
  shows "keeps (on_says n k a P L) is_errno (rtw88_usb_write4 C b v)"
  unfolding rtw88_usb_write4_def
proof (rule keepsI)
  fix s r s' assume I: "on_says n k a P L s" and run: "rtw88_usb_write_region C b (le32enc v) s = (r, s')"
  obtain ok c where c: "c_write C b (le32enc v) (chip s) = (ok, c)" by fastforce
  from I have "mtx_depth s \<noteq> 0" "\<not> sc_io_busy s" by (auto simp: on_says_def on_line_def)
  with I c run assms show "on_says n k a P L s' \<and> (\<forall>e. r = Inl e \<longrightarrow> is_errno e)"
    by (cases ok) (auto simp: write_region_ok write_region_err on_says_def on_line_def sealed_log)
qed

lemma keeps_says_assert: "keeps (on_says n k a P L) F RTW88_ASSERT_LOCKED"
  by (auto simp: keeps_def RTW88_ASSERT_LOCKED_def on_says_def on_line_def)

lemma keeps_says_sample: "keeps (on_says n k REG_DIG_PATH_A P L) is_errno (rtw88_dig_sample_fa C)"
  unfolding rtw88_dig_sample_fa_def fa_reset_def
  by (intro keeps_inside keeps_steps keeps_ball_Nil keeps_ball_Cons keeps_says_assert keeps_says_read keeps_says_write; simp)

lemma keeps_says_dig_write:
  assumes "\<And>v. P (le32enc (dig_field igi v))"
  shows "keeps (on_says n k REG_DIG_PATH_A P L) is_errno (rtw88_dig_write C igi)"
  unfolding rtw88_dig_write_def modify4_def
  by (intro keeps_inside keeps_says_assert keeps_says_read keeps_says_write assms; simp)

text \<open>A device that reports few false alarms: at most 2000 on OFDM, and CCK off.\<close>

definition quiet_air :: "'c chip_ops \<Rightarrow> bool" where
  "quiet_air C \<longleftrightarrow> (\<forall>c f c'.
     (c_read C REG_FA_OFDM 4 c = (Some f, c') \<longrightarrow> le32 (f 0) (f 1) (f 2) (f 3) AND 0xFFFF \<le> 2000) \<and>
     (c_read C REG_RXPSEL 4 c = (Some f, c') \<longrightarrow> le32 (f 0) (f 1) (f 2) (f 3) AND push_bit 28 1 = 0))"

lemma read4_value:
  assumes "mtx_depth s \<noteq> 0" "\<not> sc_io_busy s" "rtw88_usb_read4 C a s = (Inr v, s')"
  shows "\<exists>f c. c_read C a 4 (chip s) = (Some f, c) \<and> v = le32 (f 0) (f 1) (f 2) (f 3)"
proof -
  obtain res c where c: "c_read C a 4 (chip s) = (res, c)" by fastforce
  with assms read_region_err [OF assms(1,2)] obtain f where "res = Some f"
    by (cases res) (auto simp: rtw88_usb_read4_def)
  with c assms read_region_ok [OF assms(1,2)] show ?thesis
    by (auto simp: rtw88_usb_read4_def le32dec_0)
qed

lemma quiet_sample:
  assumes "quiet_air C" "on_line n k s" "rtw88_dig_sample_fa C s = (Inr fa, s')"
  shows "fa \<le> 2000"
proof -
  have a: "RTW88_ASSERT_LOCKED s = (Inr (), s)" using assms(2) by (simp add: RTW88_ASSERT_LOCKED_def on_line_def)
  from assms(3) a obtain v s1 where 1: "rtw88_usb_read4 C REG_RXPSEL s = (Inr v, s1)"
    and rest1: "tryE (rtw88_usb_read4 C REG_FA_OFDM) (\<lambda>ofdm.
      tryE (if v AND push_bit 28 1 \<noteq> 0 then tryE (rtw88_usb_read4 C REG_FA_CCK) (\<lambda>v. ret (Some v)) else ret None) (\<lambda>cck.
      seqE (fa_reset C) (ret (fa_total ofdm cck)))) s1 = (Inr fa, s')"
    unfolding rtw88_dig_sample_fa_def by (auto elim!: tryE_Inr_elim)
  have l1: "on_line n k s1" using keepsD [OF keeps_read4 on_line_bus [OF assms(2)] 1] by (simp add: on_bus_line)
  from read4_value [OF _ _ 1] assms(1,2) have v: "v AND push_bit 28 1 = 0" by (auto simp: quiet_air_def on_line_def)
  from rest1 obtain w s2 where 2: "rtw88_usb_read4 C REG_FA_OFDM s1 = (Inr w, s2)"
    and rest2: "seqE (fa_reset C) (ret (fa_total w None)) s2 = (Inr fa, s')"
    using v by (auto elim!: tryE_Inr_elim)
  from read4_value [OF _ _ 2] assms(1) l1 have w: "w AND 0xFFFF \<le> 2000" by (auto simp: quiet_air_def on_line_def)
  from rest2 have "fa = fa_total w None" by (auto elim!: seqE_Inr_elim)
  moreover have "\<not> w AND 0xFFFF > 0xFFFF" using w by (simp add: word_le_nat_alt word_less_nat_alt)
  moreover have "(ucast (w AND 0xFFFF) :: u16) \<le> 2000" using w
    by (simp add: word_le_nat_alt unsigned_ucast_eq take_bit_nat_eq_self)
  ultimately show ?thesis by (simp add: fa_total_def)
qed

lemma dig_next_floor: "fa \<le> 2000 \<Longrightarrow> dig_next DIG_CVRG_MIN fa = DIG_CVRG_MIN"
  by (simp add: dig_next_def dig_delta_def word_le_nat_alt word_less_nat_alt)

text \<open>The words a stretch of the log writes to the gain register.\<close>

definition gain_words :: "ep0_req list \<Rightarrow> u8 list list" where
  "gain_words xs = concat (map (\<lambda>q. case q of EpWrite a bs \<Rightarrow> if a = REG_DIG_PATH_A then [bs] else [] | _ \<Rightarrow> []) xs)"

lemma gain_words_simps [simp]:
  "gain_words [] = []" "gain_words (EpRead a len # xs) = gain_words xs"
  "gain_words (EpWrite a bs # xs) = (if a = REG_DIG_PATH_A then bs # gain_words xs else gain_words xs)"
  "gain_words (xs @ ys) = gain_words xs @ gain_words ys"
  by (simp_all add: gain_words_def)

lemma set_gain_words: "bs \<in> set (gain_words xs) \<longleftrightarrow> EpWrite REG_DIG_PATH_A bs \<in> set xs"
  by (auto simp: gain_words_def split: ep0_req.splits if_splits)

lemma dig_write_words:
  assumes "on_line n k s" "rtw88_dig_write C g s = (r, s')"
  shows "on_line n k s' \<and> hw.more s' = hw.more s \<and> (\<forall>e. r = Inl e \<longrightarrow> is_errno e) \<and> (\<exists>xs. ep0_log s' = ep0_log s @ xs \<and>
    (if fst (c_read C REG_DIG_PATH_A 4 (chip s)) = None then gain_words xs = [] else \<exists>v. gain_words xs = [le32enc (dig_field g v)]))"
proof -
  from keepsD [OF keeps_dig_regs(1) on_line_bus [OF assms(1)] assms(2)]
  have q: "on_line n k s'" "hw.more s' = hw.more s" "\<forall>e. r = Inl e \<longrightarrow> is_errno e" by (auto simp: on_bus_def on_line_def)
  have o: "mtx_depth s \<noteq> 0" "\<not> sc_io_busy s" "RTW88_ASSERT_LOCKED s = (Inr (), s)"
    using assms(1) by (auto simp: on_line_def RTW88_ASSERT_LOCKED_def)
  obtain res c where c: "c_read C REG_DIG_PATH_A 4 (chip s) = (res, c)" by fastforce
  show ?thesis
  proof (cases res)
    case None
    with c assms(2) o read_region_err [OF o(1,2)] q show ?thesis
      by (auto simp: rtw88_dig_write_def modify4_def rtw88_usb_read4_def)
  next
    case (Some h)
    let ?v = "le32dec (map h [0..<4]) 0"
    obtain s1 where s1: "rtw88_usb_read4 C REG_DIG_PATH_A s = (Inr ?v, s1)" "mtx_depth s1 \<noteq> 0" "\<not> sc_io_busy s1"
        "\<exists>xs. ep0_log s1 = ep0_log s @ xs \<and> gain_words xs = []"
      using read_region_ok [OF o(1,2), of C REG_DIG_PATH_A 4 h c] c Some o by (auto simp: rtw88_usb_read4_def sealed_log)
    obtain ok d where d: "c_write C REG_DIG_PATH_A (le32enc (dig_field g ?v)) (chip s1) = (ok, d)" by fastforce
    from assms(2) s1(1) o have "rtw88_usb_write_region C REG_DIG_PATH_A (le32enc (dig_field g ?v)) s1 = (r, s')"
      by (simp add: rtw88_dig_write_def modify4_def rtw88_usb_write4_def)
    with d write_region_ok [OF s1(2,3)] write_region_err [OF s1(2,3)]
    have "\<exists>xs. ep0_log s' = ep0_log s1 @ xs \<and> gain_words xs = [le32enc (dig_field g ?v)]"
      by (cases ok) (auto simp: sealed_log)
    with s1(4) have "\<exists>xs. ep0_log s' = ep0_log s @ xs \<and> gain_words xs = [le32enc (dig_field g ?v)]"
      by (metis append.assoc append_Nil gain_words_simps(4))
    with q c Some show ?thesis by auto
  qed
qed

text \<open>The record is at the floor, between two events and inside one.\<close>

definition at_floor :: "u8 \<Rightarrow> dig_softc \<Rightarrow> bool" where
  "at_floor g d \<longleftrightarrow> sc_igi_log d ! 0 = DIG_CVRG_MIN \<and> sc_dig_scan_save d = g"

definition floor_free :: "u8 \<Rightarrow> 'c softc \<Rightarrow> bool" where
  "floor_free g s \<longleftrightarrow> mtx_depth s = 0 \<and> \<not> sc_io_busy s \<and> at_floor g (sc_dig s)"

lemma floor_tick:
  assumes "quiet_air C" "on_says n k REG_DIG_PATH_A P L s" "at_floor g (sc_dig s)" "rtw88_dig_tick C s = (r, s')"
  shows "r = Inr () \<and> on_says n k REG_DIG_PATH_A P L s' \<and> at_floor g (sc_dig s')"
proof -
  have line: "on_line n k s" using assms(2) by (simp add: on_says_def)
  then have a: "RTW88_ASSERT_LOCKED s = (Inr (), s)" by (simp add: RTW88_ASSERT_LOCKED_def on_line_def)
  obtain r1 s1 where m: "rtw88_dig_sample_fa C s = (r1, s1)" by fastforce
  from keepsD [OF keeps_dig_regs(2) on_line_bus [OF line] m] quiet_softc(6) [of s1 s]
  have d: "sc_dig s1 = sc_dig s" by (simp add: on_bus_def)
  from keepsD [OF keeps_says_sample assms(2) m]
  have f: "on_says n k REG_DIG_PATH_A P L s1" "\<forall>e. r1 = Inl e \<longrightarrow> is_errno e" by auto
  show ?thesis
  proof (cases r1)
    case (Inl x)
    with f(2) obtain e where "x = Errno e" by (cases x) auto
    with Inl assms(3,4) a m f(1) d show ?thesis by (simp add: rtw88_dig_tick_def)
  next
    case (Inr fa)
    with m quiet_sample [OF assms(1) line] have "fa \<le> 2000" by simp
    from dig_next_floor [OF this] assms(3,4) a m f(1) d Inr show ?thesis
      by (auto simp: rtw88_dig_tick_def at_floor_def on_says_def on_line_def upd_dig_def whenE_def rtw88_dig_record_def Let_def)
  qed
qed

lemma locked_frame:
  assumes "mtx_depth s = 0" "locked m s = (r, s')" "m (s\<lparr>mtx_depth := 1\<rparr>) = (Inr v, t)" "on_line 0 k t"
  shows "r = Inr v \<and> s' = t\<lparr>mtx_depth := 0\<rparr>"
  using assms by (auto simp: locked_def RTW88_LOCK_def RTW88_UNLOCK_def on_line_def)

lemma floor_task:
  assumes "quiet_air C" "floor_free g s" "rtw88_dig_task C s = (r, s')"
  shows "(\<exists>b. r = Inr b) \<and> floor_free g s' \<and> (\<exists>xs. ep0_log s' = ep0_log s @ xs \<and> gain_words xs = [])"
proof -
  let ?t = "s\<lparr>mtx_depth := 1\<rparr>" and ?k = "invariants s"
  let ?m = "tryE (getS (sc_dig_active \<circ> sc_dig)) (\<lambda>active.
      if \<not> active then ret False else seqE (rtw88_dig_tick C) (getS (sc_dig_active \<circ> sc_dig)))"
  have says: "on_says 0 ?k REG_DIG_PATH_A (\<lambda>_. False) (ep0_log s) ?t" and fl: "at_floor g (sc_dig ?t)"
    using assms(2) by (simp_all add: on_says_def on_line_def floor_free_def)
  obtain r1 s1 where tick: "rtw88_dig_tick C ?t = (r1, s1)" by fastforce
  from floor_tick [OF assms(1) says fl tick] have 1: "r1 = Inr ()" by simp
  have "\<exists>b t. ?m ?t = (Inr b, t) \<and> on_says 0 ?k REG_DIG_PATH_A (\<lambda>_. False) (ep0_log s) t \<and> at_floor g (sc_dig t)"
    using says fl tick 1 floor_tick [OF assms(1) says fl tick] by (cases "sc_dig_active (sc_dig s)") auto
  then obtain b t where t: "?m ?t = (Inr b, t)" "on_says 0 ?k REG_DIG_PATH_A (\<lambda>_. False) (ep0_log s) t" "at_floor g (sc_dig t)" by blast
  then have "on_line 0 ?k t" by (simp add: on_says_def)
  with locked_frame [where m = ?m and s = s, OF _ _ t(1)] assms(2,3) have "r = Inr b" "s' = t\<lparr>mtx_depth := 0\<rparr>"
    by (auto simp: rtw88_dig_task_def floor_free_def)
  moreover from t(2) obtain xs where "ep0_log t = ep0_log s @ xs" "\<forall>bs. EpWrite REG_DIG_PATH_A bs \<notin> set xs"
    by (auto simp: on_says_def)
  moreover from this(2) have "gain_words xs = []" by (metis set_gain_words last_in_set)
  ultimately show ?thesis using t(2,3) by (auto simp: floor_free_def on_says_def on_line_def)
qed

lemma floor_scan_end:
  assumes "floor_free g s" "rtw88_scan_end C s = (r, s')"
  shows "r = Inr () \<and> floor_free g s' \<and> (\<exists>xs. ep0_log s' = ep0_log s @ xs \<and>
    (if g = 0 \<or> fst (c_read C REG_DIG_PATH_A 4 (chip s)) = None then gain_words xs = []
     else \<exists>v. gain_words xs = [le32enc (dig_field g v)]))"
proof -
  let ?t = "s\<lparr>mtx_depth := 1\<rparr>" and ?k = "invariants s"
  let ?m = "tryE (getS (sc_dig_scan_save \<circ> sc_dig)) (\<lambda>save. whenE (save \<noteq> 0) (discard (rtw88_dig_write C save)))"
  have line: "on_line 0 ?k ?t" using assms(1) by (simp add: on_line_def floor_free_def)
  have g: "sc_dig_scan_save (sc_dig s) = g" using assms(1) by (simp add: floor_free_def at_floor_def)
  obtain r1 t where w: "rtw88_dig_write C g ?t = (r1, t)" by fastforce
  note d = dig_write_words [OF line w]
  then have dd: "sc_dig t = sc_dig s" using quiet_softc(6) [of t ?t] by simp
  have run: "?m ?t = (Inr (), if g = 0 then ?t else t)"
  proof (cases r1)
    case (Inl x)
    with d obtain e where "x = Errno e" by (cases x) auto
    with Inl w g show ?thesis by (simp add: whenE_def)
  qed (use w g in \<open>simp add: whenE_def\<close>)
  have "on_line 0 ?k (if g = 0 then ?t else t)" using line d by simp
  with locked_frame [where m = ?m and s = s, OF _ _ run] assms
  have "r = Inr ()" "s' = (if g = 0 then ?t else t)\<lparr>mtx_depth := 0\<rparr>" by (auto simp: rtw88_scan_end_def floor_free_def)
  with d dd assms(1) show ?thesis by (auto simp: floor_free_def on_line_def)
qed

lemma floor_event:
  assumes "quiet_air C" "floor_free g s" "e = DigTick \<or> e = DigScanEnd" "dig_do C e s = (r, s')"
  shows "r = Inr () \<and> floor_free g s' \<and> (\<exists>xs. ep0_log s' = ep0_log s @ xs \<and>
    (\<forall>bs \<in> set (gain_words xs). \<exists>v. bs = le32enc (dig_field g v)) \<and>
    ((\<forall>c. fst (c_read C REG_DIG_PATH_A 4 c) \<noteq> None) \<longrightarrow>
       length (gain_words xs) = (if g \<noteq> 0 \<and> e = DigScanEnd then 1 else 0)))"
proof (cases "e = DigTick")
  case True
  obtain r1 t where t: "rtw88_dig_task C s = (r1, t)" by fastforce
  with assms(4) True floor_task [OF assms(1,2) t] have "r = Inr ()" "s' = t" by auto
  with True floor_task [OF assms(1,2) t] show ?thesis by auto
next
  case False
  with assms(3,4) have e: "e = DigScanEnd" "rtw88_scan_end C s = (r, s')" by auto
  from floor_scan_end [OF assms(2) e(2)] e(1) show ?thesis by (auto split: if_splits)
qed

lemma floor_events:
  assumes "quiet_air C" "floor_free g s" "set events \<subseteq> {DigTick, DigScanEnd}" "forE (dig_do C) events s = (r, s')"
  shows "r = Inr () \<and> floor_free g s' \<and> (\<exists>xs. ep0_log s' = ep0_log s @ xs \<and>
    (\<forall>bs \<in> set (gain_words xs). \<exists>v. bs = le32enc (dig_field g v)) \<and>
    ((\<forall>c. fst (c_read C REG_DIG_PATH_A 4 c) \<noteq> None) \<longrightarrow>
       length (gain_words xs) = (if g \<noteq> 0 then count_list events DigScanEnd else 0)))"
  using assms(2-4)
proof (induction events arbitrary: s)
  case Nil
  then show ?case by auto
next
  case (Cons e es)
  obtain r1 s1 where 1: "dig_do C e s = (r1, s1)" by fastforce
  from Cons.prems(2) have e: "e = DigTick \<or> e = DigScanEnd" and es: "set es \<subseteq> {DigTick, DigScanEnd}" by auto
  note ev = floor_event [OF assms(1) Cons.prems(1) e 1]
  then have f: "floor_free g s1" and run: "forE (dig_do C) es s1 = (r, s')" using Cons.prems(3) 1 by auto
  from ev obtain xs where xs: "ep0_log s1 = ep0_log s @ xs" "\<forall>bs \<in> set (gain_words xs). \<exists>v. bs = le32enc (dig_field g v)"
    "(\<forall>c. fst (c_read C REG_DIG_PATH_A 4 c) \<noteq> None) \<longrightarrow> length (gain_words xs) = (if g \<noteq> 0 \<and> e = DigScanEnd then 1 else 0)" by blast
  from Cons.IH [OF f es run] obtain ys where ys: "r = Inr ()" "floor_free g s'" "ep0_log s' = ep0_log s1 @ ys"
    "\<forall>bs \<in> set (gain_words ys). \<exists>v. bs = le32enc (dig_field g v)"
    "(\<forall>c. fst (c_read C REG_DIG_PATH_A 4 c) \<noteq> None) \<longrightarrow> length (gain_words ys) = (if g \<noteq> 0 then count_list es DigScanEnd else 0)" by blast
  from xs ys show ?case by (intro conjI exI [of _ "xs @ ys"]) (auto split: if_splits)
qed

text \<open>C37. The gain does not recover from a scan on a quiet channel. When the record of the loop is at its floor, on a device that reports
  few false alarms, any sequence of ends of scans and periodic tasks leaves the record at the floor, while every word
  written to the gain register carries the gain that was saved at the start of the scan. On a device that answers reads of that register
  each end of a scan does write such a word, unless the saved gain is 0, and nothing else is written: the periodic task, which
  writes only a gain that differs from its record, never puts the register back to the floor.\<close>
theorem dig_stuck_after_scan:
  assumes "quiet_air C" "mtx_depth s = 0" "\<not> sc_io_busy s" "sc_igi_log (sc_dig s) ! 0 = DIG_CVRG_MIN"
    "set events \<subseteq> {DigTick, DigScanEnd}" "forE (dig_do C) events s = (r, s')"
  shows "r = Inr () \<and> sc_igi_log (sc_dig s') ! 0 = DIG_CVRG_MIN \<and>
    (\<exists>xs. ep0_log s' = ep0_log s @ xs \<and>
      (\<forall>bs \<in> set (gain_words xs). \<exists>v. bs = le32enc (dig_field (sc_dig_scan_save (sc_dig s)) v)) \<and>
      ((\<forall>c. fst (c_read C REG_DIG_PATH_A 4 c) \<noteq> None) \<longrightarrow> length (gain_words xs) =
         (if sc_dig_scan_save (sc_dig s) = 0 then 0 else count_list events DigScanEnd)))"
proof -
  have "floor_free (sc_dig_scan_save (sc_dig s)) s" using assms(2-4) by (simp add: floor_free_def at_floor_def)
  from floor_events [OF assms(1) this assms(5,6)] show ?thesis by (auto simp: floor_free_def at_floor_def)
qed

text \<open>On the idle chip, with a saved gain of 0x20.\<close>

definition after_scan :: "unit softc" where
  "after_scan = (softc_zero () 0 True)\<lparr>sc_dig := dig_zero\<lparr>sc_dig_active := True, sc_dig_scan_save := 0x20, sc_igi_log := [0x1C, 0x1C, 0x1E, 0x20]\<rparr>\<rparr>"

lemma quiet_idle: "quiet_air idle_ops"
  by (auto simp: quiet_air_def idle_chip le32_def)

theorem dig_stuck_after_scan_witness:
  "case forE (dig_do idle_ops) [DigScanEnd, DigTick, DigTick, DigTick] after_scan of (r, s') \<Rightarrow>
     r = Inr () \<and> sc_igi_log (sc_dig s') ! 0 = 0x1C \<and>
     (\<exists>v. gain_words (ep0_log s') = [le32enc (dig_field 0x20 v)])"
proof -
  have a: "mtx_depth after_scan = 0" "\<not> sc_io_busy after_scan" "sc_igi_log (sc_dig after_scan) ! 0 = 0x1C"
    "ep0_log after_scan = []" "sc_dig_scan_save (sc_dig after_scan) = 0x20"
    by (simp_all add: after_scan_def softc_zero_def)
  have e: "set [DigScanEnd, DigTick, DigTick, DigTick] \<subseteq> {DigTick, DigScanEnd}" by simp
  obtain r s' where run: "forE (dig_do idle_ops) [DigScanEnd, DigTick, DigTick, DigTick] after_scan = (r, s')" by fastforce
  from dig_stuck_after_scan [OF quiet_idle a(1-3) e run] a(4,5) idle_chip(1)
  have "r = Inr ()" "sc_igi_log (sc_dig s') ! 0 = 0x1C" "length (gain_words (ep0_log s')) = 1"
    "\<forall>bs \<in> set (gain_words (ep0_log s')). \<exists>v. bs = le32enc (dig_field 0x20 v)" by auto
  with run show ?thesis by (cases "gain_words (ep0_log s')") auto
qed

end
