(* ===== verification/Rtw_Cam.thy ===== *)
theory Rtw_Cam
  imports Rtw_Bulk Rtw_Dig "HOL-Library.Multiset"
begin

section \<open>Keys: the CAM of the chip and the key task\<close>

text \<open>
  The key path of \<^verbatim>\<open>if_rtw88_usb.c\<close>: writing, reading and clearing an entry of the key memory, the hooks \<^verbatim>\<open>iv_key_set\<close> and
  \<^verbatim>\<open>iv_key_delete\<close>, which queue an operation, the task that executes the queue and, after a pairwise key, releases the
  frames that waited for it, and the EDCA parameters and the receive filter, which are set from the same hooks of net80211. A key of net80211 is a record of what the hooks
  read of it; the value a hook returns is that of the C function, with whether the task was queued.
\<close>

subsection \<open>Entries\<close>

definition cam_content :: "u8 \<Rightarrow> u8 \<Rightarrow> bool \<Rightarrow> u8 list \<Rightarrow> u8 list \<Rightarrow> nat \<Rightarrow> nat \<Rightarrow> u32" where
  "cam_content ty keyidx grp mac key keylen i =
     (if i = 0 then (ucast keyidx AND 0x3) OR push_bit 2 (ucast ty AND 0x7) OR push_bit 6 (if grp then 1 else 0) OR push_bit 15 1
        OR push_bit 16 (ucast (at mac 0)) OR push_bit 24 (ucast (at mac 1))
      else if i = 1 then le32 (at mac 2) (at mac 3) (at mac 4) (at mac 5)
      else if i \<ge> 6 then 0
      else let j = (i - 2) * 4; k = (\<lambda>n. if j + n < keylen then at key (j + n) else 0) in le32 (k 0) (k 1) (k 2) (k 3))"

definition cam_cmd :: "u8 \<Rightarrow> nat \<Rightarrow> u32" where
  "cam_cmd slot i = BIT_CAM_WRITE_ENABLE OR BIT_CAM_POLLING OR (push_bit RTW88_CAM_ENTRY_SHIFT (ucast slot) + of_nat i)"

text \<open>Sixteen polls of the busy bit; running out of them is not an error.\<close>

definition cam_poll :: "'c chip_ops \<Rightarrow> (('c, 'z) hw_scheme, unit) cm" where
  "cam_poll C = tryE (pollE 16 (tryE (rtw88_usb_read4 C REG_CAMCMD) (\<lambda>v.
     ret (if v AND BIT_CAM_POLLING = 0 then Some () else None)))) (\<lambda>_. ret ())"

definition rtw88_cam_write_entry ::
  "'c chip_ops \<Rightarrow> u8 \<Rightarrow> u8 \<Rightarrow> u8 \<Rightarrow> bool \<Rightarrow> u8 list \<Rightarrow> u8 list \<Rightarrow> nat \<Rightarrow> (('c, 'z) hw_scheme, unit) cm" where
  "rtw88_cam_write_entry C slot ty keyidx grp mac key keylen =
     seqE RTW88_ASSERT_LOCKED
     (forE (\<lambda>i. steps [
        rtw88_usb_write4 C REG_CAMWRITE (cam_content ty keyidx grp mac key (min keylen 16) i),
        rtw88_usb_write4 C REG_CAMCMD (cam_cmd slot i),
        cam_poll C]) (rev [0..<8]))"

definition rtw88_cam_read_dword :: "'c chip_ops \<Rightarrow> u8 \<Rightarrow> nat \<Rightarrow> (('c, 'z) hw_scheme, u32) cm" where
  "rtw88_cam_read_dword C slot i =
     seqE RTW88_ASSERT_LOCKED
     (seqE (rtw88_usb_write4 C REG_CAMCMD (BIT_CAM_POLLING OR (push_bit RTW88_CAM_ENTRY_SHIFT (ucast slot) + of_nat i)))
     (seqE (cam_poll C) (rtw88_usb_read4 C REG_CAMREAD)))"

definition rtw88_cam_clear_entry :: "'c chip_ops \<Rightarrow> u8 \<Rightarrow> (('c, 'z) hw_scheme, unit) cm" where
  "rtw88_cam_clear_entry C slot =
     seqE RTW88_ASSERT_LOCKED
     (seqE (rtw88_usb_write4 C REG_CAMWRITE 0)
     (rtw88_usb_write4 C REG_CAMCMD (BIT_CAM_WRITE_ENABLE OR BIT_CAM_POLLING OR push_bit RTW88_CAM_ENTRY_SHIFT (ucast slot))))"

subsection \<open>The hooks\<close>

datatype cipher = IEEE80211_CIPHER_AES_CCM | CipherOther

record ieee80211_key =
  wk_cipher :: "cipher option"
  wk_group :: bool
  wk_keyix :: u16
  wk_keylen :: u8
  wk_key :: "u8 list"

definition cam_enqueue :: "rtw88_cam_op \<Rightarrow> link_softc \<Rightarrow> link_softc" where
  "cam_enqueue op l = l\<lparr>sc_cam_q := sc_cam_q l @ [op]\<rparr>"

definition cam_fail :: "link_softc \<Rightarrow> link_softc" where
  "cam_fail l = l\<lparr>sc_stat_cam_fails := sc_stat_cam_fails l + 1\<rparr>"

definition key_slot :: "ieee80211_key \<Rightarrow> u8" where
  "key_slot k = (if wk_group k then ucast (wk_keyix k AND 0x3) else RTW88_CAM_PAIRWISE_SLOT)"

text \<open>\<open>bss\<close>: the address of the station's access point, if it has one.\<close>

definition key_op :: "u8 list option \<Rightarrow> ieee80211_key \<Rightarrow> rtw88_cam_op" where
  "key_op bss k =
     (let keylen = (if wk_keylen k > 16 then 16 else wk_keylen k)
      in \<lparr>cop_op = RTW88_CAM_OP_INSTALL, cop_slot = key_slot k, cop_type = RTW88_CAM_TYPE_AES,
          cop_keyidx = ucast (wk_keyix k AND 0x3), cop_group = wk_group k,
          cop_peer = (if wk_group k then replicate 6 0 else case bss of None \<Rightarrow> replicate 6 0xFF | Some b \<Rightarrow> b),
          cop_key = take (unat keylen) (wk_key k) @ replicate (16 - unat keylen) 0, cop_keylen = keylen\<rparr>)"

definition rtw88_vap_key_set :: "u8 list option \<Rightarrow> ieee80211_key \<Rightarrow> ('c softc, nat \<times> bool) cm" where
  "rtw88_vap_key_set bss k = (case wk_cipher k of
     None \<Rightarrow> ret (0, False)
   | Some CipherOther \<Rightarrow> ret (1, False)
   | Some IEEE80211_CIPHER_AES_CCM \<Rightarrow>
       seqE RTW88_LOCK
       (tryE (getS (length \<circ> sc_cam_q \<circ> sc_link)) (\<lambda>n.
          if n \<ge> RTW88_CAM_QUEUE_DEPTH then seqE (upd_link cam_fail) (seqE RTW88_UNLOCK (ret (0, False)))
          else seqE (upd_link (cam_enqueue (key_op bss k)))
            (seqE (whenE (\<not> wk_group k) (upd_tx (\<lambda>t. t\<lparr>sc_ptk_install_pending := True\<rparr>)))
            (seqE RTW88_UNLOCK (ret (1, True)))))))"

text \<open>A clear operation has the slot; the rest of its record is whatever the entry of the queue held before.\<close>

definition clear_op :: "ieee80211_key \<Rightarrow> rtw88_cam_op" where
  "clear_op k = \<lparr>cop_op = RTW88_CAM_OP_CLEAR, cop_slot = key_slot k, cop_type = 0, cop_keyidx = 0, cop_group = False,
     cop_peer = replicate 6 0, cop_key = replicate 16 0, cop_keylen = 0\<rparr>"

definition rtw88_vap_key_delete :: "ieee80211_key \<Rightarrow> ('c softc, nat \<times> bool) cm" where
  "rtw88_vap_key_delete k =
     (if wk_cipher k \<noteq> Some IEEE80211_CIPHER_AES_CCM then ret (1, False)
      else seqE RTW88_LOCK
        (tryE (getS (length \<circ> sc_cam_q \<circ> sc_link)) (\<lambda>n.
           if n \<ge> RTW88_CAM_QUEUE_DEPTH then seqE (upd_link cam_fail) (seqE RTW88_UNLOCK (ret (1, False)))
           else seqE (upd_link (cam_enqueue (clear_op k))) (seqE RTW88_UNLOCK (ret (1, True))))))"

subsection \<open>The task\<close>

text \<open>One parked frame: the marked message 4 is encrypted now, or sent plain if the cipher still refuses it. The queues are filled without their statistics.\<close>

definition release_m4 :: "'z tx_ops_scheme \<Rightarrow> mbuf \<Rightarrow> mbuf" where
  "release_m4 N m = (case Option.bind (m_node m) (\<lambda>ni. ieee80211_crypto_encap N ni (m_data m)) of
     Some c \<Rightarrow> m\<lparr>m_data := c\<rparr> | None \<Rightarrow> m\<lparr>m_data := set_protected False (m_data m)\<rparr>)"

definition release_one :: "'z tx_ops_scheme \<Rightarrow> mbuf \<Rightarrow> ('c softc, mbuf list \<times> tx_queue list) cm" where
  "release_one N pm =
     tryE (is_eapol N (m_data pm)) (\<lambda>e.
     tryE (getS (\<lambda>s. sc_m4_needs_encap (sc_tx s) = Some (m_id pm))) (\<lambda>marked.
     let w = (if e \<or> frame_tid (m_data pm) \<ge> 4 then QVo else QData);
         pm' = (if marked then release_m4 N pm else pm)
     in seqE (whenE marked (upd_tx (\<lambda>t. t\<lparr>sc_m4_needs_encap := None\<rparr>)))
       (tryE (getS (tx_q w \<circ> sc_tx)) (\<lambda>q. case mbufq_enqueue pm' q of
          None \<Rightarrow> ret ([pm'], [])
        | Some q' \<Rightarrow> seqE (upd_tx (set_tx_q w q')) (ret ([], [w]))))))"

text \<open>The loop dequeues until the queue is empty; nothing is added to it meanwhile. It gives the packets freed and where the others went.\<close>

fun release_all :: "'z tx_ops_scheme \<Rightarrow> mbuf list \<Rightarrow> ('c softc, mbuf list \<times> tx_queue list) cm" where
  "release_all N [] = ret ([], [])"
| "release_all N (pm # ps) =
     seqE (upd_tx (\<lambda>t. t\<lparr>sc_tx_pending_q := (sc_tx_pending_q t)\<lparr>mq_list := ps\<rparr>\<rparr>))
     (tryE (release_one N pm) (\<lambda>(fs, ws). tryE (release_all N ps) (\<lambda>(fs', ws'). ret (fs @ fs', ws @ ws'))))"

definition ptk_installed :: "'z tx_ops_scheme \<Rightarrow> ('c softc, mbuf list) cm" where
  "ptk_installed N =
     seqE (upd_tx (\<lambda>t. t\<lparr>sc_ptk_install_pending := False\<rparr>))
     (tryE (getS (mq_list \<circ> sc_tx_pending_q \<circ> sc_tx)) (\<lambda>ps.
      tryE (release_all N ps) (\<lambda>(fs, ws).
      seqE (whenE (QData \<in> set ws) (usbd_transfer_start RTW88_BULK_TX_LO))
      (seqE (whenE (QVo \<in> set ws) (usbd_transfer_start RTW88_BULK_TX_NORMAL))
      (ret fs)))))"

definition cam_do_op :: "'c chip_ops \<Rightarrow> 'z tx_ops_scheme \<Rightarrow> rtw88_cam_op \<Rightarrow> ('c softc, mbuf list) cm" where
  "cam_do_op C N op = (case cop_op op of
     RTW88_CAM_OP_INSTALL \<Rightarrow>
       tryE (attempt (rtw88_cam_write_entry C (cop_slot op) (cop_type op) (cop_keyidx op) (cop_group op) (cop_peer op)
          (cop_key op) (unat (cop_keylen op)))) (\<lambda>r.
         if r = Inr () \<and> \<not> cop_group op then ptk_installed N else ret [])
   | RTW88_CAM_OP_CLEAR \<Rightarrow> seqE (discard (rtw88_cam_clear_entry C (cop_slot op))) (ret []))"

fun cam_do_ops :: "'c chip_ops \<Rightarrow> 'z tx_ops_scheme \<Rightarrow> rtw88_cam_op list \<Rightarrow> ('c softc, mbuf list) cm" where
  "cam_do_ops C N [] = ret []"
| "cam_do_ops C N (op # ops) = tryE (cam_do_op C N op) (\<lambda>fs. tryE (cam_do_ops C N ops) (\<lambda>gs. ret (fs @ gs)))"

definition rtw88_cam_task :: "'c chip_ops \<Rightarrow> 'z tx_ops_scheme \<Rightarrow> ('c softc, mbuf list) cm" where
  "rtw88_cam_task C N =
     seqE RTW88_LOCK
     (tryE (getS (sc_cam_q \<circ> sc_link)) (\<lambda>ops.
      seqE (upd_link (\<lambda>l. l\<lparr>sc_cam_q := []\<rparr>))
      (tryE (cam_do_ops C N ops) (\<lambda>fs. seqE RTW88_UNLOCK (ret fs)))))"

subsection \<open>EDCA parameters and the receive filter\<close>

record wmeParams =
  wmep_txopLimit :: u16
  wmep_logcwmax :: u8
  wmep_logcwmin :: u8
  wmep_aifsn :: u8

text \<open>In the order of \<^verbatim>\<open>WME_AC_BE\<close> to \<^verbatim>\<open>WME_AC_VO\<close>.\<close>

definition rtw88_ac_to_edca_reg :: "u16 list" where
  "rtw88_ac_to_edca_reg = [REG_EDCA_BE_PARAM, REG_EDCA_BK_PARAM, REG_EDCA_VI_PARAM, REG_EDCA_VO_PARAM]"

definition edca_value :: "wmeParams \<Rightarrow> u32" where
  "edca_value p = push_bit 16 (ucast (wmep_txopLimit p AND 0x7FF)) OR push_bit 12 (ucast (wmep_logcwmax p AND 0xF))
     OR push_bit 8 (ucast (wmep_logcwmin p AND 0xF)) OR ucast (wmep_aifsn p)"

definition rtw88_conf_tx_one_ac :: "'c chip_ops \<Rightarrow> nat \<Rightarrow> wmeParams \<Rightarrow> (('c, 'z) hw_scheme, unit) cm" where
  "rtw88_conf_tx_one_ac C ac p =
     (if ac \<ge> 4 then fail (Errno EINVAL) else rtw88_usb_write4 C (rtw88_ac_to_edca_reg ! ac) (edca_value p))"

definition rtw88_conf_tx_all_ac_locked :: "'c chip_ops \<Rightarrow> (nat \<Rightarrow> wmeParams) \<Rightarrow> (('c, 'z) hw_scheme, unit) cm" where
  "rtw88_conf_tx_all_ac_locked C wme =
     seqE RTW88_ASSERT_LOCKED (forE (\<lambda>ac. rtw88_conf_tx_one_ac C ac (wme ac)) [0..<4])"

definition rtw88_wme_update :: "'c chip_ops \<Rightarrow> (nat \<Rightarrow> wmeParams) \<Rightarrow> (('c, 'z) hw_scheme, unit) cm" where
  "rtw88_wme_update C wme = seqE RTW88_LOCK (seqE (discard (rtw88_conf_tx_all_ac_locked C wme)) RTW88_UNLOCK)"

definition rtw88_update_promisc :: "'c chip_ops \<Rightarrow> nat \<Rightarrow> (('c, 'z) hw_scheme, unit) cm" where
  "rtw88_update_promisc C ic_promisc =
     seqE RTW88_LOCK
     (tryE (attempt (rtw88_usb_read4 C REG_RCR)) (\<lambda>r. case r of
        Inl _ \<Rightarrow> RTW88_UNLOCK
      | Inr rcr \<Rightarrow>
          seqE (discard (rtw88_usb_write4 C REG_RCR (if ic_promisc > 0 then rcr OR BIT_RCR_AAP else rcr AND NOT BIT_RCR_AAP)))
          RTW88_UNLOCK))"

subsection \<open>The key memory\<close>

text \<open>
  What the chip makes of the two registers, as the driver relies on it: a write to \<open>REG_CAMWRITE\<close> latches a word, a command with the write and the busy
  bit stores the latched word at the index in its low half. \<open>cam_view s\<close> is the latch and the memory after all the requests of \<open>s\<close>.
\<close>

fun cam_exec :: "ep0_req \<Rightarrow> u32 \<times> (u32 \<Rightarrow> u32) \<Rightarrow> u32 \<times> (u32 \<Rightarrow> u32)" where
  "cam_exec (EpRead a n) (l, mem) = (l, mem)"
| "cam_exec (EpWrite a bs) (l, mem) =
     (if a = REG_CAMWRITE then (le32dec bs 0, mem)
      else if a = REG_CAMCMD then
        (let cmd = le32dec bs 0; go = BIT_CAM_WRITE_ENABLE OR BIT_CAM_POLLING
         in (l, if cmd AND go = go then mem(cmd AND 0xFFFF := l) else mem))
      else (l, mem))"

definition cam_view :: "('c, 'z) hw_scheme \<Rightarrow> u32 \<times> (u32 \<Rightarrow> u32)" where
  "cam_view s = fold cam_exec (ep0_log s) (0, \<lambda>_. 0)"

definition cam_on :: "nat \<Rightarrow> bool \<Rightarrow> u32 \<times> (u32 \<Rightarrow> u32) \<Rightarrow> ('c, 'z) hw_scheme \<Rightarrow> bool" where
  "cam_on n k v s \<longleftrightarrow> on_line n k s \<and> cam_view s = v"

definition cam_stops :: "nat \<Rightarrow> bool \<Rightarrow> fault \<Rightarrow> ('c, 'z) hw_scheme \<Rightarrow> bool" where
  "cam_stops n k e s \<longleftrightarrow> is_errno e \<and> on_line n k s"

lemma cam_write4:
  assumes "cam_on n k v s" "a = REG_CAMWRITE \<or> a = REG_CAMCMD"
  shows "ends (rtw88_usb_write4 C a w) (\<lambda>_. cam_on n k (cam_exec (EpWrite a (le32enc w)) v)) (cam_stops n k) s"
proof -
  obtain ok c where c: "c_write C a (le32enc w) (chip s) = (ok, c)" by fastforce
  from assms have o: "mtx_depth s \<noteq> 0" "\<not> sc_io_busy s" by (auto simp: cam_on_def on_line_def)
  from assms(2) have sec: "\<not> rtw88_addr_in_on_section a" by (auto simp: rtw88_addr_in_on_section_def)
  show ?thesis
    using assms c o write_region_ok [OF o, of C a "le32enc w"] write_region_err [OF o, of C a "le32enc w"]
    by (cases ok) (auto simp: rtw88_usb_write4_def ends_def cam_on_def cam_stops_def on_line_def cam_view_def sealed_def sec
      simp del: cam_exec.simps)
qed

lemma cam_read4:
  assumes "cam_on n k v s"
  shows "ends (rtw88_usb_read4 C REG_CAMCMD) (\<lambda>_. cam_on n k v) (cam_stops n k) s"
proof -
  obtain x c where c: "c_read C REG_CAMCMD 4 (chip s) = (x, c)" by fastforce
  from assms have o: "mtx_depth s \<noteq> 0" "\<not> sc_io_busy s" by (auto simp: cam_on_def on_line_def)
  obtain l mem where v: "v = (l, mem)" by fastforce
  have sec: "\<not> rtw88_addr_in_on_section REG_CAMCMD" by (simp add: rtw88_addr_in_on_section_def)
  show ?thesis
    using assms c o v read_region_ok [OF o, of C REG_CAMCMD 4] read_region_err [OF o, of C REG_CAMCMD 4]
    by (cases x) (auto simp: rtw88_usb_read4_def ends_def tryE_def cam_on_def cam_stops_def on_line_def cam_view_def sealed_def sec)
qed

lemma cam_poll_keeps:
  assumes "cam_on n k v s"
  shows "ends (cam_poll C) (\<lambda>_. cam_on n k v) (cam_stops n k) s"
proof -
  have "ends (pollE m (tryE (rtw88_usb_read4 C REG_CAMCMD) (\<lambda>v. ret (if v AND BIT_CAM_POLLING = 0 then Some () else None))))
      (\<lambda>_. cam_on n k v) (cam_stops n k) s" for m
    using assms
  proof (induction m arbitrary: s)
    case 0
    then show ?case by (simp add: ends_simps)
  next
    case (Suc m)
    show ?case
      by (simp add: ends_tryE ends_value, rule ends_conseq [OF cam_read4 [OF Suc.prems]]) (use Suc.IH in \<open>auto simp: ends_simps\<close>)
  qed
  then show ?thesis by (simp add: cam_poll_def ends_simps)
qed

definition cam_index :: "u8 \<Rightarrow> nat \<Rightarrow> u32" where
  "cam_index slot i = of_nat (unat slot * 8 + i)"

lemma slot_8: "push_bit 3 (ucast slot :: u32) + of_nat i = cam_index slot i" for slot :: u8
proof -
  have "(ucast slot :: u32) = of_nat (unat slot)" by simp
  then show ?thesis by (simp add: cam_index_def push_bit_eq_mult)
qed

lemma cam_index_small: "i < 8 \<Longrightarrow> unat slot * 8 + i < 2048" for slot :: u8
  using unsigned_less [of slot, where 'a = nat] by simp

lemma cam_cmd_fields:
  assumes "i < 8"
  shows "cam_cmd slot i AND 0x80010000 = 0x80010000" "cam_cmd slot i AND 0xFFFF = cam_index slot i"
proof -
  have low: "cam_index slot i AND 0xFFFF = cam_index slot i"
    unfolding cam_index_def by (rule low16) (use cam_index_small [OF assms, of slot] in simp)
  have eq: "cam_cmd slot i = 0x80010000 OR cam_index slot i" by (simp add: cam_cmd_def slot_8 flip: or.assoc)
  show "cam_cmd slot i AND 0xFFFF = cam_index slot i" unfolding eq using low by (simp add: bit.conj_disj_distrib2)
  show "cam_cmd slot i AND 0x80010000 = 0x80010000" unfolding eq by (simp add: bit.conj_disj_distrib2 word_ao_absorbs)
qed

lemma cam_index_inj: "i < 8 \<Longrightarrow> j < 8 \<Longrightarrow> cam_index slot i = cam_index slot j \<longleftrightarrow> i = j"
  using cam_index_small [of i slot] cam_index_small [of j slot]
  by (auto simp: cam_index_def word_of_nat_eq_iff take_bit_nat_eq_self)

lemma cam_word:
  assumes "cam_on n k v s" "i < 8"
  shows "ends (steps [rtw88_usb_write4 C REG_CAMWRITE w, rtw88_usb_write4 C REG_CAMCMD (cam_cmd slot i), cam_poll C])
    (\<lambda>_. cam_on n k (w, (snd v)(cam_index slot i := w))) (cam_stops n k) s"
proof -
  obtain l mem where v: "v = (l, mem)" by fastforce
  have 1: "cam_exec (EpWrite REG_CAMWRITE (le32enc w)) v = (w, mem)" by (simp add: v)
  have 2: "cam_exec (EpWrite REG_CAMCMD (le32enc (cam_cmd slot i))) (w, mem) = (w, mem(cam_index slot i := w))"
    using cam_cmd_fields [OF assms(2), of slot] by simp
  have b: "ends (seqE (rtw88_usb_write4 C REG_CAMCMD (cam_cmd slot i)) (seqE (cam_poll C) (ret ())))
      (\<lambda>_. cam_on n k (w, mem(cam_index slot i := w))) (cam_stops n k) s1" if "cam_on n k (w, mem) s1" for s1
    unfolding ends_seqE ends_value
    by (rule ends_conseq [OF cam_write4 [OF that]]) (auto simp: 2 simp del: cam_exec.simps intro: cam_poll_keeps)
  show ?thesis
    unfolding steps_simps ends_seqE [of "rtw88_usb_write4 C REG_CAMWRITE w"] v snd_conv
    by (rule ends_conseq [OF cam_write4 [OF assms(1)]]) (auto simp: 1 simp del: cam_exec.simps intro!: b)
qed

lemma cam_words:
  assumes "cam_on n k v s" "\<forall>i \<in> set is. i < 8"
  shows "ends (forE (\<lambda>i. steps [rtw88_usb_write4 C REG_CAMWRITE (f i), rtw88_usb_write4 C REG_CAMCMD (cam_cmd slot i), cam_poll C]) is)
    (\<lambda>_ s'. on_line n k s' \<and> snd (cam_view s') = fold (\<lambda>i mem. mem(cam_index slot i := f i)) is (snd v)) (cam_stops n k) s"
  using assms
proof (induction "is" arbitrary: v s)
  case Nil
  then show ?case by (simp add: ends_simps cam_on_def)
next
  case (Cons i "is")
  then have i: "i < 8" and "is": "\<forall>i \<in> set is. i < 8" by simp_all
  show ?case
    unfolding forE.simps ends_seqE
    by (rule ends_conseq [OF cam_word [OF Cons.prems(1) i]], use Cons.IH [OF _ "is"] in fastforce, simp)
qed

lemma fold_put:
  assumes "\<forall>i \<in> set is. i < 8"
  shows "j < 8 \<Longrightarrow> fold (\<lambda>i mem. mem(cam_index slot i := f i)) is mem (cam_index slot j) = (if j \<in> set is then f j else mem (cam_index slot j))"
    and "\<forall>j < 8. a \<noteq> cam_index slot j \<Longrightarrow> fold (\<lambda>i mem. mem(cam_index slot i := f i)) is mem a = mem a"
  using assms by (induction "is" arbitrary: mem) (auto simp: cam_index_inj)

text \<open>What an entry says: its flags, the address and the key.\<close>

definition cam_mac :: "(nat \<Rightarrow> u32) \<Rightarrow> u8 list" where
  "cam_mac f = [ucast (drop_bit 16 (f 0)), ucast (drop_bit 24 (f 0))] @ le32enc (f 1)"

definition cam_key :: "(nat \<Rightarrow> u32) \<Rightarrow> u8 list" where
  "cam_key f = concat (map (\<lambda>i. le32enc (f (i + 2))) [0..<4])"

lemma map_at: "length xs = n \<Longrightarrow> map (at xs) [0..<n] = xs"
  by (rule nth_equalityI) (simp_all add: at_def)

lemma content_key:
  assumes "length key = 16"
  shows "cam_key (cam_content ty keyidx grp mac key 16) = key"
proof -
  have u: "[0..<4] = [0, 1, 2, 3 :: nat]" "[0..<16] = [0, 1, 2, 3, 4, 5, 6, 7, 8, 9, 10, 11, 12, 13, 14, 15 :: nat]"
    by (simp_all add: upt_conv_Cons)
  have "cam_key (cam_content ty keyidx grp mac key 16) = map (at key) [0..<16]"
    unfolding cam_key_def u by (simp add: cam_content_def Let_def le32enc_le32 flip: numeral_2_eq_2)
  then show ?thesis using map_at [OF assms] by simp
qed

lemma content_flags:
  "cam_content ty keyidx grp mac key n 0 AND 0x3 = ucast keyidx AND 0x3"
  "drop_bit 2 (cam_content ty keyidx grp mac key n 0) AND 0x7 = ucast ty AND 0x7"
  "bit (cam_content ty keyidx grp mac key n 0) 6 = grp" "bit (cam_content ty keyidx grp mac key n 0) 15"
  "ucast (drop_bit 16 (cam_content ty keyidx grp mac key n 0)) = at mac 0"
  "ucast (drop_bit 24 (cam_content ty keyidx grp mac key n 0)) = at mac 1"
proof -
  have m: "(0x3 :: u32) = mask 2" "(0x7 :: u32) = mask 3" by (simp_all add: mask_eq_exp_minus_1)
  define b :: u32 where "b = push_bit 15 1"
  have b: "bit b i \<longleftrightarrow> i = 15" for i
    unfolding b_def bit_push_bit_iff bit_1_iff by auto
  have w: "cam_content ty keyidx grp mac key n 0 = (ucast keyidx AND mask 2) OR push_bit 2 (ucast ty AND mask 3) OR
      push_bit 6 (if grp then 1 else 0) OR b OR push_bit 16 (ucast (at mac 0)) OR push_bit 24 (ucast (at mac 1))"
    unfolding m [symmetric] b_def by (simp add: cam_content_def)
  show "cam_content ty keyidx grp mac key n 0 AND 0x3 = ucast keyidx AND 0x3"
    unfolding w m by (rule bit_word_eqI) (auto simp: bit_simps b)
  show "drop_bit 2 (cam_content ty keyidx grp mac key n 0) AND 0x7 = ucast ty AND 0x7"
    unfolding w m by (rule bit_word_eqI) (auto simp: bit_simps b)
  show "bit (cam_content ty keyidx grp mac key n 0) 6 = grp" "bit (cam_content ty keyidx grp mac key n 0) 15"
    unfolding w by (simp_all add: bit_simps b)
  show "ucast (drop_bit 16 (cam_content ty keyidx grp mac key n 0)) = at mac 0"
    unfolding w by (rule bit_word_eqI) (auto simp: bit_simps b)
  show "ucast (drop_bit 24 (cam_content ty keyidx grp mac key n 0)) = at mac 1"
    unfolding w by (rule bit_word_eqI) (auto simp: bit_simps b dest: bit_imp_le_length)
qed

text \<open>C7. A key operation puts the key into the chip. When \<^verbatim>\<open>rtw88_cam_write_entry\<close> succeeds, for any slot and on any device, the
  words that the requests have left in the key memory read back as the entry: valid, with the type, the group flag, the key index,
  the address and all sixteen bytes of the key; and no other word of the key memory has changed. When it fails, it fails with an
  error code, the mutex held and the transport free.\<close>
theorem cam_entry_installed:
  assumes "on_line n k s" "rtw88_cam_write_entry C slot ty keyidx grp mac key 16 s = (r, s')" "length key = 16" "length mac = 6"
  shows "on_line n k s' \<and> (case r of Inl e \<Rightarrow> is_errno e | Inr _ \<Rightarrow>
    let f = (\<lambda>i. snd (cam_view s') (cam_index slot i)); w0 = f 0
    in bit w0 15 \<and> drop_bit 2 w0 AND 0x7 = ucast ty AND 0x7 \<and> bit w0 6 = grp \<and> w0 AND 0x3 = ucast keyidx AND 0x3 \<and>
       cam_mac f = mac \<and> cam_key f = key \<and>
       (\<forall>a. (\<forall>i < 8. a \<noteq> cam_index slot i) \<longrightarrow> snd (cam_view s') a = snd (cam_view s) a))"
proof -
  let ?c = "cam_content ty keyidx grp mac key 16"
  have on: "cam_on n k (cam_view s) s" using assms(1) by (simp add: cam_on_def)
  have lock: "RTW88_ASSERT_LOCKED s = (Inr (), s)" using assms(1) by (simp add: RTW88_ASSERT_LOCKED_def on_line_def)
  from assms(2) lock have run: "forE (\<lambda>i. steps [rtw88_usb_write4 C REG_CAMWRITE (?c i),
      rtw88_usb_write4 C REG_CAMCMD (cam_cmd slot i), cam_poll C]) (rev [0..<8]) s = (r, s')"
    by (simp add: rtw88_cam_write_entry_def del: steps_simps upt_rec_numeral)
  note e = endsD [OF cam_words [OF on, of "rev [0..<8]" C ?c slot] run]
  show ?thesis
  proof (cases r)
    case (Inl x)
    with e show ?thesis by (simp add: cam_stops_def)
  next
    case (Inr x)
    with e have on': "on_line n k s'" and mem: "snd (cam_view s') = fold (\<lambda>i mem. mem(cam_index slot i := ?c i)) (rev [0..<8]) (snd (cam_view s))"
      by (simp_all del: upt_rec_numeral)
    have at: "snd (cam_view s') (cam_index slot i) = ?c i" if "i < 8" for i
      using that unfolding mem by (subst fold_put(1)) (simp_all del: upt_rec_numeral)
    have other: "snd (cam_view s') a = snd (cam_view s) a" if "\<forall>i < 8. a \<noteq> cam_index slot i" for a
      using that unfolding mem by (subst fold_put(2)) (simp_all del: upt_rec_numeral)
    have "cam_key (\<lambda>i. snd (cam_view s') (cam_index slot i)) = cam_key ?c"
      unfolding cam_key_def by (rule arg_cong [of _ _ concat], rule map_cong) (simp_all add: at)
    moreover have "cam_mac (\<lambda>i. snd (cam_view s') (cam_index slot i)) = mac"
    proof -
      have "cam_mac (\<lambda>i. snd (cam_view s') (cam_index slot i)) = map (at mac) [0..<6]"
        by (simp add: cam_mac_def at content_flags upt_conv_Cons) (simp add: cam_content_def le32enc_le32 flip: numeral_2_eq_2)
      then show ?thesis using map_at [OF assms(4)] by simp
    qed
    ultimately show ?thesis using Inr on' other content_flags content_key [OF assms(3)] by (simp add: Let_def at)
  qed
qed

subsection \<open>What a pairwise key releases\<close>

text \<open>The observer's answer does not depend on the state.\<close>

definition eapol_of :: "'z tx_ops_scheme \<Rightarrow> u8 list \<Rightarrow> fault + u16 option" where
  "eapol_of N d = fst (rtw88_eapol_key_info (net_of N) d ())"

lemma key_info_pure: "rtw88_eapol_key_info (net_of N) d s = (eapol_of N d, s)"
  by (auto simp: eapol_of_def rtw88_eapol_key_info_def m_copydata_def tryE_def Let_def)

lemma is_eapol_run: "eapol_of N d = Inr k \<Longrightarrow> is_eapol N d s = (Inr (k \<noteq> None), s)"
  by (simp add: is_eapol_def tryE_def key_info_pure)

definition eapol_safe :: "'z tx_ops_scheme \<Rightarrow> mbuf \<Rightarrow> bool" where
  "eapol_safe N m \<longleftrightarrow> (\<exists>k. eapol_of N (m_data m) = Inr k)"

text \<open>The queue a frame belongs to, and the frames of one queue after their release.\<close>

definition tx_dest :: "'z tx_ops_scheme \<Rightarrow> mbuf \<Rightarrow> tx_queue" where
  "tx_dest N m = (if eapol_of N (m_data m) \<noteq> Inr None \<or> frame_tid (m_data m) \<ge> 4 then QVo else QData)"

definition released :: "'z tx_ops_scheme \<Rightarrow> nat option \<Rightarrow> tx_queue \<Rightarrow> mbuf list \<Rightarrow> mbuf list" where
  "released N mark w ps = map (\<lambda>m. if mark = Some (m_id m) then release_m4 N m else m) (filter (\<lambda>m. tx_dest N m = w) ps)"

lemma dest_cases: "tx_dest N m = QVo \<or> tx_dest N m = QData"
  by (simp add: tx_dest_def)

definition mq_add :: "mbuf list \<Rightarrow> mbufq \<Rightarrow> mbufq" where
  "mq_add ms q = q\<lparr>mq_list := mq_list q @ ms\<rparr>"

lemma mq_add_simps [simp]: "mq_list (mq_add ms q) = mq_list q @ ms" "mq_maxlen (mq_add ms q) = mq_maxlen q" "mq_add [] q = q"
  by (simp_all add: mq_add_def)

lemma mq_add_add: "mq_add ns (mq_add ms q) = mq_add (ms @ ns) q"
  by (simp add: mq_add_def)

text \<open>What a queue has room for.\<close>

definition mq_room :: "mbufq \<Rightarrow> nat" where
  "mq_room q = mq_maxlen q - length (mq_list q)"

lemma release_one_run:
  assumes "eapol_safe N m"
  shows "release_one N m s =
    (let t = sc_tx s; w = tx_dest N m; mark = sc_m4_needs_encap t; m' = (if mark = Some (m_id m) then release_m4 N m else m);
         t1 = t\<lparr>sc_m4_needs_encap := (if mark = Some (m_id m) then None else mark)\<rparr>
     in if mq_room (tx_q w t) = 0 then (Inr ([m'], []), s\<lparr>sc_tx := t1\<rparr>)
        else (Inr ([], [w]), s\<lparr>sc_tx := set_tx_q w (mq_add [m'] (tx_q w t)) t1\<rparr>))"
proof -
  obtain k where k: "eapol_of N (m_data m) = Inr k" using assms(1) by (auto simp: eapol_safe_def)
  have t1: "(sc_tx s)\<lparr>sc_m4_needs_encap := mark\<rparr> = sc_tx s" if "sc_m4_needs_encap (sc_tx s) = mark" for mark
    using that by (cases "sc_tx s") simp
  note defs = release_one_def tryE_def is_eapol_run [OF k] upd_tx_def seqE_def whenE_def mbufq_enqueue_def Let_def mq_room_def mq_add_def
  show ?thesis
  proof (cases "k \<noteq> None \<or> frame_tid (m_data m) \<ge> 4")
    case True
    then have "tx_dest N m = QVo" by (simp add: tx_dest_def k)
    with True t1 show ?thesis by (auto simp: defs)
  next
    case False
    then have "tx_dest N m = QData" by (simp add: tx_dest_def k)
    with False t1 show ?thesis by (auto simp: defs)
  qed
qed

text \<open>
  The transmit state once the frames \<open>ps\<close> have been released: each queue has got the first of its frames, as many as it had room
  for, and the mark for message 4 is taken off if one of them had it. \<open>refused\<close>: the frames for which a queue had no room.
\<close>

definition mark_after :: "nat option \<Rightarrow> mbuf list \<Rightarrow> nat option" where
  "mark_after mark ps = (if mark \<in> Some ` m_id ` set ps then None else mark)"

definition taken :: "'z tx_ops_scheme \<Rightarrow> tx_queue \<Rightarrow> mbuf list \<Rightarrow> tx_softc \<Rightarrow> mbuf list" where
  "taken N w ps t = take (mq_room (tx_q w t)) (released N (sc_m4_needs_encap t) w ps)"

definition refused :: "'z tx_ops_scheme \<Rightarrow> tx_queue \<Rightarrow> mbuf list \<Rightarrow> tx_softc \<Rightarrow> mbuf list" where
  "refused N w ps t = drop (mq_room (tx_q w t)) (released N (sc_m4_needs_encap t) w ps)"

definition after_release :: "'z tx_ops_scheme \<Rightarrow> mbuf list \<Rightarrow> tx_softc \<Rightarrow> tx_softc" where
  "after_release N ps t =
     t\<lparr>sc_m4_needs_encap := mark_after (sc_m4_needs_encap t) ps,
       sc_tx_pending_q := (sc_tx_pending_q t)\<lparr>mq_list := []\<rparr>,
       sc_tx_data_q := mq_add (taken N QData ps t) (sc_tx_data_q t),
       sc_tx_data_vo_q := mq_add (taken N QVo ps t) (sc_tx_data_vo_q t)\<rparr>"

definition release_outcome :: "'z tx_ops_scheme \<Rightarrow> mbuf list \<Rightarrow> tx_softc \<Rightarrow> mbuf list \<Rightarrow> tx_queue list \<Rightarrow> bool" where
  "release_outcome N ps t fs ws \<longleftrightarrow> mset fs = mset (refused N QData ps t) + mset (refused N QVo ps t) \<and>
     (QData \<in> set ws \<longleftrightarrow> taken N QData ps t \<noteq> []) \<and> (QVo \<in> set ws \<longleftrightarrow> taken N QVo ps t \<noteq> [])"

text \<open>The first of the frames, and the rest of them after it.\<close>

definition release_step :: "'z tx_ops_scheme \<Rightarrow> mbuf \<Rightarrow> tx_softc \<Rightarrow> tx_softc" where
  "release_step N m t =
     (let w = tx_dest N m; mark = sc_m4_needs_encap t; m' = (if mark = Some (m_id m) then release_m4 N m else m);
          t1 = t\<lparr>sc_m4_needs_encap := (if mark = Some (m_id m) then None else mark)\<rparr>
      in if mq_room (tx_q w t) = 0 then t1 else set_tx_q w (mq_add [m'] (tx_q w t)) t1)"

lemma released_Cons:
  "released N mark w (m # ps) = (if tx_dest N m = w then [if mark = Some (m_id m) then release_m4 N m else m] else []) @ released N mark w ps"
  by (simp add: released_def)

lemma released_mark:
  assumes "distinct (map m_id (m # ps))"
  shows "released N (if mark = Some (m_id m) then None else mark) w ps = released N mark w ps"
  unfolding released_def by (rule map_cong [OF refl]) (use assms in \<open>auto simp: image_iff\<close>)

lemma mq_room_add: "mq_room (mq_add ms q) = mq_room q - length ms"
  by (simp add: mq_room_def)

lemma step_parts:
  assumes "distinct (map m_id (m # ps))"
    and m': "m' = (if sc_m4_needs_encap t = Some (m_id m) then release_m4 N m else m)"
  shows "mark_after (sc_m4_needs_encap (release_step N m t)) ps = mark_after (sc_m4_needs_encap t) (m # ps)"
    and "taken N w (m # ps) t = (if tx_dest N m = w \<and> mq_room (tx_q w t) \<noteq> 0 then [m'] else []) @ taken N w ps (release_step N m t)"
    and "refused N w (m # ps) t = (if tx_dest N m = w \<and> mq_room (tx_q w t) = 0 then [m'] else []) @ refused N w ps (release_step N m t)"
proof -
  have mark: "sc_m4_needs_encap (release_step N m t) = (if sc_m4_needs_encap t = Some (m_id m) then None else sc_m4_needs_encap t)"
    by (cases "tx_dest N m") (simp_all add: release_step_def Let_def)
  then show "mark_after (sc_m4_needs_encap (release_step N m t)) ps = mark_after (sc_m4_needs_encap t) (m # ps)"
    by (auto simp: mark_after_def)
  have room: "mq_room (tx_q w (release_step N m t)) = mq_room (tx_q w t) - (if tx_dest N m = w then 1 else 0)"
    by (cases w; cases "tx_dest N m") (simp_all add: release_step_def Let_def mq_room_add)
  note rel = released_mark [OF assms(1)]
  show "taken N w (m # ps) t = (if tx_dest N m = w \<and> mq_room (tx_q w t) \<noteq> 0 then [m'] else []) @ taken N w ps (release_step N m t)"
    "refused N w (m # ps) t = (if tx_dest N m = w \<and> mq_room (tx_q w t) = 0 then [m'] else []) @ refused N w ps (release_step N m t)"
    by (cases "mq_room (tx_q w t)"; simp add: taken_def refused_def mark room rel released_Cons m')+
qed

lemma release_all_run:
  assumes "\<forall>m \<in> set ps. eapol_safe N m" "distinct (map m_id ps)" "mq_list (sc_tx_pending_q (sc_tx s)) = ps"
  shows "\<exists>fs ws. release_all N ps s = (Inr (fs, ws), s\<lparr>sc_tx := after_release N ps (sc_tx s)\<rparr>) \<and> release_outcome N ps (sc_tx s) fs ws"
  using assms
proof (induction ps arbitrary: s)
  case Nil
  then have "(sc_tx_pending_q (sc_tx s))\<lparr>mq_list := []\<rparr> = sc_tx_pending_q (sc_tx s)" by (cases "sc_tx_pending_q (sc_tx s)") simp
  then show ?case by (simp add: after_release_def released_def mark_after_def taken_def refused_def release_outcome_def)
next
  case (Cons m ps)
  let ?t1 = "(sc_tx s)\<lparr>sc_tx_pending_q := (sc_tx_pending_q (sc_tx s))\<lparr>mq_list := ps\<rparr>\<rparr>"
  let ?t2 = "release_step N m ?t1"
  let ?s1 = "s\<lparr>sc_tx := ?t1\<rparr>" and ?s2 = "s\<lparr>sc_tx := ?t2\<rparr>"
  let ?w = "tx_dest N m"
  let ?m' = "if sc_m4_needs_encap (sc_tx s) = Some (m_id m) then release_m4 N m else m"
  let ?full = "mq_room (tx_q ?w (sc_tx s)) = 0"
  from Cons.prems(1) have safe: "eapol_safe N m" "\<forall>m \<in> set ps. eapol_safe N m" by simp_all
  have q1: "tx_q w ?t1 = tx_q w (sc_tx s)" for w by (cases w) simp_all
  have one: "release_one N m ?s1 = (Inr (if ?full then [?m'] else [], if ?full then [] else [?w]), ?s2)"
    unfolding release_one_run [OF safe(1)] by (simp add: release_step_def Let_def q1)
  have pend: "mq_list (sc_tx_pending_q ?t2) = ps" using dest_cases [of N m] by (auto simp: release_step_def Let_def)
  with Cons.IH [of ?s2] safe(2) Cons.prems(2)
  obtain fs ws where rest: "release_all N ps ?s2 = (Inr (fs, ws), ?s2\<lparr>sc_tx := after_release N ps ?t2\<rparr>)" "release_outcome N ps ?t2 fs ws"
    by auto
  have m': "?m' = (if sc_m4_needs_encap ?t1 = Some (m_id m) then release_m4 N m else m)" by simp
  note parts = step_parts [OF Cons.prems(2) m']
  have same: "taken N w (m # ps) ?t1 = taken N w (m # ps) (sc_tx s)" "refused N w (m # ps) ?t1 = refused N w (m # ps) (sc_tx s)" for w
    by (simp_all add: taken_def refused_def q1)
  have "after_release N ps ?t2 = after_release N (m # ps) (sc_tx s)"
  proof -
    have "sc_tx_data_q ?t2 = mq_add (if ?w = QData \<and> \<not> ?full then [?m'] else []) (sc_tx_data_q (sc_tx s))"
      "sc_tx_data_vo_q ?t2 = mq_add (if ?w = QVo \<and> \<not> ?full then [?m'] else []) (sc_tx_data_vo_q (sc_tx s))"
      using dest_cases [of N m] by (auto simp: release_step_def Let_def q1)
    then have "mq_add (taken N QData ps ?t2) (sc_tx_data_q ?t2) = mq_add (taken N QData (m # ps) (sc_tx s)) (sc_tx_data_q (sc_tx s))"
      "mq_add (taken N QVo ps ?t2) (sc_tx_data_vo_q ?t2) = mq_add (taken N QVo (m # ps) (sc_tx s)) (sc_tx_data_vo_q (sc_tx s))"
      using parts(2) [of QData] parts(2) [of QVo] unfolding same q1 by (auto simp: mq_add_add)
    moreover have "after_release N ps ?t2 = (after_release N (m # ps) (sc_tx s))
        \<lparr>sc_tx_data_q := mq_add (taken N QData ps ?t2) (sc_tx_data_q ?t2), sc_tx_data_vo_q := mq_add (taken N QVo ps ?t2) (sc_tx_data_vo_q ?t2)\<rparr>"
      unfolding after_release_def parts(1) using dest_cases [of N m] by (auto simp: release_step_def Let_def)
    ultimately show ?thesis by (simp add: after_release_def)
  qed
  moreover have "release_outcome N (m # ps) (sc_tx s) ((if ?full then [?m'] else []) @ fs) ((if ?full then [] else [?w]) @ ws)"
    using rest(2) parts(2) [of QData] parts(2) [of QVo] parts(3) [of QData] parts(3) [of QVo] dest_cases [of N m]
    unfolding same q1 by (auto simp: release_outcome_def)
  ultimately show ?case using one rest(1) by (auto simp: upd_tx_def seqE_def tryE_def)
qed

lemma keeps_cam_poll [keeps_intros]: "keeps (on_bus n k z L) is_errno (cam_poll C)"
  unfolding cam_poll_def by (intro keeps_intros)

lemma keeps_cam_write [keeps_intros]: "keeps (on_bus n k z L) is_errno (rtw88_cam_write_entry C slot ty keyidx grp mac key len)"
  unfolding rtw88_cam_write_entry_def by (intro keeps_intros)

lemma keeps_cam_clear [keeps_intros]: "keeps (on_bus n k z L) is_errno (rtw88_cam_clear_entry C slot)"
  unfolding rtw88_cam_clear_entry_def by (intro keeps_intros)

text \<open>The pipes of the queues that got frames.\<close>

definition start_released :: "'z tx_ops_scheme \<Rightarrow> mbuf list \<Rightarrow> tx_softc \<Rightarrow> nat list" where
  "start_released N ps t = (if taken N QData ps t \<noteq> [] then [RTW88_BULK_TX_LO] else []) @
     (if taken N QVo ps t \<noteq> [] then [RTW88_BULK_TX_NORMAL] else [])"

lemma ptk_installed_run:
  assumes "\<forall>m \<in> set ps. eapol_safe N m" "distinct (map m_id ps)" "mq_list (sc_tx_pending_q (sc_tx s)) = ps"
  shows "\<exists>fs. ptk_installed N s = (Inr fs, s\<lparr>sc_tx := (after_release N ps ((sc_tx s)\<lparr>sc_ptk_install_pending := False\<rparr>))
      \<lparr>sc_xfer_started := sc_xfer_started (sc_tx s) @ start_released N ps (sc_tx s)\<rparr>\<rparr>) \<and>
    mset fs = mset (refused N QData ps (sc_tx s)) + mset (refused N QVo ps (sc_tx s))"
proof -
  let ?s = "s\<lparr>sc_tx := (sc_tx s)\<lparr>sc_ptk_install_pending := False\<rparr>\<rparr>"
  have same: "taken N w ps (sc_tx ?s) = taken N w ps (sc_tx s)" "refused N w ps (sc_tx ?s) = refused N w ps (sc_tx s)" for w
    by (cases w; simp add: taken_def refused_def)+
  from release_all_run [of ps N ?s] assms obtain fs ws where
    run: "release_all N ps ?s = (Inr (fs, ws), ?s\<lparr>sc_tx := after_release N ps (sc_tx ?s)\<rparr>)"
    and out: "release_outcome N ps (sc_tx ?s) fs ws" by auto
  have xfer: "sc_xfer_started (after_release N ps t) = sc_xfer_started t" for t by (simp add: after_release_def)
  have "ptk_installed N s = (Inr fs, s\<lparr>sc_tx := (after_release N ps ((sc_tx s)\<lparr>sc_ptk_install_pending := False\<rparr>))
      \<lparr>sc_xfer_started := sc_xfer_started (sc_tx s) @ start_released N ps (sc_tx s)\<rparr>\<rparr>)"
    using run out [unfolded release_outcome_def same] assms(3) xfer unfolding ptk_installed_def start_released_def
    by (auto simp: upd_tx_def seqE_def tryE_def whenE_def usbd_transfer_start_def)
  with out show ?thesis unfolding release_outcome_def same by blast
qed

text \<open>C8. What a run of the key task leaves when the installation of a pairwise key is the only operation queued. The frames that wait for it are any frames
  with distinct identities which the EAPOL observer can look at without the panic of the property on short frames. The mutex is free again. If the key is
  written, the gate opens and every parked frame leaves the queue of parked frames, exactly once and in order: EAPOL and voice frames are for one
  data queue and the others for the other; each queue takes the first of its frames, as many as it has room for, behind what was
  there; the rest, if a queue is full, is freed, and nothing else is. Only the marked message 4 is changed, by the cipher or to a plain frame; and the pipes of the queues that got
  frames are started. If the write fails, nothing moves, nothing is freed and the gate stays closed: no later step of the task opens it, and
  the operation is no longer queued.\<close>
theorem ptk_install_outcome:
  fixes s :: "'c softc"
  assumes "mtx_depth s = 0" "\<not> sc_io_busy s" "sc_cam_q (sc_link s) = [op]" "cop_op op = RTW88_CAM_OP_INSTALL" "\<not> cop_group op"
    and "mq_list (sc_tx_pending_q (sc_tx s)) = ps" "\<forall>m \<in> set ps. eapol_safe N m" "distinct (map m_id ps)"
    and "rtw88_cam_task C N s = (r, s')"
  shows "mtx_depth s' = 0 \<and> sc_cam_q (sc_link s') = [] \<and>
    (let t = sc_tx s; t' = sc_tx s'; mark = sc_m4_needs_encap t;
         rd = mq_room (sc_tx_data_q t); rv = mq_room (sc_tx_data_vo_q t);
         ds = released N mark QData ps; vs = released N mark QVo ps;
         written = (fst (rtw88_cam_write_entry C (cop_slot op) (cop_type op) (cop_keyidx op) (cop_group op) (cop_peer op)
           (cop_key op) (unat (cop_keylen op)) (s\<lparr>mtx_depth := 1, sc_link := (sc_link s)\<lparr>sc_cam_q := []\<rparr>\<rparr>)) = Inr ())
     in if written
        then \<not> sc_ptk_install_pending t' \<and> mq_list (sc_tx_pending_q t') = [] \<and>
          mq_list (sc_tx_data_q t') = mq_list (sc_tx_data_q t) @ take rd ds \<and>
          mq_list (sc_tx_data_vo_q t') = mq_list (sc_tx_data_vo_q t) @ take rv vs \<and>
          (\<exists>freed. r = Inr freed \<and> mset freed = mset (drop rd ds) + mset (drop rv vs)) \<and>
          sc_m4_needs_encap t' = mark_after mark ps \<and>
          sc_xfer_started t' = sc_xfer_started t @ (if take rd ds \<noteq> [] then [RTW88_BULK_TX_LO] else []) @
            (if take rv vs \<noteq> [] then [RTW88_BULK_TX_NORMAL] else [])
        else r = Inr [] \<and> t' = t)"
proof -
  let ?s1 = "s\<lparr>mtx_depth := 1, sc_link := (sc_link s)\<lparr>sc_cam_q := []\<rparr>\<rparr>"
  let ?w = "rtw88_cam_write_entry C (cop_slot op) (cop_type op) (cop_keyidx op) (cop_group op) (cop_peer op) (cop_key op) (unat (cop_keylen op))"
  obtain r1 s2 where w: "?w ?s1 = (r1, s2)" by fastforce
  have "on_line 0 (invariants s) ?s1" using assms(2) by (simp add: on_line_def)
  from keepsD [OF keeps_cam_write on_line_bus [OF this] w]
  have s2: "mtx_depth s2 = 1" "hw.more s2 = hw.more ?s1" and e: "\<forall>x. r1 = Inl x \<longrightarrow> is_errno x" by (auto simp: on_bus_def)
  have tx: "sc_tx s2 = sc_tx s" "sc_link s2 = (sc_link s)\<lparr>sc_cam_q := []\<rparr>" using quiet_softc(4,3) [OF s2(2)] by simp_all
  note task = assms(9) [unfolded rtw88_cam_task_def RTW88_LOCK_def RTW88_UNLOCK_def upd_link_def seqE_def tryE_def]
  show ?thesis
  proof (cases "r1 = Inr ()")
    case True
    have att: "attempt ?w ?s1 = (Inr (Inr ()), s2)" using w True by simp
    from ptk_installed_run [of ps N s2] assms(6-8) tx(1) obtain fs where
      run: "ptk_installed N s2 = (Inr fs, s2\<lparr>sc_tx := (after_release N ps ((sc_tx s)\<lparr>sc_ptk_install_pending := False\<rparr>))
        \<lparr>sc_xfer_started := sc_xfer_started (sc_tx s) @ start_released N ps (sc_tx s)\<rparr>\<rparr>)"
      and fs: "mset fs = mset (refused N QData ps (sc_tx s)) + mset (refused N QVo ps (sc_tx s))" by auto
    have op: "cam_do_op C N op ?s1 = (Inr fs, s2\<lparr>sc_tx := (after_release N ps ((sc_tx s)\<lparr>sc_ptk_install_pending := False\<rparr>))
        \<lparr>sc_xfer_started := sc_xfer_started (sc_tx s) @ start_released N ps (sc_tx s)\<rparr>\<rparr>)"
      using att run assms(4,5) by (simp add: cam_do_op_def tryE_def)
    have out: "r = Inr fs" "s' = s2\<lparr>mtx_depth := 0, sc_tx := (after_release N ps ((sc_tx s)\<lparr>sc_ptk_install_pending := False\<rparr>))
        \<lparr>sc_xfer_started := sc_xfer_started (sc_tx s) @ start_released N ps (sc_tx s)\<rparr>\<rparr>"
      using task op assms(1,3) s2(1) by (auto simp: tryE_def)
    show ?thesis
      using w True out fs tx(2) unfolding Let_def by (simp add: after_release_def start_released_def taken_def refused_def)
  next
    case False
    then obtain x where "r1 = Inl (Errno x)" using e by (cases r1) (auto simp: is_errno_def split: fault.splits)
    then have "attempt ?w ?s1 = (Inr (Inl x), s2)" using w by simp
    then have op: "cam_do_op C N op ?s1 = (Inr [], s2)" using assms(4) by (simp add: cam_do_op_def tryE_def)
    show ?thesis using task op assms(1,3) w False s2(1) tx by (auto simp: tryE_def Let_def)
  qed
qed

text \<open>The theorems applied: the key of an access point, and a frame that waited for it.\<close>

definition some_ptk :: ieee80211_key where
  "some_ptk = \<lparr>wk_cipher = Some IEEE80211_CIPHER_AES_CCM, wk_group = False, wk_keyix = 0, wk_keylen = 16, wk_key = map of_nat [0..<16]\<rparr>"

definition ptk_waiting :: "unit softc" where
  "ptk_waiting = (softc_zero () 0 True)\<lparr>sc_link := link_zero\<lparr>sc_cam_q := [key_op (Some [1, 2, 3, 4, 5, 6]) some_ptk]\<rparr>,
     sc_tx := tx_zero\<lparr>sc_ptk_install_pending := True, sc_tx_data_q := \<lparr>mq_list = [], mq_maxlen = 1\<rparr>,
       sc_tx_pending_q := \<lparr>mq_list = [data_mbuf, data_mbuf\<lparr>m_id := 8\<rparr>], mq_maxlen = 16\<rparr>\<rparr>\<rparr>"

lemma keeps_idle_cam: "keeps (on_bus n k z L) no_fault (rtw88_cam_write_entry idle_ops slot ty keyidx grp mac key len)"
  unfolding rtw88_cam_write_entry_def cam_poll_def
  by (intro keeps_seqE keeps_forE keeps_steps keeps_ball_Cons keeps_ball_Nil keeps_tryE keeps_pollE keeps_ret keeps_idle_regs keeps_assert_locked)

lemma idle_cam:
  assumes "on_line 0 k s"
  shows "\<exists>s'. rtw88_cam_write_entry idle_ops slot ty keyidx grp mac key len s = (Inr (), s')"
  using no_faultD [OF keeps_idle_cam assms, of slot ty keyidx grp mac key len] by auto

theorem cam_entry_installed_witness:
  "\<exists>s'. rtw88_cam_write_entry idle_ops 4 4 0 False [1, 2, 3, 4, 5, 6] (map of_nat [0..<16]) 16 (softc_zero () 1 True) = (Inr (), s') \<and>
     cam_key (\<lambda>i. snd (cam_view s') (cam_index 4 i)) = map of_nat [0..<16]"
proof -
  have on: "on_line 0 True (softc_zero () 1 True)" by (simp add: softc_zero_def on_line_def)
  obtain s' where run: "rtw88_cam_write_entry idle_ops 4 4 0 False [1, 2, 3, 4, 5, 6] (map of_nat [0..<16]) 16 (softc_zero () 1 True) = (Inr (), s')"
    using idle_cam [OF on] by blast
  from cam_entry_installed [OF on run] run show ?thesis by (simp add: Let_def del: upt_rec_numeral)
qed

lemma data_mbuf_safe: "eapol_safe plain_tx data_mbuf \<and> tx_dest plain_tx data_mbuf = QData"
proof -
  have "eapol_of plain_tx (m_data data_mbuf) = Inr None \<and> \<not> frame_tid (m_data data_mbuf) \<ge> 4" by code_simp
  then show ?thesis by (simp add: eapol_safe_def tx_dest_def)
qed

text \<open>A data queue with room for one frame, and two that wait: the first goes out, the second is freed.\<close>
theorem ptk_install_outcome_witness:
  "\<exists>s'. rtw88_cam_task idle_ops plain_tx ptk_waiting = (Inr [data_mbuf\<lparr>m_id := 8\<rparr>], s') \<and> \<not> sc_ptk_install_pending (sc_tx s') \<and>
     mq_list (sc_tx_pending_q (sc_tx s')) = [] \<and> mq_list (sc_tx_data_q (sc_tx s')) = [data_mbuf]"
proof -
  let ?op = "key_op (Some [1, 2, 3, 4, 5, 6]) some_ptk" and ?ps = "[data_mbuf, data_mbuf\<lparr>m_id := 8\<rparr>]"
  obtain r s' where run: "rtw88_cam_task idle_ops plain_tx ptk_waiting = (r, s')" by fastforce
  have s: "mtx_depth ptk_waiting = 0" "\<not> sc_io_busy ptk_waiting" "sc_cam_q (sc_link ptk_waiting) = [?op]"
      "mq_list (sc_tx_pending_q (sc_tx ptk_waiting)) = ?ps" "mq_room (sc_tx_data_q (sc_tx ptk_waiting)) = 1"
      "sc_m4_needs_encap (sc_tx ptk_waiting) = None" "mq_list (sc_tx_data_q (sc_tx ptk_waiting)) = []"
    by (simp_all add: ptk_waiting_def softc_zero_def tx_zero_def mbufq_init_def mq_room_def)
  have op: "cop_op ?op = RTW88_CAM_OP_INSTALL" "\<not> cop_group ?op" by (simp_all add: key_op_def Let_def some_ptk_def)
  have "on_line 0 True (ptk_waiting\<lparr>mtx_depth := 1, sc_link := (sc_link ptk_waiting)\<lparr>sc_cam_q := []\<rparr>\<rparr>)"
    by (simp add: on_line_def ptk_waiting_def softc_zero_def)
  from idle_cam [OF this, of "cop_slot ?op" "cop_type ?op" "cop_keyidx ?op" "cop_group ?op" "cop_peer ?op" "cop_key ?op" "unat (cop_keylen ?op)"]
  have w: "fst (rtw88_cam_write_entry idle_ops (cop_slot ?op) (cop_type ?op) (cop_keyidx ?op) (cop_group ?op) (cop_peer ?op) (cop_key ?op)
      (unat (cop_keylen ?op)) (ptk_waiting\<lparr>mtx_depth := 1, sc_link := (sc_link ptk_waiting)\<lparr>sc_cam_q := []\<rparr>\<rparr>)) = Inr ()" by auto
  have safe: "\<forall>m \<in> set ?ps. eapol_safe plain_tx m" "distinct (map m_id ?ps)"
    using data_mbuf_safe by (simp_all add: eapol_safe_def) (simp add: data_mbuf_def)
  have "released plain_tx None QData ?ps = ?ps" "released plain_tx None QVo ?ps = []"
    using data_mbuf_safe by (simp_all add: released_def tx_dest_def split: if_splits)
  with ptk_install_outcome [OF s(1-3) op s(4) safe run] w s(5-7) run show ?thesis by (auto simp: Let_def)
qed

end
