(* ===== verification/Rtw_Own.thy ===== *)
theory Rtw_Own
  imports Rtw_Cam "HOL-Library.Multiset"
begin

section \<open>Who owns a packet\<close>

text \<open>
  A packet of the transmit path is queued, parked, in flight, or freed. Every operation on the queues and on the two data pipes keeps the
  account: what it takes from one place it puts in another or frees. The management pipe is left out: there the account fails
  when a synchronous transfer comes between (see the theory of the bulk pipes).
\<close>

definition ids :: "mbuf list \<Rightarrow> nat multiset" where
  "ids ms = mset (map m_id ms)"

definition opt_ids :: "mbuf option \<Rightarrow> nat multiset" where
  "opt_ids m = (case m of None \<Rightarrow> {#} | Some x \<Rightarrow> {#m_id x#})"

definition tx_held :: "tx_softc \<Rightarrow> nat multiset" where
  "tx_held t = ids (mq_list (sc_tx_pending_q t)) + ids (mq_list (sc_tx_mgmt_q t)) + ids (mq_list (sc_tx_data_q t))
     + ids (mq_list (sc_tx_data_vo_q t)) + opt_ids (sc_tx_mgmt_inflight t) + opt_ids (sc_tx_data_inflight t)
     + opt_ids (sc_tx_data_vo_inflight t)"

definition held :: "'c softc \<Rightarrow> nat multiset" where
  "held s = tx_held (sc_tx s)"

lemma ids_simps [simp]: "ids [] = {#}" "ids (m # ms) = add_mset (m_id m) (ids ms)" "ids (ms @ ns) = ids ms + ids ns"
  by (simp_all add: ids_def)

lemma opt_ids_simps [simp]: "opt_ids None = {#}" "opt_ids (Some m) = {#m_id m#}"
  by (simp_all add: opt_ids_def)

lemma drop_tx [simp]: "tx_held (tx_drop t) = tx_held t"
  by (simp add: tx_held_def tx_drop_def)

lemma enqueue_on_held:
  "ends (tx_enqueue_on w m) (\<lambda>_ s'. held s' = add_mset (m_id m) (held s)) (\<lambda>_ s'. held s' = held s) s"
  by (cases w) (auto simp: tx_enqueue_on_def ends_simps mbufq_enqueue_def usbd_transfer_start_def upd_tx_def held_def tx_held_def tx_drop_def
      split: option.splits)

lemma park_held: "ends (tx_park m) (\<lambda>_ s'. held s' = add_mset (m_id m) (held s)) (\<lambda>_ s'. held s' = held s) s"
  by (auto simp: tx_park_def ends_simps mbufq_enqueue_def upd_tx_def held_def tx_held_def tx_drop_def split: option.splits)

lemma is_eapol_ends: "ends (is_eapol N d) (\<lambda>v s'. s' = s) (\<lambda>_ s'. s' = s) s"
  by (auto simp: is_eapol_def ends_def tryE_def key_info_pure split: sum.splits)

lemma assert_ends: "ends RTW88_ASSERT_LOCKED (\<lambda>_ s'. s' = s) (\<lambda>_ s'. s' = s) s"
  by (simp add: ends_def RTW88_ASSERT_LOCKED_def)

lemma enqueue_held:
  "ends (rtw88_tx_enqueue_locked N m) (\<lambda>_ s'. held s' = add_mset (m_id m) (held s)) (\<lambda>_ s'. held s' = held s) s"
proof -
  have e: "ends (is_eapol N (m_data m)) (\<lambda>e. ends (tx_enqueue_on (if e \<or> frame_tid (m_data m) \<ge> 4 then QVo else QData) m)
      (\<lambda>_ s'. held s' = add_mset (m_id m) (held s)) (\<lambda>_ s'. held s' = held s)) (\<lambda>_ s'. held s' = held s) s"
    by (rule ends_conseq [OF is_eapol_ends]) (use enqueue_on_held in auto)
  show ?thesis
    unfolding rtw88_tx_enqueue_locked_def Let_def ends_seqE
    by (rule ends_conseq [OF assert_ends]) (use e enqueue_on_held park_held in \<open>auto simp: ends_simps\<close>)
qed

lemma frame_bytes_held: "tx_held (snd (tx_frame_bytes N t m e)) = tx_held t"
  by (simp add: tx_frame_bytes_def Let_def tx_held_def split: prod.split)

lemma set_inflight_held: "tx_inflight w t = None \<Longrightarrow> tx_held (set_inflight w (Some m) t) = add_mset (m_id m) (tx_held t)"
  by (cases w) (simp_all add: tx_held_def)

lemma frame_bytes_inflight: "tx_inflight w (snd (tx_frame_bytes N t m e)) = tx_inflight w t"
  by (cases w) (simp_all add: tx_frame_bytes_def Let_def split: prod.split)

lemma set_q_held:
  assumes "mq_list (tx_q w t) = m # ms"
  shows "add_mset (m_id m) (tx_held (set_tx_q w ((tx_q w t)\<lparr>mq_list := ms\<rparr>) t)) = tx_held t"
  using assms by (cases w) (simp_all add: tx_held_def)

lemma set_q_inflight [simp]: "tx_inflight w (set_tx_q v q t) = tx_inflight w t"
  by (cases w; cases v) simp_all

lemma drain_held:
  assumes "tx_inflight w (sc_tx s) = None"
  shows "ends (rtw88_bulk_tx_drain_q N w) (\<lambda>(_, fs) s'. held s' + ids fs = held s) (\<lambda>_ _. True) s"
proof (cases "mq_list (tx_q w (sc_tx s))")
  case Nil
  then show ?thesis
    unfolding rtw88_bulk_tx_drain_q_def ends_seqE
    by (intro ends_conseq [OF assert_ends]) (auto simp: ends_simps mbufq_dequeue_def)
next
  case (Cons m ms)
  let ?t = "set_tx_q w ((tx_q w (sc_tx s))\<lparr>mq_list := ms\<rparr>) (sc_tx s)"
  have h: "add_mset (m_id m) (tx_held ?t) = held s" using set_q_held [OF Cons] by (simp add: held_def)
  have i: "tx_inflight w ?t = None" using assms by simp
  have b: "tx_held (set_inflight w (Some m) (snd (tx_frame_bytes N ?t x e))) = held s" for x e
    using h i by (simp add: set_inflight_held frame_bytes_inflight frame_bytes_held)
  let ?fl = "length (m_data m) mod 65536"
  have rest: "ends (is_eapol N (m_data m)) (\<lambda>e. ends (tryE (getS (\<lambda>s. tx_frame_bytes N (sc_tx s) (m\<lparr>m_data := take ?fl (m_data m)\<rparr>) e)) (\<lambda>(bytes, t).
      seqE (updS (\<lambda>s. s\<lparr>sc_tx := set_inflight w (Some m) t, sc_tx_buf := bytes @ drop (length bytes) (sc_tx_buf s)\<rparr>)) (ret (Some bytes, []))))
      (\<lambda>(_, fs) s'. held s' + ids fs = held s) (\<lambda>_ _. True)) (\<lambda>_ _. True) (s\<lparr>sc_tx := ?t\<rparr>)"
    by (rule ends_conseq [OF is_eapol_ends]) (simp_all add: ends_simps split_def, simp add: held_def b [unfolded held_def])
  show ?thesis
    unfolding rtw88_bulk_tx_drain_q_def ends_seqE
    by (rule ends_conseq [OF assert_ends])
      (use Cons h rest in \<open>auto simp: ends_tryE ends_seqE ends_value ends_updS mbufq_dequeue_def upd_tx_def Let_def held_def ends_simps(12)\<close>)
qed

lemma finish_held:
  "ends (tx_finish w k) (\<lambda>fs s'. held s' + ids fs = held s \<and> tx_inflight w (sc_tx s') = None) (\<lambda>_ _. True) s"
  by (cases w; cases "tx_inflight w (sc_tx s)") (auto simp: tx_finish_def ends_simps upd_tx_def held_def tx_held_def)

text \<open>The callback of a data pipe. It is set up only when nothing is in flight, and a transfer is not cancelled while the driver is attached.\<close>

definition tx_data_cb :: "'z tx_ops_scheme \<Rightarrow> tx_queue \<Rightarrow> tx_state \<Rightarrow> ('c softc, tx_done) cm" where
  "tx_data_cb N w st = (if w = QVo then rtw88_bulk_tx_data_vo_cb N st else rtw88_bulk_tx_data_be_cb N st)"

lemma data_cb_held:
  assumes "st = TX_SETUP \<Longrightarrow> tx_inflight w (sc_tx s) = None" "w \<noteq> QMgmt"
  shows "ends (tx_data_cb N w st) (\<lambda>(_, fs) s'. held s' + ids fs = held s) (\<lambda>_ _. True) s"
proof -
  have drain: "ends (rtw88_bulk_tx_drain_q N w) (\<lambda>(_, gs) s'. held s' + ids (fs @ gs) = held s) (\<lambda>_ _. True) s1"
    if "held s1 + ids fs = held s" "tx_inflight w (sc_tx s1) = None" for fs s1
    by (rule ends_conseq [OF drain_held [OF that(2)]]) (use that(1) in \<open>auto simp: add.commute [of "ids fs"] simp flip: add.assoc\<close>)
  have fin: "ends (tryE (tx_finish w True) (\<lambda>fs. tryE (rtw88_bulk_tx_drain_q N w) (\<lambda>d. ret (also_frees fs d))))
      (\<lambda>(_, fs) s'. held s' + ids fs = held s) (\<lambda>_ _. True) s"
    unfolding ends_tryE ends_value
    by (rule ends_conseq [OF finish_held], rule ends_conseq [OF drain]) (auto simp: also_frees_def)
  have err: "ends (seqE tx_count_error (tryE (tx_finish w False) (\<lambda>fs. ret (None, fs)))) (\<lambda>(_, fs) s'. held s' + ids fs = held s) (\<lambda>_ _. True) s"
  proof -
    have "held (s\<lparr>sc_stat_tx_errors := c\<rparr>) = held s" for c by (simp add: held_def)
    then show ?thesis
      unfolding ends_tryE ends_seqE ends_value tx_count_error_def ends_updS
      by (intro ends_conseq [OF finish_held]) auto
  qed
  have "w = QData \<or> w = QVo" using assms(2) by (cases w) auto
  then show ?thesis
    using assms(1) fin err drain_held [of w s N]
    by (cases st) (auto simp: tx_data_cb_def rtw88_bulk_tx_data_be_cb_def rtw88_bulk_tx_data_vo_cb_def rtw88_bulk_tx_drain_data_def
        rtw88_bulk_tx_drain_data_vo_def ends_value split: if_splits)
qed

lemma release_one_held:
  "ends (release_one N m) (\<lambda>(fs, _) s'. held s' + ids fs = add_mset (m_id m) (held s) \<and> sc_tx_pending_q (sc_tx s') = sc_tx_pending_q (sc_tx s))
     (\<lambda>_ _. True) s"
proof -
  have id: "m_id (release_m4 N m) = m_id m" by (simp add: release_m4_def split: option.splits)
  have q: "tx_held (set_tx_q w ((tx_q w t)\<lparr>mq_list := mq_list (tx_q w t) @ [x]\<rparr>) t) = add_mset (m_id x) (tx_held t)"
    "sc_tx_pending_q (set_tx_q w y t) = sc_tx_pending_q t" "tx_held (t\<lparr>sc_m4_needs_encap := None\<rparr>) = tx_held t" for w t x y
    by (cases w; simp add: tx_held_def)+
  show ?thesis
    unfolding release_one_def ends_tryE
    by (rule ends_conseq [OF is_eapol_ends])
      (auto simp: ends_simps Let_def upd_tx_def mbufq_enqueue_def held_def q id split: option.splits)
qed

lemma release_all_held:
  fixes s :: "'c softc"
  assumes "mq_list (sc_tx_pending_q (sc_tx s)) = ps"
  shows "ends (release_all N ps) (\<lambda>(fs, _) s'. held s' + ids fs = held s) (\<lambda>_ _. True) s"
  using assms
proof (induction ps arbitrary: s)
  case Nil
  then show ?case by (simp add: ends_simps)
next
  case (Cons m ps)
  let ?s = "s\<lparr>sc_tx := (sc_tx s)\<lparr>sc_tx_pending_q := (sc_tx_pending_q (sc_tx s))\<lparr>mq_list := ps\<rparr>\<rparr>\<rparr>"
  have h: "add_mset (m_id m) (held ?s) = held s" using Cons.prems by (simp add: held_def tx_held_def)
  have rest: "ends (release_all N ps) (\<lambda>(gs, _) s'. held s' + ids (fs @ gs) = held s) (\<lambda>_ _. True) s1"
    if "held s1 + ids fs = held s" "mq_list (sc_tx_pending_q (sc_tx s1)) = ps" for fs and s1 :: "'c softc"
    by (rule ends_conseq [OF Cons.IH [OF that(2)]]) (use that(1) in \<open>auto simp: add.commute [of "ids fs"] simp flip: add.assoc\<close>)
  show ?case
    unfolding release_all.simps upd_tx_def ends_seqE ends_updS ends_tryE
    by (rule ends_conseq [OF release_one_held])
      (use h rest in \<open>auto simp: ends_tryE ends_value split_def\<close>)
qed

text \<open>Whatever state it is in, the transport leaves the softc alone.\<close>

definition any_fault :: "fault \<Rightarrow> bool" where
  "any_fault f \<longleftrightarrow> True"

lemma keeps_more:
  "keeps (\<lambda>s. hw.more s = z) any_fault (rtw88_usb_read4 C a)"
  "keeps (\<lambda>s. hw.more s = z) any_fault (rtw88_usb_write4 C a v)"
  "keeps (\<lambda>s. hw.more s = z) any_fault RTW88_ASSERT_LOCKED"
proof -
  have asrt: "keeps (\<lambda>s. hw.more s = z) any_fault RTW88_ASSERT_LOCKED"
    by (auto simp: keeps_def RTW88_ASSERT_LOCKED_def any_fault_def)
  have ent: "keeps (\<lambda>s. hw.more s = z) any_fault rtw88_usb_io_enter"
    unfolding rtw88_usb_io_enter_def by (intro keeps_seqE asrt) (auto simp: keeps_def any_fault_def)
  have ext: "keeps (\<lambda>s. hw.more s = z) any_fault rtw88_usb_io_exit"
    unfolding rtw88_usb_io_exit_def by (intro keeps_seqE asrt keeps_updS) simp
  have w: "keeps (\<lambda>s. hw.more s = z) any_fault (usbd_write C a bs)" and r: "keeps (\<lambda>s. hw.more s = z) any_fault (usbd_read C a n)" for a bs n
    by (auto simp: keeps_def usbd_write_def usbd_read_def any_fault_def split: prod.splits)
  have sec: "keeps (\<lambda>s. hw.more s = z) any_fault (rtw88_usb_reg_sec C a d)" for a d
    unfolding rtw88_usb_reg_sec_def by (intro keeps_if keeps_ret keeps_discard w)
  show "keeps (\<lambda>s. hw.more s = z) any_fault (rtw88_usb_read4 C a)"
    unfolding rtw88_usb_read4_def rtw88_usb_read_region_def
    by (intro keeps_seqE keeps_tryE keeps_case_option keeps_updS keeps_fail keeps_ret asrt ent ext r sec) (simp_all add: any_fault_def)
  show "keeps (\<lambda>s. hw.more s = z) any_fault (rtw88_usb_write4 C a v)"
    unfolding rtw88_usb_write4_def rtw88_usb_write_region_def
    by (intro keeps_seqE keeps_tryE keeps_getS keeps_if keeps_whenE keeps_updS keeps_fail keeps_ret asrt ent ext w sec) (simp_all add: any_fault_def)
  show "keeps (\<lambda>s. hw.more s = z) any_fault RTW88_ASSERT_LOCKED" by (rule asrt)
qed

lemma keeps_held:
  fixes m :: "('c softc, 'a) cm"
  assumes "\<And>z. keeps (\<lambda>s. hw.more s = z) any_fault m"
  shows "ends m (\<lambda>_ s'. held s' = held s) (\<lambda>_ s'. held s' = held s) s"
  by (rule ends_keeps [OF assms refl]) (drule quiet_softc(4), simp add: held_def)+

lemma cam_held:
  fixes s :: "'c softc"
  shows "ends (rtw88_cam_write_entry C sl ty ki g mac key len) (\<lambda>_ s'. held s' = held s) (\<lambda>_ s'. held s' = held s) s"
    "ends (rtw88_cam_clear_entry C sl) (\<lambda>_ s'. held s' = held s) (\<lambda>_ s'. held s' = held s) s"
  unfolding rtw88_cam_write_entry_def rtw88_cam_clear_entry_def cam_poll_def
  by (rule keeps_held, intro keeps_seqE keeps_forE keeps_steps keeps_ball_Cons keeps_ball_Nil keeps_tryE keeps_pollE keeps_ret keeps_more)+

lemma installed_held:
  fixes s :: "'c softc"
  shows "ends (ptk_installed N) (\<lambda>fs s'. held s' + ids fs = held s) (\<lambda>_ _. True) s"
proof -
  have start: "held (s\<lparr>sc_tx := (sc_tx s)\<lparr>sc_xfer_started := x\<rparr>\<rparr>) = held s" for x and s :: "'c softc" by (simp add: held_def tx_held_def)
  have h: "held (s\<lparr>sc_tx := (sc_tx s)\<lparr>sc_ptk_install_pending := False\<rparr>\<rparr>) = held s" by (simp add: held_def tx_held_def)
  show ?thesis
    unfolding ptk_installed_def upd_tx_def usbd_transfer_start_def ends_seqE ends_updS ends_tryE ends_value
    by (rule ends_conseq [OF release_all_held]) (auto simp: ends_simps start h)
qed

lemma do_op_held:
  fixes s :: "'c softc"
  shows "ends (cam_do_op C N op) (\<lambda>fs s'. held s' + ids fs = held s) (\<lambda>_ _. True) s"
proof (cases "cop_op op")
  case RTW88_CAM_OP_INSTALL
  have "ends (ptk_installed N) (\<lambda>fs s'. held s' + ids fs = held s) (\<lambda>_ _. True) s1" if "held s1 = held s" for s1 :: "'c softc"
    using installed_held [of N s1] that by simp
  then show ?thesis
    unfolding cam_do_op_def RTW88_CAM_OP_INSTALL cam_op_kind.case ends_tryE ends_attempt
    by (intro ends_conseq [OF cam_held(1)]) (auto simp: ends_simps split: fault.splits)
next
  case RTW88_CAM_OP_CLEAR
  then show ?thesis
    unfolding cam_do_op_def RTW88_CAM_OP_CLEAR cam_op_kind.case ends_seqE ends_discard ends_value
    by (intro ends_conseq [OF cam_held(2)]) (auto split: fault.splits)
qed

lemma ops_held:
  fixes s :: "'c softc"
  shows "ends (cam_do_ops C N ops) (\<lambda>fs s'. held s' + ids fs = held s) (\<lambda>_ _. True) s"
proof (induction ops arbitrary: s)
  case Nil
  then show ?case by (simp add: ends_simps)
next
  case (Cons op ops)
  have rest: "ends (cam_do_ops C N ops) (\<lambda>gs s'. held s' + ids (fs @ gs) = held s) (\<lambda>_ _. True) s1"
    if "held s1 + ids fs = held s" for fs and s1 :: "'c softc"
    by (rule ends_conseq [OF Cons.IH]) (use that(1) in \<open>auto simp: add.commute [of "ids fs"] simp flip: add.assoc\<close>)
  show ?case
    unfolding cam_do_ops.simps ends_tryE ends_value
    by (rule ends_conseq [OF do_op_held]) (use rest in auto)
qed

lemma lock_held:
  fixes s :: "'c softc"
  shows "ends RTW88_LOCK (\<lambda>_ s'. held s' = held s) (\<lambda>_ _. True) s" "ends RTW88_UNLOCK (\<lambda>_ s'. held s' = held s) (\<lambda>_ _. True) s"
  by (auto simp: ends_def RTW88_LOCK_def RTW88_UNLOCK_def held_def)

lemma task_held:
  fixes s :: "'c softc"
  shows "ends (rtw88_cam_task C N) (\<lambda>fs s'. held s' + ids fs = held s) (\<lambda>_ _. True) s"
proof -
  have un: "ends RTW88_UNLOCK (\<lambda>_ s'. held s' + ids fs = held s) (\<lambda>_ _. True) s2" if "held s2 + ids fs = held s" for fs and s2 :: "'c softc"
    by (rule ends_conseq [OF lock_held(2)]) (use that in auto)
  have "ends (cam_do_ops C N ops) (\<lambda>fs. ends RTW88_UNLOCK (\<lambda>_ s'. held s' + ids fs = held s) (\<lambda>_ _. True)) (\<lambda>_ _. True) (s1\<lparr>sc_link := l\<rparr>)"
    if "held s1 = held s" for ops l and s1 :: "'c softc"
    by (rule ends_conseq [OF ops_held]) (use that un in \<open>auto simp: held_def\<close>)
  then show ?thesis
    unfolding rtw88_cam_task_def upd_link_def ends_seqE ends_tryE ends_value ends_updS
    by (intro ends_conseq [OF lock_held(1)]) auto
qed

lemma tx_enqueue_held:
  fixes s :: "'c softc"
  shows "ends (tx_enqueue N m) (\<lambda>_ s'. held s' = add_mset (m_id m) (held s)) (\<lambda>e s'. is_errno e \<longrightarrow> held s' = held s) s"
proof -
  have un: "ends (seqE RTW88_UNLOCK (case r of Inl e \<Rightarrow> fail (Errno e) | Inr _ \<Rightarrow> ret ()))
      (\<lambda>_ s'. held s' = add_mset (m_id m) (held s)) (\<lambda>e s'. is_errno e \<longrightarrow> held s' = held s) s2"
    if "held s2 = (case r of Inl _ \<Rightarrow> held s | Inr _ \<Rightarrow> add_mset (m_id m) (held s))" for r :: "errno + unit" and s2 :: "'c softc"
  proof -
    have "ends RTW88_UNLOCK (\<lambda>_ s'. held s' = held s2) (\<lambda>e _. \<not> is_errno e) s2"
      by (auto simp: ends_def RTW88_UNLOCK_def held_def)
    then show ?thesis unfolding ends_seqE by (rule ends_conseq) (use that in \<open>auto simp: ends_value split: sum.splits\<close>)
  qed
  have lock: "ends RTW88_LOCK (\<lambda>_ s'. held s' = held s) (\<lambda>e _. \<not> is_errno e) s"
    by (auto simp: ends_def RTW88_LOCK_def held_def)
  have enq: "ends (rtw88_tx_enqueue_locked N m) (\<lambda>_ s'. held s' = add_mset (m_id m) (held s)) (\<lambda>_ s'. held s' = held s) s1"
    if "held s1 = held s" for s1 :: "'c softc"
    using enqueue_held [of N m s1] that by simp
  have att: "ends (attempt (rtw88_tx_enqueue_locked N m)) (\<lambda>r. ends (seqE RTW88_UNLOCK (case r of Inl e \<Rightarrow> fail (Errno e) | Inr _ \<Rightarrow> ret ()))
      (\<lambda>_ s'. held s' = add_mset (m_id m) (held s)) (\<lambda>e s'. is_errno e \<longrightarrow> held s' = held s)) (\<lambda>e s'. is_errno e \<longrightarrow> held s' = held s) s1"
    if "held s1 = held s" for s1 :: "'c softc"
  proof -
    note unl = un [where r = "Inl x" for x, simplified]
    show ?thesis
      unfolding ends_attempt
      by (rule ends_conseq [OF enq [OF that]], rule un, simp) (auto split: fault.splits intro: unl)
  qed
  show ?thesis
    unfolding tx_enqueue_def ends_seqE [of RTW88_LOCK] ends_tryE [of "attempt _"]
    by (rule ends_conseq [OF lock]) (use att in auto)
qed

text \<open>The USB stack takes the mutex around a callback.\<close>

definition usb_callback :: "('c softc, 'a) cm \<Rightarrow> ('c softc, 'a) cm" where
  "usb_callback m = seqE RTW88_LOCK (tryE m (\<lambda>v. seqE RTW88_UNLOCK (ret v)))"

lemma callback_held:
  fixes s :: "'c softc"
  assumes "st = TX_SETUP \<Longrightarrow> tx_inflight w (sc_tx s) = None" "w \<noteq> QMgmt"
  shows "ends (usb_callback (tx_data_cb N w st)) (\<lambda>(_, fs) s'. held s' + ids fs = held s) (\<lambda>_ _. True) s"
proof -
  have lock: "ends RTW88_LOCK (\<lambda>_ s'. sc_tx s' = sc_tx s) (\<lambda>_ _. True) s" by (auto simp: ends_def RTW88_LOCK_def)
  have un: "ends RTW88_UNLOCK (\<lambda>_. case d of (_, fs) \<Rightarrow> \<lambda>s'. held s' + ids fs = held s) (\<lambda>_ _. True) s2"
    if "(case d of (_, fs) \<Rightarrow> \<lambda>s'. held s' + ids fs = held s) s2" for d :: tx_done and s2 :: "'c softc"
    by (rule ends_conseq [OF lock_held(2)]) (use that in \<open>auto split: prod.splits\<close>)
  have "ends (tx_data_cb N w st) (\<lambda>d. ends RTW88_UNLOCK (\<lambda>_. case d of (_, fs) \<Rightarrow> \<lambda>s'. held s' + ids fs = held s) (\<lambda>_ _. True)) (\<lambda>_ _. True) s1"
    if "sc_tx s1 = sc_tx s" for s1 :: "'c softc"
    by (rule ends_conseq [OF data_cb_held], use that assms in simp_all, rule un) (simp add: held_def that split: prod.splits)
  then show ?thesis
    unfolding usb_callback_def ends_seqE ends_tryE ends_value by (intro ends_conseq [OF lock]) auto
qed

text \<open>A history of the transmit path: frames offered, callbacks of the data pipes, runs of the key task. A frame is accepted when no error is returned; otherwise its owner frees it.\<close>

datatype tx_act = ActSend mbuf | ActPipe tx_queue tx_state | ActKeys

fun tx_do :: "'c chip_ops \<Rightarrow> 'z tx_ops_scheme \<Rightarrow> tx_act \<Rightarrow> 'c softc \<Rightarrow> (mbuf list \<times> mbuf list \<times> 'c softc) option" where
  "tx_do C N (ActSend m) s = (case tx_enqueue N m s of
     (Inr _, s') \<Rightarrow> Some ([m], [], s') | (Inl (Errno _), s') \<Rightarrow> Some ([], [], s') | _ \<Rightarrow> None)"
| "tx_do C N (ActPipe w st) s = (if w = QMgmt \<or> st = TX_SETUP \<and> tx_inflight w (sc_tx s) \<noteq> None then None
     else case usb_callback (tx_data_cb N w st) s of (Inr (_, fs), s') \<Rightarrow> Some ([], fs, s') | _ \<Rightarrow> None)"
| "tx_do C N ActKeys s = (case rtw88_cam_task C N s of (Inr fs, s') \<Rightarrow> Some ([], fs, s') | _ \<Rightarrow> None)"

fun tx_history :: "'c chip_ops \<Rightarrow> 'z tx_ops_scheme \<Rightarrow> tx_act list \<Rightarrow> 'c softc \<Rightarrow> (mbuf list \<times> mbuf list \<times> 'c softc) option" where
  "tx_history C N [] s = Some ([], [], s)"
| "tx_history C N (a # as) s = Option.bind (tx_do C N a s) (\<lambda>(gs, fs, s1).
     Option.bind (tx_history C N as s1) (\<lambda>(gs', fs', s'). Some (gs @ gs', fs @ fs', s')))"

lemma tx_do_held: "tx_do C N a s = Some (gs, fs, s') \<Longrightarrow> held s' + ids fs = held s + ids gs"
proof (cases a)
  case (ActSend m)
  assume "tx_do C N a s = Some (gs, fs, s')"
  then show ?thesis using tx_enqueue_held [of N m s] ActSend
    by (auto simp: ends_def split: prod.splits sum.splits fault.splits)
next
  case (ActPipe w st)
  assume "tx_do C N a s = Some (gs, fs, s')"
  then show ?thesis using callback_held [of st w s N] ActPipe
    by (auto simp: ends_def split: if_splits prod.splits sum.splits)
next
  case ActKeys
  assume "tx_do C N a s = Some (gs, fs, s')"
  then show ?thesis using task_held [of C N s] ActKeys
    by (auto simp: ends_def split: prod.splits sum.splits)
qed

text \<open>C6. No packet of the data path is lost, freed twice or freed while it is in use. Over any history of frames offered, callbacks of the two data pipes
  and runs of the key task, on any device and whatever the kernel answers, the packets held (queued, parked or in flight) and those freed
  at the end are, counted with multiplicity, those held at the beginning and those accepted.\<close>
theorem packets_conserved:
  assumes "tx_history C N as s = Some (accepted, freed, s')"
  shows "held s' + ids freed = held s + ids accepted"
  using assms
proof (induction "as" arbitrary: s accepted freed)
  case Nil
  then show ?case by simp
next
  case (Cons a "as")
  then obtain gs fs s1 gs' fs' where 1: "tx_do C N a s = Some (gs, fs, s1)" "tx_history C N as s1 = Some (gs', fs', s')"
    and eq: "accepted = gs @ gs'" "freed = fs @ fs'" by (auto simp: bind_eq_Some_conv)
  from tx_do_held [OF 1(1)] have h: "held s1 + ids fs = held s + ids gs" .
  have "held s' + ids fs' + ids fs = held s1 + ids gs' + ids fs" using Cons.IH [OF 1(2)] by simp
  also have "\<dots> = held s + ids gs + ids gs'" using h by (metis add.assoc add.commute)
  finally show ?case by (simp add: eq ac_simps)
qed

text \<open>The theorem applied to a frame that is offered, sent and completed.\<close>

lemma frame_bytes_queue: "sc_tx_data_q (snd (tx_frame_bytes N t m e)) = sc_tx_data_q t"
  by (simp add: tx_frame_bytes_def Let_def split: prod.split)

lemma pipe_setup:
  assumes "mtx_depth s = 0" "mq_list (sc_tx_data_q (sc_tx s)) = [m]" "length (m_data m) < 39" "m_data m \<noteq> []"
  shows "\<exists>b s'. usb_callback (tx_data_cb N QData TX_SETUP) s = (Inr (Some b, []), s') \<and> mtx_depth s' = 0 \<and>
    mq_list (sc_tx_data_q (sc_tx s')) = [] \<and> sc_tx_data_inflight (sc_tx s') = Some m"
proof -
  have e: "is_eapol N (m_data m) s' = (Inr False, s')" for s' :: "'a softc"
    using assms(3) by (simp add: is_eapol_def rtw88_eapol_key_info_def tryE_def)
  have "length (m_data m) mod 65536 = length (m_data m)" using assms(3) by simp
  then show ?thesis
    using assms by (auto simp: usb_callback_def tx_data_cb_def rtw88_bulk_tx_data_be_cb_def rtw88_bulk_tx_drain_data_def rtw88_bulk_tx_drain_q_def
      mbufq_dequeue_def RTW88_LOCK_def RTW88_UNLOCK_def RTW88_ASSERT_LOCKED_def upd_tx_def e seqE_def tryE_def split_def frame_bytes_queue)
qed

lemma pipe_done:
  assumes "mtx_depth s = 0" "mq_list (sc_tx_data_q (sc_tx s)) = []" "sc_tx_data_inflight (sc_tx s) = Some m"
  shows "\<exists>s'. usb_callback (tx_data_cb N QData TX_TRANSFERRED) s = (Inr (None, [m]), s')"
  using assms by (simp add: usb_callback_def tx_data_cb_def rtw88_bulk_tx_data_be_cb_def rtw88_bulk_tx_drain_data_def drain_empty tx_finish_def
      RTW88_LOCK_def RTW88_UNLOCK_def upd_tx_def also_frees_def seqE_def tryE_def)

theorem packets_conserved_witness:
  "\<exists>s'. tx_history idle_ops plain_tx [ActSend data_mbuf, ActPipe QData TX_SETUP, ActPipe QData TX_TRANSFERRED] (softc_zero () 0 True) =
       Some ([data_mbuf], [data_mbuf], s') \<and> held s' = {#}"
proof -
  let ?s = "softc_zero () 0 True"
  have len: "length (m_data data_mbuf) = 30" by (simp add: data_mbuf_def)
  have d: "frame_is_data (m_data data_mbuf)" "frame_tid (m_data data_mbuf) = 0" by code_simp+
  have e: "is_eapol plain_tx (m_data data_mbuf) s = (Inr False, s)" for s :: "unit softc"
    using len by (simp add: is_eapol_def rtw88_eapol_key_info_def tryE_def)
  have m: "m_data data_mbuf \<noteq> []" "length (m_data data_mbuf) < 39" using len by auto
  obtain s1 where s1: "tx_enqueue plain_tx data_mbuf ?s = (Inr (), s1)" "mtx_depth s1 = 0" "mq_list (sc_tx_data_q (sc_tx s1)) = [data_mbuf]"
    "sc_tx_data_inflight (sc_tx s1) = None"
    using m by (simp add: softc_zero_def tx_zero_def mbufq_init_def tx_enqueue_def rtw88_tx_enqueue_locked_def tx_enqueue_on_def mbufq_enqueue_def
        RTW88_LOCK_def RTW88_UNLOCK_def RTW88_ASSERT_LOCKED_def upd_tx_def usbd_transfer_start_def attempt_def seqE_def tryE_def Let_def len d e)
  obtain b s2 where s2: "usb_callback (tx_data_cb plain_tx QData TX_SETUP) s1 = (Inr (Some b, []), s2)" "mtx_depth s2 = 0"
    "mq_list (sc_tx_data_q (sc_tx s2)) = []" "sc_tx_data_inflight (sc_tx s2) = Some data_mbuf"
    using pipe_setup [OF s1(2,3) m(2,1), of plain_tx] by blast
  obtain s3 where s3: "usb_callback (tx_data_cb plain_tx QData TX_TRANSFERRED) s2 = (Inr (None, [data_mbuf]), s3)"
    using pipe_done [OF s2(2-4)] by blast
  have run: "tx_history idle_ops plain_tx [ActSend data_mbuf, ActPipe QData TX_SETUP, ActPipe QData TX_TRANSFERRED] ?s =
      Some ([data_mbuf], [data_mbuf], s3)"
    using s1(1,4) s2(1) s3 by simp
  from packets_conserved [OF run] have "held s3 = held ?s" by (simp add: ids_def)
  also have "held ?s = {#}" by (simp add: held_def tx_held_def softc_zero_def tx_zero_def mbufq_init_def)
  finally show ?thesis using run by blast
qed

subsection \<open>The mark for message 4\<close>

text \<open>
  A message 4 that the cipher refuses is marked and then offered to the parking queue. If that queue is full the frame is refused
  and freed by its owner, but the mark stays: it names a packet that nobody holds, and a later packet at its address would be taken for message 4.
\<close>

lemma m4_mark_dangles:
  fixes s :: "'c softc"
  assumes "mtx_depth s = 0" "\<not> sc_eapol_qos_upgrade (sc_tx s)" "sc_m4_needs_encap (sc_tx s) = None"
    "mq_maxlen (sc_tx_pending_q (sc_tx s)) \<le> length (mq_list (sc_tx_pending_q (sc_tx s)))"
    and m: "m_node m = Some ni" "eapol_of N (m_data m) = Inr (Some k)" "is_m4_info k" "\<not> frame_protected (m_data m)"
      "frame_is_data (m_data m)" "\<not> frame_bcast (m_data m)" "24 \<le> length (m_data m)" "length (m_data m) + 48 \<le> 16384"
      "ieee80211_crypto_encap N ni (set_protected True (m_data m)) = None"
  shows "\<exists>s'. rtw88_transmit C N m s = (Inl (Errno ENOBUFS), s') \<and> held s' = held s \<and> sc_m4_needs_encap (sc_tx s') = Some (m_id m)"
proof -
  let ?p = "set_protected True (m_data m)"
  have l: "length ?p = length (m_data m)" by (simp add: set_protected_def)
  have f: "frame_is_data ?p" "\<not> frame_bcast ?p" using m(5,6) by (simp_all add: set_protected_def frame_is_data_def frame_bcast_def at_update)
  have "at ?p 1 = at (m_data m) 1 OR 0x40" using m(7) by (simp add: set_protected_def at_update)
  then have pr: "frame_protected ?p" by (simp add: frame_protected_def bit.conj_disj_distrib2)
  let ?s = "s\<lparr>sc_tx := (sc_tx s)\<lparr>sc_m4_needs_encap := Some (m_id m), sc_ptk_install_pending := True\<rparr>\<rparr>"
  have enc: "rtw88_crypto_encap_if_needed N m s = (Inr (m\<lparr>m_data := ?p\<rparr>), ?s)"
    using m assms(1,3) by (simp add: rtw88_crypto_encap_if_needed_def tryE_def key_info_pure m4_defer_def RTW88_LOCK_def RTW88_UNLOCK_def
        upd_tx_def seqE_def Let_def)
  have enq: "tx_enqueue N (m\<lparr>m_data := ?p\<rparr>) ?s = (Inl (Errno ENOBUFS), ?s\<lparr>sc_tx := tx_drop (sc_tx ?s)\<rparr>)"
  proof -
    have "length (m_data m) \<noteq> 0" "length (m_data m) \<le> 65535" "m_data m \<noteq> []" using m(7,8) by auto
    then show ?thesis
      using m(7,8) f pr l assms(1,4)
      by (simp add: tx_enqueue_def rtw88_tx_enqueue_locked_def tx_park_def mbufq_enqueue_def RTW88_LOCK_def RTW88_UNLOCK_def
          RTW88_ASSERT_LOCKED_def attempt_def upd_tx_def seqE_def tryE_def Let_def flip: length_0_conv)
  qed
  have log: "rtw88_eapol_log C (net_of N) (m_data m) False s = (Inr (), s)"
    using m(2) by (simp add: rtw88_eapol_log_def tryE_def key_info_pure whenE_def)
  have up: "rtw88_maybe_upgrade_eapol_qos N m s = (Inr (Some m), s)"
    using assms(2) by (simp add: rtw88_maybe_upgrade_eapol_qos_def)
  show ?thesis
    using log up enc enq by (simp add: rtw88_transmit_def seqE_def tryE_def held_def tx_held_def tx_drop_def)
qed

end
