(* ===== verification/Rtw_Bf.thy ===== *)
theory Rtw_Bf
  imports Rtw_Debug
begin

section \<open>Beamforming\<close>

text \<open>
  \<^verbatim>\<open>rtw88_bf.c\<close>: the record of the peer that may steer its frames to us. No register is written. The
  chip description is the pointer \<^verbatim>\<open>d->ci\<close>; the code looks at it only when the subsystem is attached.
\<close>

definition HT_CAP_TXBF_EXPLICIT_COMP_FB :: u32 where
  "HT_CAP_TXBF_EXPLICIT_COMP_FB = push_bit 20 1"

definition VHT_CAP_SU_BEAMFORMER :: u32 where
  "VHT_CAP_SU_BEAMFORMER = push_bit 11 1"

definition rtw88_bf_attach :: "'w rtw88_dev \<Rightarrow> 'w rtw88_dev" where
  "rtw88_bf_attach d = d\<lparr>dev_bf := \<lparr>bf_attached = True, bf_su_active = False, bf_mu_active = False,
     bf_peer_mac = replicate 6 0, bf_paid = 0, bf_gid = 0\<rparr>\<rparr>"

definition bf_ap_has_txbf :: "u32 \<Rightarrow> u32 \<Rightarrow> bool" where
  "bf_ap_has_txbf htcap vhtcap \<longleftrightarrow>
     htcap AND HT_CAP_TXBF_EXPLICIT_COMP_FB \<noteq> 0 \<or> vhtcap AND VHT_CAP_SU_BEAMFORMER \<noteq> 0"

definition bf_peer_set :: "u8 list \<Rightarrow> u16 \<Rightarrow> rtw88_bf_state \<Rightarrow> rtw88_bf_state" where
  "bf_peer_set peer_mac aid b = b\<lparr>bf_peer_mac := take 6 peer_mac, bf_paid := aid AND 0x1ff,
     bf_gid := 0, bf_su_active := True\<rparr>"

definition rtw88_bf_assoc :: "'w chip_info option \<Rightarrow> u8 list \<Rightarrow> u32 \<Rightarrow> u32 \<Rightarrow> u16 \<Rightarrow>
    ('w rtw88_dev, unit) cm" where
  "rtw88_bf_assoc ci peer_mac htcap vhtcap aid = tryE (getS dev_bf) (\<lambda>b.
     if \<not> bf_attached b then ret ()
     else tryE (deref_chip ci) (\<lambda>c.
       if \<not> bf_su_supported c then ret ()
       else if \<not> bf_ap_has_txbf htcap vhtcap then
         updS (\<lambda>d. d\<lparr>dev_bf := (dev_bf d)\<lparr>bf_su_active := False\<rparr>\<rparr>)
       else updS (\<lambda>d. rtw88_debug_inc RTW88_DBG_CNT_BF_ASSOC
              (d\<lparr>dev_bf := bf_peer_set peer_mac aid (dev_bf d)\<rparr>))))"

definition rtw88_bf_disassoc :: "'w rtw88_dev \<Rightarrow> 'w rtw88_dev" where
  "rtw88_bf_disassoc d = (if \<not> bf_attached (dev_bf d) then d
     else d\<lparr>dev_bf := (dev_bf d)\<lparr>bf_su_active := False, bf_mu_active := False, bf_paid := 0,
            bf_gid := 0\<rparr>\<rparr>)"

subsection \<open>The steering peer\<close>

text \<open>
  The events of the life of the station and what they mean: the abstract state is the peer allowed to
  steer, if any. A peer without either capability, and leaving the network, end it.
\<close>

datatype bf_event = BfAssoc "u8 list" u32 u32 u16 | BfDisassoc

primrec bf_event_run :: "'w chip_info \<Rightarrow> bf_event \<Rightarrow> 'w rtw88_dev \<Rightarrow> 'w rtw88_dev" where
  "bf_event_run ci (BfAssoc mac ht vht aid) d = snd (rtw88_bf_assoc (Some ci) mac ht vht aid d)"
| "bf_event_run ci BfDisassoc d = rtw88_bf_disassoc d"

definition bf_run :: "'w chip_info \<Rightarrow> bf_event list \<Rightarrow> 'w rtw88_dev \<Rightarrow> 'w rtw88_dev" where
  "bf_run ci evs d = fold (bf_event_run ci) evs d"

primrec bf_peer_step :: "bool \<Rightarrow> bf_event \<Rightarrow> (u8 list \<times> u16) option \<Rightarrow> (u8 list \<times> u16) option" where
  "bf_peer_step su (BfAssoc mac ht vht aid) p =
     (if su \<and> bf_ap_has_txbf ht vht then Some (take 6 mac, aid AND 0x1ff) else None)"
| "bf_peer_step su BfDisassoc p = None"

definition bf_steering_peer :: "bool \<Rightarrow> bf_event list \<Rightarrow> (u8 list \<times> u16) option" where
  "bf_steering_peer su evs = fold (bf_peer_step su) evs None"

definition bf_abs :: "rtw88_bf_state \<Rightarrow> (u8 list \<times> u16) option" where
  "bf_abs b = (if bf_su_active b then Some (bf_peer_mac b, bf_paid b) else None)"

text \<open>The state after attach, kept by every event.\<close>

definition bf_inv :: "'w chip_info \<Rightarrow> rtw88_bf_state \<Rightarrow> bool" where
  "bf_inv ci b \<longleftrightarrow> bf_attached b \<and> \<not> bf_mu_active b \<and> bf_gid b = 0 \<and> unat (bf_paid b) < 512 \<and>
     (bf_su_active b \<longrightarrow> bf_su_supported ci)"

lemma paid_bound: "unat (aid AND 0x1ff :: u16) < 512"
proof -
  have "unat (aid AND 0x1ff) \<le> unat (0x1ff :: u16)"
    by (rule word_le_nat_alt [THEN iffD1]) (simp add: word_and_le1)
  then show ?thesis by simp
qed

lemma bf_assoc_run:
  "bf_attached (dev_bf d) \<Longrightarrow> rtw88_bf_assoc (Some ci) mac ht vht aid d = (Inr (),
     if \<not> bf_su_supported ci then d
     else if \<not> bf_ap_has_txbf ht vht then d\<lparr>dev_bf := (dev_bf d)\<lparr>bf_su_active := False\<rparr>\<rparr>
     else rtw88_debug_inc RTW88_DBG_CNT_BF_ASSOC (d\<lparr>dev_bf := bf_peer_set mac aid (dev_bf d)\<rparr>))"
  by (simp add: rtw88_bf_assoc_def deref_chip_def tryE_def)

lemma bf_event_refines:
  assumes "bf_inv ci (dev_bf d)"
  shows "bf_inv ci (dev_bf (bf_event_run ci ev d)) \<and>
    bf_abs (dev_bf (bf_event_run ci ev d)) = bf_peer_step (bf_su_supported ci) ev (bf_abs (dev_bf d))"
proof (cases ev)
  case (BfAssoc mac ht vht aid)
  from assms have "bf_attached (dev_bf d)" by (simp add: bf_inv_def)
  from bf_assoc_run [OF this, of ci mac ht vht aid] assms BfAssoc paid_bound [of aid] show ?thesis
    by (auto simp: bf_inv_def bf_abs_def bf_peer_set_def)
next
  case BfDisassoc
  with assms show ?thesis by (simp add: rtw88_bf_disassoc_def bf_inv_def bf_abs_def)
qed

lemma bf_run_refines:
  "bf_inv ci (dev_bf d) \<Longrightarrow> bf_inv ci (dev_bf (bf_run ci evs d)) \<and>
    bf_abs (dev_bf (bf_run ci evs d)) =
      fold (bf_peer_step (bf_su_supported ci)) evs (bf_abs (dev_bf d))"
proof (induction evs arbitrary: d)
  case Nil
  then show ?case by (simp add: bf_run_def)
next
  case (Cons ev evs)
  from bf_event_refines [OF Cons.prems, of ev] Cons.IH [of "bf_event_run ci ev d"]
  show ?case by (simp add: bf_run_def)
qed

text \<open>C40. After attach and any sequence of associations and disassociations, the driver believes that a
  peer may steer to it exactly when the last event was an association with a
  capable peer on a chip that supports it; then it has that peer's address and partial AID. Multi-user steering
  is never on, the group id stays 0 and the partial AID is a nine-bit value.\<close>
theorem bf_tracks_peer:
  "let b = dev_bf (bf_run ci evs (rtw88_bf_attach d)) in
     bf_abs b = bf_steering_peer (bf_su_supported ci) evs \<and>
     bf_attached b \<and> \<not> bf_mu_active b \<and> bf_gid b = 0 \<and> unat (bf_paid b) < 512"
proof -
  have "bf_inv ci (dev_bf (rtw88_bf_attach d))"
    by (simp add: bf_inv_def rtw88_bf_attach_def)
  from bf_run_refines [OF this, of evs] show ?thesis
    by (simp add: Let_def bf_inv_def bf_steering_peer_def) (simp add: bf_abs_def rtw88_bf_attach_def)
qed

end
