(* ===== verification/Rtw_Link.thy ===== *)
theory Rtw_Link
  imports Rtw_Own Rtw_Bf
begin

section \<open>The link: state changes, the task behind them, channels and interfaces\<close>

text \<open>
  The hooks of \<^verbatim>\<open>if_rtw88_usb.c\<close> that net80211 calls when the station's state changes, and the task that does their work
  later. A hook may not wait for the bus, so it leaves a request in \<^verbatim>\<open>sc_post_state_ops\<close> and its operands beside it; \<^verbatim>\<open>rtw88_post_state_task\<close>
  takes the request and carries it out. The state is the handle \<^verbatim>\<open>sc_rtwdev\<close> whose \<open>priv\<close> is the softc, since the link also moves the
  beamforming and coexistence records. The task gives what it does to the rest of the kernel: whether it arms the keep-alive
  callout, and the packets it frees.
\<close>

lemma ends_on_priv [ends_simps]:
  "ends (on_priv m) Q E d \<longleftrightarrow> ends m (\<lambda>v w. Q v (d\<lparr>priv := w\<rparr>)) (\<lambda>e w. E e (d\<lparr>priv := w\<rparr>)) (priv d)"
  by (auto simp: ends_def on_priv_def split: prod.splits sum.splits)

subsection \<open>The task\<close>

text \<open>The rate table and the masks of rates for a band and a kind of network: 5 GHz or not, HT or not.\<close>

fun link_rates :: "bool \<Rightarrow> bool \<Rightarrow> u8 \<times> u32 \<times> u32" where
  "link_rates True ht_link =
     (if ht_link then RTW88_RATEID_GN_N1SS else RTW88_RATEID_G,
      if ht_link then RTW88_DEFAULT_RA_MASK_5G_GN_1SS else RTW88_DEFAULT_RA_MASK_5G_G,
      if ht_link then RTW88_TIGHTEN_RA_MASK_5G_GN_1SS else 0)"
| "link_rates False ht_link =
     (if ht_link then RTW88_RATEID_BGN_20M_1SS else RTW88_RATEID_BG,
      if ht_link then RTW88_DEFAULT_RA_MASK_2G_BGN_1SS else RTW88_DEFAULT_RA_MASK_2G_BG,
      if ht_link then RTW88_TIGHTEN_RA_MASK_2G_BGN_1SS else 0)"

definition linked_cr :: "u32 \<Rightarrow> u32" where
  "linked_cr cr = (cr AND NOT 0x30000) OR push_bit 16 RTW88_NET_MGD_LINKED"

definition post_bssid :: "'c chip_ops \<Rightarrow> u8 list \<Rightarrow> ('c softc, unit) cm" where
  "post_bssid C bssid =
     seqE (forE (\<lambda>i. discard (rtw88_usb_write1 C (REG_BSSID0 + of_nat i) (at bssid i))) [0..<6])
      (forE (\<lambda>i. tryE (getS (sc_mac \<circ> sc_phy)) (\<lambda>mac. discard (rtw88_usb_write1 C (REG_MACID0 + of_nat i) (at mac i)))) [0..<6])"

definition unless_skip :: "u16 \<Rightarrow> ('c softc, unit) cm \<Rightarrow> ('c softc, unit) cm" where
  "unless_skip b m = tryE (getS (sc_linkup_skip \<circ> sc_link)) (\<lambda>k. whenE (k AND b = 0) m)"

definition link_ra :: "bool \<Rightarrow> u8 \<Rightarrow> u32 \<Rightarrow> ra_params" where
  "link_ra sgi rate_id msk = \<lparr>ra_mac_id = 0, ra_rate_id = rate_id, ra_bw_mode = 0, ra_init_lvl = 1, ra_sgi = sgi,
     ra_ldpc = False, ra_vht = 0, ra_no_update = False, ra_rate_mask = msk\<rparr>"

text \<open>The first half of coming up: the network type, the association id and the rates. It gives the short-guard flag and the mask.\<close>

definition link_up_mac :: "'c chip_ops \<Rightarrow> ('c softc, bool \<times> u32) cm" where
  "link_up_mac C =
     tryE (getS (sc_post_state_aid \<circ> sc_link)) (\<lambda>aid.
     seqE (tryE (getS (sc_linkup_iqk \<circ> sc_link)) (\<lambda>iqk. whenE iqk (discard (rtw88_phy_calibration C))))
     (seqE (tryE (attempt (rtw88_usb_read4 C REG_CR)) (\<lambda>r. case r of
        Inl _ \<Rightarrow> ret () | Inr cr \<Rightarrow> discard (rtw88_usb_write4 C REG_CR (linked_cr cr))))
     (seqE (discard (rtw88_usb_write2 C REG_AID aid))
     (tryE (getS sc_link) (\<lambda>l. case link_rates (sc_post_state_5ghz l) (sc_post_state_ht l) of (rate_id, msk, tighten) \<Rightarrow>
      seqE (upd_tx (\<lambda>t. t\<lparr>sc_rate_id := rate_id\<rparr>))
      (seqE (upd_link (\<lambda>l. l\<lparr>sc_ra_tighten_mask := tighten\<rparr>))
      (ret (sc_post_state_sgi l, msk))))))))"

text \<open>The second half: the commands to the firmware, each behind its bit of \<^verbatim>\<open>sc_linkup_skip\<close>, and the EDCA parameters of net80211.\<close>

definition link_up_commands :: "'c chip_ops \<Rightarrow> (nat \<Rightarrow> wmeParams) \<Rightarrow> u8 list \<Rightarrow> bool \<times> u32 \<Rightarrow> ('c softc, bool) cm" where
  "link_up_commands C wme bssid = (\<lambda>(ra_sgi, msk).
     seqE (unless_skip 0x01 (tryE (getS (sc_rate_id \<circ> sc_tx)) (\<lambda>rate_id. discard (rtw88_h2c_ra_info C (link_ra ra_sgi rate_id msk)))))
     (seqE (unless_skip 0x02 (discard (rtw88_h2c_media_status_report C 0 True)))
     (seqE (unless_skip 0x04 (discard (rtw88_h2c_pwr_mode_active_usb C)))
     (tryE (tryE (getS (sc_linkup_skip \<circ> sc_link)) (\<lambda>k. if k AND 0x08 = 0 then rtw88_fwka_start else ret False)) (\<lambda>armed.
      seqE (unless_skip 0x10 (seqE (discard (rtw88_upload_rsvd_pages C bssid)) (discard (rtw88_h2c_rsvd_page C))))
      (seqE (unless_skip 0x40 (discard (rtw88_h2c_default_port C 0 0)))
      (seqE (unless_skip 0x80 (discard (rtw88_conf_tx_all_ac_locked C wme)))
      (ret armed))))))))"

definition post_link_up :: "'c chip_ops \<Rightarrow> 'c softc chip_info option \<Rightarrow> (nat \<Rightarrow> wmeParams) \<Rightarrow> u8 list \<Rightarrow> ('c softc rtw88_dev, bool) cm" where
  "post_link_up C ch wme bssid =
     tryE (on_priv (link_up_mac C)) (\<lambda>p.
     seqE (discard (rtw88_coex_link_up (rtw88_usb_hci_ops C) ch))
     (on_priv (link_up_commands C wme bssid p)))"

definition link_down_tx :: "tx_softc \<Rightarrow> tx_softc" where
  "link_down_tx t = t\<lparr>sc_ptk_install_pending := False, sc_tx_pending_q := mbufq_drain (sc_tx_pending_q t), sc_m4_needs_encap := None,
     sc_tx_data_q := mbufq_drain (sc_tx_data_q t), sc_tx_data_vo_q := mbufq_drain (sc_tx_data_vo_q t)\<rparr>"

definition link_down_freed :: "tx_softc \<Rightarrow> mbuf list" where
  "link_down_freed t = mq_list (sc_tx_pending_q t) @ mq_list (sc_tx_data_q t) @ mq_list (sc_tx_data_vo_q t)"

definition post_link_down :: "'c chip_ops \<Rightarrow> ('c softc, mbuf list) cm" where
  "post_link_down C =
     seqE (forE (\<lambda>i. discard (rtw88_cam_clear_entry C (of_nat i))) [0..<RTW88_CAM_DEFAULT_KEYS])
     (seqE (discard (rtw88_cam_clear_entry C RTW88_CAM_PAIRWISE_SLOT))
     (seqE (discard (rtw88_h2c_media_status_report C 0 False))
     (seqE rtw88_fwka_stop
     (tryE (getS (link_down_freed \<circ> sc_tx)) (\<lambda>fs.
      seqE (upd_tx link_down_tx)
      (seqE (upd_link (\<lambda>l. l\<lparr>sc_cam_q := []\<rparr>))
      (seqE (updS (\<lambda>s. s\<lparr>sc_rx := (sc_rx s)\<lparr>sc_avg_rssi := 0, sc_avg_rssi_valid := False\<rparr>\<rparr>))
      (ret fs))))))))"

definition post_link :: "'c chip_ops \<Rightarrow> 'c softc chip_info option \<Rightarrow> (nat \<Rightarrow> wmeParams) \<Rightarrow> u8 \<Rightarrow> u8 list \<Rightarrow> ('c softc rtw88_dev, bool \<times> mbuf list) cm" where
  "post_link C ch wme ops bssid =
     (if ops AND RTW88_POST_LINK_UP \<noteq> 0 \<and> ops AND RTW88_POST_LINK_DOWN = 0
        then tryE (post_link_up C ch wme bssid) (\<lambda>armed. ret (armed, []))
      else if ops AND RTW88_POST_LINK_DOWN \<noteq> 0
        then tryE (on_priv (post_link_down C)) (\<lambda>fs. ret (False, fs))
      else ret (False, []))"

definition rtw88_post_state_task :: "'c chip_ops \<Rightarrow> 'c softc chip_info option \<Rightarrow> (nat \<Rightarrow> wmeParams) \<Rightarrow> ('c softc rtw88_dev, bool \<times> mbuf list) cm" where
  "rtw88_post_state_task C ch wme =
     seqE (on_priv RTW88_LOCK)
     (tryE (getS (sc_link \<circ> priv)) (\<lambda>l. let ops = sc_post_state_ops l; bssid = sc_post_state_bssid l in
      seqE (on_priv (upd_link (\<lambda>l. l\<lparr>sc_post_state_ops := 0\<rparr>)))
      (seqE (whenE (ops AND RTW88_POST_BSSID \<noteq> 0) (on_priv (post_bssid C bssid)))
      (tryE (post_link C ch wme ops bssid) (\<lambda>r. seqE (on_priv RTW88_UNLOCK) (ret r))))))"

subsection \<open>The hook for state changes\<close>

datatype ieee80211_state = IEEE80211_S_INIT | IEEE80211_S_SCAN | IEEE80211_S_AUTH | IEEE80211_S_ASSOC | IEEE80211_S_CAC
  | IEEE80211_S_RUN | IEEE80211_S_CSA | IEEE80211_S_SLEEP

text \<open>What the hook reads of the node of the access point (\<^verbatim>\<open>iv_bss\<close>).\<close>

record ieee80211_node =
  ni_bssid :: "u8 list"
  ni_associd :: u16
  ni_ht :: bool           \<comment> \<open>\<^verbatim>\<open>IEEE80211_NODE_HT\<close> in the flags\<close>
  ni_shortgi20 :: bool    \<comment> \<open>\<^verbatim>\<open>IEEE80211_HTCAP_SHORTGI20\<close> in the capabilities\<close>
  ni_chan_5ghz :: bool    \<comment> \<open>on a channel, and it is in the 5 GHz band\<close>

datatype link_task = PrepareTxTask | PostStateTask

definition IEEE80211_AID :: "u16 \<Rightarrow> u16" where
  "IEEE80211_AID b = b AND NOT 0xC000"

definition bssid_wish :: "u32 \<Rightarrow> ieee80211_node option \<Rightarrow> link_softc \<Rightarrow> link_softc" where
  "bssid_wish ticks bss l = (let l1 = l\<lparr>sc_assoc_ticks := ticks\<rparr> in case bss of
     None \<Rightarrow> l1
   | Some ni \<Rightarrow> l1\<lparr>sc_post_state_bssid := ni_bssid ni, sc_post_state_ops := sc_post_state_ops l1 OR RTW88_POST_BSSID\<rparr>)"

definition up_wish :: "ieee80211_node option \<Rightarrow> link_softc \<Rightarrow> link_softc" where
  "up_wish bss l = l\<lparr>
     sc_post_state_aid := (case bss of None \<Rightarrow> 0 | Some ni \<Rightarrow> IEEE80211_AID (ni_associd ni) AND 0x7ff),
     sc_post_state_ht := (case bss of None \<Rightarrow> False | Some ni \<Rightarrow> ni_ht ni),
     sc_post_state_sgi := (case bss of None \<Rightarrow> False | Some ni \<Rightarrow> ni_ht ni \<and> ni_shortgi20 ni),
     sc_post_state_5ghz := (case bss of None \<Rightarrow> False | Some ni \<Rightarrow> ni_chan_5ghz ni),
     sc_post_state_ops := (sc_post_state_ops l OR RTW88_POST_LINK_UP) AND NOT RTW88_POST_LINK_DOWN\<rparr>"

definition down_wish :: "link_softc \<Rightarrow> link_softc" where
  "down_wish l = l\<lparr>sc_post_state_ops := (sc_post_state_ops l OR RTW88_POST_LINK_DOWN) AND NOT RTW88_POST_LINK_UP\<rparr>"

definition locked_link :: "(link_softc \<Rightarrow> link_softc) \<Rightarrow> ('c softc rtw88_dev, unit) cm" where
  "locked_link f = on_priv (seqE RTW88_LOCK (seqE (upd_link f) RTW88_UNLOCK))"

definition to_auth :: "ieee80211_state \<Rightarrow> ieee80211_state \<Rightarrow> bool" where
  "to_auth ostate nstate \<longleftrightarrow> nstate = IEEE80211_S_AUTH \<and> ostate = IEEE80211_S_SCAN"

definition to_up :: "ieee80211_state \<Rightarrow> ieee80211_state \<Rightarrow> bool" where
  "to_up ostate nstate \<longleftrightarrow> nstate = IEEE80211_S_RUN \<and> (ostate = IEEE80211_S_ASSOC \<or> ostate = IEEE80211_S_AUTH)"

definition to_down :: "ieee80211_state \<Rightarrow> ieee80211_state \<Rightarrow> bool" where
  "to_down ostate nstate \<longleftrightarrow>
     (ostate = IEEE80211_S_RUN \<or> ostate = IEEE80211_S_ASSOC) \<and> (nstate = IEEE80211_S_INIT \<or> nstate = IEEE80211_S_SCAN)"

text \<open>
  \<^verbatim>\<open>sc_assoc_ticks\<close> is set before the mutex is taken, and only there; without a node that is all of the first case. The hook gives the
  tasks it enqueues, in order, and what the handler of net80211 returns (\<open>newstate\<close>, which the hook calls last).
\<close>

definition rtw88_newstate :: "'c softc chip_info option \<Rightarrow> (ieee80211_state \<Rightarrow> int \<Rightarrow> int) \<Rightarrow> u32 \<Rightarrow> ieee80211_node option \<Rightarrow>
    ieee80211_state \<Rightarrow> ieee80211_state \<Rightarrow> int \<Rightarrow> ('c softc rtw88_dev, link_task list \<times> int) cm" where
  "rtw88_newstate ch newstate ticks bss ostate nstate arg =
     (let auth = to_auth ostate nstate; up = to_up ostate nstate; down = to_down ostate nstate;
          pending = (auth \<and> bss \<noteq> None) \<or> up \<or> down
      in seqE (whenE auth (case bss of
                None \<Rightarrow> on_priv (upd_link (bssid_wish ticks bss))
              | Some _ \<Rightarrow> locked_link (bssid_wish ticks bss)))
        (seqE (whenE up (seqE (locked_link (up_wish bss)) (case bss of
                None \<Rightarrow> ret ()
              | Some ni \<Rightarrow> rtw88_bf_assoc ch (ni_bssid ni) 0 0 (IEEE80211_AID (ni_associd ni) AND 0x7ff))))
        (seqE (whenE down (seqE (locked_link down_wish) (updS (rtw88_coex_link_down \<circ> rtw88_bf_disassoc))))
        (ret ((if auth then [PrepareTxTask] else []) @ (if pending then [PostStateTask] else []), newstate nstate arg)))))"

subsection \<open>Channels and interfaces\<close>

text \<open>What the driver asks of a channel of net80211: its number and the flags for wide channels.\<close>

record ieee80211_channel =
  ic_ieee :: u8
  ic_vht80 :: bool
  ic_ht40u :: bool
  ic_ht40d :: bool

definition channel_width :: "ieee80211_channel \<Rightarrow> u8 \<times> u8" where
  "channel_width c =
     (if ic_vht80 c then (RTW88_CHANNEL_WIDTH_80, RTW88_SC_20_UPPER)
      else if ic_ht40u c then (RTW88_CHANNEL_WIDTH_40, RTW88_SC_20_LOWER)
      else if ic_ht40d c then (RTW88_CHANNEL_WIDTH_40, RTW88_SC_20_UPPER)
      else (RTW88_CHANNEL_WIDTH_20, RTW88_SC_DONT_CARE))"

definition rtw88_set_channel :: "'c chip_ops \<Rightarrow> u16 \<Rightarrow> ieee80211_channel option \<Rightarrow> ('c softc, unit) cm" where
  "rtw88_set_channel C caps cur = (case cur of
     None \<Rightarrow> ret ()
   | Some c \<Rightarrow> (case channel_width c of (bw, primary) \<Rightarrow>
       tryE (getS sc_phy) (\<lambda>p.
         if ic_ieee c = sc_cur_channel p \<and> bw = sc_cur_bw p \<and> primary = sc_cur_primary_ch_idx p then ret ()
         else discard (rtw88_phy_set_channel C caps (ic_ieee c) bw primary))))"

text \<open>The lists of channels offered, with the modes and widths they are offered for; net80211 makes its table of them.\<close>

datatype wifi_mode = IEEE80211_MODE_11A | IEEE80211_MODE_11B | IEEE80211_MODE_11G | IEEE80211_MODE_11NA | IEEE80211_MODE_11NG
  | IEEE80211_MODE_VHT_5GHZ

datatype wifi_cbw = NET80211_CBW_FLAG_HT40 | NET80211_CBW_FLAG_VHT80

datatype add_channels = AddDefault2GHz "wifi_mode list" "wifi_cbw list" | AddList5GHz "u8 list" "wifi_mode list" "wifi_cbw list"

definition rtw88_chan_5ghz_0 :: "u8 list" where
  "rtw88_chan_5ghz_0 = [36, 40, 44, 48, 52, 56, 60, 64]"

definition rtw88_chan_5ghz_1 :: "u8 list" where
  "rtw88_chan_5ghz_1 = [100, 104, 108, 112, 116, 120, 124, 128, 132, 136, 140, 144]"

definition rtw88_chan_5ghz_2 :: "u8 list" where
  "rtw88_chan_5ghz_2 = [149, 153, 157, 161, 165, 169, 173, 177]"

definition rtw88_getradiocaps :: "u16 \<Rightarrow> add_channels list" where
  "rtw88_getradiocaps caps =
     (if caps AND RTW88_CAP_2GHZ \<noteq> 0
      then [AddDefault2GHz [IEEE80211_MODE_11B, IEEE80211_MODE_11G, IEEE80211_MODE_11NG]
              (if caps AND RTW88_CAP_HT40 \<noteq> 0 then [NET80211_CBW_FLAG_HT40] else [])]
      else []) @
     (if caps AND RTW88_CAP_5GHZ \<noteq> 0
      then let bands = (if caps AND RTW88_CAP_2GHZ \<noteq> 0 then [IEEE80211_MODE_11B, IEEE80211_MODE_11G, IEEE80211_MODE_11NG] else []) @
                 [IEEE80211_MODE_11A, IEEE80211_MODE_11NA] @ (if caps AND RTW88_CAP_VHT80 \<noteq> 0 then [IEEE80211_MODE_VHT_5GHZ] else []);
               cbw = (if caps AND RTW88_CAP_HT40 \<noteq> 0 then [NET80211_CBW_FLAG_HT40] else []) @
                 (if caps AND RTW88_CAP_VHT80 \<noteq> 0 then [NET80211_CBW_FLAG_VHT80] else [])
           in map (\<lambda>chs. AddList5GHz chs bands cbw) [rtw88_chan_5ghz_0, rtw88_chan_5ghz_1, rtw88_chan_5ghz_2]
      else [])"

text \<open>
  Interfaces: one at a time, a station or a monitor. The kernel's \<^verbatim>\<open>ieee80211_vap_setup\<close> is the argument \<open>setup\<close>; the result has the
  mode the device is in from then on.
\<close>

datatype ieee80211_opmode = IEEE80211_M_STA | IEEE80211_M_MONITOR | IEEE80211_M_OTHER

definition rtw88_vap_create :: "'v list \<Rightarrow> ieee80211_opmode \<Rightarrow> (ieee80211_opmode \<Rightarrow> 'v option) \<Rightarrow> ('v \<times> ieee80211_opmode) option" where
  "rtw88_vap_create vaps opmode setup =
     (if vaps \<noteq> [] then None
      else if opmode \<noteq> IEEE80211_M_STA \<and> opmode \<noteq> IEEE80211_M_MONITOR then None
      else map_option (\<lambda>v. (v, opmode)) (setup opmode))"

text \<open>\<^verbatim>\<open>rtw88_parent\<close>: whether the interfaces are started, and the new \<^verbatim>\<open>sc_running\<close>.\<close>

definition rtw88_parent :: "int \<Rightarrow> bool \<Rightarrow> bool \<times> bool" where
  "rtw88_parent nrunning running = (if nrunning > 0 then (\<not> running, True) else (False, False))"

subsection \<open>What the radio and the firmware leave alone\<close>

text \<open>
  \<open>link_at n k t l x\<close>: a thread on the bus, in whose softc the transmit, link and receive records are \<open>t\<close>, \<open>l\<close> and \<open>x\<close>. The
  registers, the mailbox, the calibration and the reserved pages keep it.
\<close>

definition link_at :: "nat \<Rightarrow> bool \<Rightarrow> tx_softc \<Rightarrow> link_softc \<Rightarrow> rx_softc \<Rightarrow> 'c softc \<Rightarrow> bool" where
  "link_at n k t l x s \<longleftrightarrow> on_line n k s \<and> sc_tx s = t \<and> sc_link s = l \<and> sc_rx s = x"

named_theorems link_keeps "what keeps the records of the softc"

lemma keeps_link_bus:
  assumes "\<And>z L. keeps (on_bus n k z L) is_errno m"
  shows "keeps (link_at n k t l x) is_errno m"
proof (rule keepsI)
  fix s r s' assume s: "link_at n k t l x s" and m: "m s = (r, s')"
  note q = quietD [OF assms _ m]
  from s q have "hw.more s' = hw.more s" "on_line n k s'" "\<forall>e. r = Inl e \<longrightarrow> is_errno e" by (auto simp: link_at_def)
  with s quiet_softc [OF this(1)] show "link_at n k t l x s' \<and> (\<forall>e. r = Inl e \<longrightarrow> is_errno e)" by (simp add: link_at_def)
qed

lemma link_assert [link_keeps]: "keeps (link_at n k t l x) F RTW88_ASSERT_LOCKED"
  by (auto simp: keeps_def RTW88_ASSERT_LOCKED_def link_at_def on_line_def)

lemma link_bulk [link_keeps]: "keeps (link_at n k t l x) is_errno (rtw88_bulk_tx_sync C pipe data)"
  unfolding rtw88_bulk_tx_sync_def
  by (intro keeps_intros link_keeps is_errno_simps)
    (auto simp: usbd_bulk_def keeps_def link_at_def on_line_def seqE_def tryE_def is_errno_def split: prod.splits xfer_end.splits)

lemma link_regs [link_keeps]:
  "keeps (link_at n k t l x) is_errno (rtw88_usb_read1 C a)" "keeps (link_at n k t l x) is_errno (rtw88_usb_read4 C a)"
  "keeps (link_at n k t l x) is_errno (rtw88_usb_write1 C a v1)" "keeps (link_at n k t l x) is_errno (rtw88_usb_write2 C a v2)"
  "keeps (link_at n k t l x) is_errno (rtw88_usb_write4 C a v4)" "keeps (link_at n k t l x) is_errno (rtw88_usb_setbits1 C a v1)"
  "keeps (link_at n k t l x) is_errno (rtw88_check_hw_ready C a v4 w4)"
  "keeps (link_at n k t l x) is_errno (rtw88_h2c_media_status_report C v1 on)" "keeps (link_at n k t l x) is_errno (rtw88_h2c_pwr_mode_active_usb C)"
  "keeps (link_at n k t l x) is_errno (rtw88_h2c_ra_info C p)" "keeps (link_at n k t l x) is_errno (rtw88_h2c_default_port C v1 w1)"
  "keeps (link_at n k t l x) is_errno (rtw88_h2c_rsvd_page C)" "keeps (link_at n k t l x) is_errno (rtw88_h2c_mailbox C v4 w4)"
  "keeps (link_at n k t l x) is_errno (rtw88_phy_read_rf_a C v1 w4)" "keeps (link_at n k t l x) is_errno (rtw88_phy_write_rf_a C v4 w4)"
  "keeps (link_at n k t l x) is_errno (rtw88_cam_clear_entry C v1)" "keeps (link_at n k t l x) is_errno (rtw88_conf_tx_one_ac C i w)"
  unfolding rtw88_conf_tx_one_ac_def
  by (rule keeps_link_bus, intro keeps_intros is_errno_simps)+

lemma link_calibration [link_keeps]: "keeps (link_at n k t l x) is_errno (rtw88_phy_calibration C)"
  unfolding rtw88_phy_calibration_def rtw88_fw_do_iqk_def rtw88_h2c_packet_def
  by (intro keeps_intros link_keeps is_errno_simps)

lemma link_edca [link_keeps]: "keeps (link_at n k t l x) is_errno (rtw88_conf_tx_all_ac_locked C w)"
  unfolding rtw88_conf_tx_all_ac_locked_def
  by (intro keeps_intros link_keeps is_errno_simps)

lemma link_pages [link_keeps]: "keeps (link_at n k t l x) is_errno (rtw88_upload_rsvd_pages C ap)"
proof -
  have fit: "\<not> 0 + unat (of_nat (length img) :: u32) > length img" for img :: "u8 list"
    by (simp add: unat_of_nat not_less)
  have send: "keeps (link_at n k t l x) is_errno (rtw88_send_firmware_pkt C pg (of_nat (length img)) img 0)" for pg img
    unfolding rtw88_send_firmware_pkt_def if_not_P [OF fit]
    by (intro keeps_intros link_keeps is_errno_simps)
  show ?thesis
    unfolding rtw88_upload_rsvd_pages_def
    by (intro keeps_intros link_keeps send) (simp_all add: is_errno_def)
qed

subsection \<open>A task that takes the link down\<close>

lemma link_silent: "keeps (link_at n k t l x) is_errno m \<Longrightarrow> link_at n k t l x s \<Longrightarrow> (\<And>s'. link_at n k t l x s' \<Longrightarrow> Q () s') \<Longrightarrow>
    ends (discard m) Q E s"
  by (rule ends_keeps [OF keeps_discard_all [of "link_at n k t l x" _ no_fault]]) (simp_all add: no_fault_def)

lemma link_silents: "(\<And>i. keeps (link_at n k t l x) is_errno (m i)) \<Longrightarrow> link_at n k t l x s \<Longrightarrow> (\<And>s'. link_at n k t l x s' \<Longrightarrow> Q () s') \<Longrightarrow>
    ends (forE (\<lambda>i. discard (m i)) is) Q E s"
  by (rule ends_keeps [OF keeps_forE [OF keeps_discard_all [of "link_at n k t l x" _ no_fault]]]) (simp_all add: no_fault_def)

definition link_down_link :: "link_softc \<Rightarrow> link_softc" where
  "link_down_link l = l\<lparr>sc_fwka_active := False, sc_cam_q := []\<rparr>"

definition link_down_rx :: "rx_softc \<Rightarrow> rx_softc" where
  "link_down_rx x = x\<lparr>sc_avg_rssi := 0, sc_avg_rssi_valid := False\<rparr>"

lemma link_down_run:
  assumes "link_at n k t l x s"
  shows "ends (post_link_down C) (\<lambda>fs s'. fs = link_down_freed t \<and> link_at n k (link_down_tx t) (link_down_link l) (link_down_rx x) s') (\<lambda>_ _. False) s"
proof -
  have rest: "ends (seqE rtw88_fwka_stop
     (tryE (getS (link_down_freed \<circ> sc_tx)) (\<lambda>fs.
      seqE (upd_tx link_down_tx)
      (seqE (upd_link (\<lambda>l. l\<lparr>sc_cam_q := []\<rparr>))
      (seqE (updS (\<lambda>s. s\<lparr>sc_rx := (sc_rx s)\<lparr>sc_avg_rssi := 0, sc_avg_rssi_valid := False\<rparr>\<rparr>))
      (ret fs)))))) (\<lambda>fs s'. fs = link_down_freed t \<and> link_at n k (link_down_tx t) (link_down_link l) (link_down_rx x) s') (\<lambda>_ _. False) s"
    if "link_at n k t l x s" for s
    using that by (auto simp: ends_def rtw88_fwka_stop_def RTW88_ASSERT_LOCKED_def upd_link_def upd_tx_def link_at_def on_line_def
        link_down_link_def link_down_rx_def seqE_def tryE_def)
  show ?thesis
    unfolding post_link_down_def ends_seqE [of "forE _ _"] ends_seqE [of "discard _"]
    by (rule link_silents [OF link_regs(16) assms], rule link_silent [OF link_regs(16)], assumption, rule link_silent [OF link_regs(8)],
        assumption, rule rest)
qed

lemma post_bssid_run:
  assumes "link_at n k t l x s"
  shows "ends (post_bssid C b) (\<lambda>_. link_at n k t l x) (\<lambda>_ _. False) s"
  unfolding post_bssid_def ends_seqE
  by (rule link_silents [OF link_regs(3) assms],
      rule ends_keeps [of "link_at n k t l x" no_fault], intro keeps_intros keeps_discard_all link_keeps) (simp_all add: no_fault_def)

text \<open>The task takes the request under the mutex, and what it then does is settled by the request.\<close>

lemma task_run:
  fixes d :: "'c softc rtw88_dev"
  defines "s \<equiv> priv d" and "l0 \<equiv> (sc_link (priv d))\<lparr>sc_post_state_ops := 0\<rparr>"
  assumes "mtx_depth s = 0" "\<not> sc_io_busy s"
    and body: "\<And>w. link_at 0 (invariants s) (sc_tx s) l0 (sc_rx s) w \<Longrightarrow>
       ends (post_link C ch wme (sc_post_state_ops (sc_link s)) (sc_post_state_bssid (sc_link s)))
         (\<lambda>r d2. on_line 0 (invariants s) (priv d2) \<and> Q r (d2\<lparr>priv := (priv d2)\<lparr>mtx_depth := 0\<rparr>\<rparr>)) (\<lambda>_ _. False) (d\<lparr>priv := w\<rparr>)"
  shows "ends (rtw88_post_state_task C ch wme) Q (\<lambda>_ _. False) d"
proof -
  let ?s1 = "s\<lparr>mtx_depth := 1, sc_link := l0\<rparr>"
  let ?rest = "tryE (post_link C ch wme (sc_post_state_ops (sc_link s)) (sc_post_state_bssid (sc_link s))) (\<lambda>r. seqE (on_priv RTW88_UNLOCK) (ret r))"
  have s1: "link_at 0 (invariants s) (sc_tx s) l0 (sc_rx s) ?s1"
    using assms(3,4) by (simp add: link_at_def on_line_def)
  have rest: "ends ?rest Q (\<lambda>_ _. False) (d\<lparr>priv := w\<rparr>)" if "link_at 0 (invariants s) (sc_tx s) l0 (sc_rx s) w" for w
    unfolding ends_tryE
    by (rule ends_conseq [OF body [OF that]]) (auto simp: ends_def on_priv_def RTW88_UNLOCK_def on_line_def)
  have lock: "RTW88_LOCK s = (Inr (), s\<lparr>mtx_depth := 1\<rparr>)" using assms(3) by (simp add: RTW88_LOCK_def)
  have "ends (seqE (whenE (sc_post_state_ops (sc_link s) AND RTW88_POST_BSSID \<noteq> 0) (on_priv (post_bssid C (sc_post_state_bssid (sc_link s)))))
      ?rest) Q (\<lambda>_ _. False) (d\<lparr>priv := ?s1\<rparr>)"
    unfolding ends_seqE [of "whenE _ _"] ends_whenE ends_on_priv
    using rest [OF s1] by (auto intro!: rest ends_conseq [OF post_bssid_run [of 0 "invariants s" "sc_tx s" l0 "sc_rx s"]] simp: s1 [simplified])
  then have "ends (seqE (on_priv (upd_link (\<lambda>l. l\<lparr>sc_post_state_ops := 0\<rparr>)))
      (seqE (whenE (sc_post_state_ops (sc_link s) AND RTW88_POST_BSSID \<noteq> 0) (on_priv (post_bssid C (sc_post_state_bssid (sc_link s))))) ?rest))
      Q (\<lambda>_ _. False) (d\<lparr>priv := s\<lparr>mtx_depth := 1\<rparr>\<rparr>)"
    unfolding ends_seqE [of "on_priv (upd_link _)"] ends_on_priv [of "upd_link _"] by (simp add: upd_link_def ends_updS s_def l0_def)
  moreover have "ends (on_priv RTW88_LOCK) (\<lambda>_ d'. d' = d\<lparr>priv := s\<lparr>mtx_depth := 1\<rparr>\<rparr>) (\<lambda>_ _. False) d"
    using lock by (simp add: ends_def on_priv_def s_def)
  ultimately show ?thesis
    unfolding rtw88_post_state_task_def ends_seqE [of "on_priv RTW88_LOCK"] ends_tryE [of "getS _"] ends_value(3) Let_def
    by (elim ends_conseq) (auto simp: s_def)
qed

text \<open>C1. A link that goes down leaves nothing behind for the next one. Whatever the device does, when the task finds a request to take the link
  down, it returns with the mutex free; the key gate is open and its mark is gone, no data frame and no key operation waits, the signal average is
  reset and the keep-alive is off; the frames it frees are exactly those that waited, each once; and the management
  queue and the frames in flight are as they were.\<close>
theorem link_down_clean:
  fixes d :: "'c softc rtw88_dev"
  assumes "mtx_depth (priv d) = 0" "\<not> sc_io_busy (priv d)" "sc_post_state_ops (sc_link (priv d)) AND RTW88_POST_LINK_DOWN \<noteq> 0"
    and "rtw88_post_state_task C ch wme d = (r, d')"
  shows "r = Inr (False, mq_list (sc_tx_pending_q (sc_tx (priv d))) @ mq_list (sc_tx_data_q (sc_tx (priv d))) @
           mq_list (sc_tx_data_vo_q (sc_tx (priv d)))) \<and> mtx_depth (priv d') = 0 \<and>
    (let t = sc_tx (priv d'); l = sc_link (priv d'); x = sc_rx (priv d')
     in \<not> sc_ptk_install_pending t \<and> sc_m4_needs_encap t = None \<and> mq_list (sc_tx_pending_q t) = [] \<and>
        mq_list (sc_tx_data_q t) = [] \<and> mq_list (sc_tx_data_vo_q t) = [] \<and> sc_cam_q l = [] \<and> \<not> sc_fwka_active l \<and>
        sc_post_state_ops l = 0 \<and> sc_avg_rssi x = 0 \<and> \<not> sc_avg_rssi_valid x \<and>
        sc_tx_mgmt_q t = sc_tx_mgmt_q (sc_tx (priv d)) \<and> sc_tx_mgmt_inflight t = sc_tx_mgmt_inflight (sc_tx (priv d)) \<and>
        sc_tx_data_inflight t = sc_tx_data_inflight (sc_tx (priv d)) \<and> sc_tx_data_vo_inflight t = sc_tx_data_vo_inflight (sc_tx (priv d)))"
proof -
  let ?s = "priv d" and ?l = "(sc_link (priv d))\<lparr>sc_post_state_ops := 0\<rparr>"
  have "ends (rtw88_post_state_task C ch wme) (\<lambda>r d2. r = (False, link_down_freed (sc_tx ?s)) \<and> mtx_depth (priv d2) = 0 \<and>
      sc_tx (priv d2) = link_down_tx (sc_tx ?s) \<and> sc_link (priv d2) = link_down_link ?l \<and> sc_rx (priv d2) = link_down_rx (sc_rx ?s)) (\<lambda>_ _. False) d"
  proof (rule task_run [OF assms(1,2)])
    fix w :: "'c softc" assume w: "link_at 0 (invariants ?s) (sc_tx ?s) ?l (sc_rx ?s) w"
    show "ends (post_link C ch wme (sc_post_state_ops (sc_link ?s)) (sc_post_state_bssid (sc_link ?s)))
         (\<lambda>r d2. on_line 0 (invariants ?s) (priv d2) \<and> r = (False, link_down_freed (sc_tx ?s)) \<and> mtx_depth (priv (d2\<lparr>priv := (priv d2)\<lparr>mtx_depth := 0\<rparr>\<rparr>)) = 0 \<and>
            sc_tx (priv (d2\<lparr>priv := (priv d2)\<lparr>mtx_depth := 0\<rparr>\<rparr>)) = link_down_tx (sc_tx ?s) \<and>
            sc_link (priv (d2\<lparr>priv := (priv d2)\<lparr>mtx_depth := 0\<rparr>\<rparr>)) = link_down_link ?l \<and>
            sc_rx (priv (d2\<lparr>priv := (priv d2)\<lparr>mtx_depth := 0\<rparr>\<rparr>)) = link_down_rx (sc_rx ?s)) (\<lambda>_ _. False) (d\<lparr>priv := w\<rparr>)"
      using assms(3) unfolding post_link_def
      by (auto simp: ends_tryE ends_on_priv ends_value link_at_def intro!: ends_conseq [OF link_down_run [OF w]])
  qed
  from endsD [OF this assms(4)] show ?thesis
    by (auto simp: link_down_tx_def link_down_freed_def link_down_link_def link_down_rx_def mbufq_drain_def Let_def split: sum.splits)
qed

subsection \<open>A task that brings the link up\<close>

abbreviation rates_of :: "link_softc \<Rightarrow> u8 \<times> u32 \<times> u32" where
  "rates_of l \<equiv> link_rates (sc_post_state_5ghz l) (sc_post_state_ht l)"

lemma link_up_mac_run:
  assumes "link_at n k t l x s"
  shows "ends (link_up_mac C) (\<lambda>_. link_at n k (t\<lparr>sc_rate_id := fst (rates_of l)\<rparr>) (l\<lparr>sc_ra_tighten_mask := snd (snd (rates_of l))\<rparr>) x)
    (\<lambda>_ _. False) s"
proof -
  have iqk: "keeps (link_at n k t l x) no_fault (tryE (getS (sc_linkup_iqk \<circ> sc_link)) (\<lambda>iqk. whenE iqk (discard (rtw88_phy_calibration C))))"
    and cr: "keeps (link_at n k t l x) no_fault (tryE (attempt (rtw88_usb_read4 C REG_CR)) (\<lambda>r. case r of
        Inl _ \<Rightarrow> ret () | Inr cr \<Rightarrow> discard (rtw88_usb_write4 C REG_CR (linked_cr cr))))"
    by (intro keeps_tryE keeps_getS keeps_whenE keeps_discard_all keeps_attempt_all keeps_ret link_keeps keeps_case_sum)+
  have rest: "ends (tryE (getS sc_link) (\<lambda>l. case rates_of l of (rate_id, msk, tighten) \<Rightarrow>
      seqE (upd_tx (\<lambda>t. t\<lparr>sc_rate_id := rate_id\<rparr>))
      (seqE (upd_link (\<lambda>l. l\<lparr>sc_ra_tighten_mask := tighten\<rparr>))
      (ret (sc_post_state_sgi l, msk))))) (\<lambda>_. link_at n k (t\<lparr>sc_rate_id := fst (rates_of l)\<rparr>) (l\<lparr>sc_ra_tighten_mask := snd (snd (rates_of l))\<rparr>) x)
    (\<lambda>_ _. False) s" if "link_at n k t l x s" for s
    using that by (auto simp: ends_def link_at_def on_line_def upd_tx_def upd_link_def split: prod.splits)
  show ?thesis
    unfolding link_up_mac_def ends_tryE [of "getS (sc_post_state_aid \<circ> sc_link)"] ends_value(3) ends_seqE
    by (rule ends_keeps [OF iqk assms]; (rule ends_keeps [OF cr], assumption)?; (rule link_silent [OF link_regs(4)], assumption)?; (rule rest)?)
      (simp_all add: no_fault_def)
qed

lemma link_coex_run:
  assumes "link_at n k t l x (priv d)"
  shows "ends (discard (rtw88_coex_link_up (rtw88_usb_hci_ops C) (Some ci))) (\<lambda>_ d'. link_at n k t l x (priv d')) (\<lambda>_ _. False) d"
proof -
  have h2c: "keeps (link_at n k t l x \<circ> priv) is_errno (rtw_h2c (rtw88_usb_hci_ops C) c m w)" for c m w
  proof (rule ends_keepsI)
    fix d :: "'a softc rtw88_dev" assume "(link_at n k t l x \<circ> priv) d"
    then show "ends (rtw_h2c (rtw88_usb_hci_ops C) c m w) (\<lambda>_. link_at n k t l x \<circ> priv) (\<lambda>e d'. is_errno e \<and> (link_at n k t l x \<circ> priv) d') d"
      unfolding rtw_h2c_def ends_on_priv usb_hci_ops_simps by (intro ends_keeps [OF link_regs(13)]) auto
  qed
  have "keeps (link_at n k t l x \<circ> priv) no_fault (discard (rtw88_coex_link_up (rtw88_usb_hci_ops C) (Some ci)))"
    unfolding rtw88_coex_link_up_def rtw88_coex_h2c_bt_wifi_control_def rtw88_coex_h2c_tdma_type_def deref_chip_def option.case
    by (intro keeps_discard_all keeps_intros h2c) (simp_all add: rtw88_debug_inc_def)
  from ends_keeps [OF this] assms show ?thesis by (simp add: no_fault_def)
qed

lemma fwka_start_run:
  assumes "link_at n k t l x s"
  shows "ends rtw88_fwka_start (\<lambda>_ s'. \<exists>l'. link_at n k t l' x s' \<and> sc_cam_q l' = sc_cam_q l \<and> sc_post_state_ops l' = sc_post_state_ops l) (\<lambda>_ _. False) s"
  using assms by (auto simp: ends_def rtw88_fwka_start_def RTW88_ASSERT_LOCKED_def upd_link_def link_at_def on_line_def seqE_def tryE_def)

lemma link_up_commands_run:
  assumes "link_at n k t l x s"
  shows "ends (link_up_commands C wme b p) (\<lambda>_ s'. \<exists>l'. link_at n k t l' x s' \<and> sc_cam_q l' = sc_cam_q l \<and> sc_post_state_ops l' = sc_post_state_ops l)
    (\<lambda>_ _. False) s"
proof (cases p)
  case (Pair ra_sgi msk)
  have skip: "keeps (link_at n k t l x) no_fault m \<Longrightarrow> keeps (link_at n k t l x) no_fault (unless_skip v m)" for m v l
    unfolding unless_skip_def by (intro keeps_tryE keeps_getS keeps_whenE)
  have first: "keeps (link_at n k t l x) no_fault
     (seqE (unless_skip 0x01 (tryE (getS (sc_rate_id \<circ> sc_tx)) (\<lambda>rate_id. discard (rtw88_h2c_ra_info C (link_ra ra_sgi rate_id msk)))))
     (seqE (unless_skip 0x02 (discard (rtw88_h2c_media_status_report C 0 True)))
      (unless_skip 0x04 (discard (rtw88_h2c_pwr_mode_active_usb C)))))"
    by (intro keeps_seqE skip keeps_tryE keeps_getS keeps_discard_all link_keeps)
  have last: "keeps (link_at n k t l' x) no_fault
     (seqE (unless_skip 0x10 (seqE (discard (rtw88_upload_rsvd_pages C b)) (discard (rtw88_h2c_rsvd_page C))))
      (seqE (unless_skip 0x40 (discard (rtw88_h2c_default_port C 0 0)))
      (seqE (unless_skip 0x80 (discard (rtw88_conf_tx_all_ac_locked C wme)))
      (ret armed))))" for armed :: bool and l'
    by (intro keeps_seqE skip keeps_ret keeps_discard_all link_keeps)
  have mid: "ends (tryE (getS (sc_linkup_skip \<circ> sc_link)) (\<lambda>k. if k AND 0x08 = 0 then rtw88_fwka_start else ret False))
     (\<lambda>_ s'. \<exists>l'. link_at n k t l' x s' \<and> sc_cam_q l' = sc_cam_q l \<and> sc_post_state_ops l' = sc_post_state_ops l) (\<lambda>_ _. False) s"
    if "link_at n k t l x s" for s
    using that fwka_start_run [OF that] by (auto simp: ends_tryE ends_value)
  show ?thesis
    unfolding link_up_commands_def Pair prod.case seqE_assoc [symmetric]
    unfolding ends_seqE [of "seqE _ _" "tryE _ _"] ends_tryE [of "tryE _ _"]
    by (rule ends_keeps [OF first [unfolded seqE_assoc [symmetric]] assms], rule ends_conseq [OF mid], assumption)
      (auto simp: no_fault_def intro!: ends_keeps [OF last [unfolded seqE_assoc [symmetric]]])
qed

lemma link_up_run:
  assumes "link_at n k t l x (priv d)"
  shows "ends (post_link_up C (Some ci) wme b) (\<lambda>_ d'. \<exists>l'. link_at n k (t\<lparr>sc_rate_id := fst (rates_of l)\<rparr>) l' x (priv d') \<and>
      sc_cam_q l' = sc_cam_q l \<and> sc_post_state_ops l' = sc_post_state_ops l) (\<lambda>_ _. False) d"
  unfolding post_link_up_def ends_tryE ends_seqE ends_on_priv
  by (rule ends_conseq [OF link_up_mac_run [OF assms]], rule ends_conseq [OF link_coex_run], simp,
      rule ends_conseq [OF link_up_commands_run], assumption) auto

subsection \<open>Requests and the task that serves them\<close>

text \<open>What a request asks of the task, and what a change of state wishes: the link up, down, or neither.\<close>

definition asked :: "u8 \<Rightarrow> bool option" where
  "asked ops = (if ops AND RTW88_POST_LINK_DOWN \<noteq> 0 then Some False else if ops AND RTW88_POST_LINK_UP \<noteq> 0 then Some True else None)"

definition wished :: "ieee80211_state \<Rightarrow> ieee80211_state \<Rightarrow> bool option" where
  "wished ostate nstate = (if to_up ostate nstate then Some True else if to_down ostate nstate then Some False else None)"

lemma asked_bits:
  "asked (ops OR 1) = asked ops" "asked ((ops OR 2) AND NOT 4) = Some True" "asked ((ops OR 4) AND NOT 2) = Some False"
proof -
  have *: "asked v = (if bit v 2 then Some False else if bit v 1 then Some True else None)" for v :: u8
  proof -
    have "v AND 4 \<noteq> 0 \<longleftrightarrow> bit v 2" "v AND 2 \<noteq> 0 \<longleftrightarrow> bit v 1"
      using and_exp_eq_0_iff_not_bit [of v 2] and_exp_eq_0_iff_not_bit [of v 1] by simp_all
    then show ?thesis by (simp add: asked_def)
  qed
  show "asked (ops OR 1) = asked ops" "asked ((ops OR 2) AND NOT 4) = Some True" "asked ((ops OR 4) AND NOT 2) = Some False"
    unfolding * by (simp_all add: bit_simps)
qed

text \<open>The part of the state that the hook leaves alone.\<close>

definition hook_frame :: "'c softc rtw88_dev \<Rightarrow> 'c softc rtw88_dev \<Rightarrow> bool" where
  "hook_frame d d' \<longleftrightarrow> mtx_depth (priv d') = mtx_depth (priv d) \<and> sc_io_busy (priv d') = sc_io_busy (priv d) \<and>
     sc_tx (priv d') = sc_tx (priv d) \<and> sc_rx (priv d') = sc_rx (priv d) \<and> sc_cam_q (sc_link (priv d')) = sc_cam_q (sc_link (priv d))"

lemma hook_frame_trans: "hook_frame d d1 \<Longrightarrow> hook_frame d1 d2 \<Longrightarrow> hook_frame d d2"
  by (simp add: hook_frame_def)

definition hooked :: "'c softc rtw88_dev \<Rightarrow> bool option \<Rightarrow> 'c softc rtw88_dev \<Rightarrow> bool" where
  "hooked d w d' \<longleftrightarrow> hook_frame d d' \<and> asked (sc_post_state_ops (sc_link (priv d'))) =
     (case w of None \<Rightarrow> asked (sc_post_state_ops (sc_link (priv d))) | Some u \<Rightarrow> Some u)"

lemma locked_link_run:
  "mtx_depth (priv d) = 0 \<Longrightarrow> locked_link f d = (Inr (), d\<lparr>priv := (priv d)\<lparr>sc_link := f (sc_link (priv d))\<rparr>\<rparr>)"
  by (cases "priv d") (simp add: locked_link_def on_priv_def RTW88_LOCK_def RTW88_UNLOCK_def upd_link_def seqE_def tryE_def)

lemma link_bf_run: "\<exists>b. rtw88_bf_assoc (Some ci) mac 0 0 aid d = (Inr (), d\<lparr>dev_bf := b\<rparr>)"
proof -
  have "\<exists>b. d = d\<lparr>dev_bf := b\<rparr>" by (rule exI [of _ "dev_bf d"]) simp
  then show ?thesis
    by (auto simp: rtw88_bf_assoc_def deref_chip_def bf_ap_has_txbf_def seqE_def tryE_def)
qed

lemma newstate_run:
  assumes "mtx_depth (priv d) = 0"
  shows "ends (rtw88_newstate (Some ci) ns ticks bss ostate nstate arg) (\<lambda>_. hooked d (wished ostate nstate)) (\<lambda>_ _. False) d"
proof -
  obtain b where b: "rtw88_bf_assoc (Some ci) mac 0 0 aid d1 = (Inr (), d1\<lparr>dev_bf := b mac aid d1\<rparr>)" for mac aid and d1 :: "'a softc rtw88_dev"
    using link_bf_run [of ci] by metis
  have t: "\<not> (to_up ostate nstate \<and> to_down ostate nstate)" "\<not> (to_auth ostate nstate \<and> to_up ostate nstate)" "\<not> (to_auth ostate nstate \<and> to_down ostate nstate)"
    by (auto simp: to_up_def to_down_def to_auth_def)
  consider "to_auth ostate nstate" | "to_up ostate nstate" | "to_down ostate nstate"
    | "\<not> to_auth ostate nstate \<and> \<not> to_up ostate nstate \<and> \<not> to_down ostate nstate" by blast
  then show ?thesis
  proof cases
    case 1
    with t assms show ?thesis
      by (cases bss) (auto simp: ends_def rtw88_newstate_def whenE_def locked_link_run on_priv_def upd_link_def seqE_def tryE_def Let_def
          hooked_def hook_frame_def wished_def bssid_wish_def asked_bits asked_bits [simplified])
  next
    case 2
    with t assms show ?thesis
      by (cases bss) (auto simp: ends_def rtw88_newstate_def whenE_def locked_link_run b seqE_def tryE_def Let_def
          hooked_def hook_frame_def wished_def up_wish_def asked_bits asked_bits [simplified])
  next
    case 3
    with t assms show ?thesis
      by (auto simp: ends_def rtw88_newstate_def whenE_def locked_link_run seqE_def tryE_def Let_def rtw88_coex_link_down_def rtw88_bf_disassoc_def
          hooked_def hook_frame_def wished_def down_wish_def asked_bits asked_bits [simplified])
  next
    case 4
    with assms show ?thesis
      by (auto simp: ends_def rtw88_newstate_def whenE_def seqE_def tryE_def Let_def hooked_def hook_frame_def wished_def)
  qed
qed

text \<open>A series of state changes before the task runs, and the last of them that concerns the link.\<close>

type_synonym link_change = "u32 \<times> ieee80211_node option \<times> ieee80211_state \<times> ieee80211_state \<times> int"

definition newstates :: "'c softc chip_info option \<Rightarrow> (ieee80211_state \<Rightarrow> int \<Rightarrow> int) \<Rightarrow> link_change list \<Rightarrow> ('c softc rtw88_dev, unit) cm" where
  "newstates ch ns = forE (\<lambda>(ticks, bss, ostate, nstate, arg). tryE (rtw88_newstate ch ns ticks bss ostate nstate arg) (\<lambda>_. ret ()))"

fun last_wish :: "link_change list \<Rightarrow> bool option" where
  "last_wish [] = None"
| "last_wish ((ticks, bss, ostate, nstate, arg) # cs) = (case last_wish cs of None \<Rightarrow> wished ostate nstate | Some u \<Rightarrow> Some u)"

lemma hooked_trans: "hooked d w d1 \<Longrightarrow> hooked d1 v d2 \<Longrightarrow> hooked d (case v of None \<Rightarrow> w | Some u \<Rightarrow> Some u) d2"
  by (auto simp: hooked_def split: option.splits intro: hook_frame_trans)

lemma newstates_run:
  assumes "mtx_depth (priv d) = 0"
  shows "ends (newstates (Some ci) ns cs) (\<lambda>_. hooked d (last_wish cs)) (\<lambda>_ _. False) d"
  using assms
proof (induction cs arbitrary: d)
  case Nil
  then show ?case by (simp add: newstates_def ends_value ends_Pair hooked_def hook_frame_def)
next
  case (Cons c cs)
  obtain ticks bss ostate nstate arg where c: "c = (ticks, bss, ostate, nstate, arg)" by (cases c)
  have rest: "ends (newstates (Some ci) ns cs) (\<lambda>_. hooked d (last_wish (c # cs))) (\<lambda>_ _. False) d1" if "hooked d (wished ostate nstate) d1" for d1
  proof -
    have m: "mtx_depth (priv d1) = 0" using that Cons.prems by (simp add: hooked_def hook_frame_def)
    show ?thesis by (rule ends_conseq [OF Cons.IH [OF m]]) (use hooked_trans [OF that] in \<open>simp_all add: c\<close>)
  qed
  show ?case
    unfolding newstates_def forE.simps ends_seqE c prod.case ends_tryE ends_value
    by (rule ends_conseq [OF newstate_run [OF Cons.prems]]) (use rest in \<open>simp_all add: newstates_def c\<close>)
qed

lemma post_link_asked:
  "post_link C ch wme ops b = (case asked ops of
     Some True \<Rightarrow> tryE (post_link_up C ch wme b) (\<lambda>armed. ret (armed, []))
   | Some False \<Rightarrow> tryE (on_priv (post_link_down C)) (\<lambda>fs. ret (False, fs))
   | None \<Rightarrow> ret (False, []))"
  by (auto simp: post_link_def asked_def)

text \<open>C2. The latest change wins, and only it. After any series of state changes with no request open before, on any device, the task that serves
  the request ends without a fault and with the mutex free. If the last change of the link was down, it cleans as above; if
  nothing concerned the link, nothing moves; and if it was up, then however often the link went down before, the task frees nothing, and
  the queues, the gate, the mark and the key operations of the link that was lost are those of the new link: the
  transmit record differs in its rate at most.\<close>
theorem newstate_latest_wins:
  fixes d :: "'c softc rtw88_dev"
  assumes "mtx_depth (priv d) = 0" "\<not> sc_io_busy (priv d)" "asked (sc_post_state_ops (sc_link (priv d))) = None"
    and "newstates (Some ci) ns cs d = (r1, d1)" "rtw88_post_state_task C (Some ci) wme d1 = (r2, d2)"
  shows "r1 = Inr () \<and> mtx_depth (priv d2) = 0 \<and> (let t = sc_tx (priv d); t2 = sc_tx (priv d2); q = sc_cam_q (sc_link (priv d)); q2 = sc_cam_q (sc_link (priv d2))
    in case last_wish cs of
       None \<Rightarrow> r2 = Inr (False, []) \<and> t2 = t \<and> q2 = q
     | Some False \<Rightarrow> r2 = Inr (False, link_down_freed t) \<and> t2 = link_down_tx t \<and> q2 = []
     | Some True \<Rightarrow> (\<exists>armed rate. r2 = Inr (armed, []) \<and> t2 = t\<lparr>sc_rate_id := rate\<rparr> \<and> q2 = q))"
proof -
  from endsD [OF newstates_run [OF assms(1)] assms(4)] have r1: "r1 = Inr ()" and h: "hooked d (last_wish cs) d1" by (auto split: sum.splits)
  let ?s = "priv d1" and ?l = "(sc_link (priv d1))\<lparr>sc_post_state_ops := 0\<rparr>"
  let ?Q = "\<lambda>r d2. mtx_depth (priv d2) = 0 \<and> (case last_wish cs of
       None \<Rightarrow> r = (False, []) \<and> sc_tx (priv d2) = sc_tx ?s \<and> sc_cam_q (sc_link (priv d2)) = sc_cam_q (sc_link ?s)
     | Some False \<Rightarrow> r = (False, link_down_freed (sc_tx ?s)) \<and> sc_tx (priv d2) = link_down_tx (sc_tx ?s) \<and> sc_cam_q (sc_link (priv d2)) = []
     | Some True \<Rightarrow> (\<exists>armed rate. r = (armed, []) \<and> sc_tx (priv d2) = (sc_tx ?s)\<lparr>sc_rate_id := rate\<rparr> \<and>
         sc_cam_q (sc_link (priv d2)) = sc_cam_q (sc_link ?s)))"
  have f: "mtx_depth ?s = 0" "\<not> sc_io_busy ?s" "asked (sc_post_state_ops (sc_link ?s)) = last_wish cs"
    using h assms(1-3) by (auto simp: hooked_def hook_frame_def split: option.splits)
  have "ends (rtw88_post_state_task C (Some ci) wme) ?Q (\<lambda>_ _. False) d1"
  proof (rule task_run [OF f(1,2)])
    fix w :: "'c softc" assume w: "link_at 0 (invariants ?s) (sc_tx ?s) ?l (sc_rx ?s) w"
    then have w': "link_at 0 (invariants ?s) (sc_tx ?s) ?l (sc_rx ?s) (priv (d1\<lparr>priv := w\<rparr>))" by simp
    show "ends (post_link C (Some ci) wme (sc_post_state_ops (sc_link ?s)) (sc_post_state_bssid (sc_link ?s)))
        (\<lambda>r d2. on_line 0 (invariants ?s) (priv d2) \<and> ?Q r (d2\<lparr>priv := (priv d2)\<lparr>mtx_depth := 0\<rparr>\<rparr>)) (\<lambda>_ _. False) (d1\<lparr>priv := w\<rparr>)"
    proof (cases "last_wish cs")
      case None
      with w show ?thesis by (simp add: post_link_asked f(3) ends_value link_at_def)
    next
      case (Some u)
      then show ?thesis
        by (cases u) (auto simp: post_link_asked f(3) ends_tryE ends_on_priv ends_value link_at_def link_down_link_def
            intro!: ends_conseq [OF link_up_run [OF w']] ends_conseq [OF link_down_run [OF w]])
    qed
  qed
  from endsD [OF this assms(5)] r1 h show ?thesis
    by (auto simp: hooked_def hook_frame_def Let_def split: sum.splits option.splits bool.splits)
qed

text \<open>The theorems applied to a device that holds a frame behind the gate when the link goes down, and when it comes back before the task has run.\<close>

definition lost_link :: "u8 \<Rightarrow> unit softc rtw88_dev" where
  "lost_link ops = rtw88_dev_zero ((softc_zero () 0 True)\<lparr>
     sc_tx := tx_zero\<lparr>sc_ptk_install_pending := True, sc_tx_pending_q := \<lparr>mq_list = [data_mbuf], mq_maxlen = 16\<rparr>\<rparr>,
     sc_link := link_zero\<lparr>sc_post_state_ops := ops\<rparr>\<rparr>)"

lemma lost_link_simps:
  "mtx_depth (priv (lost_link ops)) = 0" "\<not> sc_io_busy (priv (lost_link ops))" "sc_post_state_ops (sc_link (priv (lost_link ops))) = ops"
  "sc_tx_pending_q (sc_tx (priv (lost_link ops))) = \<lparr>mq_list = [data_mbuf], mq_maxlen = 16\<rparr>"
  "mq_list (sc_tx_data_q (sc_tx (priv (lost_link ops)))) = []" "mq_list (sc_tx_data_vo_q (sc_tx (priv (lost_link ops)))) = []"
  "sc_ptk_install_pending (sc_tx (priv (lost_link ops)))"
  by (simp_all add: lost_link_def rtw88_dev_zero_def softc_zero_def tx_zero_def link_zero_def mbufq_init_def)

theorem link_down_clean_witness:
  "\<exists>d'. rtw88_post_state_task idle_ops None (\<lambda>_. undefined) (lost_link 4) = (Inr (False, [data_mbuf]), d') \<and>
     mq_list (sc_tx_pending_q (sc_tx (priv d'))) = [] \<and> \<not> sc_ptk_install_pending (sc_tx (priv d'))"
proof -
  obtain r d' where run: "rtw88_post_state_task idle_ops None (\<lambda>_. undefined) (lost_link 4) = (r, d')" by fastforce
  from link_down_clean [OF lost_link_simps(1,2) _ run] run show ?thesis by (simp add: lost_link_simps Let_def)
qed

theorem newstate_latest_wins_witness:
  fixes cs :: "link_change list"
  defines "cs \<equiv> [(0, None, IEEE80211_S_RUN, IEEE80211_S_SCAN, 0), (1, None, IEEE80211_S_SCAN, IEEE80211_S_AUTH, 0), (2, None, IEEE80211_S_AUTH, IEEE80211_S_RUN, 0)]"
  shows "\<exists>d1 d2 armed. newstates (Some rtw88_8821c_chip_info) (\<lambda>_ _. 0) cs (lost_link 0) = (Inr (), d1) \<and>
     rtw88_post_state_task idle_ops (Some rtw88_8821c_chip_info) (\<lambda>_. undefined) d1 = (Inr (armed, []), d2) \<and>
     mq_list (sc_tx_pending_q (sc_tx (priv d2))) = [data_mbuf] \<and> sc_ptk_install_pending (sc_tx (priv d2))"
proof -
  obtain r1 d1 where run1: "newstates (Some rtw88_8821c_chip_info) (\<lambda>_ _. 0) cs (lost_link 0) = (r1, d1)" by fastforce
  obtain r2 d2 where run2: "rtw88_post_state_task idle_ops (Some rtw88_8821c_chip_info) (\<lambda>_. undefined) d1 = (r2, d2)" by fastforce
  have "last_wish cs = Some True" by (simp add: cs_def wished_def to_up_def to_down_def)
  moreover have "asked (sc_post_state_ops (sc_link (priv (lost_link 0)))) = None" by (simp add: lost_link_simps asked_def)
  note newstate_latest_wins [OF lost_link_simps(1,2) this run1 run2]
  ultimately show ?thesis using run1 run2 by (auto simp: lost_link_simps Let_def)
qed

end
