(* ===== verification/Rtw_Phy_Data.thy ===== *)
theory Rtw_Phy_Data
  imports Rtw_Consts
begin

section \<open>The tables compiled into the driver\<close>

text \<open>
  \<^verbatim>\<open>rtw88_8821c_mac_tbl\<close> and \<^verbatim>\<open>rtw88_8821c_agc_btg_type2\<close>, entry by entry. The second is given pair by pair.
\<close>

definition rtw88_8821c_mac_tbl :: "(u16 \<times> u8) list" where
  "rtw88_8821c_mac_tbl = [
    (0x10, 0x43), (0x25, 0x1D), (0x26, 0xCE), (0x4F, 1), (0x29, 0xF9), (0x420, 0x80), (0x421, 0x1F), (0x428, 0xA),
    (0x429, 0x10), (0x430, 0), (0x431, 0), (0x432, 0), (0x433, 1), (0x434, 0x4), (0x435, 0x5), (0x436, 0x7),
    (0x437, 0x8), (0x43C, 0x4), (0x43D, 0x5), (0x43E, 0x7), (0x43F, 0x8), (0x440, 0x5D), (0x441, 1), (0x442, 0),
    (0x444, 0x10), (0x445, 0xF0), (0x446, 1), (0x447, 0xFE), (0x448, 0), (0x449, 0), (0x44A, 0), (0x44B, 0x40),
    (0x44C, 0x10), (0x44D, 0xF0), (0x44E, 0x3F), (0x44F, 0), (0x450, 0), (0x451, 0), (0x452, 0), (0x453, 0x40),
    (0x455, 0x70), (0x45E, 0x4), (0x49C, 0x10), (0x49D, 0xF0), (0x49E, 0), (0x49F, 0x6), (0x4A0, 0xE0), (0x4A1, 0x3),
    (0x4A2, 0), (0x4A3, 0x40), (0x4A4, 0x15), (0x4A5, 0xF0), (0x4A6, 0), (0x4A7, 0x6), (0x4A8, 0xE0), (0x4A9, 0),
    (0x4AA, 0), (0x4AB, 0), (0x7DA, 0x8), (0x1448, 0x6), (0x144A, 0x6), (0x144C, 0x6), (0x144E, 0x6), (0x4C8, 0xFF),
    (0x4C9, 0x8), (0x4CC, 0xFF), (0x4CD, 0xFF), (0x4CE, 1), (0x4CF, 0x8), (0x500, 0x26), (0x501, 0xA2),
    (0x502, 0x2F), (0x503, 0), (0x504, 0x28), (0x505, 0xA3), (0x506, 0x5E), (0x507, 0), (0x508, 0x2B), (0x509, 0xA4),
    (0x50A, 0x5E), (0x50B, 0), (0x50C, 0x4F), (0x50D, 0xA4), (0x50E, 0), (0x50F, 0), (0x512, 0x1C), (0x514, 0xA),
    (0x516, 0xA), (0x521, 0x2F), (0x525, 0x4F), (0x551, 0x10), (0x559, 0x2), (0x55C, 0x50), (0x55D, 0xFF),
    (0x577, 0xB), (0x578, 0x14), (0x579, 0x14), (0x57A, 0x14), (0x5BE, 0x64), (0x605, 0x30), (0x608, 0xE),
    (0x609, 0x22), (0x60C, 0x18), (0x6A0, 0xFF), (0x6A1, 0xFF), (0x6A2, 0xFF), (0x6A3, 0xFF), (0x6A4, 0xFF),
    (0x6A5, 0xFF), (0x6DE, 0x84), (0x620, 0xFF), (0x621, 0xFF), (0x622, 0xFF), (0x623, 0xFF), (0x624, 0xFF),
    (0x625, 0xFF), (0x626, 0xFF), (0x627, 0xFF), (0x638, 0x50), (0x63C, 0xA), (0x63D, 0xA), (0x63E, 0xE),
    (0x63F, 0xE), (0x640, 0x40), (0x642, 0x40), (0x643, 0), (0x652, 0xC8), (0x66E, 0x5), (0x700, 0x21),
    (0x701, 0x43), (0x702, 0x65), (0x703, 0x87), (0x708, 0x21), (0x709, 0x43), (0x70A, 0x65), (0x70B, 0x87),
    (0x718, 0x40), (0x7D4, 0x98)]"

definition rtw88_8821c_agc_btg_type2 :: "(u32 \<times> u32) list" where
  "rtw88_8821c_agc_btg_type2 = [
    (0x80001004, 0), (0x40000000, 0), (0x81C, 0xFF000013), (0x81C, 0xFE020013), (0x81C, 0xFD040013),
    (0x81C, 0xFC060013), (0x81C, 0xFB080013), (0x81C, 0xFA0A0013), (0x81C, 0xF90C0013), (0x81C, 0xF80E0013),
    (0x81C, 0xF7100013), (0x81C, 0xF6120013), (0x81C, 0xF5140013), (0x81C, 0xF4160013), (0x81C, 0xF3180013),
    (0x81C, 0xF21A0013), (0x81C, 0xF11C0013), (0x81C, 0xF01E0013), (0x81C, 0xEF200013), (0x81C, 0xEE220013),
    (0x81C, 0xED240013), (0x81C, 0xEC260013), (0x81C, 0xEB280013), (0x81C, 0xEA2A0013), (0x81C, 0xE92C0013),
    (0x81C, 0xE82E0013), (0x81C, 0xE7300013), (0x81C, 0x8B320013), (0x81C, 0x8A340013), (0x81C, 0x89360013),
    (0x81C, 0x88380013), (0x81C, 0x873A0013), (0x81C, 0x863C0013), (0x81C, 0x853E0013), (0x81C, 0x84400013),
    (0x81C, 0x83420013), (0x81C, 0x82440013), (0x81C, 0x81460013), (0x81C, 0x8480013), (0x81C, 0x74A0013),
    (0x81C, 0x64C0013), (0x81C, 0x54E0013), (0x81C, 0x4500013), (0x81C, 0x3520013), (0x81C, 0x88540003),
    (0x81C, 0x87560003), (0x81C, 0x86580003), (0x81C, 0x855A0003), (0x81C, 0x845C0003), (0x81C, 0x835E0003),
    (0x81C, 0x82600003), (0x81C, 0x81620003), (0x81C, 0x7640003), (0x81C, 0x6660003), (0x81C, 0x5680003),
    (0x81C, 0x46A0003), (0x81C, 0x36C0003), (0x81C, 0x26E0003), (0x81C, 0x1700003), (0x81C, 0x1720003),
    (0x81C, 0x1740003), (0x81C, 0x1760003), (0x81C, 0x1780003), (0x81C, 0x17A0003), (0x81C, 0x17C0003),
    (0x81C, 0x17E0003), (0x81C, 0xFF000813), (0x81C, 0xFE020813), (0x81C, 0xFD040813), (0x81C, 0xFC060813),
    (0x81C, 0xFB080813), (0x81C, 0xFA0A0813), (0x81C, 0xF90C0813), (0x81C, 0xF80E0813), (0x81C, 0xF7100813),
    (0x81C, 0xF6120813), (0x81C, 0xF5140813), (0x81C, 0xF4160813), (0x81C, 0xF3180813), (0x81C, 0xF21A0813),
    (0x81C, 0xF11C0813), (0x81C, 0x941E0813), (0x81C, 0x93200813), (0x81C, 0x92220813), (0x81C, 0x91240813),
    (0x81C, 0x90260813), (0x81C, 0x8F280813), (0x81C, 0x8E2A0813), (0x81C, 0x8D2C0813), (0x81C, 0x8C2E0813),
    (0x81C, 0x8B300813), (0x81C, 0x8A320813), (0x81C, 0x89340813), (0x81C, 0x88360813), (0x81C, 0x87380813),
    (0x81C, 0x863A0813), (0x81C, 0x853C0813), (0x81C, 0x843E0813), (0x81C, 0x83400813), (0x81C, 0x82420813),
    (0x81C, 0x81440813), (0x81C, 0x7460813), (0x81C, 0x6480813), (0x81C, 0x54A0813), (0x81C, 0x44C0813),
    (0x81C, 0x34E0813), (0x81C, 0x2500813), (0x81C, 0x1520813), (0x81C, 0x88540803), (0x81C, 0x87560803),
    (0x81C, 0x86580803), (0x81C, 0x855A0803), (0x81C, 0x845C0803), (0x81C, 0x835E0803), (0x81C, 0x82600803),
    (0x81C, 0x81620803), (0x81C, 0x7640803), (0x81C, 0x6660803), (0x81C, 0x5680803), (0x81C, 0x46A0803),
    (0x81C, 0x36C0803), (0x81C, 0x26E0803), (0x81C, 0x1700803), (0x81C, 0x1720803), (0x81C, 0x1740803),
    (0x81C, 0x1760803), (0x81C, 0x1780803), (0x81C, 0x17A0803), (0x81C, 0x17C0803), (0x81C, 0x17E0803),
    (0x90001005, 0), (0x40000000, 0), (0x81C, 0xFF000013), (0x81C, 0xFE020013), (0x81C, 0xFD040013),
    (0x81C, 0xFC060013), (0x81C, 0xFB080013), (0x81C, 0xFA0A0013), (0x81C, 0xF90C0013), (0x81C, 0xF80E0013),
    (0x81C, 0xF7100013), (0x81C, 0xF6120013), (0x81C, 0xF5140013), (0x81C, 0xF4160013), (0x81C, 0xF3180013),
    (0x81C, 0xF21A0013), (0x81C, 0xF11C0013), (0x81C, 0xF01E0013), (0x81C, 0xEF200013), (0x81C, 0xEE220013),
    (0x81C, 0xED240013), (0x81C, 0xEC260013), (0x81C, 0xEB280013), (0x81C, 0xEA2A0013), (0x81C, 0xE92C0013),
    (0x81C, 0xE82E0013), (0x81C, 0xE7300013), (0x81C, 0x8B320013), (0x81C, 0x8A340013), (0x81C, 0x89360013),
    (0x81C, 0x88380013), (0x81C, 0x873A0013), (0x81C, 0x863C0013), (0x81C, 0x853E0013), (0x81C, 0x84400013),
    (0x81C, 0x83420013), (0x81C, 0x82440013), (0x81C, 0x81460013), (0x81C, 0x8480013), (0x81C, 0x74A0013),
    (0x81C, 0x64C0013), (0x81C, 0x54E0013), (0x81C, 0x4500013), (0x81C, 0x3520013), (0x81C, 0x88540003),
    (0x81C, 0x87560003), (0x81C, 0x86580003), (0x81C, 0x855A0003), (0x81C, 0x845C0003), (0x81C, 0x835E0003),
    (0x81C, 0x82600003), (0x81C, 0x81620003), (0x81C, 0x7640003), (0x81C, 0x6660003), (0x81C, 0x5680003),
    (0x81C, 0x46A0003), (0x81C, 0x36C0003), (0x81C, 0x26E0003), (0x81C, 0x1700003), (0x81C, 0x1720003),
    (0x81C, 0x1740003), (0x81C, 0x1760003), (0x81C, 0x1780003), (0x81C, 0x17A0003), (0x81C, 0x17C0003),
    (0x81C, 0x17E0003), (0x81C, 0xFF000813), (0x81C, 0xFE020813), (0x81C, 0xFD040813), (0x81C, 0xFC060813),
    (0x81C, 0xFB080813), (0x81C, 0xFA0A0813), (0x81C, 0xF90C0813), (0x81C, 0xF80E0813), (0x81C, 0xF7100813),
    (0x81C, 0xF6120813), (0x81C, 0xF5140813), (0x81C, 0xF4160813), (0x81C, 0xF3180813), (0x81C, 0xF21A0813),
    (0x81C, 0xF11C0813), (0x81C, 0x941E0813), (0x81C, 0x93200813), (0x81C, 0x92220813), (0x81C, 0x91240813),
    (0x81C, 0x90260813), (0x81C, 0x8F280813), (0x81C, 0x8E2A0813), (0x81C, 0x8D2C0813), (0x81C, 0x8C2E0813),
    (0x81C, 0x8B300813), (0x81C, 0x8A320813), (0x81C, 0x89340813), (0x81C, 0x88360813), (0x81C, 0x87380813),
    (0x81C, 0x863A0813), (0x81C, 0x853C0813), (0x81C, 0x843E0813), (0x81C, 0x83400813), (0x81C, 0x82420813),
    (0x81C, 0x81440813), (0x81C, 0x7460813), (0x81C, 0x6480813), (0x81C, 0x54A0813), (0x81C, 0x44C0813),
    (0x81C, 0x34E0813), (0x81C, 0x2500813), (0x81C, 0x1520813), (0x81C, 0x88540803), (0x81C, 0x87560803),
    (0x81C, 0x86580803), (0x81C, 0x855A0803), (0x81C, 0x845C0803), (0x81C, 0x835E0803), (0x81C, 0x82600803),
    (0x81C, 0x81620803), (0x81C, 0x7640803), (0x81C, 0x6660803), (0x81C, 0x5680803), (0x81C, 0x46A0803),
    (0x81C, 0x36C0803), (0x81C, 0x26E0803), (0x81C, 0x1700803), (0x81C, 0x1720803), (0x81C, 0x1740803),
    (0x81C, 0x1760803), (0x81C, 0x1780803), (0x81C, 0x17A0803), (0x81C, 0x17C0803), (0x81C, 0x17E0803),
    (0xA0000000, 0), (0x81C, 0xFF000013), (0x81C, 0xFE020013), (0x81C, 0xFD040013), (0x81C, 0xFC060013),
    (0x81C, 0xFB080013), (0x81C, 0xFA0A0013), (0x81C, 0xF90C0013), (0x81C, 0xF80E0013), (0x81C, 0xF7100013),
    (0x81C, 0xF6120013), (0x81C, 0xF5140013), (0x81C, 0xF4160013), (0x81C, 0xF3180013), (0x81C, 0xF21A0013),
    (0x81C, 0xF11C0013), (0x81C, 0xF01E0013), (0x81C, 0xEF200013), (0x81C, 0xEE220013), (0x81C, 0xED240013),
    (0x81C, 0xEC260013), (0x81C, 0xEB280013), (0x81C, 0xEA2A0013), (0x81C, 0xE92C0013), (0x81C, 0xE82E0013),
    (0x81C, 0xE7300013), (0x81C, 0x8A320013), (0x81C, 0x89340013), (0x81C, 0x88360013), (0x81C, 0x87380013),
    (0x81C, 0x863A0013), (0x81C, 0x853C0013), (0x81C, 0x843E0013), (0x81C, 0x83400013), (0x81C, 0x82420013),
    (0x81C, 0x81440013), (0x81C, 0x7460013), (0x81C, 0x6480013), (0x81C, 0x54A0013), (0x81C, 0x44C0013),
    (0x81C, 0x34E0013), (0x81C, 0x2500013), (0x81C, 0x1520013), (0x81C, 0x88540003), (0x81C, 0x87560003),
    (0x81C, 0x86580003), (0x81C, 0x855A0003), (0x81C, 0x845C0003), (0x81C, 0x835E0003), (0x81C, 0x82600003),
    (0x81C, 0x81620003), (0x81C, 0x7640003), (0x81C, 0x6660003), (0x81C, 0x5680003), (0x81C, 0x46A0003),
    (0x81C, 0x36C0003), (0x81C, 0x26E0003), (0x81C, 0x1700003), (0x81C, 0x1720003), (0x81C, 0x1740003),
    (0x81C, 0x1760003), (0x81C, 0x1780003), (0x81C, 0x17A0003), (0x81C, 0x17C0003), (0x81C, 0x17E0003),
    (0x81C, 0xFF000813), (0x81C, 0xFE020813), (0x81C, 0xFD040813), (0x81C, 0xFC060813), (0x81C, 0xFB080813),
    (0x81C, 0xFA0A0813), (0x81C, 0xF90C0813), (0x81C, 0xF80E0813), (0x81C, 0xF7100813), (0x81C, 0xF6120813),
    (0x81C, 0xF5140813), (0x81C, 0xF4160813), (0x81C, 0xF3180813), (0x81C, 0xF21A0813), (0x81C, 0xF11C0813),
    (0x81C, 0x961E0813), (0x81C, 0x95200813), (0x81C, 0x94220813), (0x81C, 0x93240813), (0x81C, 0x92260813),
    (0x81C, 0x91280813), (0x81C, 0x8F2A0813), (0x81C, 0x8E2C0813), (0x81C, 0x8D2E0813), (0x81C, 0x8C300813),
    (0x81C, 0x8B320813), (0x81C, 0x8A340813), (0x81C, 0x89360813), (0x81C, 0x88380813), (0x81C, 0x873A0813),
    (0x81C, 0x863C0813), (0x81C, 0x853E0813), (0x81C, 0x84400813), (0x81C, 0x83420813), (0x81C, 0x82440813),
    (0x81C, 0x8460813), (0x81C, 0x7480813), (0x81C, 0x64A0813), (0x81C, 0x54C0813), (0x81C, 0x44E0813),
    (0x81C, 0x3500813), (0x81C, 0x2520813), (0x81C, 0x89540803), (0x81C, 0x88560803), (0x81C, 0x87580803),
    (0x81C, 0x865A0803), (0x81C, 0x855C0803), (0x81C, 0x845E0803), (0x81C, 0x83600803), (0x81C, 0x82620803),
    (0x81C, 0x7640803), (0x81C, 0x6660803), (0x81C, 0x5680803), (0x81C, 0x46A0803), (0x81C, 0x36C0803),
    (0x81C, 0x26E0803), (0x81C, 0x1700803), (0x81C, 0x1720803), (0x81C, 0x1740803), (0x81C, 0x1760803),
    (0x81C, 0x1780803), (0x81C, 0x17A0803), (0x81C, 0x17C0803), (0x81C, 0x17E0803), (0xB0000000, 0)]"

end
