(* ===== verification/Rtw_Tables.thy ===== *)
theory Rtw_Tables
  imports Rtw_Mac Rtw_Phy_Data
begin

section \<open>The interpreter of the register tables\<close>

text \<open>
  The walker of \<^verbatim>\<open>if_rtw88_usb.c\<close> over tables of word pairs with embedded conditions, the parser of the table blob (a
  \<^verbatim>\<open>firmware(9)\<close> image, a parameter), the replay of its radio section, and the static MAC table. The words of a table are the bytes of
  the blob in the order of a little-endian host, as the cast of the code has it; pauses have no model. \<open>tbl_block\<close> is the
  structure the conditions encode, and \<open>select\<close> says which writes a chip is meant to get from it.
\<close>

definition rtw88_load_mac_tbl :: "'c chip_ops \<Rightarrow> ('c softc, unit) cm" where
  "rtw88_load_mac_tbl C = seqE RTW88_ASSERT_LOCKED (forE (\<lambda>(a, v). rtw88_usb_write1 C a v) rtw88_8821c_mac_tbl)"

definition RTW88_PHY_COND_BRANCH :: "u32 \<Rightarrow> u32" where
  "RTW88_PHY_COND_BRANCH c = drop_bit 28 c AND 0x3"

definition RTW88_PHY_COND_CUT :: "u32 \<Rightarrow> u32" where
  "RTW88_PHY_COND_CUT c = drop_bit 24 c AND 0xF"

definition RTW88_PHY_COND_PKG :: "u32 \<Rightarrow> u32" where
  "RTW88_PHY_COND_PKG c = drop_bit 12 c AND 0xF"

definition RTW88_PHY_COND_INTF :: "u32 \<Rightarrow> u32" where
  "RTW88_PHY_COND_INTF c = drop_bit 8 c AND 0xF"

definition RTW88_PHY_COND_RFE :: "u32 \<Rightarrow> u32" where
  "RTW88_PHY_COND_RFE c = c AND 0xFF"

definition rtw88_phy_cond_check :: "phy_softc \<Rightarrow> u32 \<Rightarrow> bool" where
  "rtw88_phy_cond_check p cond \<longleftrightarrow>
     \<not> (RTW88_PHY_COND_CUT cond \<noteq> 0 \<and> RTW88_PHY_COND_CUT cond \<noteq> ucast (sc_cut_version p)) \<and>
     \<not> (RTW88_PHY_COND_PKG cond \<noteq> 0 \<and> RTW88_PHY_COND_PKG cond \<noteq> ucast (sc_pkg_type p)) \<and>
     \<not> (RTW88_PHY_COND_INTF cond \<noteq> 0 \<and> RTW88_PHY_COND_INTF cond \<noteq> RTW88_INTF_USB) \<and>
     RTW88_PHY_COND_RFE cond = ucast (sc_rfe_option p)"

definition rtw88_phy_apply :: "'c chip_ops \<Rightarrow> u8 \<Rightarrow> u32 \<Rightarrow> u32 \<Rightarrow> ('c softc, unit) cm" where
  "rtw88_phy_apply C kind addr data =
     (if kind = RTW88_TBL_KIND_BB \<and> addr \<in> {0xFE, 0xFD, 0xFC, 0xFB, 0xFA, 0xF9} then ret ()
      else if kind = RTW88_TBL_KIND_RF_A \<and> addr \<in> {0xFFE, 0xFE} then ret ()
      else if kind = RTW88_TBL_KIND_MAC then rtw88_usb_write1 C (ucast addr) (ucast data)
      else if kind = RTW88_TBL_KIND_BB \<or> kind = RTW88_TBL_KIND_AGC then rtw88_usb_write4 C (ucast addr) data
      else if kind = RTW88_TBL_KIND_RF_A then rtw88_phy_write_rf_a C addr data
      else fail (Errno EINVAL))"

text \<open>The loop: its local variables are \<open>pos_cond\<close>, \<open>is_matched\<close>, \<open>is_skipped\<close> and \<open>applied\<close>.\<close>

fun walk_words :: "'c chip_ops \<Rightarrow> u8 \<Rightarrow> u32 list \<Rightarrow> u32 \<Rightarrow> bool \<Rightarrow> bool \<Rightarrow> u32 \<Rightarrow> ('c softc, u32) cm" where
  "walk_words C kind (w0 # w1 # ws) pos_cond is_matched is_skipped applied =
     (if w0 AND RTW88_PHY_COND_BIT_POS \<noteq> 0 then
        (if RTW88_PHY_COND_BRANCH w0 = RTW88_PHY_COND_BRANCH_ENDIF then walk_words C kind ws pos_cond True False applied
         else if RTW88_PHY_COND_BRANCH w0 = RTW88_PHY_COND_BRANCH_ELSE
         then walk_words C kind ws pos_cond (if is_skipped then False else True) is_skipped applied
         else walk_words C kind ws w0 is_matched is_skipped applied)
      else if w0 AND RTW88_PHY_COND_BIT_NEG \<noteq> 0 then
        (if \<not> is_skipped then
           tryE (getS (\<lambda>s. rtw88_phy_cond_check (sc_phy s) pos_cond)) (\<lambda>b.
             if b then walk_words C kind ws pos_cond True True applied
             else walk_words C kind ws pos_cond False False applied)
         else walk_words C kind ws pos_cond False is_skipped applied)
      else if is_matched then
        seqE (rtw88_phy_apply C kind w0 w1) (walk_words C kind ws pos_cond is_matched is_skipped (applied + 1))
      else walk_words C kind ws pos_cond is_matched is_skipped applied)"
| "walk_words C kind _ pos_cond is_matched is_skipped applied = ret applied"

definition rtw88_phy_walk_table :: "'c chip_ops \<Rightarrow> u8 \<Rightarrow> u32 list \<Rightarrow> ('c softc, u32) cm" where
  "rtw88_phy_walk_table C kind ws = seqE RTW88_ASSERT_LOCKED (walk_words C kind ws 0 True False 0)"

subsection \<open>The table blob\<close>

definition blob_words :: "u8 list \<Rightarrow> nat \<Rightarrow> u32 list" where
  "blob_words p nwords = map (\<lambda>j. le32dec p (4 * j)) [0..<nwords]"

definition blob_magic :: "u8 list" where
  "blob_magic = [0x52, 0x38, 0x38, 0x54]"

fun blob_tables :: "'c chip_ops \<Rightarrow> nat \<Rightarrow> u8 list \<Rightarrow> ('c softc, unit) cm" where
  "blob_tables C 0 p = ret ()"
| "blob_tables C (Suc i) p =
     (if length p < 8 then fail (Errno EINVAL)
      else let kind = at p 0; nwords = unat (le32dec p 4); body = drop 8 p in
        if nwords * 4 > length body then fail (Errno EINVAL)
        else tryE (rtw88_phy_walk_table C kind (blob_words body nwords)) (\<lambda>_.
          blob_tables C i (drop (nwords * 4) body)))"

definition rtw88_phy_load_blob_locked :: "'c chip_ops \<Rightarrow> ('c softc, unit) cm" where
  "rtw88_phy_load_blob_locked C = seqE RTW88_ASSERT_LOCKED
     (tryE (getS (sc_tbl_blob \<circ> sc_phy)) (\<lambda>blob. case blob of
        None \<Rightarrow> fail (Errno ENOENT)
      | Some p \<Rightarrow>
          if length p < 8 then fail (Errno ENOENT)
          else if take 4 p \<noteq> blob_magic then fail (Errno EINVAL)
          else if at p 4 \<noteq> 1 then fail (Errno EINVAL)
          else blob_tables C (unat (at p 5)) (drop 8 p)))"

function replay_from :: "'c chip_ops \<Rightarrow> u8 list \<Rightarrow> ('c softc, unit) cm" where
  "replay_from C p =
     (if length p < 8 then fail (Errno ENOENT)
      else let kind = at p 0; nwords = unat (le32dec p 4); body = drop 8 p in
        if nwords * 4 > length body then fail (Errno EINVAL)
        else if kind = RTW88_TBL_KIND_RF_A
        then tryE (rtw88_phy_walk_table C kind (blob_words body nwords)) (\<lambda>_. ret ())
        else replay_from C (drop (nwords * 4) body))"
  by pat_completeness auto
termination by (relation "measure (\<lambda>(C, p). length p)") auto

declare replay_from.simps [simp del] blob_tables.simps(2) [simp del]

definition rtw88_phy_replay_rf_a :: "'c chip_ops \<Rightarrow> ('c softc, unit) cm" where
  "rtw88_phy_replay_rf_a C = seqE RTW88_ASSERT_LOCKED
     (tryE (getS (sc_tbl_blob \<circ> sc_phy)) (\<lambda>blob. case blob of
        None \<Rightarrow> fail (Errno ENOENT)
      | Some p \<Rightarrow>
          if length p < 8 then fail (Errno ENOENT)
          else if take 4 p \<noteq> blob_magic then fail (Errno EINVAL)
          else replay_from C (drop 8 p)))"

definition rtw88_phy_acquire_tbl :: "u8 list option \<Rightarrow> ('c softc, unit) cm" where
  "rtw88_phy_acquire_tbl fw = tryE (getS (sc_tbl_blob \<circ> sc_phy)) (\<lambda>blob.
     if blob \<noteq> None then ret ()
     else case fw of
       None \<Rightarrow> fail (Errno ENOENT)
     | Some img \<Rightarrow> updS (\<lambda>s. s\<lparr>sc_phy := (sc_phy s)\<lparr>sc_tbl_blob := Some img\<rparr>\<rparr>))"

definition rtw88_phy_release_tbl :: "'c softc \<Rightarrow> 'c softc" where
  "rtw88_phy_release_tbl s = s\<lparr>sc_phy := (sc_phy s)\<lparr>sc_tbl_blob := None\<rparr>\<rparr>"

subsection \<open>Tables as structures\<close>

text \<open>
  A table is a sequence of plain runs of pairs and of conditionals: branches with their conditions and an optional
  else part. \<open>encode\<close> is the layout in words, with the tags of the code's macros.
\<close>

type_synonym pairs = "(u32 \<times> u32) list"

datatype tbl_block = Plain pairs | Branches "(u32 \<times> pairs) list" "pairs option"

definition flat :: "pairs \<Rightarrow> u32 list" where
  "flat ps = concat (map (\<lambda>(a, d). [a, d]) ps)"

definition branch :: "u32 \<Rightarrow> u32 \<times> pairs \<Rightarrow> u32 list" where
  "branch tag b = [tag OR fst b, 0, RTW88_PHY_COND_BIT_NEG, 0] @ flat (snd b)"

fun encode :: "tbl_block \<Rightarrow> u32 list" where
  "encode (Plain ps) = flat ps"
| "encode (Branches bs els) =
     concat (map2 branch (0x80000000 # replicate (length bs - 1) 0x90000000) bs) @
     (case els of None \<Rightarrow> [] | Some ps \<Rightarrow> [0xA0000000, 0] @ flat ps) @ [0xB0000000, 0]"

fun select :: "phy_softc \<Rightarrow> tbl_block \<Rightarrow> pairs" where
  "select p (Plain ps) = ps"
| "select p (Branches bs els) =
     (case find (\<lambda>b. rtw88_phy_cond_check p (fst b)) bs of
        Some b \<Rightarrow> snd b
      | None \<Rightarrow> (case els of None \<Rightarrow> [] | Some ps \<Rightarrow> ps))"

definition pairs_ok :: "pairs \<Rightarrow> bool" where
  "pairs_ok ps \<longleftrightarrow> (\<forall>x \<in> set ps. fst x AND 0xC0000000 = 0)"

fun block_ok :: "tbl_block \<Rightarrow> bool" where
  "block_ok (Plain ps) \<longleftrightarrow> pairs_ok ps"
| "block_ok (Branches bs els) \<longleftrightarrow> bs \<noteq> [] \<and> (\<forall>b \<in> set bs. fst b AND 0xF0000000 = 0 \<and> pairs_ok (snd b)) \<and>
     (case els of None \<Rightarrow> True | Some ps \<Rightarrow> pairs_ok ps)"

subsection \<open>The walker selects\<close>

lemma flat_simps [simp]: "flat [] = []" "flat (x # ps) = fst x # snd x # flat ps"
  by (auto simp: flat_def split: prod.splits)

lemma pairs_ok_simps [simp]:
  "pairs_ok []" "pairs_ok (x # ps) \<longleftrightarrow> fst x AND 0xC0000000 = 0 \<and> pairs_ok ps"
  by (auto simp: pairs_ok_def)

lemma plain_address:
  fixes a :: u32
  assumes "a AND 0xC0000000 = 0"
  shows "a AND 0x80000000 = 0" "a AND 0x40000000 = 0"
proof -
  have "(a AND 0xC0000000) AND 0x80000000 = a AND 0x80000000" "(a AND 0xC0000000) AND 0x40000000 = a AND 0x40000000"
    by (simp_all add: and.assoc)
  with assms show "a AND 0x80000000 = 0" "a AND 0x40000000 = 0" by simp_all
qed

abbreviation (input) apply_pairs :: "'c chip_ops \<Rightarrow> u8 \<Rightarrow> pairs \<Rightarrow> ('c softc, unit) cm" where
  "apply_pairs C kind ps \<equiv> forE (\<lambda>(a, d). rtw88_phy_apply C kind a d) ps"

lemma walk_plain:
  assumes "pairs_ok ps"
  shows "walk_words C kind (flat ps @ ws) c True sk n =
    seqE (apply_pairs C kind ps) (walk_words C kind ws c True sk (n + of_nat (length ps)))"
  using assms by (induction ps arbitrary: n) (auto simp: plain_address seqE_assoc algebra_simps split: prod.splits)

lemma walk_skip: "pairs_ok ps \<Longrightarrow> walk_words C kind (flat ps @ ws) c False sk n = walk_words C kind ws c False sk n"
  by (induction ps) (auto simp: plain_address)

lemma cond_bits:
  fixes c :: u32
  assumes "c AND 0xF0000000 = 0"
  shows "c AND 0x80000000 = 0" "drop_bit 28 c AND 3 = 0"
proof -
  have "(c AND 0xF0000000) AND 0x80000000 = c AND 0x80000000" by (simp add: and.assoc)
  with assms show "c AND 0x80000000 = 0" by simp
  have "drop_bit 28 (c AND 0xF0000000) = drop_bit 28 c AND 0xF" by (simp add: drop_bit_and)
  with assms have "(drop_bit 28 c AND 0xF) AND 3 = 0" by simp
  then show "drop_bit 28 c AND 3 = 0" by (simp add: and.assoc)
qed

lemma branch_tag:
  assumes "c AND 0xF0000000 = 0" "tag = 0x80000000 \<or> tag = 0x90000000"
  shows "(tag OR c) AND 0x80000000 \<noteq> 0" "RTW88_PHY_COND_BRANCH (tag OR c) \<noteq> 2" "RTW88_PHY_COND_BRANCH (tag OR c) \<noteq> 3"
    "rtw88_phy_cond_check p (tag OR c) = rtw88_phy_cond_check p c"
  using assms(2) cond_bits [OF assms(1)]
  by (auto simp: RTW88_PHY_COND_BRANCH_def rtw88_phy_cond_check_def RTW88_PHY_COND_CUT_def RTW88_PHY_COND_PKG_def
      RTW88_PHY_COND_INTF_def RTW88_PHY_COND_RFE_def drop_bit_or bit.conj_disj_distrib2)

lemma walk_branch:
  assumes "c AND 0xF0000000 = 0" "tag = 0x80000000 \<or> tag = 0x90000000"
  shows "walk_words C kind (branch tag (c, ps) @ ws) pos m sk n s =
    (if sk then walk_words C kind (flat ps @ ws) (tag OR c) False True n s
     else if rtw88_phy_cond_check (sc_phy s) c then walk_words C kind (flat ps @ ws) (tag OR c) True True n s
     else walk_words C kind (flat ps @ ws) (tag OR c) False False n s)"
  using branch_tag [OF assms] by (simp add: branch_def)

abbreviation (input) branches :: "u32 list \<Rightarrow> (u32 \<times> pairs) list \<Rightarrow> u32 list" where
  "branches tags bs \<equiv> concat (map2 branch tags bs)"

definition branches_ok :: "u32 list \<Rightarrow> (u32 \<times> pairs) list \<Rightarrow> bool" where
  "branches_ok tags bs \<longleftrightarrow> length tags = length bs \<and> set tags \<subseteq> {0x80000000, 0x90000000} \<and>
     (\<forall>b \<in> set bs. fst b AND 0xF0000000 = 0 \<and> pairs_ok (snd b))"

text \<open>Once a branch has matched, the others are skipped.\<close>

lemma walk_branch_skip:
  assumes "c AND 0xF0000000 = 0" "tag = 0x80000000 \<or> tag = 0x90000000"
  shows "walk_words C kind (branch tag (c, ps) @ ws) pos m True n = walk_words C kind (flat ps @ ws) (tag OR c) False True n"
  using branch_tag [OF assms] by (simp add: branch_def)

lemma walk_matched:
  assumes "branches_ok tags bs"
  shows "\<exists>pos' m'. walk_words C kind (branches tags bs @ ws) pos m True n = walk_words C kind ws pos' m' True n"
  using assms
proof (induction bs arbitrary: tags pos m)
  case Nil
  then show ?case by auto
next
  case (Cons b bs)
  obtain tag tags' where t: "tags = tag # tags'" "tag = 0x80000000 \<or> tag = 0x90000000"
    using Cons.prems by (cases tags) (auto simp: branches_ok_def)
  then have "branches_ok tags' bs" using Cons.prems by (simp add: branches_ok_def)
  from Cons.IH [OF this] obtain pos' m' where
    "walk_words C kind (branches tags' bs @ ws) (tag OR fst b) False True n = walk_words C kind ws pos' m' True n" by blast
  moreover have "walk_words C kind (branches tags (b # bs) @ ws) pos m True n =
      walk_words C kind (branches tags' bs @ ws) (tag OR fst b) False True n"
    using Cons.prems t walk_branch_skip [of "fst b" tag C kind "snd b" "branches tags' bs @ ws"]
    by (simp add: branches_ok_def walk_skip)
  ultimately show ?case by auto
qed

lemma walk_unmatched:
  assumes "branches_ok tags bs" "find (\<lambda>b. rtw88_phy_cond_check (sc_phy s) (fst b)) bs = None"
  shows "\<exists>pos' m'. walk_words C kind (branches tags bs @ ws) pos m False n s = walk_words C kind ws pos' m' False n s"
  using assms
proof (induction bs arbitrary: tags pos m)
  case Nil
  then show ?case by auto
next
  case (Cons b bs)
  obtain tag tags' where t: "tags = tag # tags'" "tag = 0x80000000 \<or> tag = 0x90000000"
    using Cons.prems by (cases tags) (auto simp: branches_ok_def)
  from Cons.prems(2) have no: "\<not> rtw88_phy_cond_check (sc_phy s) (fst b)"
    "find (\<lambda>b. rtw88_phy_cond_check (sc_phy s) (fst b)) bs = None" by (auto split: if_splits)
  have "branches_ok tags' bs" using Cons.prems t by (simp add: branches_ok_def)
  from Cons.IH [OF this no(2)] obtain pos' m' where
    "walk_words C kind (branches tags' bs @ ws) (tag OR fst b) False False n s = walk_words C kind ws pos' m' False n s" by blast
  moreover have "walk_words C kind (branches tags (b # bs) @ ws) pos m False n s =
      walk_words C kind (branches tags' bs @ ws) (tag OR fst b) False False n s"
    using Cons.prems t no(1) walk_branch [of "fst b" tag C kind "snd b" "branches tags' bs @ ws"]
    by (simp add: branches_ok_def walk_skip)
  ultimately show ?case by auto
qed

lemma branches_ok_append:
  "branches_ok tags (xs @ b # ys) \<Longrightarrow> \<exists>t1 tag t2. tags = t1 @ tag # t2 \<and> branches_ok t1 xs \<and> branches_ok t2 ys \<and>
     (tag = 0x80000000 \<or> tag = 0x90000000) \<and> fst b AND 0xF0000000 = 0 \<and> pairs_ok (snd b)"
proof (intro exI conjI)
  assume ok: "branches_ok tags (xs @ b # ys)"
  let ?i = "length xs"
  have l: "?i < length tags" "set tags \<subseteq> {0x80000000, 0x90000000}" using ok by (simp_all add: branches_ok_def)
  show "tags = take ?i tags @ tags ! ?i # drop (Suc ?i) tags" by (rule id_take_nth_drop [OF l(1)])
  show "tags ! ?i = 0x80000000 \<or> tags ! ?i = 0x90000000" using l nth_mem [OF l(1)] by blast
  show "branches_ok (take ?i tags) xs" using ok l set_take_subset [of ?i tags] by (auto simp: branches_ok_def)
  show "branches_ok (drop (Suc ?i) tags) ys" using ok l set_drop_subset [of "Suc ?i" tags] by (auto simp: branches_ok_def)
qed (auto simp: branches_ok_def)

lemma branches_append: "length t1 = length xs \<Longrightarrow> branches (t1 @ t2) (xs @ ys) = branches t1 xs @ branches t2 ys"
  by simp

lemma walk_hit:
  assumes "branches_ok tags bs" "find (\<lambda>b. rtw88_phy_cond_check (sc_phy s) (fst b)) bs = Some b"
  shows "\<exists>pos' m'. walk_words C kind (branches tags bs @ ws) pos m False n s =
    seqE (apply_pairs C kind (snd b)) (walk_words C kind ws pos' m' True (n + of_nat (length (snd b)))) s"
proof -
  from assms(2) obtain i where i: "i < length bs" "b = bs ! i" "rtw88_phy_cond_check (sc_phy s) (fst b)"
    "\<forall>j < i. \<not> rtw88_phy_cond_check (sc_phy s) (fst (bs ! j))" by (auto simp: find_Some_iff)
  define xs ys where "xs = take i bs" and "ys = drop (Suc i) bs"
  have bs: "bs = xs @ b # ys" using i(1,2) by (simp add: xs_def ys_def id_take_nth_drop)
  have no: "find (\<lambda>b. rtw88_phy_cond_check (sc_phy s) (fst b)) xs = None"
    using i(1,4) by (auto simp: find_None_iff xs_def in_set_conv_nth)
  from branches_ok_append [OF assms(1) [unfolded bs]] obtain t1 tag t2 where t: "tags = t1 @ tag # t2"
    "branches_ok t1 xs" "branches_ok t2 ys" "tag = 0x80000000 \<or> tag = 0x90000000" "fst b AND 0xF0000000 = 0" "pairs_ok (snd b)" by blast
  have len: "length t1 = length xs" using t(2) by (simp add: branches_ok_def)
  obtain p1 m1 where 1: "walk_words C kind (branches t1 xs @ branch tag b @ branches t2 ys @ ws) pos m False n s =
      walk_words C kind (branch tag b @ branches t2 ys @ ws) p1 m1 False n s"
    using walk_unmatched [OF t(2) no] by blast
  have 2: "walk_words C kind (branch tag b @ branches t2 ys @ ws) p1 m1 False n s =
      walk_words C kind (flat (snd b) @ branches t2 ys @ ws) (tag OR fst b) True True n s"
    using walk_branch [OF t(5,4), of C kind "snd b"] i(3) by simp
  obtain p3 m3 where 3: "walk_words C kind (branches t2 ys @ ws) (tag OR fst b) True True (n + of_nat (length (snd b))) =
      walk_words C kind ws p3 m3 True (n + of_nat (length (snd b)))" using walk_matched [OF t(3)] by blast
  have "branches tags bs @ ws = branches t1 xs @ branch tag b @ branches t2 ys @ ws"
    using len unfolding bs t(1) by simp
  then show ?thesis using 1 2 3 walk_plain [OF t(6)] by metis
qed

definition block_tail :: "pairs option \<Rightarrow> u32 list \<Rightarrow> u32 list" where
  "block_tail els ws = (case els of None \<Rightarrow> [] | Some ps \<Rightarrow> [0xA0000000, 0] @ flat ps) @ [0xB0000000, 0] @ ws"

lemma walk_tail:
  assumes "case els of None \<Rightarrow> True | Some ps \<Rightarrow> pairs_ok ps"
  shows "walk_words C kind (block_tail els ws) pos m True n = walk_words C kind ws pos True False n"
    and "walk_words C kind (block_tail els ws) pos m False n =
      seqE (apply_pairs C kind (case els of None \<Rightarrow> [] | Some ps \<Rightarrow> ps))
        (walk_words C kind ws pos True False (n + of_nat (length (case els of None \<Rightarrow> [] | Some ps \<Rightarrow> ps))))"
  using assms by (auto simp: block_tail_def RTW88_PHY_COND_BRANCH_def walk_skip walk_plain seqE_def ret_def tryE_def split: option.splits)

lemma walk_block:
  assumes "block_ok b"
  shows "\<exists>pos'. walk_words C kind (encode b @ ws) pos True False n s =
    seqE (apply_pairs C kind (select (sc_phy s) b)) (walk_words C kind ws pos' True False (n + of_nat (length (select (sc_phy s) b)))) s"
proof (cases b)
  case (Plain ps)
  then show ?thesis using assms by (intro exI [of _ pos]) (simp add: walk_plain)
next
  case (Branches bs els)
  define tags where "tags = (0x80000000 :: u32) # replicate (length bs - 1) 0x90000000"
  have ok: "branches_ok tags bs" using assms Branches by (cases bs) (auto simp: branches_ok_def tags_def)
  have els: "case els of None \<Rightarrow> True | Some ps \<Rightarrow> pairs_ok ps" using assms Branches by simp
  have enc: "encode b @ ws = branches tags bs @ block_tail els ws"
    by (simp add: Branches tags_def block_tail_def split: option.splits)
  show ?thesis
  proof (cases "find (\<lambda>b. rtw88_phy_cond_check (sc_phy s) (fst b)) bs")
    case None
    with walk_unmatched [OF ok None] obtain p m where
      "walk_words C kind (encode b @ ws) pos True False n s = walk_words C kind (block_tail els ws) p m False n s" unfolding enc by blast
    moreover have "select (sc_phy s) b = (case els of None \<Rightarrow> [] | Some ps \<Rightarrow> ps)" using None Branches by simp
    ultimately show ?thesis using walk_tail(2) [OF els, of C kind ws p m n] by (intro exI [of _ p]) simp
  next
    case (Some h)
    from walk_hit [OF ok Some] obtain p m where
      "walk_words C kind (encode b @ ws) pos True False n s =
        seqE (apply_pairs C kind (snd h)) (walk_words C kind (block_tail els ws) p m True (n + of_nat (length (snd h)))) s" unfolding enc by blast
    moreover have "select (sc_phy s) b = snd h" using Some Branches by simp
    ultimately show ?thesis by (intro exI [of _ p]) (simp add: walk_tail(1) [OF els])
  qed
qed

lemma keeps_phy_apply [keeps_intros]: "keeps (on_bus n k z L) is_errno (rtw88_phy_apply C kind a d)"
  unfolding rtw88_phy_apply_def by (intro keeps_intros is_errno_simps)+

lemma keeps_apply_pairs [keeps_intros]: "keeps (on_bus n k z L) is_errno (apply_pairs C kind ps)"
  by (intro keeps_forE) (auto intro: keeps_phy_apply split: prod.splits)

lemma walk_blocks:
  assumes "\<forall>b \<in> set bs. block_ok b" "on_line l k s"
  shows "walk_words C kind (concat (map encode bs)) pos True False n s =
    seqE (apply_pairs C kind (concat (map (select (sc_phy s)) bs)))
      (ret (n + of_nat (length (concat (map (select (sc_phy s)) bs))))) s"
  using assms
proof (induction bs arbitrary: pos n s)
  case Nil
  then show ?case by simp
next
  case (Cons b bs)
  let ?sel = "select (sc_phy s) b" and ?n = "n + of_nat (length (select (sc_phy s) b)) :: u32"
  obtain pos' where w: "walk_words C kind (encode b @ concat (map encode bs)) pos True False n s =
      seqE (apply_pairs C kind ?sel) (walk_words C kind (concat (map encode bs)) pos' True False ?n) s"
    using walk_block Cons.prems(1) by (metis list.set_intros(1))
  obtain r s' where run: "apply_pairs C kind ?sel s = (r, s')" by fastforce
  have on: "on_bus l k (hw.more s) (ep0_log s) s'"
    using keepsD [OF keeps_apply_pairs on_line_bus [OF Cons.prems(2)] run] by blast
  then have same: "sc_phy s' = sc_phy s" and line: "on_line l k s'"
    using quiet_softc(2) [of s' s] by (auto simp: on_bus_def on_line_def)
  show ?case
  proof (cases r)
    case (Inl e)
    with w run show ?thesis by (simp add: forE_append seqE_assoc)
  next
    case (Inr u)
    with w run Cons.IH [OF _ line, of pos' ?n] Cons.prems(1) same show ?thesis
      by (simp add: forE_append seqE_assoc add.assoc)
  qed
qed

text \<open>C22. The table walker carries out the table it is meant to encode: on the words of any sequence of well-formed blocks it performs exactly the
  writes of the plain blocks and, of each conditional, those of the first branch whose condition the chip meets, or of its
  else part, in order up to the first failure, and returns their number.\<close>
theorem walk_table_selects:
  assumes "\<forall>b \<in> set bs. block_ok b" "mtx_depth s \<noteq> 0" "\<not> sc_io_busy s"
  shows "rtw88_phy_walk_table C kind (concat (map encode bs)) s =
    (let ps = concat (map (select (sc_phy s)) bs)
     in seqE (forE (\<lambda>(a, d). rtw88_phy_apply C kind a d) ps) (ret (of_nat (length ps))) s)"
proof -
  obtain l where "on_line l (invariants s) s" using assms(2,3) by (cases "mtx_depth s") (auto simp: on_line_def)
  from walk_blocks [OF assms(1) this, of C kind 0 0] show ?thesis
    using assms(2) by (simp add: rtw88_phy_walk_table_def RTW88_ASSERT_LOCKED_def Let_def)
qed

text \<open>The gain table of the driver is one conditional, for two front-ends and all the others.\<close>

definition agc_blocks :: "tbl_block list" where
  "agc_blocks = [Branches
     [(0x1004, take 128 (drop 2 rtw88_8821c_agc_btg_type2)), (0x1005, take 128 (drop 132 rtw88_8821c_agc_btg_type2))]
     (Some (take 128 (drop 261 rtw88_8821c_agc_btg_type2)))]"

lemma agc_table: "flat rtw88_8821c_agc_btg_type2 = concat (map encode agc_blocks)"
  by (simp add: agc_blocks_def rtw88_8821c_agc_btg_type2_def branch_def)

lemma agc_blocks_ok: "\<forall>b \<in> set agc_blocks. block_ok b"
  by (simp add: agc_blocks_def rtw88_8821c_agc_btg_type2_def)

theorem walk_table_selects_witness:
  "rtw88_phy_walk_table idle_ops RTW88_TBL_KIND_BB (flat rtw88_8821c_agc_btg_type2) (softc_zero () 1 True) =
   seqE (forE (\<lambda>(a, d). rtw88_phy_apply idle_ops RTW88_TBL_KIND_BB a d) (take 128 (drop 261 rtw88_8821c_agc_btg_type2)))
     (ret 128) (softc_zero () 1 True)"
proof -
  have no: "\<not> rtw88_phy_cond_check (sc_phy (softc_zero () 1 True)) 0x1004" "\<not> rtw88_phy_cond_check (sc_phy (softc_zero () 1 True)) 0x1005"
    by code_simp+
  then have sel: "concat (map (select (sc_phy (softc_zero () 1 True))) agc_blocks) = take 128 (drop 261 rtw88_8821c_agc_btg_type2)"
    by (simp add: agc_blocks_def)
  have len: "length (take 128 (drop 261 rtw88_8821c_agc_btg_type2)) = 128" by (simp add: rtw88_8821c_agc_btg_type2_def)
  have "mtx_depth (softc_zero () 1 True) \<noteq> 0" "\<not> sc_io_busy (softc_zero () 1 True)" by code_simp+
  from walk_table_selects [OF agc_blocks_ok this, of idle_ops RTW88_TBL_KIND_BB] show ?thesis
    unfolding agc_table sel Let_def len by simp
qed

subsection \<open>The blob is read back\<close>

definition blob_table :: "u8 \<times> u32 list \<Rightarrow> u8 list" where
  "blob_table t = [fst t, 0, 0, 0] @ le32enc (of_nat (length (snd t))) @ concat (map le32enc (snd t))"

definition tbl_blob :: "(u8 \<times> u32 list) list \<Rightarrow> u8 list" where
  "tbl_blob ts = blob_magic @ [1, of_nat (length ts), 0, 0] @ concat (map blob_table ts)"

fun walk_all :: "'c chip_ops \<Rightarrow> (u8 \<times> u32 list) list \<Rightarrow> ('c softc, unit) cm" where
  "walk_all C [] = ret ()"
| "walk_all C (t # ts) = tryE (rtw88_phy_walk_table C (fst t) (snd t)) (\<lambda>_. walk_all C ts)"

lemma le32dec_append: "le32dec (xs @ ys) (length xs + i) = le32dec ys i"
  by (simp add: le32dec_def at_append add.assoc)

lemma length_words [simp]: "length (concat (map le32enc ws)) = 4 * length ws"
  by (induction ws) auto

lemma blob_words_enc: "blob_words (concat (map le32enc ws) @ rest) (length ws) = ws"
proof (induction ws)
  case Nil
  then show ?case by (simp add: blob_words_def)
next
  case (Cons w ws)
  let ?p = "concat (map le32enc ws) @ rest"
  have "blob_words (le32enc w @ ?p) (Suc (length ws)) =
      le32dec (le32enc w @ ?p) 0 # map (\<lambda>j. le32dec (le32enc w @ ?p) (4 * Suc j)) [0..<length ws]"
    unfolding blob_words_def by (simp only: upt_conv_Cons [of 0 "Suc (length ws)"] zero_less_Suc map_Suc_upt [symmetric] list.map mult_0_right map_map o_def)
  also have "le32dec (le32enc w @ ?p) 0 = w"
    by (simp add: le32enc_def le32dec_def at_def le32_enc)
  also have "map (\<lambda>j. le32dec (le32enc w @ ?p) (4 * Suc j)) [0..<length ws] = blob_words ?p (length ws)"
    unfolding blob_words_def using le32dec_append [of "le32enc w" ?p] by simp
  finally show ?case using Cons by simp
qed

lemma blob_step:
  assumes "length (snd t) < 2 ^ 32"
  shows "blob_tables C (Suc i) (blob_table t @ rest) =
    tryE (rtw88_phy_walk_table C (fst t) (snd t)) (\<lambda>_. blob_tables C i rest)"
proof -
  define p w where "p = blob_table t @ rest" and "w = concat (map le32enc (snd t))"
  have n: "unat (le32dec p 4) = length (snd t)"
    using le32dec_append [of "[fst t, 0, 0, 0]" "le32enc (of_nat (length (snd t))) @ w @ rest" 0] assms
    by (simp add: p_def w_def blob_table_def le32dec_def at_def le32enc_def le32_enc unat_of_nat)
  have body: "drop 8 p = w @ rest" by (simp add: p_def w_def blob_table_def)
  have k: "at p 0 = fst t" by (simp add: p_def blob_table_def at_def)
  have l: "\<not> length p < 8" by (simp add: p_def blob_table_def)
  have w: "length w = length (snd t) * 4" "blob_words (w @ rest) (length (snd t)) = snd t"
    by (simp_all add: w_def blob_words_enc)
  have "blob_tables C (Suc i) p = tryE (rtw88_phy_walk_table C (fst t) (snd t)) (\<lambda>_. blob_tables C i rest)"
    using l w by (simp add: blob_tables.simps(2) n body k Let_def)
  then show ?thesis by (simp only: p_def)
qed

lemma blob_tables_enc:
  "\<forall>t \<in> set ts. length (snd t) < 2 ^ 32 \<Longrightarrow>
    blob_tables C (length ts) (concat (map blob_table ts) @ rest) = walk_all C ts"
  by (induction ts) (simp_all add: blob_step)

text \<open>A blob that ends early is never taken for complete.\<close>

lemma blob_tables_short:
  assumes "\<forall>t \<in> set ts. length (snd t) < 2 ^ 32" "m < length (concat (map blob_table ts))"
    "blob_tables C (length ts) (take m (concat (map blob_table ts))) s = (r, s')"
  shows "\<exists>e. r = Inl e"
  using assms
proof (induction ts arbitrary: m s)
  case Nil
  then show ?case by simp
next
  case (Cons t ts)
  let ?w = "concat (map le32enc (snd t))" and ?rest = "concat (map blob_table ts)"
  have len: "length (blob_table t) = 8 + 4 * length (snd t)" by (simp add: blob_table_def)
  show ?case
  proof (cases "length (blob_table t) \<le> m")
    case True
    then have "take m (concat (map blob_table (t # ts))) = blob_table t @ take (m - length (blob_table t)) ?rest"
      by (simp add: take_append)
    with Cons.prems(1,3) blob_step [of t C "length ts"]
    have run: "tryE (rtw88_phy_walk_table C (fst t) (snd t))
        (\<lambda>_. blob_tables C (length ts) (take (m - length (blob_table t)) ?rest)) s = (r, s')" by simp
    have short: "m - length (blob_table t) < length ?rest" using Cons.prems(2) True by simp
    show ?thesis
    proof (cases "rtw88_phy_walk_table C (fst t) (snd t) s")
      case (Pair r1 s1)
      with run Cons.IH [OF _ short] Cons.prems(1) show ?thesis by (cases r1) auto
    qed
  next
    case False
    define p where "p = take m (concat (map blob_table (t # ts)))"
    have p: "p = take m (blob_table t)" using False by (simp add: p_def)
    have lp: "length p = m" using False by (simp add: p)
    have "unat (le32dec p 4) = length (snd t)" if "\<not> m < 8"
    proof -
      have "p = [fst t, 0, 0, 0] @ le32enc (of_nat (length (snd t))) @ take (m - 8) ?w"
        using that by (simp add: p blob_table_def take_append) (simp add: le32enc_def take_Cons' numeral_eq_Suc)
      then show ?thesis
        using le32dec_append [of "[fst t, 0, 0, 0]" "le32enc (of_nat (length (snd t))) @ take (m - 8) ?w" 0] Cons.prems(1)
        by (simp add: le32dec_def at_def le32enc_def le32_enc unat_of_nat)
    qed
    then have "blob_tables C (Suc (length ts)) p s = (Inl (Errno EINVAL), s)"
      using lp False len by (auto simp: blob_tables.simps(2) Let_def)
    with Cons.prems(3) show ?thesis by (simp add: p_def)
  qed
qed

text \<open>The header of a blob.\<close>

lemma load_blob_header:
  assumes "length ts < 256" "mtx_depth s \<noteq> 0" "sc_tbl_blob (sc_phy s) = Some (blob_magic @ [1, of_nat (length ts), 0, 0] @ body)"
  shows "rtw88_phy_load_blob_locked C s = blob_tables C (length ts) body s"
  using assms by (simp add: rtw88_phy_load_blob_locked_def RTW88_ASSERT_LOCKED_def blob_magic_def at_def unat_of_nat)

lemma load_blob_no_header: "sc_tbl_blob (sc_phy s) = Some p \<Longrightarrow> length p < 8 \<Longrightarrow> \<exists>e. fst (rtw88_phy_load_blob_locked C s) = Inl e"
  by (cases "RTW88_ASSERT_LOCKED s") (auto simp: rtw88_phy_load_blob_locked_def RTW88_ASSERT_LOCKED_def split: if_splits)

text \<open>C23. The table blob round trip. On the blob made of up to 255 tables, followed by anything, the loader walks these tables in their order,
  each on exactly its words, until one fails. On a blob that is cut short it never succeeds, so no part of a
  blob is taken for a whole one.\<close>
theorem blob_round_trip:
  assumes "length ts < 256" "\<forall>t \<in> set ts. length (snd t) < 2 ^ 32" "mtx_depth s \<noteq> 0"
  shows "(sc_tbl_blob (sc_phy s) = Some (tbl_blob ts @ rest) \<longrightarrow> rtw88_phy_load_blob_locked C s = walk_all C ts s) \<and>
    (sc_tbl_blob (sc_phy s) = Some (take m (tbl_blob ts)) \<and> m < length (tbl_blob ts) \<longrightarrow>
      (\<exists>e. fst (rtw88_phy_load_blob_locked C s) = Inl e))"
proof (intro conjI impI; (elim conjE)?)
  assume "sc_tbl_blob (sc_phy s) = Some (tbl_blob ts @ rest)"
  then show "rtw88_phy_load_blob_locked C s = walk_all C ts s"
    using load_blob_header [OF assms(1,3), of "concat (map blob_table ts) @ rest" C] blob_tables_enc [OF assms(2), of C rest]
    by (simp add: tbl_blob_def)
next
  assume b: "sc_tbl_blob (sc_phy s) = Some (take m (tbl_blob ts))" and m: "m < length (tbl_blob ts)"
  show "\<exists>e. fst (rtw88_phy_load_blob_locked C s) = Inl e"
  proof (cases "m < 8")
    case True
    with b m load_blob_no_header [OF b] show ?thesis by simp
  next
    case False
    then have "take m (tbl_blob ts) = blob_magic @ [1, of_nat (length ts), 0, 0] @ take (m - 8) (concat (map blob_table ts))"
      by (simp add: tbl_blob_def blob_magic_def take_Cons' numeral_eq_Suc)
    with b load_blob_header [OF assms(1,3)]
    have "rtw88_phy_load_blob_locked C s = blob_tables C (length ts) (take (m - 8) (concat (map blob_table ts))) s" by simp
    moreover have "m - 8 < length (concat (map blob_table ts))" using m False by (simp add: tbl_blob_def blob_magic_def)
    ultimately show ?thesis using blob_tables_short [OF assms(2)] by (metis prod.collapse)
  qed
qed

text \<open>A blob with a conditional MAC table and an AGC table, on the idle chip.\<close>

definition small_tables :: "(u8 \<times> u32 list) list" where
  "small_tables = [(RTW88_TBL_KIND_MAC, encode (Branches [(0x4, [(0x10, 1)])] (Some [(0x10, 2)]))), (RTW88_TBL_KIND_AGC, encode (Plain [(0x81C, 3)]))]"

definition small_softc :: "u8 list \<Rightarrow> unit softc" where
  "small_softc blob = (softc_zero () 1 True)\<lparr>sc_phy := phy_zero\<lparr>sc_tbl_blob := Some blob\<rparr>\<rparr>"

theorem blob_round_trip_witness:
  "rtw88_phy_load_blob_locked idle_ops (small_softc (tbl_blob small_tables @ [7, 7])) =
     walk_all idle_ops small_tables (small_softc (tbl_blob small_tables @ [7, 7])) \<and>
   (\<exists>e. fst (rtw88_phy_load_blob_locked idle_ops (small_softc (take 50 (tbl_blob small_tables)))) = Inl e)"
proof -
  have l: "length small_tables < 256" "\<forall>t \<in> set small_tables. length (snd t) < 2 ^ 32" "50 < length (tbl_blob small_tables)"
    by (simp_all add: small_tables_def branch_def tbl_blob_def blob_table_def blob_magic_def)
  have "mtx_depth (small_softc p) \<noteq> 0" "sc_tbl_blob (sc_phy (small_softc p)) = Some p" for p
    by (simp_all add: small_softc_def softc_zero_def)
  then show ?thesis
    using blob_round_trip [OF l(1,2), of "small_softc (tbl_blob small_tables @ [7, 7])" "[7, 7]"]
      blob_round_trip [OF l(1,2), of "small_softc (take 50 (tbl_blob small_tables))" _ _ 50] l(3) by blast
qed

end
