(* ===== verification/Rtw_Phy.thy ===== *)
theory Rtw_Phy
  imports Rtw_Tables Rtw_Dig
begin

section \<open>Setting up the PHY\<close>

text \<open>
  \<^verbatim>\<open>rtw88_phy_set_param\<close> of \<^verbatim>\<open>if_rtw88_usb.c\<close>: reset of base band and radio, the register tables (the blob of
  \<^verbatim>\<open>firmware(9)\<close>, a parameter, or else the static MAC table), the gain table of two front-ends, crystal trim, the
  channel parameters that are saved, the start of the gain loop and \<^verbatim>\<open>rtw88_bf_phy_init\<close>.
\<close>

definition read4_or :: "'c chip_ops \<Rightarrow> u16 \<Rightarrow> u32 \<Rightarrow> (('c, 'z) hw_scheme, u32) cm" where
  "read4_or C a d = tryE (attempt (rtw88_usb_read4 C a)) (\<lambda>r. ret (case r of Inl _ \<Rightarrow> d | Inr v \<Rightarrow> v))"

definition mu_tx_ctl :: "u32 \<Rightarrow> u32" where
  "mu_tx_ctl v =
     ((((v OR RTW88_BF_BIT_MU_P1_WAIT_STATE_EN) AND NOT RTW88_BF_BIT_MASK_R_MU_RL) OR
       (push_bit RTW88_BF_BIT_SHIFT_R_MU_RL 0xA AND RTW88_BF_BIT_MASK_R_MU_RL)) AND
      NOT RTW88_BF_BIT_EN_MU_MIMO) AND NOT RTW88_BF_BIT_MASK_R_MU_TABLE_VALID"

definition mu_bf_option :: u8 where
  "mu_bf_option = push_bit RTW88_BF_BIT_SHIFT_WMAC_TXMU_ACKPOLICY 3 OR RTW88_BF_BIT_WMAC_TXMU_ACKPOLICY_EN"

definition rtw88_bf_phy_init :: "'c chip_ops \<Rightarrow> (('c, 'z) hw_scheme, unit) cm" where
  "rtw88_bf_phy_init C = steps [
     tryE (read4_or C RTW88_BF_REG_MU_TX_CTL 0) (\<lambda>v. discard (rtw88_usb_write4 C RTW88_BF_REG_MU_TX_CTL (mu_tx_ctl v))),
     discard (rtw88_usb_write1 C RTW88_BF_REG_WMAC_MU_BF_OPTION mu_bf_option),
     discard (rtw88_usb_write2 C RTW88_BF_REG_WMAC_MU_BF_CTL 0),
     tryE (read4_or C RTW88_BF_REG_TXBF_CTRL 0) (\<lambda>v.
       discard (rtw88_usb_write4 C RTW88_BF_REG_TXBF_CTRL (v OR RTW88_BF_BIT_USE_NDPA_PARAMETER))),
     discard (rtw88_usb_write1 C RTW88_BF_REG_NDPA_OPT_CTRL 0x10),
     tryE (read4_or C RTW88_BF_REG_BBPSF_CTRL 0) (\<lambda>v.
       discard (rtw88_usb_write4 C RTW88_BF_REG_BBPSF_CTRL
         ((v AND NOT RTW88_BF_BIT_MASK_CSI_RATE) OR push_bit RTW88_BF_BIT_SHIFT_CSI_RATE RTW88_BF_DESC_RATE6M))),
     discard (rtw88_usb_write4 C RTW88_BF_REG_GROUPING_BITMAP_8821C 0xAFFFAFFF)]"

definition upd_phy :: "(phy_softc \<Rightarrow> phy_softc) \<Rightarrow> ('c softc, unit) cm" where
  "upd_phy f = updS (\<lambda>s. s\<lparr>sc_phy := f (sc_phy s)\<rparr>)"

definition bb_reset :: "'c chip_ops \<Rightarrow> (('c, 'z) hw_scheme, unit) cm" where
  "bb_reset C = tryE (rtw88_usb_read1 C REG_SYS_FUNC_EN) (\<lambda>v0.
     let v1 = v0 OR BIT_FEN_PCIEA;
         v2 = v1 OR (BIT_FEN_BB_RSTB OR BIT_FEN_BB_GLB_RST);
         v3 = v2 AND NOT (BIT_FEN_BB_RSTB OR BIT_FEN_BB_GLB_RST);
         v4 = v3 OR (BIT_FEN_BB_RSTB OR BIT_FEN_BB_GLB_RST)
     in steps (map (rtw88_usb_write1 C REG_SYS_FUNC_EN) [v1, v2, v3, v4]))"

definition rf_power :: "'c chip_ops \<Rightarrow> (('c, 'z) hw_scheme, unit) cm" where
  "rf_power C = steps [
     rtw88_usb_write1 C REG_RF_CTRL (BIT_RF_EN OR BIT_RF_RSTB OR BIT_RF_SDM_RSTB),
     rtw88_usb_write1 C (REG_WLRF1 + 3) (BIT_RF_EN OR BIT_RF_RSTB OR BIT_RF_SDM_RSTB),
     modify4 C REG_RXPSEL (\<lambda>v. v AND NOT BIT_RX_PSEL_RST)]"

definition load_tables :: "'c chip_ops \<Rightarrow> u8 list option \<Rightarrow> ('c softc, unit) cm" where
  "load_tables C fw = tryE (attempt (rtw88_phy_acquire_tbl fw)) (\<lambda>r. case r of
     Inl _ \<Rightarrow> rtw88_load_mac_tbl C
   | Inr _ \<Rightarrow> rtw88_phy_load_blob_locked C)"

definition rf_canary :: "'c chip_ops \<Rightarrow> (('c, 'z) hw_scheme, unit) cm" where
  "rf_canary C = forE (\<lambda>a. discard (rtw88_phy_read_rf_a C a RTW88_RFREG_MASK)) [0x7D, 0x78, 0xC7]"

definition agc_btg :: "'c chip_ops \<Rightarrow> ('c softc, unit) cm" where
  "agc_btg C = tryE (getS (sc_rfe_option \<circ> sc_phy)) (\<lambda>rfe.
     whenE (rfe = 2 \<or> rfe = 4)
       (tryE (rtw88_phy_walk_table C RTW88_TBL_KIND_BB (flat rtw88_8821c_agc_btg_type2)) (\<lambda>_. rtw88_phy_replay_rf_a C)))"

definition xtal_trim :: "'c chip_ops \<Rightarrow> ('c softc, unit) cm" where
  "xtal_trim C = tryE (getS (sc_crystal_cap \<circ> sc_phy)) (\<lambda>cap. steps [
     modify4 C REG_AFE_XTAL_CTRL (\<lambda>v. (v AND NOT BIT_MASK_XTAL_CAP) OR (push_bit 25 (ucast cap) AND BIT_MASK_XTAL_CAP)),
     modify4 C REG_AFE_PLL_CTRL (\<lambda>v. (v AND NOT BIT_MASK_PLL_CAP) OR (push_bit 1 (ucast cap) AND BIT_MASK_PLL_CAP)),
     modify4 C REG_CCK0_FAREPORT (\<lambda>v. v AND NOT (push_bit 18 1 OR push_bit 22 1)),
     modify4 C REG_RXPSEL (\<lambda>v. v OR BIT_RX_PSEL_RST)])"

definition save_ch_param :: "'c chip_ops \<Rightarrow> ('c softc, unit) cm" where
  "save_ch_param C = forE (\<lambda>(i, a). tryE (rtw88_usb_read4 C a) (\<lambda>v. upd_phy (\<lambda>p. p\<lparr>sc_ch_param := (sc_ch_param p)[i := v]\<rparr>)))
     [(0, REG_TXSF2), (1, REG_TXSF6), (2, REG_TXFILTER)]"

definition rfe_is_btg :: "u8 \<Rightarrow> bool" where
  "rfe_is_btg rfe \<longleftrightarrow> rfe \<in> {0x02, 0x04, 0x07, 0x0A, 0x0C, 0x0F}"

definition rtw88_phy_set_param :: "'c chip_ops \<Rightarrow> u8 list option \<Rightarrow> ('c softc, unit) cm" where
  "rtw88_phy_set_param C fw = locked (steps [bb_reset C, rf_power C, load_tables C fw, rf_canary C, agc_btg C, xtal_trim C, save_ch_param C,
     upd_phy (\<lambda>p. p\<lparr>sc_rfe_btg := rfe_is_btg (sc_rfe_option p)\<rparr>), rf_canary C,
     tryE (rtw88_dig_start C) (\<lambda>_. ret ()), rtw88_bf_phy_init C])"

subsection \<open>What the set-up needs\<close>

lemma keeps_walk [keeps_intros]: "keeps (on_bus n k z L) is_errno (walk_words C kind ws c m sk j)"
proof (induction C kind ws c m sk j rule: walk_words.induct)
  case (1 C kind w0 w1 ws c m sk j)
  show ?case by (subst walk_words.simps(1)) (intro keeps_intros 1; simp)
qed (simp_all only: walk_words.simps keeps_ret)

lemma keeps_walk_table [keeps_intros]: "keeps (on_bus n k z L) is_errno (rtw88_phy_walk_table C kind ws)"
  unfolding rtw88_phy_walk_table_def by (intro keeps_intros)

lemma keeps_blob_tables [keeps_intros]: "keeps (on_bus n k z L) is_errno (blob_tables C i p)"
proof (induction C i p rule: blob_tables.induct)
  case (1 C p)
  then show ?case by (simp only: blob_tables.simps keeps_ret)
next
  case (2 C i p)
  show ?case unfolding blob_tables.simps Let_def
    by (intro keeps_intros is_errno_simps; (rule 2; (assumption | rule refl)+)?)
qed

lemma keeps_replay [keeps_intros]: "keeps (on_bus n k z L) is_errno (replay_from C p)"
proof (induction C p rule: replay_from.induct)
  case (1 C p)
  show ?case by (subst replay_from.simps, unfold Let_def)
    (intro keeps_intros is_errno_simps; (rule 1; (assumption | rule refl)+)?)
qed

lemma keeps_phy_tables [keeps_intros]:
  "keeps (on_bus n k z L) is_errno (rtw88_load_mac_tbl C)"
  "keeps (on_bus n k z L) is_errno (rtw88_phy_load_blob_locked C)"
  "keeps (on_bus n k z L) is_errno (rtw88_phy_replay_rf_a C)"
  unfolding rtw88_load_mac_tbl_def rtw88_phy_load_blob_locked_def rtw88_phy_replay_rf_a_def
  by (intro keeps_intros is_errno_simps; auto intro: keeps_intros split: prod.splits)+

lemma keeps_phy_parts [keeps_intros]:
  "keeps (on_bus n k z L) is_errno (bb_reset C)"
  "keeps (on_bus n k z L) is_errno (rf_power C)"
  "keeps (on_bus n k z L) is_errno (rf_canary C)"
  "keeps (on_bus n k z L) is_errno (rtw88_bf_phy_init C)"
  unfolding bb_reset_def rf_power_def rf_canary_def rtw88_bf_phy_init_def read4_or_def list.map
  by (intro keeps_intros)+

lemma keeps_agc_btg [keeps_intros]: "keeps (on_bus n k z L) is_errno (agc_btg C)"
  and keeps_xtal [keeps_intros]: "keeps (on_bus n k z L) is_errno (xtal_trim C)"
  unfolding agc_btg_def xtal_trim_def by (intro keeps_intros)+

text \<open>
  \<open>on_phy k rfe b\<close>: a thread on the bus whose softc has this front-end and this blob; \<open>yields P m Q\<close>: from \<open>P\<close>, a run of \<open>m\<close>
  that succeeds ends in \<open>Q\<close>, and one that fails has an error code and leaves the bus as it should.
\<close>

definition on_phy :: "bool \<Rightarrow> u8 \<Rightarrow> u8 list option \<Rightarrow> 'c softc \<Rightarrow> bool" where
  "on_phy k rfe b s \<longleftrightarrow> on_line 0 k s \<and> sc_rfe_option (sc_phy s) = rfe \<and> sc_tbl_blob (sc_phy s) = b"

definition yields :: "bool \<Rightarrow> ('c softc \<Rightarrow> bool) \<Rightarrow> ('c softc, unit) cm \<Rightarrow> ('c softc \<Rightarrow> bool) \<Rightarrow> bool" where
  "yields k P m Q \<longleftrightarrow> (\<forall>s r s'. P s \<and> m s = (r, s') \<longrightarrow>
     (case r of Inl e \<Rightarrow> is_errno e \<and> on_line 0 k s' | Inr _ \<Rightarrow> Q s'))"

lemma yieldsI:
  "(\<And>s r s'. P s \<Longrightarrow> m s = (r, s') \<Longrightarrow> (case r of Inl e \<Rightarrow> is_errno e \<and> on_line 0 k s' | Inr _ \<Rightarrow> Q s')) \<Longrightarrow> yields k P m Q"
  by (auto simp: yields_def)

lemma yieldsD:
  "yields k P m Q \<Longrightarrow> P s \<Longrightarrow> m s = (r, s') \<Longrightarrow> (case r of Inl e \<Rightarrow> is_errno e \<and> on_line 0 k s' | Inr _ \<Rightarrow> Q s')"
  by (auto simp: yields_def)

lemma yields_seqE:
  assumes "yields k P m Q" "yields k Q j R"
  shows "yields k P (seqE m j) R"
proof (rule yieldsI)
  fix s r s' assume P: "P s" and run: "seqE m j s = (r, s')"
  obtain r1 s1 where m: "m s = (r1, s1)" by fastforce
  from yieldsD [OF assms(1) P m] run m yieldsD [OF assms(2)]
  show "case r of Inl e \<Rightarrow> is_errno e \<and> on_line 0 k s' | Inr _ \<Rightarrow> R s'" by (cases r1) auto
qed

lemma keeps_phy_quiet:
  assumes "\<And>z L. keeps (on_bus 0 k z L) is_errno m"
  shows "keeps (on_phy k rfe b) is_errno m"
  unfolding on_phy_def by (rule keeps_quiet [OF assms]) (drule quiet_softc(2), simp)

lemma yields_keeps: "keeps (on_phy k rfe b) is_errno m \<Longrightarrow> yields k (on_phy k rfe b) m (on_phy k rfe b)"
  unfolding yields_def by (auto dest!: keepsD simp: on_phy_def split: sum.splits)

lemmas yields_quiet = yields_keeps [OF keeps_phy_quiet]

definition blob_after :: "u8 list option \<Rightarrow> u8 list option \<Rightarrow> u8 list option" where
  "blob_after b fw = (case b of None \<Rightarrow> fw | Some x \<Rightarrow> Some x)"

lemma yields_load: "yields k (on_phy k rfe b) (load_tables C fw) (on_phy k rfe (blob_after b fw))"
proof (rule yieldsI)
  fix s r s' assume P: "on_phy k rfe b s" and run: "load_tables C fw s = (r, s')"
  note mac = yieldsD [OF yields_quiet [OF keeps_phy_tables(1)], of k rfe "blob_after b fw"]
  note blob = yieldsD [OF yields_quiet [OF keeps_phy_tables(2)], of k rfe "blob_after b fw"]
  from P have b: "sc_tbl_blob (sc_phy s) = b" by (simp add: on_phy_def)
  show "case r of Inl e \<Rightarrow> is_errno e \<and> on_line 0 k s' | Inr _ \<Rightarrow> on_phy k rfe (blob_after b fw) s'"
  proof (cases "blob_after b fw")
    case None
    then have "b = None" "fw = None" by (auto simp: blob_after_def split: option.splits)
    with run b have "rtw88_load_mac_tbl C s = (r, s')"
      by (simp add: load_tables_def rtw88_phy_acquire_tbl_def)
    with mac P \<open>b = None\<close> None show ?thesis by simp
  next
    case (Some x)
    define t where "t = s\<lparr>sc_phy := (sc_phy s)\<lparr>sc_tbl_blob := Some x\<rparr>\<rparr>"
    have "attempt (rtw88_phy_acquire_tbl fw) s = (Inr (Inr ()), if b = None then t else s)"
      using b Some by (intro attempt_Inr) (auto simp: rtw88_phy_acquire_tbl_def blob_after_def t_def split: option.splits)
    with run have "rtw88_phy_load_blob_locked C (if b = None then t else s) = (r, s')" by (simp add: load_tables_def)
    moreover have "on_phy k rfe (blob_after b fw) (if b = None then t else s)"
      using P Some by (auto simp: on_phy_def on_line_def t_def blob_after_def split: option.splits)
    ultimately show ?thesis using blob by blast
  qed
qed

lemma yields_agc: "yields k (on_phy k rfe b) (agc_btg C) (\<lambda>s. on_phy k rfe b s \<and> (rfe = 2 \<or> rfe = 4 \<longrightarrow> b \<noteq> None))"
proof (rule yieldsI)
  fix s r s' assume P: "on_phy k rfe b s" and run: "agc_btg C s = (r, s')"
  note base = yieldsD [OF yields_quiet [OF keeps_agc_btg] P run]
  show "case r of Inl e \<Rightarrow> is_errno e \<and> on_line 0 k s' | Inr _ \<Rightarrow> on_phy k rfe b s' \<and> (rfe = 2 \<or> rfe = 4 \<longrightarrow> b \<noteq> None)"
  proof (cases "(rfe = 2 \<or> rfe = 4) \<and> b = None")
    case True
    let ?walk = "rtw88_phy_walk_table C RTW88_TBL_KIND_BB (flat rtw88_8821c_agc_btg_type2)"
    from P True have rfe: "sc_rfe_option (sc_phy s) = 2 \<or> sc_rfe_option (sc_phy s) = 4" by (auto simp: on_phy_def)
    obtain r1 s1 where w: "?walk s = (r1, s1)" by fastforce
    from keepsD [OF keeps_phy_quiet [OF keeps_walk_table] P w] have s1: "on_phy k rfe b s1" by blast
    have "\<exists>e. r = Inl e"
    proof (cases r1)
      case (Inl e)
      with run rfe w show ?thesis by (auto simp: agc_btg_def whenE_def)
    next
      case (Inr v)
      with run rfe w s1 True show ?thesis
        by (auto simp: agc_btg_def whenE_def rtw88_phy_replay_rf_a_def RTW88_ASSERT_LOCKED_def on_phy_def on_line_def)
    qed
    with base show ?thesis by auto
  next
    case False
    with base show ?thesis by (auto split: sum.splits)
  qed
qed

lemma keeps_upd_phy:
  "(\<And>p. sc_rfe_option (f p) = sc_rfe_option p \<and> sc_tbl_blob (f p) = sc_tbl_blob p) \<Longrightarrow> keeps (on_phy k rfe b) F (upd_phy f)"
  unfolding upd_phy_def by (rule keeps_updS) (simp add: on_phy_def on_line_def)

lemma keeps_phy_dig: "keeps (on_phy k rfe b) F (upd_dig f)"
  unfolding upd_dig_def by (rule keeps_updS) (simp add: on_phy_def on_line_def)

lemma keeps_ch_param: "keeps (on_phy k rfe b) is_errno (save_ch_param C)"
  unfolding save_ch_param_def
  by (intro keeps_forE) (auto intro!: keeps_tryE keeps_phy_quiet [OF keeps_read4] keeps_upd_phy split: prod.splits)

text \<open>The state once the front-end kind is recorded.\<close>

definition on_set :: "bool \<Rightarrow> u8 \<Rightarrow> u8 list option \<Rightarrow> 'c softc \<Rightarrow> bool" where
  "on_set k rfe b s \<longleftrightarrow> on_phy k rfe b s \<and> sc_rfe_btg (sc_phy s) = rfe_is_btg rfe"

lemma keeps_set_quiet:
  assumes "\<And>z L. keeps (on_bus 0 k z L) is_errno m"
  shows "keeps (on_set k rfe b) is_errno m"
  unfolding on_set_def on_phy_def conj_assoc by (rule keeps_quiet [OF assms]) (drule quiet_softc(2), simp)

lemma keeps_set_dig: "keeps (on_set k rfe b) F (upd_dig f)"
  unfolding upd_dig_def by (rule keeps_updS) (simp add: on_set_def on_phy_def on_line_def)

lemma keeps_set_start: "keeps (on_set k rfe b) is_errno (tryE (rtw88_dig_start C) (\<lambda>_. ret ()))"
  unfolding rtw88_dig_start_def Let_def
  by (intro keeps_inside keeps_set_quiet [OF keeps_assert_locked] keeps_set_quiet [OF keeps_read4] keeps_set_dig)

lemma yields_set: "keeps (on_set k rfe b) is_errno m \<Longrightarrow> yields k (on_set k rfe b) m (on_set k rfe b)"
  unfolding yields_def by (auto dest!: keepsD simp: on_set_def on_phy_def split: sum.splits)

lemma yields_btg: "yields k (on_phy k rfe b) (upd_phy (\<lambda>p. p\<lparr>sc_rfe_btg := rfe_is_btg (sc_rfe_option p)\<rparr>)) (on_set k rfe b)"
  by (auto simp: yields_def upd_phy_def on_set_def on_phy_def on_line_def)

lemma yields_pre: "(P \<Longrightarrow> yields k A m Q) \<Longrightarrow> yields k (\<lambda>s. A s \<and> P) m Q"
  by (auto simp: yields_def)

lemma yields_strengthen: "yields k A m Q \<Longrightarrow> P \<Longrightarrow> yields k A m (\<lambda>s. Q s \<and> P)"
  by (auto simp: yields_def split: sum.splits)

definition phy_done :: "bool \<Rightarrow> u8 \<Rightarrow> u8 list option \<Rightarrow> 'c softc \<Rightarrow> bool" where
  "phy_done k rfe b s \<longleftrightarrow> on_set k rfe b s \<and> (rfe = 2 \<or> rfe = 4 \<longrightarrow> b \<noteq> None)"

lemma yields_set_param:
  "yields k (on_phy k rfe b)
    (steps [bb_reset C, rf_power C, load_tables C fw, rf_canary C, agc_btg C, xtal_trim C, save_ch_param C,
     upd_phy (\<lambda>p. p\<lparr>sc_rfe_btg := rfe_is_btg (sc_rfe_option p)\<rparr>), rf_canary C,
     tryE (rtw88_dig_start C) (\<lambda>_. ret ()), rtw88_bf_phy_init C])
    (phy_done k rfe (blob_after b fw))"
proof -
  let ?b = "blob_after b fw"
  have ret: "yields k (on_set k rfe ?b) (ret ()) (on_set k rfe ?b)" by (simp add: yields_def)
  have tail: "yields k (on_phy k rfe ?b) (seqE (xtal_trim C) (seqE (save_ch_param C)
      (seqE (upd_phy (\<lambda>p. p\<lparr>sc_rfe_btg := rfe_is_btg (sc_rfe_option p)\<rparr>)) (seqE (rf_canary C)
      (seqE (tryE (rtw88_dig_start C) (\<lambda>_. ret ())) (seqE (rtw88_bf_phy_init C) (ret ()))))))) (on_set k rfe ?b)"
    by (intro yields_seqE [OF yields_quiet [OF keeps_xtal]] yields_seqE [OF yields_keeps [OF keeps_ch_param]]
        yields_seqE [OF yields_btg] yields_seqE [OF yields_set [OF keeps_set_quiet [OF keeps_phy_parts(3)]]]
        yields_seqE [OF yields_set [OF keeps_set_start]] yields_seqE [OF yields_set [OF keeps_set_quiet [OF keeps_phy_parts(4)]]] ret)
  show ?thesis
    unfolding steps_simps phy_done_def
    by (intro yields_seqE [OF yields_quiet [OF keeps_phy_parts(1)]] yields_seqE [OF yields_quiet [OF keeps_phy_parts(2)]]
        yields_seqE [OF yields_load] yields_seqE [OF yields_quiet [OF keeps_phy_parts(3)]] yields_seqE [OF yields_agc]
        yields_pre yields_strengthen [OF tail])
qed

lemma set_param_run:
  assumes "mtx_depth s = 0" "\<not> sc_io_busy s" "rtw88_phy_set_param C fw s = (r, s')"
  shows "mtx_depth s' = 0 \<and> \<not> sc_io_busy s' \<and>
    (case r of Inl e \<Rightarrow> is_errno e
     | Inr _ \<Rightarrow> sc_rfe_option (sc_phy s') = sc_rfe_option (sc_phy s) \<and>
         sc_rfe_btg (sc_phy s') = (sc_rfe_option (sc_phy s) \<in> {0x02, 0x04, 0x07, 0x0A, 0x0C, 0x0F}) \<and>
         (sc_rfe_option (sc_phy s) = 2 \<or> sc_rfe_option (sc_phy s) = 4 \<longrightarrow> sc_tbl_blob (sc_phy s) \<noteq> None \<or> fw \<noteq> None))"
proof -
  let ?k = "invariants s" and ?rfe = "sc_rfe_option (sc_phy s)" and ?b = "sc_tbl_blob (sc_phy s)"
  let ?t = "s\<lparr>mtx_depth := 1\<rparr>"
  have on: "on_phy ?k ?rfe ?b ?t" using assms(2) by (simp add: on_phy_def on_line_def)
  let ?m = "steps [bb_reset C, rf_power C, load_tables C fw, rf_canary C, agc_btg C, xtal_trim C, save_ch_param C,
     upd_phy (\<lambda>p. p\<lparr>sc_rfe_btg := rfe_is_btg (sc_rfe_option p)\<rparr>), rf_canary C,
     tryE (rtw88_dig_start C) (\<lambda>_. ret ()), rtw88_bf_phy_init C]"
  obtain r1 s1 where m: "?m ?t = (r1, s1)" by fastforce
  note y = yieldsD [OF yields_set_param on m]
  from y have line: "on_line 0 ?k s1" by (auto simp: phy_done_def on_set_def on_phy_def split: sum.splits)
  have lock: "RTW88_LOCK s = (Inr (), ?t)" using assms(1) by (simp add: RTW88_LOCK_def)
  have unlock: "RTW88_UNLOCK s1 = (Inr (), s1\<lparr>mtx_depth := 0\<rparr>)" using line by (simp add: RTW88_UNLOCK_def on_line_def)
  have "r = r1 \<and> s' = s1\<lparr>mtx_depth := 0\<rparr>"
  proof (cases r1)
    case (Inl x)
    with y obtain e where "x = Errno e" by (cases x) auto
    with Inl assms(3) lock unlock m show ?thesis by (simp add: rtw88_phy_set_param_def locked_def del: steps_simps)
  next
    case (Inr v)
    with assms(3) lock unlock m show ?thesis by (simp add: rtw88_phy_set_param_def locked_def del: steps_simps)
  qed
  with y line show ?thesis
    by (auto simp: on_line_def phy_done_def on_set_def on_phy_def blob_after_def rfe_is_btg_def split: sum.splits option.splits)
qed

text \<open>C34. The PHY set-up, for any device and table image, with the mutex free. It returns with the mutex free and no request in flight, and a failure is an
  error code. When it succeeds the front-end is recorded as shared with Bluetooth exactly for the six front-end types, and, if
  the front-end is of type 2 or 4, a table image was there: on such an adapter without the image, although the code falls back
  to the static MAC table, the set-up always fails.\<close>
theorem phy_set_param_outcome:
  assumes "mtx_depth s = 0" "\<not> sc_io_busy s" "rtw88_phy_set_param C fw s = (r, s')"
  shows "mtx_depth s' = 0 \<and> \<not> sc_io_busy s' \<and>
    (case r of Inl e \<Rightarrow> is_errno e
     | Inr _ \<Rightarrow> sc_rfe_option (sc_phy s') = sc_rfe_option (sc_phy s) \<and>
         sc_rfe_btg (sc_phy s') = (sc_rfe_option (sc_phy s) \<in> {0x02, 0x04, 0x07, 0x0A, 0x0C, 0x0F}) \<and>
         (sc_rfe_option (sc_phy s) = 2 \<or> sc_rfe_option (sc_phy s) = 4 \<longrightarrow> sc_tbl_blob (sc_phy s) \<noteq> None \<or> fw \<noteq> None))"
  by (rule set_param_run [OF assms])

text \<open>The idle chip with a front-end of type 2 and no table image.\<close>

definition type2 :: "unit softc" where
  "type2 = (softc_zero () 0 True)\<lparr>sc_phy := phy_zero\<lparr>sc_rfe_option := 2\<rparr>\<rparr>"

theorem phy_set_param_outcome_witness:
  "case rtw88_phy_set_param idle_ops None type2 of (r, s') \<Rightarrow> (\<exists>e. r = Inl e \<and> is_errno e) \<and> mtx_depth s' = 0"
proof -
  have a: "mtx_depth type2 = 0" "\<not> sc_io_busy type2" "sc_rfe_option (sc_phy type2) = 2" "sc_tbl_blob (sc_phy type2) = None"
    by (simp_all add: type2_def softc_zero_def phy_zero_def)
  obtain r s' where run: "rtw88_phy_set_param idle_ops None type2 = (r, s')" by fastforce
  from phy_set_param_outcome [OF a(1,2) run] a(3,4) show ?thesis unfolding run by (auto split: sum.splits)
qed

end
