(* ===== verification/Rtw_Control.thy ===== *)
theory Rtw_Control
  imports Rtw_Link Rtw_Phy
begin

section \<open>The control interface: sysctls and the character device\<close>

text \<open>
  The handlers of \<^verbatim>\<open>if_rtw88_usb.c\<close> behind \<^verbatim>\<open>dev.rtw88_usb.N\<close> and behind the character device. A sysctl request is
  an error of the copy, if there is one, and the new value the user wrote, if any (\<^verbatim>\<open>sysctl_handle_int\<close>); a
  handler that reads gives the value it shows. The register address and the RF address are fields that plain sysctls
  set; here they are arguments.
\<close>

record sysctl_req =
  rq_error :: "errno option"
  rq_new :: "u32 option"

definition sysctl_out :: "sysctl_req \<Rightarrow> u32 \<Rightarrow> ('s, u32) cm" where
  "sysctl_out rq val = (case rq_error rq of Some e \<Rightarrow> fail (Errno e) | None \<Rightarrow> ret val)"

text \<open>The handlers that only act on a new value: \<open>none\<close> is what they give when there is none.\<close>

definition sysctl_in :: "sysctl_req \<Rightarrow> 'a \<Rightarrow> (u32 \<Rightarrow> ('s, 'a) cm) \<Rightarrow> ('s, 'a) cm" where
  "sysctl_in rq none act = (case rq_error rq of
     Some e \<Rightarrow> fail (Errno e)
   | None \<Rightarrow> (case rq_new rq of None \<Rightarrow> ret none | Some val \<Rightarrow> act val))"

subsection \<open>Registers\<close>

definition rtw88_peek_value_sysctl :: "'c chip_ops \<Rightarrow> u16 \<Rightarrow> sysctl_req \<Rightarrow> (('c, 'z) hw_scheme, u32) cm" where
  "rtw88_peek_value_sysctl C peek_addr rq =
     seqE RTW88_LOCK
     (tryE (attempt (rtw88_usb_read4 C peek_addr)) (\<lambda>r.
      seqE RTW88_UNLOCK (sysctl_out rq (case r of Inl _ \<Rightarrow> 0 | Inr v \<Rightarrow> v))))"

definition rtw88_poke_value_sysctl :: "'c chip_ops \<Rightarrow> u16 \<Rightarrow> sysctl_req \<Rightarrow> (('c, 'z) hw_scheme, unit) cm" where
  "rtw88_poke_value_sysctl C peek_addr rq = sysctl_in rq () (\<lambda>val.
     seqE RTW88_LOCK (seqE (discard (rtw88_usb_write4 C peek_addr val)) RTW88_UNLOCK))"

definition rtw88_rf_value_sysctl :: "'c chip_ops \<Rightarrow> u8 \<Rightarrow> sysctl_req \<Rightarrow> (('c, 'z) hw_scheme, u32) cm" where
  "rtw88_rf_value_sysctl C rf_addr rq =
     seqE RTW88_LOCK
     (tryE (attempt (rtw88_phy_read_rf_a C rf_addr RTW88_RFREG_MASK)) (\<lambda>r.
      seqE RTW88_UNLOCK (sysctl_out rq (case r of Inl _ \<Rightarrow> 0 | Inr v \<Rightarrow> v))))"

subsection \<open>The key memory\<close>

text \<open>What the dump of a slot prints.\<close>

record cam_dump =
  dump_valid :: bool
  dump_group :: bool
  dump_type :: u8
  dump_keyidx :: u8
  dump_mac :: "u8 list"
  dump_key :: "u32 list"
  dump_ext :: "u32 list"

definition cam_decode :: "(nat \<Rightarrow> u32) \<Rightarrow> cam_dump" where
  "cam_decode d = \<lparr>
     dump_valid = (drop_bit 15 (d 0) AND 1 \<noteq> 0), dump_group = (drop_bit 6 (d 0) AND 1 \<noteq> 0),
     dump_type = ucast (drop_bit 2 (d 0) AND 0x7), dump_keyidx = ucast (d 0 AND 0x3),
     dump_mac = [ucast (drop_bit 16 (d 0)), ucast (drop_bit 24 (d 0)), ucast (d 1), ucast (drop_bit 8 (d 1)),
       ucast (drop_bit 16 (d 1)), ucast (drop_bit 24 (d 1))],
     dump_key = [d 2, d 3, d 4, d 5], dump_ext = [d 6, d 7]\<rparr>"

fun cam_dwords :: "'c chip_ops \<Rightarrow> u8 \<Rightarrow> nat list \<Rightarrow> (('c, 'z) hw_scheme, u32 list) cm" where
  "cam_dwords C slot [] = ret []"
| "cam_dwords C slot (i # is) = tryE (rtw88_cam_read_dword C slot i) (\<lambda>d. tryE (cam_dwords C slot is) (\<lambda>ds. ret (d # ds)))"

definition rtw88_dump_cam_slot_sysctl :: "'c chip_ops \<Rightarrow> sysctl_req \<Rightarrow> (('c, 'z) hw_scheme, cam_dump option) cm" where
  "rtw88_dump_cam_slot_sysctl C rq = sysctl_in rq None (\<lambda>val.
     if val > 31 then fail (Errno EINVAL)
     else seqE RTW88_LOCK
       (tryE (attempt (cam_dwords C (ucast val) [0..<8])) (\<lambda>r.
        seqE RTW88_UNLOCK (case r of Inl _ \<Rightarrow> ret None | Inr ds \<Rightarrow> ret (Some (cam_decode (nth ds)))))))"

subsection \<open>The radio and power saving\<close>

definition rtw88_reinit_phy_sysctl :: "'c chip_ops \<Rightarrow> u8 list option \<Rightarrow> sysctl_req \<Rightarrow> ('c softc, unit) cm" where
  "rtw88_reinit_phy_sysctl C tbl rq = sysctl_in rq () (\<lambda>_. discard (rtw88_phy_set_param C tbl))"

definition rtw88_lps_state_sysctl :: "'c chip_ops \<Rightarrow> sysctl_req \<Rightarrow> (('c, 'z) hw_scheme, unit) cm" where
  "rtw88_lps_state_sysctl C rq = sysctl_in rq () (\<lambda>val.
     if val > 15 then fail (Errno EINVAL)
     else seqE RTW88_LOCK
       (seqE (if val = 0 then discard (rtw88_h2c_pwr_mode_active_usb C) else discard (rtw88_h2c_pwr_mode_lps_usb C (ucast val)))
        RTW88_UNLOCK))"

subsection \<open>Statistics\<close>

definition reset_tx :: "tx_softc \<Rightarrow> tx_softc" where
  "reset_tx t = t\<lparr>sc_stat_tx_packets := 0, sc_stat_tx_drops := 0, sc_stat_tx_data_qlen_max := 0, sc_stat_tx_mgmt_qlen_max := 0,
     sc_stat_tx_pending_qlen_max := 0\<rparr>"

definition reset_rx :: "rx_softc \<Rightarrow> rx_softc" where
  "reset_rx x = x\<lparr>sc_stat_tx_acked := 0, sc_stat_tx_xretries := 0, sc_rx_packets := 0, sc_rx_frames := 0, sc_stat_rx_errors := 0,
     sc_stat_rx_drops := 0, sc_stat_rx_cck := 0, sc_stat_rx_ofdm := 0, sc_stat_rx_mcs := 0, sc_stat_c2h := 0, sc_stat_c2h_unknown := 0\<rparr>"

definition reset_link :: "link_softc \<Rightarrow> link_softc" where
  "reset_link l = l\<lparr>sc_stat_cam_fails := 0, sc_stat_fw_stalls := 0\<rparr>"

definition reset_stats :: "'c softc \<Rightarrow> 'c softc" where
  "reset_stats s = s\<lparr>sc_stat_tx_errors := 0, sc_stat_usb_errors := 0, sc_tx := reset_tx (sc_tx s), sc_rx := reset_rx (sc_rx s),
     sc_link := reset_link (sc_link s)\<rparr>"

definition rtw88_stats_reset_sysctl :: "sysctl_req \<Rightarrow> ('c softc, unit) cm" where
  "rtw88_stats_reset_sysctl rq = sysctl_in rq () (\<lambda>_. seqE RTW88_LOCK (seqE (updS reset_stats) RTW88_UNLOCK))"

definition rtw88_qlen_data_sysctl :: "sysctl_req \<Rightarrow> ('c softc, u32) cm" where
  "rtw88_qlen_data_sysctl rq = tryE (getS (\<lambda>s. of_nat (length (mq_list (sc_tx_data_q (sc_tx s)))))) (sysctl_out rq)"

definition rtw88_qlen_mgmt_sysctl :: "sysctl_req \<Rightarrow> ('c softc, u32) cm" where
  "rtw88_qlen_mgmt_sysctl rq = tryE (getS (\<lambda>s. of_nat (length (mq_list (sc_tx_mgmt_q (sc_tx s)))))) (sysctl_out rq)"

definition rtw88_qlen_pending_sysctl :: "sysctl_req \<Rightarrow> ('c softc, u32) cm" where
  "rtw88_qlen_pending_sysctl rq = tryE (getS (\<lambda>s. of_nat (length (mq_list (sc_tx_pending_q (sc_tx s)))))) (sysctl_out rq)"

text \<open>
  The leaves of \<^verbatim>\<open>dev.rtw88_usb.N.stats\<close> in the order in which \<^verbatim>\<open>rtw88_net80211_attach\<close> adds them, each with what it
  shows: a counter, or another number of the softc.
\<close>

datatype 'c stat_leaf = StatCounter "'c softc \<Rightarrow> u64" | StatMax "'c softc \<Rightarrow> u32" | StatNumber "'c softc \<Rightarrow> u8"
  | StatLength "'c softc \<Rightarrow> mbufq"

definition stats_tree :: "(string \<times> 'c stat_leaf) list" where
  "stats_tree = [
     (''tx_packets'', StatCounter (\<lambda>s. sc_stat_tx_packets (sc_tx s))),
     (''tx_drops'', StatCounter (\<lambda>s. sc_stat_tx_drops (sc_tx s))),
     (''tx_errors'', StatCounter sc_stat_tx_errors),
     (''rx_packets'', StatCounter (\<lambda>s. sc_rx_packets (sc_rx s))),
     (''rx_frames'', StatCounter (\<lambda>s. sc_rx_frames (sc_rx s))),
     (''rx_errors'', StatCounter (\<lambda>s. sc_stat_rx_errors (sc_rx s))),
     (''rx_drops'', StatCounter (\<lambda>s. sc_stat_rx_drops (sc_rx s))),
     (''usb_errors'', StatCounter sc_stat_usb_errors),
     (''cam_fails'', StatCounter (\<lambda>s. sc_stat_cam_fails (sc_link s))),
     (''fw_stalls'', StatCounter (\<lambda>s. sc_stat_fw_stalls (sc_link s))),
     (''c2h'', StatCounter (\<lambda>s. sc_stat_c2h (sc_rx s))),
     (''c2h_unknown'', StatCounter (\<lambda>s. sc_stat_c2h_unknown (sc_rx s))),
     (''rx_cck'', StatCounter (\<lambda>s. sc_stat_rx_cck (sc_rx s))),
     (''rx_ofdm'', StatCounter (\<lambda>s. sc_stat_rx_ofdm (sc_rx s))),
     (''rx_mcs'', StatCounter (\<lambda>s. sc_stat_rx_mcs (sc_rx s))),
     (''link_rssi'', StatNumber (\<lambda>s. sc_avg_rssi (sc_rx s))),
     (''tx_acked'', StatCounter (\<lambda>s. sc_stat_tx_acked (sc_rx s))),
     (''tx_xretries'', StatCounter (\<lambda>s. sc_stat_tx_xretries (sc_rx s))),
     (''rate_id'', StatNumber (\<lambda>s. sc_rate_id (sc_tx s))),
     (''channel'', StatNumber (\<lambda>s. sc_cur_channel (sc_phy s))),
     (''tx_data_qlen'', StatLength (\<lambda>s. sc_tx_data_q (sc_tx s))),
     (''tx_mgmt_qlen'', StatLength (\<lambda>s. sc_tx_mgmt_q (sc_tx s))),
     (''tx_pending_qlen'', StatLength (\<lambda>s. sc_tx_pending_q (sc_tx s))),
     (''tx_data_qlen_max'', StatMax (\<lambda>s. sc_stat_tx_data_qlen_max (sc_tx s))),
     (''tx_mgmt_qlen_max'', StatMax (\<lambda>s. sc_stat_tx_mgmt_qlen_max (sc_tx s))),
     (''tx_pending_qlen_max'', StatMax (\<lambda>s. sc_stat_tx_pending_qlen_max (sc_tx s)))]"

text \<open>
  The nodes beside it, under \<^verbatim>\<open>dev.rtw88_usb.N\<close>: a field that the user sets, a number to look at, a handler, or the number of
  events that are still to be logged, which nothing but the log lines reads. A switch of eight bits is a truth value here: the driver only
  tests it. The addresses of the two windows are arguments, as for the handlers.
\<close>

datatype 'c dev_leaf = DevAddress | DevSet8 "u8 \<Rightarrow> 'c softc \<Rightarrow> 'c softc" | DevSet16 "u16 \<Rightarrow> 'c softc \<Rightarrow> 'c softc"
  | DevCount "'c softc \<Rightarrow> u32" | DevShow "sysctl_req \<Rightarrow> ('c softc, u32) cm" | DevAct "sysctl_req \<Rightarrow> ('c softc, unit) cm"
  | DevDump "sysctl_req \<Rightarrow> ('c softc, cam_dump option) cm" | DevTrace

definition dev_tree :: "'c chip_ops \<Rightarrow> u8 list option \<Rightarrow> u16 \<Rightarrow> u8 \<Rightarrow> (string \<times> 'c dev_leaf) list" where
  "dev_tree C tbl peek_addr rf_addr = [
     (''peek_addr'', DevAddress),
     (''linkup_skip'', DevSet16 (\<lambda>v s. s\<lparr>sc_link := (sc_link s)\<lparr>sc_linkup_skip := v\<rparr>\<rparr>)),
     (''linkup_iqk'', DevSet8 (\<lambda>v s. s\<lparr>sc_link := (sc_link s)\<lparr>sc_linkup_iqk := v \<noteq> 0\<rparr>\<rparr>)),
     (''m1_bcn_refire'', DevSet8 (\<lambda>v s. s\<lparr>sc_tx := (sc_tx s)\<lparr>sc_m1_bcn_refire := v \<noteq> 0\<rparr>\<rparr>)),
     (''stat_m1_bcn_refire'', DevCount (\<lambda>s. sc_stat_m1_bcn_refire (sc_tx s))),
     (''eapol_qos_upgrade'', DevSet8 (\<lambda>v s. s\<lparr>sc_tx := (sc_tx s)\<lparr>sc_eapol_qos_upgrade := v \<noteq> 0\<rparr>\<rparr>)),
     (''stat_eapol_qos_upgrade'', DevCount (\<lambda>s. sc_stat_eapol_qos_upgrade (sc_tx s))),
     (''eapol_fullhex'', DevTrace),
     (''peek_value'', DevShow (rtw88_peek_value_sysctl C peek_addr)),
     (''poke_value'', DevAct (rtw88_poke_value_sysctl C peek_addr)),
     (''dump_cam_slot'', DevDump (rtw88_dump_cam_slot_sysctl C)),
     (''rf_addr'', DevAddress),
     (''rf_value'', DevShow (rtw88_rf_value_sysctl C rf_addr)),
     (''reinit_phy'', DevAct (rtw88_reinit_phy_sysctl C tbl)),
     (''lps_state'', DevAct (rtw88_lps_state_sysctl C)),
     (''rx_trace'', DevTrace), (''c2h_trace'', DevTrace), (''tx_trace'', DevTrace), (''write_trace'', DevTrace), (''trace_mmio'', DevTrace)]"

subsection \<open>The character device\<close>

datatype cdev_ioc = RTW88_CDEV_IOC_READ | RTW88_CDEV_IOC_WRITE | IocOther

record rtw88_cdev_reg =
  cd_addr :: u16
  cd_width :: u8
  cd_value :: u32
  cd_err :: "errno option"   \<comment> \<open>\<open>None\<close> is 0\<close>

text \<open>
  \<open>stack\<close> is what the local variables of the handler happen to hold; \<open>present\<close>, whether the device still has its softc. A read that
  fails leaves them as they are, and the handler copies them to the user.
\<close>

definition cdev_read :: "'c chip_ops \<Rightarrow> u32 \<Rightarrow> rtw88_cdev_reg \<Rightarrow> (('c, 'z) hw_scheme, rtw88_cdev_reg) cm" where
  "cdev_read C stack r =
     (if cd_width r = 1 then tryE (attempt (rtw88_usb_read1 C (cd_addr r))) (\<lambda>x. ret (case x of
          Inl e \<Rightarrow> r\<lparr>cd_value := ucast (ucast stack :: u8), cd_err := Some e\<rparr> | Inr v \<Rightarrow> r\<lparr>cd_value := ucast v, cd_err := None\<rparr>))
      else if cd_width r = 2 then tryE (attempt (rtw88_usb_read2 C (cd_addr r))) (\<lambda>x. ret (case x of
          Inl e \<Rightarrow> r\<lparr>cd_value := ucast (ucast stack :: u16), cd_err := Some e\<rparr> | Inr v \<Rightarrow> r\<lparr>cd_value := ucast v, cd_err := None\<rparr>))
      else tryE (attempt (rtw88_usb_read4 C (cd_addr r))) (\<lambda>x. ret (case x of
          Inl e \<Rightarrow> r\<lparr>cd_value := stack, cd_err := Some e\<rparr> | Inr v \<Rightarrow> r\<lparr>cd_value := v, cd_err := None\<rparr>)))"

definition cdev_write :: "'c chip_ops \<Rightarrow> rtw88_cdev_reg \<Rightarrow> (('c, 'z) hw_scheme, rtw88_cdev_reg) cm" where
  "cdev_write C r =
     tryE (attempt (if cd_width r = 1 then rtw88_usb_write1 C (cd_addr r) (ucast (cd_value r))
        else if cd_width r = 2 then rtw88_usb_write2 C (cd_addr r) (ucast (cd_value r))
        else rtw88_usb_write4 C (cd_addr r) (cd_value r)))
      (\<lambda>x. ret (r\<lparr>cd_err := (case x of Inl e \<Rightarrow> Some e | Inr _ \<Rightarrow> None)\<rparr>))"

definition rtw88_cdev_ioctl :: "'c chip_ops \<Rightarrow> u32 \<Rightarrow> bool \<Rightarrow> cdev_ioc \<Rightarrow> rtw88_cdev_reg \<Rightarrow> (('c, 'z) hw_scheme, rtw88_cdev_reg) cm" where
  "rtw88_cdev_ioctl C stack present ioc r =
     (if \<not> present then fail (Errno ENXIO)
      else if ioc \<noteq> RTW88_CDEV_IOC_READ \<and> ioc \<noteq> RTW88_CDEV_IOC_WRITE then fail (Errno ENOTTY)
      else if cd_width r \<noteq> 1 \<and> cd_width r \<noteq> 2 \<and> cd_width r \<noteq> 4 then fail (Errno EINVAL)
      else seqE RTW88_LOCK
        (tryE (if ioc = RTW88_CDEV_IOC_READ then cdev_read C stack r else cdev_write C r) (\<lambda>r'.
         seqE RTW88_UNLOCK (ret r'))))"

subsection \<open>What the handlers show\<close>

text \<open>The dump decodes what \<^verbatim>\<open>rtw88_cam_write_entry\<close> encodes.\<close>

lemma dump_shows_entry:
  assumes "length mac = 6" "length key = 16"
  shows "let d = cam_decode (cam_content ty keyidx grp mac key 16)
    in dump_valid d \<and> dump_group d = grp \<and> dump_type d = ty AND 0x7 \<and> dump_keyidx d = keyidx AND 0x3 \<and> dump_mac d = mac \<and>
       dump_key d = [le32dec key 0, le32dec key 4, le32dec key 8, le32dec key 12] \<and> dump_ext d = [0, 0]"
proof -
  let ?c = "cam_content ty keyidx grp mac key 16"
  note f = content_flags [of ty keyidx grp mac key 16]
  have b: "v AND 1 \<noteq> 0 \<longleftrightarrow> bit v 0" for v :: u32 using and_exp_eq_0_iff_not_bit [of v 0] by simp
  have u: "(ucast (ucast v AND 0x7 :: u32) :: u8) = v AND 0x7" "(ucast (ucast v AND 0x3 :: u32) :: u8) = v AND 0x3" for v :: u8
    by (rule bit_word_eqI, auto simp: bit_simps)+
  have u6: "[0..<6] = [0, 1, 2, 3, 4, 5 :: nat]" by (simp add: upt_conv_Cons)
  have m: "[at mac 0, at mac 1, at mac 2, at mac 3, at mac 4, at mac 5] = mac" using map_at [OF assms(1)] unfolding u6 by simp
  have d: "drop_bit 2 (?c 0) AND 0x7 = ucast ty AND 0x7" "?c 0 AND 0x3 = ucast keyidx AND 0x3" using f by simp_all
  have w: "?c 1 = le32 (at mac 2) (at mac 3) (at mac 4) (at mac 5)"
    "?c 2 = le32dec key 0" "?c 3 = le32dec key 4" "?c 4 = le32dec key 8" "?c 5 = le32dec key 12" "?c 6 = 0" "?c 7 = 0"
    by (simp_all add: cam_content_def le32dec_def flip: numeral_2_eq_2)
  show ?thesis
    unfolding cam_decode_def Let_def w
    by (simp add: b bit_drop_bit_eq d u f le32_bytes) (use m in simp)
qed

text \<open>After a reset every counter and every maximum of the tree is zero; the other leaves show what they showed.\<close>

lemma reset_zeroes:
  "(n, StatCounter f) \<in> set stats_tree \<Longrightarrow> f (reset_stats s) = 0"
  "(n, StatMax g) \<in> set stats_tree \<Longrightarrow> g (reset_stats s) = 0"
  "(n, StatNumber h) \<in> set stats_tree \<Longrightarrow> h (reset_stats s) = h s"
  "(n, StatLength q) \<in> set stats_tree \<Longrightarrow> q (reset_stats s) = q s"
  by (auto simp: stats_tree_def reset_stats_def reset_tx_def reset_rx_def reset_link_def)

text \<open>No name occurs twice, and setting a field moves no packet and does not touch the bus.\<close>

lemma dev_tree_names: "distinct (map fst (dev_tree C tbl p a))"
  by (simp add: dev_tree_def)

lemma dev_tree_harmless:
  "(n, DevSet8 f) \<in> set (dev_tree C tbl p a) \<Longrightarrow> hw.truncate (f v s) = hw.truncate s \<and> held (f v s) = held s"
  "(n, DevSet16 g) \<in> set (dev_tree C tbl p a) \<Longrightarrow> hw.truncate (g w s) = hw.truncate s \<and> held (g w s) = held s"
  by (auto simp: dev_tree_def held_def tx_held_def hw.truncate_def)

text \<open>A reset restarts the watchdog: it compares the number of packets with the last one it saw, and a stalled firmware then counts as alive.\<close>

lemma reset_hides_stall:
  assumes "sc_last_rx_packets (sc_link s) \<noteq> 0" "sc_fw_stall_logged (sc_link s)"
  shows "let s' = reset_stats s; l = fwka_watch (sc_rx_packets (sc_rx s')) (sc_link s') in sc_fw_stall_ticks l = 0 \<and> \<not> sc_fw_stall_logged l"
  using assms by (simp add: reset_stats_def reset_rx_def reset_link_def fwka_watch_def)

end
