(* ===== verification/Rtw_Regd.thy ===== *)
theory Rtw_Regd
  imports Rtw_Debug "HOL-Library.Multiset"
begin

section \<open>Regulatory domain\<close>

text \<open>
  \<^verbatim>\<open>rtw88_regd.c\<close> and \<^verbatim>\<open>rtw88_regd.h\<close>: the table from ISO country codes to the chip's regulatory
  codes, the linear lookup with its world-wide default, and the two operations that store
  the result. A country argument is the two characters the code reads, or NULL.
\<close>

datatype rtw88_regd_code = RTW88_REGD_FCC | RTW88_REGD_ETSI | RTW88_REGD_MKK | RTW88_REGD_IC
  | RTW88_REGD_KCC | RTW88_REGD_ACMA | RTW88_REGD_CHILE | RTW88_REGD_UKRAINE | RTW88_REGD_MEXICO
  | RTW88_REGD_CN | RTW88_REGD_QATAR | RTW88_REGD_UK | RTW88_REGD_WW

primrec regd_value :: "rtw88_regd_code \<Rightarrow> u8" where
  "regd_value RTW88_REGD_FCC = 0"
| "regd_value RTW88_REGD_ETSI = 1"
| "regd_value RTW88_REGD_MKK = 2"
| "regd_value RTW88_REGD_IC = 3"
| "regd_value RTW88_REGD_KCC = 4"
| "regd_value RTW88_REGD_ACMA = 5"
| "regd_value RTW88_REGD_CHILE = 6"
| "regd_value RTW88_REGD_UKRAINE = 7"
| "regd_value RTW88_REGD_MEXICO = 8"
| "regd_value RTW88_REGD_CN = 9"
| "regd_value RTW88_REGD_QATAR = 10"
| "regd_value RTW88_REGD_UK = 11"
| "regd_value RTW88_REGD_WW = 15"

record rtw88_regd_entry =
  re_country :: string
  re_2g :: rtw88_regd_code
  re_5g :: rtw88_regd_code

definition regd_row :: "string \<Rightarrow> rtw88_regd_code \<Rightarrow> rtw88_regd_entry" where
  "regd_row c r = \<lparr>re_country = c, re_2g = r, re_5g = r\<rparr>"

text \<open>The rows above the sentinel, and the sentinel.\<close>

definition rtw88_regd_table :: "rtw88_regd_entry list" where
  "rtw88_regd_table = [
     regd_row ''US'' RTW88_REGD_FCC,
     regd_row ''CA'' RTW88_REGD_IC,
     regd_row ''MX'' RTW88_REGD_MEXICO,
     regd_row ''CL'' RTW88_REGD_CHILE,
     regd_row ''GB'' RTW88_REGD_UK,
     regd_row ''DE'' RTW88_REGD_ETSI,
     regd_row ''FR'' RTW88_REGD_ETSI,
     regd_row ''IT'' RTW88_REGD_ETSI,
     regd_row ''ES'' RTW88_REGD_ETSI,
     regd_row ''NL'' RTW88_REGD_ETSI,
     regd_row ''PL'' RTW88_REGD_ETSI,
     regd_row ''SE'' RTW88_REGD_ETSI,
     regd_row ''FI'' RTW88_REGD_ETSI,
     regd_row ''AT'' RTW88_REGD_ETSI,
     regd_row ''BE'' RTW88_REGD_ETSI,
     regd_row ''CH'' RTW88_REGD_ETSI,
     regd_row ''CZ'' RTW88_REGD_ETSI,
     regd_row ''DK'' RTW88_REGD_ETSI,
     regd_row ''IE'' RTW88_REGD_ETSI,
     regd_row ''NO'' RTW88_REGD_ETSI,
     regd_row ''PT'' RTW88_REGD_ETSI,
     regd_row ''GR'' RTW88_REGD_ETSI,
     regd_row ''HU'' RTW88_REGD_ETSI,
     regd_row ''TR'' RTW88_REGD_ETSI,
     regd_row ''RU'' RTW88_REGD_ETSI,
     regd_row ''UA'' RTW88_REGD_UKRAINE,
     regd_row ''AU'' RTW88_REGD_ACMA,
     regd_row ''NZ'' RTW88_REGD_ACMA,
     regd_row ''JP'' RTW88_REGD_MKK,
     regd_row ''KR'' RTW88_REGD_KCC,
     regd_row ''CN'' RTW88_REGD_CN,
     regd_row ''HK'' RTW88_REGD_ETSI,
     regd_row ''TW'' RTW88_REGD_FCC,
     regd_row ''SG'' RTW88_REGD_ETSI,
     regd_row ''MY'' RTW88_REGD_ETSI,
     regd_row ''TH'' RTW88_REGD_ETSI,
     regd_row ''PH'' RTW88_REGD_FCC,
     regd_row ''ID'' RTW88_REGD_ETSI,
     regd_row ''IN'' RTW88_REGD_ETSI,
     regd_row ''AE'' RTW88_REGD_ETSI,
     regd_row ''SA'' RTW88_REGD_ETSI,
     regd_row ''QA'' RTW88_REGD_QATAR,
     regd_row ''IL'' RTW88_REGD_ETSI,
     regd_row ''ZA'' RTW88_REGD_ETSI,
     regd_row ''BR'' RTW88_REGD_FCC,
     regd_row ''AR'' RTW88_REGD_FCC]"

definition regd_sentinel :: rtw88_regd_entry where
  "regd_sentinel = \<lparr>re_country = [], re_2g = RTW88_REGD_WW, re_5g = RTW88_REGD_WW\<rparr>"

definition regd_matches :: "char \<times> char \<Rightarrow> rtw88_regd_entry \<Rightarrow> bool" where
  "regd_matches iso2 e \<longleftrightarrow> take 2 (re_country e) = [fst iso2, snd iso2]"

definition regd_lookup_in :: "rtw88_regd_entry list \<Rightarrow> char \<times> char \<Rightarrow> rtw88_regd_entry" where
  "regd_lookup_in table iso2 =
     (case find (regd_matches iso2) table of Some e \<Rightarrow> e | None \<Rightarrow> regd_sentinel)"

definition rtw88_regd_lookup :: "char \<times> char \<Rightarrow> rtw88_regd_entry" where
  "rtw88_regd_lookup = regd_lookup_in rtw88_regd_table"

definition rtw88_regd_init :: "'w rtw88_dev \<Rightarrow> 'w rtw88_dev" where
  "rtw88_regd_init d = d\<lparr>dev_regd := \<lparr>rg_country = [CHR ''W'', CHR ''W'', CHR 0x00],
     rg_regd_2g = regd_value RTW88_REGD_WW, rg_regd_5g = regd_value RTW88_REGD_WW\<rparr>\<rparr>"

definition rtw88_regd_apply :: "(char \<times> char) option \<Rightarrow> ('w rtw88_dev, unit) cm" where
  "rtw88_regd_apply iso2 = (case iso2 of
     None \<Rightarrow> fail (Errno EINVAL)
   | Some c \<Rightarrow>
       let e = rtw88_regd_lookup c in
       updS (\<lambda>d. rtw88_debug_inc RTW88_DBG_CNT_REGD_CHANGE
         (d\<lparr>dev_regd := \<lparr>rg_country = [fst c, snd c, CHR 0x00],
            rg_regd_2g = regd_value (re_2g e), rg_regd_5g = regd_value (re_5g e)\<rparr>\<rparr>)))"

definition rtw88_regd_get :: "'w rtw88_dev \<Rightarrow> rtw88_regd_state" where
  "rtw88_regd_get d = dev_regd d"

subsection \<open>The table\<close>

lemma regd_table_codes: "\<forall>e \<in> set rtw88_regd_table. length (re_country e) = 2 \<and> re_5g e = re_2g e"
  by (simp add: rtw88_regd_table_def regd_row_def)

lemma regd_table_distinct: "distinct (map re_country rtw88_regd_table)"
  by (simp add: rtw88_regd_table_def regd_row_def)

text \<open>In a table with no country twice, the first match is the only one.\<close>

lemma find_unique:
  assumes "e \<in> set t" "P e" "\<And>e'. e' \<in> set t \<Longrightarrow> P e' \<Longrightarrow> e' = e"
  shows "find P t = Some e"
proof -
  from assms(1,2) obtain e' where "find P t = Some e'"
    by (cases "find P t") (auto simp: find_None_iff)
  moreover from this have "e' \<in> set t" "P e'" by (auto simp: find_Some_iff)
  ultimately show ?thesis using assms(3) by auto
qed

lemma regd_lookup_hit:
  assumes "distinct (map re_country t)" "\<forall>e \<in> set t. length (re_country e) = 2"
    and "e \<in> set t" "re_country e = [a, b]"
  shows "regd_lookup_in t (a, b) = e"
proof -
  have "find (regd_matches (a, b)) t = Some e"
  proof (rule find_unique [OF assms(3)])
    show "regd_matches (a, b) e" using assms(4) by (simp add: regd_matches_def)
    fix e' assume e': "e' \<in> set t" "regd_matches (a, b) e'"
    with assms(2) have "re_country e' = re_country e"
      using assms(4) by (auto simp: regd_matches_def)
    with assms(1,3) e'(1) show "e' = e" by (auto simp: distinct_map dest: inj_onD)
  qed
  then show ?thesis by (simp add: regd_lookup_in_def)
qed

lemma regd_lookup_miss:
  assumes "\<forall>e \<in> set t. length (re_country e) = 2" "\<forall>e \<in> set t. re_country e \<noteq> [a, b]"
  shows "regd_lookup_in t (a, b) = regd_sentinel"
proof -
  have "find (regd_matches (a, b)) t = None"
    using assms by (auto simp: find_None_iff regd_matches_def)
  then show ?thesis by (simp add: regd_lookup_in_def)
qed

subsection \<open>What the lookup gives\<close>

text \<open>The order of the rows of the regulatory table does not matter: a linear scan over any permutation of
  it finds the same codes for every two characters, so that adding rows sorted or unsorted cannot
  change what a country gets.\<close>
theorem regd_lookup_any_order:
  assumes "mset table = mset rtw88_regd_table"
  shows "regd_lookup_in table iso2 = rtw88_regd_lookup iso2"
proof -
  obtain a b where iso: "iso2 = (a, b)" by fastforce
  have set: "set table = set rtw88_regd_table" by (rule mset_eq_setD [OF assms])
  have len: "\<forall>e \<in> set rtw88_regd_table. length (re_country e) = 2" using regd_table_codes by blast
  have "mset (map re_country table) = mset (map re_country rtw88_regd_table)"
    by (simp only: mset_map assms)
  then have dist: "distinct (map re_country table)"
    using regd_table_distinct mset_eq_imp_distinct_iff by blast
  show ?thesis
  proof (cases "\<exists>e \<in> set rtw88_regd_table. re_country e = [a, b]")
    case True
    then obtain e where e: "e \<in> set rtw88_regd_table" "re_country e = [a, b]" by blast
    then show ?thesis
      unfolding rtw88_regd_lookup_def iso
      using regd_lookup_hit [OF dist _ _ e(2)] regd_lookup_hit [OF regd_table_distinct len e] len set
      by simp
  next
    case False
    then show ?thesis
      unfolding rtw88_regd_lookup_def iso
      using regd_lookup_miss [of table a b] regd_lookup_miss [of rtw88_regd_table a b] len set by auto
  qed
qed

theorem regd_lookup_any_order_witness:
  "regd_lookup_in (rev rtw88_regd_table) (CHR ''J'', CHR ''P'') = regd_row ''JP'' RTW88_REGD_MKK"
proof -
  have "mset (rev rtw88_regd_table) = mset rtw88_regd_table" by simp
  from regd_lookup_any_order [OF this] have
    "regd_lookup_in (rev rtw88_regd_table) (CHR ''J'', CHR ''P'') = rtw88_regd_lookup (CHR ''J'', CHR ''P'')" .
  also have "\<dots> = regd_row ''JP'' RTW88_REGD_MKK" by code_simp
  finally show ?thesis .
qed

text \<open>Applying a country code. A listed country stores its own two letters and its row's codes, an unlisted one stores its
  letters with the world-wide code in both bands, NULL is refused with EINVAL and changes nothing; the
  stored string is always NUL-terminated, a success counts one change, and nothing else of the
  device handle moves.\<close>
theorem regd_apply_spec:
  "case iso2 of
     None \<Rightarrow> rtw88_regd_apply iso2 d = (Inl (Errno EINVAL), d)
   | Some (a, b) \<Rightarrow> \<exists>code.
       ((\<exists>e \<in> set rtw88_regd_table. re_country e = [a, b] \<and> code = re_2g e \<and> code = re_5g e) \<or>
        ((\<forall>e \<in> set rtw88_regd_table. re_country e \<noteq> [a, b]) \<and> code = RTW88_REGD_WW)) \<and>
       rtw88_regd_apply iso2 d = (Inr (), d\<lparr>
         dev_regd := \<lparr>rg_country = [a, b, CHR 0x00], rg_regd_2g = regd_value code, rg_regd_5g = regd_value code\<rparr>,
         dbg_counters := (dbg_counters d)(RTW88_DBG_CNT_REGD_CHANGE := dbg_counters d RTW88_DBG_CNT_REGD_CHANGE + 1)\<rparr>)"
proof (cases iso2)
  case None
  then show ?thesis by (simp add: rtw88_regd_apply_def)
next
  case (Some c)
  obtain a b where c: "c = (a, b)" by fastforce
  let ?e = "rtw88_regd_lookup (a, b)"
  have len: "\<forall>e \<in> set rtw88_regd_table. length (re_country e) = 2" using regd_table_codes by blast
  have run: "rtw88_regd_apply iso2 d = (Inr (), d\<lparr>
         dev_regd := \<lparr>rg_country = [a, b, CHR 0x00], rg_regd_2g = regd_value (re_2g ?e), rg_regd_5g = regd_value (re_5g ?e)\<rparr>,
         dbg_counters := (dbg_counters d)(RTW88_DBG_CNT_REGD_CHANGE := dbg_counters d RTW88_DBG_CNT_REGD_CHANGE + 1)\<rparr>)"
    using Some c by (simp add: rtw88_regd_apply_def rtw88_debug_inc_def Let_def)
  show ?thesis
  proof (cases "\<exists>e \<in> set rtw88_regd_table. re_country e = [a, b]")
    case True
    then obtain e where e: "e \<in> set rtw88_regd_table" "re_country e = [a, b]" by blast
    have "?e = e" unfolding rtw88_regd_lookup_def by (rule regd_lookup_hit [OF regd_table_distinct len e])
    with e regd_table_codes run Some c show ?thesis by auto
  next
    case False
    then have "?e = regd_sentinel"
      unfolding rtw88_regd_lookup_def using len by (intro regd_lookup_miss) auto
    with False run Some c show ?thesis by (auto simp: regd_sentinel_def)
  qed
qed

theorem regd_apply_spec_witness:
  "\<exists>code. rtw88_regd_apply (Some (CHR ''Z'', CHR ''Z'')) (rtw88_dev_zero ()) =
    (Inr (), (rtw88_dev_zero ())\<lparr>
      dev_regd := \<lparr>rg_country = [CHR ''Z'', CHR ''Z'', CHR 0x00], rg_regd_2g = regd_value code, rg_regd_5g = regd_value code\<rparr>,
      dbg_counters := (\<lambda>_. 0)(RTW88_DBG_CNT_REGD_CHANGE := 1)\<rparr>)"
  using regd_apply_spec [of "Some (CHR ''Z'', CHR ''Z'')" "rtw88_dev_zero ()"]
  by (auto simp: rtw88_dev_zero_def)

end
