(* ===== verification/Rtw_Ps.thy ===== *)
theory Rtw_Ps
  imports Rtw_Debug Rtw_Hci_Usb
begin

section \<open>Power save\<close>

text \<open>
  \<^verbatim>\<open>rtw88_ps.c\<close>: the two forms of the SET_PWR_MODE command and the state machine that enters and leaves
  shallow LPS through them. The bus is a parameter: the state machine must be right for any
  back-end, also one that fails every command (the PCI back-end does).
\<close>

definition ps_active_msg :: "u8 \<Rightarrow> u32" where
  "ps_active_msg macid = H2C_CMD_SET_PWR_MODE OR push_bit 16 (ucast macid)"

definition ps_active_ext :: u32 where
  "ps_active_ext = push_bit 5 0 OR push_bit 8 0x0c"

definition ps_lps_msg :: "u8 \<Rightarrow> u8 \<Rightarrow> u32" where
  "ps_lps_msg awake_interval smart_ps =
     H2C_CMD_SET_PWR_MODE OR push_bit 8 1 OR push_bit 16 1
     OR push_bit 20 (ucast (smart_ps AND 0x3)) OR push_bit 24 (ucast awake_interval)"

definition ps_lps_ext :: "u8 \<Rightarrow> u32" where
  "ps_lps_ext macid = push_bit 0 (ucast macid) OR push_bit 8 0x0c"

definition rtw88_h2c_pwr_mode_active :: "'w hci_ops \<Rightarrow> u8 \<Rightarrow> ('w rtw88_dev, unit) cm" where
  "rtw88_h2c_pwr_mode_active ops macid =
     rtw_h2c ops H2C_CMD_SET_PWR_MODE (ps_active_msg macid) ps_active_ext"

definition rtw88_h2c_pwr_mode_lps ::
  "'w hci_ops \<Rightarrow> u8 \<Rightarrow> u8 \<Rightarrow> u8 \<Rightarrow> ('w rtw88_dev, unit) cm" where
  "rtw88_h2c_pwr_mode_lps ops macid awake_interval smart_ps =
     rtw_h2c ops H2C_CMD_SET_PWR_MODE (ps_lps_msg awake_interval smart_ps) (ps_lps_ext macid)"

definition rtw88_ps_attach :: "u8 \<Rightarrow> 'w rtw88_dev \<Rightarrow> 'w rtw88_dev" where
  "rtw88_ps_attach macid d = d\<lparr>dev_lps := \<lparr>lps_mode = RTW88_LPS_MODE_ACTIVE, lps_in_lps = False,
     lps_wow = False, lps_awake_interval = 1, lps_smart_ps = 2, lps_macid = macid\<rparr>\<rparr>"

text \<open>The bookkeeping after a command that was accepted.\<close>

definition lps_entered :: "'w rtw88_dev \<Rightarrow> 'w rtw88_dev" where
  "lps_entered d = rtw88_debug_inc RTW88_DBG_CNT_PS_ENTER
     (d\<lparr>dev_lps := (dev_lps d)\<lparr>lps_mode := RTW88_LPS_MODE_LEGACY, lps_in_lps := True\<rparr>\<rparr>)"

definition lps_left :: "'w rtw88_dev \<Rightarrow> 'w rtw88_dev" where
  "lps_left d = rtw88_debug_inc RTW88_DBG_CNT_PS_LEAVE
     (d\<lparr>dev_lps := (dev_lps d)\<lparr>lps_mode := RTW88_LPS_MODE_ACTIVE, lps_in_lps := False\<rparr>\<rparr>)"

definition rtw88_lps_enter :: "'w hci_ops \<Rightarrow> ('w rtw88_dev, unit) cm" where
  "rtw88_lps_enter ops = tryE (getS dev_lps) (\<lambda>l.
     if lps_in_lps l then ret ()
     else seqE (rtw88_h2c_pwr_mode_lps ops (lps_macid l) (lps_awake_interval l) (lps_smart_ps l))
            (updS lps_entered))"

definition rtw88_lps_leave :: "'w hci_ops \<Rightarrow> ('w rtw88_dev, unit) cm" where
  "rtw88_lps_leave ops = tryE (getS dev_lps) (\<lambda>l.
     if \<not> lps_in_lps l then rtw88_h2c_pwr_mode_active ops (lps_macid l)
     else seqE (rtw88_h2c_pwr_mode_active ops (lps_macid l)) (updS lps_left))"

definition rtw88_ps_notify :: "'w hci_ops \<Rightarrow> bool \<Rightarrow> ('w rtw88_dev, unit) cm" where
  "rtw88_ps_notify ops wants_ps = (if wants_ps then rtw88_lps_enter ops else rtw88_lps_leave ops)"

definition rtw88_ps_detach :: "'w hci_ops \<Rightarrow> ('w rtw88_dev, unit) cm" where
  "rtw88_ps_detach ops = tryE (getS dev_lps) (\<lambda>l.
     if lps_in_lps l then discard (rtw88_lps_leave ops) else ret ())"

subsection \<open>The state machine\<close>

text \<open>
  The runs of the power-save subsystem after \<^verbatim>\<open>rtw88_ps_attach\<close>: any sequence of calls, each with
  any outcome of the command.
\<close>

inductive ps_step :: "'w hci_ops \<Rightarrow> 'w rtw88_dev \<Rightarrow> 'w rtw88_dev \<Rightarrow> bool" for ops where
  notify: "ps_step ops d (snd (rtw88_ps_notify ops wants d))"
| detach: "ps_step ops d (snd (rtw88_ps_detach ops d))"
| bus: "ps_step ops d (d\<lparr>priv := w\<rparr>)"   \<comment> \<open>the rest of the driver uses the bus in between\<close>

definition ps_inv :: "u8 \<Rightarrow> u64 \<Rightarrow> 'w rtw88_dev \<Rightarrow> bool" where
  "ps_inv macid n d \<longleftrightarrow>
     lps_mode (dev_lps d) = (if lps_in_lps (dev_lps d) then RTW88_LPS_MODE_LEGACY else RTW88_LPS_MODE_ACTIVE) \<and>
     \<not> lps_wow (dev_lps d) \<and> lps_awake_interval (dev_lps d) = 1 \<and> lps_smart_ps (dev_lps d) = 2 \<and>
     lps_macid (dev_lps d) = macid \<and>
     dbg_counters d RTW88_DBG_CNT_PS_ENTER - dbg_counters d RTW88_DBG_CNT_PS_LEAVE
       = n + (if lps_in_lps (dev_lps d) then 1 else 0)"

lemma ps_inv_priv [simp]: "ps_inv m n (d\<lparr>priv := w\<rparr>) = ps_inv m n d"
  by (simp add: ps_inv_def)

lemma h2c_state: "snd (rtw_h2c ops c m x d) = d\<lparr>priv := snd (op_h2c ops c m x (priv d))\<rparr>"
  by (simp add: rtw_h2c_def on_priv_def split: prod.splits)

lemma h2c_result: "fst (rtw_h2c ops c m x d) = fst (op_h2c ops c m x (priv d))"
  by (simp add: rtw_h2c_def on_priv_def split: prod.splits)

text \<open>What entering and leaving do, for each outcome of the command.\<close>

lemma lps_enter_run:
  assumes "rtw_h2c ops H2C_CMD_SET_PWR_MODE
      (ps_lps_msg (lps_awake_interval (dev_lps d)) (lps_smart_ps (dev_lps d)))
      (ps_lps_ext (lps_macid (dev_lps d))) d = (r, d1)"
  shows "rtw88_lps_enter ops d = (if lps_in_lps (dev_lps d) then (Inr (), d)
     else case r of Inl e \<Rightarrow> (Inl e, d1) | Inr _ \<Rightarrow> (Inr (), lps_entered d1))"
  using assms by (auto simp: rtw88_lps_enter_def rtw88_h2c_pwr_mode_lps_def tryE_def seqE_def
      split: sum.splits)

lemma lps_leave_run:
  assumes "rtw_h2c ops H2C_CMD_SET_PWR_MODE (ps_active_msg (lps_macid (dev_lps d))) ps_active_ext d
      = (r, d1)"
  shows "rtw88_lps_leave ops d = (case r of Inl e \<Rightarrow> (Inl e, d1)
     | Inr _ \<Rightarrow> (Inr (), if lps_in_lps (dev_lps d) then lps_left d1 else d1))"
  using assms by (auto simp: rtw88_lps_leave_def rtw88_h2c_pwr_mode_active_def tryE_def seqE_def
      split: sum.splits)

lemma ps_inv_attach:
  "ps_inv macid (dbg_counters d RTW88_DBG_CNT_PS_ENTER - dbg_counters d RTW88_DBG_CNT_PS_LEAVE)
     (rtw88_ps_attach macid d)"
  by (simp add: ps_inv_def rtw88_ps_attach_def)

lemma ps_inv_enter: "ps_inv m n d \<Longrightarrow> ps_inv m n (snd (rtw88_lps_enter ops d))"
proof -
  assume inv: "ps_inv m n d"
  obtain r d1 where h: "rtw_h2c ops H2C_CMD_SET_PWR_MODE
      (ps_lps_msg (lps_awake_interval (dev_lps d)) (lps_smart_ps (dev_lps d)))
      (ps_lps_ext (lps_macid (dev_lps d))) d = (r, d1)" by fastforce
  then have "d1 = d\<lparr>priv := priv d1\<rparr>" using h2c_state by (metis rtw88_dev.surjective
        rtw88_dev.update_convs(1) rtw88_dev.select_convs(1) snd_conv)
  then obtain w where "d1 = d\<lparr>priv := w\<rparr>" by blast
  with inv lps_enter_run [OF h] show ?thesis
    by (auto simp: ps_inv_def lps_entered_def split: sum.splits)
qed

lemma ps_inv_leave: "ps_inv m n d \<Longrightarrow> ps_inv m n (snd (rtw88_lps_leave ops d))"
proof -
  assume inv: "ps_inv m n d"
  obtain r d1 where h: "rtw_h2c ops H2C_CMD_SET_PWR_MODE (ps_active_msg (lps_macid (dev_lps d)))
      ps_active_ext d = (r, d1)" by fastforce
  then have "d1 = d\<lparr>priv := priv d1\<rparr>" using h2c_state by (metis rtw88_dev.surjective
        rtw88_dev.update_convs(1) rtw88_dev.select_convs(1) snd_conv)
  then obtain w where "d1 = d\<lparr>priv := w\<rparr>" by blast
  with inv lps_leave_run [OF h] show ?thesis
    by (auto simp: ps_inv_def lps_left_def algebra_simps split: sum.splits)
qed

lemma discard_state: "snd (discard m s) = snd (m s)"
  by (auto simp: discard_def tryE_def attempt_def split: prod.splits sum.splits fault.splits)

lemma ps_inv_step: "ps_step ops d d' \<Longrightarrow> ps_inv m n d \<Longrightarrow> ps_inv m n d'"
proof (induction rule: ps_step.induct)
  case (notify d wants)
  then show ?case
    by (cases wants) (simp_all add: rtw88_ps_notify_def ps_inv_enter ps_inv_leave)
next
  case (detach d)
  then show ?case
    by (simp add: rtw88_ps_detach_def tryE_def discard_state ps_inv_leave)
next
  case (bus d w)
  then show ?case by simp
qed

lemma ps_inv_steps: "(ps_step ops)\<^sup>*\<^sup>* d d' \<Longrightarrow> ps_inv m n d \<Longrightarrow> ps_inv m n d'"
  by (induction rule: rtranclp_induct) (auto intro: ps_inv_step)

subsection \<open>What the state machine gives\<close>

text \<open>C39. Whatever sequence of enter, leave and detach calls follows the attach, and whichever of the commands the bus refuses,
  the power-save state is consistent: the mode is LEGACY exactly when the driver is in LPS and ACTIVE otherwise, the
  parameters set at attach are unchanged, and the entries counted exceed the exits counted (since
  attach, modulo 64 bits) by one in LPS and by nothing out of it.\<close>
theorem ps_state_machine:
  assumes "(ps_step ops)\<^sup>*\<^sup>* (rtw88_ps_attach macid d) d'"
  shows "lps_mode (dev_lps d') = (if lps_in_lps (dev_lps d') then RTW88_LPS_MODE_LEGACY else RTW88_LPS_MODE_ACTIVE) \<and>
    lps_macid (dev_lps d') = macid \<and> lps_awake_interval (dev_lps d') = 1 \<and> lps_smart_ps (dev_lps d') = 2 \<and>
    (dbg_counters d' RTW88_DBG_CNT_PS_ENTER - dbg_counters d RTW88_DBG_CNT_PS_ENTER)
      - (dbg_counters d' RTW88_DBG_CNT_PS_LEAVE - dbg_counters d RTW88_DBG_CNT_PS_LEAVE)
      = (if lps_in_lps (dev_lps d') then 1 else 0)"
  using ps_inv_steps [OF assms ps_inv_attach] by (simp add: ps_inv_def algebra_simps)

text \<open>The shifted field of the third byte stays in it.\<close>

lemma smart_ps_byte: "ucast (push_bit 4 (s AND 3) OR 1 :: u8) = (1 :: u32) OR push_bit 4 (ucast (s AND 3))"
  by (rule bit_word_eqI) (auto simp: and_3_take_bit bit_simps)

lemma ps_lps_msg_le32: "ps_lps_msg awake smart = le32 0x20 1 (push_bit 4 (smart AND 3) OR 1) awake"
proof -
  have "push_bit 16 (1 :: u32) OR push_bit 20 (ucast (smart AND 3))
      = push_bit 16 ((1 :: u32) OR push_bit 4 (ucast (smart AND 3)))"
    by (simp only: push_bit_or push_bit_push_bit) simp
  then show ?thesis
    unfolding ps_lps_msg_def le32_def smart_ps_byte by (simp add: or.assoc)
qed

text \<open>The two forms of SET_PWR_MODE on the wire, for the two calls that the state machine makes. Entering LPS sends the
  bytes 20 01 (smart_ps shifted left by 4, or 1) (awake interval), leaving it sends 20 00 macid 00; the power state byte of the extension word is
  0x0c in both. No parameter value can spill into a neighbouring byte.\<close>
theorem ps_message_bytes:
  "le32enc (ps_lps_msg awake smart) = [0x20, 1, push_bit 4 (smart AND 3) OR 1, awake] \<and>
   le32enc (ps_active_msg macid) = [0x20, 0, macid, 0] \<and>
   le32enc (ps_lps_ext macid) = [macid, 0x0c, 0, 0] \<and>
   le32enc ps_active_ext = [0, 0x0c, 0, 0]"
proof -
  have a: "ps_active_msg macid = le32 0x20 0 macid 0"
    by (simp add: ps_active_msg_def le32_def)
  have b: "ps_lps_ext macid = le32 macid 0x0c 0 0" "ps_active_ext = le32 0 0x0c 0 0"
    by (simp_all add: ps_lps_ext_def ps_active_ext_def le32_def)
  show ?thesis unfolding ps_lps_msg_le32 a b le32enc_le32 by simp
qed

theorem ps_state_machine_witness:
  "lps_mode (dev_lps (snd (rtw88_ps_notify (rtw88_usb_hci_ops idle_ops) True
     (rtw88_ps_attach 0 (rtw88_dev_zero (on_bus_hw ())))))) = RTW88_LPS_MODE_LEGACY"
proof -
  let ?d = "snd (rtw88_ps_notify (rtw88_usb_hci_ops idle_ops) True (rtw88_ps_attach 0 (rtw88_dev_zero (on_bus_hw ()))))"
  have "(ps_step (rtw88_usb_hci_ops idle_ops))\<^sup>*\<^sup>* (rtw88_ps_attach 0 (rtw88_dev_zero (on_bus_hw ())))
     (snd (rtw88_ps_notify (rtw88_usb_hci_ops idle_ops) True (rtw88_ps_attach 0 (rtw88_dev_zero (on_bus_hw ())))))"
    by (rule r_into_rtranclp) (rule ps_step.notify)
  from ps_state_machine [OF this]
  have "lps_mode (dev_lps ?d) = (if lps_in_lps (dev_lps ?d) then RTW88_LPS_MODE_LEGACY else RTW88_LPS_MODE_ACTIVE)"
    by blast
  moreover have "lps_in_lps (dev_lps ?d)" by code_simp
  ultimately show ?thesis by simp
qed

end
