(* ===== verification/Rtw_Attach.thy ===== *)
theory Rtw_Attach
  imports Rtw_Control Rtw_Regd Rtw_Ps Rtw_Led Rtw_Efuse
begin

section \<open>Attach and detach of the USB front-end\<close>

text \<open>
  The life of a device in \<^verbatim>\<open>if_rtw88_usb.c\<close>: the match, the endpoints and the transfers, what net80211 is told, and attach and
  detach, which compose every other component. The state adds to the device handle what attach takes from the kernel: the resources it
  holds, the callouts that are armed and the tasks that are queued. What the kernel answers is the parameter \<open>usb_env\<close>. A
  resource that is given back without being held is a panic. The log lines, the method tables and the sysctl tree beside its
  statistics are left out.
\<close>

subsection \<open>The match\<close>

abbreviation (input) RTW88_VENDOR_REALTEK :: u16 where "RTW88_VENDOR_REALTEK \<equiv> 0x0bda"
abbreviation (input) RTW88_VENDOR_DLINK :: u16 where "RTW88_VENDOR_DLINK \<equiv> 0x2001"
abbreviation (input) RTW88_VENDOR_EDIMAX :: u16 where "RTW88_VENDOR_EDIMAX \<equiv> 0x7392"
abbreviation (input) RTW88_VENDOR_MERCUSYS :: u16 where "RTW88_VENDOR_MERCUSYS \<equiv> 0x2c4e"
abbreviation (input) RTW88_CHIP_8821C :: nat where "RTW88_CHIP_8821C \<equiv> 0"
abbreviation (input) RTW88_N_CHIP_SPECS :: nat where "RTW88_N_CHIP_SPECS \<equiv> 1"

definition rtw88_usb_devs :: "(u16 \<times> u16 \<times> nat) list" where
  "rtw88_usb_devs = [
     (RTW88_VENDOR_REALTEK, 0x2006, RTW88_CHIP_8821C), (RTW88_VENDOR_REALTEK, 0x8731, RTW88_CHIP_8821C),
     (RTW88_VENDOR_REALTEK, 0x8811, RTW88_CHIP_8821C), (RTW88_VENDOR_REALTEK, 0xb820, RTW88_CHIP_8821C),
     (RTW88_VENDOR_REALTEK, 0xb82b, RTW88_CHIP_8821C), (RTW88_VENDOR_REALTEK, 0xc80c, RTW88_CHIP_8821C),
     (RTW88_VENDOR_REALTEK, 0xc811, RTW88_CHIP_8821C), (RTW88_VENDOR_REALTEK, 0xc820, RTW88_CHIP_8821C),
     (RTW88_VENDOR_REALTEK, 0xc821, RTW88_CHIP_8821C), (RTW88_VENDOR_REALTEK, 0xc82a, RTW88_CHIP_8821C),
     (RTW88_VENDOR_REALTEK, 0xc82b, RTW88_CHIP_8821C), (RTW88_VENDOR_DLINK, 0x331d, RTW88_CHIP_8821C),
     (RTW88_VENDOR_EDIMAX, 0xc811, RTW88_CHIP_8821C), (RTW88_VENDOR_EDIMAX, 0xd811, RTW88_CHIP_8821C),
     (RTW88_VENDOR_MERCUSYS, 0x0105, RTW88_CHIP_8821C)]"

text \<open>The answer is the driver info of the matching entry, or that there is none.\<close>

definition rtw88_usb_match :: "bool \<Rightarrow> nat \<Rightarrow> nat \<Rightarrow> u16 \<Rightarrow> u16 \<Rightarrow> errno + nat" where
  "rtw88_usb_match host_mode config_index iface_index vendor product =
     (if \<not> host_mode then Inl ENXIO
      else if config_index \<noteq> 0 then Inl ENXIO
      else if iface_index \<noteq> 0 then Inl ENXIO
      else case find (\<lambda>(v, p, i). v = vendor \<and> p = product) rtw88_usb_devs of
        None \<Rightarrow> Inl ENXIO | Some (v, p, i) \<Rightarrow> Inr i)"

record rtw88_chip_spec =
  spec_chip_id :: u16
  spec_caps :: u16
  spec_n_tx_chains :: u8
  spec_n_rx_chains :: u8
  spec_name :: string
  spec_fw_name :: string

definition rtw88_chip_specs :: "rtw88_chip_spec list" where
  "rtw88_chip_specs = [\<lparr>spec_chip_id = 0x8821, spec_caps = rtw88_8821c_caps, spec_n_tx_chains = 1, spec_n_rx_chains = 1,
     spec_name = ''RTL8821CU/8811CU 11ac'', spec_fw_name = ''rtw88-rtl8821cufw''\<rparr>]"

subsection \<open>Endpoints and transfers\<close>

record usb_ep =
  bmAttributes :: u8
  bEndpointAddress :: u8

abbreviation (input) UE_XFERTYPE :: u8 where "UE_XFERTYPE \<equiv> 0x03"
abbreviation (input) UE_BULK :: u8 where "UE_BULK \<equiv> 0x02"
abbreviation (input) UE_DIR_IN :: u8 where "UE_DIR_IN \<equiv> 0x80"
abbreviation (input) UE_ADDR :: u8 where "UE_ADDR \<equiv> 0x0f"

text \<open>The bulk-IN address, 0 if there is none, and the bulk-OUT addresses in the order of the descriptors, four at most.\<close>

fun discover_eps :: "usb_ep list \<Rightarrow> u8 \<times> u8 list \<Rightarrow> u8 \<times> u8 list" where
  "discover_eps [] found = found"
| "discover_eps (ed # eds) (inp, outs) = discover_eps eds
     (if bmAttributes ed AND UE_XFERTYPE \<noteq> UE_BULK then (inp, outs)
      else if bEndpointAddress ed AND UE_DIR_IN = UE_DIR_IN
        then (if inp = 0 then bEndpointAddress ed AND UE_ADDR else inp, outs)
      else (inp, if length outs < 4 then outs @ [bEndpointAddress ed] else outs))"

text \<open>The walker that counts the descriptors of a type; a callback may end the walk with a negative answer.\<close>

fun rtw88_walk_descriptors :: "('d \<Rightarrow> 's \<Rightarrow> int \<times> 's) option \<Rightarrow> 'd list \<Rightarrow> 's \<Rightarrow> nat \<times> 's" where
  "rtw88_walk_descriptors cb [] s = (0, s)"
| "rtw88_walk_descriptors None (d # ds) s = apfst Suc (rtw88_walk_descriptors None ds s)"
| "rtw88_walk_descriptors (Some f) (d # ds) s = (case f d s of (r, s') \<Rightarrow>
     if r < 0 then (1, s') else apfst Suc (rtw88_walk_descriptors (Some f) ds s'))"

datatype bulk_cb = CbRx | CbTxMgmt | CbTxVo | CbTxBe

record usb_config =
  cfg_endpoint :: "u8 option"   \<comment> \<open>\<open>None\<close> is \<^verbatim>\<open>UE_ADDR_ANY\<close>\<close>
  cfg_in :: bool
  cfg_bufsize :: nat
  cfg_callback :: bulk_cb
  cfg_timeout :: nat

definition rtw88_config :: "usb_config list" where
  "rtw88_config = [
     \<lparr>cfg_endpoint = None, cfg_in = True, cfg_bufsize = RTW88_RX_BUFSZ, cfg_callback = CbRx, cfg_timeout = 0\<rparr>,
     \<lparr>cfg_endpoint = Some 0x05, cfg_in = False, cfg_bufsize = RTW88_TX_BUFSZ, cfg_callback = CbTxMgmt, cfg_timeout = 5000\<rparr>,
     \<lparr>cfg_endpoint = Some 0x06, cfg_in = False, cfg_bufsize = RTW88_TX_BUFSZ, cfg_callback = CbTxVo, cfg_timeout = 5000\<rparr>,
     \<lparr>cfg_endpoint = Some 0x08, cfg_in = False, cfg_bufsize = RTW88_TX_BUFSZ, cfg_callback = CbTxBe, cfg_timeout = 5000\<rparr>,
     \<lparr>cfg_endpoint = Some 0x05, cfg_in = False, cfg_bufsize = RTW88_TX_BUFSZ, cfg_callback = CbTxMgmt, cfg_timeout = 5000\<rparr>]"

definition set_ep :: "nat \<Rightarrow> u8 list \<Rightarrow> nat \<Rightarrow> usb_config list \<Rightarrow> usb_config list" where
  "set_ep i outs j cfg = (if length outs \<ge> j + 1 then cfg[i := (cfg ! i)\<lparr>cfg_endpoint := Some (outs ! j)\<rparr>] else cfg)"

definition xfer_config :: "u8 list \<Rightarrow> usb_config list" where
  "xfer_config outs = set_ep RTW88_BULK_TX_H2C outs 0 (set_ep RTW88_BULK_TX_LO outs 2 (set_ep RTW88_BULK_TX_NORMAL outs 1
     (set_ep RTW88_BULK_TX_HI outs 0 rtw88_config)))"


subsection \<open>What net80211 is told\<close>

datatype ic_cap = IEEE80211_C_STA | IEEE80211_C_MONITOR | IEEE80211_C_SHPREAMBLE | IEEE80211_C_SHSLOT | IEEE80211_C_WPA | IEEE80211_C_WME

datatype ic_htcap = IEEE80211_HTC_HT | IEEE80211_HTCAP_SHORTGI20 | IEEE80211_HTCAP_SMPS_OFF | IEEE80211_HTCAP_MAXAMSDU_3839
  | MpduDensity nat | IEEE80211_HTCAP_CHWIDTH40 | IEEE80211_HTCAP_SHORTGI40 | IEEE80211_HTC_AMPDU

datatype ic_vhtcap = IEEE80211_VHTCAP_MAX_MPDU_LENGTH_11454 | IEEE80211_VHTCAP_SHORT_GI_80 | IEEE80211_VHTCAP_RXLDPC
  | IEEE80211_VHTCAP_TXSTBC | MaxAmpduLength nat

datatype ic_cipher = IEEE80211_CRYPTO_WEP | IEEE80211_CRYPTO_TKIP | IEEE80211_CRYPTO_AES_CCM

record ieee80211com =
  ic_macaddr :: "u8 list"
  ic_caps :: "ic_cap list"
  ic_htcaps :: "ic_htcap list"
  ic_vht_cap_info :: "ic_vhtcap list"
  ic_vht_mcs_map :: "u16 option"   \<comment> \<open>the map of both directions; \<open>None\<close> if there is no VHT\<close>
  ic_txstream :: u8
  ic_rxstream :: u8
  ic_cryptocaps :: "ic_cipher list"
  ic_sw_ciphers :: "ic_cipher list"
  ic_channels :: "add_channels list"

definition fake_mac :: "u8 list" where
  "fake_mac = [0x02, 0x00, 0xde, 0xad, 0xbe, 0xef]"

definition net80211_htcaps :: "u16 \<Rightarrow> bool \<Rightarrow> ic_htcap list" where
  "net80211_htcaps caps ampdu =
     (if caps AND RTW88_CAP_HT20 \<noteq> 0
      then [IEEE80211_HTC_HT, IEEE80211_HTCAP_SHORTGI20, IEEE80211_HTCAP_SMPS_OFF, IEEE80211_HTCAP_MAXAMSDU_3839, MpduDensity 4] @
        (if caps AND RTW88_CAP_HT40 \<noteq> 0 then [IEEE80211_HTCAP_CHWIDTH40, IEEE80211_HTCAP_SHORTGI40] else []) @
        (if ampdu then [IEEE80211_HTC_AMPDU] else [])
      else [])"

definition net80211_vht :: "u16 \<Rightarrow> bool" where
  "net80211_vht caps \<longleftrightarrow> caps AND RTW88_CAP_VHT80 \<noteq> 0 \<and> caps AND RTW88_CAP_5GHZ \<noteq> 0"

definition net80211_sw_ciphers :: "bool \<Rightarrow> ic_cipher list" where
  "net80211_sw_ciphers hw_ccmp = [IEEE80211_CRYPTO_WEP, IEEE80211_CRYPTO_TKIP] @ (if hw_ccmp then [] else [IEEE80211_CRYPTO_AES_CCM])"

definition net80211_config :: "rtw88_chip_spec \<Rightarrow> u8 list option \<Rightarrow> bool \<Rightarrow> bool \<Rightarrow> ieee80211com" where
  "net80211_config spec mac hw_ccmp ampdu = (let caps = spec_caps spec in
     \<lparr>ic_macaddr = (case mac of None \<Rightarrow> fake_mac | Some a \<Rightarrow> a),
      ic_caps = [IEEE80211_C_STA, IEEE80211_C_MONITOR, IEEE80211_C_SHPREAMBLE, IEEE80211_C_SHSLOT, IEEE80211_C_WPA, IEEE80211_C_WME],
      ic_htcaps = net80211_htcaps caps ampdu,
      ic_vht_cap_info = (if net80211_vht caps then [IEEE80211_VHTCAP_MAX_MPDU_LENGTH_11454, IEEE80211_VHTCAP_SHORT_GI_80,
        IEEE80211_VHTCAP_RXLDPC, IEEE80211_VHTCAP_TXSTBC, MaxAmpduLength 7] else []),
      ic_vht_mcs_map = (if net80211_vht caps then Some 0xfffe else None),
      ic_txstream = spec_n_tx_chains spec, ic_rxstream = spec_n_rx_chains spec,
      ic_cryptocaps = [IEEE80211_CRYPTO_WEP, IEEE80211_CRYPTO_TKIP] @ (if hw_ccmp then [IEEE80211_CRYPTO_AES_CCM] else []),
      ic_sw_ciphers = net80211_sw_ciphers hw_ccmp,
      ic_channels = rtw88_getradiocaps caps\<rparr>)"

subsection \<open>The state of an attached device\<close>

text \<open>What attach takes from the kernel: the mutex, the two task queues, the condition variable, the buffers, the transfers, the registration with net80211 and the device node.\<close>

datatype kres = KMtx | KTq | KCamTq | KCv | KTxBuf | KRxStage | KXfers | KIc | KCdev

datatype callout = DigCo | FwkaCo

datatype tq_task = DigTask | FwkaTask | PrepareTask | PostTask

text \<open>\<open>at_tq\<close> is the queue of the one thread of \<^verbatim>\<open>sc_tq\<close>, \<open>at_cam_queued\<close> that of \<^verbatim>\<open>sc_cam_tq\<close>; \<open>at_freed\<close> collects the packets given to \<^verbatim>\<open>m_freem\<close>.\<close>

record 'c usb_softc =
  at_dev :: "'c softc rtw88_dev"
  at_held :: "kres set"
  at_armed :: "callout set"
  at_tq :: "tq_task list"
  at_cam_queued :: bool
  at_freed :: "mbuf list"
  sc_chip :: "rtw88_chip_spec option"
  sc_hw_ccmp :: bool
  sc_have_mac :: bool
  sc_fw_running :: bool
  sc_ic_attached :: bool
  sc_cdev :: bool
  sc_nendpoints :: u8
  sc_ep_bulk_in :: u8
  sc_ep_bulk_out :: "u8 list"
  sc_xfer :: "usb_config list"
  sc_ic :: "ieee80211com option"

text \<open>What the kernel has zeroed before attach.\<close>

definition usb_softc_zero :: "'c \<Rightarrow> bool \<Rightarrow> 'c usb_softc" where
  "usb_softc_zero c k = \<lparr>at_dev = rtw88_dev_zero (softc_zero c 0 k), at_held = {}, at_armed = {}, at_tq = [], at_cam_queued = False,
     at_freed = [], sc_chip = None, sc_hw_ccmp = False, sc_have_mac = False, sc_fw_running = False, sc_ic_attached = False,
     sc_cdev = False, sc_nendpoints = 0, sc_ep_bulk_in = 0, sc_ep_bulk_out = [], sc_xfer = [], sc_ic = None\<rparr>"

text \<open>
  What the kernel answers during attach: the entry of the match, the descriptors, the two firmware images, whether the transfers and the device
  nodes are made; and the tunables.
\<close>

record usb_env =
  ev_driver_info :: nat
  ev_nendpoints :: u8
  ev_eps :: "usb_ep list"
  ev_fw :: "u8 list option"
  ev_tbl :: "u8 list option"
  ev_xfers_ok :: bool
  ev_led_ok :: bool
  ev_cdev_ok :: bool
  rtw88_hw_ccmp :: int
  rtw88_ampdu :: int
  rtw88_cdev_enable :: int
  rtw88_tx_mgmt_qdepth :: int
  rtw88_tx_data_qdepth :: int

definition on_at :: "('c softc rtw88_dev, 'a) cm \<Rightarrow> ('c usb_softc, 'a) cm" where
  "on_at m = (\<lambda>s. let (r, d) = m (at_dev s) in (r, s\<lparr>at_dev := d\<rparr>))"

definition on_sc :: "('c softc, 'a) cm \<Rightarrow> ('c usb_softc, 'a) cm" where
  "on_sc m = on_at (on_priv m)"

definition upd_sc :: "('c softc \<Rightarrow> 'c softc) \<Rightarrow> ('c usb_softc, unit) cm" where
  "upd_sc f = on_sc (updS f)"

definition acquire :: "kres \<Rightarrow> ('c usb_softc, unit) cm" where
  "acquire k = updS (\<lambda>s. s\<lparr>at_held := insert k (at_held s)\<rparr>)"

text \<open>Giving back what is not held is a panic, unless the code tests first.\<close>

definition release :: "kres \<Rightarrow> ('c usb_softc, unit) cm" where
  "release k = (\<lambda>s. if k \<in> at_held s then (Inr (), s\<lparr>at_held := at_held s - {k}\<rparr>) else (Inl Panic, s))"

definition release_if :: "kres \<Rightarrow> ('c usb_softc, unit) cm" where
  "release_if k = updS (\<lambda>s. s\<lparr>at_held := at_held s - {k}\<rparr>)"

definition tq_enqueue :: "tq_task \<Rightarrow> tq_task list \<Rightarrow> tq_task list" where
  "tq_enqueue t q = (if t \<in> set q then q else q @ [t])"

subsection \<open>Attach\<close>

definition qdepth :: "int \<Rightarrow> nat \<Rightarrow> nat" where
  "qdepth tunable n = (if tunable > 0 then nat tunable else n)"

definition attach_tx :: "usb_env \<Rightarrow> tx_softc \<Rightarrow> tx_softc" where
  "attach_tx ev t = t\<lparr>sc_ampdu := (rtw88_ampdu ev \<noteq> 0), sc_rate_id := RTW88_RATEID_BGN_20M_1SS,
     sc_tx_mgmt_q := mbufq_init (qdepth (rtw88_tx_mgmt_qdepth ev) 64), sc_tx_data_q := mbufq_init (qdepth (rtw88_tx_data_qdepth ev) 256),
     sc_tx_data_vo_q := mbufq_init (qdepth (rtw88_tx_data_qdepth ev) 256), sc_tx_pending_q := mbufq_init 16\<rparr>"

definition attach_sc :: "usb_env \<Rightarrow> 'c softc \<Rightarrow> 'c softc" where
  "attach_sc ev s = s\<lparr>sc_tx_buf := replicate RTW88_TX_BUFSZ 0, sc_tx := attach_tx ev (sc_tx s)\<rparr>"

definition attach_setup :: "usb_env \<Rightarrow> 'c usb_softc \<Rightarrow> 'c usb_softc" where
  "attach_setup ev s = s\<lparr>
     sc_chip := Some (rtw88_chip_specs ! ev_driver_info ev), sc_hw_ccmp := (rtw88_hw_ccmp ev \<noteq> 0), sc_nendpoints := ev_nendpoints ev,
     at_held := {KMtx, KTq, KCamTq, KCv, KTxBuf, KRxStage},
     at_dev := (let d = rtw88_bf_attach (rtw88_ps_attach 0 (rtw88_regd_init (at_dev s))) in d\<lparr>priv := attach_sc ev (priv d)\<rparr>)\<rparr>"

definition rtw88_discover_endpoints :: "usb_env \<Rightarrow> ('c usb_softc, unit) cm" where
  "rtw88_discover_endpoints ev = (case discover_eps (ev_eps ev) (0, []) of (inp, outs) \<Rightarrow>
     seqE (updS (\<lambda>s. s\<lparr>sc_ep_bulk_in := inp, sc_ep_bulk_out := outs\<rparr>))
     (if length outs < 1 then fail (Errno ENXIO) else ret ()))"

definition rtw88_xfers_setup :: "usb_env \<Rightarrow> ('c usb_softc, unit) cm" where
  "rtw88_xfers_setup ev =
     (if \<not> ev_xfers_ok ev then fail (Errno ENXIO)
      else seqE (updS (\<lambda>s. s\<lparr>sc_xfer := xfer_config (sc_ep_bulk_out s)\<rparr>))
        (seqE (acquire KXfers) (on_sc (seqE RTW88_LOCK (seqE (usbd_transfer_start RTW88_BULK_RX) RTW88_UNLOCK)))))"

definition chip_ver :: "u32 \<Rightarrow> u8" where
  "chip_ver v = ucast (drop_bit SYS_CFG1_CHIP_VER_SHIFT v AND SYS_CFG1_CHIP_VER_MASK)"

text \<open>The first half, whose errors undo everything: the chip version, the firmware, the endpoints and the transfers.\<close>

definition attach_probe :: "'c chip_ops \<Rightarrow> usb_env \<Rightarrow> ('c usb_softc, unit) cm" where
  "attach_probe C ev =
     seqE (on_sc RTW88_LOCK)
     (tryE (attempt (on_sc (tryE (rtw88_usb_read4 C REG_SYS_CFG1) (\<lambda>v1. tryE (rtw88_usb_read4 C REG_SYS_CFG2) (\<lambda>_. ret v1))))) (\<lambda>r.
      seqE (on_sc RTW88_UNLOCK) (case r of
        Inl e \<Rightarrow> fail (Errno e)
      | Inr v1 \<Rightarrow>
        seqE (upd_sc (\<lambda>s. s\<lparr>sc_phy := (sc_phy s)\<lparr>sc_cut_version := chip_ver v1\<rparr>\<rparr>))
        (tryE (getS sc_chip) (\<lambda>spec.
         seqE (discard (on_sc (rtw88_fw_acquire (ev_fw ev) (case spec of None \<Rightarrow> 0 | Some c \<Rightarrow> spec_chip_id c))))
         (seqE (rtw88_discover_endpoints ev) (rtw88_xfers_setup ev)))))))"

definition drain_sc :: "tx_softc \<Rightarrow> tx_softc" where
  "drain_sc t = t\<lparr>sc_tx_mgmt_q := mbufq_drain (sc_tx_mgmt_q t), sc_tx_data_q := mbufq_drain (sc_tx_data_q t),
     sc_tx_data_vo_q := mbufq_drain (sc_tx_data_vo_q t), sc_tx_pending_q := mbufq_drain (sc_tx_pending_q t)\<rparr>"

definition drained :: "tx_softc \<Rightarrow> mbuf list" where
  "drained t = mq_list (sc_tx_mgmt_q t) @ mq_list (sc_tx_data_q t) @ mq_list (sc_tx_data_vo_q t) @ mq_list (sc_tx_pending_q t)"

definition drain_queues :: "('c usb_softc, unit) cm" where
  "drain_queues = tryE (getS (sc_tx \<circ> priv \<circ> at_dev)) (\<lambda>t.
     seqE (upd_sc (\<lambda>s. s\<lparr>sc_tx := drain_sc (sc_tx s)\<rparr>)) (updS (\<lambda>s. s\<lparr>at_freed := at_freed s @ drained t\<rparr>)))"

definition attach_cleanup :: "('c usb_softc, unit) cm" where
  "attach_cleanup = steps [release_if KXfers, upd_sc rtw88_fw_release, release_if KTxBuf, release_if KRxStage, drain_queues,
     release KCamTq, release KTq, release KCv, release KMtx]"

definition mirror_efuse :: "rtw88_efuse \<Rightarrow> 'c softc \<Rightarrow> 'c softc" where
  "mirror_efuse ef s = s\<lparr>sc_phy := (sc_phy s)\<lparr>sc_mac := ef_mac_addr ef, sc_crystal_cap := ef_xtal_cap ef,
     sc_rfe_option := ef_rfe_option ef, sc_pkg_type := ef_pkg_type ef\<rparr>\<rparr>"

definition attach_efuse :: "'c chip_ops \<Rightarrow> ('c usb_softc, unit) cm" where
  "attach_efuse C = tryE (attempt (on_at (rtw88_efuse_read (rtw88_usb_hci_ops C) (Some rtw88_8821c_chip_info)))) (\<lambda>r. case r of
     Inl _ \<Rightarrow> ret ()
   | Inr _ \<Rightarrow> tryE (getS (dev_efuse \<circ> at_dev)) (\<lambda>ef.
       seqE (upd_sc (mirror_efuse ef)) (updS (\<lambda>s. s\<lparr>sc_have_mac := True\<rparr>))))"

text \<open>The PHY set-up arms the callout of the gain loop when it starts the loop.\<close>

definition attach_phy :: "'c chip_ops \<Rightarrow> u8 list option \<Rightarrow> ('c usb_softc, unit) cm" where
  "attach_phy C tbl = tryE (getS (sc_dig_active \<circ> sc_dig \<circ> priv \<circ> at_dev)) (\<lambda>before.
     seqE (discard (on_sc (rtw88_phy_set_param C tbl)))
     (tryE (getS (sc_dig_active \<circ> sc_dig \<circ> priv \<circ> at_dev)) (\<lambda>after.
      whenE (\<not> before \<and> after) (updS (\<lambda>s. s\<lparr>at_armed := insert DigCo (at_armed s)\<rparr>)))))"

definition attach_cdev :: "usb_env \<Rightarrow> ('c usb_softc, unit) cm" where
  "attach_cdev ev = whenE (rtw88_cdev_enable ev \<noteq> 0 \<and> ev_cdev_ok ev) (seqE (acquire KCdev) (updS (\<lambda>s. s\<lparr>sc_cdev := True\<rparr>)))"

definition rtw88_net80211_attach :: "usb_env \<Rightarrow> ('c usb_softc, unit) cm" where
  "rtw88_net80211_attach ev =
     seqE (updS (\<lambda>s. s\<lparr>sc_ic := map_option (\<lambda>spec. net80211_config spec (if sc_have_mac s then Some (sc_mac (sc_phy (priv (at_dev s)))) else None)
        (sc_hw_ccmp s) (sc_ampdu (sc_tx (priv (at_dev s))))) (sc_chip s)\<rparr>))
     (seqE (acquire KIc) (attach_cdev ev))"

text \<open>The second half: a failure to load the firmware leaves the device attached, without an interface; later failures are only reported.\<close>

definition attach_up :: "'c chip_ops \<Rightarrow> usb_env \<Rightarrow> ('c usb_softc, unit) cm" where
  "attach_up C ev = tryE (attempt (on_at (rtw88_download_firmware C (Some rtw88_8821c_chip_info)))) (\<lambda>r. case r of
     Inl _ \<Rightarrow> ret ()
   | Inr _ \<Rightarrow> steps [
       updS (\<lambda>s. s\<lparr>sc_fw_running := True\<rparr>),
       attach_efuse C,
       tryE (getS sc_hw_ccmp) (\<lambda>hw. discard (on_at (rtw88_mac_init C hw))),
       attach_phy C (ev_tbl ev),
       rtw88_net80211_attach ev,
       updS (\<lambda>s. s\<lparr>sc_ic_attached := True\<rparr>),
       discard (on_at (rtw88_led_attach (rtw88_usb_hci_ops C) (Some rtw88_8821c_chip_info) (ev_led_ok ev)))])"

definition rtw88_usb_attach :: "'c chip_ops \<Rightarrow> usb_env \<Rightarrow> ('c usb_softc, unit) cm" where
  "rtw88_usb_attach C ev =
     (if ev_driver_info ev \<ge> RTW88_N_CHIP_SPECS then fail (Errno ENXIO)
      else seqE (updS (attach_setup ev))
        (tryE (attempt (attach_probe C ev)) (\<lambda>r. case r of
           Inl e \<Rightarrow> seqE attach_cleanup (fail (Errno e))
         | Inr _ \<Rightarrow> attach_up C ev)))"

subsection \<open>The tasks and the callouts\<close>

text \<open>
  What the rest of the kernel does while a device goes away: \<open>gv_fires n\<close>, whether the callout that the \<open>n\<close>th drain waits for fires
  first; \<open>gv_ifdetach\<close>, what the callbacks of net80211 make of the state while it takes the interfaces down; what the tasks read of the clock and of net80211.
\<close>

record 'c usb_gone =
  gv_fires :: "nat \<Rightarrow> bool"
  gv_ifdetach :: "'c usb_softc \<Rightarrow> 'c usb_softc"
  gv_now :: u32
  gv_hz :: int
  gv_wme :: "nat \<Rightarrow> wmeParams"

definition callout_drain :: "'c usb_gone \<Rightarrow> nat \<Rightarrow> callout \<Rightarrow> tq_task \<Rightarrow> ('c usb_softc, unit) cm" where
  "callout_drain g n co t = updS (\<lambda>s. if co \<in> at_armed s
     then s\<lparr>at_armed := at_armed s - {co}, at_tq := (if gv_fires g n then tq_enqueue t (at_tq s) else at_tq s)\<rparr> else s)"

definition rearm :: "callout \<Rightarrow> bool \<Rightarrow> ('c usb_softc, unit) cm" where
  "rearm co b = whenE b (updS (\<lambda>s. s\<lparr>at_armed := insert co (at_armed s)\<rparr>))"

definition m_freem :: "mbuf list \<Rightarrow> ('c usb_softc, unit) cm" where
  "m_freem fs = updS (\<lambda>s. s\<lparr>at_freed := at_freed s @ fs\<rparr>)"

text \<open>The link task arms the keep-alive callout, or stops it when it takes the link down.\<close>

definition post_armed :: "u8 \<Rightarrow> bool \<Rightarrow> callout set \<Rightarrow> callout set" where
  "post_armed ops arms cs = (if arms then insert FwkaCo cs else if ops AND RTW88_POST_LINK_DOWN \<noteq> 0 then cs - {FwkaCo} else cs)"

definition run_post :: "'c chip_ops \<Rightarrow> 'c usb_gone \<Rightarrow> ('c usb_softc, unit) cm" where
  "run_post C g = tryE (getS (sc_post_state_ops \<circ> sc_link \<circ> priv \<circ> at_dev)) (\<lambda>ops.
     tryE (on_at (rtw88_post_state_task C (Some rtw88_8821c_chip_info) (gv_wme g))) (\<lambda>(arms, fs).
     seqE (updS (\<lambda>s. s\<lparr>at_armed := post_armed ops arms (at_armed s)\<rparr>)) (m_freem fs)))"

definition run_task :: "'c chip_ops \<Rightarrow> 'c usb_gone \<Rightarrow> tq_task \<Rightarrow> ('c usb_softc, unit) cm" where
  "run_task C g t = seqE (updS (\<lambda>s. s\<lparr>at_tq := remove1 t (at_tq s)\<rparr>)) (case t of
     DigTask \<Rightarrow> tryE (on_sc (rtw88_dig_task C)) (rearm DigCo)
   | FwkaTask \<Rightarrow> tryE (on_sc (rtw88_fwka_task C (gv_now g) (gv_hz g))) (rearm FwkaCo)
   | PrepareTask \<Rightarrow> on_at (rtw88_prepare_tx_task C)
   | PostTask \<Rightarrow> run_post C g)"

text \<open>The one thread of the queue runs the tasks in order: to wait for one is to run those before it. None of them queues another.\<close>

definition taskqueue_drain :: "'c chip_ops \<Rightarrow> 'c usb_gone \<Rightarrow> tq_task \<Rightarrow> ('c usb_softc, unit) cm" where
  "taskqueue_drain C g t = tryE (getS at_tq) (\<lambda>q.
     if t \<in> set q then forE (run_task C g) (takeWhile (\<lambda>u. u \<noteq> t) q @ [t]) else ret ())"

definition taskqueue_free :: "'c chip_ops \<Rightarrow> 'c usb_gone \<Rightarrow> ('c usb_softc, unit) cm" where
  "taskqueue_free C g = seqE (tryE (getS at_tq) (forE (run_task C g))) (release KTq)"

definition cam_drain :: "'c chip_ops \<Rightarrow> 'z tx_ops_scheme \<Rightarrow> ('c usb_softc, unit) cm" where
  "cam_drain C N = tryE (getS at_cam_queued) (\<lambda>q. whenE q
     (seqE (updS (\<lambda>s. s\<lparr>at_cam_queued := False\<rparr>)) (tryE (on_sc (rtw88_cam_task C N)) m_freem)))"

subsection \<open>Detach\<close>

definition upd_tx_sc :: "(tx_softc \<Rightarrow> tx_softc) \<Rightarrow> ('c usb_softc, unit) cm" where
  "upd_tx_sc f = upd_sc (\<lambda>s. s\<lparr>sc_tx := f (sc_tx s)\<rparr>)"

definition inflight :: "tx_softc \<Rightarrow> mbuf list" where
  "inflight t = (case sc_tx_data_inflight t of None \<Rightarrow> [] | Some m \<Rightarrow> [m]) @
     (case sc_tx_data_vo_inflight t of None \<Rightarrow> [] | Some m \<Rightarrow> [m]) @ (case sc_tx_mgmt_inflight t of None \<Rightarrow> [] | Some m \<Rightarrow> [m])"

definition free_inflight :: "('c usb_softc, unit) cm" where
  "free_inflight = tryE (getS (inflight \<circ> sc_tx \<circ> priv \<circ> at_dev)) (\<lambda>fs.
     seqE (upd_tx_sc (\<lambda>t. t\<lparr>sc_tx_data_inflight := None, sc_tx_data_vo_inflight := None, sc_tx_mgmt_inflight := None\<rparr>)) (m_freem fs))"

text \<open>What can still touch the device goes first: the device node, the LED, power saving, the interfaces, then the callouts and the tasks.\<close>

definition detach_users :: "'c chip_ops \<Rightarrow> 'c usb_gone \<Rightarrow> ('c usb_softc, unit) cm" where
  "detach_users C g = steps [
     tryE (getS sc_cdev) (\<lambda>c. whenE c (seqE (release KCdev) (updS (\<lambda>s. s\<lparr>sc_cdev := False\<rparr>)))),
     on_at (updS rtw88_led_detach),
     on_at (rtw88_ps_detach (rtw88_usb_hci_ops C)),
     tryE (getS sc_ic_attached) (\<lambda>a. whenE a (seqE (updS (gv_ifdetach g)) (release KIc)))]"

definition detach_tasks :: "'c chip_ops \<Rightarrow> 'z tx_ops_scheme \<Rightarrow> 'c usb_gone \<Rightarrow> ('c usb_softc, unit) cm" where
  "detach_tasks C N g = steps [
     on_sc (seqE RTW88_LOCK (seqE (upd_dig (\<lambda>d. d\<lparr>sc_dig_active := False\<rparr>)) RTW88_UNLOCK)),
     callout_drain g 0 DigCo DigTask, taskqueue_drain C g DigTask, callout_drain g 1 DigCo DigTask,
     on_sc (upd_link (\<lambda>l. l\<lparr>sc_fwka_active := False\<rparr>)),
     callout_drain g 2 FwkaCo FwkaTask, taskqueue_drain C g FwkaTask, callout_drain g 3 FwkaCo FwkaTask,
     taskqueue_drain C g PrepareTask, taskqueue_drain C g PostTask, cam_drain C N,
     upd_tx_sc (\<lambda>t. t\<lparr>sc_m4_needs_encap := None\<rparr>)]"

text \<open>The transfers that are cancelled call back with \<^verbatim>\<open>USB_ERR_CANCELLED\<close>, on which the callbacks do nothing.\<close>

definition detach_release :: "'c chip_ops \<Rightarrow> 'z tx_ops_scheme \<Rightarrow> 'c usb_gone \<Rightarrow> ('c usb_softc, unit) cm" where
  "detach_release C N g = steps [
     cam_drain C N, release KCamTq, taskqueue_free C g,
     release_if KXfers, upd_sc rtw88_phy_release_tbl, upd_sc rtw88_fw_release, release_if KTxBuf, release_if KRxStage,
     drain_queues, free_inflight, release KCv, release KMtx]"

definition rtw88_usb_detach :: "'c chip_ops \<Rightarrow> 'z tx_ops_scheme \<Rightarrow> 'c usb_gone \<Rightarrow> ('c usb_softc, unit) cm" where
  "rtw88_usb_detach C N g = seqE (detach_users C g) (seqE (detach_tasks C N g) (detach_release C N g))"

text \<open>Suspend and resume hand over to net80211 when there is an interface.\<close>

definition rtw88_usb_suspend :: "('c usb_softc \<Rightarrow> 'c usb_softc) \<Rightarrow> ('c usb_softc, unit) cm" where
  "rtw88_usb_suspend ieee80211_suspend_all = tryE (getS sc_ic_attached) (\<lambda>a. whenE a (updS ieee80211_suspend_all))"

definition rtw88_usb_resume :: "('c usb_softc \<Rightarrow> 'c usb_softc) \<Rightarrow> ('c usb_softc, unit) cm" where
  "rtw88_usb_resume ieee80211_resume_all = tryE (getS sc_ic_attached) (\<lambda>a. whenE a (updS ieee80211_resume_all))"

end
