(* ===== verification/Rtw_Life.thy ===== *)
theory Rtw_Life
  imports Rtw_Attach
begin

section \<open>From attach to detach\<close>

text \<open>
  What attach of the USB front-end guarantees: it either gives everything back or ends in a device whose resources, callouts and interface
  are settled. Detach, from any such device in use, is in the next theory.
\<close>

subsection \<open>What the loader leaves alone\<close>

lemma ends_on_at [ends_simps]:
  "ends (on_at m) Q E s \<longleftrightarrow> ends m (\<lambda>v d. Q v (s\<lparr>at_dev := d\<rparr>)) (\<lambda>e d. E e (s\<lparr>at_dev := d\<rparr>)) (at_dev s)"
  by (auto simp: ends_def on_at_def split: prod.splits sum.splits)

lemma keeps_attempt_any: "keeps I any_fault m \<Longrightarrow> keeps I any_fault (attempt m)"
  by (auto simp: keeps_def attempt_def any_fault_def split: prod.splits sum.splits fault.splits)

lemma keeps_discard_any: "keeps I any_fault m \<Longrightarrow> keeps I any_fault (discard m)"
  unfolding discard_def by (intro keeps_tryE keeps_attempt_any keeps_ret)

text \<open>The power-save state and the parameters of the card are beside the bus: what only goes through the bus, and the coexistence code, leaves them.\<close>

definition beside :: "rtw88_lps_state \<Rightarrow> rtw88_efuse \<Rightarrow> 'w rtw88_dev \<Rightarrow> bool" where
  "beside l e d \<longleftrightarrow> dev_lps d = l \<and> dev_efuse d = e"

named_theorems beside_intros "what leaves the power-save state and the card alone"

lemma beside_priv [beside_intros]: "keeps (beside l e) any_fault (on_priv m)"
  by (auto simp: keeps_def beside_def on_priv_def any_fault_def split: prod.splits)

lemma beside_fail [beside_intros]: "keeps I any_fault (fail f)"
  by (simp add: keeps_def any_fault_def fail_def)

lemmas [beside_intros] = keeps_attempt_any keeps_discard_any keeps_seqE keeps_tryE keeps_ret keeps_getS keeps_whenE keeps_if keeps_steps
  keeps_ball_Cons keeps_ball_Nil keeps_case_sum keeps_case_option

lemma beside_bus [beside_intros]:
  "keeps (beside l e) any_fault (rtw_read8 ops a)" "keeps (beside l e) any_fault (rtw_read16 ops a)"
  "keeps (beside l e) any_fault (rtw_read32 ops a)" "keeps (beside l e) any_fault (rtw_write8 ops a b)"
  "keeps (beside l e) any_fault (rtw_write16 ops a h)" "keeps (beside l e) any_fault (rtw_write32 ops a v)"
  "keeps (beside l e) any_fault (rtw_h2c ops c v v')" "keeps (beside l e) any_fault (RTW88_DEV_LOCK ops)"
  "keeps (beside l e) any_fault (RTW88_DEV_UNLOCK ops)" "keeps (beside l e) any_fault (RTW88_DEV_ASSERT_LOCKED ops)"
  unfolding rtw_read8_def rtw_read16_def rtw_read32_def rtw_write8_def rtw_write16_def rtw_write32_def rtw_h2c_def
    RTW88_DEV_LOCK_def RTW88_DEV_UNLOCK_def RTW88_DEV_ASSERT_LOCKED_def
  by (rule beside_priv)+

lemma beside_coex_h2c [beside_intros]:
  "keeps (beside l e) any_fault (rtw88_coex_h2c_bt_wifi_control ops b1 b2)" "keeps (beside l e) any_fault (rtw88_coex_h2c_tdma_type ops b1)"
  unfolding rtw88_coex_h2c_bt_wifi_control_def rtw88_coex_h2c_tdma_type_def
  by (intro beside_intros keeps_updS; simp add: beside_def rtw88_debug_inc_def)+

lemma beside_modify [beside_intros]:
  "keeps (beside l e) any_fault (modify8 ops a f)" "keeps (beside l e) any_fault (modify16 ops a g)"
  "keeps (beside l e) any_fault (modify32 ops a h)"
  unfolding modify8_def modify16_def modify32_def by (intro beside_intros)+

lemma beside_ltecoex [beside_intros]: "keeps (beside l e) any_fault (rtw88_ltecoex_write_indirect ops off k v)"
  unfolding rtw88_ltecoex_write_indirect_def rtw88_ltecoex_read_indirect_def rtw88_ltecoex_write_indirect_raw_def rtw88_ltecoex_ready_def
  by (intro beside_intros keeps_pollE)

lemma beside_coex_init [beside_intros]: "keeps (beside l e) any_fault (rtw88_coex_init ops ci)"
  unfolding rtw88_coex_init_def rtw88_coex_cfg_init_default_def rtw88_coex_set_gnt_wonly_def rtw88_coex_set_ant_2g_bbsw_def deref_chip_def
  by (intro beside_intros keeps_updS) (simp add: beside_def)

lemma beside_download: "keeps (beside l e) any_fault (rtw88_download_firmware C ci)"
  unfolding rtw88_download_firmware_def rtw88_mac_power_on_def by (intro beside_intros)

lemma beside_mac_init: "keeps (beside l e) any_fault (rtw88_mac_init C hw)"
  unfolding rtw88_mac_init_def by (intro beside_intros)

subsection \<open>The second half of attach\<close>

text \<open>A device between two operations: the mutex free, no request in flight, not in a power-save mode.\<close>

definition at_rest :: "'c softc rtw88_dev \<Rightarrow> bool" where
  "at_rest d \<longleftrightarrow> mtx_depth (priv d) = 0 \<and> \<not> sc_io_busy (priv d) \<and> \<not> lps_in_lps (dev_lps d)"

definition fw_malformed :: "u8 list \<Rightarrow> bool" where
  "fw_malformed img \<longleftrightarrow> fw_size_ok img \<and> length img \<noteq> 64 + fw_body_len img"

lemma no_hang_panic: "f \<noteq> Hang \<Longrightarrow> is_errno f \<or> f = Panic"
  by (cases f) (simp_all add: is_errno_def)

lemma download_ends:
  assumes "fw_ready 0 k img (priv d)" "64 \<le> length img" "length img < 2 ^ 32" "\<not> lps_in_lps (dev_lps d)"
  shows "ends (rtw88_download_firmware C (Some rtw88_8821c_chip_info)) (\<lambda>_ d'. \<not> k \<and> at_rest d' \<and> dev_efuse d' = dev_efuse d)
    (\<lambda>f d'. is_errno f \<and> at_rest d' \<and> same_soft (priv d') (priv d) \<or> f = Panic \<and> (k \<or> fw_malformed img)) d"
proof -
  obtain r d' where run: "rtw88_download_firmware C (Some rtw88_8821c_chip_info) d = (r, d')" by fastforce
  have chip: "coex_cfg_init rtw88_8821c_chip_info = None" by (simp add: rtw88_8821c_chip_info_def)
  note d = download_run [OF assms(1) chip assms(2,3) run]
  have "beside (dev_lps d) (dev_efuse d) d" by (simp add: beside_def)
  from keepsD [OF beside_download this run] have b: "dev_lps d' = dev_lps d" "dev_efuse d' = dev_efuse d" by (simp_all add: beside_def)
  show ?thesis
    unfolding ends_run [of "rtw88_download_firmware C (Some rtw88_8821c_chip_info)", OF run]
    using d b assms(4) by (cases r) (auto simp: at_rest_def fw_malformed_def dest: no_hang_panic)
qed

lemma efuse_ends:
  assumes "at_rest d" "length (ef_raw (dev_efuse d)) = 512"
  shows "ends (rtw88_efuse_read (rtw88_usb_hci_ops C) (Some rtw88_8821c_chip_info)) (\<lambda>_. at_rest) (\<lambda>f d'. is_errno f \<and> at_rest d') d"
proof -
  let ?R = "\<lambda>d'. dev_lps d' = dev_lps d"
  have R: "priv_free ?R" "\<And>d' ef. ?R d' \<Longrightarrow> ?R (efuse_store ef d')" by (auto simp: priv_free_def efuse_store_def)
  let ?F = "usb_free (invariants (priv d)) (hw.more (priv d)) (ep0_log (priv d))"
  have d: "on_dev ?F ?R d" using assms(1) by (simp add: on_dev_def usb_free_def at_rest_def)
  have rest: "on_dev ?F ?R d' \<Longrightarrow> at_rest d'" for d' using assms(1) by (simp add: on_dev_def usb_free_def at_rest_def)
  show ?thesis
  proof (rule usb_bus.efuse_read_ends [OF R d, of C])
    fix e d' assume "rtw88_efuse_read (rtw88_usb_hci_ops C) (Some rtw88_8821c_chip_info) d = (Inl (Errno e), d')" "on_dev ?F ?R d'"
    with rest show ?thesis by (simp add: ends_def is_errno_def)
  next
    fix ef d' assume "rtw88_efuse_read (rtw88_usb_hci_ops C) (Some rtw88_8821c_chip_info) d = (Inr (), d')" "on_dev ?F ?R d'"
    with rest show ?thesis by (simp add: ends_def)
  qed
qed

lemma mac_ends:
  assumes "at_rest d"
  shows "ends (rtw88_mac_init C hw) (\<lambda>_. at_rest) (\<lambda>f d'. is_errno f \<and> at_rest d') d"
proof -
  obtain r d' where run: "rtw88_mac_init C hw d = (r, d')" by fastforce
  have m: "mtx_depth (priv d) = 0" "\<not> sc_io_busy (priv d)" using assms by (simp_all add: at_rest_def)
  have "beside (dev_lps d) (dev_efuse d) d" by (simp add: beside_def)
  from keepsD [OF beside_mac_init this run] have "dev_lps d' = dev_lps d" by (simp add: beside_def)
  with mac_init_run [OF m run, THEN conjunct2] assms show ?thesis
    unfolding ends_run [of "rtw88_mac_init C hw", OF run] by (cases r) (auto simp: at_rest_def)
qed

lemma phy_ends:
  assumes "at_rest d"
  shows "ends (on_priv (rtw88_phy_set_param C tbl)) (\<lambda>_. at_rest) (\<lambda>f d'. is_errno f \<and> at_rest d') d"
proof -
  obtain r s' where run: "rtw88_phy_set_param C tbl (priv d) = (r, s')" by fastforce
  have m: "mtx_depth (priv d) = 0" "\<not> sc_io_busy (priv d)" using assms by (simp_all add: at_rest_def)
  from set_param_run [OF m run] assms show ?thesis
    unfolding ends_on_priv ends_run [of "rtw88_phy_set_param C tbl", OF run] by (cases r) (auto simp: at_rest_def)
qed

lemma rest_led [simp]: "at_rest (d\<lparr>dev_led := l\<rparr>) = at_rest d"
  by (simp add: at_rest_def)

text \<open>The thread inside the mutex, between two accesses.\<close>

definition inside_rest :: "'c softc rtw88_dev \<Rightarrow> bool" where
  "inside_rest d \<longleftrightarrow> mtx_depth (priv d) = 1 \<and> \<not> sc_io_busy (priv d) \<and> \<not> lps_in_lps (dev_lps d)"

lemma inside_line: "inside_rest d \<longleftrightarrow> on_line 0 (invariants (priv d)) (priv d) \<and> \<not> lps_in_lps (dev_lps d)"
  by (simp add: inside_rest_def on_line_def)

lemma inside_lock: "at_rest d \<Longrightarrow> inside_rest (d\<lparr>priv := (priv d)\<lparr>mtx_depth := 1\<rparr>\<rparr>)"
  by (simp add: at_rest_def inside_rest_def)

lemma lock_ends: "at_rest d \<Longrightarrow> ends m Q E (d\<lparr>priv := (priv d)\<lparr>mtx_depth := 1\<rparr>\<rparr>) \<Longrightarrow> ends (seqE (on_priv RTW88_LOCK) m) Q E d"
  unfolding ends_seqE by (simp add: ends_def [of "on_priv _"] on_priv_run RTW88_LOCK_def at_rest_def)

lemma unlock_ends: "inside_rest d \<Longrightarrow> Q () (d\<lparr>priv := (priv d)\<lparr>mtx_depth := 0\<rparr>\<rparr>) \<Longrightarrow> ends (on_priv RTW88_UNLOCK) Q E d"
  by (simp add: ends_def on_priv_run RTW88_UNLOCK_def inside_rest_def)

lemma inside_unlock: "inside_rest d \<Longrightarrow> at_rest (d\<lparr>priv := (priv d)\<lparr>mtx_depth := 0\<rparr>\<rparr>)"
  by (simp add: at_rest_def inside_rest_def)

lemma inside_keeps:
  assumes "\<And>k z L. keeps (on_bus 0 k z L) is_errno m"
  shows "keeps inside_rest is_errno (on_priv m)"
proof (rule keepsI)
  fix d r d' assume d: "inside_rest d" and run: "on_priv m d = (r, d')"
  obtain w where m: "m (priv d) = (r, w)" and d': "d' = d\<lparr>priv := w\<rparr>" using run by (auto simp: on_priv_def split: prod.splits)
  have "on_line 0 (invariants (priv d)) (priv d)" using d inside_line by blast
  from quietD [OF assms this m] d show "inside_rest d' \<and> (\<forall>e. r = Inl e \<longrightarrow> is_errno e)"
    by (auto simp: inside_rest_def on_line_def d')
qed

lemma led_ends:
  assumes "at_rest d"
  shows "ends (rtw88_led_attach (rtw88_usb_hci_ops C) (Some rtw88_8821c_chip_info) made) (\<lambda>_. at_rest) (\<lambda>f d'. is_errno f \<and> at_rest d') d"
proof -
  let ?ops = "rtw88_usb_hci_ops C"
  have rd: "keeps inside_rest is_errno (rtw_read32 ?ops a)" and wr: "keeps inside_rest is_errno (rtw_write32 ?ops a v)" for a v
    unfolding rtw_read32_def rtw_write32_def usb_hci_ops_simps by (rule inside_keeps; intro keeps_intros)+
  have un: "ends (RTW88_DEV_UNLOCK ?ops) (\<lambda>_. at_rest) E d" "ends (RTW88_DEV_UNLOCK ?ops) (\<lambda>_ d'. at_rest (d'\<lparr>dev_led := x d'\<rparr>)) E d"
    if "inside_rest d" for d :: "'a softc rtw88_dev" and E x
    unfolding RTW88_DEV_UNLOCK_def usb_hci_ops_simps
    by (rule unlock_ends [OF that], use inside_unlock [OF that] in \<open>simp add: at_rest_def\<close>)+
  have cb: "ends (rtw88_led_callback ?ops on) (\<lambda>_. at_rest) (\<lambda>f d'. is_errno f \<and> at_rest d') d" if "at_rest d" for on and d :: "'a softc rtw88_dev"
  proof (cases "led_attached (dev_led d)")
    case True
    have w: "ends (discard (rtw_write32 ?ops REG_LED_CFG v)) (\<lambda>_. inside_rest) (\<lambda>_ _. False) d" if "inside_rest d" for v and d :: "'a softc rtw88_dev"
      by (rule ends_keeps [OF keeps_discard_all [OF wr, of no_fault] that]) (simp_all add: no_fault_def)
    have "ends (tryE (attempt (rtw_read32 ?ops REG_LED_CFG)) (\<lambda>r. case r of
          Inl e \<Rightarrow> RTW88_DEV_UNLOCK ?ops
        | Inr v \<Rightarrow> seqE (discard (rtw_write32 ?ops REG_LED_CFG (if on then v AND NOT BIT_LED0_SV else v OR BIT_LED0_SV)))
            (seqE (RTW88_DEV_UNLOCK ?ops) (updS (\<lambda>d. d\<lparr>dev_led := (dev_led d)\<lparr>led_on := on\<rparr>\<rparr>)))))
        (\<lambda>_. at_rest) (\<lambda>f d'. is_errno f \<and> at_rest d') d1" if "inside_rest d1" for d1 :: "'a softc rtw88_dev"
      unfolding ends_tryE
      by (rule ends_keeps [OF keeps_attempt_all [OF rd, of no_fault] that])
        (auto simp: no_fault_def ends_seqE ends_updS un split: sum.split intro!: ends_conseq [OF w])
    from lock_ends [OF that this [OF inside_lock [OF that]]] True show ?thesis
      by (simp add: rtw88_led_callback_def RTW88_DEV_LOCK_def ends_def tryE_def [of "getS _"])
  qed (use that in \<open>simp add: rtw88_led_callback_def ends_simps\<close>)
  show ?thesis
    unfolding rtw88_led_attach_def deref_chip_def rtw88_led_set_def
    using assms cb [of "d\<lparr>dev_led := l\<rparr>" False for l] by (simp add: ends_simps rest_led)
qed

subsection \<open>Attach gives everything back or settles\<close>

lemma ends_release: "ends (release k) Q E s \<longleftrightarrow> (if k \<in> at_held s then Q () (s\<lparr>at_held := at_held s - {k}\<rparr>) else E Panic s)"
  by (simp add: ends_def release_def)

abbreviation (input) base_res :: "kres set" where "base_res \<equiv> {KMtx, KTq, KCamTq, KCv, KTxBuf, KRxStage}"

text \<open>No packet came or went yet, and nobody asked for a link.\<close>

definition unused :: "'c usb_softc \<Rightarrow> bool" where
  "unused s \<longleftrightarrow> held (priv (at_dev s)) = {#} \<and> sc_post_state_ops (sc_link (priv (at_dev s))) = 0 \<and> at_freed s = []"

lemma unused_started: "tx_held (t\<lparr>sc_xfer_started := x\<rparr>) = tx_held t"
  by (simp add: tx_held_def)

lemma unused_soft: "unused s \<Longrightarrow> same_soft (priv d) (priv (at_dev s)) \<Longrightarrow> unused (s\<lparr>at_dev := d\<rparr>)"
  by (simp add: unused_def held_def)

text \<open>The device during the first half, holding \<open>K\<close>; the image it keeps, if any, is the one of the kernel and has a header.\<close>

definition probing :: "usb_env \<Rightarrow> bool \<Rightarrow> kres set \<Rightarrow> 'c usb_softc \<Rightarrow> bool" where
  "probing ev k K s \<longleftrightarrow> at_rest (at_dev s) \<and> invariants (priv (at_dev s)) = k \<and> length (ef_raw (dev_efuse (at_dev s))) = 512 \<and>
     at_held s = K \<and> at_armed s = {} \<and> at_tq s = [] \<and> \<not> at_cam_queued s \<and> \<not> sc_fw_running s \<and> \<not> sc_ic_attached s \<and> \<not> sc_cdev s \<and>
     sc_ic s = None \<and> sc_chip s \<noteq> None \<and> unused s \<and>
     (\<forall>img. sc_fw (priv (at_dev s)) = Some img \<longrightarrow> ev_fw ev = Some img \<and> 64 \<le> length img)"

lemma probing_read:
  assumes "probing ev k K s" "\<And>v d. inside_rest d \<Longrightarrow> invariants (priv d) = k \<Longrightarrow> length (ef_raw (dev_efuse d)) = 512 \<Longrightarrow>
     same_soft (priv d) (priv (at_dev s)) \<Longrightarrow> Q v (s\<lparr>at_dev := d\<rparr>)"
  shows "ends (attempt (on_sc (tryE (rtw88_usb_read4 C a) (\<lambda>v. tryE (rtw88_usb_read4 C b) (\<lambda>_. ret v))))) Q E
    (s\<lparr>at_dev := (at_dev s)\<lparr>priv := (priv (at_dev s))\<lparr>mtx_depth := 1\<rparr>\<rparr>\<rparr>)"
proof -
  let ?m = "tryE (rtw88_usb_read4 C a) (\<lambda>v. tryE (rtw88_usb_read4 C b) (\<lambda>_. ret v))" and ?w = "(priv (at_dev s))\<lparr>mtx_depth := 1\<rparr>"
  have k: "keeps (on_bus n b z L) is_errno ?m" for n b z L by (intro keeps_intros)
  obtain r w where run: "?m ?w = (r, w)" by fastforce
  have "on_line 0 k ?w" using assms(1) by (simp add: on_line_def probing_def at_rest_def)
  from quietD [OF k this run] same_more [of w ?w]
  have w: "on_line 0 k w" "same_soft w (priv (at_dev s))" "\<forall>e. r = Inl e \<longrightarrow> is_errno e" by simp_all
  then have "ends ?m (\<lambda>v w. Q (Inr v) (s\<lparr>at_dev := (at_dev s)\<lparr>priv := w\<rparr>\<rparr>))
      (\<lambda>f w. case f of Errno e \<Rightarrow> Q (Inl e) (s\<lparr>at_dev := (at_dev s)\<lparr>priv := w\<rparr>\<rparr>) | _ \<Rightarrow> E f (s\<lparr>at_dev := (at_dev s)\<lparr>priv := w\<rparr>\<rparr>)) ?w"
    using assms(1) assms(2) [of "(at_dev s)\<lparr>priv := w\<rparr>"] unfolding ends_run [of ?m, OF run]
    by (auto simp: probing_def at_rest_def inside_rest_def on_line_def is_errno_def split: sum.split fault.splits)
  then show ?thesis unfolding ends_attempt on_sc_def ends_on_at ends_on_priv by (simp cong del: fault.case_cong_weak)
qed

lemma ends_mutex:
  "mtx_depth s = 0 \<Longrightarrow> ends RTW88_LOCK Q E s \<longleftrightarrow> Q () (s\<lparr>mtx_depth := 1\<rparr>)"
  "mtx_depth s = 1 \<Longrightarrow> ends RTW88_UNLOCK Q E s \<longleftrightarrow> Q () (s\<lparr>mtx_depth := 0\<rparr>)"
  by (simp_all add: ends_def RTW88_LOCK_def RTW88_UNLOCK_def)

lemma attach_probe_ends:
  assumes "probing ev k base_res s" "sc_fw (priv (at_dev s)) = None"
  shows "ends (attach_probe C ev) (\<lambda>_ s'. probing ev k (insert KXfers base_res) s' \<and> sc_ep_bulk_out s' \<noteq> [])
    (\<lambda>f s'. is_errno f \<and> probing ev k base_res s') s"
proof -
  have depth: "mtx_depth (priv (at_dev s)) = 0" using assms(1) by (simp add: probing_def at_rest_def)
  show ?thesis
    unfolding attach_probe_def ends_seqE [of "on_sc RTW88_LOCK"]
    unfolding on_sc_def [of RTW88_LOCK] ends_on_at ends_on_priv ends_mutex(1) [OF depth] ends_tryE [of "attempt _"]
    by (rule probing_read [OF assms(1)])
      (use assms in \<open>auto simp: ends_simps on_sc_def ends_mutex inside_rest_def upd_sc_def rtw88_fw_acquire_def rtw88_discover_endpoints_def
        rtw88_xfers_setup_def acquire_def usbd_transfer_start_def upd_tx_def probing_def at_rest_def is_errno_def rtw88_fw_hdr_decode_def
        unused_def held_def unused_started split: sum.split prod.split option.split\<close>)
qed

text \<open>A device at the end of attach, with (\<open>up\<close>) or without an interface.\<close>

definition res_of :: "bool \<Rightarrow> bool \<Rightarrow> kres set" where
  "res_of ic cdev = insert KXfers base_res \<union> (if ic then {KIc} else {}) \<union> (if cdev then {KCdev} else {})"

definition attached :: "'c usb_softc \<Rightarrow> bool" where
  "attached s \<longleftrightarrow> at_rest (at_dev s) \<and> at_held s = res_of (sc_ic_attached s) (sc_cdev s) \<and> (sc_cdev s \<longrightarrow> sc_ic_attached s)"

definition fresh :: "bool \<Rightarrow> 'c usb_softc \<Rightarrow> bool" where
  "fresh ic s \<longleftrightarrow> at_rest (at_dev s) \<and> at_held s = res_of ic (sc_cdev s) \<and> (sc_cdev s \<longrightarrow> ic) \<and> at_armed s \<subseteq> {DigCo} \<and> at_tq s = [] \<and>
     \<not> at_cam_queued s \<and> sc_ep_bulk_out s \<noteq> [] \<and> sc_chip s \<noteq> None \<and> (sc_ic s \<noteq> None \<longleftrightarrow> ic)"

lemma on_at_ends:
  assumes "\<And>d. at_rest d \<Longrightarrow> ends m (\<lambda>_. at_rest) (\<lambda>f d'. is_errno f \<and> at_rest d') d" "fresh ic s" "sc_fw_running s = r"
  shows "ends (discard (on_at m)) (\<lambda>_ s'. fresh ic s' \<and> sc_fw_running s' = r \<and> sc_ic_attached s' = sc_ic_attached s) E s"
  unfolding ends_discard ends_on_at
  by (rule ends_conseq [OF assms(1)]) (use assms(2,3) in \<open>auto simp: fresh_def is_errno_def split: fault.splits\<close>)

lemma attach_phy_ends:
  assumes "fresh ic s" "sc_fw_running s"
  shows "ends (attach_phy C tbl) (\<lambda>_ s'. fresh ic s' \<and> sc_fw_running s') E s"
proof -
  have rest: "ends (whenE b (updS (\<lambda>s. s\<lparr>at_armed := insert DigCo (at_armed s)\<rparr>))) (\<lambda>_ s'. fresh ic s' \<and> sc_fw_running s') E s"
    if "fresh ic s" "sc_fw_running s" for b s
    using that by (simp add: ends_simps fresh_def)
  show ?thesis
    unfolding attach_phy_def ends_tryE ends_value ends_seqE
    by (rule ends_conseq [OF on_at_ends [OF phy_ends assms(1) refl, folded on_sc_def]]) (use rest assms(2) in auto)
qed

lemma attach_efuse_ends:
  assumes "fresh False s" "sc_fw_running s" "length (ef_raw (dev_efuse (at_dev s))) = 512"
  shows "ends (attach_efuse C) (\<lambda>_ s'. fresh False s' \<and> sc_fw_running s') E s"
proof -
  have "at_rest (at_dev s)" using assms(1) by (simp add: fresh_def)
  then show ?thesis
    unfolding attach_efuse_def ends_tryE ends_attempt ends_on_at
    by (intro ends_conseq [OF efuse_ends [OF _ assms(3)]])
      (use assms(1,2) in \<open>auto simp: ends_simps fresh_def is_errno_def upd_sc_def on_sc_def mirror_efuse_def at_rest_def split: fault.splits\<close>)
qed

lemma net80211_ends:
  assumes "fresh False s" "sc_fw_running s"
  shows "ends (rtw88_net80211_attach ev) (\<lambda>_ s'. fresh True (s'\<lparr>sc_ic_attached := True\<rparr>) \<and> sc_fw_running s') E s"
  using assms by (auto simp: rtw88_net80211_attach_def attach_cdev_def ends_simps acquire_def fresh_def res_of_def)

lemma attach_up_ends:
  assumes "probing ev k (insert KXfers base_res) s" "sc_ep_bulk_out s \<noteq> []" "\<forall>img. ev_fw ev = Some img \<longrightarrow> length img < 2 ^ 32"
  shows "ends (attach_up C ev) (\<lambda>_ s'. fresh (sc_ic_attached s') s' \<and> sc_ic_attached s' = sc_fw_running s' \<and> (k \<longrightarrow> \<not> sc_fw_running s') \<and>
       (\<not> sc_fw_running s' \<longrightarrow> unused s'))
    (\<lambda>f s'. f = Panic \<and> (\<exists>img. ev_fw ev = Some img \<and> (k \<or> fw_malformed img))) s"
proof (cases "sc_fw (priv (at_dev s))")
  case None
  then show ?thesis
    using assms(1,2) by (auto simp: attach_up_def ends_simps rtw88_download_firmware_def probing_def fresh_def res_of_def)
next
  case (Some img)
  have img: "ev_fw ev = Some img" "64 \<le> length img" "length img < 2 ^ 32" using assms(1,3) Some by (auto simp: probing_def)
  let ?d = "at_dev s"
  have ready: "fw_ready 0 k img (priv ?d)" "\<not> lps_in_lps (dev_lps ?d)" using assms(1) Some by (simp_all add: fw_ready_def probing_def at_rest_def)
  let ?led = "discard (on_at (rtw88_led_attach (rtw88_usb_hci_ops C) (Some rtw88_8821c_chip_info) (ev_led_ok ev)))"
  have led: "ends ?led (\<lambda>_ s'. fresh True s' \<and> sc_fw_running s' \<and> sc_ic_attached s') E s1"
    if "fresh True s1" "sc_fw_running s1" "sc_ic_attached s1" for s1 E
    by (rule ends_conseq [OF on_at_ends [OF led_ends that(1) refl]]) (use that in auto)
  have net: "ends (rtw88_net80211_attach ev) (\<lambda>_. ends (steps [updS (\<lambda>s. s\<lparr>sc_ic_attached := True\<rparr>), ?led])
      (\<lambda>_ s'. fresh True s' \<and> sc_fw_running s' \<and> sc_ic_attached s') E) E s1" if "fresh False s1" "sc_fw_running s1" for s1 E
    unfolding ends_steps(2) [of "updS _"] ends_steps(2) [of ?led] ends_steps(1) ends_updS
    by (rule ends_conseq [OF net80211_ends [OF that]]) (auto intro: led)
  have mac: "ends (discard (on_at (rtw88_mac_init C hw))) (\<lambda>_. ends (steps [attach_phy C (ev_tbl ev), rtw88_net80211_attach ev,
       updS (\<lambda>s. s\<lparr>sc_ic_attached := True\<rparr>), ?led]) (\<lambda>_ s'. fresh True s' \<and> sc_fw_running s' \<and> sc_ic_attached s') E) E s1"
    if "fresh False s1" "sc_fw_running s1" for hw s1 E
    unfolding ends_steps(2) [of "attach_phy _ _"] ends_steps(2) [of "rtw88_net80211_attach _"]
    by (rule ends_conseq [OF on_at_ends [OF mac_ends that(1) refl]])
      (use that net in \<open>auto intro: ends_conseq [OF attach_phy_ends]\<close>)
  have up: "ends (steps [
       updS (\<lambda>s. s\<lparr>sc_fw_running := True\<rparr>), attach_efuse C, tryE (getS sc_hw_ccmp) (\<lambda>hw. discard (on_at (rtw88_mac_init C hw))),
       attach_phy C (ev_tbl ev), rtw88_net80211_attach ev, updS (\<lambda>s. s\<lparr>sc_ic_attached := True\<rparr>), ?led])
     (\<lambda>_ s'. fresh True s' \<and> sc_fw_running s' \<and> sc_ic_attached s') E (s\<lparr>at_dev := d\<rparr>)"
    if "at_rest d" "dev_efuse d = dev_efuse ?d" for d E
    unfolding ends_steps(2) [of "updS _"] ends_updS ends_steps(2) [of "attach_efuse _"] ends_steps(2) [of "tryE (getS _) _"]
      ends_tryE [of "getS _"] ends_value
    by (rule ends_conseq [OF attach_efuse_ends])
      (use that assms(1,2) mac in \<open>auto simp: probing_def fresh_def res_of_def\<close>)
  have off: "\<not> sc_ic_attached s" "\<not> sc_fw_running s" "at_rest d \<Longrightarrow> fresh False (s\<lparr>at_dev := d\<rparr>)"
    "same_soft (priv d) (priv ?d) \<Longrightarrow> unused (s\<lparr>at_dev := d\<rparr>)" for d
    using assms(1,2) by (auto simp: probing_def fresh_def res_of_def intro!: unused_soft)
  show ?thesis
    unfolding attach_up_def ends_tryE ends_attempt ends_on_at
    by (rule ends_conseq [OF download_ends [OF ready(1) img(2,3) ready(2)]])
      (use off img(1) in \<open>auto simp: ends_value is_errno_def split: fault.splits simp del: steps_simps intro!: ends_conseq [OF up [where E = "\<lambda>_ _. False"]]\<close>)
qed

lemma attach_run:
  assumes "\<forall>img. ev_fw ev = Some img \<longrightarrow> length img < 2 ^ 32" "rtw88_usb_attach C ev (usb_softc_zero c k) = (r, s')"
  shows "case r of
      Inl (Errno e) \<Rightarrow> at_held s' = {} \<and> at_armed s' = {} \<and> at_tq s' = [] \<and> \<not> sc_ic_attached s' \<and> sc_fw (priv (at_dev s')) = None \<and> at_rest (at_dev s')
    | Inl f \<Rightarrow> f = Panic \<and> (\<exists>img. ev_fw ev = Some img \<and> (k \<or> fw_size_ok img \<and> length img \<noteq> 64 + fw_body_len img))
    | Inr _ \<Rightarrow> at_rest (at_dev s') \<and> sc_ic_attached s' = sc_fw_running s' \<and> (k \<longrightarrow> \<not> sc_ic_attached s') \<and>
        at_held s' = {KMtx, KTq, KCamTq, KCv, KTxBuf, KRxStage, KXfers} \<union> (if sc_ic_attached s' then {KIc} else {}) \<union> (if sc_cdev s' then {KCdev} else {}) \<and>
        (sc_cdev s' \<longrightarrow> sc_ic_attached s') \<and> at_armed s' \<subseteq> {DigCo} \<and> at_tq s' = [] \<and> sc_ep_bulk_out s' \<noteq> [] \<and> (sc_ic s' \<noteq> None \<longleftrightarrow> sc_ic_attached s') \<and>
        (\<not> sc_ic_attached s' \<longrightarrow> unused s')"
proof (cases "ev_driver_info ev \<ge> RTW88_N_CHIP_SPECS")
  case True
  with assms(2) show ?thesis by (auto simp: rtw88_usb_attach_def usb_softc_zero_def at_rest_def softc_zero_def rtw88_dev_zero_def)
next
  case False
  let ?s = "attach_setup ev (usb_softc_zero c k)"
  have start: "probing ev k base_res ?s" "sc_fw (priv (at_dev ?s)) = None"
    by (simp_all add: probing_def at_rest_def attach_setup_def usb_softc_zero_def softc_zero_def rtw88_dev_zero_def rtw88_bf_attach_def
        rtw88_ps_attach_def rtw88_regd_init_def attach_sc_def Let_def unused_def held_def tx_held_def attach_tx_def tx_zero_def link_zero_def mbufq_init_def)
  have clean: "ends (seqE attach_cleanup (fail (Errno e))) (\<lambda>_ _. False) (\<lambda>f s'. f = Errno e \<and> at_held s' = {} \<and> at_armed s' = {} \<and> at_tq s' = [] \<and>
      \<not> sc_ic_attached s' \<and> sc_fw (priv (at_dev s')) = None \<and> at_rest (at_dev s')) s1" if "probing ev k base_res s1" for e s1
    using that unfolding ends_seqE attach_cleanup_def ends_steps
    by (auto simp: ends_simps release_if_def upd_sc_def on_sc_def drain_queues_def ends_release probing_def at_rest_def rtw88_fw_release_def)
  have "ends (rtw88_usb_attach C ev) (\<lambda>_ s'. fresh (sc_ic_attached s') s' \<and> sc_ic_attached s' = sc_fw_running s' \<and> (k \<longrightarrow> \<not> sc_fw_running s') \<and>
       (\<not> sc_fw_running s' \<longrightarrow> unused s'))
     (\<lambda>f s'. (is_errno f \<and> at_held s' = {} \<and> at_armed s' = {} \<and> at_tq s' = [] \<and>
         \<not> sc_ic_attached s' \<and> sc_fw (priv (at_dev s')) = None \<and> at_rest (at_dev s')) \<or>
       f = Panic \<and> (\<exists>img. ev_fw ev = Some img \<and> (k \<or> fw_malformed img))) (usb_softc_zero c k)"
    using False unfolding rtw88_usb_attach_def if_not_P [OF False] ends_seqE [of "updS _"] ends_updS ends_tryE ends_attempt
    by (intro ends_conseq [OF attach_probe_ends [OF start]])
      (auto simp: is_errno_def split: fault.splits intro!: ends_conseq [OF clean] ends_conseq [OF attach_up_ends [OF _ _ assms(1)]])
  from endsD [OF this assms(2)] show ?thesis
    by (auto simp: fresh_def res_of_def fw_malformed_def is_errno_def split: sum.splits fault.splits)
qed

text \<open>C4. Attach, for any device, firmware, descriptors and tunables, from a softc that the kernel has zeroed. An error gives back every
  resource, with no callout armed, no task queued and the mutex free. A panic can only be one of a kernel with \<open>INVARIANTS\<close> or of a firmware
  image whose header and length disagree. Otherwise the device holds exactly its base resources and the transfers, and, if and only if
  the firmware runs, the registration with net80211; the device node comes only with it, no callout but that of the gain loop is armed,
  and at least one pipe to the device was found. On a kernel with \<open>INVARIANTS\<close> no device ever gets a network interface.\<close>
theorem usb_attach_outcome:
  assumes "\<forall>img. ev_fw ev = Some img \<longrightarrow> length img < 2 ^ 32" "rtw88_usb_attach C ev (usb_softc_zero c k) = (r, s')"
  shows "case r of
      Inl (Errno e) \<Rightarrow> at_held s' = {} \<and> at_armed s' = {} \<and> at_tq s' = [] \<and> \<not> sc_ic_attached s' \<and> sc_fw (priv (at_dev s')) = None \<and> at_rest (at_dev s')
    | Inl f \<Rightarrow> f = Panic \<and> (\<exists>img. ev_fw ev = Some img \<and> (k \<or> fw_size_ok img \<and> length img \<noteq> 64 + fw_body_len img))
    | Inr _ \<Rightarrow> at_rest (at_dev s') \<and> sc_ic_attached s' = sc_fw_running s' \<and> (k \<longrightarrow> \<not> sc_ic_attached s') \<and>
        at_held s' = {KMtx, KTq, KCamTq, KCv, KTxBuf, KRxStage, KXfers} \<union> (if sc_ic_attached s' then {KIc} else {}) \<union> (if sc_cdev s' then {KCdev} else {}) \<and>
        (sc_cdev s' \<longrightarrow> sc_ic_attached s') \<and> at_armed s' \<subseteq> {DigCo} \<and> at_tq s' = [] \<and> sc_ep_bulk_out s' \<noteq> [] \<and> (sc_ic s' \<noteq> None \<longleftrightarrow> sc_ic_attached s')"
  using attach_run [OF assms] by (auto split: sum.splits fault.splits)

text \<open>An adapter with one pipe from and three pipes to the device, and no firmware image installed.\<close>

definition bare_env :: usb_env where
  "bare_env = \<lparr>ev_driver_info = RTW88_CHIP_8821C, ev_nendpoints = 5,
     ev_eps = map (usb_ep.make UE_BULK) [0x84, 0x05, 0x06, 0x08],
     ev_fw = None, ev_tbl = None, ev_xfers_ok = True, ev_led_ok = True, ev_cdev_ok = True, rtw88_hw_ccmp = 1, rtw88_ampdu = 0,
     rtw88_cdev_enable = 1, rtw88_tx_mgmt_qdepth = 0, rtw88_tx_data_qdepth = 0\<rparr>"

lemma bare_attach:
  "\<exists>s'. rtw88_usb_attach idle_ops bare_env (usb_softc_zero () True) = (Inr (), s') \<and> \<not> sc_ic_attached s' \<and> \<not> sc_cdev s'"
proof -
  let ?s = "attach_setup bare_env (usb_softc_zero () True)"
  let ?m = "tryE (rtw88_usb_read4 idle_ops REG_SYS_CFG1) (\<lambda>v1. tryE (rtw88_usb_read4 idle_ops REG_SYS_CFG2) (\<lambda>_. ret v1))"
  let ?w = "(priv (at_dev ?s))\<lparr>mtx_depth := 1\<rparr>"
  have p: "mtx_depth (priv (at_dev ?s)) = 0" "\<not> sc_io_busy (priv (at_dev ?s))" "sc_fw (priv (at_dev ?s)) = None"
    by (simp_all add: attach_setup_def usb_softc_zero_def softc_zero_def rtw88_bf_attach_def
        rtw88_ps_attach_def rtw88_regd_init_def attach_sc_def Let_def)
  have k: "keeps (on_bus 0 (invariants ?w) (hw.more ?w) (ep0_log ?w)) no_fault ?m" by (intro keeps_intros)
  have o: "on_bus 0 (invariants ?w) (hw.more ?w) (ep0_log ?w) ?w" using p(2) by (simp add: on_bus_def)
  from keeps_no_fault [OF k o] obtain v w where m: "?m ?w = (Inr v, w)"
    "on_bus 0 (invariants ?w) (hw.more ?w) (ep0_log ?w) w" by blast
  have w: "mtx_depth w = 1" "sc_fw w = None" using m(2) p(3) same_more [of w ?w] by (simp_all add: on_bus_def)
  have eps: "discover_eps (ev_eps bare_env) (0, []) = (4, [5, 6, 8])" by (simp add: bare_env_def usb_ep.defs)
  obtain r s' where run: "rtw88_usb_attach idle_ops bare_env (usb_softc_zero () True) = (r, s')" by fastforce
  have read: "ends (attempt (on_sc ?m)) Q E (?s\<lparr>at_dev := (at_dev ?s)\<lparr>priv := ?w\<rparr>\<rparr>) \<longleftrightarrow> Q (Inr v) (?s\<lparr>at_dev := (at_dev ?s)\<lparr>priv := w\<rparr>\<rparr>)" for Q E
    by (simp add: ends_def attempt_def on_sc_def on_at_def on_priv_run m(1) del: One_nat_def)
  have env: "ev_driver_info bare_env = 0" "ev_fw bare_env = None" "ev_xfers_ok bare_env" by (simp_all add: bare_env_def)
  have s: "\<not> sc_ic_attached ?s" "\<not> sc_cdev ?s" by (simp_all add: attach_setup_def usb_softc_zero_def)
  have "ends (rtw88_usb_attach idle_ops bare_env) (\<lambda>_ s'. \<not> sc_ic_attached s' \<and> \<not> sc_cdev s') (\<lambda>_ _. False) (usb_softc_zero () True)"
    unfolding rtw88_usb_attach_def env ends_if ends_seqE [of "updS _"] ends_updS ends_tryE [of "attempt (attach_probe _ _)"]
      ends_attempt [of "attach_probe _ _"]
    unfolding attach_probe_def ends_seqE [of "on_sc RTW88_LOCK"]
    unfolding on_sc_def [of RTW88_LOCK] ends_on_at ends_on_priv ends_mutex(1) [OF p(1)] ends_tryE [of "attempt (on_sc _)"] read
    using w eps env s
    by (simp add: ends_simps on_sc_def ends_mutex upd_sc_def rtw88_fw_acquire_def rtw88_discover_endpoints_def rtw88_xfers_setup_def
        acquire_def usbd_transfer_start_def upd_tx_def attach_up_def rtw88_download_firmware_def)
  from endsD [OF this run] run show ?thesis by (auto split: sum.splits)
qed

theorem usb_attach_outcome_witness:
  "\<exists>s'. rtw88_usb_attach idle_ops bare_env (usb_softc_zero () True) = (Inr (), s') \<and> \<not> sc_ic_attached s' \<and>
     at_held s' = {KMtx, KTq, KCamTq, KCv, KTxBuf, KRxStage, KXfers}"
proof -
  obtain s' where run: "rtw88_usb_attach idle_ops bare_env (usb_softc_zero () True) = (Inr (), s')" "\<not> sc_ic_attached s'" "\<not> sc_cdev s'"
    using bare_attach by blast
  from usb_attach_outcome [OF _ run(1)] run show ?thesis by (simp add: bare_env_def)
qed

end
