(* ===== verification/Rtw_Gone.thy ===== *)
theory Rtw_Gone
  imports Rtw_Life
begin

section \<open>Detach\<close>

text \<open>
  What detach of the USB front-end guarantees. The tasks that still run keep the account of the packets and never arm a callout that has been
  drained; then every resource is given back.
\<close>

subsection \<open>The tasks of a device that goes away\<close>

text \<open>No request of the link task takes the link up, and no parked frame is an EAPOL frame too short to read.\<close>

definition not_rising :: "u8 \<Rightarrow> bool" where
  "not_rising ops \<longleftrightarrow> ops AND RTW88_POST_LINK_UP = 0 \<or> ops AND RTW88_POST_LINK_DOWN \<noteq> 0"

definition parked_safe :: "'z tx_ops_scheme \<Rightarrow> tx_softc \<Rightarrow> bool" where
  "parked_safe N t \<longleftrightarrow> (\<forall>m \<in> set (mq_list (sc_tx_pending_q t)). eapol_safe N m)"

text \<open>
  \<open>winding n N M dig a s\<close>: the softc of a device that goes away, whose mutex is held \<open>n\<close> times, with the packets \<open>M\<close>; \<open>dig\<close> and \<open>a\<close> say whether the gain
  loop and the keep-alive may still be active.
\<close>

definition winding :: "nat \<Rightarrow> 'z tx_ops_scheme \<Rightarrow> nat multiset \<Rightarrow> bool \<Rightarrow> 'c softc \<Rightarrow> bool" where
  "winding n N M a s \<longleftrightarrow> mtx_depth s = n \<and> \<not> sc_io_busy s \<and> \<not> sc_dig_active (sc_dig s) \<and> (sc_fwka_active (sc_link s) \<longrightarrow> a) \<and>
     not_rising (sc_post_state_ops (sc_link s)) \<and> parked_safe N (sc_tx s) \<and> held s = M"

definition soft_at :: "bool \<Rightarrow> tx_softc \<Rightarrow> link_softc \<Rightarrow> dig_softc \<Rightarrow> 'c softc \<Rightarrow> bool" where
  "soft_at k t l g s \<longleftrightarrow> on_line 0 k s \<and> sc_tx s = t \<and> sc_link s = l \<and> sc_dig s = g"

lemma soft_bus:
  assumes "\<And>z L. keeps (on_bus 0 k z L) is_errno m"
  shows "keeps (soft_at k t l g) is_errno m"
proof (rule keepsI)
  fix s r s' assume s: "soft_at k t l g s" and m: "m s = (r, s')"
  note q = quietD [OF assms _ m]
  from s q have "hw.more s' = hw.more s" "on_line 0 k s'" "\<forall>e. r = Inl e \<longrightarrow> is_errno e" by (auto simp: soft_at_def)
  with s quiet_softc [OF this(1)] show "soft_at k t l g s' \<and> (\<forall>e. r = Inl e \<longrightarrow> is_errno e)" by (simp add: soft_at_def)
qed

lemma soft_bulk: "keeps (soft_at k t l g) is_errno (rtw88_bulk_tx_sync C pipe data)"
  unfolding rtw88_bulk_tx_sync_def RTW88_ASSERT_LOCKED_def
  by (intro keeps_intros is_errno_simps)
    (auto simp: usbd_bulk_def keeps_def soft_at_def on_line_def seqE_def tryE_def is_errno_def split: prod.splits xfer_end.splits)

lemma soft_calibration: "keeps (soft_at k t l g) is_errno (rtw88_phy_calibration C)"
proof -
  have b: "keeps (soft_at k t l g) is_errno RTW88_ASSERT_LOCKED"
    "keeps (soft_at k t l g) is_errno (rtw88_phy_read_rf_a C a m)" "keeps (soft_at k t l g) is_errno (rtw88_phy_write_rf_a C w v)"
    "keeps (soft_at k t l g) is_errno (rtw88_usb_read4 C r4)" for a m w v r4
    by (rule soft_bus, intro keeps_intros is_errno_simps)+
  show ?thesis
    unfolding rtw88_phy_calibration_def rtw88_fw_do_iqk_def rtw88_h2c_packet_def
    by (intro keeps_intros b soft_bulk is_errno_simps)
qed

lemma winding_soft:
  assumes "\<And>k t l g. keeps (soft_at k t l g) F m"
  shows "keeps (winding 1 N M a) F m"
proof (rule keepsI)
  fix s r s' assume s: "winding 1 N M a s" and m: "m s = (r, s')"
  from s have "soft_at (invariants s) (sc_tx s) (sc_link s) (sc_dig s) s" by (simp add: soft_at_def winding_def on_line_def)
  from keepsD [OF assms this m] s show "winding 1 N M a s' \<and> (\<forall>e. r = Inl e \<longrightarrow> F e)"
    by (auto simp: soft_at_def winding_def on_line_def held_def)
qed

lemma winding_silent:
  assumes "\<And>k t l g. keeps (soft_at k t l g) is_errno m" "winding 1 N M a s" "\<And>s'. winding 1 N M a s' \<Longrightarrow> Q () s'"
  shows "ends (discard m) Q E s"
  by (rule ends_keeps [OF keeps_discard_all [OF winding_soft [OF assms(1)], where F = no_fault] assms(2)]) (simp_all add: no_fault_def assms(3))

lemma winding_lock: "winding 0 N M a s \<Longrightarrow> winding 1 N M a (s\<lparr>mtx_depth := 1\<rparr>)"
  and winding_unlock: "winding 1 N M a s \<Longrightarrow> winding 0 N M a (s\<lparr>mtx_depth := 0\<rparr>)"
  by (simp_all add: winding_def held_def)

lemma locked_ends:
  assumes "winding 0 N M a s" "ends m (\<lambda>v s'. mtx_depth s' = 1 \<and> Q v (s'\<lparr>mtx_depth := 0\<rparr>)) (\<lambda>_ _. False) (s\<lparr>mtx_depth := 1\<rparr>)"
  shows "ends (locked m) Q E s"
proof -
  have "mtx_depth s = 0" using assms(1) by (simp add: winding_def)
  then show ?thesis
    unfolding locked_def ends_seqE [of RTW88_LOCK] ends_mutex(1) [OF \<open>mtx_depth s = 0\<close>] ends_tryE ends_attempt
    by (intro ends_conseq [OF assms(2)]) (auto simp: ends_simps ends_mutex)
qed

lemma dig_gone: "winding 0 N M a s \<Longrightarrow> ends (rtw88_dig_task C) (\<lambda>b s'. \<not> b \<and> winding 0 N M a s') E s"
  unfolding rtw88_dig_task_def by (rule locked_ends) (auto simp: ends_simps winding_def held_def)

lemma winding_link:
  "winding n N M a s \<Longrightarrow> sc_post_state_ops l = sc_post_state_ops (sc_link s) \<Longrightarrow> (sc_fwka_active l \<longrightarrow> sc_fwka_active (sc_link s)) \<Longrightarrow>
     winding n N M a (s\<lparr>sc_link := l\<rparr>)"
  by (auto simp: winding_def held_def)

lemma fwka_watch_same: "sc_post_state_ops (fwka_watch r l) = sc_post_state_ops l" "sc_fwka_active (fwka_watch r l) = sc_fwka_active l"
  by (simp_all add: fwka_watch_def Let_def)

lemma ends_upd_link: "ends (upd_link f) Q E s \<longleftrightarrow> Q () (s\<lparr>sc_link := f (sc_link s)\<rparr>)"
  by (simp add: upd_link_def ends_updS)

lemma fwka_gone:
  fixes s :: "'c softc"
  assumes "winding 0 N M a s"
  shows "ends (rtw88_fwka_task C now hz) (\<lambda>b s'. (b \<longrightarrow> a) \<and> winding 0 N M a s') E s"
proof -
  have pwr: "keeps (soft_at k t l g) is_errno (rtw88_h2c_pwr_mode_active_usb C)"
    and ra: "keeps (soft_at k t l g) is_errno (rtw88_h2c_ra_info C p)" for k t l g p
    by (rule soft_bus, intro keeps_intros)+
  have watch: "ends (tryE (getS (sc_rx_packets \<circ> sc_rx)) (\<lambda>rxn. seqE (upd_link (fwka_watch rxn)) (getS (sc_fwka_active \<circ> sc_link))))
     (\<lambda>b s'. mtx_depth s' = 1 \<and> (b \<longrightarrow> a) \<and> winding 0 N M a (s'\<lparr>mtx_depth := 0\<rparr>)) (\<lambda>_ _. False) s" if "winding 1 N M a s" for s :: "'c softc"
    using that by (auto simp: ends_simps upd_link_def winding_def held_def fwka_watch_same)
  have ra_step: "ends (whenE b (tryE (getS (sc_rate_id \<circ> sc_tx)) (\<lambda>rate_id.
              seqE (discard (rtw88_h2c_ra_info C (fwka_tighten rate_id w))) (upd_link (\<lambda>l. l\<lparr>sc_ra_tighten_fired := True\<rparr>)))))
     (\<lambda>_. ends (tryE (getS (sc_rx_packets \<circ> sc_rx)) (\<lambda>rxn. seqE (upd_link (fwka_watch rxn)) (getS (sc_fwka_active \<circ> sc_link))))
       (\<lambda>b s'. mtx_depth s' = 1 \<and> (b \<longrightarrow> a) \<and> winding 0 N M a (s'\<lparr>mtx_depth := 0\<rparr>)) (\<lambda>_ _. False)) (\<lambda>_ _. False) s" if "winding 1 N M a s" for b w and s :: "'c softc"
    unfolding ends_whenE ends_tryE [of "getS (sc_rate_id \<circ> sc_tx)"] ends_value ends_seqE [of "discard _"]
    using watch [OF that] by (auto intro!: winding_silent [OF ra that] watch winding_link simp: ends_upd_link simp del: One_nat_def)
  have body: "ends (seqE (discard (rtw88_h2c_pwr_mode_active_usb C))
          (tryE (getS sc_link) (\<lambda>l.
           seqE (whenE (\<not> sc_ra_tighten_fired l \<and> sc_ra_tighten_mask l \<noteq> 0 \<and> rtw88_assoc_ms now hz l \<ge> RTW88_RA_TIGHTEN_MS)
             (tryE (getS (sc_rate_id \<circ> sc_tx)) (\<lambda>rate_id.
              seqE (discard (rtw88_h2c_ra_info C (fwka_tighten rate_id (sc_ra_tighten_mask l))))
                   (upd_link (\<lambda>l. l\<lparr>sc_ra_tighten_fired := True\<rparr>)))))
          (tryE (getS (sc_rx_packets \<circ> sc_rx)) (\<lambda>rxn.
           seqE (upd_link (fwka_watch rxn)) (getS (sc_fwka_active \<circ> sc_link)))))))
     (\<lambda>b s'. mtx_depth s' = 1 \<and> (b \<longrightarrow> a) \<and> winding 0 N M a (s'\<lparr>mtx_depth := 0\<rparr>)) (\<lambda>_ _. False) s" if "winding 1 N M a s" for s :: "'c softc"
    unfolding ends_seqE [of "discard _"] ends_tryE [of "getS sc_link"] ends_value ends_seqE [of "whenE _ _"]
    by (rule winding_silent [OF pwr that]) (rule ra_step)
  show ?thesis
    unfolding rtw88_fwka_task_def
    by (rule locked_ends [OF assms])
      (use body [OF winding_lock [OF assms]] winding_lock [OF assms] winding_unlock [OF winding_lock [OF assms]] in
        \<open>simp add: ends_tryE [of "getS (sc_fwka_active \<circ> sc_link)"] ends_value\<close>)
qed

text \<open>The key task: with the parked frames in order it does not fail, and the account of the theory of ownership holds.\<close>

definition windy :: "nat \<Rightarrow> 'z tx_ops_scheme \<Rightarrow> bool \<Rightarrow> 'c softc \<Rightarrow> bool" where
  "windy n N a s \<longleftrightarrow> winding n N (held s) a s"

lemma windy_tx:
  "windy n N a s \<Longrightarrow> parked_safe N t \<Longrightarrow> windy n N a (s\<lparr>sc_tx := t\<rparr>)"
  by (auto simp: windy_def winding_def)

lemma set_tx_q_pending: "sc_tx_pending_q (set_tx_q w q t) = sc_tx_pending_q t" if "w = QData \<or> w = QVo"
  using that by auto

lemma release_one_windy:
  fixes s :: "'c softc"
  assumes "windy n N a s" "eapol_safe N m"
  shows "ends (release_one N m) (\<lambda>_. windy n N a) (\<lambda>_ _. False) s"
proof -
  obtain k where k: "eapol_of N (m_data m) = Inr k" using assms(2) by (auto simp: eapol_safe_def)
  have p: "parked_safe N (sc_tx s)" using assms(1) by (simp add: windy_def winding_def)
  have e: "ends (is_eapol N (m_data m)) Q E s' \<longleftrightarrow> Q (k \<noteq> None) s'" for Q E and s' :: "'c softc"
    by (simp add: ends_def is_eapol_run [OF k])
  show ?thesis
    unfolding release_one_def ends_tryE [of "is_eapol _ _"] e
    using assms(1) p by (auto simp: ends_simps Let_def upd_tx_def parked_safe_def set_tx_q_pending intro!: windy_tx split: option.split)
qed

lemma release_all_windy:
  assumes "windy n N a s" "\<forall>m \<in> set ps. eapol_safe N m"
  shows "ends (release_all N ps) (\<lambda>_. windy n N a) (\<lambda>_ _. False) s"
  using assms
proof (induction ps arbitrary: s)
  case (Cons m ps)
  have w: "windy n N a (s\<lparr>sc_tx := (sc_tx s)\<lparr>sc_tx_pending_q := (sc_tx_pending_q (sc_tx s))\<lparr>mq_list := ps\<rparr>\<rparr>\<rparr>)"
    using Cons.prems by (intro windy_tx) (simp_all add: parked_safe_def)
  show ?case
    unfolding release_all.simps upd_tx_def ends_seqE [of "updS _"] ends_updS ends_tryE [of "release_one _ _"]
    by (rule ends_conseq [OF release_one_windy [OF w]])
      (use Cons in \<open>auto simp: ends_tryE ends_value intro!: ends_conseq [OF Cons.IH]\<close>)
qed (simp add: ends_value)

lemma ptk_windy:
  fixes s :: "'c softc"
  assumes "windy n N a s"
  shows "ends (ptk_installed N) (\<lambda>_. windy n N a) (\<lambda>_ _. False) s"
proof -
  have start: "windy n N a s' \<Longrightarrow> windy n N a (s'\<lparr>sc_tx := (sc_tx s')\<lparr>sc_xfer_started := x\<rparr>\<rparr>)" for s' :: "'c softc" and x
    by (auto simp: windy_def winding_def parked_safe_def)
  have w: "windy n N a (s\<lparr>sc_tx := (sc_tx s)\<lparr>sc_ptk_install_pending := False\<rparr>\<rparr>)"
    using assms by (auto simp: windy_def winding_def parked_safe_def)
  have safe: "\<forall>m \<in> set (mq_list (sc_tx_pending_q (sc_tx s))). eapol_safe N m"
    using assms by (simp add: windy_def winding_def parked_safe_def)
  show ?thesis
    unfolding ptk_installed_def upd_tx_def ends_seqE [of "updS _"] ends_updS ends_tryE ends_value
    by (rule ends_conseq [OF release_all_windy [OF w]])
      (use safe in \<open>auto simp: ends_simps usbd_transfer_start_def upd_tx_def start\<close>)
qed

lemma cam_op_windy:
  fixes s :: "'c softc"
  assumes "windy 1 N a s"
  shows "ends (cam_do_op C N op) (\<lambda>_. windy 1 N a) (\<lambda>_ _. False) s"
proof -
  have s: "winding 1 N (held s) a s" using assms by (simp add: windy_def)
  have b: "keeps (soft_at k t l g) is_errno (rtw88_cam_write_entry C sl ty ki gr mac key len)"
    "keeps (soft_at k t l g) is_errno (rtw88_cam_clear_entry C sl)" for k t l g sl ty ki gr mac key len
    by (rule soft_bus, intro keeps_intros)+
  have wd: "winding 1 N M a s' \<Longrightarrow> windy 1 N a s'" for M and s' :: "'c softc" by (auto simp: windy_def winding_def)
  show ?thesis
  proof (cases "cop_op op")
    case RTW88_CAM_OP_INSTALL
    then show ?thesis
      unfolding cam_do_op_def RTW88_CAM_OP_INSTALL cam_op_kind.case ends_tryE
      by (intro ends_keeps [OF keeps_attempt_all [OF winding_soft [OF b(1)], where F = no_fault] s])
        (auto simp: no_fault_def ends_value intro: wd ptk_windy simp del: One_nat_def)
  next
    case RTW88_CAM_OP_CLEAR
    then show ?thesis
      unfolding cam_do_op_def RTW88_CAM_OP_CLEAR cam_op_kind.case ends_seqE
      by (intro winding_silent [OF b(2) s]) (auto simp: ends_value intro: wd simp del: One_nat_def)
  qed
qed

lemma cam_ops_windy:
  assumes "windy 1 N a s"
  shows "ends (cam_do_ops C N ops) (\<lambda>_. windy 1 N a) (\<lambda>_ _. False) s"
  using assms
proof (induction ops arbitrary: s)
  case (Cons op ops)
  show ?case
    unfolding cam_do_ops.simps ends_tryE ends_value
    by (rule ends_conseq [OF cam_op_windy [OF Cons.prems]]) (auto intro: Cons.IH simp del: One_nat_def)
qed (simp add: ends_value)

lemma cam_gone:
  fixes s :: "'c softc"
  assumes "winding 0 N M a s"
  shows "ends (rtw88_cam_task C N) (\<lambda>fs s'. windy 0 N a s' \<and> held s' + ids fs = M) (\<lambda>_ _. False) s"
proof -
  have depth: "mtx_depth s = 0" using assms by (simp add: winding_def)
  have w: "windy 1 N a (s\<lparr>mtx_depth := 1, sc_link := (sc_link (s\<lparr>mtx_depth := 1\<rparr>))\<lparr>sc_cam_q := []\<rparr>\<rparr>)"
    using assms by (auto simp: windy_def winding_def held_def)
  have "ends (rtw88_cam_task C N) (\<lambda>_. windy 0 N a) (\<lambda>_ _. False) s"
    unfolding rtw88_cam_task_def ends_seqE [of RTW88_LOCK] ends_mutex(1) [OF depth] ends_tryE ends_value ends_seqE [of "upd_link _"] ends_upd_link
    by (rule ends_conseq [OF cam_ops_windy [OF w]]) (auto simp: ends_simps ends_mutex windy_def winding_def held_def)
  from ends_conj [OF this task_held] show ?thesis
    by (rule ends_conseq) (use assms in \<open>auto simp: winding_def\<close>)
qed

lemma ends_assert: "mtx_depth s \<noteq> 0 \<Longrightarrow> ends RTW88_ASSERT_LOCKED Q E s \<longleftrightarrow> Q () s"
  by (simp add: ends_def RTW88_ASSERT_LOCKED_def)

text \<open>The task of the radio and the link task, on the device handle.\<close>

definition away :: "nat \<Rightarrow> 'z tx_ops_scheme \<Rightarrow> nat multiset \<Rightarrow> bool \<Rightarrow> 'c softc rtw88_dev \<Rightarrow> bool" where
  "away n N M a d \<longleftrightarrow> winding n N M a (priv d) \<and> \<not> lps_in_lps (dev_lps d)"

lemma away_lock:
  assumes "away 0 N M a d" "ends m Q E (d\<lparr>priv := (priv d)\<lparr>mtx_depth := 1\<rparr>\<rparr>)"
  shows "ends (seqE (on_priv RTW88_LOCK) m) Q E d"
proof -
  have depth: "mtx_depth (priv d) = 0" using assms(1) by (simp add: away_def winding_def)
  show ?thesis unfolding ends_seqE ends_on_priv ends_mutex(1) [OF depth] by (rule assms(2))
qed

lemma prepare_gone:
  fixes d :: "'c softc rtw88_dev"
  assumes "away 0 N M a d"
  shows "ends (rtw88_prepare_tx_task C) (\<lambda>_. away 0 N M a) E d"
proof -
  let ?d = "d\<lparr>priv := (priv d)\<lparr>mtx_depth := 1\<rparr>\<rparr>" and ?R = "\<lambda>d'. dev_lps d' = dev_lps d"
  let ?w = "(priv d)\<lparr>mtx_depth := 1\<rparr>"
  have R: "priv_free ?R" by (simp add: priv_free_def)
  have a: "winding 0 N M a (priv d)" "\<not> lps_in_lps (dev_lps d)" using assms by (simp_all add: away_def)
  have start: "on_dev (on_bus 0 (invariants ?w) (hw.more ?w) (ep0_log ?w)) ?R ?d"
    using a by (simp add: on_dev_def on_bus_def winding_def)
  have coex: "winding 1 N M a (priv d') \<and> dev_lps d' = dev_lps d"
    if "on_dev (on_bus 0 (invariants ?w) (hw.more ?w) (ep0_log ?w)) ?R d'" for d' :: "'c softc rtw88_dev"
  proof -
    from that have "hw.more (priv d') = hw.more (priv d)" "mtx_depth (priv d') = 1" "\<not> sc_io_busy (priv d')" "dev_lps d' = dev_lps d"
      by (auto simp: on_dev_def on_bus_def)
    with quiet_softc [OF this(1)] a(1) show ?thesis by (simp add: winding_def held_def)
  qed
  have rest: "ends (on_priv (discard (rtw88_phy_calibration C))) (\<lambda>_. ends (on_priv RTW88_UNLOCK) (\<lambda>_. away 0 N M a) E) E d'"
    if "winding 1 N M a (priv d')" "dev_lps d' = dev_lps d" for d' :: "'c softc rtw88_dev"
    unfolding ends_on_priv
    by (rule winding_silent [OF soft_calibration that(1)])
      (use that(2) a(2) in \<open>auto simp: ends_def RTW88_UNLOCK_def away_def winding_def held_def\<close>)
  have assert: "ends (on_priv RTW88_ASSERT_LOCKED) Q E ?d \<longleftrightarrow> Q () ?d" for Q E
    by (simp add: ends_on_priv ends_assert)
  show ?thesis
    unfolding rtw88_prepare_tx_task_def rtw88_chip_prepare_tx_def
    by (rule away_lock [OF assms], unfold ends_seqE assert)
      (rule ends_keeps [OF usb_bus.coex_prepare_tx_keeps [OF R, where F = no_fault] start], rule rest; (unfold no_fault_def)?, (drule coex)?, elim conjE FalseE, assumption?)
qed

lemma link_down_held: "tx_held (link_down_tx t) + ids (link_down_freed t) = tx_held t"
  by (simp add: tx_held_def link_down_tx_def link_down_freed_def mbufq_drain_def)

lemma post_down_gone:
  fixes s :: "'c softc"
  assumes "winding 1 N M a s"
  shows "ends (post_link_down C) (\<lambda>fs s'. winding 1 N (held s') a s' \<and> held s' + ids fs = M) (\<lambda>_ _. False) s"
proof -
  have b: "keeps (soft_at k t l g) is_errno (rtw88_cam_clear_entry C sl)"
    "keeps (soft_at k t l g) is_errno (rtw88_h2c_media_status_report C v on)" for k t l g sl v on
    by (rule soft_bus, intro keeps_intros)+
  have loop: "keeps (winding 1 N M a) no_fault (forE (\<lambda>i. discard (rtw88_cam_clear_entry C (of_nat i))) xs)" for xs
    by (intro keeps_forE keeps_discard_all winding_soft b)
  have rest: "ends (seqE rtw88_fwka_stop
     (tryE (getS (link_down_freed \<circ> sc_tx)) (\<lambda>fs.
      seqE (upd_tx link_down_tx)
      (seqE (upd_link (\<lambda>l. l\<lparr>sc_cam_q := []\<rparr>))
      (seqE (updS (\<lambda>s. s\<lparr>sc_rx := (sc_rx s)\<lparr>sc_avg_rssi := 0, sc_avg_rssi_valid := False\<rparr>\<rparr>))
      (ret fs)))))) (\<lambda>fs s'. winding 1 N (held s') a s' \<and> held s' + ids fs = M) (\<lambda>_ _. False) s'" if "winding 1 N M a s'" for s' :: "'c softc"
    using that link_down_held [of "sc_tx s'"]
    by (auto simp: ends_simps rtw88_fwka_stop_def ends_assert upd_link_def upd_tx_def winding_def held_def
        parked_safe_def link_down_tx_def mbufq_drain_def)
  show ?thesis
    unfolding post_link_down_def ends_seqE [of "forE _ _"] ends_seqE [of "discard _"]
    by (rule ends_keeps [OF loop assms])
      (auto simp: no_fault_def simp del: One_nat_def intro!: winding_silent [OF b(1)] winding_silent [OF b(2)] rest)
qed

lemma post_gone:
  fixes d :: "'c softc rtw88_dev"
  assumes "away 0 N M a d"
  shows "ends (rtw88_post_state_task C ch wme) (\<lambda>(arms, fs) d'. \<not> arms \<and> away 0 N (held (priv d')) a d' \<and> held (priv d') + ids fs = M) E d"
proof -
  let ?Q = "\<lambda>(arms, fs) d'. \<not> arms \<and> away 0 N (held (priv d')) a d' \<and> held (priv d') + ids fs = M"
  let ?ops = "sc_post_state_ops (sc_link (priv d))"
  let ?w = "(priv d)\<lparr>mtx_depth := 1, sc_link := (sc_link (priv d))\<lparr>sc_post_state_ops := 0\<rparr>\<rparr>"
  have ops: "not_rising ?ops" and lps: "\<not> lps_in_lps (dev_lps d)" and depth: "mtx_depth (priv d) = 0"
    using assms by (simp_all add: away_def winding_def)
  have w: "winding 1 N M a ?w" using assms by (simp add: away_def winding_def not_rising_def held_def)
  have un: "ends (seqE (on_priv RTW88_UNLOCK) (ret r)) ?Q E d'"
    if "winding 1 N (held (priv d')) a (priv d')" "held (priv d') + ids (snd r) = M" "\<not> fst r" "dev_lps d' = dev_lps d" for d' :: "'c softc rtw88_dev" and r E
    using that lps by (auto simp: ends_simps ends_mutex away_def winding_def held_def split: prod.split)
  have un2: "winding 1 N (held s') a s' \<and> held s' + ids fs = M \<Longrightarrow> ends (seqE (on_priv RTW88_UNLOCK) (ret (False, fs))) ?Q E (d\<lparr>priv := s'\<rparr>)" for s' fs
    by (rule un) simp_all
  have link: "ends (post_link C ch wme ?ops b) (\<lambda>r. ends (seqE (on_priv RTW88_UNLOCK) (ret r)) ?Q E) E (d\<lparr>priv := s\<rparr>)"
    if "winding 1 N M a s" for s b
  proof (cases "?ops AND RTW88_POST_LINK_DOWN = 0")
    case True
    with ops have "?ops AND RTW88_POST_LINK_UP = 0" by (simp add: not_rising_def)
    moreover have "held s = M" using that by (simp add: winding_def)
    ultimately show ?thesis
      using True that un [of "d\<lparr>priv := s\<rparr>" "(False, [])" E] by (simp add: post_link_def ends_value)
  next
    case False
    then show ?thesis
      by (simp add: post_link_def ends_tryE ends_value ends_on_priv del: One_nat_def) (rule ends_conseq [OF post_down_gone [OF that]], erule un2, simp)
  qed
  have reg: "keeps (soft_at k t l g) is_errno (rtw88_usb_write1 C ad v)" for k t l g ad v by (rule soft_bus, intro keeps_intros)
  have bssid: "keeps (winding 1 N M a) no_fault (post_bssid C b)" for b
    unfolding post_bssid_def by (intro keeps_seqE keeps_forE keeps_discard_all winding_soft reg keeps_tryE keeps_getS)
  show ?thesis
    unfolding rtw88_post_state_task_def Let_def
    by (rule away_lock [OF assms], unfold ends_tryE [of "getS _"] ends_value ends_seqE [of "on_priv (upd_link _)"] ends_on_priv ends_upd_link
        ends_seqE [of "whenE _ _"] ends_whenE ends_tryE [of "post_link _ _ _ _ _"])
      (use w link [OF w] in \<open>auto simp: depth simp del: One_nat_def intro!: ends_keeps [OF bssid w] link simp: no_fault_def\<close>)
qed

subsection \<open>The callouts and the tasks\<close>

text \<open>
  \<open>leaving N M h q a A s\<close>: the packets \<open>M\<close> are held or freed, the resources \<open>h\<close> are held, no callout outside \<open>A\<close> is armed; \<open>q\<close> and \<open>a\<close> say whether the key task
  may be queued and the keep-alive may be active.
\<close>

definition leaving :: "'z tx_ops_scheme \<Rightarrow> nat multiset \<Rightarrow> kres set \<Rightarrow> bool \<Rightarrow> bool \<Rightarrow> callout set \<Rightarrow> 'c usb_softc \<Rightarrow> bool" where
  "leaving N M h q a A s \<longleftrightarrow> away 0 N (held (priv (at_dev s))) a (at_dev s) \<and> held (priv (at_dev s)) + ids (at_freed s) = M \<and>
     at_held s = h \<and> (at_cam_queued s \<longrightarrow> q) \<and> at_armed s \<subseteq> A"

lemma leaving_dev:
  "leaving N M h q a A s \<Longrightarrow> away 0 N (held (priv d)) a d \<Longrightarrow> held (priv d) + ids fs = held (priv (at_dev s)) \<Longrightarrow>
     leaving N M h q a A (s\<lparr>at_dev := d, at_freed := at_freed s @ fs\<rparr>)"
  by (auto simp: leaving_def ac_simps)

lemma leaving_same:
  "leaving N M h q a A s \<Longrightarrow> away 0 N (held (priv (at_dev s))) a d \<Longrightarrow> leaving N M h q a A (s\<lparr>at_dev := d\<rparr>)"
  by (auto simp: leaving_def away_def winding_def)

lemma leaving_away: "leaving N M h q a A s \<Longrightarrow> away 0 N (held (priv (at_dev s))) a (at_dev s)"
  by (simp add: leaving_def)

lemma leaving_tq [simp]: "leaving N M h q a A (s\<lparr>at_tq := ts\<rparr>) = leaving N M h q a A s"
  by (simp add: leaving_def)

lemma leaving_armed: "leaving N M h q a A s \<Longrightarrow> as \<subseteq> A \<Longrightarrow> leaving N M h q a A (s\<lparr>at_armed := as\<rparr>)"
  by (simp add: leaving_def)

lemma ends_on_sc: "ends (on_sc m) Q E s \<longleftrightarrow> ends m (\<lambda>v w. Q v (s\<lparr>at_dev := (at_dev s)\<lparr>priv := w\<rparr>\<rparr>))
    (\<lambda>e w. E e (s\<lparr>at_dev := (at_dev s)\<lparr>priv := w\<rparr>\<rparr>)) (priv (at_dev s))"
  by (simp add: on_sc_def ends_on_at ends_on_priv)

lemma winding_away: "leaving N M h q a A s \<Longrightarrow> winding 0 N (held (priv (at_dev s))) a w \<Longrightarrow> away 0 N (held (priv (at_dev s))) a ((at_dev s)\<lparr>priv := w\<rparr>)"
  by (simp add: leaving_def away_def)

text \<open>A task keeps all that, and leaves the queue without itself.\<close>

lemma run_post_leaving:
  assumes "leaving N M h q a A s"
  shows "ends (run_post C g) (\<lambda>_ s'. leaving N M h q a A s' \<and> at_tq s' = at_tq s) E s"
  unfolding run_post_def ends_tryE ends_value ends_on_at
  by (rule ends_conseq [OF post_gone [OF leaving_away [OF assms]]])
    (use leaving_dev [OF assms] assms in \<open>auto simp: ends_simps m_freem_def post_armed_def leaving_def\<close>)

lemma run_task_leaving:
  assumes "leaving N M h q a A s" "a \<Longrightarrow> FwkaCo \<in> A"
  shows "ends (run_task C g t) (\<lambda>_ s'. leaving N M h q a A s' \<and> at_tq s' = remove1 t (at_tq s)) E s"
proof -
  let ?s = "s\<lparr>at_tq := remove1 t (at_tq s)\<rparr>"
  have s: "leaving N M h q a A ?s" using assms(1) by simp
  have w: "winding 0 N (held (priv (at_dev ?s))) a (priv (at_dev ?s))" using leaving_away [OF s] by (simp add: away_def)
  have sc: "leaving N M h q a A (?s\<lparr>at_dev := (at_dev ?s)\<lparr>priv := v\<rparr>\<rparr>)" if "winding 0 N (held (priv (at_dev ?s))) a v" for v
    by (rule leaving_same [OF s winding_away [OF s that]])
  have arm: "at_armed s \<subseteq> A" using assms(1) by (simp add: leaving_def)
  let ?Q = "\<lambda>_ s'. leaving N M h q a A s' \<and> at_tq s' = remove1 t (at_tq s)"
  have dig: "ends (tryE (on_sc (rtw88_dig_task C)) (rearm DigCo)) ?Q E ?s"
    unfolding ends_tryE ends_on_sc
    by (rule ends_conseq [OF dig_gone [OF w]]) (use sc in \<open>auto simp: rearm_def ends_simps\<close>)
  have fwka: "ends (tryE (on_sc (rtw88_fwka_task C (gv_now g) (gv_hz g))) (rearm FwkaCo)) ?Q E ?s"
    unfolding ends_tryE ends_on_sc
    by (rule ends_conseq [OF fwka_gone [OF w]]) (use sc assms(2) arm in \<open>auto simp: rearm_def ends_simps intro!: leaving_armed\<close>)
  have prepare: "ends (on_at (rtw88_prepare_tx_task C)) ?Q E ?s"
    unfolding ends_on_at
    by (rule ends_conseq [OF prepare_gone [OF leaving_away [OF s]]]) (use leaving_same [OF s] in auto)
  have post: "ends (run_post C g) ?Q E ?s"
    by (rule ends_conseq [OF run_post_leaving [OF s]]) auto
  show ?thesis
    unfolding run_task_def ends_seqE [of "updS _"] ends_updS by (insert dig fwka prepare post, cases t) simp_all
qed

lemma keeps_run_task: "(a \<Longrightarrow> FwkaCo \<in> A) \<Longrightarrow> keeps (leaving N M h q a A) no_fault (run_task C g t)"
  by (rule ends_keepsI, rule ends_conseq [OF run_task_leaving [where E = "\<lambda>_ _. False"]], assumption) auto

lemma keeps_drain: "(a \<Longrightarrow> FwkaCo \<in> A) \<Longrightarrow> keeps (leaving N M h q a A) no_fault (taskqueue_drain C g t)"
  unfolding taskqueue_drain_def by (intro keeps_tryE keeps_getS keeps_if keeps_forE keeps_run_task keeps_ret) auto

lemma free_tasks_leaving:
  assumes "leaving N M h q a A s" "a \<Longrightarrow> FwkaCo \<in> A" "at_tq s = ts"
  shows "ends (forE (run_task C g) ts) (\<lambda>_ s'. leaving N M h q a A s' \<and> at_tq s' = []) E s"
  using assms(1,3)
proof (induction ts arbitrary: s)
  case (Cons t ts)
  show ?case
    unfolding forE.simps ends_seqE
    by (rule ends_conseq [OF run_task_leaving [OF Cons.prems(1) assms(2)]]) (use Cons in auto)
qed (simp add: ends_value)

lemma keeps_cam_drain: "keeps (leaving N M h q a A) no_fault (cam_drain C N)"
proof (rule ends_keepsI)
  fix s :: "'a usb_softc" assume s: "leaving N M h q a A s"
  have w: "winding 0 N (held (priv (at_dev s))) a (priv (at_dev s))" using leaving_away [OF s] by (simp add: away_def)
  show "ends (cam_drain C N) (\<lambda>_. leaving N M h q a A) (\<lambda>e s'. no_fault e \<and> leaving N M h q a A s') s"
    unfolding cam_drain_def ends_tryE ends_value ends_whenE ends_seqE ends_updS ends_on_sc usb_softc.simps
    using s by (auto intro!: ends_conseq [OF cam_gone [OF w]] simp: m_freem_def ends_updS leaving_def away_def windy_def ac_simps)
qed

lemma cam_drain_empty:
  assumes "leaving N M h q a A s"
  shows "ends (cam_drain C N) (\<lambda>_. leaving N M h False a A) E s"
proof -
  have w: "winding 0 N (held (priv (at_dev s))) a (priv (at_dev s))" using leaving_away [OF assms] by (simp add: away_def)
  show ?thesis
    unfolding cam_drain_def ends_tryE ends_value ends_whenE ends_seqE ends_updS ends_on_sc usb_softc.simps
    using assms by (auto intro!: ends_conseq [OF cam_gone [OF w]] simp: m_freem_def ends_updS leaving_def away_def windy_def ac_simps)
qed

lemma callout_drain_leaving:
  "leaving N M h q a A s \<Longrightarrow> ends (callout_drain g n co t) (\<lambda>_. leaving N M h q a (A - {co})) E s"
  by (auto simp: callout_drain_def ends_updS leaving_def)

subsection \<open>The stages of detach\<close>

definition owned :: "'c usb_softc \<Rightarrow> nat multiset" where
  "owned s = held (priv (at_dev s)) + ids (at_freed s)"

definition settled :: "'z tx_ops_scheme \<Rightarrow> 'c usb_softc \<Rightarrow> bool" where
  "settled N s \<longleftrightarrow> not_rising (sc_post_state_ops (sc_link (priv (at_dev s)))) \<and> parked_safe N (sc_tx (priv (at_dev s)))"

text \<open>
  What detach relies on of \<^verbatim>\<open>ieee80211_ifdetach\<close>: it calls the hooks of the driver only between their own calls, takes none of the resources, brings the interface down, so
  that no request to bring the link up is left, and hands over the packets \<open>M\<close>.
\<close>

definition ifdetach_ok :: "'z tx_ops_scheme \<Rightarrow> nat multiset \<Rightarrow> ('c usb_softc \<Rightarrow> 'c usb_softc) \<Rightarrow> bool" where
  "ifdetach_ok N M f \<longleftrightarrow> (\<forall>s. at_rest (at_dev s) \<longrightarrow> at_rest (at_dev (f s)) \<and> at_held (f s) = at_held s \<and> settled N (f s) \<and> owned (f s) = owned s + M)"

lemma users_leave:
  fixes s :: "'c usb_softc"
  assumes "attached s" "if sc_ic_attached s then ifdetach_ok N M (gv_ifdetach g) else settled N s"
  shows "ends (detach_users C g) (\<lambda>_ s'. at_rest (at_dev s') \<and> at_held s' = insert KXfers base_res \<and> settled N s' \<and>
     owned s' = owned s + (if sc_ic_attached s then M else {#})) E s"
proof -
  let ?s = "if sc_cdev s then s\<lparr>at_held := at_held s - {KCdev}, sc_cdev := False\<rparr> else s"
  let ?s2 = "?s\<lparr>at_dev := rtw88_led_detach (at_dev ?s)\<rparr>"
  have led: "at_rest (rtw88_led_detach d) = at_rest d" "priv (rtw88_led_detach d) = priv d" "dev_lps (rtw88_led_detach d) = dev_lps d"
    for d :: "'c softc rtw88_dev"
    by (simp_all add: rtw88_led_detach_def at_rest_def)
  have 2: "at_rest (at_dev ?s2)" "at_held ?s2 = res_of (sc_ic_attached s) False" "owned ?s2 = owned s" "sc_ic_attached ?s2 = sc_ic_attached s"
    "settled N ?s2 = settled N s"
    using assms(1) by (cases "sc_cdev s"; auto simp: attached_def led res_of_def owned_def settled_def)+
  have ps: "ends (on_at (rtw88_ps_detach (rtw88_usb_hci_ops C))) Q E ?s2 \<longleftrightarrow> Q () ?s2" for Q E
    using 2(1) by (simp add: ends_on_at rtw88_ps_detach_def ends_simps at_rest_def)
  have "ends (detach_users C g) Q E s \<longleftrightarrow> ends (on_at (rtw88_ps_detach (rtw88_usb_hci_ops C)))
     (\<lambda>_. ends (tryE (getS sc_ic_attached) (\<lambda>a. whenE a (seqE (updS (gv_ifdetach g)) (release KIc)))) Q E) E ?s2" for Q E
    using assms(1) unfolding detach_users_def ends_steps
    by (auto simp: ends_simps ends_release attached_def res_of_def)
  moreover have "ends (tryE (getS sc_ic_attached) (\<lambda>a. whenE a (seqE (updS (gv_ifdetach g)) (release KIc))))
      (\<lambda>_ s'. at_rest (at_dev s') \<and> at_held s' = insert KXfers base_res \<and> settled N s' \<and>
        owned s' = owned s + (if sc_ic_attached s then M else {#})) E s2"
    if "at_rest (at_dev s2)" "at_held s2 = res_of (sc_ic_attached s) False" "owned s2 = owned s" "sc_ic_attached s2 = sc_ic_attached s"
      "settled N s2 = settled N s" for s2
  proof (cases "sc_ic_attached s")
    case True
    with assms(2) that(1) have "at_rest (at_dev (gv_ifdetach g s2))" "at_held (gv_ifdetach g s2) = at_held s2" "settled N (gv_ifdetach g s2)"
      "owned (gv_ifdetach g s2) = owned s2 + M" by (simp_all add: ifdetach_ok_def)
    with True that show ?thesis
      by (simp add: ends_simps ends_release res_of_def) (auto simp: settled_def owned_def)
  qed (use that assms(2) in \<open>simp add: ends_simps res_of_def\<close>)
  ultimately show ?thesis unfolding ps using 2 by blast
qed

lemma tasks_leave:
  fixes s :: "'c usb_softc"
  assumes "at_rest (at_dev s)" "settled N s"
  shows "ends (detach_tasks C N g) (\<lambda>_. leaving N (owned s) (at_held s) True False {}) E s"
proof -
  let ?L = "leaving N (owned s) (at_held s) True"
  have dig: "ends (on_sc (seqE RTW88_LOCK (seqE (upd_dig (\<lambda>d. d\<lparr>sc_dig_active := False\<rparr>)) RTW88_UNLOCK))) (\<lambda>_. ?L True UNIV) E s"
    using assms by (simp add: ends_on_sc ends_simps ends_mutex at_rest_def settled_def upd_dig_def leaving_def away_def winding_def held_def owned_def)
  have fwka: "ends (on_sc (upd_link (\<lambda>l. l\<lparr>sc_fwka_active := False\<rparr>))) (\<lambda>_. ?L False A) E s'" if "?L True A s'" for A and s' :: "'c usb_softc"
    using that by (simp add: ends_on_sc ends_upd_link leaving_def away_def winding_def held_def)
  have m4: "ends (upd_tx_sc (\<lambda>t. t\<lparr>sc_m4_needs_encap := None\<rparr>)) (\<lambda>_. ?L a A) E s'" if "?L a A s'" for a A and s' :: "'c usb_softc"
    using that by (simp add: upd_tx_sc_def upd_sc_def ends_on_sc ends_updS leaving_def away_def winding_def held_def tx_held_def parked_safe_def)
  have task: "ends (taskqueue_drain C g t) (\<lambda>_. ?L a A) E s'" if "?L a A s'" "a \<Longrightarrow> FwkaCo \<in> A" for a A t and s' :: "'c usb_softc"
    by (rule ends_keeps [OF keeps_drain that(1)]) (use that(2) in \<open>auto simp: no_fault_def\<close>)
  have cam: "ends (cam_drain C N) (\<lambda>_. ?L a A) E s'" if "?L a A s'" for a A and s' :: "'c usb_softc"
    by (rule ends_keeps [OF keeps_cam_drain that]) (auto simp: no_fault_def)
  note co = callout_drain_leaving [where E = E]
  have two: "ends (steps [callout_drain g 2 FwkaCo FwkaTask, taskqueue_drain C g FwkaTask, callout_drain g 3 FwkaCo FwkaTask,
     taskqueue_drain C g PrepareTask, taskqueue_drain C g PostTask, cam_drain C N, upd_tx_sc (\<lambda>t. t\<lparr>sc_m4_needs_encap := None\<rparr>)])
     (\<lambda>_. ?L False {}) E s'" if "?L False {FwkaCo} s'" for s' :: "'c usb_softc"
    unfolding ends_steps
    by (rule ends_conseq [OF co [OF that]], rule ends_conseq [OF task], assumption, simp, rule ends_conseq [OF co], assumption,
        rule ends_conseq [OF task], assumption, simp, rule ends_conseq [OF task], assumption, simp, rule ends_conseq [OF cam], assumption,
        rule ends_conseq [OF m4], assumption) (simp_all add: insert_Diff_if)
  have co_only: "(UNIV - {DigCo}) - {DigCo} = {FwkaCo}" using callout.exhaust by auto
  show ?thesis
    unfolding detach_tasks_def ends_steps(2) [of "on_sc _"] ends_steps(2) [of "callout_drain _ 0 _ _"] ends_steps(2) [of "callout_drain _ 1 _ _"]
      ends_steps(2) [of "taskqueue_drain C g DigTask"]
    by (rule ends_conseq [OF dig], rule ends_conseq [OF co], assumption, rule ends_conseq [OF task], assumption, simp,
        rule ends_conseq [OF co], assumption, unfold co_only, rule ends_conseq [OF fwka], assumption, rule two)
qed

lemma all_freed: "ids (drained t) + ids (inflight t) = tx_held t"
  by (simp add: tx_held_def drained_def inflight_def opt_ids_def ac_simps split: option.split)

definition gone :: "nat multiset \<Rightarrow> 'c usb_softc \<Rightarrow> bool" where
  "gone M s \<longleftrightarrow> at_held s = {} \<and> at_armed s = {} \<and> at_tq s = [] \<and> \<not> at_cam_queued s \<and> at_rest (at_dev s) \<and>
     sc_fw (priv (at_dev s)) = None \<and> sc_tbl_blob (sc_phy (priv (at_dev s))) = None \<and> held (priv (at_dev s)) = {#} \<and> ids (at_freed s) = M"

lemma release_leaves:
  assumes "leaving N M (insert KXfers base_res) True False {} s"
  shows "ends (detach_release C N g) (\<lambda>_. gone M) E s"
proof -
  let ?L = "\<lambda>h. leaving N M h False False {}"
  have rest: "ends (steps [release_if KXfers, upd_sc rtw88_phy_release_tbl, upd_sc rtw88_fw_release, release_if KTxBuf, release_if KRxStage,
     drain_queues, free_inflight, release KCv, release KMtx]) (\<lambda>_. gone M) E s'"
    if "?L {KXfers, KMtx, KCv, KTxBuf, KRxStage} s' \<and> at_tq s' = []" for s'
  proof -
    let ?t = "sc_tx (priv (at_dev s'))"
    have fr: "inflight (drain_sc ?t) = inflight ?t" by (simp add: inflight_def drain_sc_def)
    have e: "tx_held ((drain_sc ?t)\<lparr>sc_tx_data_inflight := None, sc_tx_data_vo_inflight := None, sc_tx_mgmt_inflight := None\<rparr>) = {#}"
      by (simp add: tx_held_def drain_sc_def mbufq_drain_def)
    have m: "ids (at_freed s') + ids (drained ?t) + ids (inflight ?t) = M"
      using that all_freed [of ?t] by (auto simp: leaving_def held_def ac_simps)
    have h: "{KXfers, KMtx, KCv, KTxBuf, KRxStage} - {KXfers} - {KTxBuf} - {KRxStage} = {KCv, KMtx}" by auto
    show ?thesis
      using that e m unfolding ends_steps
      by (simp add: ends_simps release_if_def upd_sc_def upd_tx_sc_def ends_on_sc drain_queues_def free_inflight_def m_freem_def ends_release
          rtw88_phy_release_tbl_def rtw88_fw_release_def leaving_def away_def winding_def gone_def at_rest_def held_def fr h insert_Diff_if ac_simps)
  qed
  have tq: "ends (taskqueue_free C g) (\<lambda>_ s'. ?L {KXfers, KMtx, KCv, KTxBuf, KRxStage} s' \<and> at_tq s' = []) E s'"
    if "?L {KXfers, KMtx, KTq, KCv, KTxBuf, KRxStage} s'" for s'
    unfolding taskqueue_free_def ends_seqE ends_tryE ends_value
    by (rule ends_conseq [OF free_tasks_leaving [OF that]]) (auto simp: ends_release leaving_def)
  have camtq: "ends (release KCamTq) (\<lambda>_. ?L {KXfers, KMtx, KTq, KCv, KTxBuf, KRxStage}) E s'" if "?L (insert KXfers base_res) s'" for s'
    using that by (auto simp: ends_release leaving_def)
  show ?thesis
    unfolding detach_release_def ends_steps(2) [of "cam_drain _ _"] ends_steps(2) [of "release KCamTq"] ends_steps(2) [of "taskqueue_free _ _"]
    by (rule ends_conseq [OF cam_drain_empty [OF assms]], rule ends_conseq [OF camtq], assumption, rule ends_conseq [OF tq], assumption, erule rest)
qed

lemma detach_run:
  assumes "at_rest (at_dev s)" "sc_cdev s \<longrightarrow> sc_ic_attached s"
    and "at_held s = {KMtx, KTq, KCamTq, KCv, KTxBuf, KRxStage, KXfers} \<union> (if sc_ic_attached s then {KIc} else {}) \<union> (if sc_cdev s then {KCdev} else {})"
    and "if sc_ic_attached s then ifdetach_ok N M (gv_ifdetach g) else settled N s \<and> M = {#}"
    and "rtw88_usb_detach C N g s = (r, s')"
  shows "r = Inr () \<and> at_held s' = {} \<and> at_armed s' = {} \<and> at_tq s' = [] \<and> \<not> at_cam_queued s' \<and> mtx_depth (priv (at_dev s')) = 0 \<and>
    sc_fw (priv (at_dev s')) = None \<and> sc_tbl_blob (sc_phy (priv (at_dev s'))) = None \<and> held (priv (at_dev s')) = {#} \<and>
    ids (at_freed s') = held (priv (at_dev s)) + ids (at_freed s) + M"
proof -
  have a: "attached s" using assms(1-3) by (auto simp: attached_def res_of_def)
  have ok: "if sc_ic_attached s then ifdetach_ok N M (gv_ifdetach g) else settled N s" using assms(4) by simp
  have M: "(if sc_ic_attached s then M else {#}) = M" using assms(4) by simp
  have "ends (rtw88_usb_detach C N g) (\<lambda>_. gone (owned s + M)) (\<lambda>_ _. False) s"
    unfolding rtw88_usb_detach_def ends_seqE
    by (rule ends_conseq [OF users_leave [OF a ok, unfolded M]], rule ends_conseq [OF tasks_leave])
      (auto intro: ends_conseq [OF release_leaves])
  from endsD [OF this assms(5)] show ?thesis by (auto simp: gone_def owned_def at_rest_def split: sum.splits)
qed

text \<open>C3. Detach of an attached device in any state of use: callouts armed or about to fire, tasks queued in any order, frames queued, parked and in flight, and any
  answers of the device. It always returns: nothing can fail or panic, provided that net80211, as it takes the interface down, leaves no request
  to bring the link up and no parked EAPOL frame too short to read. Afterwards every resource is given back, no callout is armed and no task queued,
  both images are released, no packet is held, and every packet the driver had or got meanwhile has been freed exactly once.\<close>
theorem usb_detach_outcome:
  assumes "at_rest (at_dev s)" "sc_cdev s \<longrightarrow> sc_ic_attached s"
    and "at_held s = {KMtx, KTq, KCamTq, KCv, KTxBuf, KRxStage, KXfers} \<union> (if sc_ic_attached s then {KIc} else {}) \<union> (if sc_cdev s then {KCdev} else {})"
    and "if sc_ic_attached s then ifdetach_ok N M (gv_ifdetach g) else settled N s \<and> M = {#}"
    and "rtw88_usb_detach C N g s = (r, s')"
  shows "r = Inr () \<and> at_held s' = {} \<and> at_armed s' = {} \<and> at_tq s' = [] \<and> \<not> at_cam_queued s' \<and> mtx_depth (priv (at_dev s')) = 0 \<and>
    sc_fw (priv (at_dev s')) = None \<and> sc_tbl_blob (sc_phy (priv (at_dev s'))) = None \<and> held (priv (at_dev s')) = {#} \<and>
    ids (at_freed s') = held (priv (at_dev s)) + ids (at_freed s) + M"
  by (rule detach_run [OF assms])

text \<open>A device in use, and net80211 taking down its interface: the link goes down, and what waited for a key is freed.\<close>

definition in_use :: "unit usb_softc" where
  "in_use = (usb_softc_zero () True)\<lparr>
     at_dev := rtw88_dev_zero ((softc_zero () 0 True)\<lparr>sc_tx := tx_zero\<lparr>sc_tx_data_q := \<lparr>mq_list = [data_mbuf], mq_maxlen = 256\<rparr>\<rparr>\<rparr>),
     at_held := {KMtx, KTq, KCamTq, KCv, KTxBuf, KRxStage, KXfers, KIc, KCdev}, at_armed := {DigCo, FwkaCo}, at_tq := [PostTask, DigTask],
     at_cam_queued := True, sc_ic_attached := True, sc_cdev := True\<rparr>"

definition take_down :: "'c usb_softc \<Rightarrow> 'c usb_softc" where
  "take_down s = (let d = at_dev s; w = priv d; t = sc_tx w in
     s\<lparr>at_dev := d\<lparr>priv := w\<lparr>sc_link := (sc_link w)\<lparr>sc_post_state_ops := RTW88_POST_LINK_DOWN\<rparr>,
         sc_tx := t\<lparr>sc_tx_pending_q := mbufq_drain (sc_tx_pending_q t)\<rparr>\<rparr>\<rparr>,
       at_freed := at_freed s @ mq_list (sc_tx_pending_q t)\<rparr>)"

definition some_gone :: "unit usb_gone" where
  "some_gone = \<lparr>gv_fires = (\<lambda>n. n = 0), gv_ifdetach = take_down, gv_now = 0, gv_hz = 1000, gv_wme = (\<lambda>_. undefined)\<rparr>"

lemma take_down_ok: "ifdetach_ok N {#} take_down"
  by (auto simp: ifdetach_ok_def take_down_def Let_def at_rest_def settled_def not_rising_def parked_safe_def mbufq_drain_def owned_def
      held_def tx_held_def ac_simps)

theorem usb_detach_outcome_witness:
  "\<exists>s'. rtw88_usb_detach idle_ops plain_tx some_gone in_use = (Inr (), s') \<and> at_held s' = {} \<and> at_armed s' = {} \<and>
     ids (at_freed s') = {#m_id data_mbuf#}"
proof -
  obtain r s' where run: "rtw88_usb_detach idle_ops plain_tx some_gone in_use = (r, s')" by fastforce
  have s: "at_rest (at_dev in_use)" "sc_cdev in_use" "sc_ic_attached in_use" "at_freed in_use = []"
    "at_held in_use = {KMtx, KTq, KCamTq, KCv, KTxBuf, KRxStage, KXfers, KIc, KCdev}" "held (priv (at_dev in_use)) = {#m_id data_mbuf#}"
    by (simp_all add: in_use_def at_rest_def rtw88_dev_zero_def softc_zero_def usb_softc_zero_def held_def tx_held_def tx_zero_def mbufq_init_def)
  have g: "if sc_ic_attached in_use then ifdetach_ok plain_tx {#} (gv_ifdetach some_gone) else settled plain_tx in_use \<and> {#} = {#}"
    using take_down_ok s(3) by (simp add: some_gone_def)
  from usb_detach_outcome [OF s(1) _ _ g run] s(2-) run show ?thesis by auto
qed

end
