(* ===== verification/Rtw_Cycle.thy ===== *)
theory Rtw_Cycle
  imports Rtw_Gone
begin

section \<open>From attach to detach\<close>

text \<open>
  The device that attach leaves is one that detach takes apart: the two halves of the life of a device put together. Without an interface
  nothing has used the device in between, so that detach needs no promise of net80211.
\<close>

lemma unused_settled:
  assumes "unused s"
  shows "settled N s"
proof -
  from assms have "ids (mq_list (sc_tx_pending_q (sc_tx (priv (at_dev s))))) = {#}" by (simp add: unused_def held_def tx_held_def)
  then have "mq_list (sc_tx_pending_q (sc_tx (priv (at_dev s)))) = []" by (simp add: ids_def)
  with assms show ?thesis by (simp add: settled_def unused_def not_rising_def parked_safe_def)
qed

text \<open>C5. Whatever device, firmware, descriptors and tunables attach meets, and however far the bring-up gets: when attach has succeeded, a detach
  returns and gives back every resource that attach took, with no callout armed, no task queued, the mutex free, both images released
  and no packet held. If attach has made no interface, detach frees no packet, since none can have come; if it has made
  one, every packet that the driver held or that net80211 handed over while it went away is freed exactly once. Of net80211 this relies
  only on \<open>ifdetach_ok\<close>, and only when there is an interface.\<close>
theorem attach_then_detach:
  assumes "\<forall>img. ev_fw ev = Some img \<longrightarrow> length img < 2 ^ 32" "rtw88_usb_attach C ev (usb_softc_zero c k) = (Inr (), s1)"
    and "sc_ic_attached s1 \<longrightarrow> ifdetach_ok N M (gv_ifdetach g)" "rtw88_usb_detach C N g s1 = (r, s2)"
  shows "r = Inr () \<and> at_held s2 = {} \<and> at_armed s2 = {} \<and> at_tq s2 = [] \<and> \<not> at_cam_queued s2 \<and> mtx_depth (priv (at_dev s2)) = 0 \<and>
    sc_fw (priv (at_dev s2)) = None \<and> sc_tbl_blob (sc_phy (priv (at_dev s2))) = None \<and> held (priv (at_dev s2)) = {#} \<and>
    (if sc_ic_attached s1 then ids (at_freed s2) = held (priv (at_dev s1)) + ids (at_freed s1) + M else at_freed s2 = [])"
proof -
  note a = attach_run [OF assms(1,2)]
  have u: "\<not> sc_ic_attached s1 \<Longrightarrow> unused s1" using a by simp
  let ?M = "if sc_ic_attached s1 then M else {#}"
  have "if sc_ic_attached s1 then ifdetach_ok N ?M (gv_ifdetach g) else settled N s1 \<and> ?M = {#}"
    using assms(3) unused_settled [OF u, of N] by simp
  from detach_run [OF _ _ _ this assms(4)] a u show ?thesis by (auto simp: unused_def ids_def)
qed

theorem attach_then_detach_witness:
  "\<exists>s1 s2. rtw88_usb_attach idle_ops bare_env (usb_softc_zero () True) = (Inr (), s1) \<and> at_held s1 \<noteq> {} \<and>
     rtw88_usb_detach idle_ops plain_tx some_gone s1 = (Inr (), s2) \<and> at_held s2 = {} \<and> at_freed s2 = []"
proof -
  have fw: "\<forall>img. ev_fw bare_env = Some img \<longrightarrow> length img < 2 ^ 32" by (simp add: bare_env_def)
  obtain s1 where up: "rtw88_usb_attach idle_ops bare_env (usb_softc_zero () True) = (Inr (), s1)" "\<not> sc_ic_attached s1"
    using bare_attach by blast
  obtain r s2 where down: "rtw88_usb_detach idle_ops plain_tx some_gone s1 = (r, s2)" by fastforce
  have "at_held s1 \<noteq> {}" using attach_run [OF fw up(1)] by auto
  with attach_then_detach [OF fw up(1) _ down] up down show ?thesis by auto
qed

end
