(* ===== verification/Rtw_Show.thy ===== *)
theory Rtw_Show
  imports Rtw_Debug Rtw_Rx
begin

section \<open>What the driver shows\<close>

text \<open>
  The numbers and strings for people: the strings of the debug sysctls and their tree, the log of unknown firmware messages, and
  the radiotap headers. No other part of the driver reads them.
\<close>

subsection \<open>The debug sysctls\<close>

text \<open>
  The sysctls of \<^verbatim>\<open>rtw88_debug.c\<close> that print the state of a subsystem into a buffer on the stack, and the tree under
  \<^verbatim>\<open>dbg\<close>. \<open>snprintf\<close> cuts a string to the buffer; the lemmas show that it never has to.
\<close>

definition digit :: "nat \<Rightarrow> char" where
  "digit n = char_of (if n < 10 then 48 + n else 87 + n)"

text \<open>\<^verbatim>\<open>%u\<close>, \<^verbatim>\<open>%d\<close> of a truth value, and \<^verbatim>\<open>%0nx\<close> of a value that fits its digits.\<close>

fun show_u :: "nat \<Rightarrow> string" where
  "show_u n = (if n < 10 then [digit n] else show_u (n div 10) @ [digit (n mod 10)])"

declare show_u.simps [simp del]

definition show_b :: "bool \<Rightarrow> string" where
  "show_b b = (if b then ''1'' else ''0'')"

primrec show_x :: "nat \<Rightarrow> nat \<Rightarrow> string" where
  "show_x 0 n = []"
| "show_x (Suc k) n = show_x k (n div 16) @ [digit (n mod 16)]"

definition snprintf :: "nat \<Rightarrow> string \<Rightarrow> string" where
  "snprintf n s = take (n - 1) s"

definition coex_text :: "rtw88_coex_state \<Rightarrow> string" where
  "coex_text c = ''enabled='' @ show_b (cx_enabled c) @ '' bt_disabled='' @ show_b (cx_bt_disabled c) @
     '' tdma_case='' @ show_u (unat (cx_current_tdma_case c)) @
     '' last_bt_wifi=0x'' @ show_x 8 (unat (cx_last_bt_wifi_ctrl_payload c)) @ '' link_up_ct='' @ show_u (unat (cx_link_up_count c))"

definition rtw88_dbg_coex_state_sysctl :: "'w rtw88_dev \<Rightarrow> string" where
  "rtw88_dbg_coex_state_sysctl d = snprintf 128 (coex_text (dev_coex d))"

primrec lps_mode_number :: "rtw88_lps_mode \<Rightarrow> nat" where
  "lps_mode_number RTW88_LPS_MODE_ACTIVE = 0"
| "lps_mode_number RTW88_LPS_MODE_LEGACY = 1"
| "lps_mode_number RTW88_LPS_MODE_UAPSD = 2"
| "lps_mode_number RTW88_LPS_MODE_WMMPS = 3"

definition ps_text :: "rtw88_lps_state \<Rightarrow> string" where
  "ps_text l = ''mode='' @ show_u (lps_mode_number (lps_mode l)) @ '' in_lps='' @ show_b (lps_in_lps l) @ '' wow='' @ show_b (lps_wow l) @
     '' awake='' @ show_u (unat (lps_awake_interval l)) @ '' smart='' @ show_u (unat (lps_smart_ps l)) @ '' macid='' @ show_u (unat (lps_macid l))"

definition rtw88_dbg_ps_state_sysctl :: "'w rtw88_dev \<Rightarrow> string" where
  "rtw88_dbg_ps_state_sysctl d = snprintf 96 (ps_text (dev_lps d))"

definition bf_text :: "rtw88_bf_state \<Rightarrow> string" where
  "bf_text b = ''attached='' @ show_b (bf_attached b) @ '' su='' @ show_b (bf_su_active b) @ '' mu='' @ show_b (bf_mu_active b) @
     '' paid='' @ show_u (unat (bf_paid b)) @ '' gid='' @ show_u (unat (bf_gid b))"

definition rtw88_dbg_bf_state_sysctl :: "'w rtw88_dev \<Rightarrow> string" where
  "rtw88_dbg_bf_state_sysctl d = snprintf 96 (bf_text (dev_bf d))"

definition regd_text :: "rtw88_regd_state \<Rightarrow> string" where
  "regd_text g = ''country='' @ [rg_country g ! 0, rg_country g ! 1] @ '' regd_2g='' @ show_u (unat (rg_regd_2g g)) @
     '' regd_5g='' @ show_u (unat (rg_regd_5g g))"

definition rtw88_dbg_regd_state_sysctl :: "'w rtw88_dev \<Rightarrow> string" where
  "rtw88_dbg_regd_state_sysctl d = snprintf 64 (regd_text (dev_regd d))"

definition efuse_text :: "rtw88_efuse \<Rightarrow> string" where
  "efuse_text e = (let x = (\<lambda>i. show_x 2 (unat (at (ef_mac_addr e) i))) in
     ''valid='' @ show_b (ef_valid e) @ '' mac='' @ x 0 @ '':'' @ x 1 @ '':'' @ x 2 @ '':'' @ x 3 @ '':'' @ x 4 @ '':'' @ x 5 @
     '' xtal=0x'' @ show_x 2 (unat (ef_xtal_cap e)) @ '' rfe=0x'' @ show_x 2 (unat (ef_rfe_option e)) @
     '' pkg='' @ show_u (unat (ef_pkg_type e)) @ '' btcoex='' @ show_b (ef_btcoex e))"

definition rtw88_dbg_efuse_state_sysctl :: "'w rtw88_dev \<Rightarrow> string" where
  "rtw88_dbg_efuse_state_sysctl d = snprintf 160 (efuse_text (dev_efuse d))"

text \<open>The leaves in the order in which attach adds them; the counters come last, by their names.\<close>

primrec rtw88_debug_counter_names :: "rtw88_debug_counter \<Rightarrow> string" where
  "rtw88_debug_counter_names RTW88_DBG_CNT_COEX_LINK_UP = ''coex_link_up''"
| "rtw88_debug_counter_names RTW88_DBG_CNT_PS_ENTER = ''ps_enter''"
| "rtw88_debug_counter_names RTW88_DBG_CNT_PS_LEAVE = ''ps_leave''"
| "rtw88_debug_counter_names RTW88_DBG_CNT_BF_ASSOC = ''bf_assoc''"
| "rtw88_debug_counter_names RTW88_DBG_CNT_REGD_CHANGE = ''regd_change''"
| "rtw88_debug_counter_names RTW88_DBG_CNT_H2C_TX = ''h2c_tx''"
| "rtw88_debug_counter_names RTW88_DBG_CNT_C2H_RX = ''c2h_rx''"

datatype 'w dbg_leaf = DbgMacAddr | DbgMacVal | DbgString "'w rtw88_dev \<Rightarrow> string" | DbgCounter "'w rtw88_dev \<Rightarrow> u64"

definition debug_tree :: "(string \<times> 'w dbg_leaf) list" where
  "debug_tree = [(''mac_addr'', DbgMacAddr), (''mac_val'', DbgMacVal), (''coex'', DbgString rtw88_dbg_coex_state_sysctl),
     (''ps'', DbgString rtw88_dbg_ps_state_sysctl), (''bf'', DbgString rtw88_dbg_bf_state_sysctl),
     (''regd'', DbgString rtw88_dbg_regd_state_sysctl), (''efuse'', DbgString rtw88_dbg_efuse_state_sysctl)] @
     map (\<lambda>c. (rtw88_debug_counter_names c, DbgCounter (\<lambda>d. dbg_counters d c)))
       [RTW88_DBG_CNT_COEX_LINK_UP, RTW88_DBG_CNT_PS_ENTER, RTW88_DBG_CNT_PS_LEAVE, RTW88_DBG_CNT_BF_ASSOC,
        RTW88_DBG_CNT_REGD_CHANGE, RTW88_DBG_CNT_H2C_TX, RTW88_DBG_CNT_C2H_RX]"

text \<open>Without a tree or a context, or without memory for the node, the address of the window stays as it was or is reset.\<close>

definition rtw88_debug_attach :: "bool \<Rightarrow> bool \<Rightarrow> rtw88_dbg_reg_slot \<Rightarrow> (errno + (string \<times> 'w dbg_leaf) list) \<times> rtw88_dbg_reg_slot" where
  "rtw88_debug_attach parent node slot =
     (if \<not> parent then (Inl EINVAL, slot)
      else if \<not> node then (Inl ENOMEM, rtw88_debug_attach_slot)
      else (Inr debug_tree, rtw88_debug_attach_slot))"

subsection \<open>The buffers are large enough\<close>

lemma show_u_length: "n < 10 ^ Suc k \<Longrightarrow> length (show_u n) \<le> Suc k"
proof (induction k arbitrary: n)
  case 0
  then show ?case by (simp add: show_u.simps)
next
  case (Suc k)
  then show ?case
    by (subst show_u.simps) (auto intro: Suc.IH simp: less_mult_imp_div_less ac_simps)
qed

lemma show_x_length [simp]: "length (show_x k n) = k"
  by (induction k arbitrary: n) simp_all

lemma show_b_length [simp]: "length (show_b b) = 1"
  by (simp add: show_b_def)

lemma show_u8: "length (show_u (unat (v :: u8))) \<le> 3"
  using unsigned_less [of v, where 'a = nat] by (intro show_u_length [of _ 2, simplified]) simp

lemma show_u16: "length (show_u (unat (v :: u16))) \<le> 5"
  using unsigned_less [of v, where 'a = nat] by (intro show_u_length [of _ 4, simplified]) simp

lemma show_u32: "length (show_u (unat (v :: u32))) \<le> 10"
  using unsigned_less [of v, where 'a = nat] by (intro show_u_length [of _ 9, simplified]) simp

lemma lps_mode_length: "length (show_u (lps_mode_number m)) = 1"
  by (cases m) (simp_all add: show_u.simps)

text \<open>No debug string is ever cut: each buffer holds the longest text of its state and the terminating NUL.\<close>

theorem debug_strings_fit:
  "rtw88_dbg_coex_state_sysctl d = coex_text (dev_coex d) \<and> rtw88_dbg_ps_state_sysctl d = ps_text (dev_lps d) \<and>
   rtw88_dbg_bf_state_sysctl d = bf_text (dev_bf d) \<and> rtw88_dbg_regd_state_sysctl d = regd_text (dev_regd d) \<and>
   rtw88_dbg_efuse_state_sysctl d = efuse_text (dev_efuse d)"
proof -
  have "length (coex_text c) < 128" for c
    using show_u8 [of "cx_current_tdma_case c"] show_u32 [of "cx_link_up_count c"] by (simp add: coex_text_def)
  moreover have "length (ps_text l) < 96" for l
    using show_u8 [of "lps_awake_interval l"] show_u8 [of "lps_smart_ps l"] show_u8 [of "lps_macid l"] by (simp add: ps_text_def lps_mode_length)
  moreover have "length (bf_text b) < 96" for b
    using show_u16 [of "bf_paid b"] show_u16 [of "bf_gid b"] by (simp add: bf_text_def)
  moreover have "length (regd_text g) < 64" for g
    using show_u8 [of "rg_regd_2g g"] show_u8 [of "rg_regd_5g g"] by (simp add: regd_text_def)
  moreover have "length (efuse_text e) < 160" for e
    using show_u8 [of "ef_pkg_type e"] by (simp add: efuse_text_def Let_def)
  ultimately show ?thesis
    by (simp add: rtw88_dbg_coex_state_sysctl_def rtw88_dbg_ps_state_sysctl_def rtw88_dbg_bf_state_sysctl_def
        rtw88_dbg_regd_state_sysctl_def rtw88_dbg_efuse_state_sysctl_def snprintf_def less_Suc_eq_le [symmetric])
qed

text \<open>The names of the leaves are distinct, and every counter of the subsystems has one.\<close>

lemma debug_tree_names:
  "distinct (map fst (debug_tree :: (string \<times> 'w dbg_leaf) list))"
  "(rtw88_debug_counter_names c, DbgCounter (\<lambda>d. dbg_counters d c)) \<in> set debug_tree"
  by (simp add: debug_tree_def) (cases c; simp add: debug_tree_def)

subsection \<open>The log of unknown firmware messages\<close>

text \<open>
  \<^verbatim>\<open>rtw88_c2h_log_unknown\<close> prints an unknown message once: two maps of 256 bits, in four words each, remember the commands and
  the sub-commands of HALMAC that were seen. The sub-command 0xff stands for "none".
\<close>

record c2h_seen =
  seen_top :: "u64 list"
  seen_halmac :: "u64 list"

definition c2h_seen_zero :: c2h_seen where
  "c2h_seen_zero = \<lparr>seen_top = replicate 4 0, seen_halmac = replicate 4 0\<rparr>"

datatype c2h_line = FirstCmd u8 | FirstHalmac u8

definition map_word :: "u8 \<Rightarrow> nat" where
  "map_word v = unat (drop_bit 6 v)"

definition map_bit :: "u8 \<Rightarrow> u64" where
  "map_bit v = push_bit (unat (v AND 0x3f)) 1"

definition rtw88_c2h_log_unknown :: "u8 \<Rightarrow> u8 \<Rightarrow> c2h_seen \<Rightarrow> c2h_line option \<times> c2h_seen" where
  "rtw88_c2h_log_unknown cid sub s =
     (if sub = 0xff
      then let i = map_word cid; w = seen_top s ! i in
        if w AND map_bit cid = 0 then (Some (FirstCmd cid), s\<lparr>seen_top := (seen_top s)[i := w OR map_bit cid]\<rparr>) else (None, s)
      else let i = map_word sub; w = seen_halmac s ! i in
        if w AND map_bit sub = 0 then (Some (FirstHalmac sub), s\<lparr>seen_halmac := (seen_halmac s)[i := w OR map_bit sub]\<rparr>) else (None, s))"

definition map_mem :: "u64 list \<Rightarrow> u8 \<Rightarrow> bool" where
  "map_mem ws v \<longleftrightarrow> bit (ws ! map_word v) (unat (v AND 0x3f))"

lemma map_place: "map_word v = unat v div 64" "unat (v AND 0x3f) = unat v mod 64" for v :: u8
proof -
  show "map_word v = unat v div 64" unfolding map_word_def by (subst unat_drop_bit_eq) (simp add: drop_bit_eq_div)
  have "v AND 0x3f = take_bit 6 v" by (simp add: take_bit_eq_mask mask_eq_exp_minus_1)
  then show "unat (v AND 0x3f) = unat v mod 64" by (simp add: take_bit_eq_mod unat_mod)
qed

lemma map_word_less: "map_word v < 4"
  using unsigned_less [of v, where 'a = nat] by (simp add: map_place)

lemma map_place_inj: "map_word v = map_word w \<Longrightarrow> unat v mod 64 = unat w mod 64 \<Longrightarrow> v = w" for v w :: u8
  unfolding map_place by (metis div_mult_mod_eq word_unat_eq_iff)

lemma map_bit_mem: "w AND map_bit v = 0 \<longleftrightarrow> \<not> bit w (unat v mod 64)"
  unfolding map_bit_def map_place push_bit_of_1 by (rule and_exp_eq_0_iff_not_bit)

lemma map_mem_insert:
  assumes "length ws = 4"
  shows "map_mem (ws[map_word v := ws ! map_word v OR map_bit v]) u \<longleftrightarrow> map_mem ws u \<or> u = v"
  using assms map_word_less [of v] map_place_inj [of u v]
  by (auto simp: map_mem_def map_place(2) map_bit_def push_bit_of_1 nth_list_update bit_simps)

text \<open>Each command and each sub-command is printed the first time only; the sub-command 0xff is taken for a command.\<close>

theorem unknown_logged_once:
  assumes "length (seen_top s) = 4" "length (seen_halmac s) = 4" "rtw88_c2h_log_unknown cid sub s = (l, s')"
  shows "if sub = 0xff
    then l = (if map_mem (seen_top s) cid then None else Some (FirstCmd cid)) \<and> seen_halmac s' = seen_halmac s \<and>
      length (seen_top s') = 4 \<and> (\<forall>u. map_mem (seen_top s') u \<longleftrightarrow> map_mem (seen_top s) u \<or> u = cid)
    else l = (if map_mem (seen_halmac s) sub then None else Some (FirstHalmac sub)) \<and> seen_top s' = seen_top s \<and>
      length (seen_halmac s') = 4 \<and> (\<forall>u. map_mem (seen_halmac s') u \<longleftrightarrow> map_mem (seen_halmac s) u \<or> u = sub)"
  using assms
  by (auto simp: rtw88_c2h_log_unknown_def Let_def map_bit_mem map_mem_insert split: if_splits)
    (auto simp: map_mem_def map_place(2))

subsection \<open>Radiotap\<close>

text \<open>
  What a listener of the raw frames gets beside a frame: the headers the driver fills when there is one. The current channel is
  that of net80211, if it has one: its frequency and its flags, of which the header has the low half.
\<close>

record rtw88_rx_radiotap_header =
  wr_tsft :: u64
  wr_flags :: u8
  wr_rate :: u8
  wr_chan_freq :: u16
  wr_chan_flags :: u16
  wr_dbm_antsignal :: u8
  wr_dbm_antnoise :: u8

record rtw88_tx_radiotap_header =
  wt_flags :: u8
  wt_chan_freq :: u16
  wt_chan_flags :: u16

definition tap_freq :: "(u16 \<times> u32) option \<Rightarrow> u16" where
  "tap_freq c = (case c of None \<Rightarrow> 0 | Some (freq, flags) \<Rightarrow> freq)"

definition tap_flags :: "(u16 \<times> u32) option \<Rightarrow> u16" where
  "tap_flags c = (case c of None \<Rightarrow> 0 | Some (freq, flags) \<Rightarrow> ucast flags)"

definition rate500k :: "u8 list" where
  "rate500k = [2, 4, 11, 22, 12, 18, 24, 36, 48, 72, 96, 108]"

definition rx_radiotap :: "(u16 \<times> u32) option \<Rightarrow> rtw88_rx_stat \<Rightarrow> rtw88_rx_radiotap_header" where
  "rx_radiotap c st = \<lparr>wr_tsft = ucast (st_tsf_low st), wr_flags = 0,
     wr_rate = (if st_rate st \<le> RTW88_DESC_RATE_OFDM_MAX then rate500k ! unat (st_rate st) else 0),
     wr_chan_freq = tap_freq c, wr_chan_flags = tap_flags c, wr_dbm_antsignal = st_signal_dbm st, wr_dbm_antnoise = - 96\<rparr>"

definition tx_radiotap :: "(u16 \<times> u32) option \<Rightarrow> rtw88_tx_radiotap_header" where
  "tx_radiotap c = \<lparr>wt_flags = 0, wt_chan_freq = tap_freq c, wt_chan_flags = tap_flags c\<rparr>"

text \<open>The table covers the rates it is asked for; within CCK and within OFDM a higher index is a higher rate.\<close>

lemma rate500k_covers: "r \<le> RTW88_DESC_RATE_OFDM_MAX \<Longrightarrow> unat (r :: u8) < length rate500k"
  by (simp add: rate500k_def word_le_nat_alt)

lemma rate500k_classes: "sorted (take 4 rate500k)" "sorted (drop 4 rate500k)" "distinct rate500k"
  by (simp_all add: rate500k_def)

end
