(* ===== verification/Spec2Isabelle.thy ===== *)
theory Spec2Isabelle
  imports Rtw_Ep0_Lock Rtw_Pci Rtw_Cycle Rtw_Show
begin

text \<open>
  \<^bold>\<open>The rtw88 driver for FreeBSD.\<close> A verification library for the driver under \<^verbatim>\<open>src/sys/dev/rtw88\<close>: a network driver for Realtek
  802.11ac adapters, of which the RTL8821CU on USB is complete and the PCI front-end is a skeleton that shares the chip-independent parts.

  \<^bold>\<open>The program and its parts.\<close> \<^verbatim>\<open>if_rtw88_usb.c\<close> is the driver proper. At the bottom it reads and writes the registers of the chip by vendor
  requests on the control pipe EP0, one at a time and each followed by a second request for some addresses, all under \<^verbatim>\<open>sc_mtx\<close> and the flag
  \<^verbatim>\<open>sc_io_busy\<close>. On top of these are the H2C mailbox (four boxes for commands to the firmware), the bulk pipes (one in, three out), the power
  sequencer, the firmware loader, the set-up of MAC and PHY, the channel switch, the receive path, the transmit path with its queues, the key memory,
  the tasks (gain loop, keep-alive, link state, keys) and the hooks that net80211 calls. The subsystems \<^verbatim>\<open>rtw88_coex.c\<close>, \<^verbatim>\<open>rtw88_ps.c\<close>, \<^verbatim>\<open>rtw88_bf.c\<close>,
  \<^verbatim>\<open>rtw88_led.c\<close>, \<^verbatim>\<open>rtw88_regd.c\<close>, \<^verbatim>\<open>rtw88_efuse.c\<close> and \<^verbatim>\<open>rtw88_debug.c\<close> reach the chip only through the function table of \<^verbatim>\<open>rtw88.h\<close>, which
  \<^verbatim>\<open>if_rtw88_usb.c\<close> and \<^verbatim>\<open>if_rtw88_pci.c\<close> implement. \<^verbatim>\<open>rtw88_regs.h\<close>, \<^verbatim>\<open>rtw88_8821c_*.h\<close> are data.

  \<^bold>\<open>How it is modelled.\<close> A C function that returns an error code and changes state is a function
  \<open>'s \<Rightarrow> (fault + 'a) \<times> 's\<close> (\<open>cm\<close>): a fault is an error code, a panic of the kernel or a wait without end. \<^verbatim>\<open>if (error) return error\<close> is \<open>tryE\<close> and
  \<open>seqE\<close>; code that looks at an error code uses \<open>attempt\<close>, code that throws it away \<open>discard\<close>, and neither survives a panic. Integers have their
  width (\<^verbatim>\<open>uint8_t\<close> is \<open>u8\<close>, and so on), so that they wrap as in C; reading an array outside its bounds is a panic where the code could do it.

  The state is split as the code uses it. \<open>hw\<close> has what the register layer needs; the record \<open>softc\<close> extends it with the rest of \<^verbatim>\<open>struct rtw88_usb_softc\<close>,
  grouped into records by the part that owns the fields (\<open>phy_softc\<close>, \<open>dig_softc\<close>, \<open>rx_softc\<close>, \<open>tx_softc\<close>, \<open>link_softc\<close>); \<open>rtw88_dev\<close> is the
  handle of the shared core, with the softc as its \<open>priv\<close>; \<open>usb_softc\<close> adds, for attach and detach, the resources of the kernel that are
  held, the callouts that are armed and the tasks that are queued. Two fields are history only, the requests made on EP0 (\<open>ep0_log\<close>) and on the bulk pipes
  (\<open>bulk_log\<close>): the code never reads them, the theorems speak about them.

  What is not under \<^verbatim>\<open>src\<close> is an argument. \<open>chip_ops\<close> is the device: how it answers a read, a write and a bulk transfer, with a state of its own; most
  theorems hold for every such device, so for one that fails at any point. \<open>pci_space\<close> is \<^verbatim>\<open>bus_space\<close>; \<open>net_ops\<close> and \<open>tx_ops\<close> are what
  the data paths ask of net80211 and of the mbuf allocator (header sizes, software encryption, whether memory is available); \<open>usb_env\<close> is what attach finds (descriptors,
  images, tunables, which allocations succeed), \<open>usb_gone\<close> what happens during detach (which callouts fire first, what net80211 does while it takes
  its interfaces down). The field \<open>invariants\<close> says whether the kernel checks its assertions (\<^verbatim>\<open>INVARIANTS\<close>): with it a recursive lock or a missing lock
  is a panic, without it the code runs on. mbufs are byte strings with an identity, an mbuf queue is a list with its limit.

  \<^bold>\<open>The theories.\<close>
  \<^item> \<open>Rtw_Prelude\<close>: integers, errors, the functions \<open>cm\<close>, bounded polling, little-endian bytes, and \<open>keeps I F m\<close>: \<open>m\<close> preserves \<open>I\<close> and has only
    faults in \<open>F\<close>. \<open>Rtw_Wp\<close>: \<open>ends m Q E s\<close>, how a run from \<open>s\<close> ends; its equations compute the condition step by step. \<open>Rtw_Regs\<close>, \<open>Rtw_Consts\<close>,
    \<open>Rtw_Fifo\<close>, \<open>Rtw_Phy_Data\<close>: the macros of \<^verbatim>\<open>rtw88_regs.h\<close> and \<^verbatim>\<open>if_rtw88_usb.c\<close> and two tables of the vendor.
  \<^item> \<open>Rtw_Usb\<close>: \<^verbatim>\<open>rtw88_usb_read_region\<close>, \<^verbatim>\<open>rtw88_usb_write_region\<close>, \<^verbatim>\<open>rtw88_usb_reg_sec\<close>, \<^verbatim>\<open>rtw88_h2c_mailbox\<close> and what is built on them. Lemmas: the exact
    traffic of every call on every branch. \<open>Rtw_Ep0_Lock\<close>: the same accessors as steps of threads, for what happens while the kernel drops
    \<^verbatim>\<open>sc_mtx\<close>; lemmas: invariants of the reachable states (mutual exclusion, the second request follows at once, no lost wake-up).
  \<^item> \<open>Rtw_Hci\<close>: the function table, the device handle, the chip description, and the interfaces: \<open>hci_bus\<close> (every operation keeps the lock and fails only with
    error codes), \<open>hci_regs\<close> (and reads return what was written), \<open>hci_answers\<close> (and nothing fails). \<open>Rtw_Hci_Usb\<close> and \<open>Rtw_Pci\<close> give the two tables and interpret
    the interfaces on them, so that a lemma about a subsystem holds on either bus.
  \<^item> \<open>Rtw_Coex\<close>, \<open>Rtw_Ps\<close>, \<open>Rtw_Bf\<close>, \<open>Rtw_Led\<close>, \<open>Rtw_Regd\<close>, \<open>Rtw_Efuse\<close>, \<open>Rtw_Debug\<close>: the subsystems of the same names, one C file each.
  \<^item> \<open>Rtw_Power\<close> (\<^verbatim>\<open>rtw88_8821c_power.h\<close> and the sequencer), \<open>Rtw_Softc\<close> (the softc and its zero), \<open>Rtw_Fw\<close> (synchronous bulk transfers and the loader),
    \<open>Rtw_H2c\<close> (commands and reserved pages), \<open>Rtw_Rf\<close> (radio, calibration, channel switch), \<open>Rtw_Mac\<close> (MAC set-up), \<open>Rtw_Tables\<close> (conditional tables and the
    table blob), \<open>Rtw_Phy\<close> (PHY set-up), \<open>Rtw_Dig\<close> (gain loop, keep-alive, watchdog, scan hooks). Lemmas: what each leaves for every device and outcome; the
    sequencer refines an abstract program, the tables a list of choices.
  \<^item> \<open>Rtw_Rx\<close> (from a transfer to the frames for net80211), \<open>Rtw_Tx\<close> (from a frame to its bytes), \<open>Rtw_Bulk\<close> (descriptors, queues and callbacks),
    \<open>Rtw_Cam\<close> (key memory and key task), \<open>Rtw_Own\<close> (every packet is accounted for), \<open>Rtw_Link\<close> (state changes, their task, channels, interfaces).
  \<^item> \<open>Rtw_Control\<close> (sysctls, character device), \<open>Rtw_Show\<close> (what is printed), \<open>Rtw_Attach\<close> (match, attach, tasks and callouts, detach), \<open>Rtw_Life\<close>, \<open>Rtw_Gone\<close> and
    \<open>Rtw_Cycle\<close> (the guarantees of attach, of detach, and of one after the other).

  \<^bold>\<open>The properties.\<close> C1 to C5 are about the life of a link and of a device, across most of the components. C6 to C8 follow the packets and the keys.
  C9 to C11 are about threads. C12 to C20 are about the pipes and the register layer; C21 to C34 about the decoders and the bring-up of the chip;
  C35 to C40 about the subsystems. Where the code has a defect, the theorem states what the code does (C17: a short EAPOL frame panics the observer; C20: on any bus with a management
  frame in flight, a command staged before the frame completes is reported as sent and never is; C35: the arbiter set-up with \<^verbatim>\<open>INVARIANTS\<close>; C37: the gain after a scan). A
  hypothesis about the world outside is named where it is used: the interfaces above, \<open>ifdetach_ok\<close> for net80211 during detach, \<open>fw_ready\<close> for the state the
  loader starts from, that an image is smaller than 4 GiB, \<open>quiet_air\<close> for a chip that counts few false alarms, and in C8 that the key operation is alone
  in its queue, that the parked mbufs are different ones and that each satisfies \<open>eapol_safe\<close> (the observer does not panic on it: C12 and C17 say when it does).
  Where a result depends on what the chip answers, the answers are followed in the statement: \<open>hmetfr_answer\<close> for the polls of the mailbox (C14), the acceptance of each write
  there, the first failing step of the MAC bring-up (\<open>mac_init_six\<close>, C33).

  \<^bold>\<open>Bounds and fuel.\<close> Every loop of the driver that polls has a limit in the code, which is the argument of \<open>pollE\<close> (30 for the mailbox, 16 for the key memory,
  and so on): no fuel is added. The loops over data end because the data shrinks, with termination proved (\<open>fw_segment_loop\<close>, \<open>rx_packets\<close>, \<open>replay_from\<close>).
  The decoder of the EFUSE, whose end is not obvious, is a \<open>partial_function\<close>, and C24 proves that it ends on every input.

  \<^bold>\<open>Simplifications.\<close> A function runs without interruption from one wait to the next, and waits are not interleaved with other threads, except in
  \<open>Rtw_Ep0_Lock\<close>: the register access that drops the mutex, the pauses, and the receive path giving up the lock while net80211 takes a
  frame are single steps elsewhere. Delays take no time. A callout that is armed and a task that is queued are results of the function that does it, and
  elements of the state in \<open>Rtw_Attach\<close>, where the drains of detach run them in every order the kernel may choose. C6 covers the two data pipes; on the
  management pipe the account fails when a synchronous transfer comes between, which is C20.

  \<^bold>\<open>Not modelled.\<close> Log lines, the traces that \<^verbatim>\<open>rx_trace\<close> and the like turn on, and the hex dump of EAPOL frames: pure output. Method tables, module
  declarations, open and close of the character device, the empty hooks \<^verbatim>\<open>rtw88_newassoc\<close> and \<^verbatim>\<open>rtw88_update_mcast\<close>, the release of an interface's memory,
  the sysctl nodes that show constants of the chip, and of the PCI front-end its sysctls and empty interrupt handler: they hold no logic of the
  driver. Macros of \<^verbatim>\<open>rtw88_regs.h\<close> that no code uses. The firmware and table images, their generated modules under \<^verbatim>\<open>src/sys/modules\<close> and the build files: the
  images are arguments. What the firmware and the chip do by themselves is unknown and covered by the arbitrary \<open>chip_ops\<close>.
\<close>

end
